(* ===== verification/PS2_Prelude.thy ===== *)
theory PS2_Prelude
  imports Main "HOL-Library.Word" "HOL-Library.Monad_Syntax"
begin

text \<open>
  Shared vocabulary of the development: the machine integers of the driver sources, the
  fact collections the component theories fill and use, and generic lemmas on words, lists and
  the option monad. A C++ operation that talks to the hardware is a function from a state to an
  option of a result and a new state; None says that the operation is still waiting for the
  hardware when the recorded input ends.
\<close>

unbundle bit_operations_syntax

type_synonym u8 = "8 word"
type_synonym u16 = "16 word"
type_synonym u32 = "32 word"
type_synonym u64 = "64 word"

named_theorems ctl_frame \<open>an operation leaves a field of the controller state alone\<close>
named_theorems ctl_inv \<open>an operation keeps a controller invariant\<close>
named_theorems op_defs \<open>definitions of the non-recursive operations\<close>

section \<open>C conditions and integer conversions\<close>

definition bits_set :: "u8 \<Rightarrow> u8 \<Rightarrow> bool" where
  "bits_set x m \<longleftrightarrow> x AND m \<noteq> 0"

lemma bits_set_0 [simp]: "\<not> bits_set 0 m" "\<not> bits_set x 0"
  by (simp_all add: bits_set_def)

lemma bits_set_self: "m \<noteq> 0 \<Longrightarrow> bits_set m m"
  by (simp add: bits_set_def)

section \<open>Bits of machine words\<close>

lemma u16_less_4096:
  assumes "\<And>n. bit (w :: u16) n \<Longrightarrow> n < 12"
  shows "w < 0x1000"
proof -
  have "take_bit 12 w = w"
    by (rule bit_eqI) (use assms in \<open>auto simp: bit_take_bit_iff\<close>)
  then have "unat w = take_bit 12 (unat w)" by (metis unsigned_take_bit_eq)
  also have "\<dots> < 2 ^ 12" by (rule take_bit_nat_less_exp)
  finally show ?thesis by (simp add: word_less_nat_alt)
qed

lemma bit_u8_bound: "bit (b :: u8) n \<Longrightarrow> n < 8"
  using bit_imp_le_length [of b n] by simp

lemma low_nibble: "0x0f AND (a :: u8) = take_bit 4 a"
  by (simp add: take_bit_eq_mask mask_eq_exp_minus_1 and.commute)

lemma unat_of_nat_u8: "n < 256 \<Longrightarrow> unat (of_nat n :: u8) = n"
  by (simp add: unsigned_of_nat take_bit_nat_eq_self)

text \<open>A statement about a byte is checked on its 256 values.\<close>

lemma byte_cases:
  assumes "\<forall>n \<in> set [0..<256]. P (word_of_nat n :: u8)"
  shows "P b"
proof -
  have "unat b < 2 ^ LENGTH(8)" by (rule unsigned_less)
  then have "unat b \<in> set [0..<256]" by simp
  with assms have "P (word_of_nat (unat b))" by blast
  then show ?thesis by simp
qed

section \<open>Option monad\<close>

lemma bind_SomeE [elim!]:
  assumes "Option.bind m f = Some y"
  obtains x where "m = Some x" "f x = Some y"
  using assms by (cases m) auto

lemma bind_None_iff: "Option.bind m f = None \<longleftrightarrow> m = None \<or> (\<exists>x. m = Some x \<and> f x = None)"
  by (cases m) auto

section \<open>Lists\<close>

lemma remove1_distinct_set: "distinct xs \<Longrightarrow> set (remove1 x xs) = set xs - {x}"
  by (simp add: set_remove1_eq)

lemma nth_list_update_case: "i < length xs \<Longrightarrow> xs[i := v] ! j = (if i = j then v else xs ! j)"
  by (simp add: nth_list_update)

end
