(* ===== verification/PS2_Protocol.thy ===== *)
theory PS2_Protocol
  imports PS2_Prelude
begin

text \<open>
  The protocol vocabulary of ApplePS2Controller/ApplePS2Device.h and of the definitions at the
  head of ApplePS2Controller/ApplePS2Controller.h: ports, status bits, controller and device
  commands, command-byte bits, status scan codes, the command primitives and the request
  structure. Preprocessor constants are abbreviations with the source's names and values.
\<close>

section \<open>Ports, status bits and interrupt lines\<close>

abbreviation kDataPort :: u16 where "kDataPort \<equiv> 0x60"
abbreviation kCommandPort :: u16 where "kCommandPort \<equiv> 0x64"
abbreviation kOutputReady :: u8 where "kOutputReady \<equiv> 0x01"
abbreviation kInputBusy :: u8 where "kInputBusy \<equiv> 0x02"
abbreviation kMouseData :: u8 where "kMouseData \<equiv> 0x20"
abbreviation kIRQ_Keyboard :: int where "kIRQ_Keyboard \<equiv> 1"
abbreviation kIRQ_Mouse :: int where "kIRQ_Mouse \<equiv> 12"
abbreviation kKeyboardQueueSize :: nat where "kKeyboardQueueSize \<equiv> 32"

section \<open>Data port commands\<close>

abbreviation kDP_SetMouseScaling1To1 :: u8 where "kDP_SetMouseScaling1To1 \<equiv> 0xE6"
abbreviation kDP_SetMouseScaling2To1 :: u8 where "kDP_SetMouseScaling2To1 \<equiv> 0xE7"
abbreviation kDP_SetMouseResolution :: u8 where "kDP_SetMouseResolution \<equiv> 0xE8"
abbreviation kDP_GetMouseInformation :: u8 where "kDP_GetMouseInformation \<equiv> 0xE9"
abbreviation kDP_SetKeyboardLEDs :: u8 where "kDP_SetKeyboardLEDs \<equiv> 0xED"
abbreviation kDP_SetMouseSampleRate :: u8 where "kDP_SetMouseSampleRate \<equiv> 0xF3"
abbreviation kDP_Enable :: u8 where "kDP_Enable \<equiv> 0xF4"
abbreviation kDP_SetDefaults :: u8 where "kDP_SetDefaults \<equiv> 0xF6"
abbreviation kDP_TestKeyboardEcho :: u8 where "kDP_TestKeyboardEcho \<equiv> 0xEE"
abbreviation kDP_SetDefaultsAndDisable :: u8 where "kDP_SetDefaultsAndDisable \<equiv> 0xF5"
abbreviation kDP_SetAllMakeRelease :: u8 where "kDP_SetAllMakeRelease \<equiv> 0xF8"
abbreviation kDP_Reset :: u8 where "kDP_Reset \<equiv> 0xFF"

section \<open>Command port commands, routing prefixes and command-byte bits\<close>

abbreviation kCP_GetCommandByte :: u8 where "kCP_GetCommandByte \<equiv> 0x20"
abbreviation kCP_SetCommandByte :: u8 where "kCP_SetCommandByte \<equiv> 0x60"
abbreviation kCP_DisableMouseClock :: u8 where "kCP_DisableMouseClock \<equiv> 0xA7"
abbreviation kCP_EnableMouseClock :: u8 where "kCP_EnableMouseClock \<equiv> 0xA8"
abbreviation kCP_WriteMouseOutputBuffer :: u8 where "kCP_WriteMouseOutputBuffer \<equiv> 0xD3"
abbreviation kCP_TransmitToMouse :: u8 where "kCP_TransmitToMouse \<equiv> 0xD4"
abbreviation kRP_RoutingPrefixAuxPort :: u8 where "kRP_RoutingPrefixAuxPort \<equiv> 0x90"
abbreviation kCB_EnableKeyboardIRQ :: u8 where "kCB_EnableKeyboardIRQ \<equiv> 0x01"
abbreviation kCB_EnableMouseIRQ :: u8 where "kCB_EnableMouseIRQ \<equiv> 0x02"
abbreviation kCB_DisableKeyboardClock :: u8 where "kCB_DisableKeyboardClock \<equiv> 0x10"
abbreviation kCB_TranslateMode :: u8 where "kCB_TranslateMode \<equiv> 0x40"
abbreviation kCB_DisableMouseClock :: u8 where "kCB_DisableMouseClock \<equiv> 0x20"

section \<open>Scan codes\<close>

abbreviation kSC_Extend :: u8 where "kSC_Extend \<equiv> 0xE0"
abbreviation kSC_Pause :: u8 where "kSC_Pause \<equiv> 0xE1"
abbreviation kSC_Resend :: u8 where "kSC_Resend \<equiv> 0xFE"
abbreviation kSC_UpBit :: u8 where "kSC_UpBit \<equiv> 0x80"
abbreviation kSC_Acknowledge :: u8 where "kSC_Acknowledge \<equiv> 0xFA"
abbreviation kSC_Reset :: u8 where "kSC_Reset \<equiv> 0xAA"
abbreviation kSC_Alt :: u8 where "kSC_Alt \<equiv> 0x38"
abbreviation kSC_Ctrl :: u8 where "kSC_Ctrl \<equiv> 0x1D"
abbreviation kSC_ShiftLeft :: u8 where "kSC_ShiftLeft \<equiv> 0x2A"
abbreviation kSC_ShiftRight :: u8 where "kSC_ShiftRight \<equiv> 0x36"
abbreviation kSC_WindowsLeft :: u8 where "kSC_WindowsLeft \<equiv> 0x5B"
abbreviation kSC_WindowsRight :: u8 where "kSC_WindowsRight \<equiv> 0x5C"
abbreviation kSC_Delete :: u8 where "kSC_Delete \<equiv> 0x53"

section \<open>Command primitives and requests\<close>

datatype PS2DeviceType = kDT_Keyboard | kDT_Mouse

datatype PS2CommandEnum =
    kPS2C_ReadDataPort
  | kPS2C_ReadMouseDataPort
  | kPS2C_ReadDataPortAndCompare
  | kPS2C_WriteDataPort
  | kPS2C_WriteCommandPort
  | kPS2C_SendMouseCommandAndCompareAck

record PS2Command =
  command :: PS2CommandEnum
  inOrOut :: u8

text \<open>
  A completion routine is a function pointer: null, the controller's own
  submitRequestAndBlockCompletion, or a routine of a client, known by a number.
\<close>

datatype PS2CompletionAction = NullAction | submitRequestAndBlockCompletion | ClientAction nat

abbreviation kMaxCommands :: nat where "kMaxCommands \<equiv> 20"

text \<open>
  The request structure. Pointers are numbers, 0 is the null pointer; \<open>reqAddr\<close> is the address
  allocateRequest returned. The queue chain of the source is the list the controller keeps.
\<close>

record PS2Request =
  reqAddr :: nat
  commandsCount :: u8
  commands :: "PS2Command list"
  completionTarget :: nat
  completionAction :: PS2CompletionAction
  completionParam :: nat

definition zeroRequest :: "nat \<Rightarrow> PS2Request" where
  "zeroRequest a =
     \<lparr>reqAddr = a, commandsCount = 0,
      commands = replicate kMaxCommands \<lparr>command = kPS2C_ReadDataPort, inOrOut = 0\<rparr>,
      completionTarget = 0, completionAction = NullAction, completionParam = 0\<rparr>"

text \<open>
  Assignments to the command array: storing a command, and storing a list of commands from
  index 0 with the count set to their number, the shape every request builder of the drivers has.
\<close>

definition setCommand :: "nat \<Rightarrow> PS2CommandEnum \<Rightarrow> u8 \<Rightarrow> PS2Request \<Rightarrow> PS2Request" where
  "setCommand i c b r = r\<lparr>commands := (commands r)[i := \<lparr>command = c, inOrOut = b\<rparr>]\<rparr>"

fun setCommands_from :: "nat \<Rightarrow> (PS2CommandEnum \<times> u8) list \<Rightarrow> PS2Request \<Rightarrow> PS2Request" where
  "setCommands_from i [] r = r"
| "setCommands_from i ((c, b) # cs) r = setCommands_from (Suc i) cs (setCommand i c b r)"

definition setCommands :: "(PS2CommandEnum \<times> u8) list \<Rightarrow> PS2Request \<Rightarrow> PS2Request" where
  "setCommands cs r = (setCommands_from 0 cs r)\<lparr>commandsCount := of_nat (length cs)\<rparr>"

definition respByte :: "PS2Request \<Rightarrow> nat \<Rightarrow> u8" where
  "respByte r i = inOrOut (commands r ! i)"

lemma length_setCommand [simp]: "length (commands (setCommand i c b r)) = length (commands r)"
  by (simp add: setCommand_def)

lemma length_setCommands_from [simp]:
  "length (commands (setCommands_from i cs r)) = length (commands r)"
  by (induction i cs r rule: setCommands_from.induct) simp_all

lemma reqAddr_setCommand [simp]: "reqAddr (setCommand i c b r) = reqAddr r"
  by (simp add: setCommand_def)

lemma reqAddr_setCommands_from [simp]: "reqAddr (setCommands_from i cs r) = reqAddr r"
  by (induction i cs r rule: setCommands_from.induct) simp_all

lemma setCommands_simps [simp]:
  "length (commands (setCommands cs r)) = length (commands r)"
  "reqAddr (setCommands cs r) = reqAddr r"
  "commandsCount (setCommands cs r) = of_nat (length cs)"
  by (simp_all add: setCommands_def)

lemma take_setCommands_from:
  "i + length cs \<le> length (commands r) \<Longrightarrow>
   take i (commands (setCommands_from i cs r)) = take i (commands r)"
proof (induction i cs r rule: setCommands_from.induct)
  case (2 i c b cs r)
  let ?r' = "setCommands_from (Suc i) cs (setCommand i c b r)"
  have "take i (commands ?r') = take i (take (Suc i) (commands ?r'))" by (simp add: min_def)
  also have "take (Suc i) (commands ?r') = take (Suc i) (commands (setCommand i c b r))"
    using 2 by simp
  also have "take i \<dots> = take i (commands r)" by (simp add: setCommand_def min_def)
  finally show ?case by simp
qed simp

lemma drop_setCommands_from:
  "i + length cs \<le> length (commands r) \<Longrightarrow>
   take (length cs) (drop i (commands (setCommands_from i cs r)))
     = map (\<lambda>(c, b). \<lparr>command = c, inOrOut = b\<rparr>) cs"
proof (induction i cs r rule: setCommands_from.induct)
  case (2 i c b cs r)
  let ?r' = "setCommands_from (Suc i) cs (setCommand i c b r)"
  have len: "Suc i + length cs \<le> length (commands (setCommand i c b r))" using 2(2) by simp
  have "commands ?r' ! i = take (Suc i) (commands ?r') ! i" by simp
  also have "\<dots> = \<lparr>command = c, inOrOut = b\<rparr>"
    using len unfolding take_setCommands_from [OF len] by (simp add: setCommand_def)
  finally have hd: "commands ?r' ! i = \<lparr>command = c, inOrOut = b\<rparr>" .
  have "drop i (commands ?r') = commands ?r' ! i # drop (Suc i) (commands ?r')"
    using 2(2) by (simp add: Cons_nth_drop_Suc)
  then show ?case using hd 2(1)[OF len] by simp
qed simp

lemma take_setCommands:
  "length cs \<le> length (commands r) \<Longrightarrow>
   take (length cs) (commands (setCommands cs r)) = map (\<lambda>(c, b). \<lparr>command = c, inOrOut = b\<rparr>) cs"
  using drop_setCommands_from [of 0 cs r] by (simp add: setCommands_def)

lemma zeroRequest_simps [simp]:
  "reqAddr (zeroRequest a) = a" "commandsCount (zeroRequest a) = 0"
  "length (commands (zeroRequest a)) = kMaxCommands"
  "completionAction (zeroRequest a) = NullAction" "completionTarget (zeroRequest a) = 0"
  by (simp_all add: zeroRequest_def)

section \<open>Notification and power codes\<close>

text \<open>
  The codes are C enumerators passed as 32-bit integers; their values are their positions in the
  enumeration \<open>touchpad\<close> of ApplePS2Device.h.
\<close>


abbreviation kPS2C_ShiftKey :: u32 where "kPS2C_ShiftKey \<equiv> 0"
abbreviation kPS2C_Gesture_AppSwitch :: u32 where "kPS2C_Gesture_AppSwitch \<equiv> 1"
abbreviation kPS2C_Gesture_AppClose :: u32 where "kPS2C_Gesture_AppClose \<equiv> 2"
abbreviation kPS2C_Gesture_Launchpad :: u32 where "kPS2C_Gesture_Launchpad \<equiv> 3"
abbreviation kPS2C_Gesture_MissionControl :: u32 where "kPS2C_Gesture_MissionControl \<equiv> 4"
abbreviation kPS2C_Gesture_Dashboard :: u32 where "kPS2C_Gesture_Dashboard \<equiv> 5"
abbreviation kPS2C_Gesture_DesktopSwitchLeft :: u32 where "kPS2C_Gesture_DesktopSwitchLeft \<equiv> 6"
abbreviation kPS2C_Gesture_DesktopSwitchRight :: u32 where "kPS2C_Gesture_DesktopSwitchRight \<equiv> 7"
abbreviation kPS2C_Gesture_AppWindows :: u32 where "kPS2C_Gesture_AppWindows \<equiv> 8"
abbreviation kPS2C_Gesture_Minimize :: u32 where "kPS2C_Gesture_Minimize \<equiv> 9"
abbreviation kPS2C_Gesture_FullScreen :: u32 where "kPS2C_Gesture_FullScreen \<equiv> 10"
abbreviation kPS2C_Gesture_Backward :: u32 where "kPS2C_Gesture_Backward \<equiv> 11"
abbreviation kPS2C_Gesture_Forward :: u32 where "kPS2C_Gesture_Forward \<equiv> 12"
abbreviation kPS2C_Gesture_Desktop :: u32 where "kPS2C_Gesture_Desktop \<equiv> 13"
abbreviation kPS2C_Gesture_NC_Shortcut :: u32 where "kPS2C_Gesture_NC_Shortcut \<equiv> 14"
abbreviation kPS2C_Gesture_GetInfo :: u32 where "kPS2C_Gesture_GetInfo \<equiv> 15"
abbreviation kPS2C_Gesture_ToggleDock :: u32 where "kPS2C_Gesture_ToggleDock \<equiv> 16"
abbreviation kPS2C_Gesture_NC_Workaround :: u32 where "kPS2C_Gesture_NC_Workaround \<equiv> 17"
abbreviation kPS2C_Gesture_ZoomReset :: u32 where "kPS2C_Gesture_ZoomReset \<equiv> 18"
abbreviation kPS2C_Gesture_Finder :: u32 where "kPS2C_Gesture_Finder \<equiv> 19"
abbreviation kPS2C_Gesture_ForceQuit :: u32 where "kPS2C_Gesture_ForceQuit \<equiv> 20"
abbreviation kPS2C_ExtFunF13 :: u32 where "kPS2C_ExtFunF13 \<equiv> 21"
abbreviation kPS2C_ExtFunF14 :: u32 where "kPS2C_ExtFunF14 \<equiv> 22"
abbreviation kPS2C_ExtFunF15 :: u32 where "kPS2C_ExtFunF15 \<equiv> 23"
abbreviation kPS2C_ExtFunF16 :: u32 where "kPS2C_ExtFunF16 \<equiv> 24"
abbreviation kPS2C_ExtFunF17 :: u32 where "kPS2C_ExtFunF17 \<equiv> 25"
abbreviation kPS2C_ExtFunF18 :: u32 where "kPS2C_ExtFunF18 \<equiv> 26"
abbreviation kPS2C_ExtFunF19 :: u32 where "kPS2C_ExtFunF19 \<equiv> 27"
abbreviation kPS2C_ExtFunF20 :: u32 where "kPS2C_ExtFunF20 \<equiv> 28"
abbreviation kPS2C_ExtFunF21 :: u32 where "kPS2C_ExtFunF21 \<equiv> 29"
abbreviation kPS2C_ExtFunF22 :: u32 where "kPS2C_ExtFunF22 \<equiv> 30"
abbreviation kPS2C_ExtFunF23 :: u32 where "kPS2C_ExtFunF23 \<equiv> 31"
abbreviation kPS2C_ExtFunF24 :: u32 where "kPS2C_ExtFunF24 \<equiv> 32"
abbreviation kPS2C_Gesture_ContextMenu :: u32 where "kPS2C_Gesture_ContextMenu \<equiv> 33"
abbreviation kPS2C_Gesture_MiddleClick :: u32 where "kPS2C_Gesture_MiddleClick \<equiv> 34"
abbreviation kPS2C_Gesture_LeftClick :: u32 where "kPS2C_Gesture_LeftClick \<equiv> 35"
abbreviation kPS2C_EnableTouchpad :: u32 where "kPS2C_EnableTouchpad \<equiv> 36"
abbreviation kPS2C_DisableTouchpad :: u32 where "kPS2C_DisableTouchpad \<equiv> 37"
abbreviation kPS2C_AccidentalInput :: u32 where "kPS2C_AccidentalInput \<equiv> 38"
abbreviation kPS2C_DoContextMenu :: u32 where "kPS2C_DoContextMenu \<equiv> 39"
abbreviation kPS2C_ZoomPlus :: u32 where "kPS2C_ZoomPlus \<equiv> 40"
abbreviation kPS2C_ZoomMinus :: u32 where "kPS2C_ZoomMinus \<equiv> 41"
abbreviation kPS2C_ZoomReset :: u32 where "kPS2C_ZoomReset \<equiv> 42"
abbreviation kPS2C_RotateLeft :: u32 where "kPS2C_RotateLeft \<equiv> 43"
abbreviation kPS2C_RotateRight :: u32 where "kPS2C_RotateRight \<equiv> 44"
abbreviation kPS2C_ReleaseCmdKey :: u32 where "kPS2C_ReleaseCmdKey \<equiv> 45"
abbreviation kPS2C_ScrollLock_Auto :: u32 where "kPS2C_ScrollLock_Auto \<equiv> 46"
abbreviation kPS2C_ScrollLock_Inertia :: u32 where "kPS2C_ScrollLock_Inertia \<equiv> 47"
abbreviation kPS2C_ScrollLock_Continuous :: u32 where "kPS2C_ScrollLock_Continuous \<equiv> 48"
abbreviation kPS2C_EdgeScroll :: u32 where "kPS2C_EdgeScroll \<equiv> 49"
abbreviation kPS2C_Gestures_1FSwipes :: u32 where "kPS2C_Gestures_1FSwipes \<equiv> 50"
abbreviation kPS2C_Gestures_3FSwipes :: u32 where "kPS2C_Gestures_3FSwipes \<equiv> 51"
abbreviation kPS2C_Gestures_4FSwipes :: u32 where "kPS2C_Gestures_4FSwipes \<equiv> 52"
abbreviation kPS2C_Gestures_Rotate :: u32 where "kPS2C_Gestures_Rotate \<equiv> 53"
abbreviation kPS2C_Gestures_Zoom :: u32 where "kPS2C_Gestures_Zoom \<equiv> 54"
abbreviation kPS2C_Gestures_DoubleTaps :: u32 where "kPS2C_Gestures_DoubleTaps \<equiv> 55"
abbreviation kPS2C_FnKey_Modes :: u32 where "kPS2C_FnKey_Modes \<equiv> 56"
abbreviation kPS2C_ESC :: u32 where "kPS2C_ESC \<equiv> 57"
abbreviation kPS2C_ALT_Funtion_on :: u32 where "kPS2C_ALT_Funtion_on \<equiv> 58"
abbreviation kPS2C_ALT_Funtion_off :: u32 where "kPS2C_ALT_Funtion_off \<equiv> 59"
abbreviation kPS2C_CNTRL_Feature_on :: u32 where "kPS2C_CNTRL_Feature_on \<equiv> 60"
abbreviation kPS2C_CNTRL_Feature_off :: u32 where "kPS2C_CNTRL_Feature_off \<equiv> 61"
abbreviation kPS2C_CNTRLKeyDown :: u32 where "kPS2C_CNTRLKeyDown \<equiv> 62"
abbreviation kPS2C_CNTRLKeyUp :: u32 where "kPS2C_CNTRLKeyUp \<equiv> 63"
abbreviation kPS2C_CMDKeyDown :: u32 where "kPS2C_CMDKeyDown \<equiv> 64"
abbreviation kPS2C_CMDKeyUp :: u32 where "kPS2C_CMDKeyUp \<equiv> 65"
abbreviation kPS2C_InitKeyboard :: u32 where "kPS2C_InitKeyboard \<equiv> 66"
abbreviation kPS2C_EnableAsusKBacklight :: u32 where "kPS2C_EnableAsusKBacklight \<equiv> 67"
abbreviation kPS2C_EnableAsusKBacklight16Levels :: u32 where "kPS2C_EnableAsusKBacklight16Levels \<equiv> 68"
abbreviation kPS2C_RestoreTouchpad :: u32 where "kPS2C_RestoreTouchpad \<equiv> 69"
abbreviation kPS2C_KeybrdBackLightOff :: u32 where "kPS2C_KeybrdBackLightOff \<equiv> 70"
abbreviation kPS2C_KeybrdBackLightOn :: u32 where "kPS2C_KeybrdBackLightOn \<equiv> 71"
abbreviation kPS2C_KeybrdBackLightToggleOn :: u32 where "kPS2C_KeybrdBackLightToggleOn \<equiv> 72"
abbreviation kPS2C_KeybrdBackLightToggleOff :: u32 where "kPS2C_KeybrdBackLightToggleOff \<equiv> 73"
abbreviation kPS2C_ShowTouchPressureWidth :: u32 where "kPS2C_ShowTouchPressureWidth \<equiv> 74"
abbreviation kPS2C_BrightnessDown :: u32 where "kPS2C_BrightnessDown \<equiv> 75"
abbreviation kPS2C_BrightnessUp :: u32 where "kPS2C_BrightnessUp \<equiv> 76"
abbreviation kPS2C_OSXVersionNotify :: u32 where "kPS2C_OSXVersionNotify \<equiv> 77"

abbreviation kPS2C_DisableDevice :: u32 where "kPS2C_DisableDevice \<equiv> 0"
abbreviation kPS2C_EnableDevice :: u32 where "kPS2C_EnableDevice \<equiv> 1"

end
