(* ===== verification/PS2_State.thy ===== *)
theory PS2_State
  imports PS2_Protocol
begin

text \<open>
  The state of ApplePS2Controller (ApplePS2Controller/ApplePS2Controller.h) and its port access.
  The hardware is a recorded input: \<open>inp\<close> lists the bytes the next calls of inb return,
  whichever port they read, so that every hardware behaviour is some value of \<open>inp\<close>. What
  the controller does to the outside (port writes, calls of its provider, of its event sources and
  of the installed client routines) is appended to \<open>out\<close>, oldest first. IODelay has no effect on
  either. The spin locks guard single operations, which are atomic here.
\<close>

section \<open>Observable events\<close>

datatype provider_call =
    RegisterInterrupt int | UnregisterInterrupt int | EnableInterrupt int | DisableInterrupt int

datatype event_source = SrcKeyboard | SrcMouse | SrcQueue

datatype event =
    EvOut u16 u8
  | EvProvider provider_call
  | EvAddSource event_source
  | EvRemoveSource event_source
  | EvSignal event_source
  | EvInterrupt nat nat u8
  | EvPowerControl nat nat u32 bool
  | EvNotify nat nat u32
  | EvComplete PS2Request
  | EvSleep nat
  | EvAckPower

text \<open>
  The last argument of EvPowerControl is the state of the port at the moment the client is called,
  whether it is online, since what the client then sends depends on it.
\<close>

section \<open>The controller object\<close>

text \<open>
  A client slot is the triple of members the source keeps for every kind of client callback:
  the target object, the action and the installed flag. Pointers are numbers, 0 is null.
\<close>

record client_slot =
  target :: nat
  action :: nat
  installed :: bool

definition emptySlot :: "client_slot" where
  "emptySlot = \<lparr>target = 0, action = 0, installed = False\<rparr>"

text \<open>
  \<open>refs\<close> counts retain minus release per object, \<open>liveRequests\<close> are the addresses of the
  requests allocated and not yet freed, and \<open>ub\<close> records that the code has freed or used a
  request that is not allocated, or indexed outside an array.
\<close>

record ctl =
  inp :: "u8 list"
  out :: "event list"
  ub :: bool
  refs :: "nat \<Rightarrow> int"
  keyboardQueue :: "nat list"
  keyboardQueueUnused :: "nat list"
  keyboardData :: "nat \<Rightarrow> u8"
  debuggingEnabled :: bool
  extendedState :: bool
  modifierState :: u16
  interruptKeyboard :: client_slot
  interruptMouse :: client_slot
  powerControlKeyboard :: client_slot
  powerControlMouse :: client_slot
  ps2notificationKeyboard :: client_slot
  ps2notificationMouseTouchpad :: client_slot
  requestQueue :: "PS2Request list"
  nextRequest :: nat
  liveRequests :: "nat list"
  currentPowerState :: u32
  hardwareOffline :: bool
  controllerUsesMuxMode :: bool
  muxModeRoutePrefix :: u8

definition emit :: "event \<Rightarrow> ctl \<Rightarrow> ctl" where
  "emit e s = s\<lparr>out := out s @ [e]\<rparr>"

definition retain :: "nat \<Rightarrow> ctl \<Rightarrow> ctl" where
  "retain x s = s\<lparr>refs := (refs s)(x := refs s x + 1)\<rparr>"

definition release :: "nat \<Rightarrow> ctl \<Rightarrow> ctl" where
  "release x s = s\<lparr>refs := (refs s)(x := refs s x - 1)\<rparr>"

abbreviation kPS2PowerStateSleep :: u32 where "kPS2PowerStateSleep \<equiv> 0"
abbreviation kPS2PowerStateDoze :: u32 where "kPS2PowerStateDoze \<equiv> 1"
abbreviation kPS2PowerStateNormal :: u32 where "kPS2PowerStateNormal \<equiv> 2"

text \<open>
  The object as init leaves it, facing the recorded input \<open>t\<close>: the allocator of the runtime has
  zeroed the members init does not mention.
\<close>

definition init :: "u8 list \<Rightarrow> ctl" where
  "init t =
     \<lparr>inp = t, out = [], ub = False, refs = (\<lambda>_. 0),
      keyboardQueue = [], keyboardQueueUnused = [], keyboardData = (\<lambda>_. 0),
      debuggingEnabled = False, extendedState = False, modifierState = 0,
      interruptKeyboard = emptySlot, interruptMouse = emptySlot,
      powerControlKeyboard = emptySlot, powerControlMouse = emptySlot,
      ps2notificationKeyboard = emptySlot, ps2notificationMouseTouchpad = emptySlot,
      requestQueue = [], nextRequest = 1, liveRequests = [],
      currentPowerState = kPS2PowerStateNormal, hardwareOffline = False,
      controllerUsesMuxMode = False, muxModeRoutePrefix = kRP_RoutingPrefixAuxPort\<rparr>"

lemma emit_simps [simp]:
  "inp (emit e s) = inp s" "out (emit e s) = out s @ [e]" "ub (emit e s) = ub s"
  "refs (emit e s) = refs s"
  "keyboardQueue (emit e s) = keyboardQueue s"
  "keyboardQueueUnused (emit e s) = keyboardQueueUnused s"
  "keyboardData (emit e s) = keyboardData s"
  "debuggingEnabled (emit e s) = debuggingEnabled s"
  "extendedState (emit e s) = extendedState s" "modifierState (emit e s) = modifierState s"
  "interruptKeyboard (emit e s) = interruptKeyboard s"
  "interruptMouse (emit e s) = interruptMouse s"
  "powerControlKeyboard (emit e s) = powerControlKeyboard s"
  "powerControlMouse (emit e s) = powerControlMouse s"
  "ps2notificationKeyboard (emit e s) = ps2notificationKeyboard s"
  "ps2notificationMouseTouchpad (emit e s) = ps2notificationMouseTouchpad s"
  "requestQueue (emit e s) = requestQueue s" "nextRequest (emit e s) = nextRequest s"
  "liveRequests (emit e s) = liveRequests s"
  "currentPowerState (emit e s) = currentPowerState s"
  "hardwareOffline (emit e s) = hardwareOffline s"
  "controllerUsesMuxMode (emit e s) = controllerUsesMuxMode s"
  "muxModeRoutePrefix (emit e s) = muxModeRoutePrefix s"
  by (simp_all add: emit_def)

lemma emit_inp_update [simp]: "emit e (s\<lparr>inp := t\<rparr>) = (emit e s)\<lparr>inp := t\<rparr>"
  by (simp add: emit_def)

section \<open>Port access\<close>

definition inb :: "u16 \<Rightarrow> ctl \<Rightarrow> (u8 \<times> ctl) option" where
  "inb port s = (case inp s of [] \<Rightarrow> None | b # bs \<Rightarrow> Some (b, s\<lparr>inp := bs\<rparr>))"

definition outb :: "u16 \<Rightarrow> u8 \<Rightarrow> ctl \<Rightarrow> ctl" where
  "outb port datum s = emit (EvOut port datum) s"

text \<open>
  The polling loops of the source, on the recorded input: waiting until the controller's input
  buffer has room, and discarding whatever its output buffer holds.
\<close>

fun waitInputBuffer :: "u8 list \<Rightarrow> u8 list option" where
  "waitInputBuffer [] = None"
| "waitInputBuffer (st # t) = (if bits_set st kInputBusy then waitInputBuffer t else Some t)"

fun drainOutputBuffer :: "u8 list \<Rightarrow> u8 list option" where
  "drainOutputBuffer [] = None"
| "drainOutputBuffer (st # t) =
     (if bits_set st kOutputReady
      then (case t of [] \<Rightarrow> None | datum # t' \<Rightarrow> drainOutputBuffer t')
      else Some t)"

definition writeDataPort :: "u8 \<Rightarrow> ctl \<Rightarrow> ctl option" where
  "writeDataPort byte s =
     (case waitInputBuffer (inp s) of
        None \<Rightarrow> None
      | Some t \<Rightarrow> Some (outb kDataPort byte (s\<lparr>inp := t\<rparr>)))"

definition writeCommandPort :: "u8 \<Rightarrow> ctl \<Rightarrow> ctl option" where
  "writeCommandPort byte s =
     (case waitInputBuffer (inp s) of
        None \<Rightarrow> None
      | Some t \<Rightarrow> Some (outb kCommandPort byte (s\<lparr>inp := t\<rparr>)))"

definition drainInputStreams :: "ctl \<Rightarrow> ctl option" where
  "drainInputStreams s =
     (case drainOutputBuffer (inp s) of None \<Rightarrow> None | Some t \<Rightarrow> Some (s\<lparr>inp := t\<rparr>))"

text \<open>A write waits through any number of busy reads and then writes exactly once.\<close>

lemma waitInputBuffer_busy:
  "(\<forall>st \<in> set busy. bits_set st kInputBusy) \<Longrightarrow> \<not> bits_set st0 kInputBusy \<Longrightarrow>
   waitInputBuffer (busy @ st0 # t) = Some t"
  by (induction busy) simp_all

lemma waitInputBuffer_SomeE:
  assumes "waitInputBuffer xs = Some t"
  obtains busy st0 where "xs = busy @ st0 # t" "\<forall>st \<in> set busy. bits_set st kInputBusy"
    "\<not> bits_set st0 kInputBusy"
  using assms
proof (induction xs arbitrary: thesis)
  case (Cons st xs)
  show ?case
  proof (cases "bits_set st kInputBusy")
    case True
    with Cons.prems(2) have w: "waitInputBuffer xs = Some t" by simp
    show ?thesis
    proof (rule Cons.IH [OF _ w])
      fix busy st0
      assume "xs = busy @ st0 # t" "\<forall>x \<in> set busy. bits_set x kInputBusy"
        "\<not> bits_set st0 kInputBusy"
      with True show thesis by (intro Cons.prems(1) [of "st # busy" st0]) auto
    qed
  next
    case False
    with Cons.prems show ?thesis by (intro Cons.prems(1) [of "[]" st]) auto
  qed
qed simp

lemma waitInputBuffer_length: "waitInputBuffer xs = Some t \<Longrightarrow> length t < length xs"
  by (induction xs) (auto split: if_splits)

lemma waitInputBuffer_None_iff:
  "waitInputBuffer xs = None \<longleftrightarrow> (\<forall>st \<in> set xs. bits_set st kInputBusy)"
  by (induction xs) auto

lemma writePort_SomeD:
  "writeDataPort b s = Some s' \<Longrightarrow>
     \<exists>t. waitInputBuffer (inp s) = Some t \<and> s' = emit (EvOut kDataPort b) (s\<lparr>inp := t\<rparr>)"
  "writeCommandPort b s = Some s' \<Longrightarrow>
     \<exists>t. waitInputBuffer (inp s) = Some t \<and> s' = emit (EvOut kCommandPort b) (s\<lparr>inp := t\<rparr>)"
  by (auto simp: writeDataPort_def writeCommandPort_def outb_def split: option.splits)

end
