(* ===== verification/PS2_KeyQueue.thy ===== *)
theory PS2_KeyQueue
  imports PS2_State
begin

text \<open>
  The interrupt-time half of ApplePS2Controller.cpp: the keyboard queue (enqueueKeyboardData,
  dequeueKeyboardData), the escape-sequence detector doEscape and the two primary interrupt
  handlers. The two queues of the source hold elements of one array of kKeyboardQueueSize
  elements; a queue is the list of the indices of its elements and \<open>keyboardData\<close> their data field.
  DEBUGGER_SUPPORT is 1 in ApplePS2Controller.h, so this code is compiled in.
\<close>

section \<open>The keyboard queue\<close>

definition enqueueKeyboardData :: "u8 \<Rightarrow> ctl \<Rightarrow> ctl" where
  "enqueueKeyboardData key s =
     (case keyboardQueueUnused s of
        [] \<Rightarrow> s
      | element # rest \<Rightarrow>
          s\<lparr>keyboardQueueUnused := rest,
            keyboardData := (keyboardData s)(element := key),
            keyboardQueue := keyboardQueue s @ [element]\<rparr>)"

definition dequeueKeyboardData :: "ctl \<Rightarrow> (u8 \<times> ctl) option" where
  "dequeueKeyboardData s =
     (case keyboardQueue s of
        [] \<Rightarrow> None
      | element # rest \<Rightarrow>
          Some (keyboardData s element,
                s\<lparr>keyboardQueue := rest,
                  keyboardQueueUnused := keyboardQueueUnused s @ [element]\<rparr>))"

text \<open>The queue as start leaves it: every element of the array on the unused queue.\<close>

definition initKeyboardQueue :: "ctl \<Rightarrow> ctl" where
  "initKeyboardQueue s =
     s\<lparr>keyboardQueue := [], keyboardQueueUnused := [0..<kKeyboardQueueSize]\<rparr>"

section \<open>The escape-sequence detector\<close>

abbreviation kModifierShiftLeft :: u16 where "kModifierShiftLeft \<equiv> 0x01"
abbreviation kModifierShiftRight :: u16 where "kModifierShiftRight \<equiv> 0x02"
abbreviation kModifierCtrlLeft :: u16 where "kModifierCtrlLeft \<equiv> 0x04"
abbreviation kModifierCtrlRight :: u16 where "kModifierCtrlRight \<equiv> 0x08"
abbreviation kModifierAltLeft :: u16 where "kModifierAltLeft \<equiv> 0x10"
abbreviation kModifierAltRight :: u16 where "kModifierAltRight \<equiv> 0x20"
abbreviation kModifierWindowsLeft :: u16 where "kModifierWindowsLeft \<equiv> 0x40"
abbreviation kModifierWindowsRight :: u16 where "kModifierWindowsRight \<equiv> 0x80"

record modifier_entry =
  scancode :: u8
  extended :: bool
  modifier :: u16

text \<open>The static table of doEscape; its all-zero terminator is the end of the list.\<close>

definition modifierTable :: "modifier_entry list" where
  "modifierTable =
     [\<lparr>scancode = kSC_Alt, extended = False, modifier = kModifierAltLeft\<rparr>,
      \<lparr>scancode = kSC_Alt, extended = True, modifier = kModifierAltRight\<rparr>,
      \<lparr>scancode = kSC_Ctrl, extended = False, modifier = kModifierCtrlLeft\<rparr>,
      \<lparr>scancode = kSC_Ctrl, extended = True, modifier = kModifierCtrlRight\<rparr>,
      \<lparr>scancode = kSC_ShiftLeft, extended = False, modifier = kModifierShiftLeft\<rparr>,
      \<lparr>scancode = kSC_ShiftRight, extended = False, modifier = kModifierShiftRight\<rparr>,
      \<lparr>scancode = kSC_WindowsLeft, extended = True, modifier = kModifierWindowsLeft\<rparr>,
      \<lparr>scancode = kSC_WindowsRight, extended = True, modifier = kModifierWindowsRight\<rparr>]"

fun findModifier :: "modifier_entry list \<Rightarrow> u8 \<Rightarrow> bool \<Rightarrow> u16 option" where
  "findModifier [] sc ext = None"
| "findModifier (e # es) sc ext =
     (if scancode e = sc \<and> extended e = ext then Some (modifier e)
      else findModifier es sc ext)"

fun enqueueReleases :: "modifier_entry list \<Rightarrow> ctl \<Rightarrow> ctl" where
  "enqueueReleases [] s = s"
| "enqueueReleases (e # es) s =
     enqueueReleases es
       (if modifierState s AND modifier e \<noteq> 0
        then enqueueKeyboardData (scancode e OR kSC_UpBit)
               (if extended e then enqueueKeyboardData kSC_Extend s else s)
        else s)"

definition doEscape :: "u8 \<Rightarrow> ctl \<Rightarrow> (bool \<times> ctl) option" where
  "doEscape scancode0 s =
     (let upBit = bits_set scancode0 kSC_UpBit in
      if scancode0 = kSC_Extend then Some (False, s\<lparr>extendedState := True\<rparr>)
      else
        let sc = scancode0 AND NOT kSC_UpBit in
        case findModifier modifierTable sc (extendedState s) of
          Some m \<Rightarrow>
            Some (False,
                  s\<lparr>modifierState := (if upBit then modifierState s AND NOT m
                                      else modifierState s OR m),
                    extendedState := False\<rparr>)
        | None \<Rightarrow>
            if sc = kSC_Delete \<and> modifierState s = (kModifierAltLeft OR kModifierAltRight)
            then do {
              s \<leftarrow> writeCommandPort kCP_DisableMouseClock s;
              s \<leftarrow> writeCommandPort kCP_EnableMouseClock s;
              let s = enqueueReleases modifierTable s;
              Some (True, s\<lparr>modifierState := 0, extendedState := False\<rparr>)
            }
            else Some (False, s\<lparr>extendedState := False\<rparr>))"

section \<open>Primary interrupt handlers\<close>

definition interruptHandlerMouse :: "ctl \<Rightarrow> ctl" where
  "interruptHandlerMouse s = emit (EvSignal SrcMouse) s"

definition interruptHandlerKeyboard :: "ctl \<Rightarrow> ctl option" where
  "interruptHandlerKeyboard s = do {
     (status, s) \<leftarrow> inb kCommandPort s;
     if bits_set status kOutputReady then
       if bits_set status kMouseData then Some (interruptHandlerMouse s)
       else do {
         (key, s) \<leftarrow> inb kDataPort s;
         s \<leftarrow> (if debuggingEnabled s = False then Some (enqueueKeyboardData key s)
              else do {
                (drop, s) \<leftarrow> doEscape key s;
                Some (if drop = False then enqueueKeyboardData key s else s)
              });
         Some (emit (EvSignal SrcKeyboard) s)
       }
     else Some s
   }"

section \<open>The queue invariant\<close>

definition kbdQueue_ok :: "ctl \<Rightarrow> bool" where
  "kbdQueue_ok s \<longleftrightarrow>
     distinct (keyboardQueue s @ keyboardQueueUnused s) \<and>
     set (keyboardQueue s @ keyboardQueueUnused s) = {0..<kKeyboardQueueSize}"

definition kbdBytes :: "ctl \<Rightarrow> u8 list" where
  "kbdBytes s = map (keyboardData s) (keyboardQueue s)"

lemma kbdQueue_ok_size:
  assumes "kbdQueue_ok s"
  shows "length (keyboardQueue s) + length (keyboardQueueUnused s) = kKeyboardQueueSize"
proof -
  have "card (set (keyboardQueue s @ keyboardQueueUnused s)) = kKeyboardQueueSize"
    using assms by (simp add: kbdQueue_ok_def)
  then show ?thesis
    using assms distinct_card [of "keyboardQueue s @ keyboardQueueUnused s"]
    by (simp add: kbdQueue_ok_def)
qed

lemma length_kbdBytes: "length (kbdBytes s) = length (keyboardQueue s)"
  by (simp add: kbdBytes_def)

lemma enqueue_ok [ctl_inv]: "kbdQueue_ok s \<Longrightarrow> kbdQueue_ok (enqueueKeyboardData k s)"
  by (auto simp: kbdQueue_ok_def enqueueKeyboardData_def split: list.splits)

lemma dequeue_ok [ctl_inv]:
  "kbdQueue_ok s \<Longrightarrow> dequeueKeyboardData s = Some (k, s') \<Longrightarrow> kbdQueue_ok s'"
  by (auto simp: kbdQueue_ok_def dequeueKeyboardData_def split: list.splits)

lemma enqueue_bytes:
  assumes ok: "kbdQueue_ok s"
  shows "kbdBytes (enqueueKeyboardData k s) =
    (if length (kbdBytes s) < kKeyboardQueueSize then kbdBytes s @ [k] else kbdBytes s)"
proof (cases "keyboardQueueUnused s")
  case Nil
  then show ?thesis using kbdQueue_ok_size [OF ok]
    by (simp add: enqueueKeyboardData_def kbdBytes_def)
next
  case (Cons e es)
  then have "length (keyboardQueue s) < kKeyboardQueueSize" "e \<notin> set (keyboardQueue s)"
    using kbdQueue_ok_size [OF ok] ok by (auto simp: kbdQueue_ok_def)
  then show ?thesis using Cons
    by (auto simp: enqueueKeyboardData_def kbdBytes_def intro!: map_cong)
qed

lemma dequeue_bytes:
  "dequeueKeyboardData s = Some (k, s') \<Longrightarrow> kbdBytes s = k # kbdBytes s'"
  by (auto simp: dequeueKeyboardData_def kbdBytes_def split: list.splits)

lemma dequeue_None_iff: "dequeueKeyboardData s = None \<longleftrightarrow> kbdBytes s = []"
  by (auto simp: dequeueKeyboardData_def kbdBytes_def split: list.splits)

lemma initKeyboardQueue_ok: "kbdQueue_ok (initKeyboardQueue s)"
  "kbdBytes (initKeyboardQueue s) = []"
  by (auto simp: kbdQueue_ok_def initKeyboardQueue_def kbdBytes_def)

section \<open>A bounded queue of bytes, as a contract\<close>

locale bounded_fifo =
  fixes enq :: "'k \<Rightarrow> 's \<Rightarrow> 's"
    and deq :: "'s \<Rightarrow> ('k \<times> 's) option"
    and content :: "'s \<Rightarrow> 'k list"
    and inv :: "'s \<Rightarrow> bool"
    and cap :: nat
  assumes enq_inv: "inv s \<Longrightarrow> inv (enq k s)"
    and deq_inv: "inv s \<Longrightarrow> deq s = Some (k, s') \<Longrightarrow> inv s'"
    and content_enq:
      "inv s \<Longrightarrow> content (enq k s) = (if length (content s) < cap then content s @ [k] else content s)"
    and content_deq: "deq s = Some (k, s') \<Longrightarrow> content s = k # content s'"
    and deq_None: "deq s = None \<longleftrightarrow> content s = []"
begin

lemma enq_all_inv: "inv s \<Longrightarrow> inv (fold enq ks s)"
  by (induction ks arbitrary: s) (auto intro: enq_inv)

lemma content_enq_all:
  "inv s \<Longrightarrow> length (content s) \<le> cap \<Longrightarrow> content (fold enq ks s) = take cap (content s @ ks)"
proof (induction ks arbitrary: s)
  case (Cons k ks)
  have "length (content (enq k s)) \<le> cap"
    using Cons.prems by (auto simp: content_enq)
  then have "content (fold enq (k # ks) s) = take cap (content (enq k s) @ ks)"
    using Cons by (simp add: enq_inv)
  then show ?case using Cons.prems by (auto simp: content_enq take_Cons')
qed simp

lemma deq_front:
  assumes "content s = k # ks"
  shows "\<exists>s'. deq s = Some (k, s') \<and> content s' = ks"
proof (cases "deq s")
  case None
  then show ?thesis using assms by (simp add: deq_None)
next
  case (Some p)
  then obtain k' s' where "deq s = Some (k', s')" by (cases p) auto
  then show ?thesis using assms content_deq by fastforce
qed

end

interpretation kbd: bounded_fifo enqueueKeyboardData dequeueKeyboardData kbdBytes kbdQueue_ok
  kKeyboardQueueSize
  by unfold_locales (auto intro: enqueue_ok dequeue_ok simp: enqueue_bytes dequeue_bytes dequeue_None_iff)

end
