(* ===== verification/PS2_Dispatch.thy ===== *)
theory PS2_Dispatch
  imports PS2_KeyQueue
begin

text \<open>
  Clients of ApplePS2Controller: installing and removing interrupt, power-control and notification
  routines, and delivering to them. A delivery is an event that names the installed action and
  target; the routine behind the pointer belongs to the client driver. Delivering therefore
  changes no member of the controller.
\<close>

section \<open>Interrupt actions\<close>

definition installInterruptAction :: "PS2DeviceType \<Rightarrow> nat \<Rightarrow> nat \<Rightarrow> ctl \<Rightarrow> ctl" where
  "installInterruptAction deviceType tgt act s =
     (if deviceType = kDT_Keyboard \<and> installed (interruptKeyboard s) = False then
        (let s = retain tgt s;
             s = s\<lparr>interruptKeyboard := (interruptKeyboard s)\<lparr>target := tgt, action := act\<rparr>\<rparr>;
             s = emit (EvAddSource SrcKeyboard) s;
             s = emit (EvProvider (RegisterInterrupt kIRQ_Keyboard)) s;
             s = emit (EvProvider (EnableInterrupt kIRQ_Keyboard)) s
         in s\<lparr>interruptKeyboard := (interruptKeyboard s)\<lparr>installed := True\<rparr>\<rparr>)
      else if deviceType = kDT_Mouse \<and> installed (interruptMouse s) = False then
        (let s = retain tgt s;
             s = s\<lparr>interruptMouse := (interruptMouse s)\<lparr>target := tgt, action := act\<rparr>\<rparr>;
             s = emit (EvAddSource SrcMouse) s;
             s = emit (EvProvider (RegisterInterrupt kIRQ_Mouse)) s;
             s = emit (EvProvider (EnableInterrupt kIRQ_Mouse)) s
         in s\<lparr>interruptMouse := (interruptMouse s)\<lparr>installed := True\<rparr>\<rparr>)
      else s)"

definition uninstallInterruptAction :: "PS2DeviceType \<Rightarrow> ctl \<Rightarrow> ctl" where
  "uninstallInterruptAction deviceType s =
     (if deviceType = kDT_Keyboard \<and> installed (interruptKeyboard s) = True then
        (let s = emit (EvProvider (DisableInterrupt kIRQ_Keyboard)) s;
             s = emit (EvProvider (UnregisterInterrupt kIRQ_Keyboard)) s;
             s = emit (EvRemoveSource SrcKeyboard) s;
             s = s\<lparr>interruptKeyboard := (interruptKeyboard s)\<lparr>installed := False, action := 0\<rparr>\<rparr>;
             s = release (target (interruptKeyboard s)) s
         in s\<lparr>interruptKeyboard := (interruptKeyboard s)\<lparr>target := 0\<rparr>\<rparr>)
      else if deviceType = kDT_Mouse \<and> installed (interruptMouse s) = True then
        (let s = emit (EvProvider (DisableInterrupt kIRQ_Mouse)) s;
             s = emit (EvProvider (UnregisterInterrupt kIRQ_Mouse)) s;
             s = emit (EvRemoveSource SrcMouse) s;
             s = s\<lparr>interruptMouse := (interruptMouse s)\<lparr>installed := False, action := 0\<rparr>\<rparr>;
             s = release (target (interruptMouse s)) s
         in s\<lparr>interruptMouse := (interruptMouse s)\<lparr>target := 0\<rparr>\<rparr>)
      else s)"

definition dispatchDriverInterrupt :: "PS2DeviceType \<Rightarrow> u8 \<Rightarrow> ctl \<Rightarrow> ctl" where
  "dispatchDriverInterrupt deviceType datum s =
     (if deviceType = kDT_Mouse then
        (if installed (interruptMouse s)
         then emit (EvInterrupt (action (interruptMouse s)) (target (interruptMouse s)) datum) s
         else s)
      else if deviceType = kDT_Keyboard then
        (if installed (interruptKeyboard s)
         then emit (EvInterrupt (action (interruptKeyboard s)) (target (interruptKeyboard s)) datum) s
         else s)
      else s)"

section \<open>Power control actions\<close>

definition installPowerControlAction :: "PS2DeviceType \<Rightarrow> nat \<Rightarrow> nat \<Rightarrow> ctl \<Rightarrow> ctl" where
  "installPowerControlAction deviceType tgt act s =
     (if deviceType = kDT_Keyboard \<and> installed (powerControlKeyboard s) = False then
        (retain tgt s)\<lparr>powerControlKeyboard := \<lparr>target = tgt, action = act, installed = True\<rparr>\<rparr>
      else if deviceType = kDT_Mouse \<and> installed (powerControlMouse s) = False then
        (retain tgt s)\<lparr>powerControlMouse := \<lparr>target = tgt, action = act, installed = True\<rparr>\<rparr>
      else s)"

definition uninstallPowerControlAction :: "PS2DeviceType \<Rightarrow> ctl \<Rightarrow> ctl" where
  "uninstallPowerControlAction deviceType s =
     (if deviceType = kDT_Keyboard \<and> installed (powerControlKeyboard s) = True then
        (release (target (powerControlKeyboard s)) s)
          \<lparr>powerControlKeyboard := \<lparr>target = 0, action = 0, installed = False\<rparr>\<rparr>
      else if deviceType = kDT_Mouse \<and> installed (powerControlMouse s) = True then
        (release (target (powerControlMouse s)) s)
          \<lparr>powerControlMouse := \<lparr>target = 0, action = 0, installed = False\<rparr>\<rparr>
      else s)"

definition dispatchDriverPowerControl :: "u32 \<Rightarrow> ctl \<Rightarrow> ctl" where
  "dispatchDriverPowerControl whatToDo s =
     (let s = (if installed (powerControlKeyboard s)
               then emit (EvPowerControl (action (powerControlKeyboard s))
                            (target (powerControlKeyboard s)) whatToDo (\<not> hardwareOffline s)) s
               else s)
      in if installed (powerControlMouse s)
         then emit (EvPowerControl (action (powerControlMouse s))
                      (target (powerControlMouse s)) whatToDo (\<not> hardwareOffline s)) s
         else s)"

section \<open>Notifications between the client drivers\<close>

definition installPS2Notification :: "PS2DeviceType \<Rightarrow> nat \<Rightarrow> nat \<Rightarrow> ctl \<Rightarrow> ctl" where
  "installPS2Notification deviceType tgt act s =
     (if deviceType = kDT_Keyboard \<and> installed (ps2notificationKeyboard s) = False then
        (retain tgt s)\<lparr>ps2notificationKeyboard := \<lparr>target = tgt, action = act, installed = True\<rparr>\<rparr>
      else if deviceType = kDT_Mouse \<and> installed (ps2notificationMouseTouchpad s) = False then
        (retain tgt s)
          \<lparr>ps2notificationMouseTouchpad := \<lparr>target = tgt, action = act, installed = True\<rparr>\<rparr>
      else s)"

definition uninstallPS2NotificationAction :: "PS2DeviceType \<Rightarrow> ctl \<Rightarrow> ctl" where
  "uninstallPS2NotificationAction deviceType s =
     (if deviceType = kDT_Keyboard \<and> installed (ps2notificationKeyboard s) = True then
        (release (target (ps2notificationKeyboard s)) s)
          \<lparr>ps2notificationKeyboard := \<lparr>target = 0, action = 0, installed = False\<rparr>\<rparr>
      else if deviceType = kDT_Mouse \<and> installed (ps2notificationMouseTouchpad s) = True then
        (release (target (ps2notificationMouseTouchpad s)) s)
          \<lparr>ps2notificationMouseTouchpad := \<lparr>target = 0, action = 0, installed = False\<rparr>\<rparr>
      else s)"

definition dispatchPS2Notification :: "PS2DeviceType \<Rightarrow> u32 \<Rightarrow> ctl \<Rightarrow> ctl" where
  "dispatchPS2Notification deviceType datum s =
     (let s = (if deviceType = kDT_Keyboard \<and> installed (ps2notificationKeyboard s)
               then emit (EvNotify (action (ps2notificationKeyboard s))
                            (target (ps2notificationKeyboard s)) datum) s
               else s)
      in if deviceType = kDT_Mouse \<and> installed (ps2notificationMouseTouchpad s)
         then emit (EvNotify (action (ps2notificationMouseTouchpad s))
                      (target (ps2notificationMouseTouchpad s)) datum) s
         else s)"

text \<open>
  The ACPI message handler: event codes 0x10 and 0x20 become the brightness notifications, any
  other positive code is passed on as it is, and 0 is ignored.
\<close>

definition message :: "u32 \<Rightarrow> ctl \<Rightarrow> ctl" where
  "message eventCode s =
     (if eventCode > 0 then
        (let eventCode = (if eventCode = 0x10 then kPS2C_BrightnessUp
                          else if eventCode = 0x20 then kPS2C_BrightnessDown
                          else eventCode)
         in if installed (ps2notificationKeyboard s)
            then emit (EvNotify (action (ps2notificationKeyboard s))
                         (target (ps2notificationKeyboard s)) eventCode) s
            else s)
      else s)"

section \<open>Frame facts of a delivery\<close>

lemma dispatch_frame [simp, ctl_frame]:
  "inp (dispatchDriverInterrupt d x s) = inp s"
  "ub (dispatchDriverInterrupt d x s) = ub s"
  "keyboardQueue (dispatchDriverInterrupt d x s) = keyboardQueue s"
  "keyboardQueueUnused (dispatchDriverInterrupt d x s) = keyboardQueueUnused s"
  "keyboardData (dispatchDriverInterrupt d x s) = keyboardData s"
  "interruptKeyboard (dispatchDriverInterrupt d x s) = interruptKeyboard s"
  "interruptMouse (dispatchDriverInterrupt d x s) = interruptMouse s"
  "requestQueue (dispatchDriverInterrupt d x s) = requestQueue s"
  "liveRequests (dispatchDriverInterrupt d x s) = liveRequests s"
  "nextRequest (dispatchDriverInterrupt d x s) = nextRequest s"
  "currentPowerState (dispatchDriverInterrupt d x s) = currentPowerState s"
  "hardwareOffline (dispatchDriverInterrupt d x s) = hardwareOffline s"
  "controllerUsesMuxMode (dispatchDriverInterrupt d x s) = controllerUsesMuxMode s"
  "muxModeRoutePrefix (dispatchDriverInterrupt d x s) = muxModeRoutePrefix s"
  by (cases d; simp add: dispatchDriverInterrupt_def)+

lemma dispatch_inp_update [simp]:
  "dispatchDriverInterrupt d x (s\<lparr>inp := t\<rparr>) = (dispatchDriverInterrupt d x s)\<lparr>inp := t\<rparr>"
  by (cases d) (simp_all add: dispatchDriverInterrupt_def)

text \<open>The events a sequence of deliveries to one device appends.\<close>

definition deliveries :: "client_slot \<Rightarrow> u8 list \<Rightarrow> event list" where
  "deliveries sl bs = (if installed sl then map (EvInterrupt (action sl) (target sl)) bs else [])"

definition interruptSlot :: "PS2DeviceType \<Rightarrow> ctl \<Rightarrow> client_slot" where
  "interruptSlot d s = (case d of kDT_Keyboard \<Rightarrow> interruptKeyboard s | kDT_Mouse \<Rightarrow> interruptMouse s)"

lemma deliveries_Nil [simp]: "deliveries sl [] = []"
  by (simp add: deliveries_def)

lemma deliveries_fold [simp]:
  "deliveries sl [b] @ deliveries sl bs = deliveries sl (b # bs)"
  "deliveries sl [b] @ deliveries sl bs @ zs = deliveries sl (b # bs) @ zs"
  by (simp_all add: deliveries_def)

lemma dispatch_out [simp]:
  "out (dispatchDriverInterrupt d x s) = out s @ deliveries (interruptSlot d s) [x]"
  by (cases d) (simp_all add: dispatchDriverInterrupt_def deliveries_def interruptSlot_def)

lemma interruptSlot_dispatch [simp]:
  "interruptSlot d (dispatchDriverInterrupt d' x s) = interruptSlot d s"
  by (cases d) (simp_all add: interruptSlot_def)

lemma interruptSlot_inp [simp]: "interruptSlot d (s\<lparr>inp := t\<rparr>) = interruptSlot d s"
  by (cases d) (simp_all add: interruptSlot_def)

end
