(* ===== verification/PS2_Read.thy ===== *)
theory PS2_Read
  imports PS2_Dispatch
begin

text \<open>
  The two overloads of ApplePS2Controller::readDataPort. Both loops begin the same way (a queued
  keyboard byte, or polling the status port with a countdown and reading the data port); that first
  half is fetchByte here. What the loops do with the byte is readDataPort_loop and
  readDataPortExpect_loop. The countdown timeoutCounter is the 32-bit counter of the source.
\<close>

section \<open>Polling and fetching\<close>

fun pollOutputReady :: "u32 \<Rightarrow> u8 \<Rightarrow> u8 list \<Rightarrow> (u32 \<times> u8 \<times> u8 list) option" where
  "pollOutputReady timeoutCounter status [] =
     (if timeoutCounter = 0 then Some (0, status, []) else None)"
| "pollOutputReady timeoutCounter status (x # xs) =
     (if timeoutCounter = 0 then Some (0, status, x # xs)
      else if bits_set x kOutputReady then Some (timeoutCounter, x, xs)
      else pollOutputReady (timeoutCounter - 1) x xs)"

datatype fetch = TimedOut ctl | Fetched bool u8 u32 u8 ctl

definition otherDevice :: "PS2DeviceType \<Rightarrow> PS2DeviceType" where
  "otherDevice d = (if d = kDT_Keyboard then kDT_Mouse else kDT_Keyboard)"

definition fetchByte :: "PS2DeviceType \<Rightarrow> u32 \<Rightarrow> u8 \<Rightarrow> ctl \<Rightarrow> fetch option" where
  "fetchByte deviceType timeoutCounter status s =
     (case (if deviceType = kDT_Keyboard then dequeueKeyboardData s else None) of
        Some (readByte, s) \<Rightarrow> Some (Fetched True readByte timeoutCounter status s)
      | None \<Rightarrow>
          (case pollOutputReady timeoutCounter status (inp s) of
             None \<Rightarrow> None
           | Some (timeoutCounter, status, t) \<Rightarrow>
               if timeoutCounter = 0 then Some (TimedOut (s\<lparr>inp := t\<rparr>))
               else (case inb kDataPort (s\<lparr>inp := t\<rparr>) of
                       None \<Rightarrow> None
                     | Some (readByte, s) \<Rightarrow>
                         Some (Fetched
                           (if bits_set status kMouseData then deviceType = kDT_Mouse
                            else deviceType = kDT_Keyboard)
                           readByte timeoutCounter status s))))"

lemma pollOutputReady_length:
  "pollOutputReady t st xs = Some (t', st', ys) \<Longrightarrow> length ys \<le> length xs"
proof (induction t st xs rule: pollOutputReady.induct)
  case (2 t st x xs)
  then show ?case by (cases "t = 0"; cases "bits_set x kOutputReady") auto
qed (auto split: if_splits)

lemma fetchByte_measure:
  assumes "fetchByte d t st s = Some (Fetched r b t' st' s')"
  shows "length (inp s') + length (keyboardQueue s') < length (inp s) + length (keyboardQueue s)"
proof (cases "if d = kDT_Keyboard then dequeueKeyboardData s else None")
  case None
  then obtain t1 st1 xs where p: "pollOutputReady t st (inp s) = Some (t1, st1, xs)"
    using assms by (auto simp: fetchByte_def split: option.splits prod.splits)
  from None p assms have "\<exists>x. xs = x # inp s' \<and> keyboardQueue s' = keyboardQueue s"
    by (auto simp: fetchByte_def inb_def split: if_splits list.splits)
  then show ?thesis using pollOutputReady_length [OF p] by auto
next
  case (Some q)
  then show ?thesis using assms
    by (auto simp: fetchByte_def dequeueKeyboardData_def split: if_splits list.splits)
qed

section \<open>Reading a byte\<close>

function readDataPort_loop :: "PS2DeviceType \<Rightarrow> u32 \<Rightarrow> u8 \<Rightarrow> ctl \<Rightarrow> (u8 \<times> ctl) option" where
  "readDataPort_loop deviceType timeoutCounter status s =
     (case fetchByte deviceType timeoutCounter status s of
        None \<Rightarrow> None
      | Some (TimedOut s') \<Rightarrow> Some (0, s')
      | Some (Fetched requestedStream readByte timeoutCounter' status' s') \<Rightarrow>
          if requestedStream then Some (readByte, s')
          else readDataPort_loop deviceType timeoutCounter' status'
                 (dispatchDriverInterrupt (otherDevice deviceType) readByte s'))"
  by pat_completeness auto
termination
  by (relation "measure (\<lambda>(d, t, st, s). length (inp s) + length (keyboardQueue s))")
    (auto dest: fetchByte_measure)

declare readDataPort_loop.simps [simp del]

definition readDataPort :: "PS2DeviceType \<Rightarrow> ctl \<Rightarrow> (u8 \<times> ctl) option" where
  "readDataPort deviceType s = readDataPort_loop deviceType 10000 0 s"

text \<open>
  The overload that expects a byte. \<open>held\<close> holds firstByte, secondByte and thirdByte as far as
  their flags are set; the source fills them in this order and has room for three.
\<close>

function readDataPortExpect_loop ::
  "PS2DeviceType \<Rightarrow> u8 \<Rightarrow> u8 list \<Rightarrow> u32 \<Rightarrow> u8 \<Rightarrow> ctl \<Rightarrow> (u8 \<times> ctl) option" where
  "readDataPortExpect_loop deviceType expectedByte held timeoutCounter status s =
     (case fetchByte deviceType timeoutCounter status s of
        None \<Rightarrow> None
      | Some (TimedOut s') \<Rightarrow> Some (if held \<noteq> [] then hd held else 0, s')
      | Some (Fetched requestedStream readByte timeoutCounter' status' s') \<Rightarrow>
          if requestedStream then
            if readByte = expectedByte then
              Some (readByte, fold (dispatchDriverInterrupt deviceType) held s')
            else if length held < 3 then
              readDataPortExpect_loop deviceType expectedByte (held @ [readByte])
                timeoutCounter' status' s'
            else Some (hd held, dispatchDriverInterrupt deviceType readByte s')
          else readDataPortExpect_loop deviceType expectedByte held timeoutCounter' status'
                 (dispatchDriverInterrupt (otherDevice deviceType) readByte s'))"
  by pat_completeness auto
termination
  by (relation "measure (\<lambda>(d, e, h, t, st, s). length (inp s) + length (keyboardQueue s))")
    (auto dest: fetchByte_measure)

declare readDataPortExpect_loop.simps [simp del]

definition readDataPortExpect :: "PS2DeviceType \<Rightarrow> u8 \<Rightarrow> ctl \<Rightarrow> (u8 \<times> ctl) option" where
  "readDataPortExpect deviceType expectedByte s =
     readDataPortExpect_loop deviceType expectedByte [] 10000 0 s"

section \<open>Arrivals\<close>

text \<open>
  A piece of recorded input in which the hardware presents bytes: each arrival is a stretch of
  not-ready reads of the status port, the ready status, and the byte.
\<close>

definition idle :: "u8 list \<Rightarrow> bool" where
  "idle xs \<longleftrightarrow> (\<forall>x \<in> set xs. \<not> bits_set x kOutputReady)"

definition ready_from :: "PS2DeviceType \<Rightarrow> u8 \<Rightarrow> bool" where
  "ready_from d st \<longleftrightarrow> bits_set st kOutputReady \<and> (bits_set st kMouseData \<longleftrightarrow> d = kDT_Mouse)"

type_synonym arrival = "u8 list \<times> u8 \<times> u8"

fun arrival_bytes :: "arrival list \<Rightarrow> u8 list" where
  "arrival_bytes [] = []"
| "arrival_bytes ((i, st, b) # as) = i @ st # b # arrival_bytes as"

fun waiting :: "arrival list \<Rightarrow> nat" where
  "waiting [] = 0"
| "waiting ((i, st, b) # as) = length i + waiting as"

fun arrivals_ok :: "arrival list \<Rightarrow> bool" where
  "arrivals_ok [] = True"
| "arrivals_ok ((i, st, b) # as) = (idle i \<and> bits_set st kOutputReady \<and> arrivals_ok as)"

fun arrived :: "PS2DeviceType \<Rightarrow> arrival list \<Rightarrow> u8 list" where
  "arrived d [] = []"
| "arrived d ((i, st, b) # as) = (if ready_from d st then b # arrived d as else arrived d as)"

lemma idle_simps [simp]:
  "idle []" "idle (x # xs) \<longleftrightarrow> \<not> bits_set x kOutputReady \<and> idle xs"
  by (auto simp: idle_def)

lemma otherDevice_simps [simp]:
  "otherDevice kDT_Keyboard = kDT_Mouse" "otherDevice kDT_Mouse = kDT_Keyboard"
  by (simp_all add: otherDevice_def)

lemma ready_from_other: "bits_set st kOutputReady \<Longrightarrow> ready_from (otherDevice d) st \<longleftrightarrow> \<not> ready_from d st"
  by (cases d) (auto simp: ready_from_def)

lemma pollOutputReady_idle:
  assumes "idle i" "length i \<le> unat t"
  shows "\<exists>st'. pollOutputReady t st (i @ xs) = pollOutputReady (t - of_nat (length i)) st' xs"
  using assms
proof (induction i arbitrary: t st)
  case (Cons x i)
  then have t: "t \<noteq> 0" by auto
  then have "length i \<le> unat (t - 1)" using Cons.prems by (simp add: unat_minus_one)
  with Cons obtain st' where
    "pollOutputReady (t - 1) x (i @ xs) = pollOutputReady (t - 1 - of_nat (length i)) st' xs"
    by auto
  with Cons.prems t show ?case by (auto simp: algebra_simps)
qed auto

lemma unat_sub_of_nat:
  fixes t :: u32
  assumes "n \<le> unat t"
  shows "unat (t - of_nat n) = unat t - n"
proof -
  have "unat t < 2 ^ LENGTH(32)" by (rule unsigned_less)
  then have "n < 2 ^ LENGTH(32)" using assms by (rule le_less_trans [rotated])
  then have u: "unat (of_nat n :: u32) = n" by (simp add: unsigned_of_nat take_bit_nat_eq_self)
  then have "of_nat n \<le> t" using assms by (simp add: word_le_nat_alt)
  then show ?thesis using u by (simp add: unat_sub)
qed

lemma pollOutputReady_arrival:
  assumes "idle i" "length i < unat t" "bits_set st0 kOutputReady"
  shows "pollOutputReady t st (i @ st0 # xs) = Some (t - of_nat (length i), st0, xs)"
proof -
  obtain st' where e: "pollOutputReady t st (i @ st0 # xs)
      = pollOutputReady (t - of_nat (length i)) st' (st0 # xs)"
    using pollOutputReady_idle [of i t] assms by fastforce
  have "unat (t - of_nat (length i)) \<noteq> 0" using assms(2) by (simp add: unat_sub_of_nat)
  then have "t - of_nat (length i) \<noteq> 0" by auto
  with e assms(3) show ?thesis by simp
qed

lemma pollOutputReady_timeout:
  assumes "idle i" "length i = unat t"
  shows "\<exists>st'. pollOutputReady t st (i @ xs) = Some (0, st', xs)"
proof -
  obtain st' where e: "pollOutputReady t st (i @ xs)
      = pollOutputReady (t - of_nat (length i)) st' xs"
    using pollOutputReady_idle [of i t] assms by fastforce
  have "t - of_nat (length i) = 0" using assms(2) by simp
  with e show ?thesis by (cases xs) auto
qed

text \<open>
  The stream the read asks for comes from the port alone: the mouse's always does, the
  keyboard's when the keyboard queue is empty.
\<close>

definition from_port :: "PS2DeviceType \<Rightarrow> ctl \<Rightarrow> bool" where
  "from_port d s \<longleftrightarrow> d = kDT_Mouse \<or> keyboardQueue s = []"

lemma from_port_simps [simp]:
  "from_port d (s\<lparr>inp := t\<rparr>) = from_port d s"
  "from_port d (dispatchDriverInterrupt d' x s) = from_port d s"
  by (simp_all add: from_port_def)

lemma fetchByte_arrival:
  assumes "from_port d s" "inp s = i @ st0 # b # xs" "idle i" "length i < unat t"
    "bits_set st0 kOutputReady"
  shows "fetchByte d t st s =
    Some (Fetched (ready_from d st0) b (t - of_nat (length i)) st0 (s\<lparr>inp := xs\<rparr>))"
proof -
  have "t - of_nat (length i) \<noteq> 0"
    using assms(4) unat_sub_of_nat [of "length i" t] by (metis less_imp_le_nat unat_0 zero_less_diff less_irrefl)
  then show ?thesis
    using assms pollOutputReady_arrival [OF assms(3,4,5), of st "b # xs"]
    by (cases d) (auto simp: fetchByte_def from_port_def dequeueKeyboardData_def inb_def ready_from_def)
qed

lemma fetchByte_timeout:
  assumes "from_port d s" "inp s = i @ xs" "idle i" "length i = unat t"
  shows "fetchByte d t st s = Some (TimedOut (s\<lparr>inp := xs\<rparr>))"
  using assms pollOutputReady_timeout [OF assms(3,4), of st xs]
  by (cases d) (auto simp: fetchByte_def from_port_def dequeueKeyboardData_def)

section \<open>What the two reads return\<close>

lemma ctl_out_idem [simp]: "s\<lparr>out := out s\<rparr> = (s :: ctl)"
  by simp

lemma dispatch_as_update:
  "dispatchDriverInterrupt d x s = s\<lparr>out := out s @ deliveries (interruptSlot d s) [x]\<rparr>"
  by (cases d) (simp_all add: dispatchDriverInterrupt_def deliveries_def interruptSlot_def emit_def)

lemma interruptSlot_out [simp]: "interruptSlot d (s\<lparr>out := xs\<rparr>) = interruptSlot d s"
  by (cases d) (simp_all add: interruptSlot_def)

lemma fold_dispatch:
  "fold (dispatchDriverInterrupt d) bs s = s\<lparr>out := out s @ deliveries (interruptSlot d s) bs\<rparr>"
  by (induction bs arbitrary: s) (simp_all add: dispatch_as_update)

lemma readDataPort_loop_others:
  assumes "from_port d s" "inp s = arrival_bytes as @ xs" "arrivals_ok as"
    "arrived d as = []" "waiting as < unat t"
  shows "\<exists>st'. readDataPort_loop d t st s = readDataPort_loop d (t - of_nat (waiting as)) st'
      (s\<lparr>inp := xs, out := out s @ deliveries (interruptSlot (otherDevice d) s)
         (arrived (otherDevice d) as)\<rparr>)"
  using assms
proof (induction as arbitrary: t st s rule: arrival_bytes.induct)
  case (2 i st0 b as)
  let ?s1 = "dispatchDriverInterrupt (otherDevice d) b (s\<lparr>inp := arrival_bytes as @ xs\<rparr>)"
  let ?t1 = "t - of_nat (length i)"
  have other: "\<not> ready_from d st0" "ready_from (otherDevice d) st0" "arrived d as = []"
    using 2(4,5) ready_from_other [of st0 d] by (auto split: if_splits)
  have f: "fetchByte d t st s =
      Some (Fetched False b ?t1 st0 (s\<lparr>inp := arrival_bytes as @ xs\<rparr>))"
    using fetchByte_arrival [of d s i st0 b "arrival_bytes as @ xs" t st] 2 other by simp
  have t1: "unat ?t1 = unat t - length i" using 2(6) by (simp add: unat_sub_of_nat)
  have "\<exists>st'. readDataPort_loop d ?t1 st0 ?s1 = readDataPort_loop d (?t1 - of_nat (waiting as)) st'
      (?s1\<lparr>inp := xs, out := out ?s1 @ deliveries (interruptSlot (otherDevice d) ?s1)
         (arrived (otherDevice d) as)\<rparr>)"
    by (rule 2(1)) (use 2 t1 other in simp_all)
  then show ?case
    using other by (subst readDataPort_loop.simps) (auto simp: f dispatch_as_update algebra_simps)
qed auto

lemma readDataPort_queued:
  assumes "keyboardQueue s = e # es"
  shows "readDataPort kDT_Keyboard s =
    Some (keyboardData s e,
          s\<lparr>keyboardQueue := es, keyboardQueueUnused := keyboardQueueUnused s @ [e]\<rparr>)"
  using assms
  by (simp add: readDataPort_def readDataPort_loop.simps fetchByte_def dequeueKeyboardData_def)

lemma readDataPortExpect_loop_held:
  assumes "from_port d s" "inp s = arrival_bytes as @ xs" "arrivals_ok as"
    "length held + length (arrived d as) \<le> 3" "e \<notin> set (arrived d as)" "waiting as < unat t"
  shows "\<exists>st'. readDataPortExpect_loop d e held t st s =
      readDataPortExpect_loop d e (held @ arrived d as) (t - of_nat (waiting as)) st'
      (s\<lparr>inp := xs, out := out s @ deliveries (interruptSlot (otherDevice d) s)
         (arrived (otherDevice d) as)\<rparr>)"
  using assms
proof (induction as arbitrary: held t st s rule: arrival_bytes.induct)
  case (2 i st0 b as)
  let ?own = "ready_from d st0"
  let ?s0 = "s\<lparr>inp := arrival_bytes as @ xs\<rparr>"
  let ?s1 = "if ?own then ?s0 else dispatchDriverInterrupt (otherDevice d) b ?s0"
  let ?h1 = "if ?own then held @ [b] else held"
  let ?t1 = "t - of_nat (length i)"
  have other: "ready_from (otherDevice d) st0 \<longleftrightarrow> \<not> ?own"
    using 2(4) ready_from_other [of st0 d] by auto
  have t1: "unat ?t1 = unat t - length i" using 2(7) by (simp add: unat_sub_of_nat)
  have f: "fetchByte d t st s = Some (Fetched ?own b ?t1 st0 ?s0)"
    using fetchByte_arrival [of d s i st0 b "arrival_bytes as @ xs" t st] 2 by simp
  have step: "readDataPortExpect_loop d e held t st s =
      readDataPortExpect_loop d e ?h1 ?t1 st0 ?s1"
    using 2(5,6) by (subst readDataPortExpect_loop.simps) (auto simp: f)
  have "\<exists>st'. readDataPortExpect_loop d e ?h1 ?t1 st0 ?s1 =
      readDataPortExpect_loop d e (?h1 @ arrived d as) (?t1 - of_nat (waiting as)) st'
      (?s1\<lparr>inp := xs, out := out ?s1 @ deliveries (interruptSlot (otherDevice d) ?s1)
         (arrived (otherDevice d) as)\<rparr>)"
    by (rule 2(1)) (use 2 t1 in \<open>auto split: if_splits\<close>)
  then show ?case
    unfolding step using other by (auto simp: dispatch_as_update algebra_simps)
qed auto

section \<open>Properties\<close>

text \<open>
  C31: A read returns the first byte that arrives on the requested stream, provided fewer than
  10000 status reads found nothing ready before it. Every byte that arrived before it on the other
  stream has been delivered to the other device's interrupt routine, in order of arrival, and the
  input after the returned byte is untouched.
\<close>

theorem readDataPort_returns_requested:
  assumes "from_port d s" "inp s = arrival_bytes as @ i @ st0 # b # rest"
    "arrivals_ok as" "arrived d as = []" "idle i" "ready_from d st0"
    "waiting as + length i < 10000"
  shows "readDataPort d s = Some (b, s\<lparr>inp := rest,
    out := out s @ deliveries (interruptSlot (otherDevice d) s) (arrived (otherDevice d) as)\<rparr>)"
proof -
  let ?s1 = "s\<lparr>inp := i @ st0 # b # rest,
    out := out s @ deliveries (interruptSlot (otherDevice d) s) (arrived (otherDevice d) as)\<rparr>"
  have w: "waiting as < unat (10000 :: u32)" using assms(7) by simp
  obtain st' where l: "readDataPort_loop d 10000 0 s =
      readDataPort_loop d (10000 - of_nat (waiting as)) st' ?s1"
    using readDataPort_loop_others [OF assms(1,2,3,4) w] by blast
  have t: "length i < unat (10000 - of_nat (waiting as) :: u32)"
    using assms(7) w by (simp add: unat_sub_of_nat)
  have "fetchByte d (10000 - of_nat (waiting as)) st' ?s1 =
      Some (Fetched True b (10000 - of_nat (waiting as) - of_nat (length i)) st0 (?s1\<lparr>inp := rest\<rparr>))"
    using fetchByte_arrival [of d ?s1 i st0 b rest] assms t
    by (simp add: from_port_def ready_from_def)
  then show ?thesis
    by (simp add: readDataPort_def l) (simp add: readDataPort_loop.simps)
qed

text \<open>
  A keyboard byte that arrives before the mouse byte: recorded arrivals for the examples, and a
  controller with both interrupt routines installed.
\<close>

definition exampleState :: "u8 list \<Rightarrow> ctl" where
  "exampleState t = (init t)\<lparr>interruptKeyboard := \<lparr>target = 7, action = 70, installed = True\<rparr>,
     interruptMouse := \<lparr>target = 8, action = 80, installed = True\<rparr>\<rparr>"

lemma exampleState_simps [simp]:
  "inp (exampleState t) = t" "out (exampleState t) = []" "from_port d (exampleState t)"
  "interruptSlot kDT_Keyboard (exampleState t) = \<lparr>target = 7, action = 70, installed = True\<rparr>"
  "interruptSlot kDT_Mouse (exampleState t) = \<lparr>target = 8, action = 80, installed = True\<rparr>"
  by (simp_all add: exampleState_def init_def from_port_def interruptSlot_def)

theorem readDataPort_returns_requested_witness:
  "readDataPort kDT_Mouse (exampleState [0, 0x01, 0x1E, 0, 0x21, 0xFA]) =
     Some (0xFA, (exampleState [])\<lparr>out := [EvInterrupt 70 7 0x1E]\<rparr>)"
proof -
  have "readDataPort kDT_Mouse (exampleState [0, 0x01, 0x1E, 0, 0x21, 0xFA]) = Some (0xFA,
      (exampleState [0, 0x01, 0x1E, 0, 0x21, 0xFA])\<lparr>inp := [], out := out (exampleState [0, 0x01, 0x1E, 0, 0x21, 0xFA]) @
        deliveries (interruptSlot (otherDevice kDT_Mouse) (exampleState [0, 0x01, 0x1E, 0, 0x21, 0xFA]))
          (arrived (otherDevice kDT_Mouse) [([0], 0x01, 0x1E)])\<rparr>)"
    by (rule readDataPort_returns_requested [where i = "[0]" and ?st0.0 = "0x21"])
       (simp_all add: ready_from_def bits_set_def)
  then show ?thesis
    by (simp add: ready_from_def bits_set_def deliveries_def) (simp add: exampleState_def init_def)
qed

text \<open>
  A read gives up and returns the fake value 0 once 10000 status reads have found
  nothing ready, whatever arrived on the other stream meanwhile; those bytes have been delivered.
\<close>

theorem readDataPort_times_out:
  assumes "from_port d s" "inp s = arrival_bytes as @ i @ rest"
    "arrivals_ok as" "arrived d as = []" "idle i" "i \<noteq> []"
    "waiting as + length i = 10000"
  shows "readDataPort d s = Some (0, s\<lparr>inp := rest,
    out := out s @ deliveries (interruptSlot (otherDevice d) s) (arrived (otherDevice d) as)\<rparr>)"
proof -
  let ?s1 = "s\<lparr>inp := i @ rest,
    out := out s @ deliveries (interruptSlot (otherDevice d) s) (arrived (otherDevice d) as)\<rparr>"
  have "length i > 0" using assms(6) by simp
  then have "waiting as < 10000" using assms(7) by linarith
  then have w: "waiting as < unat (10000 :: u32)" by simp
  obtain st' where l: "readDataPort_loop d 10000 0 s =
      readDataPort_loop d (10000 - of_nat (waiting as)) st' ?s1"
    using readDataPort_loop_others [OF assms(1,2,3,4) w] by blast
  have t: "length i = unat (10000 - of_nat (waiting as) :: u32)"
    using assms(7) w by (simp add: unat_sub_of_nat)
  have "fetchByte d (10000 - of_nat (waiting as)) st' ?s1 = Some (TimedOut (?s1\<lparr>inp := rest\<rparr>))"
    by (rule fetchByte_timeout) (use assms t in \<open>auto simp: from_port_def\<close>)
  then show ?thesis
    by (simp add: readDataPort_def l) (simp add: readDataPort_loop.simps)
qed

theorem readDataPort_times_out_witness:
  "readDataPort kDT_Mouse (exampleState (replicate 10000 0)) = Some (0, exampleState [])"
proof -
  let ?s = "exampleState (replicate 10000 0)"
  have "readDataPort kDT_Mouse ?s = Some (0, ?s\<lparr>inp := [], out := out ?s @
      deliveries (interruptSlot (otherDevice kDT_Mouse) ?s) (arrived (otherDevice kDT_Mouse) [])\<rparr>)"
    by (rule readDataPort_times_out [where i = "replicate 10000 0"]) (simp_all add: idle_def)
  then show ?thesis by (simp add: deliveries_def) (simp add: exampleState_def init_def)
qed

text \<open>
  C7: Second chance of the expecting read: up to three bytes that arrive on the requested
  stream before the expected one are put aside; the expected byte is returned and the bytes put
  aside are delivered afterwards to the requested device's own interrupt routine, in order. Bytes
  of the other stream are delivered as they come.
\<close>

theorem readDataPortExpect_second_chance:
  assumes "from_port d s" "inp s = arrival_bytes as @ i @ st0 # e # rest"
    "arrivals_ok as" "length (arrived d as) \<le> 3" "e \<notin> set (arrived d as)"
    "idle i" "ready_from d st0" "waiting as + length i < 10000"
  shows "readDataPortExpect d e s = Some (e, s\<lparr>inp := rest,
    out := out s @ deliveries (interruptSlot (otherDevice d) s) (arrived (otherDevice d) as)
                 @ deliveries (interruptSlot d s) (arrived d as)\<rparr>)"
proof -
  let ?s1 = "s\<lparr>inp := i @ st0 # e # rest,
    out := out s @ deliveries (interruptSlot (otherDevice d) s) (arrived (otherDevice d) as)\<rparr>"
  have w: "waiting as < unat (10000 :: u32)" using assms(8) by simp
  have h: "length [] + length (arrived d as) \<le> 3" using assms(4) by simp
  obtain st' where l: "readDataPortExpect_loop d e [] 10000 0 s =
      readDataPortExpect_loop d e ([] @ arrived d as) (10000 - of_nat (waiting as)) st' ?s1"
    using readDataPortExpect_loop_held [OF assms(1,2,3) h assms(5) w] by blast
  have t: "length i < unat (10000 - of_nat (waiting as) :: u32)"
    using assms(8) w by (simp add: unat_sub_of_nat)
  have "fetchByte d (10000 - of_nat (waiting as)) st' ?s1 =
      Some (Fetched True e (10000 - of_nat (waiting as) - of_nat (length i)) st0 (?s1\<lparr>inp := rest\<rparr>))"
    using fetchByte_arrival [of d ?s1 i st0 e rest] assms t
    by (simp add: from_port_def ready_from_def)
  then show ?thesis
    by (simp add: readDataPortExpect_def l) (simp add: readDataPortExpect_loop.simps fold_dispatch)
qed

theorem readDataPortExpect_second_chance_witness:
  "readDataPortExpect kDT_Mouse 0xFA (exampleState [0x21, 0x08, 0x21, 0xFA]) =
     Some (0xFA, (exampleState [])\<lparr>out := [EvInterrupt 80 8 0x08]\<rparr>)"
proof -
  let ?s = "exampleState [0x21, 0x08, 0x21, 0xFA]" and ?as = "[([], 0x21, 0x08)] :: arrival list"
  have "readDataPortExpect kDT_Mouse 0xFA ?s = Some (0xFA, ?s\<lparr>inp := [], out := out ?s @
      deliveries (interruptSlot (otherDevice kDT_Mouse) ?s) (arrived (otherDevice kDT_Mouse) ?as) @
      deliveries (interruptSlot kDT_Mouse ?s) (arrived kDT_Mouse ?as)\<rparr>)"
    by (rule readDataPortExpect_second_chance [where i = "[]" and ?st0.0 = "0x21"])
       (simp_all add: ready_from_def bits_set_def)
  then show ?thesis
    by (simp add: ready_from_def bits_set_def deliveries_def) (simp add: exampleState_def init_def)
qed

text \<open>
  When a fourth byte of the requested stream fails to match as well, the read returns the
  first of the four and delivers only the fourth: the second and the third byte reach neither the
  caller nor the interrupt routine.
\<close>

theorem readDataPortExpect_fourth_mismatch:
  assumes "from_port d s" "inp s = arrival_bytes as @ i @ st0 # b4 # rest"
    "arrivals_ok as" "arrived d as = [b1, b2, b3]" "e \<notin> {b1, b2, b3, b4}"
    "idle i" "ready_from d st0" "waiting as + length i < 10000"
  shows "readDataPortExpect d e s = Some (b1, s\<lparr>inp := rest,
    out := out s @ deliveries (interruptSlot (otherDevice d) s) (arrived (otherDevice d) as)
                 @ deliveries (interruptSlot d s) [b4]\<rparr>)"
proof -
  let ?s1 = "s\<lparr>inp := i @ st0 # b4 # rest,
    out := out s @ deliveries (interruptSlot (otherDevice d) s) (arrived (otherDevice d) as)\<rparr>"
  have w: "waiting as < unat (10000 :: u32)" using assms(8) by simp
  have h: "length [] + length (arrived d as) \<le> 3" "e \<notin> set (arrived d as)"
    using assms(4,5) by simp_all
  obtain st' where l: "readDataPortExpect_loop d e [] 10000 0 s =
      readDataPortExpect_loop d e ([] @ arrived d as) (10000 - of_nat (waiting as)) st' ?s1"
    using readDataPortExpect_loop_held [OF assms(1,2,3) h w] by blast
  have t: "length i < unat (10000 - of_nat (waiting as) :: u32)"
    using assms(8) w by (simp add: unat_sub_of_nat)
  have "fetchByte d (10000 - of_nat (waiting as)) st' ?s1 =
      Some (Fetched True b4 (10000 - of_nat (waiting as) - of_nat (length i)) st0 (?s1\<lparr>inp := rest\<rparr>))"
    using fetchByte_arrival [of d ?s1 i st0 b4 rest] assms t
    by (simp add: from_port_def ready_from_def)
  then show ?thesis using assms(4,5)
    by (simp add: readDataPortExpect_def l)
       (auto simp add: readDataPortExpect_loop.simps dispatch_as_update)
qed

theorem readDataPortExpect_fourth_mismatch_witness:
  "readDataPortExpect kDT_Mouse 0xFA (exampleState [0x21, 1, 0x21, 2, 0x21, 3, 0x21, 4]) =
     Some (1, (exampleState [])\<lparr>out := [EvInterrupt 80 8 4]\<rparr>)"
proof -
  let ?s = "exampleState [0x21, 1, 0x21, 2, 0x21, 3, 0x21, 4]"
  let ?as = "[([], 0x21, 1), ([], 0x21, 2), ([], 0x21, 3)] :: arrival list"
  have "readDataPortExpect kDT_Mouse 0xFA ?s = Some (1, ?s\<lparr>inp := [], out := out ?s @
      deliveries (interruptSlot (otherDevice kDT_Mouse) ?s) (arrived (otherDevice kDT_Mouse) ?as) @
      deliveries (interruptSlot kDT_Mouse ?s) [4]\<rparr>)"
    by (rule readDataPortExpect_fourth_mismatch [where ?b2.0 = 2 and ?b3.0 = 3 and i = "[]" and ?st0.0 = "0x21"])
       (simp_all add: ready_from_def bits_set_def)
  then show ?thesis
    by (simp add: ready_from_def bits_set_def deliveries_def) (simp add: exampleState_def init_def)
qed

end
