(* ===== verification/PS2_Request.thy ===== *)
theory PS2_Request
  imports PS2_Read
begin

text \<open>
  Requests (ApplePS2Controller.cpp): allocation, submission, the request queue and the request
  processor. The processor returns the request it was given with the members it writes in the
  source, inOrOut of the read primitives and commandsCount.
\<close>

section \<open>Allocation and submission\<close>

definition allocateRequest :: "ctl \<Rightarrow> PS2Request \<times> ctl" where
  "allocateRequest s =
     (zeroRequest (nextRequest s),
      s\<lparr>nextRequest := nextRequest s + 1, liveRequests := nextRequest s # liveRequests s\<rparr>)"

definition freeRequest :: "PS2Request \<Rightarrow> ctl \<Rightarrow> ctl" where
  "freeRequest request s =
     (if reqAddr request \<in> set (liveRequests s)
      then s\<lparr>liveRequests := removeAll (reqAddr request) (liveRequests s)\<rparr>
      else s\<lparr>ub := True\<rparr>)"

text \<open>Any access to a request that is not allocated is undefined behaviour.\<close>

definition useRequest :: "PS2Request \<Rightarrow> ctl \<Rightarrow> ctl" where
  "useRequest request s = (if reqAddr request \<in> set (liveRequests s) then s else s\<lparr>ub := True\<rparr>)"

definition submitRequest :: "PS2Request \<Rightarrow> ctl \<Rightarrow> bool \<times> ctl" where
  "submitRequest request s =
     (let s = useRequest request s;
          s = s\<lparr>requestQueue := requestQueue s @ [request]\<rparr>
      in (True, emit (EvSignal SrcQueue) s))"

section \<open>The request processor\<close>

text \<open>
  The local variables of processRequest that survive a command: the device mode and whether the
  next data write goes to the mouse.
\<close>

record proc =
  deviceMode :: PS2DeviceType
  transmitToMouse :: bool

definition setInOrOut :: "nat \<Rightarrow> u8 \<Rightarrow> PS2Request \<Rightarrow> PS2Request" where
  "setInOrOut i b r = r\<lparr>commands := (commands r)[i := (commands r ! i)\<lparr>inOrOut := b\<rparr>]\<rparr>"

text \<open>
  One iteration of the switch on the command at \<open>index\<close>: whether it failed, the byte it read,
  the locals, and the controller.
\<close>

definition processCommand ::
  "PS2Command \<Rightarrow> proc \<Rightarrow> ctl \<Rightarrow> (bool \<times> u8 option \<times> proc \<times> ctl) option" where
  "processCommand c p s =
     (case command c of
        kPS2C_ReadDataPort \<Rightarrow> do {
          (byte, s) \<leftarrow> readDataPort (deviceMode p) s;
          Some (False, Some byte, p, s)
        }
      | kPS2C_ReadMouseDataPort \<Rightarrow> do {
          (byte, s) \<leftarrow> readDataPort kDT_Mouse s;
          Some (False, Some byte, p\<lparr>deviceMode := kDT_Mouse\<rparr>, s)
        }
      | kPS2C_ReadDataPortAndCompare \<Rightarrow> do {
          (byte, s) \<leftarrow> readDataPortExpect (deviceMode p) (inOrOut c) s;
          Some (byte \<noteq> inOrOut c, None, p, s)
        }
      | kPS2C_WriteDataPort \<Rightarrow> do {
          s \<leftarrow> writeDataPort (inOrOut c) s;
          Some (False, None,
                (if transmitToMouse p then \<lparr>deviceMode = kDT_Mouse, transmitToMouse = False\<rparr>
                 else p\<lparr>deviceMode := kDT_Keyboard\<rparr>), s)
        }
      | kPS2C_WriteCommandPort \<Rightarrow> do {
          s \<leftarrow> writeCommandPort (inOrOut c) s;
          Some (False, None,
                (if inOrOut c = kCP_TransmitToMouse then p\<lparr>transmitToMouse := True\<rparr> else p), s)
        }
      | kPS2C_SendMouseCommandAndCompareAck \<Rightarrow> do {
          s \<leftarrow> writeCommandPort (if controllerUsesMuxMode s then muxModeRoutePrefix s
                                else kCP_TransmitToMouse) s;
          s \<leftarrow> writeDataPort (inOrOut c) s;
          (byte, s) \<leftarrow> readDataPortExpect kDT_Mouse kSC_Acknowledge s;
          Some (byte \<noteq> kSC_Acknowledge, None, p\<lparr>deviceMode := kDT_Mouse\<rparr>, s)
        })"

text \<open>
  The for loop, on the number of commands left; an index beyond the command array is undefined
  behaviour. The result is whether a command failed and the index at which the loop stopped.
\<close>

fun processCommands ::
  "nat \<Rightarrow> nat \<Rightarrow> PS2Request \<Rightarrow> proc \<Rightarrow> ctl \<Rightarrow> (bool \<times> nat \<times> PS2Request \<times> ctl) option" where
  "processCommands 0 index r p s = Some (False, index, r, s)"
| "processCommands (Suc n) index r p s =
     (if index \<ge> length (commands r) then Some (False, index, r, s\<lparr>ub := True\<rparr>)
      else do {
        (failed, byte, p, s) \<leftarrow> processCommand (commands r ! index) p s;
        let r = (case byte of None \<Rightarrow> r | Some b \<Rightarrow> setInOrOut index b r);
        if failed then Some (True, index, r, s)
        else processCommands n (Suc index) r p s
      })"

definition completeRequest :: "PS2Request \<Rightarrow> ctl \<Rightarrow> ctl" where
  "completeRequest r s =
     (if completionTarget r \<noteq> 0 \<and> completionAction r \<noteq> NullAction
      then emit (EvComplete r) s
      else freeRequest r s)"

definition processRequest :: "PS2Request \<Rightarrow> ctl \<Rightarrow> (PS2Request \<times> ctl) option" where
  "processRequest request s = do {
     (failed, index, request, s) \<leftarrow>
       (if hardwareOffline s then Some (True, 0, request, s)
        else processCommands (unat (commandsCount request)) 0 request
               \<lparr>deviceMode = kDT_Keyboard, transmitToMouse = False\<rparr> s);
     let request = (if failed then request\<lparr>commandsCount := of_nat index\<rparr> else request);
     Some (request, completeRequest request s)
   }"

section \<open>The request queue\<close>

fun processRequests :: "PS2Request list \<Rightarrow> ctl \<Rightarrow> ctl option" where
  "processRequests [] s = Some s"
| "processRequests (request # localQueue) s = do {
     (request, s) \<leftarrow> processRequest request (useRequest request s);
     processRequests localQueue s
   }"

definition processRequestQueue :: "ctl \<Rightarrow> ctl option" where
  "processRequestQueue s = processRequests (requestQueue s) (s\<lparr>requestQueue := []\<rparr>)"

text \<open>
  The address of the controller object itself, the completion target of synchronous requests; any
  non-null pointer serves.
\<close>

abbreviation thisController :: nat where "thisController \<equiv> 1"

definition submitRequestAndBlockGated :: "bool \<Rightarrow> PS2Request \<Rightarrow> ctl \<Rightarrow> (PS2Request \<times> ctl) option" where
  "submitRequestAndBlockGated inGate request s =
     (let s = useRequest request s;
          request = request\<lparr>completionTarget := thisController,
            completionAction := submitRequestAndBlockCompletion, completionParam := 0\<rparr>
      in if inGate then do {
           s \<leftarrow> processRequestQueue s;
           processRequest request s
         }
         else Some (request, snd (submitRequest request s)))"

text \<open>
  IOCommandGate::runAction closes the gate of the work loop around the action, so the action finds
  the work loop in gate.
\<close>

definition submitRequestAndBlock :: "PS2Request \<Rightarrow> ctl \<Rightarrow> (PS2Request \<times> ctl) option" where
  "submitRequestAndBlock request s = submitRequestAndBlockGated True request s"

section \<open>The interrupt service loop\<close>

text \<open>
  interruptOccurred drains the keyboard queue first, then the mouse bytes that are ready at the
  port, checking the keyboard queue again after each byte.
\<close>

function interruptOccurred_loop :: "ctl \<Rightarrow> ctl option" where
  "interruptOccurred_loop s =
     (case dequeueKeyboardData s of
        Some (key, s') \<Rightarrow> interruptOccurred_loop (dispatchDriverInterrupt kDT_Keyboard key s')
      | None \<Rightarrow>
          (case inp s of
             [] \<Rightarrow> None
           | status # t \<Rightarrow>
               if status AND (kOutputReady OR kMouseData) = kOutputReady OR kMouseData then
                 (case t of
                    [] \<Rightarrow> None
                  | datum # t' \<Rightarrow>
                      interruptOccurred_loop (dispatchDriverInterrupt kDT_Mouse datum (s\<lparr>inp := t'\<rparr>)))
               else Some (s\<lparr>inp := t\<rparr>)))"
  by pat_completeness auto
termination
  by (relation "measure (\<lambda>s. length (inp s) + length (keyboardQueue s))")
    (auto simp: dequeueKeyboardData_def split: list.splits)

declare interruptOccurred_loop.simps [simp del]

definition interruptOccurred :: "ctl \<Rightarrow> ctl option" where
  "interruptOccurred s = (if hardwareOffline s then Some s else interruptOccurred_loop s)"

end
