(* ===== verification/PS2_RequestProps.thy ===== *)
theory PS2_RequestProps
  imports PS2_Request
begin

text \<open>
  Facts about reads, writes and the request processor that the rest of the development shares:
  what port operations leave alone (io_step), what the processor leaves of a request
  (same_shape), and the bytes a run of commands puts on the wire to the mouse.
\<close>

section \<open>Port operations change the input, the events and the keyboard queue only\<close>

definition io_step :: "ctl \<Rightarrow> ctl \<Rightarrow> bool" where
  "io_step s s' \<longleftrightarrow> (\<exists>es. out s' = out s @ es) \<and> (kbdQueue_ok s \<longrightarrow> kbdQueue_ok s') \<and>
    ub s' = ub s \<and> refs s' = refs s \<and> keyboardData s' = keyboardData s \<and>
    debuggingEnabled s' = debuggingEnabled s \<and> requestQueue s' = requestQueue s \<and>
    nextRequest s' = nextRequest s \<and> liveRequests s' = liveRequests s \<and>
    hardwareOffline s' = hardwareOffline s \<and>
    currentPowerState s' = currentPowerState s \<and>
    controllerUsesMuxMode s' = controllerUsesMuxMode s \<and>
    muxModeRoutePrefix s' = muxModeRoutePrefix s \<and>
    interruptKeyboard s' = interruptKeyboard s \<and>
    interruptMouse s' = interruptMouse s \<and>
    powerControlKeyboard s' = powerControlKeyboard s \<and>
    powerControlMouse s' = powerControlMouse s \<and>
    extendedState s' = extendedState s \<and> modifierState s' = modifierState s \<and>
    ps2notificationKeyboard s' = ps2notificationKeyboard s \<and>
    ps2notificationMouseTouchpad s' = ps2notificationMouseTouchpad s"

lemma io_step_refl [simp, intro]: "io_step s s"
  by (simp add: io_step_def)

lemma io_step_trans [trans]: "io_step a b \<Longrightarrow> io_step b c \<Longrightarrow> io_step a c"
  unfolding io_step_def by auto

lemma io_step_fields:
  assumes "io_step s s'"
  shows
    "ub s' = ub s" "refs s' = refs s" "keyboardData s' = keyboardData s"
    "debuggingEnabled s' = debuggingEnabled s" "requestQueue s' = requestQueue s"
    "nextRequest s' = nextRequest s" "liveRequests s' = liveRequests s"
    "hardwareOffline s' = hardwareOffline s" "currentPowerState s' = currentPowerState s"
    "controllerUsesMuxMode s' = controllerUsesMuxMode s"
    "muxModeRoutePrefix s' = muxModeRoutePrefix s"
    "interruptKeyboard s' = interruptKeyboard s" "interruptMouse s' = interruptMouse s"
    "powerControlKeyboard s' = powerControlKeyboard s"
    "powerControlMouse s' = powerControlMouse s" "extendedState s' = extendedState s"
    "modifierState s' = modifierState s"
    "ps2notificationKeyboard s' = ps2notificationKeyboard s"
    "ps2notificationMouseTouchpad s' = ps2notificationMouseTouchpad s"
  using assms by (auto simp: io_step_def)

lemma io_step_kbdQueue: "io_step s s' \<Longrightarrow> kbdQueue_ok s \<Longrightarrow> kbdQueue_ok s'"
  by (simp add: io_step_def)

lemma kbdQueue_ok_frame [simp]:
  "kbdQueue_ok (s\<lparr>inp := t\<rparr>) = kbdQueue_ok s" "kbdQueue_ok (emit e s) = kbdQueue_ok s"
  by (simp_all add: kbdQueue_ok_def)

lemma io_step_inp [intro]: "io_step s (s\<lparr>inp := t\<rparr>)"
  by (simp add: io_step_def)

lemma io_step_emit [intro]: "io_step s (emit e s)"
  by (simp add: io_step_def)

lemma io_step_dispatch [intro]: "io_step s (dispatchDriverInterrupt d b s)"
  by (cases d) (auto simp: dispatchDriverInterrupt_def)

lemma io_step_fold_dispatch [intro]: "io_step s (fold (dispatchDriverInterrupt d) bs s)"
  by (induction bs arbitrary: s) (auto intro: io_step_trans)

lemma io_step_dequeue: "dequeueKeyboardData s = Some (k, s') \<Longrightarrow> io_step s s'"
  using dequeue_ok [of s k s'] by (auto simp: io_step_def dequeueKeyboardData_def split: list.splits)

lemma io_step_write:
  "writeDataPort b s = Some s' \<Longrightarrow> io_step s s'"
  "writeCommandPort b s = Some s' \<Longrightarrow> io_step s s'"
  by (auto dest!: writePort_SomeD simp: io_step_def)

text \<open>A read, beyond that, only ever appends deliveries to interrupt routines.\<close>

fun is_delivery :: "event \<Rightarrow> bool" where
  "is_delivery (EvInterrupt a t b) = True"
| "is_delivery _ = False"

definition read_step :: "ctl \<Rightarrow> ctl \<Rightarrow> bool" where
  "read_step s s' \<longleftrightarrow> io_step s s' \<and> (\<exists>es. out s' = out s @ es \<and> list_all is_delivery es)"

lemma read_step_io: "read_step s s' \<Longrightarrow> io_step s s'"
  by (simp add: read_step_def)

lemma read_step_refl [simp, intro]: "read_step s s"
  by (simp add: read_step_def)

lemma read_step_trans [trans]: "read_step a b \<Longrightarrow> read_step b c \<Longrightarrow> read_step a c"
  unfolding read_step_def by (auto intro: io_step_trans)

lemma read_step_inp [intro]: "read_step s (s\<lparr>inp := t\<rparr>)"
  by (simp add: read_step_def io_step_inp)

lemma read_step_dispatch [intro]: "read_step s (dispatchDriverInterrupt d b s)"
  unfolding read_step_def using io_step_dispatch [of s d b]
  by (auto simp: deliveries_def)

lemma read_step_fold_dispatch [intro]: "read_step s (fold (dispatchDriverInterrupt d) bs s)"
  by (induction bs arbitrary: s) (auto intro: read_step_trans)

lemma read_step_dequeue: "dequeueKeyboardData s = Some (k, s') \<Longrightarrow> read_step s s'"
  unfolding read_step_def using io_step_dequeue
  by (auto simp: dequeueKeyboardData_def split: list.splits)

lemma read_step_fetch:
  "fetchByte d t st s = Some (Fetched r b t' st' s') \<Longrightarrow> read_step s s'"
  "fetchByte d t st s = Some (TimedOut s') \<Longrightarrow> read_step s s'"
  by (auto simp: fetchByte_def inb_def read_step_inp dest: read_step_dequeue
      split: option.splits prod.splits if_splits list.splits)

lemma read_step_readDataPort_loop:
  "readDataPort_loop d t st s = Some (b, s') \<Longrightarrow> read_step s s'"
proof (induction d t st s rule: readDataPort_loop.induct)
  case (1 d t st s)
  note unf = 1(2) [unfolded readDataPort_loop.simps [of d t st s]]
  then obtain f where f: "fetchByte d t st s = Some f" by (cases "fetchByte d t st s") auto
  show ?case
  proof (cases f)
    case (TimedOut s1)
    with unf f have "s1 = s'" by simp
    then show ?thesis using f TimedOut by (auto dest: read_step_fetch)
  next
    case (Fetched r x t1 st1 s1)
    then have s1: "read_step s s1" using f by (auto dest: read_step_fetch)
    show ?thesis
    proof (cases r)
      case True
      then show ?thesis using unf f Fetched s1 by simp
    next
      case False
      then have "read_step (dispatchDriverInterrupt (otherDevice d) x s1) s'"
        using unf f Fetched 1(1) [OF f Fetched] by simp
      with s1 show ?thesis by (blast intro: read_step_trans)
    qed
  qed
qed

lemma read_step_readDataPort: "readDataPort d s = Some (b, s') \<Longrightarrow> read_step s s'"
  by (auto simp: readDataPort_def dest: read_step_readDataPort_loop)

lemma read_step_readDataPortExpect_loop:
  "readDataPortExpect_loop d e h t st s = Some (b, s') \<Longrightarrow> read_step s s'"
proof (induction d e h t st s rule: readDataPortExpect_loop.induct)
  case (1 d e h t st s)
  note unf = 1(3) [unfolded readDataPortExpect_loop.simps [of d e h t st s]]
  then obtain f where f: "fetchByte d t st s = Some f" by (cases "fetchByte d t st s") auto
  show ?case
  proof (cases f)
    case (TimedOut s1)
    with unf f have "s1 = s'" by simp
    then show ?thesis using f TimedOut by (auto dest: read_step_fetch)
  next
    case (Fetched r x t1 st1 s1)
    then have s1: "read_step s s1" using f by (auto dest: read_step_fetch)
    consider (final) "r" "x = e \<or> 3 \<le> length h" | (hold) "r" "x \<noteq> e" "length h < 3" | (other) "\<not> r"
      by fastforce
    then show ?thesis
    proof cases
      case final
      then show ?thesis using unf f Fetched s1
        by (auto intro: read_step_trans split: if_splits)
    next
      case hold
      then show ?thesis using unf f Fetched s1 1(1) [OF f Fetched hold]
        by (auto intro: read_step_trans)
    next
      case other
      then have "read_step (dispatchDriverInterrupt (otherDevice d) x s1) s'"
        using unf f Fetched 1(2) [OF f Fetched other] by simp
      with s1 show ?thesis by (blast intro: read_step_trans)
    qed
  qed
qed

lemma read_step_readDataPortExpect: "readDataPortExpect d e s = Some (b, s') \<Longrightarrow> read_step s s'"
  by (auto simp: readDataPortExpect_def dest: read_step_readDataPortExpect_loop)

lemma io_step_processCommand: "processCommand c p s = Some (f, b, p', s') \<Longrightarrow> io_step s s'"
  by (cases "command c")
     (auto simp: processCommand_def dest!: read_step_readDataPort read_step_readDataPortExpect
       io_step_write read_step_io intro: io_step_trans)

section \<open>The port writes of a run\<close>

text \<open>The writes of a run, without the deliveries in between.\<close>

fun is_write :: "event \<Rightarrow> bool" where
  "is_write (EvOut port b) = True"
| "is_write _ = False"

definition writes :: "ctl \<Rightarrow> event list" where
  "writes s = filter is_write (out s)"

lemma writes_emit [simp]: "writes (emit e s) = writes s @ (if is_write e then [e] else [])"
  by (simp add: writes_def)

lemma writes_inp [simp]: "writes (s\<lparr>inp := t\<rparr>) = writes s"
  by (simp add: writes_def)

lemma deliveries_not_writes: "list_all is_delivery es \<Longrightarrow> filter is_write es = []"
proof (induction es)
  case (Cons e es)
  then show ?case by (cases e) auto
qed simp

lemma writes_read_step: "read_step s s' \<Longrightarrow> writes s' = writes s"
  by (auto simp: read_step_def writes_def deliveries_not_writes)

lemma writes_read: "readDataPort d s = Some (b, s') \<Longrightarrow> writes s' = writes s"
  by (rule writes_read_step [OF read_step_readDataPort])

lemma writes_write:
  "writeDataPort b s = Some s' \<Longrightarrow> writes s' = writes s @ [EvOut kDataPort b]"
  "writeCommandPort b s = Some s' \<Longrightarrow> writes s' = writes s @ [EvOut kCommandPort b]"
  by (auto dest!: writePort_SomeD)

section \<open>What a request keeps\<close>

definition reads_byte :: "PS2CommandEnum \<Rightarrow> bool" where
  "reads_byte c \<longleftrightarrow> c = kPS2C_ReadDataPort \<or> c = kPS2C_ReadMouseDataPort"

definition same_shape :: "PS2Request \<Rightarrow> PS2Request \<Rightarrow> bool" where
  "same_shape r r' \<longleftrightarrow>
     reqAddr r' = reqAddr r \<and> length (commands r') = length (commands r) \<and>
     map command (commands r') = map command (commands r) \<and>
     (\<forall>i < length (commands r). \<not> reads_byte (command (commands r ! i)) \<longrightarrow>
        commands r' ! i = commands r ! i)"

lemma same_shape_refl [simp]: "same_shape r r"
  by (simp add: same_shape_def)

lemma same_shape_trans: "same_shape a b \<Longrightarrow> same_shape b c \<Longrightarrow> same_shape a c"
  unfolding same_shape_def by (metis nth_map)

lemma same_shape_setInOrOut:
  assumes "i < length (commands r)" "reads_byte (command (commands r ! i))"
  shows "same_shape r (setInOrOut i b r)"
proof -
  have "map command ((commands r)[i := (commands r ! i)\<lparr>inOrOut := b\<rparr>]) = map command (commands r)"
    using assms by (simp add: map_update) (simp add: nth_map [symmetric] del: nth_map)
  then show ?thesis using assms by (auto simp: same_shape_def setInOrOut_def nth_list_update)
qed

lemma processCommand_byte:
  "processCommand c p s = Some (f, Some b, p', s') \<Longrightarrow> reads_byte (command c)"
  "processCommand c p s = Some (f, Some b, p', s') \<Longrightarrow> \<not> f"
  by (cases "command c"; auto simp: processCommand_def reads_byte_def)+

lemma setInOrOut_simps [simp]:
  "commandsCount (setInOrOut i b r) = commandsCount r"
  "length (commands (setInOrOut i b r)) = length (commands r)"
  "completionTarget (setInOrOut i b r) = completionTarget r"
  "completionAction (setInOrOut i b r) = completionAction r"
  "reqAddr (setInOrOut i b r) = reqAddr r"
  by (simp_all add: setInOrOut_def)

lemma processCommands_props:
  assumes "processCommands n i r p s = Some (failed, j, r', s')" "i + n \<le> length (commands r)"
  shows "io_step s s' \<and> same_shape r r' \<and> commandsCount r' = commandsCount r \<and>
    completionTarget r' = completionTarget r \<and> completionAction r' = completionAction r \<and>
    i \<le> j \<and> (if failed then j < i + n else j = i + n)"
  using assms
proof (induction n i r p s rule: processCommands.induct)
  case (2 n i r p s)
  from 2(2,3) obtain f b p1 s1 where c: "processCommand (commands r ! i) p s = Some (f, b, p1, s1)"
    by (auto split: if_splits)
  let ?r1 = "case b of None \<Rightarrow> r | Some x \<Rightarrow> setInOrOut i x r"
  have shape: "same_shape r ?r1"
    using 2(3) processCommand_byte(1) c by (cases b) (auto intro: same_shape_setInOrOut)
  show ?case
  proof (cases f)
    case True
    then show ?thesis using 2(2,3) c shape io_step_processCommand [OF c]
      by (auto split: if_splits option.splits)
  next
    case False
    have rest: "processCommands n (Suc i) ?r1 p1 s1 = Some (failed, j, r', s')"
      using 2(2,3) c False by simp
    have len: "Suc i + n \<le> length (commands ?r1)" using 2(3) by (cases b) simp_all
    have "\<not> length (commands r) \<le> i" using 2(3) by simp
    then have "io_step s1 s' \<and> same_shape ?r1 r' \<and> commandsCount r' = commandsCount ?r1 \<and>
        completionTarget r' = completionTarget ?r1 \<and> completionAction r' = completionAction ?r1 \<and>
        Suc i \<le> j \<and> (if failed then j < Suc i + n else j = Suc i + n)"
      by (intro 2(1) [OF _ c refl refl refl refl]) (use False rest len in simp_all)
    then show ?thesis
      using io_step_processCommand [OF c] shape
      by (cases b) (auto intro: io_step_trans same_shape_trans split: if_splits option.splits)
  qed
qed auto

section \<open>The bytes on the wire to the mouse\<close>

text \<open>
  A byte written to the data port goes to the mouse when the write before it on the command port
  was kCP_TransmitToMouse or one of the four routing prefixes of a multiplexing controller.
\<close>

definition is_mouse_prefix :: "u8 \<Rightarrow> bool" where
  "is_mouse_prefix b \<longleftrightarrow> b \<in> {kCP_TransmitToMouse, 0x90, 0x91, 0x92, 0x93}"

fun mouse_pending :: "bool \<Rightarrow> event list \<Rightarrow> bool" where
  "mouse_pending pre [] = pre"
| "mouse_pending pre (EvOut port b # es) =
     mouse_pending (if port = kCommandPort then is_mouse_prefix b else False) es"
| "mouse_pending pre (e # es) = mouse_pending pre es"

fun mouse_sent :: "bool \<Rightarrow> event list \<Rightarrow> u8 list" where
  "mouse_sent pre [] = []"
| "mouse_sent pre (EvOut port b # es) =
     (if port = kCommandPort then mouse_sent (is_mouse_prefix b) es
      else if pre then b # mouse_sent False es else mouse_sent False es)"
| "mouse_sent pre (e # es) = mouse_sent pre es"

lemma mouse_pending_append:
  "mouse_pending p (xs @ ys) = mouse_pending (mouse_pending p xs) ys"
  by (induction p xs rule: mouse_pending.induct) auto

lemma mouse_sent_append:
  "mouse_sent p (xs @ ys) = mouse_sent p xs @ mouse_sent (mouse_pending p xs) ys"
  by (induction p xs rule: mouse_sent.induct) auto

lemma mouse_deliveries:
  "list_all is_delivery es \<Longrightarrow> mouse_pending p es = p \<and> mouse_sent p es = []"
proof (induction es)
  case (Cons e es)
  then show ?case by (cases e) auto
qed simp

definition wire :: "ctl \<Rightarrow> u8 list" where
  "wire s = mouse_sent False (out s)"

definition wire_idle :: "ctl \<Rightarrow> bool" where
  "wire_idle s \<longleftrightarrow> \<not> mouse_pending False (out s)"

text \<open>
  The same with the prefix each byte went out under: route_pending is the prefix the next data
  write goes under, sent_under the bytes with theirs.
\<close>

fun route_pending :: "u8 option \<Rightarrow> event list \<Rightarrow> u8 option" where
  "route_pending pre [] = pre"
| "route_pending pre (EvOut port b # es) =
     route_pending (if port = kCommandPort \<and> is_mouse_prefix b then Some b else None) es"
| "route_pending pre (e # es) = route_pending pre es"

fun sent_under :: "u8 option \<Rightarrow> event list \<Rightarrow> (u8 \<times> u8) list" where
  "sent_under pre [] = []"
| "sent_under pre (EvOut port b # es) =
     (if port = kCommandPort then sent_under (if is_mouse_prefix b then Some b else None) es
      else case pre of Some a \<Rightarrow> (a, b) # sent_under None es | None \<Rightarrow> sent_under None es)"
| "sent_under pre (e # es) = sent_under pre es"

lemma route_pending_append:
  "route_pending p (xs @ ys) = route_pending (route_pending p xs) ys"
  by (induction p xs rule: route_pending.induct) auto

lemma sent_under_append:
  "sent_under p (xs @ ys) = sent_under p xs @ sent_under (route_pending p xs) ys"
  by (induction p xs rule: sent_under.induct) (auto split: option.splits)

lemma mouse_pending_route: "mouse_pending (p \<noteq> None) es = (route_pending p es \<noteq> None)"
proof (induction p es rule: route_pending.induct)
  case (2 pre port b es)
  then show ?case by (cases "port = kCommandPort \<and> is_mouse_prefix b") auto
qed simp_all

lemma mouse_sent_under: "mouse_sent (p \<noteq> None) es = map snd (sent_under p es)"
proof (induction p es rule: sent_under.induct)
  case (2 pre port b es)
  then show ?case by (cases pre) auto
qed simp_all

lemma sent_under_deliveries:
  "list_all is_delivery es \<Longrightarrow> route_pending p es = p \<and> sent_under p es = []"
proof (induction es)
  case (Cons e es)
  then show ?case by (cases e) auto
qed simp

definition routed :: "ctl \<Rightarrow> (u8 \<times> u8) list" where
  "routed s = sent_under None (out s)"

lemma wire_routed: "wire s = map snd (routed s)"
  using mouse_sent_under [of None] by (simp add: wire_def routed_def)

lemma wire_idle_route: "wire_idle s \<longleftrightarrow> route_pending None (out s) = None"
  using mouse_pending_route [of None] by (simp add: wire_idle_def)

text \<open>The prefix the composite mouse command writes.\<close>

definition mousePrefix :: "ctl \<Rightarrow> u8" where
  "mousePrefix s = (if controllerUsesMuxMode s then muxModeRoutePrefix s else kCP_TransmitToMouse)"

lemma mousePrefix_io_step: "io_step s s' \<Longrightarrow> mousePrefix s' = mousePrefix s"
  by (simp add: mousePrefix_def io_step_fields)

text \<open>A command that leaves no routing prefix pending for the write after it.\<close>

definition plain_command :: "PS2Command \<Rightarrow> bool" where
  "plain_command c \<longleftrightarrow> (command c = kPS2C_WriteCommandPort \<longrightarrow> \<not> is_mouse_prefix (inOrOut c))"

definition mouse_bytes :: "PS2Command list \<Rightarrow> u8 list" where
  "mouse_bytes cs = map inOrOut (filter (\<lambda>c. command c = kPS2C_SendMouseCommandAndCompareAck) cs)"

lemma mouse_bytes_simps [simp]:
  "mouse_bytes [] = []"
  "mouse_bytes (c # cs) = (if command c = kPS2C_SendMouseCommandAndCompareAck
     then inOrOut c # mouse_bytes cs else mouse_bytes cs)"
  "mouse_bytes (cs @ ds) = mouse_bytes cs @ mouse_bytes ds"
  by (simp_all add: mouse_bytes_def)

definition route_ok :: "ctl \<Rightarrow> bool" where
  "route_ok s \<longleftrightarrow> (controllerUsesMuxMode s \<longrightarrow> is_mouse_prefix (muxModeRoutePrefix s))"

lemma route_ok_io_step: "io_step s s' \<Longrightarrow> route_ok s' = route_ok s"
  by (simp add: route_ok_def io_step_fields)

text \<open>
  The events of a run of commands: port writes and deliveries to interrupt routines, no
  completion, the mouse bytes of the commands all under the controller's prefix, and no prefix
  left pending.
\<close>

fun is_port_event :: "event \<Rightarrow> bool" where
  "is_port_event (EvOut port b) = True"
| "is_port_event (EvInterrupt a t b) = True"
| "is_port_event _ = False"

lemma is_port_event_delivery: "list_all is_delivery es \<Longrightarrow> list_all is_port_event es"
proof (induction es)
  case (Cons e es)
  then show ?case by (cases e) auto
qed simp

definition sends_in :: "ctl \<Rightarrow> PS2Command list \<Rightarrow> ctl \<Rightarrow> bool" where
  "sends_in s cs s' \<longleftrightarrow> (\<exists>es. out s' = out s @ es \<and> list_all is_port_event es \<and>
     route_pending None es = None \<and>
     sent_under None es = map (Pair (mousePrefix s)) (mouse_bytes cs))"

lemma sends_in_read_step: "read_step s s' \<Longrightarrow> mouse_bytes cs = [] \<Longrightarrow> sends_in s cs s'"
  by (auto simp: read_step_def sends_in_def is_port_event_delivery sent_under_deliveries)

lemma sends_in_refl: "sends_in s [] s"
  by (simp add: sends_in_def)

lemma sends_in_append:
  assumes "sends_in s cs s1" "sends_in s1 ds s2" "mousePrefix s1 = mousePrefix s"
  shows "sends_in s (cs @ ds) s2"
proof -
  from assms obtain es fs where
    "out s1 = out s @ es" "list_all is_port_event es" "route_pending None es = None"
    "sent_under None es = map (Pair (mousePrefix s)) (mouse_bytes cs)"
    "out s2 = out s1 @ fs" "list_all is_port_event fs" "route_pending None fs = None"
    "sent_under None fs = map (Pair (mousePrefix s)) (mouse_bytes ds)"
    by (auto simp: sends_in_def)
  then show ?thesis unfolding sends_in_def
    by (intro exI [of _ "es @ fs"]) (simp add: route_pending_append sent_under_append)
qed

lemma sends_in_routed:
  assumes "sends_in s cs s'" "wire_idle s"
  shows "routed s' = routed s @ map (Pair (mousePrefix s)) (mouse_bytes cs) \<and> wire_idle s'"
  using assms
  by (auto simp: sends_in_def routed_def wire_idle_route sent_under_append route_pending_append)

lemma processCommand_sends:
  assumes "processCommand c p s = Some (f, b, p', s')" "plain_command c" "route_ok s"
  shows "sends_in s [c] s'"
proof (cases "command c = kPS2C_SendMouseCommandAndCompareAck")
  case True
  from True assms(1) obtain s1 s2 x where w: "writeCommandPort (mousePrefix s) s = Some s1"
      "writeDataPort (inOrOut c) s1 = Some s2"
      "readDataPortExpect kDT_Mouse kSC_Acknowledge s2 = Some (x, s')"
    by (auto simp: processCommand_def mousePrefix_def)
  have pre: "is_mouse_prefix (mousePrefix s)"
    using assms(3) by (auto simp: route_ok_def is_mouse_prefix_def mousePrefix_def)
  from read_step_readDataPortExpect [OF w(3)] obtain es
    where es: "out s' = out s2 @ es" "list_all is_delivery es" by (auto simp: read_step_def)
  have "out s' = out s @ EvOut kCommandPort (mousePrefix s) # EvOut kDataPort (inOrOut c) # es"
    using es(1) w(1,2) by (auto dest!: writePort_SomeD)
  then show ?thesis using True pre es(2)
    by (simp add: sends_in_def is_port_event_delivery sent_under_deliveries)
next
  case False
  consider (rd) "read_step s s'"
    | (wr) port t where "port = kDataPort \<or> \<not> is_mouse_prefix (inOrOut c)"
        "s' = emit (EvOut port (inOrOut c)) (s\<lparr>inp := t\<rparr>)"
    using False assms(1,2)
    by (cases "command c"; auto simp: processCommand_def plain_command_def
        dest: read_step_readDataPort read_step_readDataPortExpect dest!: writePort_SomeD; blast)
  then show ?thesis
  proof cases
    case rd
    then show ?thesis using False by (intro sends_in_read_step) simp_all
  next
    case wr
    then show ?thesis using False by (auto simp: sends_in_def)
  qed
qed

lemma processCommands_sends:
  assumes "processCommands n i r p s = Some (failed, j, r', s')" "i + n \<le> length (commands r)"
    "\<forall>c \<in> set (take n (drop i (commands r))). plain_command c" "route_ok s"
  shows "sends_in s (take (if failed then Suc j - i else n) (drop i (commands r))) s'"
  using assms
proof (induction n i r p s rule: processCommands.induct)
  case (2 n i r p s)
  let ?c = "commands r ! i"
  from 2(2,3) obtain f b p1 s1 where c: "processCommand ?c p s = Some (f, b, p1, s1)"
    by (auto split: if_splits)
  have drop: "drop i (commands r) = ?c # drop (Suc i) (commands r)"
    using 2(3) by (simp add: Cons_nth_drop_Suc)
  then have mc: "plain_command ?c" using 2(4) by simp
  note w1 = processCommand_sends [OF c mc 2(5)]
  let ?r1 = "case b of None \<Rightarrow> r | Some x \<Rightarrow> setInOrOut i x r"
  show ?case
  proof (cases f)
    case True
    then have "failed" "j = i" "s' = s1" using 2(2,3) c by (auto split: option.splits)
    then show ?thesis using w1 drop by simp
  next
    case False
    have rest: "processCommands n (Suc i) ?r1 p1 s1 = Some (failed, j, r', s')"
      using 2(2,3) c False by simp
    have len: "Suc i + n \<le> length (commands ?r1)" using 2(3) by (cases b) simp_all
    have same: "drop (Suc i) (commands ?r1) = drop (Suc i) (commands r)"
      by (cases b) (simp_all add: setInOrOut_def)
    note io = io_step_processCommand [OF c]
    have r1: "route_ok s1" using 2(5) route_ok_io_step [OF io] by simp
    have "sends_in s1 (take (if failed then Suc j - Suc i else n) (drop (Suc i) (commands ?r1))) s'"
      by (intro 2(1) [OF _ c refl refl refl refl])
         (use False rest len same drop r1 2(3,4) in simp_all)
    from sends_in_append [OF w1 this mousePrefix_io_step [OF io]] show ?thesis
      using same drop processCommands_props [OF rest len] by (auto simp: Suc_diff_le)
  qed
qed (auto simp: sends_in_refl)

end
