(* ===== verification/PS2_Processor.thy ===== *)
theory PS2_Processor
  imports PS2_RequestProps
begin

text \<open>
  Correctness of the request processor, of the request queue and of the interrupt service loop of
  ApplePS2Controller.cpp.
\<close>

section \<open>Library lemmas\<close>

definition request_ok :: "PS2Request \<Rightarrow> bool" where
  "request_ok r \<longleftrightarrow> length (commands r) = kMaxCommands \<and> unat (commandsCount r) \<le> kMaxCommands"

definition has_completion :: "PS2Request \<Rightarrow> bool" where
  "has_completion r \<longleftrightarrow> completionTarget r \<noteq> 0 \<and> completionAction r \<noteq> NullAction"

abbreviation proc0 :: proc where
  "proc0 \<equiv> \<lparr>deviceMode = kDT_Keyboard, transmitToMouse = False\<rparr>"

lemma same_shape_count [simp]:
  "same_shape r (r'\<lparr>commandsCount := n\<rparr>) = same_shape r r'"
  "same_shape (r\<lparr>commandsCount := n\<rparr>) r' = same_shape r r'"
  by (simp_all add: same_shape_def)

lemma io_step_completeRequest: "has_completion r \<Longrightarrow> io_step s (completeRequest r s)"
  by (auto simp: completeRequest_def has_completion_def)

lemma processRequest_SomeE:
  assumes "processRequest r s = Some (r', s')" "\<not> hardwareOffline s" "request_ok r"
  obtains failed j r1 s1 where
    "processCommands (unat (commandsCount r)) 0 r proc0 s = Some (failed, j, r1, s1)"
    "r' = (if failed then r1\<lparr>commandsCount := of_nat j\<rparr> else r1)" "s' = completeRequest r' s1"
    "io_step s s1" "same_shape r r1" "commandsCount r1 = commandsCount r"
    "completionTarget r' = completionTarget r" "completionAction r' = completionAction r"
    "if failed then j < unat (commandsCount r) \<and> unat (commandsCount r') = j
     else j = unat (commandsCount r) \<and> commandsCount r' = commandsCount r"
proof -
  obtain failed j r1 s1 where
    p: "processCommands (unat (commandsCount r)) 0 r proc0 s = Some (failed, j, r1, s1)"
      "r' = (if failed then r1\<lparr>commandsCount := of_nat j\<rparr> else r1)" "s' = completeRequest r' s1"
    using assms by (auto simp: processRequest_def Let_def)
  have "0 + unat (commandsCount r) \<le> length (commands r)" using assms(3) by (simp add: request_ok_def)
  note props = processCommands_props [OF p(1) this]
  have "unat (commandsCount r) < 256" using assms(3) by (simp add: request_ok_def)
  with props p(2) show ?thesis
    by (intro that [OF p]) (auto simp: unat_of_nat_u8 split: if_splits)
qed

lemma processRequest_offline:
  "hardwareOffline s \<Longrightarrow> processRequest r s =
     Some (r\<lparr>commandsCount := 0\<rparr>, completeRequest (r\<lparr>commandsCount := 0\<rparr>) s)"
  by (simp add: processRequest_def Let_def)

lemma processRequests_append:
  "processRequests (xs @ ys) s = Option.bind (processRequests xs s) (processRequests ys)"
  by (induction xs arbitrary: s) (auto split: Option.bind_split)

lemma processRequest_progress:
  assumes "processRequest r s = Some (r', s')" "request_ok r" "has_completion r"
  shows "unat (commandsCount r') \<le> unat (commandsCount r) \<and> same_shape r r' \<and> io_step s s'"
proof (cases "hardwareOffline s")
  case True
  then show ?thesis using assms io_step_completeRequest [of "r\<lparr>commandsCount := 0\<rparr>" s]
    by (auto simp: processRequest_offline has_completion_def)
next
  case False
  from processRequest_SomeE [OF assms(1) False assms(2)] obtain failed j r1 s1 where
    p: "r' = (if failed then r1\<lparr>commandsCount := of_nat j\<rparr> else r1)" "s' = completeRequest r' s1"
      "io_step s s1" "same_shape r r1" "completionTarget r' = completionTarget r"
      "completionAction r' = completionAction r"
      "if failed then j < unat (commandsCount r) \<and> unat (commandsCount r') = j
       else j = unat (commandsCount r) \<and> commandsCount r' = commandsCount r" by metis
  have "io_step s s'" using p assms(3) io_step_completeRequest [of r' s1]
    by (auto simp: has_completion_def intro: io_step_trans)
  then show ?thesis using p by (auto simp: io_step_fields split: if_splits)
qed

text \<open>
  What the processor did of a request that came back as r': the commands of r it has run, all of
  them when commandsCount comes back unchanged, and up to and including the command that failed
  otherwise.
\<close>

definition commandsRun :: "PS2Request \<Rightarrow> PS2Request \<Rightarrow> PS2Command list" where
  "commandsRun r r' =
     take (if commandsCount r' = commandsCount r then unat (commandsCount r)
           else Suc (unat (commandsCount r'))) (commands r)"

definition plain_request :: "PS2Request \<Rightarrow> bool" where
  "plain_request r \<longleftrightarrow> request_ok r \<and> has_completion r \<and>
     (\<forall>c \<in> set (take (unat (commandsCount r)) (commands r)). plain_command c)"

lemma processRequest_block:
  assumes "processRequest r s = Some (r', s')" "plain_request r" "\<not> hardwareOffline s" "route_ok s"
  obtains s1 where "sends_in s (commandsRun r r') s1" "s' = emit (EvComplete r') s1" "io_step s s1"
    "same_shape r r'" "unat (commandsCount r') \<le> unat (commandsCount r)"
proof -
  have ok: "request_ok r" "has_completion r"
    "\<forall>c \<in> set (take (unat (commandsCount r)) (drop 0 (commands r))). plain_command c"
    using assms(2) by (simp_all add: plain_request_def)
  from processRequest_SomeE [OF assms(1,3) ok(1)] obtain failed j r1 s1 where
    p: "processCommands (unat (commandsCount r)) 0 r proc0 s = Some (failed, j, r1, s1)"
      "s' = completeRequest r' s1" "io_step s s1" "completionTarget r' = completionTarget r"
      "completionAction r' = completionAction r"
      "if failed then j < unat (commandsCount r) \<and> unat (commandsCount r') = j
       else j = unat (commandsCount r) \<and> commandsCount r' = commandsCount r" by metis
  have "sends_in s (take (if failed then Suc j - 0 else unat (commandsCount r)) (drop 0 (commands r))) s1"
    by (rule processCommands_sends [OF p(1) _ ok(3) assms(4)])
       (use ok(1) in \<open>simp add: request_ok_def\<close>)
  then have "sends_in s (commandsRun r r') s1"
    using p(6) by (cases failed) (auto simp: commandsRun_def)
  moreover have "s' = emit (EvComplete r') s1"
    using p(2,4,5) ok(2) by (simp add: completeRequest_def has_completion_def)
  ultimately show ?thesis
    using that p(3) processRequest_progress [OF assms(1) ok(1,2)] by blast
qed

lemma processRequest_routed:
  assumes "processRequest r s = Some (r', s')" "plain_request r" "\<not> hardwareOffline s" "route_ok s"
    "wire_idle s"
  shows "routed s' = routed s @ map (Pair (mousePrefix s)) (mouse_bytes (commandsRun r r')) \<and>
    wire_idle s'"
proof -
  from processRequest_block [OF assms(1-4)] obtain s1
    where s1: "sends_in s (commandsRun r r') s1" "s' = emit (EvComplete r') s1" by metis
  then show ?thesis using sends_in_routed [OF s1(1) assms(5)]
    by (simp add: routed_def wire_idle_route sent_under_append route_pending_append)
qed

lemma processRequest_sends:
  assumes "processRequest r s = Some (r', s')" "request_ok r" "has_completion r"
    "\<not> hardwareOffline s" "route_ok s" "wire_idle s"
    "\<forall>c \<in> set (take (unat (commandsCount r)) (commands r)). plain_command c"
  shows "wire s' = wire s @ mouse_bytes
      (take (if commandsCount r' = commandsCount r then unat (commandsCount r)
             else Suc (unat (commandsCount r'))) (commands r)) \<and> wire_idle s'"
proof -
  have "plain_request r" using assms by (simp add: plain_request_def)
  from processRequest_routed [OF assms(1) this assms(4-6)] show ?thesis
    by (simp add: wire_routed commandsRun_def comp_def)
qed

text \<open>
  A run of requests: each runs in a block of its own, which ends with its completion, after the
  block of the request before it and before that of the next.
\<close>

definition request_block :: "u8 \<Rightarrow> PS2Request \<Rightarrow> event list \<times> PS2Request \<Rightarrow> bool" where
  "request_block pre r b \<longleftrightarrow> (case b of (es, r') \<Rightarrow>
     same_shape r r' \<and> unat (commandsCount r') \<le> unat (commandsCount r) \<and>
     list_all is_port_event es \<and>
     sent_under None es = map (Pair pre) (mouse_bytes (commandsRun r r')))"

definition block_events :: "event list \<times> PS2Request \<Rightarrow> event list" where
  "block_events b = (case b of (es, r') \<Rightarrow> es @ [EvComplete r'])"

lemma request_block_Pair:
  "request_block pre r (es, r') \<longleftrightarrow>
     same_shape r r' \<and> unat (commandsCount r') \<le> unat (commandsCount r) \<and>
     list_all is_port_event es \<and>
     sent_under None es = map (Pair pre) (mouse_bytes (commandsRun r r'))"
  "block_events (es, r') = es @ [EvComplete r']"
  by (simp_all add: request_block_def block_events_def)

lemma processRequests_blocks:
  assumes "processRequests rs s = Some s'" "\<not> hardwareOffline s" "route_ok s"
    "\<forall>r \<in> set rs. plain_request r \<and> reqAddr r \<in> set (liveRequests s)"
  shows "\<exists>bs. list_all2 (request_block (mousePrefix s)) rs bs \<and>
    out s' = out s @ concat (map block_events bs) \<and> io_step s s'"
  using assms
proof (induction rs arbitrary: s)
  case (Cons r rs)
  from Cons.prems(1,4) obtain r' s1
    where run: "processRequest r s = Some (r', s1)" "processRequests rs s1 = Some s'"
    by (auto simp: useRequest_def split: Option.bind_splits)
  have pl: "plain_request r" using Cons.prems(4) by simp
  from processRequest_block [OF run(1) pl Cons.prems(2,3)] obtain s2 where
    s2: "sends_in s (commandsRun r r') s2" "s1 = emit (EvComplete r') s2" "io_step s s2"
      "same_shape r r'" "unat (commandsCount r') \<le> unat (commandsCount r)" by metis
  from s2(1) obtain es where es: "out s2 = out s @ es" "list_all is_port_event es"
    "sent_under None es = map (Pair (mousePrefix s)) (mouse_bytes (commandsRun r r'))"
    by (auto simp: sends_in_def)
  have io: "io_step s s1" using s2(2,3) by (auto intro: io_step_trans)
  have "\<exists>bs. list_all2 (request_block (mousePrefix s1)) rs bs \<and>
      out s' = out s1 @ concat (map block_events bs) \<and> io_step s1 s'"
    by (rule Cons.IH [OF run(2)])
       (use Cons.prems io in \<open>simp_all add: io_step_fields route_ok_io_step [OF io]\<close>)
  then obtain bs where "list_all2 (request_block (mousePrefix s)) rs bs"
      "out s' = out s1 @ concat (map block_events bs)" "io_step s1 s'"
    by (auto simp: mousePrefix_io_step [OF io])
  then show ?case using es s2(2,4,5) io
    by (intro exI [of _ "(es, r') # bs"])
       (auto simp: request_block_Pair intro: io_step_trans)
qed simp

section \<open>Properties\<close>

text \<open>A request for the examples, asking the mouse for its first information byte.\<close>

definition exampleRequest :: "nat \<Rightarrow> PS2Request" where
  "exampleRequest a = setCommands [(kPS2C_SendMouseCommandAndCompareAck, kDP_GetMouseInformation),
     (kPS2C_ReadDataPort, 0)] (zeroRequest a)"

definition exampleBlocking :: PS2Request where
  "exampleBlocking = (exampleRequest 1)\<lparr>completionTarget := 1, completionAction := ClientAction 5\<rparr>"

lemma exampleBlocking_ok [simp]: "request_ok exampleBlocking" "has_completion exampleBlocking"
  by (simp_all add: exampleBlocking_def exampleRequest_def request_ok_def has_completion_def)

text \<open>
  The processor reports how far it got: the commandsCount of the processed request is never
  larger than that of the submitted one, no command changes kind or place, only the byte of a read
  command changes, the request keeps its address, and while it runs the processor touches no
  controller member but the keyboard queue, and never leaves the bounds of the command array.
\<close>

theorem processRequest_reports_progress:
  assumes "processRequest r s = Some (r', s')" "request_ok r" "has_completion r"
  shows "unat (commandsCount r') \<le> unat (commandsCount r) \<and> same_shape r r' \<and>
    ub s' = ub s \<and> liveRequests s' = liveRequests s \<and> requestQueue s' = requestQueue s"
  using processRequest_progress [OF assms] by (simp add: io_step_fields)

theorem processRequest_reports_progress_witness:
  "\<exists>r' s'. processRequest exampleBlocking (init [0, 0, 0x21, 0xFA, 0x21, 0x47]) = Some (r', s') \<and>
     same_shape exampleBlocking r' \<and> \<not> ub s'"
proof -
  let ?s = "init [0, 0, 0x21, 0xFA, 0x21, 0x47]"
  have "map_option (\<lambda>_. ()) (processRequest exampleBlocking ?s) = Some ()" by code_simp
  then obtain r' s' where run: "processRequest exampleBlocking ?s = Some (r', s')" by auto
  show ?thesis using processRequest_reports_progress [OF run] run by (simp add: init_def)
qed

text \<open>
  C2: What goes out to the mouse: a request that writes no routing prefix itself sends exactly the
  bytes of its composite mouse commands in order and no other byte, all of them when commandsCount
  comes back unchanged, and up to and including the command that was not acknowledged otherwise.
  Each of them goes out under the prefix of the controller as it is set up: right after a write to
  the command port of the routing prefix of the selected port where the controller multiplexes, and
  of kCP_TransmitToMouse where it does not.
\<close>

theorem processRequest_wire:
  assumes "processRequest r s = Some (r', s')" "request_ok r" "has_completion r"
    "\<not> hardwareOffline s" "route_ok s" "wire_idle s"
    "\<forall>c \<in> set (take (unat (commandsCount r)) (commands r)). plain_command c"
  shows "\<exists>bytes. bytes = mouse_bytes
      (take (if commandsCount r' = commandsCount r then unat (commandsCount r)
             else Suc (unat (commandsCount r'))) (commands r)) \<and>
    routed s' = routed s @ map (Pair (if controllerUsesMuxMode s then muxModeRoutePrefix s
      else kCP_TransmitToMouse)) bytes \<and>
    wire s' = wire s @ bytes \<and> wire_idle s'"
proof -
  have "plain_request r" using assms by (simp add: plain_request_def)
  from processRequest_routed [OF assms(1) this assms(4-6)] processRequest_sends [OF assms]
  show ?thesis by (simp add: commandsRun_def mousePrefix_def)
qed

theorem processRequest_wire_witness:
  "\<exists>r' s'. processRequest exampleBlocking ((init [0, 0, 0x21, 0xFA, 0x21, 0x47])
       \<lparr>controllerUsesMuxMode := True, muxModeRoutePrefix := 0x92\<rparr>) = Some (r', s') \<and>
     wire s' = [0xE9] \<and> routed s' = [(0x92, 0xE9)]"
proof -
  let ?s = "(init [0, 0, 0x21, 0xFA, 0x21, 0x47])
    \<lparr>controllerUsesMuxMode := True, muxModeRoutePrefix := 0x92\<rparr>"
  have "map_option (\<lambda>(r, s). commandsCount r) (processRequest exampleBlocking ?s) = Some 2" by code_simp
  then obtain r' s' where run: "processRequest exampleBlocking ?s = Some (r', s')" "commandsCount r' = 2"
    by auto
  have plain: "\<forall>c \<in> set (take (unat (commandsCount exampleBlocking)) (commands exampleBlocking)). plain_command c"
    "mouse_bytes (take 2 (commands exampleBlocking)) = [0xE9]" "commandsCount exampleBlocking = 2"
    by code_simp+
  have "\<not> hardwareOffline ?s" "route_ok ?s" "wire_idle ?s" "wire ?s = []" "routed ?s = []"
    "controllerUsesMuxMode ?s" "muxModeRoutePrefix ?s = 0x92"
    by (simp_all add: init_def route_ok_def wire_idle_def wire_def routed_def is_mouse_prefix_def)
  then show ?thesis using processRequest_wire [OF run(1)] plain run by simp
qed

text \<open>
  While the port is offline a request fails at index 0 without touching the port: its
  commandsCount becomes 0, its commands are as they were, and it is completed or freed at once.
\<close>

theorem processRequest_while_offline:
  assumes "hardwareOffline s" "has_completion r"
  shows "processRequest r s =
    Some (r\<lparr>commandsCount := 0\<rparr>, s\<lparr>out := out s @ [EvComplete (r\<lparr>commandsCount := 0\<rparr>)]\<rparr>)"
  using assms by (simp add: processRequest_offline completeRequest_def has_completion_def emit_def)

theorem processRequest_while_offline_witness:
  "let s = (init [])\<lparr>hardwareOffline := True\<rparr>; r = exampleBlocking\<lparr>commandsCount := 0\<rparr> in
   processRequest exampleBlocking s = Some (r, s\<lparr>out := out s @ [EvComplete r]\<rparr>)"
  unfolding Let_def by (rule processRequest_while_offline) simp_all

text \<open>
  The expansion the comment in processRequest gives for the composite mouse command, for a prefix
  byte: write the prefix to the command port, write the byte, read and compare the acknowledge.
\<close>

definition expandedMouseCommand ::
  "u8 \<Rightarrow> u8 \<Rightarrow> proc \<Rightarrow> ctl \<Rightarrow> (bool \<times> u8 option \<times> proc \<times> ctl) option" where
  "expandedMouseCommand pre b p s = do {
     (f, x, p, s) \<leftarrow> processCommand \<lparr>command = kPS2C_WriteCommandPort, inOrOut = pre\<rparr> p s;
     (f, x, p, s) \<leftarrow> processCommand \<lparr>command = kPS2C_WriteDataPort, inOrOut = b\<rparr> p s;
     processCommand \<lparr>command = kPS2C_ReadDataPortAndCompare, inOrOut = kSC_Acknowledge\<rparr> p s
   }"

text \<open>
  On a controller without active multiplexing the composite mouse command does exactly what
  its documented expansion does (write kCP_TransmitToMouse, write the byte, read and compare the
  acknowledge): same port accesses, same deliveries, same failure, same device mode afterwards.
\<close>

theorem composite_command_legacy:
  assumes "\<not> controllerUsesMuxMode s" "\<not> transmitToMouse p"
  shows "processCommand \<lparr>command = kPS2C_SendMouseCommandAndCompareAck, inOrOut = b\<rparr> p s =
    expandedMouseCommand kCP_TransmitToMouse b p s"
  using assms
  by (cases p) (auto simp: expandedMouseCommand_def processCommand_def split: Option.bind_split)

theorem composite_command_legacy_witness:
  "processCommand \<lparr>command = kPS2C_SendMouseCommandAndCompareAck, inOrOut = 0xE9\<rparr> proc0
     (init [0, 0, 0x21, kSC_Acknowledge]) =
   expandedMouseCommand kCP_TransmitToMouse 0xE9 proc0 (init [0, 0, 0x21, kSC_Acknowledge])"
  by (rule composite_command_legacy) (simp_all add: init_def)

text \<open>
  On a multiplexing controller the expansion named in the source comment, with the routing
  prefix in place of kCP_TransmitToMouse, is not equivalent: where the acknowledge comes at once
  and the composite command succeeds, the expansion delivers the acknowledge to the mouse driver's
  interrupt routine and goes on waiting on the keyboard stream, because only kCP_TransmitToMouse
  switches the device mode.
\<close>

theorem composite_command_mux_differs:
  assumes "controllerUsesMuxMode s" "muxModeRoutePrefix s = pre" "pre \<noteq> kCP_TransmitToMouse"
    "keyboardQueue s = []" "inp s = [0, 0, 0x21, kSC_Acknowledge]" "\<not> transmitToMouse p"
  shows "(\<exists>p' s'. processCommand \<lparr>command = kPS2C_SendMouseCommandAndCompareAck, inOrOut = b\<rparr> p s
      = Some (False, None, p', s')) \<and> expandedMouseCommand pre b p s = None"
proof -
  note io = writeCommandPort_def writeDataPort_def outb_def emit_def inb_def bits_set_def
    fetchByte_def dequeueKeyboardData_def dispatchDriverInterrupt_def
    readDataPortExpect_def readDataPortExpect_loop.simps
  show ?thesis
    using assms by (simp add: expandedMouseCommand_def processCommand_def io)
qed

theorem composite_command_mux_differs_witness:
  "let s = (init [0, 0, 0x21, kSC_Acknowledge])\<lparr>controllerUsesMuxMode := True, muxModeRoutePrefix := 0x91\<rparr>
   in (\<exists>p' s'. processCommand \<lparr>command = kPS2C_SendMouseCommandAndCompareAck, inOrOut = 0xE9\<rparr> proc0 s
      = Some (False, None, p', s')) \<and> expandedMouseCommand 0x91 0xE9 proc0 s = None"
  unfolding Let_def by (rule composite_command_mux_differs) (simp_all add: init_def)

text \<open>
  Asynchronous requests are processed one after the other in the order of submission. When
  requests that send plain commands have been submitted to an idle controller, running the queue
  adds to the trace, after the signals of the submissions, one block for each request, the first
  submitted first: port accesses and deliveries that send the mouse exactly the bytes of that
  request, under the controller's prefix, and then the completion of that request, changed in
  nothing but the bytes its reads returned and its commandsCount. So no two requests overlap, none is lost or completed
  twice, and the queue is empty afterwards.
\<close>

lemma submit_all:
  assumes "\<forall>r \<in> set rs. reqAddr r \<in> set (liveRequests s)"
  shows "fold (\<lambda>r s. snd (submitRequest r s)) rs s =
      s\<lparr>requestQueue := requestQueue s @ rs,
        out := out s @ replicate (length rs) (EvSignal SrcQueue)\<rparr>"
  using assms
proof (induction rs arbitrary: s)
  case (Cons r rs)
  then show ?case
    by (simp add: submitRequest_def useRequest_def emit_def replicate_app_Cons_same)
qed simp

theorem request_queue_fifo:
  assumes "processRequestQueue (fold (\<lambda>r s. snd (submitRequest r s)) rs s) = Some s'"
    "requestQueue s = []" "\<not> hardwareOffline s" "route_ok s"
    "\<forall>r \<in> set rs. plain_request r \<and> reqAddr r \<in> set (liveRequests s)"
  shows "requestQueue s' = [] \<and>
    (\<exists>bs. list_all2 (request_block (mousePrefix s)) rs bs \<and>
      out s' = out s @ replicate (length rs) (EvSignal SrcQueue) @ concat (map block_events bs))"
proof -
  let ?s = "s\<lparr>out := out s @ replicate (length rs) (EvSignal SrcQueue)\<rparr>"
  have "fold (\<lambda>r s. snd (submitRequest r s)) rs s = ?s\<lparr>requestQueue := rs\<rparr>"
    using submit_all [of rs s] assms(2,5) by simp
  then have "processRequests rs ?s = Some s'"
    using assms(1,2) by (cases s) (simp add: processRequestQueue_def)
  from processRequests_blocks [OF this] show ?thesis
    using assms(2-5) by (auto simp: route_ok_def mousePrefix_def io_step_fields)
qed

theorem request_queue_fifo_witness:
  "let s = (init [0, 0, 0x21, 0xFA, 0x21, 0x47, 0, 0, 0x21, 0xFA, 0x21, 0x48])
       \<lparr>liveRequests := [1, 2]\<rparr>;
     rs = map (\<lambda>a. exampleBlocking\<lparr>reqAddr := a\<rparr>) [2, 1] in
   \<exists>s'. processRequestQueue (fold (\<lambda>r s. snd (submitRequest r s)) rs s) = Some s' \<and>
     (\<exists>b1 b2. out s' = replicate 2 (EvSignal SrcQueue) @ block_events b1 @ block_events b2 \<and>
        reqAddr (snd b1) = 2 \<and> reqAddr (snd b2) = 1)"
proof -
  let ?s = "(init [0, 0, 0x21, 0xFA, 0x21, 0x47, 0, 0, 0x21, 0xFA, 0x21, 0x48])
    \<lparr>liveRequests := [1, 2]\<rparr>"
  let ?rs = "map (\<lambda>a. exampleBlocking\<lparr>reqAddr := a\<rparr>) [2, 1]"
  have "map_option (\<lambda>_. ()) (processRequestQueue (fold (\<lambda>r s. snd (submitRequest r s)) ?rs ?s)) = Some ()"
    by code_simp
  then obtain s' where run: "processRequestQueue (fold (\<lambda>r s. snd (submitRequest r s)) ?rs ?s) = Some s'"
    by auto
  have "\<forall>r \<in> set ?rs. plain_request r" by code_simp
  moreover have "requestQueue ?s = []" "\<not> hardwareOffline ?s" "route_ok ?s" "out ?s = []"
    "liveRequests ?s = [1, 2]" by (simp_all add: init_def route_ok_def)
  ultimately obtain bs where "list_all2 (request_block (mousePrefix ?s)) ?rs bs"
    "out s' = replicate (length ?rs) (EvSignal SrcQueue) @ concat (map block_events bs)"
    using request_queue_fifo [OF run] by auto
  moreover from this(1) obtain b1 b2 where "bs = [b1, b2]" "reqAddr (snd b1) = 2" "reqAddr (snd b2) = 1"
    by (auto simp: list_all2_Cons1 request_block_def same_shape_def)
  ultimately show ?thesis unfolding Let_def using run
    by (intro exI [of _ s'] conjI exI [of _ b1] exI [of _ b2])
       (simp_all add: numeral_eq_Suc del: fold_simps)
qed

fun mouse_ready :: "u8 \<Rightarrow> bool" where
  "mouse_ready st = (st AND (kOutputReady OR kMouseData) = kOutputReady OR kMouseData)"

fun mouse_input :: "(u8 \<times> u8) list \<Rightarrow> u8 list" where
  "mouse_input [] = []"
| "mouse_input ((st, b) # ms) = st # b # mouse_input ms"

lemma interruptOccurred_loop_mouse:
  assumes "keyboardQueue s = []" "inp s = mouse_input ms @ st # rest"
    "\<forall>(st, b) \<in> set ms. mouse_ready st" "\<not> mouse_ready st"
  shows "interruptOccurred_loop s =
    Some (s\<lparr>inp := rest, out := out s @ deliveries (interruptMouse s) (map snd ms)\<rparr>)"
  using assms
proof (induction ms arbitrary: s)
  case Nil
  then show ?case
    by (simp add: interruptOccurred_loop.simps [of s] dequeueKeyboardData_def)
next
  case (Cons m ms)
  obtain st0 b where m: "m = (st0, b)" by (cases m)
  let ?s1 = "dispatchDriverInterrupt kDT_Mouse b (s\<lparr>inp := mouse_input ms @ st # rest\<rparr>)"
  have "interruptOccurred_loop s = interruptOccurred_loop ?s1"
    using Cons.prems m
    by (simp add: interruptOccurred_loop.simps [of s] dequeueKeyboardData_def)
  also have "\<dots> = Some (?s1\<lparr>inp := rest, out := out ?s1 @ deliveries (interruptMouse ?s1) (map snd ms)\<rparr>)"
    by (rule Cons.IH) (use Cons.prems in simp_all)
  finally show ?case using m by (simp add: dispatch_as_update interruptSlot_def)
qed

lemma interruptOccurred_loop_keyboard:
  "interruptOccurred_loop s = interruptOccurred_loop
     (s\<lparr>keyboardQueue := [], keyboardQueueUnused := keyboardQueueUnused s @ keyboardQueue s,
       out := out s @ deliveries (interruptKeyboard s) (kbdBytes s)\<rparr>)"
proof (induction "keyboardQueue s" arbitrary: s)
  case Nil
  then show ?case by (cases s) (simp add: kbdBytes_def)
next
  case (Cons e es)
  let ?s1 = "dispatchDriverInterrupt kDT_Keyboard (keyboardData s e)
    (s\<lparr>keyboardQueue := es, keyboardQueueUnused := keyboardQueueUnused s @ [e]\<rparr>)"
  have "interruptOccurred_loop s = interruptOccurred_loop ?s1"
    using Cons.hyps(2) [symmetric]
    by (simp add: interruptOccurred_loop.simps [of s] dequeueKeyboardData_def)
  also have "\<dots> = interruptOccurred_loop (?s1\<lparr>keyboardQueue := [],
      keyboardQueueUnused := keyboardQueueUnused ?s1 @ keyboardQueue ?s1,
      out := out ?s1 @ deliveries (interruptKeyboard ?s1) (kbdBytes ?s1)\<rparr>)"
    by (rule Cons.hyps(1)) simp
  finally show ?case using Cons.hyps(2) [symmetric]
    by (simp add: dispatch_as_update interruptSlot_def kbdBytes_def)
qed

text \<open>
  C20: The interrupt service loop delivers everything there is: first the queued keyboard bytes in
  their order, then every mouse byte that is ready at the port, and it ends, the keyboard queue
  empty, at the first status without ready mouse data, which alone it consumes.
\<close>

theorem interruptOccurred_drains:
  assumes "\<not> hardwareOffline s" "inp s = mouse_input ms @ st # rest"
    "\<forall>(st, b) \<in> set ms. mouse_ready st" "\<not> mouse_ready st"
  shows "interruptOccurred s = Some (s\<lparr>inp := rest, keyboardQueue := [],
    keyboardQueueUnused := keyboardQueueUnused s @ keyboardQueue s,
    out := out s @ deliveries (interruptKeyboard s) (kbdBytes s)
                 @ deliveries (interruptMouse s) (map snd ms)\<rparr>)"
proof -
  let ?s1 = "s\<lparr>keyboardQueue := [], keyboardQueueUnused := keyboardQueueUnused s @ keyboardQueue s,
    out := out s @ deliveries (interruptKeyboard s) (kbdBytes s)\<rparr>"
  have "interruptOccurred_loop ?s1 = Some (?s1\<lparr>inp := rest,
      out := out ?s1 @ deliveries (interruptMouse ?s1) (map snd ms)\<rparr>)"
    by (rule interruptOccurred_loop_mouse) (use assms in simp_all)
  then show ?thesis
    using assms(1) by (simp add: interruptOccurred_def interruptOccurred_loop_keyboard [of s])
qed

theorem interruptOccurred_drains_witness:
  "let s = (exampleState [0x21, 8, 0x21, 9, 0])\<lparr>keyboardQueue := [3], keyboardData := (\<lambda>_. 0x1E)\<rparr> in
   interruptOccurred s = Some (s\<lparr>inp := [], keyboardQueue := [],
     keyboardQueueUnused := keyboardQueueUnused s @ [3],
     out := [EvInterrupt 70 7 0x1E, EvInterrupt 80 8 8, EvInterrupt 80 8 9]\<rparr>)"
proof -
  let ?s = "(exampleState [0x21, 8, 0x21, 9, 0])\<lparr>keyboardQueue := [3], keyboardData := (\<lambda>_. 0x1E)\<rparr>"
  have "\<not> hardwareOffline ?s" by (simp add: exampleState_def init_def)
  from interruptOccurred_drains [OF this, of "[(0x21, 8), (0x21, 9)]" 0 "[]"]
  show ?thesis by (simp add: Let_def kbdBytes_def deliveries_def exampleState_def init_def)
qed

end
