(* ===== verification/PS2_Clients.thy ===== *)
theory PS2_Clients
  imports PS2_Dispatch
begin

text \<open>
  The client registries of ApplePS2Controller: the three pairs of install and uninstall methods
  keep one contract, stated as the locale client_registry and proved for each pair. The client
  steps put the calls of the two device nubs (ApplePS2KeyboardDevice.cpp, ApplePS2MouseDevice.cpp)
  together; in every state they reach, each target is retained exactly once for every slot it
  occupies.
\<close>

section \<open>The device nubs\<close>

text \<open>
  The nubs delegate to the controller with their own device type, except that a notification sent
  through a nub goes to the other device's driver.
\<close>

definition Keyboard_installInterruptAction :: "nat \<Rightarrow> nat \<Rightarrow> ctl \<Rightarrow> ctl" where
  "Keyboard_installInterruptAction tgt act = installInterruptAction kDT_Keyboard tgt act"

definition Keyboard_uninstallInterruptAction :: "ctl \<Rightarrow> ctl" where
  "Keyboard_uninstallInterruptAction = uninstallInterruptAction kDT_Keyboard"

definition Keyboard_installPowerControlAction :: "nat \<Rightarrow> nat \<Rightarrow> ctl \<Rightarrow> ctl" where
  "Keyboard_installPowerControlAction tgt act = installPowerControlAction kDT_Keyboard tgt act"

definition Keyboard_uninstallPowerControlAction :: "ctl \<Rightarrow> ctl" where
  "Keyboard_uninstallPowerControlAction = uninstallPowerControlAction kDT_Keyboard"

definition Keyboard_installPS2NotificationAction :: "nat \<Rightarrow> nat \<Rightarrow> ctl \<Rightarrow> ctl" where
  "Keyboard_installPS2NotificationAction tgt act = installPS2Notification kDT_Keyboard tgt act"

definition Keyboard_unistallPS2NotificationAction :: "ctl \<Rightarrow> ctl" where
  "Keyboard_unistallPS2NotificationAction = uninstallPS2NotificationAction kDT_Keyboard"

definition Keyboard_dispatchPS2Notification :: "u32 \<Rightarrow> ctl \<Rightarrow> ctl" where
  "Keyboard_dispatchPS2Notification datum = dispatchPS2Notification kDT_Mouse datum"

definition Mouse_installInterruptAction :: "nat \<Rightarrow> nat \<Rightarrow> ctl \<Rightarrow> ctl" where
  "Mouse_installInterruptAction tgt act = installInterruptAction kDT_Mouse tgt act"

definition Mouse_uninstallInterruptAction :: "ctl \<Rightarrow> ctl" where
  "Mouse_uninstallInterruptAction = uninstallInterruptAction kDT_Mouse"

definition Mouse_installPowerControlAction :: "nat \<Rightarrow> nat \<Rightarrow> ctl \<Rightarrow> ctl" where
  "Mouse_installPowerControlAction tgt act = installPowerControlAction kDT_Mouse tgt act"

definition Mouse_uninstallPowerControlAction :: "ctl \<Rightarrow> ctl" where
  "Mouse_uninstallPowerControlAction = uninstallPowerControlAction kDT_Mouse"

definition Mouse_installPS2NotificationAction :: "nat \<Rightarrow> nat \<Rightarrow> ctl \<Rightarrow> ctl" where
  "Mouse_installPS2NotificationAction tgt act = installPS2Notification kDT_Mouse tgt act"

definition Mouse_unistallPS2NotificationAction :: "ctl \<Rightarrow> ctl" where
  "Mouse_unistallPS2NotificationAction = uninstallPS2NotificationAction kDT_Mouse"

definition Mouse_dispatchPS2Notification :: "u32 \<Rightarrow> ctl \<Rightarrow> ctl" where
  "Mouse_dispatchPS2Notification datum = dispatchPS2Notification kDT_Keyboard datum"

lemmas nub_defs =
  Keyboard_installInterruptAction_def Keyboard_uninstallInterruptAction_def
  Keyboard_installPowerControlAction_def Keyboard_uninstallPowerControlAction_def
  Keyboard_installPS2NotificationAction_def Keyboard_unistallPS2NotificationAction_def
  Keyboard_dispatchPS2Notification_def
  Mouse_installInterruptAction_def Mouse_uninstallInterruptAction_def
  Mouse_installPowerControlAction_def Mouse_uninstallPowerControlAction_def
  Mouse_installPS2NotificationAction_def Mouse_unistallPS2NotificationAction_def
  Mouse_dispatchPS2Notification_def

section \<open>Slots and the references they hold\<close>

definition powerSlot :: "PS2DeviceType \<Rightarrow> ctl \<Rightarrow> client_slot" where
  "powerSlot d s = (case d of kDT_Keyboard \<Rightarrow> powerControlKeyboard s | kDT_Mouse \<Rightarrow> powerControlMouse s)"

definition notificationSlot :: "PS2DeviceType \<Rightarrow> ctl \<Rightarrow> client_slot" where
  "notificationSlot d s = (case d of kDT_Keyboard \<Rightarrow> ps2notificationKeyboard s
     | kDT_Mouse \<Rightarrow> ps2notificationMouseTouchpad s)"

definition holds :: "client_slot \<Rightarrow> nat \<Rightarrow> int" where
  "holds sl x = (if installed sl \<and> target sl = x then 1 else 0)"

definition slot_ok :: "client_slot \<Rightarrow> bool" where
  "slot_ok sl \<longleftrightarrow> (\<not> installed sl \<longrightarrow> sl = emptySlot)"

locale client_registry =
  fixes install :: "PS2DeviceType \<Rightarrow> nat \<Rightarrow> nat \<Rightarrow> ctl \<Rightarrow> ctl"
    and uninstall :: "PS2DeviceType \<Rightarrow> ctl \<Rightarrow> ctl"
    and slot :: "PS2DeviceType \<Rightarrow> ctl \<Rightarrow> client_slot"
  assumes install_free: "\<not> installed (slot d s) \<Longrightarrow>
      slot d' (install d t a s) =
        (if d' = d then \<lparr>target = t, action = a, installed = True\<rparr> else slot d' s)"
    and install_free_refs: "\<not> installed (slot d s) \<Longrightarrow>
      refs (install d t a s) = (refs s)(t := refs s t + 1)"
    and install_busy: "installed (slot d s) \<Longrightarrow> install d t a s = s"
    and uninstall_busy: "installed (slot d s) \<Longrightarrow>
      slot d' (uninstall d s) = (if d' = d then emptySlot else slot d' s)"
    and uninstall_busy_refs: "installed (slot d s) \<Longrightarrow>
      refs (uninstall d s) = (refs s)(target (slot d s) := refs s (target (slot d s)) - 1)"
    and uninstall_free: "\<not> installed (slot d s) \<Longrightarrow> uninstall d s = s"
begin

lemma install_balance:
  "refs (install d t a s) x - holds (slot kDT_Keyboard (install d t a s)) x
     - holds (slot kDT_Mouse (install d t a s)) x =
   refs s x - holds (slot kDT_Keyboard s) x - holds (slot kDT_Mouse s) x"
proof (cases "installed (slot d s)")
  case False
  then show ?thesis by (cases d) (auto simp: install_free install_free_refs holds_def)
qed (simp add: install_busy)

lemma uninstall_balance:
  "refs (uninstall d s) x - holds (slot kDT_Keyboard (uninstall d s)) x
     - holds (slot kDT_Mouse (uninstall d s)) x =
   refs s x - holds (slot kDT_Keyboard s) x - holds (slot kDT_Mouse s) x"
proof (cases "installed (slot d s)")
  case True
  then show ?thesis
    by (cases d) (auto simp: uninstall_busy uninstall_busy_refs holds_def emptySlot_def)
qed (simp add: uninstall_free)

lemma install_slots_ok: "slot_ok (slot d' s) \<Longrightarrow> slot_ok (slot d' (install d t a s))"
  by (cases "installed (slot d s)") (auto simp: install_free install_busy slot_ok_def)

lemma uninstall_slots_ok: "slot_ok (slot d' s) \<Longrightarrow> slot_ok (slot d' (uninstall d s))"
  by (cases "installed (slot d s)") (auto simp: uninstall_busy uninstall_free slot_ok_def emptySlot_def)

lemma uninstall_install:
  assumes "slot d s = emptySlot"
  shows "slot d' (uninstall d (install d t a s)) = slot d' s"
    and "refs (uninstall d (install d t a s)) = refs s"
proof -
  have "\<not> installed (slot d s)" using assms by (simp add: emptySlot_def)
  moreover from this have "slot d (install d t a s) = \<lparr>target = t, action = a, installed = True\<rparr>"
    by (simp add: install_free)
  ultimately show "slot d' (uninstall d (install d t a s)) = slot d' s"
    and "refs (uninstall d (install d t a s)) = refs s"
    using assms by (simp_all add: install_free install_free_refs uninstall_busy uninstall_busy_refs)
qed

lemma first_install_wins:
  assumes "\<not> installed (slot d s)"
  shows "install d t' a' (install d t a s) = install d t a s"
  by (rule install_busy) (simp add: install_free assms)

end

lemmas interrupt_registry_defs =
  installInterruptAction_def uninstallInterruptAction_def interruptSlot_def emit_def retain_def
  release_def emptySlot_def

lemmas power_registry_defs =
  installPowerControlAction_def uninstallPowerControlAction_def powerSlot_def retain_def
  release_def emptySlot_def

lemmas notification_registry_defs =
  installPS2Notification_def uninstallPS2NotificationAction_def notificationSlot_def retain_def
  release_def emptySlot_def

interpretation interrupts: client_registry installInterruptAction uninstallInterruptAction interruptSlot
  by unfold_locales
    (auto simp: interrupt_registry_defs Let_def split: PS2DeviceType.splits if_splits)

interpretation powers: client_registry installPowerControlAction uninstallPowerControlAction powerSlot
  by unfold_locales (auto simp: power_registry_defs split: PS2DeviceType.splits if_splits)

interpretation notifications:
  client_registry installPS2Notification uninstallPS2NotificationAction notificationSlot
  by unfold_locales (auto simp: notification_registry_defs split: PS2DeviceType.splits if_splits)

section \<open>Client steps\<close>

inductive client_step :: "ctl \<Rightarrow> ctl \<Rightarrow> bool" where
  install_interrupt: "client_step s (installInterruptAction d t a s)"
| uninstall_interrupt: "client_step s (uninstallInterruptAction d s)"
| install_power: "client_step s (installPowerControlAction d t a s)"
| uninstall_power: "client_step s (uninstallPowerControlAction d s)"
| install_notification: "client_step s (installPS2Notification d t a s)"
| uninstall_notification: "client_step s (uninstallPS2NotificationAction d s)"
| deliver_interrupt: "client_step s (dispatchDriverInterrupt d b s)"
| deliver_power: "client_step s (dispatchDriverPowerControl w s)"
| deliver_notification: "client_step s (dispatchPS2Notification d w s)"
| acpi_message: "client_step s (message w s)"

inductive client_reachable :: "ctl \<Rightarrow> bool" where
  initial: "client_reachable (init t)"
| step: "client_reachable s \<Longrightarrow> client_step s s' \<Longrightarrow> client_reachable s'"

definition all_holds :: "ctl \<Rightarrow> nat \<Rightarrow> int" where
  "all_holds s x =
     holds (interruptSlot kDT_Keyboard s) x + holds (interruptSlot kDT_Mouse s) x
     + holds (powerSlot kDT_Keyboard s) x + holds (powerSlot kDT_Mouse s) x
     + holds (notificationSlot kDT_Keyboard s) x + holds (notificationSlot kDT_Mouse s) x"

definition slots_ok :: "ctl \<Rightarrow> bool" where
  "slots_ok s \<longleftrightarrow> (\<forall>d. slot_ok (interruptSlot d s) \<and> slot_ok (powerSlot d s)
     \<and> slot_ok (notificationSlot d s))"

definition clients_inv :: "ctl \<Rightarrow> bool" where
  "clients_inv s \<longleftrightarrow> slots_ok s \<and> (\<forall>x. refs s x = all_holds s x)"

text \<open>Each registry leaves the slots of the others alone, and deliveries leave all alone.\<close>

lemma registry_frames [simp]:
  "powerSlot d' (installInterruptAction d t a s) = powerSlot d' s"
  "notificationSlot d' (installInterruptAction d t a s) = notificationSlot d' s"
  "powerSlot d' (uninstallInterruptAction d s) = powerSlot d' s"
  "notificationSlot d' (uninstallInterruptAction d s) = notificationSlot d' s"
  "interruptSlot d' (installPowerControlAction d t a s) = interruptSlot d' s"
  "notificationSlot d' (installPowerControlAction d t a s) = notificationSlot d' s"
  "interruptSlot d' (uninstallPowerControlAction d s) = interruptSlot d' s"
  "notificationSlot d' (uninstallPowerControlAction d s) = notificationSlot d' s"
  "interruptSlot d' (installPS2Notification d t a s) = interruptSlot d' s"
  "powerSlot d' (installPS2Notification d t a s) = powerSlot d' s"
  "interruptSlot d' (uninstallPS2NotificationAction d s) = interruptSlot d' s"
  "powerSlot d' (uninstallPS2NotificationAction d s) = powerSlot d' s"
  by (cases d'; simp add: interrupt_registry_defs power_registry_defs notification_registry_defs Let_def)+

definition slots_same :: "ctl \<Rightarrow> ctl \<Rightarrow> bool" where
  "slots_same s s' \<longleftrightarrow> refs s' = refs s \<and> (\<forall>d. interruptSlot d s' = interruptSlot d s
     \<and> powerSlot d s' = powerSlot d s \<and> notificationSlot d s' = notificationSlot d s)"

lemma slots_same_emit: "slots_same s (emit e s)"
  by (simp add: slots_same_def interruptSlot_def powerSlot_def notificationSlot_def
      split: PS2DeviceType.splits)

lemma slots_same_trans: "slots_same a b \<Longrightarrow> slots_same b c \<Longrightarrow> slots_same a c"
  by (simp add: slots_same_def)

lemma slots_same_deliveries:
  "slots_same s (dispatchDriverInterrupt d b s)" "slots_same s (dispatchDriverPowerControl w s)"
  "slots_same s (dispatchPS2Notification d w s)" "slots_same s (message w s)"
  using slots_same_emit slots_same_trans
  by (auto simp: dispatchDriverInterrupt_def dispatchDriverPowerControl_def
      dispatchPS2Notification_def message_def Let_def slots_same_def intro: slots_same_trans)

lemma clients_inv_same: "slots_same s s' \<Longrightarrow> clients_inv s \<Longrightarrow> clients_inv s'"
  by (simp add: slots_same_def clients_inv_def slots_ok_def all_holds_def)

lemma clients_inv_balance:
  assumes "clients_inv s" "slots_ok s'" "\<And>x. refs s' x - all_holds s' x = refs s x - all_holds s x"
  shows "clients_inv s'"
  using assms by (simp add: clients_inv_def)

lemmas install_slots_ok =
  interrupts.install_slots_ok interrupts.uninstall_slots_ok powers.install_slots_ok
  powers.uninstall_slots_ok notifications.install_slots_ok notifications.uninstall_slots_ok

lemma registry_slots_ok:
  assumes "slots_ok s"
  shows "slots_ok (installInterruptAction d t a s)" "slots_ok (uninstallInterruptAction d s)"
    "slots_ok (installPowerControlAction d t a s)" "slots_ok (uninstallPowerControlAction d s)"
    "slots_ok (installPS2Notification d t a s)" "slots_ok (uninstallPS2NotificationAction d s)"
  using assms by (simp_all add: slots_ok_def install_slots_ok)

lemma registry_balance:
  "refs (installInterruptAction d t a s) x - all_holds (installInterruptAction d t a s) x
     = refs s x - all_holds s x"
  "refs (uninstallInterruptAction d s) x - all_holds (uninstallInterruptAction d s) x
     = refs s x - all_holds s x"
  "refs (installPowerControlAction d t a s) x - all_holds (installPowerControlAction d t a s) x
     = refs s x - all_holds s x"
  "refs (uninstallPowerControlAction d s) x - all_holds (uninstallPowerControlAction d s) x
     = refs s x - all_holds s x"
  "refs (installPS2Notification d t a s) x - all_holds (installPS2Notification d t a s) x
     = refs s x - all_holds s x"
  "refs (uninstallPS2NotificationAction d s) x - all_holds (uninstallPS2NotificationAction d s) x
     = refs s x - all_holds s x"
  using interrupts.install_balance [of d t a s x] interrupts.uninstall_balance [of d s x]
    powers.install_balance [of d t a s x] powers.uninstall_balance [of d s x]
    notifications.install_balance [of d t a s x] notifications.uninstall_balance [of d s x]
  by (simp_all add: all_holds_def)

lemma registry_inv [ctl_inv]:
  assumes "clients_inv s"
  shows "clients_inv (installInterruptAction d t a s)" "clients_inv (uninstallInterruptAction d s)"
    "clients_inv (installPowerControlAction d t a s)" "clients_inv (uninstallPowerControlAction d s)"
    "clients_inv (installPS2Notification d t a s)" "clients_inv (uninstallPS2NotificationAction d s)"
  using assms by (auto intro!: clients_inv_balance [OF assms] registry_slots_ok registry_balance
      simp: clients_inv_def [of s])

lemma client_step_inv: "client_step s s' \<Longrightarrow> clients_inv s \<Longrightarrow> clients_inv s'"
  by (induction rule: client_step.induct)
     (auto intro: registry_inv clients_inv_same slots_same_deliveries)

section \<open>Properties\<close>

text \<open>
  C29: In every state the client steps reach, each object is retained exactly as often as it is the
  target of an installed interrupt, power-control or notification action, and a slot that is not
  installed holds no target and no action. So no target leaks and none is released too often.
\<close>

theorem client_references_balanced:
  assumes "client_reachable s"
  shows "slots_ok s \<and> (\<forall>x. refs s x = all_holds s x)"
proof -
  have "clients_inv s" using assms
  proof (induction rule: client_reachable.induct)
    case (initial t)
    show ?case by (simp add: clients_inv_def slots_ok_def slot_ok_def all_holds_def holds_def init_def
        interruptSlot_def powerSlot_def notificationSlot_def emptySlot_def split: PS2DeviceType.splits)
  next
    case (step s s')
    then show ?case by (blast intro: client_step_inv)
  qed
  then show ?thesis by (simp add: clients_inv_def)
qed

theorem client_references_balanced_witness:
  "let s = installPowerControlAction kDT_Mouse 7 5 (installInterruptAction kDT_Mouse 7 3 (init []))
   in (slots_ok s \<and> (\<forall>x. refs s x = all_holds s x)) \<and> refs s 7 = 2"
proof -
  let ?s = "installPowerControlAction kDT_Mouse 7 5 (installInterruptAction kDT_Mouse 7 3 (init []))"
  have "client_reachable ?s"
    by (rule client_reachable.step [OF client_reachable.step [OF client_reachable.initial]])
       (rule client_step.intros)+
  from client_references_balanced [OF this] show ?thesis unfolding Let_def
    by (simp add: power_registry_defs interrupt_registry_defs init_def Let_def)
qed

text \<open>
  Registration is first come, first served and reversible: while an interrupt action is
  installed for a device a second installation changes nothing at all, and uninstalling gives back
  the empty slot and the reference counts from before the installation.
\<close>

theorem interrupt_registration_roundtrip:
  assumes "interruptSlot d s = emptySlot"
  shows "installInterruptAction d t' a' (installInterruptAction d t a s) = installInterruptAction d t a s
    \<and> interruptSlot d (uninstallInterruptAction d (installInterruptAction d t a s)) = emptySlot
    \<and> refs (uninstallInterruptAction d (installInterruptAction d t a s)) = refs s"
  using assms interrupts.first_install_wins [of d s t' a' t a]
    interrupts.uninstall_install(1) [of d s d t a] interrupts.uninstall_install(2) [of d s t a]
  by (simp add: emptySlot_def)

theorem interrupt_registration_roundtrip_witness:
  "refs (uninstallInterruptAction kDT_Keyboard (installInterruptAction kDT_Keyboard 7 3 (init []))) 7 = 0"
  using interrupt_registration_roundtrip [of kDT_Keyboard "init []" 1 1 7 3]
  by (simp add: init_def interruptSlot_def)

end
