(* ===== verification/PS2_Power.thy ===== *)
theory PS2_Power
  imports PS2_Processor PS2_Clients
begin

text \<open>
  Bringing the controller up and the power state machine (ApplePS2Controller.cpp):
  resetPS2Controller, the detection of active multiplexing, the hardware part of start, and
  setPowerStateGated.
\<close>

section \<open>Reset and multiplexing\<close>

definition resetPS2Controller :: "ctl \<Rightarrow> ctl option" where
  "resetPS2Controller s = do {
     s \<leftarrow> writeCommandPort kCP_GetCommandByte s;
     (commandByte, s) \<leftarrow> readDataPort kDT_Keyboard s;
     let commandByte = commandByte AND NOT (kCB_EnableMouseIRQ OR kCB_DisableMouseClock);
     s \<leftarrow> writeCommandPort kCP_SetCommandByte s;
     s \<leftarrow> writeDataPort commandByte s;
     s \<leftarrow> writeCommandPort kCP_GetCommandByte s;
     (_, s) \<leftarrow> readDataPort kDT_Keyboard s;
     s \<leftarrow> writeDataPort kDP_SetDefaultsAndDisable s;
     (_, s) \<leftarrow> readDataPort kDT_Keyboard s;
     s \<leftarrow> writeCommandPort kCP_TransmitToMouse s;
     s \<leftarrow> writeDataPort kDP_SetDefaultsAndDisable s;
     (_, s) \<leftarrow> readDataPort kDT_Mouse s;
     drainInputStreams s
   }"

text \<open>One byte of the activation sequence, written to the mouse output buffer and read back.\<close>

definition muxLoopback :: "u8 \<Rightarrow> ctl \<Rightarrow> (u8 \<times> ctl) option" where
  "muxLoopback val s = do {
     s \<leftarrow> writeCommandPort kCP_WriteMouseOutputBuffer s;
     s \<leftarrow> writeDataPort val s;
     readDataPort kDT_Mouse s
   }"

text \<open>The search for the port of the touchpad: \<open>n\<close> ports are left from port \<open>i\<close> on.\<close>

fun findAuxPort :: "nat \<Rightarrow> nat \<Rightarrow> ctl \<Rightarrow> (bool \<times> ctl) option" where
  "findAuxPort 0 i s = Some (False, s)"
| "findAuxPort (Suc n) i s = do {
     s \<leftarrow> writeCommandPort (kRP_RoutingPrefixAuxPort + of_nat i) s;
     s \<leftarrow> writeDataPort 0xf8 s;
     (res, s) \<leftarrow> readDataPort kDT_Mouse s;
     if res = 0xfa
     then Some (True, s\<lparr>muxModeRoutePrefix := kRP_RoutingPrefixAuxPort + of_nat i\<rparr>)
     else findAuxPort n (Suc i) s
   }"

definition setMuxMode :: "bool \<Rightarrow> ctl \<Rightarrow> (bool \<times> ctl) option" where
  "setMuxMode enable s = do {
     (res, s) \<leftarrow> muxLoopback 0xF0 s;
     if res \<noteq> 0xF0 then Some (False, s)
     else do {
       let val = (if enable then 0x56 else 0xf6);
       (res, s) \<leftarrow> muxLoopback val s;
       if res \<noteq> val then Some (False, s)
       else do {
         let val = (if enable then 0xa4 else 0xa5);
         (res, s) \<leftarrow> muxLoopback val s;
         if res = val then Some (False, s)
         else findAuxPort 4 0 s
       }
     }
   }"

definition detectMuxModeSupport :: "ctl \<Rightarrow> ctl option" where
  "detectMuxModeSupport s = do {
     let s = s\<lparr>controllerUsesMuxMode := False\<rparr>;
     (ok, s) \<leftarrow> setMuxMode True s;
     s \<leftarrow> (if \<not> ok then Some s
          else do {
            let commandByte = ((0 :: u8) OR kCB_DisableMouseClock) AND NOT kCB_EnableMouseIRQ;
            s \<leftarrow> writeCommandPort kCP_SetCommandByte s;
            s \<leftarrow> writeDataPort commandByte s;
            Some (s\<lparr>controllerUsesMuxMode := True\<rparr>)
          });
     drainInputStreams s
   }"

text \<open>The part of start that talks to the hardware, from the queue setup to the mux detection.\<close>

definition startHardware :: "ctl \<Rightarrow> ctl option" where
  "startHardware s = do {
     let s = initKeyboardQueue s;
     s \<leftarrow> resetPS2Controller s;
     s \<leftarrow> writeDataPort kDP_Reset s;
     (res, s) \<leftarrow> readDataPort kDT_Keyboard s;
     detectMuxModeSupport s
   }"

section \<open>Power states\<close>

definition enablePort :: "ctl \<Rightarrow> ctl option" where
  "enablePort s = do {
     s \<leftarrow> writeCommandPort kCP_GetCommandByte s;
     (commandByte, s) \<leftarrow> readDataPort kDT_Keyboard s;
     let commandByte = commandByte AND NOT (kCB_DisableKeyboardClock OR kCB_DisableMouseClock);
     let commandByte = commandByte OR (kCB_EnableKeyboardIRQ OR kCB_EnableMouseIRQ);
     s \<leftarrow> writeCommandPort kCP_SetCommandByte s;
     writeDataPort commandByte s
   }"

definition wakeController :: "ctl \<Rightarrow> ctl option" where
  "wakeController s = do {
     let s = emit (EvSleep 250) s;
     s \<leftarrow> drainInputStreams s;
     s \<leftarrow> resetPS2Controller s;
     s \<leftarrow> (if controllerUsesMuxMode s then detectMuxModeSupport s else Some s);
     s \<leftarrow> enablePort s;
     let s = s\<lparr>hardwareOffline := False\<rparr>;
     Some (dispatchDriverPowerControl kPS2C_EnableDevice s)
   }"

definition setPowerStateGated :: "u32 \<Rightarrow> ctl \<Rightarrow> ctl option" where
  "setPowerStateGated powerState s = do {
     s \<leftarrow> (if currentPowerState s \<noteq> powerState then do {
            s \<leftarrow> (if powerState = kPS2PowerStateSleep then
                   Some ((dispatchDriverPowerControl kPS2C_DisableDevice s)\<lparr>hardwareOffline := True\<rparr>)
                 else if powerState = kPS2PowerStateDoze \<or> powerState = kPS2PowerStateNormal then
                   (if currentPowerState s \<noteq> kPS2PowerStateSleep then Some s
                    else wakeController s)
                 else Some s);
            Some (s\<lparr>currentPowerState := powerState\<rparr>)
          }
          else Some s);
     Some (emit EvAckPower s)
   }"

section \<open>Library lemmas\<close>

lemma drain_SomeD: "drainInputStreams s = Some s' \<Longrightarrow> \<exists>t. s' = s\<lparr>inp := t\<rparr>"
  by (auto simp: drainInputStreams_def split: option.splits)

lemma io_step_drain: "drainInputStreams s = Some s' \<Longrightarrow> io_step s s'"
  by (auto dest: drain_SomeD)

lemma io_step_reads: "readDataPort d s = Some (b, s') \<Longrightarrow> io_step s s'"
  by (rule read_step_io [OF read_step_readDataPort])

lemmas io_steps = io_step_write io_step_reads io_step_drain

lemma io_step_reset: "resetPS2Controller s = Some s' \<Longrightarrow> io_step s s'"
  by (auto simp: resetPS2Controller_def dest!: io_steps)
     (assumption | erule io_step_trans)+

lemma io_step_muxLoopback: "muxLoopback v s = Some (r, s') \<Longrightarrow> io_step s s'"
  by (auto simp: muxLoopback_def dest!: io_steps)
     (assumption | erule io_step_trans)+

lemma io_step_enablePort: "enablePort s = Some s' \<Longrightarrow> io_step s s'"
  by (auto simp: enablePort_def dest!: io_steps)
     (assumption | erule io_step_trans)+

lemma muxLoopback_writes:
  "muxLoopback v s = Some (r, s') \<Longrightarrow>
   writes s' = writes s @ [EvOut kCommandPort kCP_WriteMouseOutputBuffer, EvOut kDataPort v]"
  by (auto simp: muxLoopback_def dest!: writes_write writes_read)

definition probe :: "nat \<Rightarrow> event list" where
  "probe i = [EvOut kCommandPort (kRP_RoutingPrefixAuxPort + of_nat i), EvOut kDataPort 0xf8]"

text \<open>What the search for the touchpad's port does, and where it may stop.\<close>

lemma findAuxPort_SucE:
  assumes "findAuxPort (Suc n) i s = Some (ok, s')"
  obtains (found) s3 where "io_step s s3" "writes s3 = writes s @ probe i" "ok"
      "s' = s3\<lparr>muxModeRoutePrefix := kRP_RoutingPrefixAuxPort + of_nat i\<rparr>"
    | (other) s3 where "io_step s s3" "writes s3 = writes s @ probe i"
      "findAuxPort n (Suc i) s3 = Some (ok, s')"
proof -
  from assms obtain s1 s2 res s3 where w:
    "writeCommandPort (kRP_RoutingPrefixAuxPort + of_nat i) s = Some s1"
    "writeDataPort 0xf8 s1 = Some s2" "readDataPort kDT_Mouse s2 = Some (res, s3)"
    "if res = 0xfa then ok \<and> s' = s3\<lparr>muxModeRoutePrefix := kRP_RoutingPrefixAuxPort + of_nat i\<rparr>
     else findAuxPort n (Suc i) s3 = Some (ok, s')"
    by (auto split: if_splits)
  have io: "io_step s s3"
    using io_steps(2) [OF w(1)] io_steps(1) [OF w(2)] io_steps(3) [OF w(3)]
    by (blast intro: io_step_trans)
  have ws: "writes s3 = writes s @ probe i"
    using w(1,2,3) by (auto simp: probe_def dest!: writes_write writes_read)
  show ?thesis using w(4) found [OF io ws] other [OF io ws] by (cases "res = 0xfa") auto
qed

lemma findAuxPort_io:
  "findAuxPort n i s = Some (ok, s') \<Longrightarrow> io_step s (s'\<lparr>muxModeRoutePrefix := muxModeRoutePrefix s\<rparr>)"
proof (induction n arbitrary: i s)
  case (Suc n)
  from Suc.prems show ?case
  proof (cases rule: findAuxPort_SucE)
    case (found s3)
    have "s3\<lparr>muxModeRoutePrefix := muxModeRoutePrefix s\<rparr> = s3"
      using io_step_fields [OF found(1)] by (cases s3) simp
    then show ?thesis using found by simp
  next
    case (other s3)
    have "muxModeRoutePrefix s3 = muxModeRoutePrefix s" using io_step_fields [OF other(1)] by simp
    then show ?thesis using Suc.IH [OF other(3)] other(1) by (auto intro: io_step_trans)
  qed
qed simp

lemma findAuxPort_found:
  "findAuxPort n i s = Some (True, s') \<Longrightarrow> \<exists>k \<ge> i. k < i + n \<and>
     muxModeRoutePrefix s' = kRP_RoutingPrefixAuxPort + of_nat k \<and>
     writes s' = writes s @ concat (map probe [i..<Suc k])"
proof (induction n arbitrary: i s)
  case (Suc n)
  from Suc.prems show ?case
  proof (cases rule: findAuxPort_SucE)
    case (found s3)
    then show ?thesis by (intro exI [of _ i]) (simp add: writes_def)
  next
    case (other s3)
    then obtain k where "k \<ge> Suc i" "k < Suc i + n"
      "muxModeRoutePrefix s' = kRP_RoutingPrefixAuxPort + of_nat k"
      "writes s' = writes s3 @ concat (map probe [Suc i..<Suc k])"
      using Suc.IH by blast
    then show ?thesis using other(2) by (intro exI [of _ k]) (simp add: upt_conv_Cons)
  qed
qed simp

lemma findAuxPort_not_found:
  "findAuxPort n i s = Some (False, s') \<Longrightarrow> muxModeRoutePrefix s' = muxModeRoutePrefix s \<and>
     writes s' = writes s @ concat (map probe [i..<i + n])"
proof (induction n arbitrary: i s)
  case (Suc n)
  from Suc.prems show ?case
  proof (cases rule: findAuxPort_SucE)
    case (other s3)
    have "muxModeRoutePrefix s3 = muxModeRoutePrefix s" using io_step_fields [OF other(1)] by simp
    moreover have "concat (map probe [i..<i + Suc n]) =
        probe i @ concat (map probe [Suc i..<Suc i + n])"
      by (simp add: upt_conv_Cons del: upt_Suc)
    ultimately show ?thesis using Suc.IH [OF other(3)] other(2) by (simp del: upt_Suc)
  qed simp
qed simp

text \<open>A change of the two multiplexing members on top of port operations.\<close>

definition mux_step :: "ctl \<Rightarrow> ctl \<Rightarrow> bool" where
  "mux_step s s' \<longleftrightarrow> io_step s (s'\<lparr>muxModeRoutePrefix := muxModeRoutePrefix s,
     controllerUsesMuxMode := controllerUsesMuxMode s\<rparr>)"

lemma mux_step_fields:
  assumes "mux_step s s'"
  shows "hardwareOffline s' = hardwareOffline s" "currentPowerState s' = currentPowerState s"
    "ub s' = ub s" "requestQueue s' = requestQueue s" "liveRequests s' = liveRequests s"
    "refs s' = refs s" "interruptSlot d s' = interruptSlot d s" "powerSlot d s' = powerSlot d s"
    "notificationSlot d s' = notificationSlot d s"
    "kbdQueue_ok s \<Longrightarrow> kbdQueue_ok s'" "\<exists>es. out s' = out s @ es"
  using assms
  by (auto simp: mux_step_def io_step_def interruptSlot_def powerSlot_def notificationSlot_def
      kbdQueue_ok_def split: PS2DeviceType.splits)

lemma mux_stepI:
  assumes "io_step s t" "t = s'\<lparr>muxModeRoutePrefix := muxModeRoutePrefix s,
    controllerUsesMuxMode := controllerUsesMuxMode s\<rparr>"
  shows "mux_step s s'"
  using assms by (simp add: mux_step_def)

lemma mux_step_io:
  assumes "io_step s s'"
  shows "mux_step s s'"
  using assms
  by (rule mux_stepI) (use io_step_fields(10,11) [OF assms] in \<open>cases s', simp\<close>)

lemma mux_step_trans:
  assumes "mux_step a b" "mux_step b c"
  shows "mux_step a c"
proof -
  have "out (b\<lparr>muxModeRoutePrefix := p, controllerUsesMuxMode := u\<rparr>) = out b"
    "kbdQueue_ok (b\<lparr>muxModeRoutePrefix := p, controllerUsesMuxMode := u\<rparr>) = kbdQueue_ok b" for b p u
    by (simp_all add: kbdQueue_ok_def)
  then show ?thesis using assms unfolding mux_step_def io_step_def by force
qed

lemma mux_step_findAuxPort:
  assumes "findAuxPort n i s = Some (ok, s')"
  shows "mux_step s s'"
  using findAuxPort_io [OF assms]
  by (rule mux_stepI) (use io_step_fields(10) [OF findAuxPort_io [OF assms]] in \<open>cases s', simp\<close>)

lemmas mux_steps = io_step_muxLoopback [THEN mux_step_io] mux_step_findAuxPort
  io_steps [THEN mux_step_io]

lemma setMuxMode_step: "setMuxMode enable s = Some (ok, s') \<Longrightarrow> mux_step s s'"
  by (auto simp: setMuxMode_def Let_def split: if_splits dest!: mux_steps)
     ((assumption | erule mux_step_trans)+)

lemma muxLoopback_flag:
  "muxLoopback v s = Some (r, s') \<Longrightarrow> controllerUsesMuxMode s' = controllerUsesMuxMode s"
  by (drule io_step_muxLoopback) (rule io_step_fields)

lemma findAuxPort_flag:
  assumes "findAuxPort n i s = Some (ok, s')"
  shows "controllerUsesMuxMode s' = controllerUsesMuxMode s"
  using io_step_fields(10) [OF findAuxPort_io [OF assms]] by simp

lemma setMuxMode_flag:
  "setMuxMode enable s = Some (ok, s') \<Longrightarrow> controllerUsesMuxMode s' = controllerUsesMuxMode s"
  by (auto simp: setMuxMode_def Let_def split: if_splits dest!: muxLoopback_flag findAuxPort_flag)

lemma detectMuxModeSupport_spec:
  assumes "detectMuxModeSupport s = Some s'"
  shows "mux_step (s\<lparr>controllerUsesMuxMode := False\<rparr>) s'"
    and "route_ok s'"
proof -
  let ?s0 = "s\<lparr>controllerUsesMuxMode := False\<rparr>"
  from assms obtain ok s1 s2 where m: "setMuxMode True ?s0 = Some (ok, s1)"
    and w: "if \<not> ok then s2 = s1
      else \<exists>a b. writeCommandPort kCP_SetCommandByte s1 = Some a \<and>
        writeDataPort kCB_DisableMouseClock a = Some b \<and> s2 = b\<lparr>controllerUsesMuxMode := True\<rparr>"
    and d: "drainInputStreams s2 = Some s'"
    by (auto simp: detectMuxModeSupport_def Let_def split: if_splits)
  obtain t where s': "s' = s2\<lparr>inp := t\<rparr>" using drain_SomeD [OF d] by blast
  note m1 = setMuxMode_step [OF m]
  show "route_ok s'"
  proof (cases ok)
    case False
    have "controllerUsesMuxMode s1 = False" using setMuxMode_flag [OF m] by simp
    then show ?thesis using False w s' by (simp add: route_ok_def)
  next
    case True
    then obtain s0 k where "findAuxPort 4 0 s0 = Some (True, s1)"
      using m by (auto simp: setMuxMode_def Let_def split: if_splits)
    then obtain k where "k < 4" "muxModeRoutePrefix s1 = kRP_RoutingPrefixAuxPort + of_nat k"
      using findAuxPort_found by fastforce
    then have "is_mouse_prefix (muxModeRoutePrefix s1)"
      by (auto simp: is_mouse_prefix_def less_Suc_eq numeral_eq_Suc)
    then show ?thesis using True w s' by (auto dest!: writePort_SomeD simp: route_ok_def)
  qed
  show "mux_step ?s0 s'"
  proof (cases ok)
    case False
    then show ?thesis using m1 w s' by (auto intro: mux_step_trans mux_step_io io_step_inp)
  next
    case True
    then obtain a b where ab: "writeCommandPort kCP_SetCommandByte s1 = Some a"
      "writeDataPort kCB_DisableMouseClock a = Some b" "s2 = b\<lparr>controllerUsesMuxMode := True\<rparr>"
      using w by auto
    have "mux_step s1 b" using mux_steps(4) [OF ab(1)] mux_steps(3) [OF ab(2)]
      by (rule mux_step_trans)
    moreover have "mux_step b s'" using ab(3) s'
      by (simp add: mux_step_def io_step_def kbdQueue_ok_def)
    ultimately show ?thesis using m1 by (blast intro: mux_step_trans)
  qed
qed

section \<open>Power changes\<close>

text \<open>What the clients are told, with the state of the port at that moment.\<close>

definition power_events :: "bool \<Rightarrow> u32 \<Rightarrow> ctl \<Rightarrow> event list" where
  "power_events online w s =
     (if installed (powerControlKeyboard s)
      then [EvPowerControl (action (powerControlKeyboard s)) (target (powerControlKeyboard s)) w online]
      else [])
     @ (if installed (powerControlMouse s)
        then [EvPowerControl (action (powerControlMouse s)) (target (powerControlMouse s)) w online]
        else [])"

lemma dispatchDriverPowerControl_update:
  "dispatchDriverPowerControl w s =
     s\<lparr>out := out s @ power_events (\<not> hardwareOffline s) w s\<rparr>"
  by (simp add: dispatchDriverPowerControl_def power_events_def emit_def Let_def)

definition irqs_enabled :: "u8 \<Rightarrow> bool" where
  "irqs_enabled cb \<longleftrightarrow> cb AND (kCB_DisableKeyboardClock OR kCB_DisableMouseClock) = 0 \<and>
     cb AND (kCB_EnableKeyboardIRQ OR kCB_EnableMouseIRQ) = kCB_EnableKeyboardIRQ OR kCB_EnableMouseIRQ"

lemma irqs_enabled_byte:
  "irqs_enabled ((x AND NOT (kCB_DisableKeyboardClock OR kCB_DisableMouseClock))
     OR (kCB_EnableKeyboardIRQ OR kCB_EnableMouseIRQ))"
  by (simp add: irqs_enabled_def bit.conj_disj_distrib2 and.assoc)

text \<open>
  The trace of a run of port operations: accesses and deliveries only, with the given writes.
\<close>

definition trace_step :: "event list \<Rightarrow> ctl \<Rightarrow> ctl \<Rightarrow> bool" where
  "trace_step ws s s' \<longleftrightarrow>
     (\<exists>es. out s' = out s @ es \<and> list_all is_port_event es \<and> filter is_write es = ws)"

lemma trace_step_append:
  "trace_step ws a b \<Longrightarrow> trace_step vs b c \<Longrightarrow> us = ws @ vs \<Longrightarrow> trace_step us a c"
  unfolding trace_step_def by force

lemma trace_step_ops:
  "readDataPort d s = Some (x, s') \<Longrightarrow> trace_step [] s s'"
  "drainInputStreams s = Some s' \<Longrightarrow> trace_step [] s s'"
  "writeDataPort b s = Some s' \<Longrightarrow> trace_step [EvOut kDataPort b] s s'"
  "writeCommandPort b s = Some s' \<Longrightarrow> trace_step [EvOut kCommandPort b] s s'"
  by (auto simp: trace_step_def read_step_def is_port_event_delivery deliveries_not_writes
      dest!: read_step_readDataPort drain_SomeD writePort_SomeD)

lemma trace_write:
  "writeCommandPort b s = Some s1 \<Longrightarrow> trace_step ws s1 s' \<Longrightarrow>
     trace_step (EvOut kCommandPort b # ws) s s'"
  "writeDataPort b s = Some s1 \<Longrightarrow> trace_step ws s1 s' \<Longrightarrow>
     trace_step (EvOut kDataPort b # ws) s s'"
  by (auto intro: trace_step_append dest: trace_step_ops)

lemma trace_read:
  "readDataPort d s = Some (x, s1) \<Longrightarrow> trace_step ws s1 s' \<Longrightarrow> trace_step ws s s'"
  by (auto intro: trace_step_append dest: trace_step_ops)

lemma trace_step_refl: "trace_step [] s s"
  by (simp add: trace_step_def)

lemmas trace_intros = trace_write trace_read trace_step_ops(2) trace_step_refl

lemma trace_step_updates [simp]:
  "trace_step ws (s\<lparr>controllerUsesMuxMode := u\<rparr>) s' = trace_step ws s s'"
  "trace_step ws s (s'\<lparr>controllerUsesMuxMode := u\<rparr>) = trace_step ws s s'"
  "trace_step ws s (s'\<lparr>muxModeRoutePrefix := q\<rparr>) = trace_step ws s s'"
  by (simp_all add: trace_step_def)

definition reset_writes :: "u8 \<Rightarrow> event list" where
  "reset_writes c =
     [EvOut kCommandPort kCP_GetCommandByte, EvOut kCommandPort kCP_SetCommandByte,
      EvOut kDataPort (c AND NOT (kCB_EnableMouseIRQ OR kCB_DisableMouseClock)),
      EvOut kCommandPort kCP_GetCommandByte, EvOut kDataPort kDP_SetDefaultsAndDisable,
      EvOut kCommandPort kCP_TransmitToMouse, EvOut kDataPort kDP_SetDefaultsAndDisable]"

lemma reset_trace:
  assumes "resetPS2Controller s = Some s'"
  shows "\<exists>c. trace_step (reset_writes c) s s'"
proof -
  from assms obtain c where "\<exists>x y z s1 s2 s3 s4 s5 s6 s7 s8 s9 s10 s11.
      writeCommandPort kCP_GetCommandByte s = Some s1 \<and>
      readDataPort kDT_Keyboard s1 = Some (c, s2) \<and>
      writeCommandPort kCP_SetCommandByte s2 = Some s3 \<and>
      writeDataPort (c AND NOT (kCB_EnableMouseIRQ OR kCB_DisableMouseClock)) s3 = Some s4 \<and>
      writeCommandPort kCP_GetCommandByte s4 = Some s5 \<and>
      readDataPort kDT_Keyboard s5 = Some (x, s6) \<and>
      writeDataPort kDP_SetDefaultsAndDisable s6 = Some s7 \<and>
      readDataPort kDT_Keyboard s7 = Some (y, s8) \<and>
      writeCommandPort kCP_TransmitToMouse s8 = Some s9 \<and>
      writeDataPort kDP_SetDefaultsAndDisable s9 = Some s10 \<and>
      readDataPort kDT_Mouse s10 = Some (z, s11) \<and> drainInputStreams s11 = Some s'"
    by (auto simp: resetPS2Controller_def Let_def)
  then have "trace_step (reset_writes c) s s'"
    unfolding reset_writes_def by (elim exE conjE) (erule trace_intros)+
  then show ?thesis by blast
qed

definition power_ok :: "ctl \<Rightarrow> bool" where
  "power_ok s \<longleftrightarrow> (hardwareOffline s \<longleftrightarrow> currentPowerState s = kPS2PowerStateSleep)"

lemma muxLoopback_trace:
  "muxLoopback v s = Some (r, s') \<Longrightarrow>
     trace_step [EvOut kCommandPort kCP_WriteMouseOutputBuffer, EvOut kDataPort v] s s'"
  by (auto simp: muxLoopback_def intro!: trace_write trace_step_ops(1))

lemma findAuxPort_trace: "findAuxPort n i s = Some (ok, s') \<Longrightarrow> \<exists>ws. trace_step ws s s'"
proof (induction n i s rule: findAuxPort.induct)
  case (2 n i s)
  then obtain s1 s2 res s3 where w:
    "writeCommandPort (kRP_RoutingPrefixAuxPort + of_nat i) s = Some s1"
    "writeDataPort 0xf8 s1 = Some s2" "readDataPort kDT_Mouse s2 = Some (res, s3)" by auto
  have "\<exists>ws. trace_step ws s3 s'"
    using 2(2) w 2(1) [OF w refl] trace_step_refl [of s3] by (auto split: if_splits)
  then show ?case using w by (blast intro: trace_write trace_read)
qed (auto intro: trace_step_refl)

lemma detectMuxModeSupport_trace:
  assumes "detectMuxModeSupport s = Some s'"
  shows "\<exists>ws. trace_step ([EvOut kCommandPort kCP_WriteMouseOutputBuffer, EvOut kDataPort 0xF0] @ ws) s s'"
proof -
  let ?s0 = "s\<lparr>controllerUsesMuxMode := False\<rparr>"
  from assms obtain ok s1 s2 where m: "setMuxMode True ?s0 = Some (ok, s1)"
    and w: "if \<not> ok then s2 = s1
      else \<exists>a b. writeCommandPort kCP_SetCommandByte s1 = Some a \<and>
        writeDataPort kCB_DisableMouseClock a = Some b \<and> s2 = b\<lparr>controllerUsesMuxMode := True\<rparr>"
    and d: "drainInputStreams s2 = Some s'"
    by (auto simp: detectMuxModeSupport_def Let_def split: if_splits)
  obtain res a where l: "muxLoopback 0xF0 ?s0 = Some (res, a)" using m by (auto simp: setMuxMode_def)
  have "\<exists>ws. trace_step ws a s1"
    using m l by (auto simp: setMuxMode_def Let_def split: if_splits
        dest!: findAuxPort_trace muxLoopback_trace intro: trace_step_refl)
      (blast intro: trace_step_append trace_step_refl)+
  moreover have "\<exists>ws. trace_step ws s1 s2"
    using w by (auto split: if_splits intro: trace_step_refl)
      (blast intro: trace_write trace_step_refl)
  ultimately have "\<exists>ws. trace_step ws a s'"
    using trace_step_ops(2) [OF d] by (blast intro: trace_step_append)
  moreover have "trace_step [EvOut kCommandPort kCP_WriteMouseOutputBuffer, EvOut kDataPort 0xF0] s a"
    using muxLoopback_trace [OF l] by simp
  ultimately show ?thesis using trace_step_append by blast
qed

text \<open>The writes of enablePort for the command byte it sets.\<close>

lemma enablePort_trace:
  assumes "enablePort s = Some s'"
  shows "\<exists>es cb. out s' = out s @ es @ [EvOut kCommandPort kCP_SetCommandByte, EvOut kDataPort cb]
    \<and> list_all is_port_event es \<and> filter is_write es = [EvOut kCommandPort kCP_GetCommandByte]
    \<and> irqs_enabled cb"
proof -
  from assms obtain s1 x s2 s3 where w: "writeCommandPort kCP_GetCommandByte s = Some s1"
    "readDataPort kDT_Keyboard s1 = Some (x, s2)" "writeCommandPort kCP_SetCommandByte s2 = Some s3"
    "writeDataPort ((x AND NOT (kCB_DisableKeyboardClock OR kCB_DisableMouseClock))
       OR (kCB_EnableKeyboardIRQ OR kCB_EnableMouseIRQ)) s3 = Some s'"
    by (auto simp: enablePort_def Let_def)
  have "trace_step [EvOut kCommandPort kCP_GetCommandByte] s s2"
    using w(1,2) by (intro trace_write trace_step_ops)
  then obtain es where "out s2 = out s @ es" "list_all is_port_event es"
    "filter is_write es = [EvOut kCommandPort kCP_GetCommandByte]" by (auto simp: trace_step_def)
  then show ?thesis using w(3,4) irqs_enabled_byte [of x]
    by (intro exI [of _ es]) (auto dest!: writePort_SomeD)
qed

text \<open>
  The writes of the detection of active multiplexing, which is repeated on waking up exactly where
  the controller multiplexed before: it starts with the first byte of the activation sequence.
\<close>

definition mux_writes :: "bool \<Rightarrow> event list \<Rightarrow> bool" where
  "mux_writes uses ws \<longleftrightarrow> (if uses
     then \<exists>vs. ws = [EvOut kCommandPort kCP_WriteMouseOutputBuffer, EvOut kDataPort 0xF0] @ vs
     else ws = [])"

lemma slots_same_io: "io_step s s' \<Longrightarrow> slots_same s s'"
  by (simp add: slots_same_def io_step_fields interruptSlot_def powerSlot_def notificationSlot_def
      split: PS2DeviceType.splits)

lemma slots_same_mux: "mux_step s s' \<Longrightarrow> slots_same s s'"
  by (simp add: slots_same_def mux_step_fields)

lemma power_events_same: "slots_same s s' \<Longrightarrow> power_events b w s' = power_events b w s"
  by (auto simp: slots_same_def power_events_def powerSlot_def
      dest: spec [of _ kDT_Keyboard] spec [of _ kDT_Mouse])

lemma wakeController_spec:
  assumes "wakeController s = Some s'"
  shows "slots_same s s'" "hardwareOffline s' = False" "currentPowerState s' = currentPowerState s"
    "kbdQueue_ok s \<Longrightarrow> kbdQueue_ok s'" "route_ok s \<Longrightarrow> route_ok s'"
    "\<exists>es c mux cb. out s' = out s @ [EvSleep 250] @ es @
       [EvOut kCommandPort kCP_SetCommandByte, EvOut kDataPort cb] @
       power_events True kPS2C_EnableDevice s \<and> list_all is_port_event es \<and>
     filter is_write es = reset_writes c @ mux @ [EvOut kCommandPort kCP_GetCommandByte] \<and>
     mux_writes (controllerUsesMuxMode s) mux \<and> irqs_enabled cb"
proof -
  from assms obtain s1 s2 s3 s4 where w: "drainInputStreams (emit (EvSleep 250) s) = Some s1"
    "resetPS2Controller s1 = Some s2"
    "if controllerUsesMuxMode s2 then detectMuxModeSupport s2 = Some s3 else s3 = s2"
    "enablePort s3 = Some s4"
    "s' = dispatchDriverPowerControl kPS2C_EnableDevice (s4\<lparr>hardwareOffline := False\<rparr>)"
    by (auto simp: wakeController_def Let_def split: if_splits)
  have a: "io_step (emit (EvSleep 250) s) s2"
    using io_step_drain [OF w(1)] io_step_reset [OF w(2)] by (rule io_step_trans)
  then have b: "io_step s s2" by (rule io_step_trans [OF io_step_emit])
  have c: "slots_same s2 s3" "currentPowerState s3 = currentPowerState s2"
    "kbdQueue_ok s2 \<Longrightarrow> kbdQueue_ok s3" "route_ok s2 \<Longrightarrow> route_ok s3" "\<exists>es. out s3 = out s2 @ es"
  proof -
    show "slots_same s2 s3" "currentPowerState s3 = currentPowerState s2" "\<exists>es. out s3 = out s2 @ es"
      using w(3) slots_same_mux [OF detectMuxModeSupport_spec(1), of s2 s3]
        mux_step_fields [OF detectMuxModeSupport_spec(1), of s2 s3]
      by (auto simp: slots_same_def interruptSlot_def powerSlot_def notificationSlot_def
          split: if_splits PS2DeviceType.splits)
    show "kbdQueue_ok s2 \<Longrightarrow> kbdQueue_ok s3"
      using w(3) mux_step_fields(10) [OF detectMuxModeSupport_spec(1), of s2 s3]
      by (auto simp: kbdQueue_ok_def split: if_splits)
    show "route_ok s2 \<Longrightarrow> route_ok s3"
      using w(3) detectMuxModeSupport_spec(2) by (auto split: if_splits)
  qed
  note d = io_step_enablePort [OF w(4)]
  have same4: "slots_same s s4"
    using slots_same_io [OF b] c(1) slots_same_io [OF d] by (blast intro: slots_same_trans)
  have upd: "s' = s4\<lparr>hardwareOffline := False, out := out s4 @ power_events True kPS2C_EnableDevice s4\<rparr>"
    using w(5) by (simp add: dispatchDriverPowerControl_update power_events_def)
  show "slots_same s s'" using same4 upd
    by (simp add: slots_same_def interruptSlot_def powerSlot_def notificationSlot_def
        split: PS2DeviceType.splits)
  show "hardwareOffline s' = False" using upd by simp
  show "currentPowerState s' = currentPowerState s"
    using upd c(2) io_step_fields [OF b] io_step_fields [OF d] by simp
  show "kbdQueue_ok s'" if "kbdQueue_ok s"
    using that upd io_step_kbdQueue [OF b] c(3) io_step_kbdQueue [OF d] by (simp add: kbdQueue_ok_def)
  show "route_ok s'" if "route_ok s"
    using that upd route_ok_io_step [OF b] c(4) route_ok_io_step [OF d] by (simp add: route_ok_def)
  obtain es1 c where e1: "out s2 = out s @ [EvSleep 250] @ es1" "list_all is_port_event es1"
    "filter is_write es1 = reset_writes c"
    using drain_SomeD [OF w(1)] reset_trace [OF w(2)] by (auto simp: trace_step_def)
  obtain mux where "trace_step mux s2 s3" "mux_writes (controllerUsesMuxMode s2) mux"
    using w(3) detectMuxModeSupport_trace [of s2 s3]
    by (cases "controllerUsesMuxMode s2") (auto simp: mux_writes_def intro: trace_step_refl)
  then obtain es2 where e2: "out s3 = out s2 @ es2" "list_all is_port_event es2"
    "filter is_write es2 = mux" "mux_writes (controllerUsesMuxMode s) mux"
    using io_step_fields(10) [OF b] by (auto simp: trace_step_def)
  obtain es3 cb where e3: "out s4 = out s3 @ es3 @
      [EvOut kCommandPort kCP_SetCommandByte, EvOut kDataPort cb]" "list_all is_port_event es3"
    "filter is_write es3 = [EvOut kCommandPort kCP_GetCommandByte]" "irqs_enabled cb"
    using enablePort_trace [OF w(4)] by blast
  show "\<exists>es c mux cb. out s' = out s @ [EvSleep 250] @ es @
       [EvOut kCommandPort kCP_SetCommandByte, EvOut kDataPort cb] @
       power_events True kPS2C_EnableDevice s \<and> list_all is_port_event es \<and>
     filter is_write es = reset_writes c @ mux @ [EvOut kCommandPort kCP_GetCommandByte] \<and>
     mux_writes (controllerUsesMuxMode s) mux \<and> irqs_enabled cb"
    by (intro exI [of _ "es1 @ es2 @ es3"] exI [of _ c] exI [of _ mux] exI [of _ cb])
       (use upd power_events_same [OF same4] e1 e2 e3 in simp)
qed

end
