(* ===== verification/PS2_System.thy ===== *)
theory PS2_System
  imports PS2_Power
begin

text \<open>
  The controller as a whole: everything that can happen to it after start, as a step relation over
  the operations of the component theories, and the invariant that every step keeps. A step is one
  operation run to completion; the spin locks and the work loop of the source make them exclusive.
\<close>

section \<open>Frames of the remaining operations\<close>

text \<open>An operation that leaves clients, power members and route alone and keeps the keyboard queue.\<close>

definition keeps :: "ctl \<Rightarrow> ctl \<Rightarrow> bool" where
  "keeps s s' \<longleftrightarrow> slots_same s s' \<and> hardwareOffline s' = hardwareOffline s \<and>
     currentPowerState s' = currentPowerState s \<and> (kbdQueue_ok s \<longrightarrow> kbdQueue_ok s') \<and>
     controllerUsesMuxMode s' = controllerUsesMuxMode s \<and> muxModeRoutePrefix s' = muxModeRoutePrefix s"

lemma keeps_refl [simp, intro]: "keeps s s"
  by (simp add: keeps_def slots_same_def)

lemma keeps_trans: "keeps a b \<Longrightarrow> keeps b c \<Longrightarrow> keeps a c"
  by (simp add: keeps_def slots_same_def)

lemma keeps_io: "io_step s s' \<Longrightarrow> keeps s s'"
  by (simp add: keeps_def slots_same_io io_step_fields io_step_kbdQueue)

lemma keeps_update [simp]:
  "keeps s (s\<lparr>ub := u\<rparr>)" "keeps s (s\<lparr>inp := t\<rparr>)" "keeps s (s\<lparr>requestQueue := q\<rparr>)"
  "keeps s (s\<lparr>liveRequests := l\<rparr>)" "keeps s (s\<lparr>extendedState := x\<rparr>)"
  "keeps s (s\<lparr>modifierState := m\<rparr>)" "keeps s (emit e s)"
  "keeps s (s\<lparr>modifierState := m, extendedState := x\<rparr>)"
  "keeps s (s\<lparr>nextRequest := n, liveRequests := l\<rparr>)"
  by (simp_all add: keeps_def slots_same_def interruptSlot_def powerSlot_def notificationSlot_def
      kbdQueue_ok_def split: PS2DeviceType.splits)

lemma keeps_enqueue: "keeps s (enqueueKeyboardData k s)"
  using enqueue_ok [of s k]
  by (auto simp: keeps_def enqueueKeyboardData_def slots_same_def interruptSlot_def powerSlot_def
      notificationSlot_def split: PS2DeviceType.splits list.splits)

lemma keeps_enqueueI: "keeps s t \<Longrightarrow> keeps s (enqueueKeyboardData k t)"
  by (rule keeps_trans [OF _ keeps_enqueue])

lemma keeps_emitI: "keeps s t \<Longrightarrow> keeps s (emit e t)"
  by (rule keeps_trans [OF _ keeps_update(7)])

lemma keeps_enqueueReleases: "keeps s (enqueueReleases es s)"
proof (induction es arbitrary: s)
  case (Cons e es)
  let ?s1 = "if modifierState s AND modifier e \<noteq> 0
        then enqueueKeyboardData (scancode e OR kSC_UpBit)
               (if extended e then enqueueKeyboardData kSC_Extend s else s)
        else s"
  have "keeps s ?s1" by (auto intro: keeps_trans keeps_enqueue)
  then show ?case using Cons [of ?s1] by (auto intro: keeps_trans)
qed simp

lemma keeps_doEscape: "doEscape sc s = Some (r, s') \<Longrightarrow> keeps s s'"
  by (auto simp: doEscape_def Let_def split: if_splits option.splits
      dest!: io_step_write [THEN keeps_io]
      intro: keeps_trans [OF keeps_trans [OF _ keeps_enqueueReleases] keeps_update(8)] keeps_trans)

lemma inb_SomeD: "inb p s = Some (b, s') \<Longrightarrow> \<exists>t. s' = s\<lparr>inp := t\<rparr>"
  by (auto simp: inb_def split: list.splits)

lemma keeps_inb: "inb p s = Some (b, s') \<Longrightarrow> keeps s s'"
  by (auto dest: inb_SomeD)

lemma keeps_handler:
  assumes "interruptHandlerKeyboard s = Some s'"
  shows "keeps s s'"
proof -
  from assms obtain st s1 where 1: "inb kCommandPort s = Some (st, s1)"
    and r: "if bits_set st kOutputReady then
        if bits_set st kMouseData then s' = interruptHandlerMouse s1
        else \<exists>key s2 s3. inb kDataPort s1 = Some (key, s2) \<and>
          (if debuggingEnabled s2 = False then s3 = enqueueKeyboardData key s2
           else \<exists>d s4. doEscape key s2 = Some (d, s4) \<and>
             s3 = (if d = False then enqueueKeyboardData key s4 else s4)) \<and>
          s' = emit (EvSignal SrcKeyboard) s3
      else s' = s1"
    by (auto simp: interruptHandlerKeyboard_def split: if_splits)
  have "keeps s1 s'" using r
    by (auto simp: interruptHandlerMouse_def split: if_splits
        dest!: keeps_inb keeps_doEscape intro!: keeps_emitI keeps_enqueueI intro: keeps_trans)
  with keeps_inb [OF 1] show ?thesis by (rule keeps_trans)
qed

lemma keeps_processCommands:
  "processCommands n i r p s = Some (failed, j, r', s') \<Longrightarrow> keeps s s'"
proof (induction n i r p s rule: processCommands.induct)
  case (2 n i r p s)
  show ?case
  proof (cases "length (commands r) \<le> i")
    case True
    then show ?thesis using 2(2) by auto
  next
    case False
    then obtain f b p1 s1 where c: "processCommand (commands r ! i) p s = Some (f, b, p1, s1)"
      using 2(2) by auto
    have k: "keeps s s1" using io_step_processCommand [OF c] by (rule keeps_io)
    show ?thesis
    proof (cases f)
      case True
      then show ?thesis using 2(2) c k False by (auto simp: Let_def split: if_splits)
    next
      case f: False
      have "keeps s1 s'"
        by (intro 2(1) [OF _ c refl refl refl refl]) (use 2(2) c False f in simp_all)
      with k show ?thesis by (rule keeps_trans)
    qed
  qed
qed auto

lemma keeps_useRequest [simp]: "keeps s (useRequest r s)"
  by (simp add: useRequest_def)

lemma keeps_freeRequest [simp]: "keeps s (freeRequest r s)"
  by (simp add: freeRequest_def)

lemma keeps_completeRequest [simp]: "keeps s (completeRequest r s)"
  by (simp add: completeRequest_def)

lemma keeps_processRequest: "processRequest r s = Some (r', s') \<Longrightarrow> keeps s s'"
  by (auto simp: processRequest_def Let_def split: if_splits
      dest!: keeps_processCommands intro: keeps_trans)

lemma keeps_processRequests: "processRequests rs s = Some s' \<Longrightarrow> keeps s s'"
proof (induction rs arbitrary: s)
  case (Cons r rs)
  then show ?case
    by (auto dest!: keeps_processRequest intro: keeps_trans [OF keeps_trans [OF keeps_useRequest]])
qed simp

lemma keeps_processRequestQueue: "processRequestQueue s = Some s' \<Longrightarrow> keeps s s'"
  by (auto simp: processRequestQueue_def dest!: keeps_processRequests intro: keeps_trans [OF keeps_update(3)])

lemma keeps_submitAndBlock: "submitRequestAndBlock r s = Some (r', s') \<Longrightarrow> keeps s s'"
  by (auto simp: submitRequestAndBlock_def submitRequestAndBlockGated_def Let_def
      dest!: keeps_processRequestQueue keeps_processRequest
      intro: keeps_trans [OF keeps_trans [OF keeps_useRequest]])

lemma keeps_submitRequest [simp]: "keeps s (snd (submitRequest r s))"
  unfolding submitRequest_def Let_def snd_conv
  by (rule keeps_trans [OF keeps_trans [OF keeps_useRequest keeps_update(3)] keeps_update(7)])

lemma keeps_interruptOccurred: "interruptOccurred s = Some s' \<Longrightarrow> keeps s s'"
proof -
  have "keeps s s'" if "interruptOccurred_loop s = Some s'" for s
    using that
  proof (induction s rule: interruptOccurred_loop.induct)
    case (1 s)
    note unf = 1(3) [unfolded interruptOccurred_loop.simps [of s]]
    show ?case
    proof (cases "dequeueKeyboardData s")
      case None
      then obtain st t where i: "inp s = st # t" using unf by (auto split: list.splits)
      show ?thesis
      proof (cases "st AND (kOutputReady OR kMouseData) = kOutputReady OR kMouseData")
        case True
        then obtain b t' where t: "t = b # t'" using unf None i by (auto split: list.splits)
        have "interruptOccurred_loop (dispatchDriverInterrupt kDT_Mouse b (s\<lparr>inp := t'\<rparr>)) = Some s'"
          using unf None i True t by simp
        then have "keeps (dispatchDriverInterrupt kDT_Mouse b (s\<lparr>inp := t'\<rparr>)) s'"
          using 1(1) [OF None i _ t] True by simp
        then show ?thesis
          using keeps_trans [OF keeps_update(2) keeps_io [OF io_step_dispatch]] keeps_trans by blast
      next
        case False
        then show ?thesis using unf None i by auto
      qed
    next
      case (Some q)
      obtain k s1 where q: "q = (k, s1)" by (cases q)
      have "interruptOccurred_loop (dispatchDriverInterrupt kDT_Keyboard k s1) = Some s'"
        using unf Some q by simp
      then have "keeps (dispatchDriverInterrupt kDT_Keyboard k s1) s'" using 1(2) Some q by blast
      moreover have "keeps s (dispatchDriverInterrupt kDT_Keyboard k s1)"
        using Some q io_step_dequeue [of s k s1] by (auto intro: keeps_trans keeps_io)
      ultimately show ?thesis by (blast intro: keeps_trans)
    qed
  qed
  then show "interruptOccurred s = Some s' \<Longrightarrow> keeps s s'"
    by (auto simp: interruptOccurred_def split: if_splits)
qed

section \<open>The system invariant\<close>

definition ctl_ok :: "ctl \<Rightarrow> bool" where
  "ctl_ok s \<longleftrightarrow> clients_inv s \<and> power_ok s \<and> kbdQueue_ok s \<and> route_ok s"

lemma keeps_ctl_ok: "keeps s s' \<Longrightarrow> ctl_ok s \<Longrightarrow> ctl_ok s'"
  using clients_inv_same by (auto simp: keeps_def ctl_ok_def power_ok_def route_ok_def)

definition valid_power_state :: "u32 \<Rightarrow> bool" where
  "valid_power_state p \<longleftrightarrow>
     p = kPS2PowerStateSleep \<or> p = kPS2PowerStateDoze \<or> p = kPS2PowerStateNormal"

lemma setPowerStateGated_cases:
  assumes "setPowerStateGated p s = Some s'" "valid_power_state p"
  obtains (same) "currentPowerState s = p" "s' = emit EvAckPower s"
    | (sleep) "currentPowerState s \<noteq> p" "p = kPS2PowerStateSleep"
        "s' = s\<lparr>out := out s @ power_events (\<not> hardwareOffline s) kPS2C_DisableDevice s @ [EvAckPower],
           hardwareOffline := True, currentPowerState := p\<rparr>"
    | (working) "currentPowerState s \<noteq> p" "p \<noteq> kPS2PowerStateSleep"
        "currentPowerState s \<noteq> kPS2PowerStateSleep"
        "s' = emit EvAckPower (s\<lparr>currentPowerState := p\<rparr>)"
    | (wake) s1 where "currentPowerState s = kPS2PowerStateSleep" "p \<noteq> kPS2PowerStateSleep"
        "wakeController s = Some s1" "s' = emit EvAckPower (s1\<lparr>currentPowerState := p\<rparr>)"
  using assms
  by (auto simp: setPowerStateGated_def dispatchDriverPowerControl_update emit_def
      valid_power_state_def split: if_splits)

lemma setPowerStateGated_ok:
  assumes "setPowerStateGated p s = Some s'" "valid_power_state p" "ctl_ok s"
  shows "ctl_ok s'"
proof -
  have slots: "slots_same s' (emit e (s'\<lparr>currentPowerState := q\<rparr>))"
    "clients_inv (s'\<lparr>out := os, hardwareOffline := h, currentPowerState := q\<rparr>) = clients_inv s'"
    for e q h os and s' :: ctl
    by (auto simp: slots_same_def clients_inv_def slots_ok_def all_holds_def interruptSlot_def
        powerSlot_def notificationSlot_def split: PS2DeviceType.splits)
  from assms(1,2) show ?thesis
  proof (cases rule: setPowerStateGated_cases)
    case same
    then show ?thesis using assms(3) keeps_ctl_ok [OF keeps_update(7)] by simp
  next
    case sleep
    then show ?thesis using assms(3) slots(2)
      by (simp add: ctl_ok_def power_ok_def route_ok_def kbdQueue_ok_def)
  next
    case working
    then show ?thesis using assms(3) clients_inv_same [OF slots(1)]
      by (simp add: ctl_ok_def power_ok_def route_ok_def kbdQueue_ok_def)
  next
    case (wake s1)
    have "clients_inv s'"
      using wake(4) assms(3) clients_inv_same [OF wakeController_spec(1) [OF wake(3)]]
        clients_inv_same [OF slots(1)] by (simp add: ctl_ok_def)
    then show ?thesis using wake wakeController_spec [OF wake(3)] assms(3)
      by (simp add: ctl_ok_def power_ok_def route_ok_def kbdQueue_ok_def)
  qed
qed

section \<open>Steps of the controller\<close>

inductive ctl_step :: "ctl \<Rightarrow> ctl \<Rightarrow> bool" where
  input: "ctl_step s (s\<lparr>inp := inp s @ t\<rparr>)"
| client: "client_step s s' \<Longrightarrow> ctl_step s s'"
| keyboard_irq: "interruptHandlerKeyboard s = Some s' \<Longrightarrow> ctl_step s s'"
| mouse_irq: "ctl_step s (interruptHandlerMouse s)"
| service: "interruptOccurred s = Some s' \<Longrightarrow> ctl_step s s'"
| allocate: "ctl_step s (snd (allocateRequest s))"
| free: "ctl_step s (freeRequest r s)"
| submit: "ctl_step s (snd (submitRequest r s))"
| run_queue: "processRequestQueue s = Some s' \<Longrightarrow> ctl_step s s'"
| block: "submitRequestAndBlock r s = Some (r', s') \<Longrightarrow> ctl_step s s'"
| power: "valid_power_state p \<Longrightarrow> setPowerStateGated p s = Some s' \<Longrightarrow> ctl_step s s'"

inductive ctl_reachable :: "ctl \<Rightarrow> bool" where
  started: "startHardware (init t) = Some s \<Longrightarrow> ctl_reachable s"
| step: "ctl_reachable s \<Longrightarrow> ctl_step s s' \<Longrightarrow> ctl_reachable s'"

lemma client_step_frame:
  "client_step s s' \<Longrightarrow> hardwareOffline s' = hardwareOffline s \<and>
     currentPowerState s' = currentPowerState s \<and> kbdQueue_ok s' = kbdQueue_ok s \<and>
     route_ok s' = route_ok s"
proof (induction rule: client_step.induct)
  case (deliver_interrupt s d b)
  show ?case by (simp add: kbdQueue_ok_def route_ok_def)
qed (simp_all add: interrupt_registry_defs power_registry_defs notification_registry_defs
      dispatchDriverPowerControl_update dispatchPS2Notification_def message_def
      kbdQueue_ok_def route_ok_def Let_def)

lemma ctl_step_ok: "ctl_step s s' \<Longrightarrow> ctl_ok s \<Longrightarrow> ctl_ok s'"
proof (induction rule: ctl_step.induct)
  case (client s s')
  then show ?case using client_step_frame [of s s'] client_step_inv [of s s']
    by (simp add: ctl_ok_def power_ok_def)
next
  case (power p s s')
  then show ?case by (blast intro: setPowerStateGated_ok)
next
  case (allocate s)
  then show ?case by (simp add: allocateRequest_def keeps_ctl_ok [OF keeps_update(9)])
next
  case (mouse_irq s)
  then show ?case by (simp add: interruptHandlerMouse_def keeps_ctl_ok [OF keeps_update(7)])
qed (auto intro: keeps_ctl_ok keeps_handler keeps_interruptOccurred keeps_processRequestQueue
      keeps_submitAndBlock keeps_submitRequest keeps_freeRequest keeps_update)

lemma startHardware_ok:
  assumes "startHardware (init t) = Some s"
  shows "ctl_ok s"
proof -
  let ?s0 = "initKeyboardQueue (init t)"
  from assms obtain s1 s2 s3 r where w: "resetPS2Controller ?s0 = Some s1"
    "writeDataPort kDP_Reset s1 = Some s2" "readDataPort kDT_Keyboard s2 = Some (r, s3)"
    "detectMuxModeSupport s3 = Some s"
    by (auto simp: startHardware_def Let_def)
  have "io_step ?s0 s3"
    using io_step_reset [OF w(1)] io_steps(1) [OF w(2)] io_steps(3) [OF w(3)]
    by (blast intro: io_step_trans)
  moreover have "ctl_ok ?s0"
    using initKeyboardQueue_ok(1) [of "init t"]
    by (simp add: ctl_ok_def clients_inv_def slots_ok_def slot_ok_def all_holds_def holds_def init_def
        interruptSlot_def powerSlot_def notificationSlot_def emptySlot_def initKeyboardQueue_def
        power_ok_def route_ok_def split: PS2DeviceType.splits)
  ultimately have s3: "ctl_ok s3" by (blast intro: keeps_ctl_ok keeps_io)
  have m: "mux_step (s3\<lparr>controllerUsesMuxMode := False\<rparr>) s" "route_ok s"
    using detectMuxModeSupport_spec [OF w(4)] by simp_all
  have "slots_same s3 s" using slots_same_mux [OF m(1)]
    by (simp add: slots_same_def interruptSlot_def powerSlot_def notificationSlot_def
        split: PS2DeviceType.splits)
  then have "clients_inv s" using s3 clients_inv_same by (simp add: ctl_ok_def)
  moreover have "kbdQueue_ok s"
    by (rule mux_step_fields(10) [OF m(1)]) (use s3 in \<open>simp add: ctl_ok_def kbdQueue_ok_def\<close>)
  ultimately show ?thesis
    using s3 m(2) mux_step_fields(1,2) [OF m(1)] by (simp add: ctl_ok_def power_ok_def)
qed

lemma ctl_reachable_ok: "ctl_reachable s \<Longrightarrow> ctl_ok s"
  by (induction rule: ctl_reachable.induct) (blast intro: startHardware_ok ctl_step_ok)+

section \<open>Properties\<close>

text \<open>
  C1: In every state the controller reaches after start, under any interleaving of its operations
  and any input: the port is offline exactly when the power state is sleep; the keyboard queue and
  its free list share out the 32 elements of the array without overlap; a multiplexing controller
  has one of the routing prefixes selected; and targets are retained exactly as often as they are
  registered.
\<close>

theorem controller_invariant:
  assumes "ctl_reachable s"
  shows "(hardwareOffline s \<longleftrightarrow> currentPowerState s = kPS2PowerStateSleep) \<and>
    distinct (keyboardQueue s @ keyboardQueueUnused s) \<and>
    set (keyboardQueue s @ keyboardQueueUnused s) = {0..<kKeyboardQueueSize} \<and>
    (controllerUsesMuxMode s \<longrightarrow> is_mouse_prefix (muxModeRoutePrefix s)) \<and>
    (\<forall>x. refs s x = all_holds s x)"
  using ctl_reachable_ok [OF assms]
  by (simp add: ctl_ok_def power_ok_def kbdQueue_ok_def route_ok_def clients_inv_def)

text \<open>
  Going to sleep: the clients are told to disable their devices while requests are still
  served, then the port goes offline and the change is acknowledged; nothing is read or written.
\<close>

theorem power_sleep:
  assumes "currentPowerState s \<noteq> kPS2PowerStateSleep"
  shows "setPowerStateGated kPS2PowerStateSleep s = Some (s\<lparr>hardwareOffline := True,
    currentPowerState := kPS2PowerStateSleep,
    out := out s @ power_events (\<not> hardwareOffline s) kPS2C_DisableDevice s @ [EvAckPower]\<rparr>)"
  using assms by (simp add: setPowerStateGated_def dispatchDriverPowerControl_update emit_def)

theorem power_sleep_witness:
  "let s = init [] in setPowerStateGated kPS2PowerStateSleep s = Some (s\<lparr>hardwareOffline := True,
     currentPowerState := kPS2PowerStateSleep,
     out := out s @ power_events (\<not> hardwareOffline s) kPS2C_DisableDevice s @ [EvAckPower]\<rparr>)"
  unfolding Let_def by (rule power_sleep) (simp add: init_def)

text \<open>
  C30: Waking up from sleep to doze or normal ends online in the requested state. The controller
  sleeps 250 ms, then it resets the keyboard and mouse (both are set to defaults and disabled, after
  a command byte that masks the mouse interrupt), repeats the detection of active multiplexing
  exactly if the controller multiplexed, and as its last write sets a command byte with both clocks
  on and both interrupts enabled. No client is told anything before that; then each registered one
  is told once to enable its device, with the port online again, and the acknowledgement comes last.
\<close>

theorem power_wake:
  assumes "setPowerStateGated p s = Some s'" "currentPowerState s = kPS2PowerStateSleep"
    "p = kPS2PowerStateDoze \<or> p = kPS2PowerStateNormal"
  shows "hardwareOffline s' = False \<and> currentPowerState s' = p \<and>
    (\<exists>es c mux cb. out s' = out s @ [EvSleep 250] @ es @
       [EvOut kCommandPort kCP_SetCommandByte, EvOut kDataPort cb] @
       power_events True kPS2C_EnableDevice s @ [EvAckPower] \<and> list_all is_port_event es \<and>
     filter is_write es = reset_writes c @ mux @ [EvOut kCommandPort kCP_GetCommandByte] \<and>
     mux_writes (controllerUsesMuxMode s) mux \<and> irqs_enabled cb)"
proof -
  from assms obtain s1 where w: "wakeController s = Some s1"
    "s' = emit EvAckPower (s1\<lparr>currentPowerState := p\<rparr>)"
    by (auto simp: setPowerStateGated_def split: if_splits)
  then show ?thesis using wakeController_spec(2,6) [OF w(1)] by auto
qed

text \<open>
  Changes between the working states touch nothing but the recorded state, and a request for
  the current state is only acknowledged.
\<close>

theorem power_working_noop:
  assumes "valid_power_state p" "p \<noteq> kPS2PowerStateSleep" "currentPowerState s \<noteq> kPS2PowerStateSleep"
  shows "setPowerStateGated p s =
    Some (s\<lparr>currentPowerState := p, out := out s @ [EvAckPower]\<rparr>)"
  using assms by (cases "currentPowerState s = p")
    (auto simp: setPowerStateGated_def valid_power_state_def emit_def)

theorem power_working_noop_witness:
  "setPowerStateGated kPS2PowerStateDoze (init []) =
    Some ((init [])\<lparr>currentPowerState := kPS2PowerStateDoze, out := out (init []) @ [EvAckPower]\<rparr>)"
  by (rule power_working_noop) (simp_all add: init_def valid_power_state_def)

text \<open>
  A power state outside the three defined ones is reported as bad but recorded all the same.
  When the controller was asleep this loses the knowledge of it: the port stays offline through
  every later change to a working state, and each of these changes is still acknowledged.
\<close>

theorem power_bad_state_sticks:
  assumes "currentPowerState s = kPS2PowerStateSleep" "hardwareOffline s" "\<not> valid_power_state q"
    "p = kPS2PowerStateDoze \<or> p = kPS2PowerStateNormal"
  shows "\<exists>s1 s2. setPowerStateGated q s = Some s1 \<and> setPowerStateGated p s1 = Some s2 \<and>
    hardwareOffline s2 \<and> currentPowerState s2 = p \<and> out s2 = out s @ [EvAckPower, EvAckPower]"
  using assms by (auto simp: setPowerStateGated_def valid_power_state_def)

theorem power_bad_state_sticks_witness:
  "\<exists>s1 s2. setPowerStateGated 3 ((init [])\<lparr>currentPowerState := 0, hardwareOffline := True\<rparr>) = Some s1 \<and>
     setPowerStateGated kPS2PowerStateNormal s1 = Some s2 \<and>
     hardwareOffline s2 \<and> currentPowerState s2 = kPS2PowerStateNormal \<and>
     out s2 = out ((init [])\<lparr>currentPowerState := 0, hardwareOffline := True\<rparr>) @ [EvAckPower, EvAckPower]"
  by (rule power_bad_state_sticks) (simp_all add: valid_power_state_def)

end
