(* ===== verification/PS2_Interface.thy ===== *)
theory PS2_Interface
  imports PS2_Processor
begin

text \<open>
  ApplePS2SmartTouchPad/PS2Interface.cpp: the command library of the touchpad driver. Its functions
  take the device nub (ApplePS2MouseDevice) they talk through; a nub is the record ps2dev of its
  request operations, whatever state they work on. A blocking submission is partial, None says that
  it has not returned. Array parameters are passed in and handed back.
\<close>

section \<open>The device and the results\<close>

record 's ps2dev =
  dev_allocateRequest :: "'s \<Rightarrow> PS2Request \<times> 's"
  dev_freeRequest :: "PS2Request \<Rightarrow> 's \<Rightarrow> 's"
  dev_submitRequestAndBlock :: "PS2Request \<Rightarrow> 's \<Rightarrow> (PS2Request \<times> 's) option"

text \<open>ApplePS2MouseDevice.cpp: the nub hands every request to its controller.\<close>

definition mouseDevice :: "ctl ps2dev" where
  "mouseDevice = \<lparr>dev_allocateRequest = allocateRequest, dev_freeRequest = freeRequest,
     dev_submitRequestAndBlock = submitRequestAndBlock\<rparr>"

type_synonym IOReturn = u32

abbreviation kIOReturnSuccess :: IOReturn where "kIOReturnSuccess \<equiv> 0"
abbreviation kIOReturnError :: IOReturn where "kIOReturnError \<equiv> 0xe00002bc"
abbreviation kIOReturnNoDevice :: IOReturn where "kIOReturnNoDevice \<equiv> 0xe00002c0"
abbreviation kIOReturnBadArgument :: IOReturn where "kIOReturnBadArgument \<equiv> 0xe00002c2"
abbreviation kIOReturnIOError :: IOReturn where "kIOReturnIOError \<equiv> 0xe00002ca"

abbreviation Send :: PS2CommandEnum where "Send \<equiv> kPS2C_SendMouseCommandAndCompareAck"

section \<open>Commands\<close>

definition sendPS2Cmd :: "'s ps2dev \<Rightarrow> u8 \<Rightarrow> 's \<Rightarrow> (IOReturn \<times> 's) option" where
  "sendPS2Cmd D cmd s =
     (let (request, s) = dev_allocateRequest D s;
          request = setCommands [(Send, cmd)] request
      in do {
        (request, s) \<leftarrow> dev_submitRequestAndBlock D request s;
        let ret = (if commandsCount request = 1 then kIOReturnSuccess else kIOReturnIOError);
        Some (ret, dev_freeRequest D request s)
      })"

text \<open>The do-while loop of sendElactechPS2Cmd; \<open>n\<close> tries are left, and the loop frees the request.\<close>

abbreviation ETD_PS2_COMMAND_TRIES :: nat where "ETD_PS2_COMMAND_TRIES \<equiv> 3"

fun elactechTries :: "'s ps2dev \<Rightarrow> u8 \<Rightarrow> nat \<Rightarrow> PS2Request \<Rightarrow> 's \<Rightarrow> (IOReturn \<times> 's) option" where
  "elactechTries D cmd 0 request s = Some (kIOReturnIOError, s)"
| "elactechTries D cmd (Suc n) request s = do {
     (request, s) \<leftarrow> dev_submitRequestAndBlock D (setCommands [(Send, cmd)] request) s;
     let s' = dev_freeRequest D request s;
     if commandsCount request = 1 then Some (kIOReturnSuccess, s')
     else elactechTries D cmd n request s'
   }"

definition sendElactechPS2Cmd :: "'s ps2dev \<Rightarrow> u8 \<Rightarrow> 's \<Rightarrow> (IOReturn \<times> 's) option" where
  "sendElactechPS2Cmd D cmd s =
     (let (request, s) = dev_allocateRequest D s
      in elactechTries D cmd ETD_PS2_COMMAND_TRIES request s)"

text \<open>
  The command list of sendSlicedPS2Cmd: the for loop over the shifts 6, 4, 2, 0 after the leading
  scaling command.
\<close>

definition slice :: "u8 \<Rightarrow> nat \<Rightarrow> u8" where
  "slice cmd i = drop_bit i cmd AND 3"

definition slicedCommands :: "u8 \<Rightarrow> (PS2CommandEnum \<times> u8) list" where
  "slicedCommands cmd =
     (Send, kDP_SetMouseScaling1To1) #
     concat (map (\<lambda>i. [(Send, kDP_SetMouseResolution), (Send, slice cmd i)]) [6, 4, 2, 0])"

definition sendSlicedPS2Cmd :: "'s ps2dev \<Rightarrow> u8 \<Rightarrow> 's \<Rightarrow> (IOReturn \<times> 's) option" where
  "sendSlicedPS2Cmd D cmd s =
     (let (request, s) = dev_allocateRequest D s;
          cmdIndex = length (slicedCommands cmd);
          request = setCommands (slicedCommands cmd) request
      in do {
        (request, s) \<leftarrow> dev_submitRequestAndBlock D request s;
        let (ret, s) = (if \<not> unat (commandsCount request) = cmdIndex
                        then (kIOReturnIOError, dev_freeRequest D request s)
                        else (kIOReturnSuccess, s));
        Some (ret, dev_freeRequest D request s)
      })"

definition getMouseInformation ::
  "'s ps2dev \<Rightarrow> u8 list \<Rightarrow> 's \<Rightarrow> (IOReturn \<times> u8 list \<times> 's) option" where
  "getMouseInformation D param s =
     (let (request, s) = dev_allocateRequest D s;
          request = setCommands [(Send, kDP_GetMouseInformation), (kPS2C_ReadDataPort, 0),
            (kPS2C_ReadDataPort, 0), (kPS2C_ReadDataPort, 0)] request
      in do {
        (request, s) \<leftarrow> dev_submitRequestAndBlock D request s;
        let (ret, param) = (if commandsCount request = 4
          then (kIOReturnSuccess, [respByte request 1, respByte request 2, respByte request 3])
          else (kIOReturnIOError, param));
        Some (ret, param, dev_freeRequest D request s)
      })"

definition sendSynapticsCmd ::
  "'s ps2dev \<Rightarrow> u8 \<Rightarrow> u8 list \<Rightarrow> 's \<Rightarrow> (IOReturn \<times> u8 list \<times> 's) option" where
  "sendSynapticsCmd D cmd param s = do {
     (r, s) \<leftarrow> sendSlicedPS2Cmd D cmd s;
     if r \<noteq> 0 then Some (kIOReturnError, param, s)
     else do {
       (r, param, s) \<leftarrow> getMouseInformation D param s;
       if r \<noteq> 0 then Some (kIOReturnError, param, s) else Some (kIOReturnSuccess, param, s)
     }
   }"

abbreviation ETD_PS2_CUSTOM_COMMAND :: u8 where "ETD_PS2_CUSTOM_COMMAND \<equiv> 0xf8"

definition sendElantechCmd ::
  "'s ps2dev \<Rightarrow> u8 \<Rightarrow> u8 list \<Rightarrow> 's \<Rightarrow> (IOReturn \<times> u8 list \<times> 's) option" where
  "sendElantechCmd D cmd param s =
     (let (request, s) = dev_allocateRequest D s;
          request = setCommands [(Send, ETD_PS2_CUSTOM_COMMAND), (Send, cmd),
            (Send, kDP_GetMouseInformation), (kPS2C_ReadDataPort, 0), (kPS2C_ReadDataPort, 0),
            (kPS2C_ReadDataPort, 0)] request
      in do {
        (request, s) \<leftarrow> dev_submitRequestAndBlock D request s;
        let param = [respByte request 3, respByte request 4, respByte request 5];
        let (ret, s) = (if \<not> commandsCount request = 6
                        then (kIOReturnIOError, dev_freeRequest D request s)
                        else (kIOReturnSuccess, s));
        Some (ret, param, dev_freeRequest D request s)
      })"

text \<open>
  The test-and-set loop of setCommandByte may run for ever when the command byte keeps changing,
  so the loop is a partial function; it works on one request throughout.
\<close>

partial_function (option) setCommandByteLoop ::
  "'s ps2dev \<Rightarrow> u8 \<Rightarrow> u8 \<Rightarrow> PS2Request \<Rightarrow> 's \<Rightarrow> (PS2Request \<times> 's) option" where
  "setCommandByteLoop D setBits clearBits request s =
     Option.bind (dev_submitRequestAndBlock D
         (setCommands [(kPS2C_WriteCommandPort, kCP_GetCommandByte), (kPS2C_ReadDataPort, 0)] request) s)
       (\<lambda>(request, s).
         let commandByte = respByte request 1;
             commandByteNew = (commandByte OR setBits) AND NOT clearBits
         in Option.bind (dev_submitRequestAndBlock D
             (setCommands [(kPS2C_WriteCommandPort, kCP_GetCommandByte),
                (kPS2C_ReadDataPortAndCompare, commandByte),
                (kPS2C_WriteCommandPort, kCP_SetCommandByte),
                (kPS2C_WriteDataPort, commandByteNew)] request) s)
           (\<lambda>(request, s).
             if commandsCount request \<noteq> 4 then setCommandByteLoop D setBits clearBits request s
             else Some (request, s)))"

definition setCommandByte :: "'s ps2dev \<Rightarrow> u8 \<Rightarrow> u8 \<Rightarrow> 's \<Rightarrow> 's option" where
  "setCommandByte D setBits clearBits s =
     (let (request, s) = dev_allocateRequest D s
      in do {
        (request, s) \<leftarrow> setCommandByteLoop D setBits clearBits request s;
        Some (dev_freeRequest D request s)
      })"

definition getStatus :: "'s ps2dev \<Rightarrow> 's \<Rightarrow> (IOReturn \<times> 's) option" where
  "getStatus D s =
     (let (request, s) = dev_allocateRequest D s;
          request = setCommands [(Send, kDP_SetDefaultsAndDisable), (Send, kDP_SetDefaultsAndDisable),
            (Send, kDP_SetDefaultsAndDisable), (Send, kDP_GetMouseInformation),
            (kPS2C_ReadDataPort, 0), (kPS2C_ReadDataPort, 0), (kPS2C_ReadDataPort, 0)] request
      in do {
        (request, s) \<leftarrow> dev_submitRequestAndBlock D request s;
        let ret = (if commandsCount request = 7 then kIOReturnSuccess else kIOReturnIOError);
        Some (ret, dev_freeRequest D request s)
      })"

definition initializeMouse :: "'s ps2dev \<Rightarrow> u8 \<Rightarrow> u8 \<Rightarrow> u8 \<Rightarrow> 's \<Rightarrow> (IOReturn \<times> 's) option" where
  "initializeMouse D mSampleRate mResolution mScaling s =
     (let (request, s) = dev_allocateRequest D s;
          request = setCommands [(Send, kDP_SetMouseSampleRate), (Send, mSampleRate),
            (Send, kDP_SetMouseResolution), (Send, mResolution), (Send, mScaling)] request
      in do {
        (request, s) \<leftarrow> dev_submitRequestAndBlock D request s;
        let ret = (if commandsCount request \<noteq> 5 then kIOReturnError else kIOReturnSuccess);
        let s = dev_freeRequest D request s;
        if ret = kIOReturnSuccess then do {
          (r, param, s) \<leftarrow> getMouseInformation D [] s;
          (r, s) \<leftarrow> getStatus D s;
          Some (ret, s)
        }
        else Some (ret, s)
      })"

definition resetMouse :: "'s ps2dev \<Rightarrow> 's \<Rightarrow> (IOReturn \<times> 's) option" where
  "resetMouse D s =
     (let (request, s) = dev_allocateRequest D s;
          request = setCommands [(Send, kDP_SetDefaultsAndDisable), (Send, kDP_Reset),
            (kPS2C_ReadMouseDataPort, 0), (kPS2C_ReadMouseDataPort, 0),
            (kPS2C_ReadMouseDataPort, 0)] request
      in do {
        (request, s) \<leftarrow> dev_submitRequestAndBlock D request s;
        let ret = (if commandsCount request = 5 \<and>
            (respByte request 2 = kSC_Reset \<or> respByte request 3 = kSC_Reset \<or>
             respByte request 4 = kSC_Reset) then kIOReturnSuccess else kIOReturnIOError);
        Some (ret, dev_freeRequest D request s)
      })"

end
