(* ===== verification/PS2_InterfaceProps.thy ===== *)
theory PS2_InterfaceProps
  imports PS2_Interface
begin

text \<open>
  Correctness of ApplePS2SmartTouchPad/PS2Interface.cpp over any device nub that keeps the request
  contract (locale request_device), and the contract of the controller's own request operations.
\<close>

section \<open>The contract between a request client and its device\<close>

definition sent_by :: "(PS2CommandEnum \<times> u8) list \<Rightarrow> u8 list" where
  "sent_by cs = map snd (filter (\<lambda>(c, b). c = Send) cs)"

definition plain_commands :: "(PS2CommandEnum \<times> u8) list \<Rightarrow> bool" where
  "plain_commands cs \<longleftrightarrow>
     length cs \<le> kMaxCommands \<and> list_all (\<lambda>(c, b). plain_command \<lparr>command = c, inOrOut = b\<rparr>) cs"

text \<open>The commands that went out when a submission of \<open>n\<close> commands came back with count \<open>k\<close>.\<close>

definition attempted :: "nat \<Rightarrow> nat \<Rightarrow> nat" where
  "attempted n k = (if k = n then n else Suc k)"

locale request_device =
  fixes D :: "'s ps2dev"
    and live :: "'s \<Rightarrow> nat set"
    and fault :: "'s \<Rightarrow> bool"
    and ok :: "'s \<Rightarrow> bool"
    and sent :: "'s \<Rightarrow> u8 list"
  assumes alloc: "dev_allocateRequest D s = (r, s1) \<Longrightarrow> ok s \<Longrightarrow>
      (\<exists>a. r = zeroRequest a \<and> a \<notin> live s \<and> live s1 = insert a (live s)) \<and> ok s1 \<and>
      fault s1 = fault s \<and> sent s1 = sent s"
    and free: "ok s \<Longrightarrow> live (dev_freeRequest D r s) = live s - {reqAddr r} \<and>
      ok (dev_freeRequest D r s) \<and> sent (dev_freeRequest D r s) = sent s \<and>
      fault (dev_freeRequest D r s) = (fault s \<or> reqAddr r \<notin> live s)"
    and submit: "dev_submitRequestAndBlock D r s = Some (r', s1) \<Longrightarrow> ok s \<Longrightarrow> request_ok r \<Longrightarrow>
      list_all plain_command (take (unat (commandsCount r)) (commands r)) \<Longrightarrow>
      same_shape r r' \<and> unat (commandsCount r') \<le> unat (commandsCount r) \<and> live s1 = live s \<and>
      ok s1 \<and> fault s1 = (fault s \<or> reqAddr r \<notin> live s) \<and>
      sent s1 = sent s @ mouse_bytes
        (take (attempted (unat (commandsCount r)) (unat (commandsCount r'))) (commands r))"

text \<open>
  What every submission of the test-and-set loop establishes holds when the loop returns. The
  submissions are those of plain command lists without a mouse command.
\<close>

lemma setCommandByteLoop_invariant:
  assumes "setCommandByteLoop D setBits clearBits r s = Some (r', s')"
    and "P0 r s"
    and step: "\<And>cs r s r' s'. dev_submitRequestAndBlock D (setCommands cs r) s = Some (r', s') \<Longrightarrow>
      plain_commands cs \<Longrightarrow> sent_by cs = [] \<Longrightarrow> P0 r s \<or> P r s \<Longrightarrow> P r' s'"
  shows "P r' s'"
proof -
  have "D = D \<longrightarrow> P0 r s \<or> P r s \<longrightarrow> P (fst (r', s')) (snd (r', s'))"
  proof (rule setCommandByteLoop.raw_induct [where P = "\<lambda>D' sb cb r s y. D' = D \<longrightarrow>
      P0 r s \<or> P r s \<longrightarrow> P (fst y) (snd y)", OF _ assms(1)])
    fix loop :: "'a ps2dev \<Rightarrow> u8 \<Rightarrow> u8 \<Rightarrow> PS2Request \<Rightarrow> 'a \<Rightarrow> (PS2Request \<times> 'a) option"
      and D' :: "'a ps2dev" and sb cb :: u8 and r s y
    assume IH: "\<And>D' sb cb r s y. loop D' sb cb r s = Some y \<Longrightarrow>
        D' = D \<longrightarrow> P0 r s \<or> P r s \<longrightarrow> P (fst y) (snd y)"
    let ?read = "[(kPS2C_WriteCommandPort, kCP_GetCommandByte), (kPS2C_ReadDataPort, 0)]"
    let ?test = "\<lambda>b. [(kPS2C_WriteCommandPort, kCP_GetCommandByte),
      (kPS2C_ReadDataPortAndCompare, b), (kPS2C_WriteCommandPort, kCP_SetCommandByte),
      (kPS2C_WriteDataPort, (b OR sb) AND NOT cb)]"
    assume "Option.bind (dev_submitRequestAndBlock D' (setCommands ?read r) s)
       (\<lambda>(request, s).
         let commandByte = respByte request 1; commandByteNew = (commandByte OR sb) AND NOT cb
         in Option.bind (dev_submitRequestAndBlock D' (setCommands
                [(kPS2C_WriteCommandPort, kCP_GetCommandByte),
                 (kPS2C_ReadDataPortAndCompare, commandByte),
                 (kPS2C_WriteCommandPort, kCP_SetCommandByte),
                 (kPS2C_WriteDataPort, commandByteNew)] request) s)
           (\<lambda>(request, s). if commandsCount request \<noteq> 4 then loop D' sb cb request s
             else Some (request, s))) = Some y"
    then obtain r1 s1 r2 s2 where
      s1: "dev_submitRequestAndBlock D' (setCommands ?read r) s = Some (r1, s1)" and
      s2: "dev_submitRequestAndBlock D' (setCommands (?test (respByte r1 1)) r1) s1 = Some (r2, s2)" and
      y: "y = (r2, s2) \<or> loop D' sb cb r2 s2 = Some y"
      by (auto simp: Let_def split: if_splits)
    have pl: "plain_commands ?read" "plain_commands (?test b)" "sent_by ?read = []"
      "sent_by (?test b) = []" for b
      by (simp_all add: plain_commands_def plain_command_def is_mouse_prefix_def sent_by_def)
    show "D' = D \<longrightarrow> P0 r s \<or> P r s \<longrightarrow> P (fst y) (snd y)"
    proof (intro impI)
      assume D: "D' = D" and start: "P0 r s \<or> P r s"
      have "P r1 s1" by (rule step [OF s1 [unfolded D] pl(1,3) start])
      then have "P r2 s2" using step [OF s2 [unfolded D] pl(2,4)] by blast
      then show "P (fst y) (snd y)" using y IH D by fastforce
    qed
  qed
  then show ?thesis using assms(2) by simp
qed

context request_device
begin

text \<open>Submitting a command list in a request.\<close>

lemma submit_list:
  assumes "dev_submitRequestAndBlock D (setCommands cs r) s = Some (r', s1)" "ok s"
    "length (commands r) = kMaxCommands" "plain_commands cs"
  shows "reqAddr r' = reqAddr r" "length (commands r') = kMaxCommands"
    "unat (commandsCount r') \<le> length cs" "live s1 = live s" "ok s1"
    "fault s1 = (fault s \<or> reqAddr r \<notin> live s)"
    "sent s1 = sent s @ sent_by (take (attempted (length cs) (unat (commandsCount r'))) cs)"
proof -
  let ?r = "setCommands cs r"
  have n: "unat (commandsCount ?r) = length cs"
    using assms(4) by (simp add: plain_commands_def unat_of_nat_u8)
  have rok: "request_ok ?r"
    using assms(3,4) n by (simp add: request_ok_def plain_commands_def)
  have tk: "take (length cs) (commands ?r) = map (\<lambda>(c, b). \<lparr>command = c, inOrOut = b\<rparr>) cs"
    using assms(3,4) by (simp add: take_setCommands plain_commands_def)
  have pl: "list_all plain_command (take (unat (commandsCount ?r)) (commands ?r))"
    unfolding n tk using assms(4) by (simp add: plain_commands_def list_all_iff split_beta)
  note sub = submit [OF assms(1,2) rok pl, unfolded n]
  have bytes: "mouse_bytes (map (\<lambda>(c, b). \<lparr>command = c, inOrOut = b\<rparr>) xs) = sent_by xs" for xs
    by (induction xs) (auto simp: mouse_bytes_def sent_by_def)
  let ?k = "attempted (length cs) (unat (commandsCount r'))"
  have "?k \<le> length cs" using sub by (auto simp: attempted_def)
  then have "take ?k (commands ?r) = take ?k (take (length cs) (commands ?r))"
    by (simp add: min_def)
  also have "\<dots> = map (\<lambda>(c, b). \<lparr>command = c, inOrOut = b\<rparr>) (take ?k cs)"
    unfolding tk by (rule take_map)
  finally have "mouse_bytes (take ?k (commands ?r)) = sent_by (take ?k cs)" by (simp add: bytes)
  then show "sent s1 = sent s @ sent_by (take ?k cs)" using sub by simp
  show "reqAddr r' = reqAddr r" "length (commands r') = kMaxCommands"
    "unat (commandsCount r') \<le> length cs" "live s1 = live s" "ok s1"
    "fault s1 = (fault s \<or> reqAddr r \<notin> live s)"
    using sub assms(3) by (simp_all add: same_shape_def)
qed

lemma count_eq: "n < 256 \<Longrightarrow> (commandsCount r = of_nat n) = (unat (commandsCount r) = n)"
  by (simp add: word_unat_eq_iff unat_of_nat_u8)

text \<open>The life of a request: allocated, submitted and freed once.\<close>

lemma one_request:
  assumes "dev_allocateRequest D s = (r, s0)"
    "dev_submitRequestAndBlock D (setCommands cs r) s0 = Some (r', s1)" "ok s" "plain_commands cs"
  defines "s' \<equiv> dev_freeRequest D r' s1"
  shows "live s' = live s" "ok s'" "fault s' = fault s"
    "sent s' = sent s @ sent_by (take (attempted (length cs) (unat (commandsCount r'))) cs)"
    "unat (commandsCount r') \<le> length cs" "reqAddr r' \<notin> live s'" "ok s1"
proof -
  from alloc [OF assms(1,3)] obtain a where a: "r = zeroRequest a" "a \<notin> live s"
      "live s0 = insert a (live s)" "ok s0" "fault s0 = fault s" "sent s0 = sent s" by auto
  have len: "length (commands r) = kMaxCommands" using a by simp
  note sub = submit_list [OF assms(2) a(4) len assms(4)]
  note fr = free [OF sub(5), of r']
  show "live s' = live s" "ok s'" "fault s' = fault s"
    "sent s' = sent s @ sent_by (take (attempted (length cs) (unat (commandsCount r'))) cs)"
    "unat (commandsCount r') \<le> length cs" "reqAddr r' \<notin> live s'" "ok s1"
    using a sub fr by (auto simp: s'_def)
qed

text \<open>Freeing it a second time is what the failure branches of the drivers do.\<close>

lemma one_request_freed_twice:
  assumes "dev_allocateRequest D s = (r, s0)"
    "dev_submitRequestAndBlock D (setCommands cs r) s0 = Some (r', s1)" "ok s" "plain_commands cs"
  defines "s' \<equiv> dev_freeRequest D r' (dev_freeRequest D r' s1)"
  shows "live s' = live s" "ok s'" "fault s'"
    "sent s' = sent s @ sent_by (take (attempted (length cs) (unat (commandsCount r'))) cs)"
proof -
  note one = one_request [OF assms(1-4)]
  note fr = free [OF one(2), of r']
  show "live s' = live s" "ok s'" "fault s'"
    "sent s' = sent s @ sent_by (take (attempted (length cs) (unat (commandsCount r'))) cs)"
    using one fr by (auto simp: s'_def)
qed

lemma sendPS2Cmd_run:
  assumes "sendPS2Cmd D cmd s = Some (ret, s')" "ok s"
  shows "live s' = live s \<and> ok s' \<and> fault s' = fault s \<and> sent s' = sent s @ [cmd]"
proof -
  obtain r s0 where al: "dev_allocateRequest D s = (r, s0)" by fastforce
  then obtain r' s1 where sub: "dev_submitRequestAndBlock D (setCommands [(Send, cmd)] r) s0 = Some (r', s1)"
      and s': "s' = dev_freeRequest D r' s1"
    using assms(1) by (auto simp: sendPS2Cmd_def Let_def)
  have "plain_commands [(Send, cmd)]" by (simp add: plain_commands_def plain_command_def)
  note one = one_request [OF al sub assms(2) this]
  have "take (attempted 1 k) [(Send, cmd)] = [(Send, cmd)]" for k
    by (simp add: attempted_def)
  then show ?thesis using one s' by (simp add: sent_by_def)
qed

lemma sliced_plain: "plain_commands (slicedCommands cmd)"
  by (simp add: plain_commands_def slicedCommands_def plain_command_def)

lemma length_slicedCommands [simp]: "length (slicedCommands cmd) = 9"
  by (simp add: slicedCommands_def)

lemma sendSlicedPS2Cmd_run:
  assumes "sendSlicedPS2Cmd D cmd s = Some (ret, s')" "ok s"
  obtains k where "live s' = live s" "ok s'" "fault s' = (fault s \<or> ret \<noteq> 0)" "1 \<le> k" "k \<le> 9"
    "sent s' = sent s @ sent_by (take k (slicedCommands cmd))" "ret = 0 \<Longrightarrow> k = 9"
proof -
  obtain r s0 where al: "dev_allocateRequest D s = (r, s0)" by fastforce
  then obtain r' s1 where sub: "dev_submitRequestAndBlock D (setCommands (slicedCommands cmd) r) s0 = Some (r', s1)"
      and ret: "(ret, s') = (if unat (commandsCount r') = 9 then (kIOReturnSuccess, dev_freeRequest D r' s1)
        else (kIOReturnIOError, dev_freeRequest D r' (dev_freeRequest D r' s1)))"
    using assms(1) by (auto simp: sendSlicedPS2Cmd_def Let_def split: if_splits)
  note one = one_request [OF al sub assms(2) sliced_plain]
  note two = one_request_freed_twice [OF al sub assms(2) sliced_plain]
  let ?k = "attempted 9 (unat (commandsCount r'))"
  have k: "1 \<le> ?k" "?k \<le> 9" using one(5) by (auto simp: attempted_def)
  show ?thesis
    by (rule that [of ?k]) (use one two k ret in \<open>auto simp: attempted_def split: if_splits\<close>)
qed

lemma getMouseInformation_run:
  assumes "getMouseInformation D param s = Some (ret, param', s')" "ok s"
  shows "live s' = live s" "ok s'" "fault s' = fault s"
    "sent s' = sent s @ [kDP_GetMouseInformation]" "ret = 0 \<Longrightarrow> length param' = 3"
proof -
  let ?cs = "[(Send, kDP_GetMouseInformation), (kPS2C_ReadDataPort, 0), (kPS2C_ReadDataPort, 0),
    (kPS2C_ReadDataPort, 0)] :: (PS2CommandEnum \<times> u8) list"
  obtain r s0 where al: "dev_allocateRequest D s = (r, s0)" by fastforce
  then obtain r' s1 where sub: "dev_submitRequestAndBlock D (setCommands ?cs r) s0 = Some (r', s1)"
      and s': "s' = dev_freeRequest D r' s1" "ret = 0 \<longrightarrow> length param' = 3"
    using assms(1) by (auto simp: getMouseInformation_def Let_def split: if_splits)
  have "plain_commands ?cs" by (simp add: plain_commands_def plain_command_def)
  note one = one_request [OF al sub assms(2) this]
  obtain k where "attempted (length ?cs) (unat (commandsCount r')) = Suc k"
    by (cases "unat (commandsCount r') = 4") (auto simp: attempted_def)
  then have "sent_by (take (attempted (length ?cs) (unat (commandsCount r'))) ?cs)
      = [kDP_GetMouseInformation]"
    by (cases k; cases "k - 1"; cases "k - 2"; cases "k - 3") (auto simp: sent_by_def take_Cons')
  then show "live s' = live s" "ok s'" "fault s' = fault s"
    "sent s' = sent s @ [kDP_GetMouseInformation]" "ret = 0 \<Longrightarrow> length param' = 3"
    using one s' by simp_all
qed

lemma sendSynapticsCmd_run:
  assumes "sendSynapticsCmd D cmd param s = Some (ret, param', s')" "ok s"
  obtains k where "live s' = live s" "ok s'" "fault s' \<longrightarrow> fault s \<or> ret \<noteq> 0" "fault s \<longrightarrow> fault s'"
    "ret = 0 \<Longrightarrow> sent s' = sent s @ sent_by (slicedCommands cmd) @ [kDP_GetMouseInformation]
       \<and> length param' = 3"
    "\<exists>bs. sent s' = sent s @ bs"
proof -
  obtain r1 s1 where sl: "sendSlicedPS2Cmd D cmd s = Some (r1, s1)"
    using assms(1) by (auto simp: sendSynapticsCmd_def)
  from sendSlicedPS2Cmd_run [OF sl assms(2)] obtain k where
    k: "live s1 = live s" "ok s1" "fault s1 = (fault s \<or> r1 \<noteq> 0)"
      "sent s1 = sent s @ sent_by (take k (slicedCommands cmd))" "r1 = 0 \<longrightarrow> k = 9" by metis
  show ?thesis
  proof (cases "r1 = 0")
    case False
    then have "ret = kIOReturnError" "s' = s1" using assms(1) sl by (auto simp: sendSynapticsCmd_def)
    then show ?thesis using k False by (intro that) auto
  next
    case True
    then obtain r2 where g: "getMouseInformation D param s1 = Some (r2, param', s')"
        "(ret = 0) = (r2 = 0)"
      using assms(1) sl by (auto simp: sendSynapticsCmd_def split: if_splits)
    note gr = getMouseInformation_run [OF g(1) k(2)]
    show ?thesis using k gr g(2) True by (intro that) auto
  qed
qed

lemma sendElantechCmd_run:
  assumes "sendElantechCmd D cmd param s = Some (ret, param', s')" "ok s"
  shows "live s' = live s" "ok s'" "fault s' = (fault s \<or> ret \<noteq> 0)" "length param' = 3"
    "ret = 0 \<Longrightarrow> sent s' = sent s @ [ETD_PS2_CUSTOM_COMMAND, cmd, kDP_GetMouseInformation]"
    "\<exists>bs. sent s' = sent s @ bs"
proof -
  let ?cs = "[(Send, ETD_PS2_CUSTOM_COMMAND), (Send, cmd), (Send, kDP_GetMouseInformation),
    (kPS2C_ReadDataPort, 0), (kPS2C_ReadDataPort, 0), (kPS2C_ReadDataPort, 0)] :: (PS2CommandEnum \<times> u8) list"
  obtain r s0 where al: "dev_allocateRequest D s = (r, s0)" by fastforce
  then obtain r' s1 where sub: "dev_submitRequestAndBlock D (setCommands ?cs r) s0 = Some (r', s1)"
      and ret: "(ret, s') = (if commandsCount r' = 6 then (kIOReturnSuccess, dev_freeRequest D r' s1)
        else (kIOReturnIOError, dev_freeRequest D r' (dev_freeRequest D r' s1)))" "length param' = 3"
    using assms(1) by (auto simp: sendElantechCmd_def Let_def split: if_splits)
  have pl: "plain_commands ?cs" by (simp add: plain_commands_def plain_command_def)
  note one = one_request [OF al sub assms(2) pl]
  note two = one_request_freed_twice [OF al sub assms(2) pl]
  show "live s' = live s" "ok s'" "fault s' = (fault s \<or> ret \<noteq> 0)" "length param' = 3"
    "ret = 0 \<Longrightarrow> sent s' = sent s @ [ETD_PS2_CUSTOM_COMMAND, cmd, kDP_GetMouseInformation]"
    "\<exists>bs. sent s' = sent s @ bs"
    using one two ret by (auto simp: attempted_def sent_by_def split: if_splits)
qed

lemma elactechTries_run:
  assumes "elactechTries D cmd (Suc n) r s = Some (ret, s')" "ok s"
    "length (commands r) = kMaxCommands"
  shows "\<exists>k. 1 \<le> k \<and> k \<le> Suc n \<and> (ret \<noteq> 0 \<longrightarrow> k = Suc n) \<and> ok s' \<and>
    sent s' = sent s @ replicate k cmd \<and> live s' = live s - {reqAddr r} \<and>
    fault s' = (fault s \<or> reqAddr r \<notin> live s \<or> 2 \<le> k)"
  using assms
proof (induction n arbitrary: r s)
  case (Suc n)
  then obtain r1 s1 where sub: "dev_submitRequestAndBlock D (setCommands [(Send, cmd)] r) s = Some (r1, s1)"
    and rest: "(if commandsCount r1 = 1 then Some (kIOReturnSuccess, dev_freeRequest D r1 s1)
       else elactechTries D cmd (Suc n) r1 (dev_freeRequest D r1 s1)) = Some (ret, s')"
    by (auto simp: Let_def)
  have "plain_commands [(Send, cmd)]" by (simp add: plain_commands_def plain_command_def)
  note f = submit_list [OF sub Suc.prems(2,3) this]
  note g = free [OF f(5), of r1]
  have sent1: "sent s1 = sent s @ [cmd]" using f(7) by (simp add: attempted_def sent_by_def)
  show ?case
  proof (cases "commandsCount r1 = 1")
    case True
    then show ?thesis using rest f g sent1 by (intro exI [of _ 1]) auto
  next
    case False
    with rest have e: "elactechTries D cmd (Suc n) r1 (dev_freeRequest D r1 s1) = Some (ret, s')" by simp
    from Suc.IH [OF e _ f(2)] g obtain k where k: "1 \<le> k" "k \<le> Suc n" "ret \<noteq> 0 \<longrightarrow> k = Suc n" "ok s'"
      "sent s' = sent s1 @ replicate k cmd" "live s' = live s1 - {reqAddr r1}" "fault s'"
      by auto
    then show ?thesis using f sent1 by (intro exI [of _ "Suc k"]) auto
  qed
next
  case 0
  then obtain r1 s1 where sub: "dev_submitRequestAndBlock D (setCommands [(Send, cmd)] r) s = Some (r1, s1)"
    and s': "s' = dev_freeRequest D r1 s1"
    by (auto simp: Let_def split: if_splits)
  have "plain_commands [(Send, cmd)]" by (simp add: plain_commands_def plain_command_def)
  note f = submit_list [OF sub 0(2,3) this]
  note g = free [OF f(5), of r1]
  have "sent s1 = sent s @ [cmd]" using f(7) by (simp add: attempted_def sent_by_def)
  then show ?case using s' f g by (intro exI [of _ 1]) auto
qed

lemma sendElactechPS2Cmd_run:
  assumes "sendElactechPS2Cmd D cmd s = Some (ret, s')" "ok s"
  obtains k where "1 \<le> k" "k \<le> 3" "ret \<noteq> 0 \<Longrightarrow> k = 3" "ok s'" "live s' = live s"
    "sent s' = sent s @ replicate k cmd" "fault s' = (fault s \<or> 2 \<le> k)"
proof -
  obtain r s0 where al: "dev_allocateRequest D s = (r, s0)" by fastforce
  from alloc [OF al assms(2)] obtain a where a: "r = zeroRequest a" "a \<notin> live s"
      "live s0 = insert a (live s)" "ok s0" "fault s0 = fault s" "sent s0 = sent s" by auto
  have e: "elactechTries D cmd (Suc 2) r s0 = Some (ret, s')"
    using assms(1) al by (simp add: sendElactechPS2Cmd_def numeral_3_eq_3)
  have "length (commands r) = kMaxCommands" using a by simp
  from elactechTries_run [OF e a(4) this] obtain k where
    "1 \<le> k" "k \<le> Suc 2" "ret \<noteq> 0 \<longrightarrow> k = Suc 2" "ok s'" "sent s' = sent s0 @ replicate k cmd"
    "live s' = live s0 - {reqAddr r}" "fault s' = (fault s0 \<or> reqAddr r \<notin> live s0 \<or> 2 \<le> k)" by blast
  then show ?thesis using a by (intro that [of k]) auto
qed

text \<open>The test-and-set loop.\<close>

lemma setCommandByteLoop_run:
  assumes "setCommandByteLoop D setBits clearBits r s = Some (r', s')" "ok s"
    "length (commands r) = kMaxCommands"
  shows "ok s' \<and> live s' = live s \<and> fault s' = (fault s \<or> reqAddr r \<notin> live s) \<and>
    sent s' = sent s \<and> reqAddr r' = reqAddr r"
proof -
  let ?Inv = "\<lambda>r2 s2. length (commands r2) = kMaxCommands \<and> ok s2 \<and> live s2 = live s \<and>
    sent s2 = sent s \<and> reqAddr r2 = reqAddr r"
  let ?P = "\<lambda>r2 s2. ?Inv r2 s2 \<and> fault s2 = (fault s \<or> reqAddr r \<notin> live s)"
  have step: "?P r2 s2" if "dev_submitRequestAndBlock D (setCommands cs r1) s1 = Some (r2, s2)"
      "plain_commands cs" "sent_by cs = []" "?Inv r1 s1" "fault s1 \<longrightarrow> fault s \<or> reqAddr r \<notin> live s"
      "fault s \<longrightarrow> fault s1" for cs r1 s1 r2 s2
  proof -
    note f = submit_list [OF that(1) _ _ that(2)]
    have "sent_by (take k cs) = []" for k
      using that(3) by (auto simp: sent_by_def filter_empty_conv dest: in_set_takeD)
    then show ?thesis using f that(4-6) by auto
  qed
  have "?P r' s'"
  proof (rule setCommandByteLoop_invariant [OF assms(1), where P = ?P and
        P0 = "\<lambda>r2 s2. ?Inv r2 s2 \<and> fault s2 = fault s"])
    show "?P r2 s2" if "dev_submitRequestAndBlock D (setCommands cs r1) s1 = Some (r2, s2)"
      "plain_commands cs" "sent_by cs = []" "(?Inv r1 s1 \<and> fault s1 = fault s) \<or> ?P r1 s1"
      for cs r1 s1 r2 s2
      by (rule step [OF that(1-3)]) (use that(4) in auto)
  qed (use assms(2,3) in simp)
  then show ?thesis by blast
qed

lemma setCommandByte_run:
  assumes "setCommandByte D setBits clearBits s = Some s'" "ok s"
  shows "ok s' \<and> live s' = live s \<and> fault s' = fault s \<and> sent s' = sent s"
proof -
  obtain r s0 where al: "dev_allocateRequest D s = (r, s0)" by fastforce
  from alloc [OF al assms(2)] obtain a where a: "r = zeroRequest a" "a \<notin> live s"
      "live s0 = insert a (live s)" "ok s0" "fault s0 = fault s" "sent s0 = sent s" by auto
  obtain r' s1 where l: "setCommandByteLoop D setBits clearBits r s0 = Some (r', s1)"
      and s': "s' = dev_freeRequest D r' s1"
    using assms(1) al by (auto simp: setCommandByte_def)
  have "length (commands r) = kMaxCommands" using a by simp
  note run = setCommandByteLoop_run [OF l a(4) this]
  show ?thesis using run a free [of s1 r'] s' by auto
qed

lemma getStatus_run:
  assumes "getStatus D s = Some (ret, s')" "ok s"
  shows "live s' = live s" "ok s'" "fault s' = fault s" "\<exists>bs. sent s' = sent s @ bs"
proof -
  let ?cs = "[(Send, kDP_SetDefaultsAndDisable), (Send, kDP_SetDefaultsAndDisable),
    (Send, kDP_SetDefaultsAndDisable), (Send, kDP_GetMouseInformation), (kPS2C_ReadDataPort, 0),
    (kPS2C_ReadDataPort, 0), (kPS2C_ReadDataPort, 0)] :: (PS2CommandEnum \<times> u8) list"
  obtain r s0 where al: "dev_allocateRequest D s = (r, s0)" by fastforce
  then obtain r' s1 where sub: "dev_submitRequestAndBlock D (setCommands ?cs r) s0 = Some (r', s1)"
      and s': "s' = dev_freeRequest D r' s1"
    using assms(1) by (auto simp: getStatus_def Let_def split: if_splits)
  have pl: "plain_commands ?cs" by (simp add: plain_commands_def plain_command_def)
  show "live s' = live s" "ok s'" "fault s' = fault s" "\<exists>bs. sent s' = sent s @ bs"
    using one_request [OF al sub assms(2) pl] s' by simp_all
qed

lemma initializeMouse_run:
  assumes "initializeMouse D rate res scaling s = Some (ret, s')" "ok s"
  shows "live s' = live s \<and> ok s' \<and> fault s' = fault s \<and> (\<exists>bs. sent s' = sent s @ bs)"
proof -
  let ?cs = "[(Send, kDP_SetMouseSampleRate), (Send, rate), (Send, kDP_SetMouseResolution),
    (Send, res), (Send, scaling)] :: (PS2CommandEnum \<times> u8) list"
  obtain r s0 where al: "dev_allocateRequest D s = (r, s0)" by fastforce
  then obtain r' s1 where sub: "dev_submitRequestAndBlock D (setCommands ?cs r) s0 = Some (r', s1)"
    using assms(1) by (auto simp: initializeMouse_def Let_def)
  have pl: "plain_commands ?cs" by (simp add: plain_commands_def plain_command_def)
  note one = one_request [OF al sub assms(2) pl]
  show ?thesis
  proof (cases "commandsCount r' = 5")
    case False
    then show ?thesis using assms(1) al sub one by (auto simp: initializeMouse_def Let_def)
  next
    case True
    then obtain i p s2 g where
      "getMouseInformation D [] (dev_freeRequest D r' s1) = Some (i, p, s2)"
      "getStatus D s2 = Some (g, s')"
      using assms(1) al sub by (auto simp: initializeMouse_def Let_def)
    then obtain bs where "live s' = live s" "ok s'" "fault s' = fault s"
        "sent s2 = sent (dev_freeRequest D r' s1) @ [kDP_GetMouseInformation]" "sent s' = sent s2 @ bs"
      using one getMouseInformation_run(1-4) getStatus_run by metis
    then show ?thesis using one by simp
  qed
qed

lemma resetMouse_run:
  assumes "resetMouse D s = Some (ret, s')" "ok s"
  shows "live s' = live s \<and> ok s' \<and> fault s' = fault s \<and> (\<exists>bs. sent s' = sent s @ bs)"
    "ret = 0 \<longrightarrow> sent s' = sent s @ [kDP_SetDefaultsAndDisable, kDP_Reset]"
proof -
  let ?cs = "[(Send, kDP_SetDefaultsAndDisable), (Send, kDP_Reset), (kPS2C_ReadMouseDataPort, 0),
    (kPS2C_ReadMouseDataPort, 0), (kPS2C_ReadMouseDataPort, 0)] :: (PS2CommandEnum \<times> u8) list"
  obtain r s0 where al: "dev_allocateRequest D s = (r, s0)" by fastforce
  then obtain r' s1 where sub: "dev_submitRequestAndBlock D (setCommands ?cs r) s0 = Some (r', s1)"
      and s': "s' = dev_freeRequest D r' s1" "ret = 0 \<longrightarrow> commandsCount r' = 5"
    using assms(1) by (auto simp: resetMouse_def Let_def split: if_splits)
  have pl: "plain_commands ?cs" by (simp add: plain_commands_def plain_command_def)
  note one = one_request [OF al sub assms(2) pl]
  show "live s' = live s \<and> ok s' \<and> fault s' = fault s \<and> (\<exists>bs. sent s' = sent s @ bs)"
    using one s' by simp
  show "ret = 0 \<longrightarrow> sent s' = sent s @ [kDP_SetDefaultsAndDisable, kDP_Reset]"
    using one s' by (auto simp: attempted_def sent_by_def)
qed

end

section \<open>The controller keeps the contract\<close>

text \<open>
  The controller between two synchronous requests: nothing queued, the port online, no routing
  prefix pending, the addresses of allocated requests in the past of the allocator.
\<close>

definition quiet :: "ctl \<Rightarrow> bool" where
  "quiet s \<longleftrightarrow> requestQueue s = [] \<and> wire_idle s \<and> route_ok s \<and> \<not> hardwareOffline s \<and>
     (\<forall>a \<in> set (liveRequests s). a < nextRequest s)"

lemma submitRequestAndBlock_run:
  assumes "submitRequestAndBlock r s = Some (r', s1)" "quiet s" "request_ok r"
    "list_all plain_command (take (unat (commandsCount r)) (commands r))"
  shows "same_shape r r' \<and> unat (commandsCount r') \<le> unat (commandsCount r) \<and>
    liveRequests s1 = liveRequests s \<and> quiet s1 \<and>
    ub s1 = (ub s \<or> reqAddr r \<notin> set (liveRequests s)) \<and>
    wire s1 = wire s @ mouse_bytes
      (take (attempted (unat (commandsCount r)) (unat (commandsCount r'))) (commands r))"
proof -
  let ?r = "r\<lparr>completionTarget := thisController,
    completionAction := submitRequestAndBlockCompletion, completionParam := 0\<rparr>"
  let ?s = "useRequest r s"
  have use: "requestQueue ?s = requestQueue s" "wire_idle ?s = wire_idle s" "route_ok ?s = route_ok s"
    "hardwareOffline ?s = hardwareOffline s" "liveRequests ?s = liveRequests s" "wire ?s = wire s"
    "nextRequest ?s = nextRequest s" "ub ?s = (ub s \<or> reqAddr r \<notin> set (liveRequests s))"
    by (auto simp: useRequest_def wire_idle_def route_ok_def wire_def)
  have "?s\<lparr>requestQueue := []\<rparr> = ?s" using assms(2) use(1) by (cases ?s) (simp add: quiet_def)
  then have p: "processRequest ?r ?s = Some (r', s1)"
    using assms(1,2) use by (simp add: submitRequestAndBlock_def submitRequestAndBlockGated_def
        processRequestQueue_def quiet_def)
  have on: "\<not> hardwareOffline ?s" and rok: "request_ok ?r" and comp: "has_completion ?r"
    using assms(2,3) use by (simp_all add: quiet_def request_ok_def has_completion_def)
  have w: "wire s1 = wire ?s @ mouse_bytes (take (if commandsCount r' = commandsCount ?r
      then unat (commandsCount ?r) else Suc (unat (commandsCount r'))) (commands ?r)) \<and> wire_idle s1"
    by (rule processRequest_sends [OF p rok comp on])
       (use assms(2,4) use in \<open>simp_all add: quiet_def list_all_iff\<close>)
  have prog: "unat (commandsCount r') \<le> unat (commandsCount ?r) \<and> same_shape ?r r' \<and> io_step ?s s1"
    by (rule processRequest_progress [OF p rok comp])
  then have io: "io_step ?s s1" and "same_shape r r'" by (simp_all add: same_shape_def)
  then show ?thesis
    using prog w use assms(2) route_ok_io_step [OF io] io_step_fields [OF io]
    by (simp add: quiet_def attempted_def word_unat_eq_iff)
qed

interpretation mouse: request_device mouseDevice "\<lambda>s. set (liveRequests s)" ub quiet wire
proof (unfold_locales, goal_cases)
  case (1 s r s1)
  then show ?case
    by (auto simp: mouseDevice_def allocateRequest_def quiet_def wire_def wire_idle_def route_ok_def
        less_Suc_eq)
next
  case (2 s r)
  then show ?case
    by (auto simp: mouseDevice_def freeRequest_def quiet_def wire_def wire_idle_def route_ok_def)
next
  case (3 r s r' s1)
  then show ?case using submitRequestAndBlock_run [of r s r' s1] by (simp add: mouseDevice_def)
qed

lemmas request_client = mouse.sendPS2Cmd_run mouse.getMouseInformation_run mouse.getStatus_run
  mouse.initializeMouse_run mouse.setCommandByte_run

section \<open>A device that answers\<close>

text \<open>
  The recorded input of a device that acknowledges a mouse command at once (two reads of the status
  find the input buffer free, the third finds the acknowledge), of one that sends data bytes, and
  of the controller answering with a byte of its own.
\<close>

definition ack_input :: "u8 list" where
  "ack_input = [0, 0, 0x21, kSC_Acknowledge]"

definition data_input :: "u8 list \<Rightarrow> u8 list" where
  "data_input bs = concat (map (\<lambda>b. [0x21, b]) bs)"

definition reply_input :: "u8 \<Rightarrow> u8 list" where
  "reply_input b = [0x01, b]"

lemmas port_io = writeCommandPort_def writeDataPort_def outb_def emit_def inb_def bits_set_def
  fetchByte_def dequeueKeyboardData_def readDataPort_def readDataPort_loop.simps
  readDataPortExpect_def readDataPortExpect_loop.simps

abbreviation route :: "ctl \<Rightarrow> u8" where
  "route s \<equiv> (if controllerUsesMuxMode s then muxModeRoutePrefix s else kCP_TransmitToMouse)"

lemma processCommand_acked:
  assumes "keyboardQueue s = []" "inp s = ack_input @ t" "command c = Send"
  shows "processCommand c p s = Some (False, None, p\<lparr>deviceMode := kDT_Mouse\<rparr>,
    s\<lparr>inp := t, out := out s @ [EvOut kCommandPort (route s), EvOut kDataPort (inOrOut c)]\<rparr>)"
  using assms by (simp add: processCommand_def port_io ack_input_def)

lemma processCommand_data:
  assumes "keyboardQueue s = []" "inp s = data_input (b # bs) @ t" "command c = kPS2C_ReadDataPort"
    "deviceMode p = kDT_Mouse"
  shows "processCommand c p s = Some (False, Some b, p, s\<lparr>inp := data_input bs @ t\<rparr>)"
  using assms by (simp add: processCommand_def port_io data_input_def)

lemma processCommands_acked:
  assumes "keyboardQueue s = []" "inp s = concat (replicate n ack_input) @ t"
    "\<forall>c \<in> set (take n (drop i (commands r))). command c = Send" "i + n \<le> length (commands r)"
  shows "\<exists>s'. processCommands n i r p s = Some (False, i + n, r, s') \<and> inp s' = t \<and> keyboardQueue s' = []"
  using assms
proof (induction n arbitrary: i p s)
  case (Suc n)
  let ?c = "commands r ! i"
  have drop: "drop i (commands r) = ?c # drop (Suc i) (commands r)"
    using Suc.prems(4) by (simp add: Cons_nth_drop_Suc)
  let ?s1 = "s\<lparr>inp := concat (replicate n ack_input) @ t,
    out := out s @ [EvOut kCommandPort (route s), EvOut kDataPort (inOrOut ?c)]\<rparr>"
  have c: "processCommand ?c p s = Some (False, None, p\<lparr>deviceMode := kDT_Mouse\<rparr>, ?s1)"
    by (rule processCommand_acked) (use Suc.prems drop in simp_all)
  have "\<exists>s'. processCommands n (Suc i) r (p\<lparr>deviceMode := kDT_Mouse\<rparr>) ?s1 = Some (False, Suc i + n, r, s') \<and>
      inp s' = t \<and> keyboardQueue s' = []"
    by (rule Suc.IH) (use Suc.prems drop in simp_all)
  then show ?case using c Suc.prems(4) by auto
qed simp

lemma submitRequestAndBlock_quiet:
  assumes "quiet s" "reqAddr r \<in> set (liveRequests s)"
  shows "submitRequestAndBlock r s = processRequest (r\<lparr>completionTarget := thisController,
    completionAction := submitRequestAndBlockCompletion, completionParam := 0\<rparr>) s"
proof -
  have idle: "requestQueue s = []" using assms(1) by (simp add: quiet_def)
  have "s\<lparr>requestQueue := []\<rparr> = s" by (subst idle [symmetric]) simp
  then have "processRequest q (s\<lparr>requestQueue := []\<rparr>) = processRequest q s" for q
    by (rule arg_cong)
  then show ?thesis using assms idle by (simp add: submitRequestAndBlock_def
        submitRequestAndBlockGated_def useRequest_def processRequestQueue_def quiet_def)
qed

lemma processRequest_all:
  assumes "\<not> hardwareOffline s" "has_completion r"
    "processCommands (unat (commandsCount r)) 0 r proc0 s = Some (False, n, r', s1)"
    "completionTarget r' = completionTarget r" "completionAction r' = completionAction r"
  shows "processRequest r s = Some (r', s1\<lparr>out := out s1 @ [EvComplete r']\<rparr>)"
  using assms by (simp add: processRequest_def completeRequest_def has_completion_def emit_def)

lemma quiet_alloc:
  "quiet s \<Longrightarrow> quiet (s\<lparr>nextRequest := nextRequest s + 1, liveRequests := nextRequest s # liveRequests s\<rparr>)"
  by (auto simp: quiet_def wire_idle_def route_ok_def less_Suc_eq)

lemma sendSlicedPS2Cmd_acked:
  assumes "quiet s" "keyboardQueue s = []" "inp s = concat (replicate 9 ack_input) @ t"
  shows "\<exists>s'. sendSlicedPS2Cmd mouseDevice cmd s = Some (kIOReturnSuccess, s') \<and> inp s' = t \<and>
    keyboardQueue s' = []"
proof -
  let ?s = "s\<lparr>nextRequest := nextRequest s + 1, liveRequests := nextRequest s # liveRequests s\<rparr>"
  let ?r = "(setCommands (slicedCommands cmd) (zeroRequest (nextRequest s)))\<lparr>completionTarget := thisController,
    completionAction := submitRequestAndBlockCompletion, completionParam := 0\<rparr>"
  have n: "unat (commandsCount ?r) = 9" by simp
  have tk: "take 9 (commands ?r) = map (\<lambda>(c, b). \<lparr>command = c, inOrOut = b\<rparr>) (slicedCommands cmd)"
    using take_setCommands [of "slicedCommands cmd" "zeroRequest (nextRequest s)"] by simp
  have "\<exists>s1. processCommands 9 0 ?r proc0 ?s = Some (False, 0 + 9, ?r, s1) \<and> inp s1 = t \<and> keyboardQueue s1 = []"
    by (rule processCommands_acked) (use assms tk in \<open>simp_all add: slicedCommands_def\<close>)
  then obtain s1 where s1: "processCommands (unat (commandsCount ?r)) 0 ?r proc0 ?s = Some (False, 9, ?r, s1)"
    "inp s1 = t" "keyboardQueue s1 = []" using n by auto
  have on: "\<not> hardwareOffline ?s" using assms(1) by (simp add: quiet_def)
  have comp: "has_completion ?r" by (simp add: has_completion_def)
  have "submitRequestAndBlock (setCommands (slicedCommands cmd) (zeroRequest (nextRequest s))) ?s =
      Some (?r, s1\<lparr>out := out s1 @ [EvComplete ?r]\<rparr>)"
    using processRequest_all [OF on comp s1(1) refl refl]
    by (subst submitRequestAndBlock_quiet [OF quiet_alloc [OF assms(1)]]) simp_all
  then show ?thesis using s1(2,3) n
    by (simp add: sendSlicedPS2Cmd_def allocateRequest_def mouseDevice_def freeRequest_def)
qed

lemma processCommands_information:
  assumes "commands r = \<lparr>command = Send, inOrOut = x\<rparr> #
      replicate 19 \<lparr>command = kPS2C_ReadDataPort, inOrOut = 0\<rparr>"
    "keyboardQueue s = []" "inp s = ack_input @ data_input [a, b, c] @ t"
  shows "processCommands 4 0 r proc0 s =
    Some (False, 4, setInOrOut 3 c (setInOrOut 2 b (setInOrOut 1 a r)),
      s\<lparr>inp := t, out := out s @ [EvOut kCommandPort (route s), EvOut kDataPort x]\<rparr>)"
proof -
  have four: "(4::nat) = Suc (Suc (Suc (Suc 0)))" by simp
  show ?thesis unfolding four
    using assms
    by (simp add: setInOrOut_def processCommand_acked processCommand_data)
       (simp add: data_input_def numeral_eq_Suc)
qed

lemma getMouseInformation_answered:
  assumes "quiet s" "keyboardQueue s = []" "inp s = ack_input @ data_input [a, b, c] @ t"
  shows "\<exists>s'. getMouseInformation mouseDevice param s = Some (kIOReturnSuccess, [a, b, c], s') \<and>
    inp s' = t \<and> keyboardQueue s' = []"
proof -
  let ?cs = "[(Send, kDP_GetMouseInformation), (kPS2C_ReadDataPort, 0), (kPS2C_ReadDataPort, 0),
    (kPS2C_ReadDataPort, 0)] :: (PS2CommandEnum \<times> u8) list"
  let ?s = "s\<lparr>nextRequest := nextRequest s + 1, liveRequests := nextRequest s # liveRequests s\<rparr>"
  define q where "q = setCommands ?cs (zeroRequest (nextRequest s))"
  define r where "r = q\<lparr>completionTarget := thisController,
    completionAction := submitRequestAndBlockCompletion, completionParam := 0\<rparr>"
  let ?r' = "setInOrOut 3 c (setInOrOut 2 b (setInOrOut 1 a r))"
  have cmds: "commands r = \<lparr>command = Send, inOrOut = kDP_GetMouseInformation\<rparr> #
      replicate 19 \<lparr>command = kPS2C_ReadDataPort, inOrOut = 0\<rparr>"
    by (simp add: r_def q_def setCommands_def setCommand_def zeroRequest_def numeral_eq_Suc)
  have n: "unat (commandsCount r) = 4" "commandsCount r = 4" by (simp_all add: r_def q_def)
  have addr: "reqAddr q = nextRequest s" "reqAddr r = nextRequest s" by (simp_all add: r_def q_def)
  have bytes: "respByte ?r' (Suc 0) = a" "respByte ?r' 2 = b" "respByte ?r' 3 = c"
    by (simp_all add: respByte_def setInOrOut_def cmds)
  from processCommands_information [OF cmds, of ?s a b c t] assms obtain s1 where
    pc: "processCommands (unat (commandsCount r)) 0 r proc0 ?s = Some (False, 4, ?r', s1)"
    and s1: "inp s1 = t" "keyboardQueue s1 = []" unfolding n by auto
  have on: "\<not> hardwareOffline ?s" using assms(1) by (simp add: quiet_def)
  have comp: "has_completion r" by (simp add: has_completion_def r_def)
  have "submitRequestAndBlock q ?s = Some (?r', s1\<lparr>out := out s1 @ [EvComplete ?r']\<rparr>)"
    using processRequest_all [OF on comp pc]
    by (subst submitRequestAndBlock_quiet [OF quiet_alloc [OF assms(1)]]) (simp_all add: r_def q_def)
  then show ?thesis using s1 n bytes
    by (simp add: getMouseInformation_def allocateRequest_def mouseDevice_def freeRequest_def q_def [symmetric])
qed

lemma quiet_init [simp]: "quiet (init t)"
  by (simp add: quiet_def init_def wire_idle_def route_ok_def)

lemma init_simps [simp]: "keyboardQueue (init t) = []" "inp (init t) = t"
  by (simp_all add: init_def)

text \<open>A device that refuses a command: it answers with the resend byte instead of the acknowledge.\<close>

definition refuse_input :: "u8 list" where
  "refuse_input = [0, 0] @ data_input [0xFE, 0xFE, 0xFE, 0xFE]"

section \<open>Properties\<close>

text \<open>
  The receiver of a sliced command: the bytes 0xE6 0xE8 rr 0xE8 ss 0xE8 tt 0xE8 uu carry the command
  (rr*64)+(ss*16)+(tt*4)+uu, as the comment above sendSlicedPS2Cmd has it.
\<close>

fun unslice :: "u8 list \<Rightarrow> u8 option" where
  "unslice [m, a, rr, b, ss, c, tt, d, uu] =
     (if m = 0xE6 \<and> a = 0xE8 \<and> b = 0xE8 \<and> c = 0xE8 \<and> d = 0xE8
      then Some (rr * 64 + ss * 16 + tt * 4 + uu) else None)"
| "unslice _ = None"

lemma unat_u8_less: "unat (b :: u8) < 256"
  using unsigned_less [of b, where ?'a = nat] by simp

lemma slice_of_nat: "slice cmd i = of_nat (unat cmd div 2 ^ i mod 4)"
proof -
  have "slice cmd i = take_bit 2 (drop_bit i cmd)"
    by (simp add: slice_def take_bit_eq_mask mask_eq_exp_minus_1)
  also have "\<dots> = of_nat (unat (take_bit 2 (drop_bit i cmd)))" by simp
  also have "unat (take_bit 2 (drop_bit i cmd)) = unat cmd div 2 ^ i mod 4"
    by (simp only: unsigned_take_bit_eq unsigned_drop_bit_eq)
       (use unat_u8_less [of cmd] in \<open>simp add: take_bit_eq_mod drop_bit_eq_div\<close>)
  finally show ?thesis .
qed

lemma slices_reassemble:
  "slice cmd 6 * 64 + slice cmd 4 * 16 + slice cmd 2 * 4 + slice cmd 0 = cmd"
proof -
  have "n div 64 mod 4 * 64 + n div 16 mod 4 * 16 + n div 4 mod 4 * 4 + n mod 4 = n"
    if "n < 256" for n :: nat
    using that mod_mult2_eq [of n 64 4] mod_mult2_eq [of n 16 4] mod_mult2_eq [of n 4 4]
      div_mult_mod_eq [of n 64] by simp
  from this [OF unat_u8_less [of cmd]]
  have "of_nat (unat cmd) = (of_nat (unat cmd div 64 mod 4 * 64 + unat cmd div 16 mod 4 * 16 +
      unat cmd div 4 mod 4 * 4 + unat cmd mod 4) :: u8)" by (rule arg_cong [OF sym])
  then show ?thesis by (simp add: slice_of_nat)
qed

text \<open>
  C8: A sliced command reaches the touchpad: when sendSlicedPS2Cmd reports success, the bytes it
  put on the wire to the mouse are one sliced command, which the receiver reassembles to the
  command byte, and the request it used is back with the allocator.
\<close>

theorem sliced_command_roundtrip:
  assumes "sendSlicedPS2Cmd mouseDevice cmd s = Some (kIOReturnSuccess, s')" "quiet s"
  shows "\<exists>bytes. wire s' = wire s @ bytes \<and> unslice bytes = Some cmd \<and>
    set (liveRequests s') = set (liveRequests s) \<and> ub s' = ub s"
proof -
  from mouse.sendSlicedPS2Cmd_run [OF assms] obtain k where k:
    "set (liveRequests s') = set (liveRequests s)" "ub s' = ub s"
    "wire s' = wire s @ sent_by (take k (slicedCommands cmd))" "k = 9" by auto
  have "unslice (sent_by (slicedCommands cmd)) = Some cmd"
    by (simp add: sent_by_def slicedCommands_def slices_reassemble)
  then show ?thesis using k by simp
qed

theorem sliced_command_roundtrip_witness:
  "\<exists>s'. sendSlicedPS2Cmd mouseDevice 0x47 (init (concat (replicate 9 ack_input))) =
      Some (kIOReturnSuccess, s') \<and> (\<exists>bytes. wire s' = bytes \<and> unslice bytes = Some 0x47)"
proof -
  let ?s = "init (concat (replicate 9 ack_input))"
  have "map_option fst (sendSlicedPS2Cmd mouseDevice 0x47 ?s) = Some kIOReturnSuccess" by code_simp
  then obtain s' where run: "sendSlicedPS2Cmd mouseDevice 0x47 ?s = Some (kIOReturnSuccess, s')" by auto
  have "wire ?s = []" by (simp add: wire_def init_def)
  then show ?thesis using sliced_command_roundtrip [OF run] run by simp
qed

text \<open>
  C32: Failure of a sliced command is a heap fault: a run of sendSlicedPS2Cmd that does not report
  success frees its request twice, and it is the only way the run corrupts the heap.
\<close>

theorem sliced_command_failure_double_free:
  assumes "sendSlicedPS2Cmd mouseDevice cmd s = Some (ret, s')" "quiet s"
  shows "ub s' = (ub s \<or> ret \<noteq> kIOReturnSuccess)"
  using mouse.sendSlicedPS2Cmd_run [OF assms] by metis

theorem sliced_command_failure_double_free_witness:
  "\<exists>s'. sendSlicedPS2Cmd mouseDevice 0x47 (init refuse_input) = Some (kIOReturnIOError, s') \<and> ub s'"
proof -
  have "map_option fst (sendSlicedPS2Cmd mouseDevice 0x47 (init refuse_input)) = Some kIOReturnIOError"
    by code_simp
  then obtain s' where run: "sendSlicedPS2Cmd mouseDevice 0x47 (init refuse_input) = Some (kIOReturnIOError, s')"
    by auto
  show ?thesis using sliced_command_failure_double_free [OF run] run by simp
qed

text \<open>
  A query in the Synaptics style is answered: with a touchpad that acknowledges the ten command
  bytes and answers with three, sendSynapticsCmd returns, reports success, hands back the three
  bytes in their order, consumes exactly this input, has sent the sliced command and the
  information request, and leaves the heap intact.
\<close>

theorem synaptics_query_answered:
  assumes "quiet s" "keyboardQueue s = []"
    "inp s = concat (replicate 10 ack_input) @ data_input [a, b, c] @ t"
  shows "\<exists>s'. sendSynapticsCmd mouseDevice cmd param s = Some (kIOReturnSuccess, [a, b, c], s') \<and>
    inp s' = t \<and> wire s' = wire s @ sent_by (slicedCommands cmd) @ [kDP_GetMouseInformation] \<and>
    ub s' = ub s"
proof -
  have "inp s = concat (replicate 9 ack_input) @ ack_input @ data_input [a, b, c] @ t"
    using assms(3) by (simp add: numeral_eq_Suc)
  from sendSlicedPS2Cmd_acked [OF assms(1,2) this, of cmd] obtain s1 where
    s1: "sendSlicedPS2Cmd mouseDevice cmd s = Some (kIOReturnSuccess, s1)"
      "inp s1 = ack_input @ data_input [a, b, c] @ t" "keyboardQueue s1 = []" by blast
  have "quiet s1" using mouse.sendSlicedPS2Cmd_run [OF s1(1) assms(1)] by metis
  from getMouseInformation_answered [OF this s1(3,2), of param] obtain s2 where
    s2: "getMouseInformation mouseDevice param s1 = Some (kIOReturnSuccess, [a, b, c], s2)" "inp s2 = t"
    by blast
  have "sendSynapticsCmd mouseDevice cmd param s = Some (kIOReturnSuccess, [a, b, c], s2)"
    using s1(1) s2(1) by (simp add: sendSynapticsCmd_def)
  then show ?thesis using s2(2) mouse.sendSynapticsCmd_run [OF _ assms(1)] by metis
qed

theorem synaptics_query_answered_witness:
  "\<exists>s'. sendSynapticsCmd mouseDevice 0 [] (init (concat (replicate 10 ack_input) @ data_input [1, 0x47, 0x18] @ [])) =
      Some (kIOReturnSuccess, [1, 0x47, 0x18], s') \<and> inp s' = []"
  using synaptics_query_answered [of "init (concat (replicate 10 ack_input) @ data_input [1, 0x47, 0x18] @ [])"
      1 "0x47" "0x18" "[]" 0 "[]"] by (metis quiet_init init_simps)

text \<open>
  The fast Elantech command sends the custom-command prefix, the command and the information
  request in this order when it succeeds, and frees its request twice exactly when it fails.
\<close>

theorem elantech_command_wire_and_heap:
  assumes "sendElantechCmd mouseDevice cmd param s = Some (ret, param', s')" "quiet s"
  shows "(ret = kIOReturnSuccess \<longrightarrow>
      wire s' = wire s @ [ETD_PS2_CUSTOM_COMMAND, cmd, kDP_GetMouseInformation]) \<and>
    ub s' = (ub s \<or> ret \<noteq> kIOReturnSuccess)"
  using mouse.sendElantechCmd_run [OF assms] by simp

theorem elantech_command_wire_and_heap_witness:
  "\<exists>s'. sendElantechCmd mouseDevice 0x10 [] (init refuse_input) = Some (kIOReturnIOError, [0, 0, 0], s') \<and> ub s'"
proof -
  have "map_option (\<lambda>(r, p, s). (r, p)) (sendElantechCmd mouseDevice 0x10 [] (init refuse_input)) =
    Some (kIOReturnIOError, [0, 0, 0])" by code_simp
  then obtain s' where run: "sendElantechCmd mouseDevice 0x10 [] (init refuse_input) =
      Some (kIOReturnIOError, [0, 0, 0], s')" by auto
  show ?thesis using elantech_command_wire_and_heap [OF run] run by simp
qed

text \<open>
  The retrying Elantech command sends its byte once, twice or three times, reports failure only
  after three, and goes on with the request it has already freed from the second try on.
\<close>

theorem elantech_retry_uses_freed_request:
  assumes "sendElactechPS2Cmd mouseDevice cmd s = Some (ret, s')" "quiet s"
  shows "\<exists>tries. 1 \<le> tries \<and> tries \<le> ETD_PS2_COMMAND_TRIES \<and>
    (ret \<noteq> kIOReturnSuccess \<longrightarrow> tries = ETD_PS2_COMMAND_TRIES) \<and>
    wire s' = wire s @ replicate tries cmd \<and> ub s' = (ub s \<or> 2 \<le> tries)"
  using mouse.sendElactechPS2Cmd_run [OF assms] by metis

theorem elantech_retry_uses_freed_request_witness:
  "\<exists>s' tries. sendElactechPS2Cmd mouseDevice 0xF5 (init (refuse_input @ ack_input)) =
      Some (kIOReturnSuccess, s') \<and> wire s' = replicate tries 0xF5 \<and> tries = 2 \<and> ub s'"
proof -
  let ?s = "init (refuse_input @ ack_input)"
  have "map_option (\<lambda>(r, s). (r, wire s)) (sendElactechPS2Cmd mouseDevice 0xF5 ?s) =
    Some (kIOReturnSuccess, replicate 2 0xF5)" by code_simp
  then obtain s' where run: "sendElactechPS2Cmd mouseDevice 0xF5 ?s = Some (kIOReturnSuccess, s')"
    and w: "wire s' = replicate 2 0xF5" by auto
  have "wire ?s = []" by (simp add: wire_def init_def)
  then show ?thesis using elantech_retry_uses_freed_request [OF run quiet_init] run w
    by (auto simp: replicate_eq_replicate)
qed

lemma processCommands_read_byte:
  assumes "commands r = \<lparr>command = kPS2C_WriteCommandPort, inOrOut = kCP_GetCommandByte\<rparr> #
      \<lparr>command = kPS2C_ReadDataPort, inOrOut = 0\<rparr> # cs"
    "keyboardQueue s = []" "inp s = 0 # reply_input b @ t"
  shows "processCommands 2 0 r proc0 s = Some (False, 2, setInOrOut 1 b r,
    s\<lparr>inp := t, out := out s @ [EvOut kCommandPort kCP_GetCommandByte]\<rparr>)"
proof -
  have two: "(2::nat) = Suc (Suc 0)" by simp
  show ?thesis unfolding two using assms
    by (simp add: setInOrOut_def processCommand_def port_io reply_input_def)
qed

lemma processCommands_test_and_set:
  assumes "commands r = \<lparr>command = kPS2C_WriteCommandPort, inOrOut = kCP_GetCommandByte\<rparr> #
      \<lparr>command = kPS2C_ReadDataPortAndCompare, inOrOut = b\<rparr> #
      \<lparr>command = kPS2C_WriteCommandPort, inOrOut = kCP_SetCommandByte\<rparr> #
      \<lparr>command = kPS2C_WriteDataPort, inOrOut = b'\<rparr> # cs"
    "keyboardQueue s = []" "inp s = 0 # reply_input b @ 0 # 0 # t"
  shows "processCommands 4 0 r proc0 s = Some (False, 4, r, s\<lparr>inp := t,
    out := out s @ [EvOut kCommandPort kCP_GetCommandByte, EvOut kCommandPort kCP_SetCommandByte,
      EvOut kDataPort b']\<rparr>)"
proof -
  have four: "(4::nat) = Suc (Suc (Suc (Suc 0)))" by simp
  show ?thesis unfolding four using assms
    by (simp add: processCommand_def port_io reply_input_def)
qed

abbreviation blocking :: "PS2Request \<Rightarrow> PS2Request" where
  "blocking q \<equiv> q\<lparr>completionTarget := thisController,
     completionAction := submitRequestAndBlockCompletion, completionParam := 0\<rparr>"

lemma submitRequestAndBlock_all:
  assumes "quiet s" "reqAddr q \<in> set (liveRequests s)"
    "processCommands (unat (commandsCount q)) 0 (blocking q) proc0 s = Some (False, n, r', s1)"
    "completionTarget r' = thisController" "completionAction r' = submitRequestAndBlockCompletion"
  shows "submitRequestAndBlock q s = Some (r', s1\<lparr>out := out s1 @ [EvComplete r']\<rparr>)"
  using submitRequestAndBlock_quiet [OF assms(1,2)] assms(1,3-5)
    processRequest_all [of s "blocking q" n r' s1]
  by (simp add: has_completion_def quiet_def)

text \<open>
  The test-and-set of the command byte: when the controller answers both reads of the command
  byte with the same value, setCommandByte returns after one round, having read the byte twice and
  written it once, with the bits to set set and the bits to clear clear and all others as read.
\<close>

theorem setCommandByte_test_and_set:
  assumes "quiet s" "keyboardQueue s = []" "inp s = 0 # reply_input b @ 0 # reply_input b @ 0 # 0 # t"
  shows "\<exists>s'. setCommandByte mouseDevice setBits clearBits s = Some s' \<and> inp s' = t \<and> ub s' = ub s \<and>
    writes s' = writes s @ [EvOut kCommandPort kCP_GetCommandByte,
      EvOut kCommandPort kCP_GetCommandByte, EvOut kCommandPort kCP_SetCommandByte,
      EvOut kDataPort ((b OR setBits) AND NOT clearBits)]"
proof -
  let ?s0 = "s\<lparr>nextRequest := nextRequest s + 1, liveRequests := nextRequest s # liveRequests s\<rparr>"
  let ?read = "[(kPS2C_WriteCommandPort, kCP_GetCommandByte), (kPS2C_ReadDataPort, 0)]
    :: (PS2CommandEnum \<times> u8) list"
  let ?test = "[(kPS2C_WriteCommandPort, kCP_GetCommandByte), (kPS2C_ReadDataPortAndCompare, b),
    (kPS2C_WriteCommandPort, kCP_SetCommandByte),
    (kPS2C_WriteDataPort, (b OR setBits) AND NOT clearBits)]"
  define q0 where "q0 = setCommands ?read (zeroRequest (nextRequest s))"
  define r1 where "r1 = setInOrOut 1 b (blocking q0)"
  define q1 where "q1 = setCommands ?test r1"
  have c0: "commands (blocking q0) = \<lparr>command = kPS2C_WriteCommandPort, inOrOut = kCP_GetCommandByte\<rparr> #
      \<lparr>command = kPS2C_ReadDataPort, inOrOut = 0\<rparr> # replicate 18 \<lparr>command = kPS2C_ReadDataPort, inOrOut = 0\<rparr>"
    by (simp add: q0_def setCommands_def setCommand_def zeroRequest_def numeral_eq_Suc)
  have a0: "reqAddr q0 = nextRequest s" "reqAddr r1 = nextRequest s" "reqAddr q1 = nextRequest s"
    by (simp_all add: q0_def r1_def q1_def)
  have q0: "quiet ?s0" by (rule quiet_alloc [OF assms(1)])
  define s1 where "s1 = ?s0\<lparr>inp := 0 # reply_input b @ 0 # 0 # t,
    out := out s @ [EvOut kCommandPort kCP_GetCommandByte] @ [EvComplete r1]\<rparr>"
  have sub0: "submitRequestAndBlock q0 ?s0 = Some (r1, s1)"
    using submitRequestAndBlock_all [OF q0, of q0 2 r1]
      processCommands_read_byte [OF c0, of ?s0 b "0 # reply_input b @ 0 # 0 # t"] assms(2,3) a0
    by (simp add: s1_def r1_def q0_def)
  have q1: "quiet s1"
    using q0 by (simp add: quiet_def s1_def wire_idle_def route_ok_def mouse_pending_append is_mouse_prefix_def)
  have c1: "commands (blocking q1) = \<lparr>command = kPS2C_WriteCommandPort, inOrOut = kCP_GetCommandByte\<rparr> #
      \<lparr>command = kPS2C_ReadDataPortAndCompare, inOrOut = b\<rparr> #
      \<lparr>command = kPS2C_WriteCommandPort, inOrOut = kCP_SetCommandByte\<rparr> #
      \<lparr>command = kPS2C_WriteDataPort, inOrOut = (b OR setBits) AND NOT clearBits\<rparr> #
      replicate 16 \<lparr>command = kPS2C_ReadDataPort, inOrOut = 0\<rparr>"
    using c0 by (simp add: q1_def r1_def setInOrOut_def setCommands_def setCommand_def numeral_eq_Suc)
  have sub1: "submitRequestAndBlock q1 s1 = Some (blocking q1, s1\<lparr>inp := t, out := out s1 @
      [EvOut kCommandPort kCP_GetCommandByte, EvOut kCommandPort kCP_SetCommandByte,
       EvOut kDataPort ((b OR setBits) AND NOT clearBits)] @ [EvComplete (blocking q1)]\<rparr>)"
    using submitRequestAndBlock_all [OF q1, of q1 4 "blocking q1"]
      processCommands_test_and_set [OF c1, of s1 t] assms(2) a0
    by (simp add: s1_def q1_def)
  have "respByte r1 1 = b" using c0 by (simp add: respByte_def r1_def setInOrOut_def)
  moreover have "commandsCount (blocking q1) = 4" by (simp add: q1_def)
  ultimately show ?thesis
    using sub0 sub1 a0
    by (simp add: setCommandByte_def setCommandByteLoop.simps [of _ _ _ "zeroRequest (nextRequest s)"]
        mouseDevice_def allocateRequest_def q0_def [symmetric] q1_def [symmetric] freeRequest_def s1_def
        writes_def)
qed

theorem setCommandByte_test_and_set_witness:
  "\<exists>s'. setCommandByte mouseDevice kCB_EnableMouseIRQ kCB_DisableMouseClock
      (init (0 # reply_input 0x61 @ 0 # reply_input 0x61 @ 0 # 0 # [])) = Some s' \<and>
    writes s' = [EvOut kCommandPort 0x20, EvOut kCommandPort 0x20, EvOut kCommandPort 0x60,
      EvOut kDataPort 0x43]"
proof -
  let ?s = "init (0 # reply_input 0x61 @ 0 # reply_input 0x61 @ 0 # 0 # [])"
  have "writes ?s = []" by (simp add: init_def writes_def)
  then show ?thesis
    using setCommandByte_test_and_set [of ?s "0x61" "[]" kCB_EnableMouseIRQ kCB_DisableMouseClock] by auto
qed

end
