(* ===== verification/PS2_Startup.thy ===== *)
theory PS2_Startup
  imports PS2_System PS2_InterfaceProps
begin

text \<open>
  Start-up of ApplePS2Controller against machines that answer: the reset sequence, the detection
  of an active multiplexing controller and of the port of the touchpad, and the input such machines
  present.
\<close>

section \<open>Machines that answer\<close>

text \<open>
  \<open>cb\<close> is the command byte the controller reports; the mouse acknowledges. A multiplexing controller
  answers the third loopback byte with its version, and the ports before the touchpad's refuse.
\<close>

definition mouse_reply :: "u8 \<Rightarrow> u8 list" where
  "mouse_reply b = [0, 0, 0x21, b]"

definition reset_input :: "u8 \<Rightarrow> u8 list" where
  "reset_input cb = 0 # reply_input cb @ [0, 0, 0] @ reply_input cb @ 0 # reply_input kSC_Acknowledge @
     mouse_reply kSC_Acknowledge @ [0]"

definition legacy_input :: "u8 list" where
  "legacy_input = mouse_reply 0xF0 @ mouse_reply 0x56 @ mouse_reply 0xa4 @ [0]"

definition mux_input :: "u8 \<Rightarrow> nat \<Rightarrow> u8 list" where
  "mux_input version port = mouse_reply 0xF0 @ mouse_reply 0x56 @ mouse_reply version @
     concat (replicate port (mouse_reply 0xFE)) @ mouse_reply 0xFA @ [0, 0, 0]"

lemma reset_answered:
  assumes "keyboardQueue s = []" "inp s = reset_input cb @ t"
  shows "resetPS2Controller s = Some (s\<lparr>inp := t, out := out s @
    [EvOut kCommandPort kCP_GetCommandByte, EvOut kCommandPort kCP_SetCommandByte,
     EvOut kDataPort (cb AND NOT (kCB_EnableMouseIRQ OR kCB_DisableMouseClock)),
     EvOut kCommandPort kCP_GetCommandByte, EvOut kDataPort kDP_SetDefaultsAndDisable,
     EvOut kCommandPort kCP_TransmitToMouse, EvOut kDataPort kDP_SetDefaultsAndDisable]\<rparr>)"
  using assms
  by (simp add: resetPS2Controller_def port_io reset_input_def reply_input_def mouse_reply_def
      drainInputStreams_def)

lemma muxLoopback_answered:
  assumes "keyboardQueue s = []" "inp s = mouse_reply r @ t"
  shows "muxLoopback v s = Some (r, s\<lparr>inp := t, out := out s @
    [EvOut kCommandPort kCP_WriteMouseOutputBuffer, EvOut kDataPort v]\<rparr>)"
  using assms by (simp add: muxLoopback_def port_io mouse_reply_def)

lemma findAuxPort_answered:
  assumes "keyboardQueue s = []" "inp s = concat (replicate k (mouse_reply 0xFE)) @ mouse_reply 0xFA @ t"
    "k < n"
  shows "findAuxPort n i s = Some (True, s\<lparr>inp := t, out := out s @ concat (map probe [i..<i + Suc k]),
    muxModeRoutePrefix := kRP_RoutingPrefixAuxPort + of_nat (i + k)\<rparr>)"
  using assms
proof (induction n arbitrary: i k s)
  case (Suc n)
  show ?case
  proof (cases k)
    case 0
    then show ?thesis using Suc.prems by (simp add: port_io mouse_reply_def probe_def)
  next
    case (Suc k')
    let ?s1 = "s\<lparr>out := out s @ probe i,
      inp := concat (replicate k' (mouse_reply 0xFE)) @ mouse_reply 0xFA @ t\<rparr>"
    have "findAuxPort (Suc n) i s = findAuxPort n (Suc i) ?s1"
      using Suc.prems Suc by (simp add: port_io mouse_reply_def probe_def)
    also have "\<dots> = Some (True, ?s1\<lparr>inp := t,
        out := out ?s1 @ concat (map probe [Suc i..<Suc i + Suc k']),
        muxModeRoutePrefix := kRP_RoutingPrefixAuxPort + of_nat (Suc i + k')\<rparr>)"
      by (rule Suc.IH) (use Suc.prems Suc in simp_all)
    finally have run: "findAuxPort (Suc n) i s = Some (True, ?s1\<lparr>inp := t,
        out := out ?s1 @ concat (map probe [Suc i..<Suc i + Suc k']),
        muxModeRoutePrefix := kRP_RoutingPrefixAuxPort + of_nat (Suc i + k')\<rparr>)" .
    have up: "concat (map probe [i..<i + Suc k]) = probe i @ concat (map probe [Suc i..<Suc i + Suc k'])"
      using Suc by (simp add: upt_conv_Cons del: upt_Suc)
    show ?thesis unfolding run up using Suc by (simp add: algebra_simps del: upt_Suc)
  qed
qed simp

lemma detect_mux_answered:
  assumes "keyboardQueue s = []" "inp s = mux_input version k @ t" "k < 4" "version \<noteq> 0xa4"
  shows "\<exists>s'. detectMuxModeSupport s = Some s' \<and> inp s' = t \<and> controllerUsesMuxMode s' \<and>
    muxModeRoutePrefix s' = kRP_RoutingPrefixAuxPort + of_nat k \<and>
    out s' = out s @ [EvOut kCommandPort kCP_WriteMouseOutputBuffer, EvOut kDataPort 0xF0,
      EvOut kCommandPort kCP_WriteMouseOutputBuffer, EvOut kDataPort 0x56,
      EvOut kCommandPort kCP_WriteMouseOutputBuffer, EvOut kDataPort 0xa4] @
      concat (map probe [0..<Suc k]) @
      [EvOut kCommandPort kCP_SetCommandByte, EvOut kDataPort kCB_DisableMouseClock]"
  using assms
  by (simp add: detectMuxModeSupport_def setMuxMode_def mux_input_def muxLoopback_answered
      findAuxPort_answered writeCommandPort_def writeDataPort_def outb_def drainInputStreams_def
      del: upt_Suc)

lemma detect_legacy_answered:
  assumes "keyboardQueue s = []" "inp s = legacy_input @ t"
  shows "\<exists>s'. detectMuxModeSupport s = Some s' \<and> inp s' = t \<and> \<not> controllerUsesMuxMode s' \<and>
    muxModeRoutePrefix s' = muxModeRoutePrefix s \<and>
    out s' = out s @ [EvOut kCommandPort kCP_WriteMouseOutputBuffer, EvOut kDataPort 0xF0,
      EvOut kCommandPort kCP_WriteMouseOutputBuffer, EvOut kDataPort 0x56,
      EvOut kCommandPort kCP_WriteMouseOutputBuffer, EvOut kDataPort 0xa4]"
  using assms
  by (simp add: detectMuxModeSupport_def setMuxMode_def legacy_input_def muxLoopback_answered
      drainInputStreams_def)

definition start_input :: "u8 \<Rightarrow> u8 list" where
  "start_input cb = reset_input cb @ 0 # reply_input kSC_Reset"

lemma start_answered:
  assumes "inp s = start_input cb @ t"
  shows "\<exists>s1. startHardware s = detectMuxModeSupport s1 \<and> inp s1 = t \<and> keyboardQueue s1 = [] \<and>
    muxModeRoutePrefix s1 = muxModeRoutePrefix s"
  using assms
  by (simp add: startHardware_def start_input_def initKeyboardQueue_def reset_answered)
     (simp add: port_io reply_input_def, rule exI, rule conjI, rule refl, simp)

section \<open>Properties\<close>

text \<open>
  The reset sequence: on a machine that answers, resetPS2Controller returns after writing the
  command byte it read with the mouse interrupt and the mouse clock inhibit cleared and nothing
  else changed (so the keyboard interrupt stays as it was), and disabling both devices; afterwards
  the output buffer is drained.
\<close>

theorem reset_sequence:
  assumes "keyboardQueue s = []" "inp s = reset_input cb @ t"
  shows "\<exists>s'. resetPS2Controller s = Some s' \<and> inp s' = t \<and> writes s' = writes s @
    [EvOut kCommandPort kCP_GetCommandByte, EvOut kCommandPort kCP_SetCommandByte,
     EvOut kDataPort (cb AND NOT (kCB_EnableMouseIRQ OR kCB_DisableMouseClock)),
     EvOut kCommandPort kCP_GetCommandByte, EvOut kDataPort kDP_SetDefaultsAndDisable,
     EvOut kCommandPort kCP_TransmitToMouse, EvOut kDataPort kDP_SetDefaultsAndDisable] \<and>
    bits_set (cb AND NOT (kCB_EnableMouseIRQ OR kCB_DisableMouseClock)) kCB_EnableKeyboardIRQ =
      bits_set cb kCB_EnableKeyboardIRQ"
proof -
  have "(cb AND NOT (kCB_EnableMouseIRQ OR kCB_DisableMouseClock)) AND kCB_EnableKeyboardIRQ =
      cb AND kCB_EnableKeyboardIRQ"
    by (simp add: and.assoc)
  then show ?thesis using reset_answered [OF assms] by (simp add: writes_def bits_set_def)
qed

theorem reset_sequence_witness:
  "\<exists>s'. resetPS2Controller (init (reset_input 0x67 @ [])) = Some s' \<and> inp s' = [] \<and>
    bits_set (0x67 AND NOT (kCB_EnableMouseIRQ OR kCB_DisableMouseClock)) kCB_EnableKeyboardIRQ"
proof -
  have "bits_set (0x67 :: u8) kCB_EnableKeyboardIRQ" by (simp add: bits_set_def)
  then show ?thesis using reset_sequence [of "init (reset_input 0x67 @ [])" "0x67" "[]"] by auto
qed

text \<open>
  C34: Start-up on a multiplexing controller: when the touchpad sits on auxiliary port k and the ports
  before it refuse the probe, start returns with multiplexing in use and exactly port k's routing
  prefix selected, and its last writes are the loopback sequence, the probes of ports 0 to k, and a
  command byte that disables the auxiliary interface.
\<close>

theorem start_selects_mux_port:
  assumes "inp s = start_input cb @ mux_input version k @ t" "k < 4" "version \<noteq> 0xa4"
  shows "\<exists>s' es. startHardware s = Some s' \<and> inp s' = t \<and> controllerUsesMuxMode s' \<and>
    muxModeRoutePrefix s' = kRP_RoutingPrefixAuxPort + of_nat k \<and>
    out s' = es @ [EvOut kCommandPort kCP_WriteMouseOutputBuffer, EvOut kDataPort 0xF0,
      EvOut kCommandPort kCP_WriteMouseOutputBuffer, EvOut kDataPort 0x56,
      EvOut kCommandPort kCP_WriteMouseOutputBuffer, EvOut kDataPort 0xa4] @
      concat (map probe [0..<Suc k]) @
      [EvOut kCommandPort kCP_SetCommandByte, EvOut kDataPort kCB_DisableMouseClock]"
  using start_answered [OF assms(1)] detect_mux_answered [OF _ _ assms(2,3)] by metis

theorem start_selects_mux_port_witness:
  "\<exists>s'. startHardware (init (start_input 0x67 @ mux_input 0xac 2 @ [])) = Some s' \<and>
    muxModeRoutePrefix s' = 0x92"
  using start_selects_mux_port [of "init (start_input 0x67 @ mux_input 0xac 2 @ [])" "0x67" "0xac" 2 "[]"]
  by auto

text \<open>
  Start-up on a controller without multiplexing: when all three loopback bytes come back as
  they went out, start returns, multiplexing is not in use, and no port has been probed.
\<close>

theorem start_keeps_legacy_mode:
  assumes "inp s = start_input cb @ legacy_input @ t"
  shows "\<exists>s' es. startHardware s = Some s' \<and> inp s' = t \<and> \<not> controllerUsesMuxMode s' \<and>
    out s' = es @ [EvOut kCommandPort kCP_WriteMouseOutputBuffer, EvOut kDataPort 0xF0,
      EvOut kCommandPort kCP_WriteMouseOutputBuffer, EvOut kDataPort 0x56,
      EvOut kCommandPort kCP_WriteMouseOutputBuffer, EvOut kDataPort 0xa4]"
  using start_answered [OF assms] detect_legacy_answered by metis

theorem start_keeps_legacy_mode_witness:
  "\<exists>s'. startHardware (init (start_input 0x67 @ legacy_input @ [])) = Some s' \<and> inp s' = []"
  using start_keeps_legacy_mode [of "init (start_input 0x67 @ legacy_input @ [])" "0x67" "[]"] by auto

section \<open>Examples of the controller's properties\<close>

theorem controller_invariant_witness:
  "\<exists>s. startHardware (init (start_input 0x67 @ mux_input 0xac 2)) = Some s \<and>
     controllerUsesMuxMode s \<and> is_mouse_prefix (muxModeRoutePrefix s) \<and>
     distinct (keyboardQueue s @ keyboardQueueUnused s)"
proof -
  let ?s = "init (start_input 0x67 @ mux_input 0xac 2)"
  have "map_option controllerUsesMuxMode (startHardware ?s) = Some True" by code_simp
  then obtain s where s: "startHardware ?s = Some s" "controllerUsesMuxMode s" by auto
  show ?thesis using controller_invariant [OF started [OF s(1)]] s by blast
qed

theorem power_wake_witness:
  "\<exists>s'. setPowerStateGated kPS2PowerStateNormal ((init (0 # reset_input 0x67 @ 0 # reply_input 0x47 @ [0, 0]))
      \<lparr>currentPowerState := kPS2PowerStateSleep, hardwareOffline := True\<rparr>) = Some s' \<and>
    \<not> hardwareOffline s' \<and> currentPowerState s' = kPS2PowerStateNormal"
proof -
  let ?s = "(init (0 # reset_input 0x67 @ 0 # reply_input 0x47 @ [0, 0]))
    \<lparr>currentPowerState := kPS2PowerStateSleep, hardwareOffline := True\<rparr>"
  have "map_option (\<lambda>_. ()) (setPowerStateGated kPS2PowerStateNormal ?s) = Some ()" by code_simp
  then obtain s' where run: "setPowerStateGated kPS2PowerStateNormal ?s = Some s'" by auto
  show ?thesis using power_wake [OF run] run by simp
qed

end
