(* ===== verification/Touchpad_State.thy ===== *)
theory Touchpad_State
  imports PS2_InterfaceProps "HOL-Library.Signed_Division"
begin

text \<open>
  The state of the touchpad driver (ApplePS2SmartTouchPad/ApplePS2SmartTouchPad.h and the members
  it inherits from SmartTouchpadFeatures.h) as far as device setup and packet framing use it. The
  nested records are the nested structs of the class. The driver talks to a device nub D on a state
  s of the nub; arrays passed by pointer go in and come back.
\<close>

section \<open>Vendors, hardware versions and the driver object\<close>

abbreviation STD_MOUSE :: u8 where "STD_MOUSE \<equiv> 0"
abbreviation STD_ELAN_TECH :: u8 where "STD_ELAN_TECH \<equiv> 1"
abbreviation STD_FOCAL_TECH :: u8 where "STD_FOCAL_TECH \<equiv> 2"
abbreviation STD_SYNAPTICS :: u8 where "STD_SYNAPTICS \<equiv> 3"

abbreviation STD_MOUSE_HW :: u8 where "STD_MOUSE_HW \<equiv> 0"
abbreviation STD_ELAN_HW_V1 :: u8 where "STD_ELAN_HW_V1 \<equiv> 1"
abbreviation STD_ELAN_HW_V2 :: u8 where "STD_ELAN_HW_V2 \<equiv> 2"
abbreviation STD_ELAN_HW_V3 :: u8 where "STD_ELAN_HW_V3 \<equiv> 3"
abbreviation STD_ELAN_HW_V4 :: u8 where "STD_ELAN_HW_V4 \<equiv> 4"
abbreviation STD_FOCAL_TECH_HW :: u8 where "STD_FOCAL_TECH_HW \<equiv> 5"
abbreviation STD_SYNAPTICS_HW :: u8 where "STD_SYNAPTICS_HW \<equiv> 6"


record ps2MouseStruct =
  mSampleRate :: u8
  mResolution :: u8
  mScaling :: u8

record elanStruct =
  v3ElanLegacyMode :: bool
  paritycheck :: bool
  jumpyCursor :: bool
  reportsPressure :: bool
  crcEnabled :: bool
  sanityCheck :: bool
  supportsTrackPoint :: bool
  fw_version :: u32
  parityBit :: "u8 list"
  elanCapabs :: "u8 list"
  tracesWidth :: u8
  reg_07 :: u8
  reg_10 :: u8
  reg_11 :: u8
  reg_21 :: u8

text \<open>The members of type unsigned long are 64 bits wide on the driver's platform.\<close>

record synapticsStruct =
  model_id :: u64
  firmware_id :: u64
  board_id :: u64
  capabilities :: u64
  ext_cap :: u64
  ext_cap_0c :: u64
  ext_cap_10 :: u64
  identity :: u64
  x_res :: u64
  y_res :: u64
  pkt_type :: u8
  syn_mode :: u8
  absolute_mode :: bool
  disable_gesture :: bool

text \<open>
  \<open>buttonData\<close> and \<open>isClickPad\<close> are the members data and isClickPad of the struct _button,
  \<open>disableTrackPoint\<close> its disbleTrackPoint, and \<open>autoBackLight\<close> is _hasAsusKBackLight and
  _hasKBLightAutoOff together.
\<close>

record touchpad =
  ps2Mouse :: ps2MouseStruct
  elanTPad :: elanStruct
  synTPad :: synapticsStruct
  touchpadVendor :: u8
  hw_version :: u8
  xmax :: u16
  ymax :: u16
  xmin :: u16
  ymin :: u16
  xcenter :: u16
  ycenter :: u16
  isClickPad :: bool
  buttonData :: u8
  disableTrackPoint :: bool
  autoBackLight :: bool
  packetBuffer :: "u8 list"
  packetByteCount :: u8
  packetsCount :: u8
  endPacketsCount :: u8
  pktsize :: u8
  modeSetTries :: u8
  cFingers :: u8

text \<open>
  The driver object as init leaves it: the allocator of the runtime has zeroed the members init
  does not mention.
\<close>

definition touchpad_init :: touchpad where
  "touchpad_init =
     \<lparr>ps2Mouse = \<lparr>mSampleRate = 80, mResolution = 3, mScaling = kDP_SetMouseScaling1To1\<rparr>,
      elanTPad = \<lparr>v3ElanLegacyMode = False, paritycheck = False, jumpyCursor = False,
        reportsPressure = False, crcEnabled = False, sanityCheck = False, supportsTrackPoint = False,
        fw_version = 0, parityBit = replicate 256 0, elanCapabs = [0, 0, 0], tracesWidth = 0,
        reg_07 = 0, reg_10 = 0, reg_11 = 0, reg_21 = 0\<rparr>,
      synTPad = \<lparr>model_id = 0, firmware_id = 0, board_id = 0, capabilities = 0, ext_cap = 0,
        ext_cap_0c = 0, ext_cap_10 = 0, identity = 0, x_res = 0, y_res = 0, pkt_type = 0, syn_mode = 0,
        absolute_mode = False, disable_gesture = False\<rparr>,
      touchpadVendor = 0, hw_version = 0, xmax = 0, ymax = 0, xmin = 0, ymin = 0, xcenter = 0, ycenter = 0,
      isClickPad = False, buttonData = 0, disableTrackPoint = False, autoBackLight = False,
      packetBuffer = replicate 6 0, packetByteCount = 0, packetsCount = 0, endPacketsCount = 0,
      pktsize = 0, modeSetTries = 3, cFingers = 0\<rparr>"

section \<open>Sequences of device calls\<close>

text \<open>
  The C condition \<open>a || b || c\<close> over calls that return 0 on success: the calls are made in order up to
  the first failure.
\<close>

fun any_fails :: "('s \<Rightarrow> (IOReturn \<times> 's) option) list \<Rightarrow> 's \<Rightarrow> (bool \<times> 's) option" where
  "any_fails [] s = Some (False, s)"
| "any_fails (call # calls) s = do {
     (ret, s) \<leftarrow> call s;
     if ret \<noteq> 0 then Some (True, s) else any_fails calls s
   }"

lemma any_fails_append:
  "any_fails (xs @ ys) s = Option.bind (any_fails xs s)
     (\<lambda>(bad, s). if bad then Some (True, s) else any_fails ys s)"
  by (induction xs s rule: any_fails.induct) (auto split: Option.bind_split)

text \<open>A member of a triple as it is read from the device.\<close>

definition be24 :: "u8 list \<Rightarrow> 'a :: len word" where
  "be24 p = push_bit 16 (ucast (p ! 0)) OR push_bit 8 (ucast (p ! 1)) OR ucast (p ! 2)"

context request_device
begin

definition dev_keeps :: "'s \<Rightarrow> 's \<Rightarrow> bool" where
  "dev_keeps s s' \<longleftrightarrow> ok s' \<and> live s' = live s \<and> (fault s \<longrightarrow> fault s') \<and> (\<exists>bs. sent s' = sent s @ bs)"

lemma dev_keeps_refl: "ok s \<Longrightarrow> dev_keeps s s"
  by (simp add: dev_keeps_def)

lemma dev_keeps_trans [trans]: "dev_keeps a b \<Longrightarrow> dev_keeps b c \<Longrightarrow> dev_keeps a c"
  by (auto simp: dev_keeps_def)

lemma any_fails_keeps:
  assumes "\<And>call s ret s'. call \<in> set calls \<Longrightarrow> call s = Some (ret, s') \<Longrightarrow> ok s \<Longrightarrow> dev_keeps s s'"
    "any_fails calls s = Some (bad, s')" "ok s"
  shows "dev_keeps s s'"
  using assms
proof (induction calls arbitrary: s)
  case (Cons call calls)
  from Cons.prems(2) obtain ret s1 where c: "call s = Some (ret, s1)"
    and r: "if ret \<noteq> 0 then s1 = s' else any_fails calls s1 = Some (bad, s')"
    by (auto split: if_splits)
  have k: "dev_keeps s s1" using Cons.prems(1,3) c by auto
  then have "ok s1" by (simp add: dev_keeps_def)
  show ?case
  proof (cases "ret = 0")
    case True
    then have a: "any_fails calls s1 = Some (bad, s')" using r by simp
    have "dev_keeps s1 s'" by (rule Cons.IH [OF _ a \<open>ok s1\<close>]) (use Cons.prems(1) in auto)
    with k show ?thesis by (rule dev_keeps_trans)
  qed (use k r in simp)
qed (simp add: dev_keeps_refl)

text \<open>Every command of PS2Interface keeps the device in order.\<close>

lemma sendPS2Cmd_keeps: "sendPS2Cmd D cmd s = Some (ret, s') \<Longrightarrow> ok s \<Longrightarrow> dev_keeps s s'"
  using sendPS2Cmd_run by (auto simp: dev_keeps_def)

lemma sendSlicedPS2Cmd_keeps: "sendSlicedPS2Cmd D cmd s = Some (ret, s') \<Longrightarrow> ok s \<Longrightarrow> dev_keeps s s'"
  by (erule (1) sendSlicedPS2Cmd_run) (auto simp: dev_keeps_def)

lemma sendElactechPS2Cmd_keeps: "sendElactechPS2Cmd D cmd s = Some (ret, s') \<Longrightarrow> ok s \<Longrightarrow> dev_keeps s s'"
  by (erule (1) sendElactechPS2Cmd_run) (auto simp: dev_keeps_def)

lemma getMouseInformation_keeps:
  "getMouseInformation D param s = Some (ret, param', s') \<Longrightarrow> ok s \<Longrightarrow> dev_keeps s s'"
  using getMouseInformation_run by (auto simp: dev_keeps_def)

lemma sendSynapticsCmd_keeps:
  "sendSynapticsCmd D cmd param s = Some (ret, param', s') \<Longrightarrow> ok s \<Longrightarrow> dev_keeps s s'"
  by (erule (1) sendSynapticsCmd_run) (auto simp: dev_keeps_def)

lemma sendElantechCmd_keeps:
  "sendElantechCmd D cmd param s = Some (ret, param', s') \<Longrightarrow> ok s \<Longrightarrow> dev_keeps s s'"
  using sendElantechCmd_run by (auto simp: dev_keeps_def)

lemma initializeMouse_keeps:
  "initializeMouse D rate res scaling s = Some (ret, s') \<Longrightarrow> ok s \<Longrightarrow> dev_keeps s s'"
  using initializeMouse_run by (auto simp: dev_keeps_def)

lemma resetMouse_keeps: "resetMouse D s = Some (ret, s') \<Longrightarrow> ok s \<Longrightarrow> dev_keeps s s'"
  using resetMouse_run(1) by (auto simp: dev_keeps_def)

lemma setCommandByte_keeps: "setCommandByte D setBits clearBits s = Some s' \<Longrightarrow> ok s \<Longrightarrow> dev_keeps s s'"
  using setCommandByte_run by (auto simp: dev_keeps_def)

text \<open>A single request on its own: allocated, submitted, freed.\<close>

lemma one_request_keeps:
  assumes "dev_allocateRequest D s = (r, s0)"
    "dev_submitRequestAndBlock D (setCommands cs r) s0 = Some (r', s1)" "ok s" "plain_commands cs"
  shows "dev_keeps s (dev_freeRequest D r' s1)"
  using one_request [OF assms] by (auto simp: dev_keeps_def)

end

end
