(* ===== verification/Touchpad_Elan.thy ===== *)
theory Touchpad_Elan
  imports Touchpad_State
begin

text \<open>
  The ELAN part of ApplePS2SmartTouchPad.cpp that sets a touchpad up: signatures, hardware version,
  registers, ranges, absolute mode (with the constants of ELAN.h).
\<close>

section \<open>Constants\<close>

abbreviation ETD_FW_ID_QUERY :: u8 where "ETD_FW_ID_QUERY \<equiv> 0x00"
abbreviation ETD_FW_VERSION_QUERY :: u8 where "ETD_FW_VERSION_QUERY \<equiv> 0x01"
abbreviation ETD_CAPABILITIES_QUERY :: u8 where "ETD_CAPABILITIES_QUERY \<equiv> 0x02"
abbreviation ETD_SAMPLE_QUERY :: u8 where "ETD_SAMPLE_QUERY \<equiv> 0x03"
abbreviation ETD_REGISTER_READ :: u8 where "ETD_REGISTER_READ \<equiv> 0x10"
abbreviation ETD_REGISTER_WRITE :: u8 where "ETD_REGISTER_WRITE \<equiv> 0x11"
abbreviation ETD_REGISTER_READWRITE :: u8 where "ETD_REGISTER_READWRITE \<equiv> 0x00"
abbreviation ETD_READ_BACK_TRIES :: nat where "ETD_READ_BACK_TRIES \<equiv> 5"
abbreviation ETD_R10_ABSOLUTE_MODE :: u8 where "ETD_R10_ABSOLUTE_MODE \<equiv> 0x04"
abbreviation ETD_EDGE_FUZZ_V1 :: u16 where "ETD_EDGE_FUZZ_V1 \<equiv> 32"

section \<open>Signatures and hardware version\<close>

definition Elantech_is_signatures_valid :: "u8 list \<Rightarrow> bool" where
  "Elantech_is_signatures_valid param =
     (if param ! 0 = 0 then False
      else if param ! 1 = 0 then True
      else if param ! 1 AND 0xef = 0x0f \<and> param ! 2 < 40 then True
      else if param ! 2 \<in> set [200, 100, 80, 60, 40, 20, 10] then False
      else True)"

definition ELAN_CAP_CLICKPAD :: "u32 \<Rightarrow> bool" where
  "ELAN_CAP_CLICKPAD ex0c \<longleftrightarrow> ex0c AND 0x1000 \<noteq> 0"

text \<open>
  The version of the IC body selects the hardware version; the default branch of the source tests
  the old hardware version and keeps it when it passes.
\<close>

definition elanVersion :: "u32 \<Rightarrow> u8 \<Rightarrow> u8 option" where
  "elanVersion fw hw =
     (let ver = drop_bit 16 (fw AND 0x0f0000)
      in if fw < 0x020030 \<or> fw = 0x020600 then Some 1
         else if ver \<in> {2, 4} then Some 2
         else if ver = 5 then Some 3
         else if ver \<in> {6, 7, 8, 9, 10, 13, 14} then Some 4
         else if hw > 14 then Some hw
         else None)"

definition Elantech_set_properties :: "touchpad \<Rightarrow> IOReturn \<times> touchpad" where
  "Elantech_set_properties t =
     (case elanVersion (fw_version (elanTPad t)) (hw_version t) of
        None \<Rightarrow> (kIOReturnNoDevice, t)
      | Some hw \<Rightarrow>
          let t = t\<lparr>hw_version := hw\<rparr>;
              fw = fw_version (elanTPad t);
              t = (if hw < 4 then t\<lparr>isClickPad := False\<rparr> else t);
              e = (elanTPad t)\<lparr>paritycheck := True, jumpyCursor := fw = 0x020022 \<or> fw = 0x020600\<rparr>;
              e = (if hw > 1 \<and> fw \<ge> 0x020800 then e\<lparr>reportsPressure := True\<rparr> else e);
              e = e\<lparr>crcEnabled := fw AND 0x4000 = 0x4000\<rparr>
          in (kIOReturnSuccess, t\<lparr>elanTPad := e\<rparr>))"

section \<open>Registers\<close>

definition elan_register :: "u8 \<Rightarrow> bool" where
  "elan_register reg \<longleftrightarrow> \<not> (reg < 0x07 \<or> reg > 0x26) \<and> \<not> (reg > 0x11 \<and> reg < 0x20)"

definition Elantech_write_calls :: "'s ps2dev \<Rightarrow> u8 \<Rightarrow> u8 \<Rightarrow> u8 \<Rightarrow> ('s \<Rightarrow> (IOReturn \<times> 's) option) list" where
  "Elantech_write_calls D hw reg val =
     (if hw = 1 then
        [sendSlicedPS2Cmd D ETD_REGISTER_WRITE, sendSlicedPS2Cmd D reg, sendSlicedPS2Cmd D val,
         sendPS2Cmd D kDP_SetMouseScaling1To1]
      else if hw = 2 then
        [sendElactechPS2Cmd D ETD_PS2_CUSTOM_COMMAND, sendElactechPS2Cmd D ETD_REGISTER_WRITE,
         sendElactechPS2Cmd D ETD_PS2_CUSTOM_COMMAND, sendElactechPS2Cmd D reg,
         sendElactechPS2Cmd D ETD_PS2_CUSTOM_COMMAND, sendElactechPS2Cmd D val,
         sendElactechPS2Cmd D kDP_SetMouseScaling1To1]
      else if hw = 3 then
        [sendElactechPS2Cmd D ETD_PS2_CUSTOM_COMMAND, sendElactechPS2Cmd D ETD_REGISTER_READWRITE,
         sendElactechPS2Cmd D ETD_PS2_CUSTOM_COMMAND, sendElactechPS2Cmd D reg,
         sendElactechPS2Cmd D ETD_PS2_CUSTOM_COMMAND, sendElactechPS2Cmd D val,
         sendElactechPS2Cmd D kDP_SetMouseScaling1To1]
      else if hw = 4 then
        [sendElactechPS2Cmd D ETD_PS2_CUSTOM_COMMAND, sendElactechPS2Cmd D ETD_REGISTER_READWRITE,
         sendElactechPS2Cmd D ETD_PS2_CUSTOM_COMMAND, sendElactechPS2Cmd D reg,
         sendElactechPS2Cmd D ETD_PS2_CUSTOM_COMMAND, sendElactechPS2Cmd D ETD_REGISTER_READWRITE,
         sendElactechPS2Cmd D ETD_PS2_CUSTOM_COMMAND, sendElactechPS2Cmd D val,
         sendElactechPS2Cmd D kDP_SetMouseScaling1To1]
      else [])"

definition Elantech_write_reg ::
  "'s ps2dev \<Rightarrow> u8 \<Rightarrow> u8 \<Rightarrow> touchpad \<Rightarrow> 's \<Rightarrow> (IOReturn \<times> 's) option" where
  "Elantech_write_reg D reg val t s =
     (if \<not> elan_register reg then Some (-1, s)
      else do {
        (bad, s) \<leftarrow> any_fails (Elantech_write_calls D (hw_version t) reg val) s;
        Some (if bad then kIOReturnError else kIOReturnSuccess, s)
      })"

definition Elantech_read_calls :: "'s ps2dev \<Rightarrow> u8 \<Rightarrow> u8 \<Rightarrow> ('s \<Rightarrow> (IOReturn \<times> 's) option) list" where
  "Elantech_read_calls D hw reg =
     (if hw = 1 then [sendSlicedPS2Cmd D ETD_REGISTER_READ, sendSlicedPS2Cmd D reg]
      else if hw = 2 then
        [sendElactechPS2Cmd D ETD_PS2_CUSTOM_COMMAND, sendElactechPS2Cmd D ETD_REGISTER_READ,
         sendElactechPS2Cmd D ETD_PS2_CUSTOM_COMMAND, sendElactechPS2Cmd D reg]
      else
        [sendElactechPS2Cmd D ETD_PS2_CUSTOM_COMMAND, sendElactechPS2Cmd D ETD_REGISTER_READWRITE,
         sendElactechPS2Cmd D ETD_PS2_CUSTOM_COMMAND, sendElactechPS2Cmd D reg])"

definition Elantech_read_reg ::
  "'s ps2dev \<Rightarrow> u8 \<Rightarrow> u8 \<Rightarrow> touchpad \<Rightarrow> 's \<Rightarrow> (IOReturn \<times> u8 \<times> 's) option" where
  "Elantech_read_reg D reg val t s =
     (if \<not> elan_register reg then Some (kIOReturnError, val, s)
      else do {
        let param = [0, 0, 0];
        (ret, param, s) \<leftarrow> (if hw_version t \<in> {1, 2, 3, 4} then do {
            (bad, s) \<leftarrow> any_fails (Elantech_read_calls D (hw_version t) reg) s;
            if bad then Some (kIOReturnError, param, s)
            else do {
              (r, param, s) \<leftarrow> getMouseInformation D param s;
              Some (if r \<noteq> 0 then kIOReturnError else kIOReturnSuccess, param, s)
            }
          }
          else Some (kIOReturnSuccess, param, s));
        let val = (if ret \<noteq> 0 then val else if hw_version t \<noteq> 4 then param ! 0 else param ! 1);
        Some (ret, val, s)
      })"

section \<open>Absolute mode\<close>

text \<open>The do-while loop around the read-back of register 0x10, with \<open>n\<close> tries after the first.\<close>

fun readBack :: "'s ps2dev \<Rightarrow> nat \<Rightarrow> u8 \<Rightarrow> touchpad \<Rightarrow> 's \<Rightarrow> (IOReturn \<times> u8 \<times> 's) option" where
  "readBack D 0 val t s = Elantech_read_reg D 0x10 val t s"
| "readBack D (Suc n) val t s = do {
     (ret, val, s) \<leftarrow> Elantech_read_reg D 0x10 val t s;
     if ret = 0 then Some (ret, val, s) else readBack D n val t s
   }"

text \<open>
  The switch on the hardware version: the registers it sets and writes. The condition of the outer
  branches is one chain of calls, the first failure decides.
\<close>

definition Elantech_write_mode :: "'s ps2dev \<Rightarrow> touchpad \<Rightarrow> 's \<Rightarrow> (IOReturn \<times> touchpad \<times> 's) option" where
  "Elantech_write_mode D t s =
     (if hw_version t = 1 then do {
        let t = t\<lparr>elanTPad := (elanTPad t)\<lparr>reg_10 := 0x16, reg_11 := 0x8f\<rparr>\<rparr>;
        (bad, s) \<leftarrow> any_fails [Elantech_write_reg D 0x10 0x16 t, Elantech_write_reg D 0x11 0x8f t] s;
        Some (if bad then kIOReturnError else kIOReturnSuccess, t, s)
      }
      else if hw_version t = 2 then do {
        let t = t\<lparr>elanTPad := (elanTPad t)\<lparr>reg_10 := 0x54, reg_11 := 0x88, reg_21 := 0x60\<rparr>\<rparr>;
        (bad, s) \<leftarrow> any_fails [Elantech_write_reg D 0x10 0x54 t, Elantech_write_reg D 0x11 0x88 t,
          Elantech_write_reg D 0x21 0x60 t] s;
        Some (if bad then kIOReturnError else kIOReturnSuccess, t, s)
      }
      else if hw_version t = 3 then do {
        let t = t\<lparr>elanTPad := (elanTPad t)\<lparr>reg_10 := 0x0b\<rparr>\<rparr>;
        (ret, s) \<leftarrow> Elantech_write_reg D 0x10 0x0b t s;
        if ret = 0 then Some (kIOReturnSuccess, t, s)
        else do {
          let t = t\<lparr>elanTPad := (elanTPad t)\<lparr>v3ElanLegacyMode := True, reg_10 := 0x03\<rparr>\<rparr>;
          (ret, s) \<leftarrow> Elantech_write_reg D 0x10 0x03 t s;
          Some (if ret \<noteq> 0 then kIOReturnError else kIOReturnSuccess, t, s)
        }
      }
      else if hw_version t = 4 then do {
        let t = t\<lparr>elanTPad := (elanTPad t)\<lparr>reg_07 := 0x01\<rparr>\<rparr>;
        (ret, s) \<leftarrow> Elantech_write_reg D 0x07 0x01 t s;
        Some (if ret \<noteq> 0 then kIOReturnError else kIOReturnSuccess, t, s)
      }
      else Some (kIOReturnSuccess, t, s))"

definition resetDevice :: "'s ps2dev \<Rightarrow> 's \<Rightarrow> 's option" where
  "resetDevice D s =
     (let (request, s) = dev_allocateRequest D s
      in do {
        (request, s) \<leftarrow> dev_submitRequestAndBlock D (setCommands [(Send, kDP_Reset)] request) s;
        Some (dev_freeRequest D request s)
      })"

definition Elantech_set_absolute_mode ::
  "'s ps2dev \<Rightarrow> touchpad \<Rightarrow> 's \<Rightarrow> (IOReturn \<times> touchpad \<times> 's) option" where
  "Elantech_set_absolute_mode D t s = do {
     s \<leftarrow> resetDevice D s;
     (ret, t, s) \<leftarrow> Elantech_write_mode D t s;
     if hw_version t = 4 \<or> ret \<noteq> 0 then Some (ret, t, s)
     else do {
       (ret, val, s) \<leftarrow> readBack D (ETD_READ_BACK_TRIES - 1) 0 t s;
       let ret = (if ret \<noteq> 0 then ret
                  else if hw_version t = 1 \<and> val AND ETD_R10_ABSOLUTE_MODE = 0 then kIOReturnError
                  else ret);
       Some (ret, t, s)
     }
   }"

section \<open>Ranges\<close>

text \<open>
  C arithmetic on int: the factors are promoted bytes, and division truncates towards zero. The
  results are stored in 16-bit members.
\<close>

definition v2_range :: "u32 \<Rightarrow> u8 list \<Rightarrow> u16 \<times> u16" where
  "v2_range fw caps =
     (let i = (if fw > 0x020800 \<and> fw < 0x020900 then 1 else 2 :: int)
      in if fw = 0x040216 then (819, 405)
         else if fw = 0x040219 \<or> fw = 0x040215 then (900, 500)
         else (word_of_int ((uint (caps ! 1) - i) * 64), word_of_int ((uint (caps ! 2) - i) * 64)))"

definition Elantech_range_v2 :: "'s ps2dev \<Rightarrow> touchpad \<Rightarrow> 's \<Rightarrow> (IOReturn \<times> touchpad \<times> 's) option" where
  "Elantech_range_v2 D t s =
     (let fw = fw_version (elanTPad t); caps = elanCapabs (elanTPad t)
      in if fw = 0x020800 \<or> fw = 0x020b00 \<or> fw = 0x020030 then
           Some (kIOReturnSuccess, t\<lparr>xmin := 0, ymin := 0, xmax := 1152, ymax := 768\<rparr>, s)
         else do {
           let i = (if fw > 0x020800 \<and> fw < 0x020900 then 1 else 2 :: int);
           (ret, param, s) \<leftarrow> sendSynapticsCmd D ETD_FW_ID_QUERY [] s;
           if ret \<noteq> 0 then Some (kIOReturnError, t, s)
           else do {
             let fixed_dpi = param ! 1 AND 0x10;
             if drop_bit 16 fw = 0x14 \<and> fixed_dpi \<noteq> 0 then do {
               (ret, param, s) \<leftarrow> sendSynapticsCmd D ETD_SAMPLE_QUERY param s;
               if ret \<noteq> 0 then Some (kIOReturnError, t, s)
               else Some (kIOReturnSuccess, t\<lparr>
                 xmax := word_of_int ((uint (caps ! 1) - i) * uint (param ! 1) sdiv 2),
                 ymax := word_of_int ((uint (caps ! 2) - i) * uint (param ! 2) sdiv 2)\<rparr>, s)
             }
             else Some (kIOReturnSuccess,
               t\<lparr>xmax := fst (v2_range fw caps), ymax := snd (v2_range fw caps)\<rparr>, s)
           }
         })"

definition Elantech_range_query :: "'s ps2dev \<Rightarrow> touchpad \<Rightarrow> 's \<Rightarrow> (IOReturn \<times> touchpad \<times> 's) option" where
  "Elantech_range_query D t s = do {
     (ret, param, s) \<leftarrow> sendElantechCmd D ETD_FW_ID_QUERY [] s;
     if ret \<noteq> 0 then Some (kIOReturnError, t, s)
     else do {
       let t = t\<lparr>xmin := 0, ymin := 0,
         xmax := push_bit 8 (ucast (0x0f AND param ! 0)) OR ucast (param ! 1),
         ymax := push_bit 4 (ucast (0xf0 AND param ! 0)) OR ucast (param ! 2)\<rparr>;
       if hw_version t = 3 then Some (kIOReturnSuccess, t, s)
       else do {
         let traces = elanCapabs (elanTPad t) ! 1;
         if traces < 2 \<or> ucast traces > xmax t then Some (kIOReturnError, t, s)
         else Some (kIOReturnSuccess, t\<lparr>elanTPad := (elanTPad t)\<lparr>tracesWidth :=
           ucast (xmax t div ucast (traces - 1))\<rparr>\<rparr>, s)
       }
     }
   }"

definition Elantech_set_range :: "'s ps2dev \<Rightarrow> touchpad \<Rightarrow> 's \<Rightarrow> (IOReturn \<times> touchpad \<times> 's) option" where
  "Elantech_set_range D t s = do {
     (ret, t, s) \<leftarrow>
       (if hw_version t = 1 then
          Some (kIOReturnSuccess, t\<lparr>xmin := 0 + ETD_EDGE_FUZZ_V1, ymin := 0 + ETD_EDGE_FUZZ_V1,
            xmax := 576 - ETD_EDGE_FUZZ_V1, ymax := 384 - ETD_EDGE_FUZZ_V1\<rparr>, s)
        else if hw_version t = 2 then Elantech_range_v2 D t s
        else if hw_version t \<in> {3, 4} then Elantech_range_query D t s
        else Some (kIOReturnSuccess, t, s));
     if ret \<noteq> 0 then Some (ret, t, s)
     else Some (kIOReturnSuccess, t\<lparr>xcenter := xmax t div 2, ycenter := ymax t div 2\<rparr>, s)
   }"

section \<open>Setup\<close>

definition Elantech_setup_touchpad :: "'s ps2dev \<Rightarrow> touchpad \<Rightarrow> 's \<Rightarrow> (bool \<times> touchpad \<times> 's) option" where
  "Elantech_setup_touchpad D t s = do {
     (ret, param, s) \<leftarrow> sendSynapticsCmd D ETD_FW_VERSION_QUERY [] s;
     if ret \<noteq> 0 then Some (False, t, s)
     else if \<not> Elantech_is_signatures_valid param then Some (False, t, s)
     else do {
       let t = t\<lparr>elanTPad := (elanTPad t)\<lparr>fw_version := be24 param\<rparr>\<rparr>;
       let (ret, t) = Elantech_set_properties t;
       if ret \<noteq> 0 then Some (False, t, s)
       else do {
         let t = t\<lparr>isClickPad := hw_version t > 3 \<and> ELAN_CAP_CLICKPAD (fw_version (elanTPad t))\<rparr>;
         if hw_version t < 2 then Some (False, t, s)
         else do {
           (ret, caps, s) \<leftarrow> (if hw_version t \<in> {1, 2}
             then sendSynapticsCmd D ETD_CAPABILITIES_QUERY (elanCapabs (elanTPad t)) s
             else sendElantechCmd D ETD_CAPABILITIES_QUERY (elanCapabs (elanTPad t)) s);
           let t = t\<lparr>elanTPad := (elanTPad t)\<lparr>elanCapabs := caps\<rparr>\<rparr>;
           if ret \<noteq> 0 then Some (False, t, s)
           else do {
             (ret, t, s) \<leftarrow> Elantech_set_absolute_mode D t s;
             if ret \<noteq> 0 then Some (False, t, s)
             else do {
               (ret, t, s) \<leftarrow> Elantech_set_range D t s;
               if ret \<noteq> 0 then Some (False, t, s)
               else Some (True, t\<lparr>elanTPad := (elanTPad t)\<lparr>supportsTrackPoint :=
                 elanCapabs (elanTPad t) ! 0 AND 0x80 = 0x80\<rparr>\<rparr>, s)
             }
           }
         }
       }
     }
   }"

section \<open>Library lemmas\<close>

context request_device
begin

lemmas cmd_keeps = sendPS2Cmd_keeps sendSlicedPS2Cmd_keeps sendElactechPS2Cmd_keeps
  getMouseInformation_keeps sendSynapticsCmd_keeps sendElantechCmd_keeps

lemma write_calls_keep:
  "call \<in> set (Elantech_write_calls D hw reg val) \<Longrightarrow> call s = Some (ret, s') \<Longrightarrow> ok s \<Longrightarrow> dev_keeps s s'"
  by (auto simp: Elantech_write_calls_def split: if_splits intro: cmd_keeps)

lemma read_calls_keep:
  "call \<in> set (Elantech_read_calls D hw reg) \<Longrightarrow> call s = Some (ret, s') \<Longrightarrow> ok s \<Longrightarrow> dev_keeps s s'"
  by (auto simp: Elantech_read_calls_def split: if_splits intro: cmd_keeps)

lemma dev_keeps_ok: "dev_keeps s s' \<Longrightarrow> ok s'"
  by (simp add: dev_keeps_def)

lemma write_reg_keeps:
  assumes "Elantech_write_reg D reg val t s = Some (ret, s')" "ok s"
  shows "dev_keeps s s'"
proof (cases "elan_register reg")
  case True
  then obtain bad where "any_fails (Elantech_write_calls D (hw_version t) reg val) s = Some (bad, s')"
    using assms(1) by (auto simp: Elantech_write_reg_def)
  from any_fails_keeps [OF _ this assms(2)] show ?thesis using write_calls_keep by blast
qed (use assms in \<open>simp add: Elantech_write_reg_def dev_keeps_refl\<close>)

lemma read_reg_keeps:
  assumes "Elantech_read_reg D reg val t s = Some (ret, val', s')" "ok s"
  shows "dev_keeps s s'"
proof (cases "elan_register reg \<and> hw_version t \<in> {1, 2, 3, 4}")
  case True
  then obtain bad s1 where c: "any_fails (Elantech_read_calls D (hw_version t) reg) s = Some (bad, s1)"
    and r: "bad \<and> s1 = s' \<or> (\<exists>r p. getMouseInformation D [0, 0, 0] s1 = Some (r, p, s'))"
    using assms(1) by (auto simp: Elantech_read_reg_def Let_def split: if_splits)
  have k: "dev_keeps s s1" using any_fails_keeps [OF _ c assms(2)] read_calls_keep by blast
  then show ?thesis using r getMouseInformation_keeps dev_keeps_ok by (blast intro: dev_keeps_trans)
qed (use assms in \<open>auto simp: Elantech_read_reg_def Let_def dev_keeps_refl split: if_splits\<close>)

lemma readBack_keeps:
  "readBack D n val t s = Some (ret, val', s') \<Longrightarrow> ok s \<Longrightarrow> dev_keeps s s'"
proof (induction n arbitrary: val s)
  case (Suc n)
  then obtain r v s1 where r: "Elantech_read_reg D 0x10 val t s = Some (r, v, s1)"
      "s1 = s' \<or> readBack D n v t s1 = Some (ret, val', s')"
    by (auto split: if_splits)
  have "dev_keeps s s1" using read_reg_keeps [OF r(1) Suc.prems(2)] .
  then show ?case using r(2) Suc.IH dev_keeps_ok by (blast intro: dev_keeps_trans)
qed (simp add: read_reg_keeps)

lemma dev_keeps_and_ok: "dev_keeps s s' \<Longrightarrow> dev_keeps s s' \<and> ok s'"
  by (simp add: dev_keeps_def)

text \<open>The same with the device's order as a second conclusion, for chains of calls.\<close>

lemmas chain_keeps = cmd_keeps [THEN dev_keeps_and_ok] write_reg_keeps [THEN dev_keeps_and_ok]
  read_reg_keeps [THEN dev_keeps_and_ok] readBack_keeps [THEN dev_keeps_and_ok]

lemma write_mode_keeps:
  assumes "Elantech_write_mode D t s = Some (ret, t', s')" "ok s"
  shows "dev_keeps s s'"
  using assms
  by (auto simp: Elantech_write_mode_def Let_def dev_keeps_refl split: if_splits dest!: chain_keeps)
     (assumption | erule dev_keeps_trans)+

lemma resetDevice_keeps:
  assumes "resetDevice D s = Some s'" "ok s"
  shows "dev_keeps s s'"
proof -
  obtain r s0 where al: "dev_allocateRequest D s = (r, s0)" by fastforce
  then obtain r' s1 where sub: "dev_submitRequestAndBlock D (setCommands [(Send, kDP_Reset)] r) s0 = Some (r', s1)"
      and s': "s' = dev_freeRequest D r' s1"
    using assms(1) by (auto simp: resetDevice_def Let_def)
  have "plain_commands [(Send, kDP_Reset)]" by (simp add: plain_commands_def plain_command_def)
  from one_request_keeps [OF al sub assms(2) this] show ?thesis by (simp add: s')
qed

lemma elan_absolute_keeps:
  assumes "Elantech_set_absolute_mode D t s = Some (ret, t', s')" "ok s"
  shows "dev_keeps s s'"
  using assms
  by (auto simp: Elantech_set_absolute_mode_def Let_def split: if_splits
      dest!: resetDevice_keeps [THEN dev_keeps_and_ok] write_mode_keeps [THEN dev_keeps_and_ok] chain_keeps)
     (assumption | erule dev_keeps_trans)+

lemma range_v2_keeps:
  assumes "Elantech_range_v2 D t s = Some (ret, t', s')" "ok s"
  shows "dev_keeps s s'"
  using assms
  by (auto simp: Elantech_range_v2_def Let_def dev_keeps_refl split: if_splits dest!: chain_keeps)
     ((assumption | erule dev_keeps_trans)+)?

lemma range_query_keeps:
  assumes "Elantech_range_query D t s = Some (ret, t', s')" "ok s"
  shows "dev_keeps s s'"
  using assms
  by (auto simp: Elantech_range_query_def Let_def split: if_splits dest!: chain_keeps)

lemma elan_range_keeps:
  assumes "Elantech_set_range D t s = Some (ret, t', s')" "ok s"
  shows "dev_keeps s s'"
  using assms range_v2_keeps range_query_keeps
  by (auto simp: Elantech_set_range_def dev_keeps_refl split: if_splits)

lemma elan_setup_keeps:
  assumes "Elantech_setup_touchpad D t s = Some (yes, t', s')" "ok s"
  shows "dev_keeps s s'"
  using assms
  by (auto simp: Elantech_setup_touchpad_def Let_def split: if_splits prod.splits
      dest!: chain_keeps elan_absolute_keeps [THEN dev_keeps_and_ok] elan_range_keeps [THEN dev_keeps_and_ok])
     ((assumption | erule dev_keeps_trans)+)?

text \<open>What a chain of successful calls puts on the wire, when no call had to retry.\<close>

definition sends :: "('s \<Rightarrow> (IOReturn \<times> 's) option) \<Rightarrow> u8 list \<Rightarrow> bool" where
  "sends call bs \<longleftrightarrow> (\<forall>s s1. call s = Some (0, s1) \<longrightarrow> ok s \<longrightarrow>
     dev_keeps s s1 \<and> (\<not> fault s1 \<longrightarrow> sent s1 = sent s @ bs))"

lemma sends_intros:
  "sends (sendPS2Cmd D cmd) [cmd]"
  "sends (sendElactechPS2Cmd D cmd) [cmd]"
  "sends (sendSlicedPS2Cmd D cmd) (sent_by (slicedCommands cmd))"
proof -
  show "sends (sendPS2Cmd D cmd) [cmd]"
    using sendPS2Cmd_run sendPS2Cmd_keeps by (auto simp: sends_def)
  show "sends (sendElactechPS2Cmd D cmd) [cmd]"
    unfolding sends_def
  proof (intro allI impI conjI)
    fix s s1 assume a: "sendElactechPS2Cmd D cmd s = Some (0, s1)" "ok s"
    then show "dev_keeps s s1" by (rule sendElactechPS2Cmd_keeps)
    assume "\<not> fault s1"
    moreover obtain k where "1 \<le> k" "sent s1 = sent s @ replicate k cmd" "fault s1 = (fault s \<or> 2 \<le> k)"
      using sendElactechPS2Cmd_run [OF a] by metis
    moreover from calculation have "k = 1" by simp
    ultimately show "sent s1 = sent s @ [cmd]" by simp
  qed
  show "sends (sendSlicedPS2Cmd D cmd) (sent_by (slicedCommands cmd))"
    unfolding sends_def
  proof (intro allI impI conjI)
    fix s s1 assume a: "sendSlicedPS2Cmd D cmd s = Some (0, s1)" "ok s"
    then show "dev_keeps s s1" by (rule sendSlicedPS2Cmd_keeps)
    show "sent s1 = sent s @ sent_by (slicedCommands cmd)" using sendSlicedPS2Cmd_run [OF a] by auto
  qed
qed

lemma any_fails_sends:
  assumes "list_all2 sends calls bss" "any_fails calls s = Some (False, s')" "ok s" "\<not> fault s'"
  shows "dev_keeps s s' \<and> sent s' = sent s @ concat bss"
  using assms
proof (induction arbitrary: s rule: list_all2_induct)
  case (Cons call calls bs bss)
  from Cons.prems(1) obtain s1 where c: "call s = Some (0, s1)" "any_fails calls s1 = Some (False, s')"
    by (auto split: if_splits)
  have k: "dev_keeps s s1" "\<not> fault s1 \<longrightarrow> sent s1 = sent s @ bs"
    using Cons.hyps(1) c(1) Cons.prems(2) by (auto simp: sends_def)
  have r: "dev_keeps s1 s'" "sent s' = sent s1 @ concat bss"
    using Cons.IH [OF c(2) dev_keeps_ok [OF k(1)] Cons.prems(3)] by auto
  have "\<not> fault s1" using r(1) Cons.prems(3) by (auto simp: dev_keeps_def)
  with k r show ?case by (auto intro: dev_keeps_trans)
qed (simp add: dev_keeps_refl)

lemma write_reg_sends:
  assumes "Elantech_write_reg D reg val t s = Some (0, s')" "ok s" "\<not> fault s'"
    "list_all2 sends (Elantech_write_calls D (hw_version t) reg val) bss"
  shows "sent s' = sent s @ concat bss"
proof -
  have "any_fails (Elantech_write_calls D (hw_version t) reg val) s = Some (False, s')"
    using assms(1) by (auto simp: Elantech_write_reg_def split: if_splits)
  from any_fails_sends [OF assms(4) this assms(2,3)] show ?thesis by simp
qed

end

text \<open>The identity of a touchpad: what setup determines before it switches modes.\<close>

definition same_model :: "touchpad \<Rightarrow> touchpad \<Rightarrow> bool" where
  "same_model t t' \<longleftrightarrow> hw_version t' = hw_version t \<and> isClickPad t' = isClickPad t \<and>
    fw_version (elanTPad t') = fw_version (elanTPad t) \<and> crcEnabled (elanTPad t') = crcEnabled (elanTPad t) \<and>
    paritycheck (elanTPad t') = paritycheck (elanTPad t) \<and> elanCapabs (elanTPad t') = elanCapabs (elanTPad t) \<and>
    touchpadVendor t' = touchpadVendor t \<and> packetBuffer t' = packetBuffer t"

lemma same_model_refl [simp]: "same_model t t"
  by (simp add: same_model_def)

lemma write_mode_model: "Elantech_write_mode D t s = Some (ret, t', s') \<Longrightarrow> same_model t t'"
  by (auto simp: Elantech_write_mode_def Let_def same_model_def split: if_splits)

lemma elan_absolute_model: "Elantech_set_absolute_mode D t s = Some (ret, t', s') \<Longrightarrow> same_model t t'"
  by (auto simp: Elantech_set_absolute_mode_def Let_def split: if_splits dest!: write_mode_model)

lemma v3_range_bound:
  "push_bit 8 (ucast (0x0f AND a :: u8)) OR ucast (b :: u8) < (0x1000 :: u16)"
  "push_bit 4 (ucast (0xf0 AND a :: u8)) OR ucast (b :: u8) < (0x1000 :: u16)"
proof -
  show "push_bit 8 (ucast (0x0f AND a :: u8)) OR ucast (b :: u8) < (0x1000 :: u16)"
    unfolding low_nibble
    by (rule u16_less_4096)
       (auto simp: bit_or_iff bit_push_bit_iff bit_unsigned_iff bit_take_bit_iff dest!: bit_u8_bound)
  show "push_bit 4 (ucast (0xf0 AND a :: u8)) OR ucast (b :: u8) < (0x1000 :: u16)"
    by (rule u16_less_4096)
       (auto simp: bit_or_iff bit_push_bit_iff bit_unsigned_iff bit_and_iff simp del: bit_numeral_iff dest!: bit_u8_bound)
qed
text \<open>What a successful range query leaves.\<close>

definition ranges_ok :: "touchpad \<Rightarrow> bool" where
  "ranges_ok t \<longleftrightarrow> xcenter t = xmax t div 2 \<and> ycenter t = ymax t div 2 \<and>
     (hw_version t \<in> {3, 4} \<longrightarrow> xmin t = 0 \<and> ymin t = 0 \<and> xmax t < 0x1000 \<and> ymax t < 0x1000) \<and>
     (hw_version t = 4 \<longrightarrow> 2 \<le> elanCapabs (elanTPad t) ! 1 \<and> ucast (elanCapabs (elanTPad t) ! 1) \<le> xmax t)"

lemma range_v2_model: "Elantech_range_v2 D t s = Some (ret, t', s') \<Longrightarrow> same_model t t'"
  by (auto simp: Elantech_range_v2_def same_model_def Let_def split: if_splits)

lemma range_query_result:
  assumes "Elantech_range_query D t s = Some (0, t', s')"
  shows "same_model t t' \<and> xmin t' = 0 \<and> ymin t' = 0 \<and> xmax t' < 0x1000 \<and> ymax t' < 0x1000 \<and>
    (hw_version t = 4 \<longrightarrow> 2 \<le> elanCapabs (elanTPad t) ! 1 \<and> ucast (elanCapabs (elanTPad t) ! 1) \<le> xmax t')"
  using assms
  by (auto simp: Elantech_range_query_def same_model_def Let_def v3_range_bound not_less split: if_splits)

lemma elan_range_result:
  assumes "Elantech_set_range D t s = Some (0, t', s')"
  shows "ranges_ok t' \<and> same_model t t'"
proof (cases "hw_version t = 1")
  case True
  then show ?thesis using assms by (auto simp: Elantech_set_range_def ranges_ok_def same_model_def)
next
  case False
  then obtain t1 where t': "t' = t1\<lparr>xcenter := xmax t1 div 2, ycenter := ymax t1 div 2\<rparr>"
    and t1: "if hw_version t = 2 then Elantech_range_v2 D t s = Some (0, t1, s')
      else if hw_version t \<in> {3, 4} then Elantech_range_query D t s = Some (0, t1, s')
      else t1 = t"
    using assms by (auto simp: Elantech_set_range_def split: if_splits)
  have m: "same_model t t1"
    using t1 range_v2_model [of D t s 0 t1 s'] range_query_result [of D t s t1 s']
    by (auto split: if_splits)
  moreover have "ranges_ok t'"
    using t1 m range_query_result [of D t s t1 s'] unfolding t' ranges_ok_def same_model_def
    by (auto split: if_splits)
  ultimately show ?thesis by (simp add: t' same_model_def)
qed

section \<open>Properties\<close>

text \<open>
  The register write protocol of the four hardware versions, as bytes to the touchpad: version 1
  uses three sliced commands, versions 2 to 4 prefix every byte with the custom command, versions
  3 and 4 write through the read-write command, and version 4 repeats it before the value.
\<close>

definition elan_write_wire :: "u8 \<Rightarrow> u8 \<Rightarrow> u8 \<Rightarrow> u8 list" where
  "elan_write_wire hw reg val =
     (if hw = 1 then sent_by (slicedCommands 0x11) @ sent_by (slicedCommands reg) @
                     sent_by (slicedCommands val) @ [0xE6]
      else if hw = 2 then [0xf8, 0x11, 0xf8, reg, 0xf8, val, 0xE6]
      else if hw = 3 then [0xf8, 0x00, 0xf8, reg, 0xf8, val, 0xE6]
      else if hw = 4 then [0xf8, 0x00, 0xf8, reg, 0xf8, 0x00, 0xf8, val, 0xE6]
      else [])"

text \<open>
  Register writes follow the protocol of the hardware version: a write that reports success and
  did not run into the retry fault has sent exactly the bytes of the protocol, for a register in the
  windows 0x07 to 0x11 and 0x20 to 0x26, and left the request heap as it was.
\<close>

theorem elan_register_write_protocol:
  assumes "Elantech_write_reg mouseDevice reg val t s = Some (kIOReturnSuccess, s')" "quiet s" "\<not> ub s'"
  shows "wire s' = wire s @ elan_write_wire (hw_version t) reg val \<and>
    (0x07 \<le> reg \<and> reg \<le> 0x11 \<or> 0x20 \<le> reg \<and> reg \<le> 0x26) \<and>
    set (liveRequests s') = set (liveRequests s)"
proof -
  let ?calls = "Elantech_write_calls mouseDevice (hw_version t) reg val"
  define bss where "bss = (if hw_version t = 1 then [sent_by (slicedCommands 0x11),
      sent_by (slicedCommands reg), sent_by (slicedCommands val), [0xE6]]
    else map (\<lambda>b. [b]) (elan_write_wire (hw_version t) reg val))"
  have "list_all2 mouse.sends ?calls bss"
    by (simp add: bss_def Elantech_write_calls_def elan_write_wire_def mouse.sends_intros)
  moreover have "concat bss = elan_write_wire (hw_version t) reg val"
    by (simp add: bss_def elan_write_wire_def)
  ultimately have "wire s' = wire s @ elan_write_wire (hw_version t) reg val"
    using mouse.write_reg_sends [OF assms] by auto
  moreover have "elan_register reg"
    using assms(1) by (auto simp: Elantech_write_reg_def split: if_splits)
  then have "0x07 \<le> reg \<and> reg \<le> 0x11 \<or> 0x20 \<le> reg \<and> reg \<le> 0x26"
    by (auto simp: elan_register_def not_less not_le)
  ultimately show ?thesis
    using mouse.write_reg_keeps [OF assms(1,2)] by (auto simp: mouse.dev_keeps_def)
qed


lemma set_properties_result:
  assumes "Elantech_set_properties t = (0, t')"
  shows "elanVersion (fw_version (elanTPad t)) (hw_version t) = Some (hw_version t') \<and>
    fw_version (elanTPad t') = fw_version (elanTPad t) \<and> paritycheck (elanTPad t') \<and>
    crcEnabled (elanTPad t') = (fw_version (elanTPad t) AND 0x4000 = 0x4000) \<and>
    touchpadVendor t' = touchpadVendor t \<and> packetBuffer t' = packetBuffer t"
  using assms by (auto simp: Elantech_set_properties_def Let_def split: option.splits if_splits)

lemma elan_setup_steps:
  assumes "Elantech_setup_touchpad D t s = Some (True, t', s')"
  obtains param s1 t1 caps t3 s3 t4 where
    "sendSynapticsCmd D ETD_FW_VERSION_QUERY [] s = Some (0, param, s1)"
    "Elantech_is_signatures_valid param"
    "Elantech_set_properties (t\<lparr>elanTPad := (elanTPad t)\<lparr>fw_version := be24 param\<rparr>\<rparr>) = (0, t1)"
    "2 \<le> hw_version t1"
    "same_model (t1\<lparr>isClickPad := hw_version t1 > 3 \<and> ELAN_CAP_CLICKPAD (fw_version (elanTPad t1)),
       elanTPad := (elanTPad t1)\<lparr>elanCapabs := caps\<rparr>\<rparr>) t3"
    "Elantech_set_range D t3 s3 = Some (0, t4, s')"
    "t' = t4\<lparr>elanTPad := (elanTPad t4)\<lparr>supportsTrackPoint := elanCapabs (elanTPad t4) ! 0 AND 0x80 = 0x80\<rparr>\<rparr>"
proof -
  from assms obtain param s1 t1 caps s2 t3 s3 t4 where st:
    "sendSynapticsCmd D ETD_FW_VERSION_QUERY [] s = Some (0, param, s1)"
    "Elantech_is_signatures_valid param"
    "Elantech_set_properties (t\<lparr>elanTPad := (elanTPad t)\<lparr>fw_version := be24 param\<rparr>\<rparr>) = (0, t1)"
    "2 \<le> hw_version t1"
    "Elantech_set_absolute_mode D (t1\<lparr>isClickPad := hw_version t1 > 3 \<and> ELAN_CAP_CLICKPAD (fw_version (elanTPad t1)),
       elanTPad := (elanTPad t1)\<lparr>elanCapabs := caps\<rparr>\<rparr>) s2 = Some (0, t3, s3)"
    "Elantech_set_range D t3 s3 = Some (0, t4, s')"
    "t' = t4\<lparr>elanTPad := (elanTPad t4)\<lparr>supportsTrackPoint := elanCapabs (elanTPad t4) ! 0 AND 0x80 = 0x80\<rparr>\<rparr>"
    by (auto simp: Elantech_setup_touchpad_def Let_def not_less split: if_splits prod.splits)
  show ?thesis by (rule that [OF st(1-4) elan_absolute_model [OF st(5)] st(6,7)])
qed

text \<open>The input of a version 4 touchpad (firmware 0x581f01, a clickpad) during setup.\<close>

definition query_input :: "nat \<Rightarrow> u8 list \<Rightarrow> u8 list" where
  "query_input n bs = concat (replicate n ack_input) @ data_input bs"

definition elan_v4_input :: "u8 list" where
  "elan_v4_input = query_input 10 [0x58, 0x1f, 0x01] @ query_input 3 [0x50, 17, 0x0d] @
     query_input 1 [] @ query_input 9 [] @ query_input 3 [0x5a, 0x80, 0x40]"

theorem elan_register_write_protocol_witness:
  "\<exists>s'. Elantech_write_reg mouseDevice 0x10 0x0b (touchpad_init\<lparr>hw_version := 3\<rparr>) (init (query_input 7 [])) =
      Some (kIOReturnSuccess, s') \<and> wire s' = [0xf8, 0, 0xf8, 0x10, 0xf8, 0x0b, 0xE6]"
proof -
  let ?t = "touchpad_init\<lparr>hw_version := 3\<rparr>" and ?s = "init (query_input 7 [])"
  have "map_option (\<lambda>(r, s). (r, ub s)) (Elantech_write_reg mouseDevice 0x10 0x0b ?t ?s) =
    Some (kIOReturnSuccess, False)" by code_simp
  then obtain s' where run: "Elantech_write_reg mouseDevice 0x10 0x0b ?t ?s = Some (kIOReturnSuccess, s')" "\<not> ub s'"
    by auto
  have "wire ?s = []" by (simp add: wire_def init_def)
  then show ?thesis
    using elan_register_write_protocol [OF run(1) _ run(2)] run(1) by (simp add: elan_write_wire_def)
qed

lemma elan_setup_result:
  assumes "Elantech_setup_touchpad D t s = Some (True, t', s')" "hw_version t \<le> 14"
  shows "hw_version t' \<in> {2, 3, 4} \<and> paritycheck (elanTPad t') \<and>
    (isClickPad t' \<longleftrightarrow> hw_version t' = 4 \<and> ELAN_CAP_CLICKPAD (fw_version (elanTPad t'))) \<and>
    crcEnabled (elanTPad t') = (fw_version (elanTPad t') AND 0x4000 = 0x4000) \<and>
    ranges_ok t' \<and> touchpadVendor t' = touchpadVendor t \<and> packetBuffer t' = packetBuffer t"
proof -
  from elan_setup_steps [OF assms(1)] obtain param t1 caps t3 s3 t4 where st:
    "Elantech_set_properties (t\<lparr>elanTPad := (elanTPad t)\<lparr>fw_version := be24 param\<rparr>\<rparr>) = (0, t1)"
    "2 \<le> hw_version t1"
    "same_model (t1\<lparr>isClickPad := hw_version t1 > 3 \<and> ELAN_CAP_CLICKPAD (fw_version (elanTPad t1)),
       elanTPad := (elanTPad t1)\<lparr>elanCapabs := caps\<rparr>\<rparr>) t3"
    "Elantech_set_range D t3 s3 = Some (0, t4, s')"
    "t' = t4\<lparr>elanTPad := (elanTPad t4)\<lparr>supportsTrackPoint := elanCapabs (elanTPad t4) ! 0 AND 0x80 = 0x80\<rparr>\<rparr>"
    by metis
  note p = set_properties_result [OF st(1)]
  note r = elan_range_result [OF st(4)]
  have v: "hw_version t1 \<in> {2, 3, 4}"
    using p st(2) assms(2) by (auto simp: elanVersion_def Let_def word_le_nat_alt word_less_nat_alt split: if_splits)
  then have "(3 < hw_version t1) = (hw_version t1 = 4)" by auto
  then show ?thesis
    using p r st(3,5) v by (auto simp: same_model_def ranges_ok_def)
qed

text \<open>
  C24: A successful ELAN setup is consistent, whatever the device answers: the hardware version is 2,
  3 or 4, packet checking is on, a clickpad is only reported on version 4, the centre is half the
  range, and on versions 3 and 4 the range starts at 0 and fits the 12 bits of the packet fields.
\<close>

theorem elan_setup_consistent:
  assumes "Elantech_setup_touchpad D t s = Some (True, t', s')" "hw_version t \<le> 14"
  shows "hw_version t' \<in> {2, 3, 4} \<and> paritycheck (elanTPad t') \<and>
    (isClickPad t' \<longleftrightarrow> hw_version t' = 4 \<and> ELAN_CAP_CLICKPAD (fw_version (elanTPad t'))) \<and>
    crcEnabled (elanTPad t') = (fw_version (elanTPad t') AND 0x4000 = 0x4000) \<and>
    xcenter t' = xmax t' div 2 \<and> ycenter t' = ymax t' div 2 \<and>
    (hw_version t' \<noteq> 2 \<longrightarrow> xmin t' = 0 \<and> ymin t' = 0 \<and> xmax t' < 0x1000 \<and> ymax t' < 0x1000)"
  using elan_setup_result [OF assms] by (auto simp: ranges_ok_def)

theorem elan_setup_consistent_witness:
  "\<exists>t' s'. Elantech_setup_touchpad mouseDevice touchpad_init (init elan_v4_input) = Some (True, t', s') \<and>
     hw_version t' \<in> {2, 3, 4} \<and> xmax t' = 0xa80 \<and> xcenter t' = 0x540 \<and> isClickPad t'"
proof -
  have "map_option (\<lambda>(b, t, s). (b, xmax t, hw_version t, isClickPad t))
      (Elantech_setup_touchpad mouseDevice touchpad_init (init elan_v4_input)) = Some (True, 0xa80, 4, True)"
    by code_simp
  then obtain t' s' where run: "Elantech_setup_touchpad mouseDevice touchpad_init (init elan_v4_input) =
      Some (True, t', s')" and x: "xmax t' = 0xa80" "isClickPad t'" by auto
  have "hw_version touchpad_init \<le> 14" by (simp add: touchpad_init_def)
  note elan_setup_consistent [OF run this]
  then show ?thesis using run x by simp
qed

text \<open>
  The fallback for unknown ELAN revisions never fires: the source announces that an unknown
  revision is assumed to be hardware version 4, but it tests the hardware version instead of the
  revision, so that every revision outside the table is refused with kIOReturnNoDevice and the
  driver state is left unchanged.
\<close>

theorem elan_unknown_revision_refused:
  assumes "hw_version t \<le> 14" "drop_bit 16 (fw_version (elanTPad t) AND 0x0f0000) = ver" "ver > 14"
    "fw_version (elanTPad t) \<ge> 0x020030"
  shows "Elantech_set_properties t = (kIOReturnNoDevice, t)"
proof -
  have "fw_version (elanTPad t) \<noteq> 0x020600"
    using assms(2,3) by auto
  moreover have "ver \<notin> {2, 4, 5, 6, 7, 8, 9, 10, 13, 14}" using assms(3) by auto
  ultimately have "elanVersion (fw_version (elanTPad t)) (hw_version t) = None"
    using assms by (auto simp: elanVersion_def Let_def)
  then show ?thesis by (simp add: Elantech_set_properties_def)
qed

theorem elan_unknown_revision_refused_witness:
  "let t = touchpad_init\<lparr>elanTPad := (elanTPad touchpad_init)\<lparr>fw_version := 0x5f1f01\<rparr>\<rparr>
   in Elantech_set_properties t = (kIOReturnNoDevice, t)"
  unfolding Let_def
  by (rule elan_unknown_revision_refused [where ver = 15]) (simp_all add: touchpad_init_def)

end
