(* ===== verification/Touchpad_Synaptics.thy ===== *)
theory Touchpad_Synaptics
  imports Touchpad_Elan
begin

text \<open>
  The Synaptics part of ApplePS2SmartTouchPad.cpp that detects and sets a touchpad up, with the
  capability tests of Synaptics.h. Setup is cut where the source's comments cut it: the
  identification queries, the extended capabilities, the resolution and coordinate queries, the mode
  switch and the pass-through query.
\<close>

section \<open>Constants and capability tests of Synaptics.h\<close>

abbreviation SYN_QUE_IDENTIFY :: u8 where "SYN_QUE_IDENTIFY \<equiv> 0x00"
abbreviation SYN_QUE_MODES :: u8 where "SYN_QUE_MODES \<equiv> 0x01"
abbreviation SYN_QUE_CAPABILITIES :: u8 where "SYN_QUE_CAPABILITIES \<equiv> 0x02"
abbreviation SYN_QUE_MODEL :: u8 where "SYN_QUE_MODEL \<equiv> 0x03"
abbreviation SYN_QUE_RESOLUTION :: u8 where "SYN_QUE_RESOLUTION \<equiv> 0x08"
abbreviation SYN_QUE_EXT_CAPAB :: u8 where "SYN_QUE_EXT_CAPAB \<equiv> 0x09"
abbreviation SYN_QUE_FIRMWARE_ID :: u8 where "SYN_QUE_FIRMWARE_ID \<equiv> 0x0a"
abbreviation SYN_QUE_EXT_CAPAB_0C :: u8 where "SYN_QUE_EXT_CAPAB_0C \<equiv> 0x0c"
abbreviation SYN_QUE_EXT_MAX_COORDS :: u8 where "SYN_QUE_EXT_MAX_COORDS \<equiv> 0x0d"
abbreviation SYN_QUE_EXT_MIN_COORDS :: u8 where "SYN_QUE_EXT_MIN_COORDS \<equiv> 0x0f"
abbreviation SYN_QUE_MEXT_CAPAB_10 :: u8 where "SYN_QUE_MEXT_CAPAB_10 \<equiv> 0x10"

abbreviation SYN_BIT_ABSOLUTE_MODE :: u8 where "SYN_BIT_ABSOLUTE_MODE \<equiv> 0x80"
abbreviation SYN_BIT_HIGH_RATE :: u8 where "SYN_BIT_HIGH_RATE \<equiv> 0x40"
abbreviation SYN_BIT_DISABLE_GESTURE :: u8 where "SYN_BIT_DISABLE_GESTURE \<equiv> 0x04"
abbreviation SYN_BIT_W_MODE :: u8 where "SYN_BIT_W_MODE \<equiv> 0x01"
abbreviation SYN_PS_SET_MODE2 :: u8 where "SYN_PS_SET_MODE2 \<equiv> 0x14"

abbreviation SYN_NEWABS :: u8 where "SYN_NEWABS \<equiv> 0"
abbreviation SYN_NEWABS_STRICT :: u8 where "SYN_NEWABS_STRICT \<equiv> 1"
abbreviation SYN_NEWABS_RELAXED :: u8 where "SYN_NEWABS_RELAXED \<equiv> 2"
abbreviation SYN_OLDABS :: u8 where "SYN_OLDABS \<equiv> 3"

definition SYN_MODEL_NEWABS :: "u64 \<Rightarrow> bool" where "SYN_MODEL_NEWABS m \<longleftrightarrow> m AND 0x80 \<noteq> 0"
definition SYN_CAP_EXTENDED :: "u64 \<Rightarrow> bool" where "SYN_CAP_EXTENDED c \<longleftrightarrow> c AND 0x800000 \<noteq> 0"
definition SYN_CAP_PASS_THROUGH :: "u64 \<Rightarrow> bool" where "SYN_CAP_PASS_THROUGH c \<longleftrightarrow> c AND 0x80 \<noteq> 0"
definition SYN_CAP_SUBMODEL_ID :: "u64 \<Rightarrow> u64" where "SYN_CAP_SUBMODEL_ID c = drop_bit 8 (c AND 0x00ff00)"
definition SYN_EXT_CAP_REQUESTS :: "u64 \<Rightarrow> u64" where "SYN_EXT_CAP_REQUESTS c = drop_bit 20 (c AND 0x700000)"
definition SYN_CAP_MULTI_BUTTON_NO :: "u64 \<Rightarrow> u64" where
  "SYN_CAP_MULTI_BUTTON_NO ec = drop_bit 12 (ec AND 0x00f000)"
definition SYN_CAP_CLICKPAD :: "u64 \<Rightarrow> bool" where "SYN_CAP_CLICKPAD ex0c \<longleftrightarrow> ex0c AND 0x100000 \<noteq> 0"
definition SYN_CAP_MAX_DIMENSIONS :: "u64 \<Rightarrow> bool" where "SYN_CAP_MAX_DIMENSIONS ex0c \<longleftrightarrow> ex0c AND 0x020000 \<noteq> 0"
definition SYN_CAP_MIN_DIMENSIONS :: "u64 \<Rightarrow> bool" where "SYN_CAP_MIN_DIMENSIONS ex0c \<longleftrightarrow> ex0c AND 0x002000 \<noteq> 0"
definition SYN_CAP_ADV_GESTURE :: "u64 \<Rightarrow> bool" where "SYN_CAP_ADV_GESTURE ex0c \<longleftrightarrow> ex0c AND 0x080000 \<noteq> 0"
definition SYN_CAP_IMAGE_SENSOR :: "u64 \<Rightarrow> bool" where "SYN_CAP_IMAGE_SENSOR ex0c \<longleftrightarrow> ex0c AND 0x000800 \<noteq> 0"

definition SYN_ID_MAJOR :: "u64 \<Rightarrow> u64" where "SYN_ID_MAJOR i = i AND 0x0f"
definition SYN_ID_MINOR :: "u64 \<Rightarrow> u64" where "SYN_ID_MINOR i = drop_bit 16 i AND 0xff"
definition SYN_ID_FULL :: "u64 \<Rightarrow> u64" where "SYN_ID_FULL i = push_bit 8 (SYN_ID_MAJOR i) OR SYN_ID_MINOR i"
definition SYN_ID_IS_SYNAPTICS :: "u64 \<Rightarrow> bool" where "SYN_ID_IS_SYNAPTICS i \<longleftrightarrow> drop_bit 8 i AND 0xff = 0x47"
definition SYN_ID_DISGEST_SUPPORTED :: "u64 \<Rightarrow> bool" where "SYN_ID_DISGEST_SUPPORTED i \<longleftrightarrow> SYN_ID_MAJOR i \<ge> 4"

section \<open>Detection\<close>

text \<open>The magic knock: an empty sliced command, then the information request.\<close>

definition Synaptics_detect :: "'s ps2dev \<Rightarrow> 's \<Rightarrow> (IOReturn \<times> 's) option" where
  "Synaptics_detect D s =
     (let (request, s) = dev_allocateRequest D s;
          request = setCommands [(Send, kDP_SetMouseScaling1To1), (Send, kDP_SetMouseResolution), (Send, 0),
            (Send, kDP_SetMouseResolution), (Send, 0), (Send, kDP_SetMouseResolution), (Send, 0),
            (Send, kDP_SetMouseResolution), (Send, 0)] request
      in do {
        (request, s) \<leftarrow> dev_submitRequestAndBlock D request s;
        let ret = (if commandsCount request \<noteq> 9 then kIOReturnIOError else kIOReturnSuccess);
        let s = dev_freeRequest D request s;
        (r, param, s) \<leftarrow> getMouseInformation D [0, 0, 0] s;
        let ret = (if r \<noteq> 0 then kIOReturnIOError else ret);
        Some (if param ! 1 \<noteq> 0x47 then kIOReturnIOError else ret, s)
      })"

section \<open>Modes\<close>

definition Synaptics_mode_cmd :: "'s ps2dev \<Rightarrow> u8 \<Rightarrow> 's \<Rightarrow> (IOReturn \<times> 's) option" where
  "Synaptics_mode_cmd D mode s = do {
     (bad, s) \<leftarrow> any_fails [sendSlicedPS2Cmd D mode, sendPS2Cmd D kDP_SetMouseSampleRate,
       sendPS2Cmd D SYN_PS_SET_MODE2] s;
     Some (if bad then kIOReturnError else kIOReturnSuccess, s)
   }"

definition Synaptics_set_advanced_gesture_mode ::
  "'s ps2dev \<Rightarrow> touchpad \<Rightarrow> 's \<Rightarrow> (IOReturn \<times> touchpad \<times> 's) option" where
  "Synaptics_set_advanced_gesture_mode D t s =
     (if \<not> (SYN_CAP_ADV_GESTURE (ext_cap_0c (synTPad t)) \<or> SYN_CAP_IMAGE_SENSOR (ext_cap_0c (synTPad t)))
      then Some (kIOReturnSuccess, t, s)
      else do {
        (bad, s) \<leftarrow> any_fails [sendSlicedPS2Cmd D SYN_QUE_MODEL, sendPS2Cmd D kDP_SetMouseSampleRate,
          sendPS2Cmd D 0xc8] s;
        if bad then Some (kIOReturnError, t, s)
        else Some (kIOReturnSuccess,
          t\<lparr>synTPad := (synTPad t)\<lparr>capabilities := capabilities (synTPad t) OR push_bit 1 1\<rparr>\<rparr>, s)
      })"

definition synaptics_mode :: "touchpad \<Rightarrow> u8" where
  "synaptics_mode t =
     (let mode = 0;
          mode = (if absolute_mode (synTPad t) then mode OR SYN_BIT_ABSOLUTE_MODE else mode);
          mode = (if disable_gesture (synTPad t) then mode OR SYN_BIT_DISABLE_GESTURE else mode);
          mode = (if mSampleRate (ps2Mouse t) \<ge> 80 then mode OR SYN_BIT_HIGH_RATE
                  else mode AND NOT SYN_BIT_HIGH_RATE)
      in if SYN_CAP_EXTENDED (capabilities (synTPad t)) then mode OR SYN_BIT_W_MODE else mode)"

definition Synaptics_set_absolute_mode ::
  "'s ps2dev \<Rightarrow> touchpad \<Rightarrow> 's \<Rightarrow> (IOReturn \<times> touchpad \<times> 's) option" where
  "Synaptics_set_absolute_mode D t s =
     (let t = t\<lparr>synTPad := (synTPad t)\<lparr>syn_mode := synaptics_mode t\<rparr>\<rparr>
      in do {
        (ret, s) \<leftarrow> Synaptics_mode_cmd D (syn_mode (synTPad t)) s;
        if ret \<noteq> 0 then Some (kIOReturnError, t, s)
        else if \<not> absolute_mode (synTPad t) then Some (kIOReturnSuccess, t, s)
        else do {
          (ret, t, s) \<leftarrow> Synaptics_set_advanced_gesture_mode D t s;
          Some (if ret \<noteq> 0 then kIOReturnError else kIOReturnSuccess, t, s)
        }
      })"

definition Synaptics_reset :: "'s ps2dev \<Rightarrow> 's \<Rightarrow> 's option" where
  "Synaptics_reset D s = do {
     (ret, s) \<leftarrow> Synaptics_mode_cmd D 0 s;
     Some s
   }"

section \<open>Setup\<close>

text \<open>A query made under a condition, whose failure is only logged; its answer updates the driver.\<close>

definition query_into ::
  "'s ps2dev \<Rightarrow> bool \<Rightarrow> u8 \<Rightarrow> (u8 list \<Rightarrow> touchpad \<Rightarrow> touchpad) \<Rightarrow> touchpad \<Rightarrow> 's \<Rightarrow> (touchpad \<times> 's) option" where
  "query_into D cond cmd update t s =
     (if cond then do {
        (ret, resp, s) \<leftarrow> sendSynapticsCmd D cmd [] s;
        Some (if ret \<noteq> 0 then t else update resp t, s)
      }
      else Some (t, s))"

definition Synaptics_identify :: "'s ps2dev \<Rightarrow> touchpad \<Rightarrow> 's \<Rightarrow> (bool \<times> touchpad \<times> 's) option" where
  "Synaptics_identify D t s = do {
     (ret, id, s) \<leftarrow> sendSynapticsCmd D SYN_QUE_IDENTIFY [] s;
     if ret \<noteq> 0 then Some (False, t, s)
     else do {
       let t = t\<lparr>synTPad := (synTPad t)\<lparr>identity := be24 id\<rparr>\<rparr>;
       if \<not> SYN_ID_IS_SYNAPTICS (identity (synTPad t)) then Some (False, t, s)
       else do {
         (ret, id, s) \<leftarrow> sendSynapticsCmd D SYN_QUE_MODEL id s;
         if ret \<noteq> 0 then Some (False, t, s)
         else do {
           let t = t\<lparr>synTPad := (synTPad t)\<lparr>model_id := be24 id\<rparr>\<rparr>;
           (ret, id, s) \<leftarrow> sendSynapticsCmd D SYN_QUE_FIRMWARE_ID id s;
           if ret \<noteq> 0 then Some (False, t, s)
           else do {
             let t = t\<lparr>synTPad := (synTPad t)\<lparr>firmware_id := be24 id\<rparr>\<rparr>;
             (ret, id, s) \<leftarrow> sendSynapticsCmd D SYN_QUE_MODES id s;
             if ret \<noteq> 0 then Some (False, t, s)
             else Some (True, t\<lparr>synTPad := (synTPad t)\<lparr>board_id :=
               push_bit 6 (ucast (id ! 0 AND 0xfc)) OR ucast (id ! 1)\<rparr>\<rparr>, s)
           }
         }
       }
     }
   }"

definition set_capabilities :: "u8 list \<Rightarrow> touchpad \<Rightarrow> touchpad" where
  "set_capabilities cap t = t\<lparr>synTPad := (synTPad t)\<lparr>capabilities := be24 cap, ext_cap := 0, ext_cap_0c := 0,
     ext_cap_10 := 0\<rparr>\<rparr>"

text \<open>Unless the extended bit is set the rest of the flags is ignored.\<close>

definition drop_unextended :: "touchpad \<Rightarrow> touchpad" where
  "drop_unextended t = (if SYN_CAP_EXTENDED (capabilities (synTPad t)) then t
     else t\<lparr>synTPad := (synTPad t)\<lparr>capabilities := 0\<rparr>\<rparr>)"

text \<open>More than eight extended buttons are invalid and treated as none.\<close>

definition set_ext_cap :: "u8 list \<Rightarrow> touchpad \<Rightarrow> touchpad" where
  "set_ext_cap cap t =
     (let ec = (be24 cap :: u64)
      in t\<lparr>synTPad := (synTPad t)\<lparr>ext_cap :=
           (if SYN_CAP_MULTI_BUTTON_NO ec > 8 then ec AND 0xff0fff else ec)\<rparr>\<rparr>)"

definition Synaptics_read_capabilities :: "'s ps2dev \<Rightarrow> touchpad \<Rightarrow> 's \<Rightarrow> (bool \<times> touchpad \<times> 's) option" where
  "Synaptics_read_capabilities D t s = do {
     (ret, cap, s) \<leftarrow> sendSynapticsCmd D SYN_QUE_CAPABILITIES [] s;
     if ret \<noteq> 0 then Some (False, t, s)
     else do {
       let t = set_capabilities cap t;
       if SYN_ID_FULL (identity (synTPad t)) < 0x705 \<and> SYN_CAP_SUBMODEL_ID (capabilities (synTPad t)) \<noteq> 0x47
       then Some (False, t, s)
       else do {
         let t = drop_unextended t;
         (t, s) \<leftarrow> query_into D (SYN_EXT_CAP_REQUESTS (capabilities (synTPad t)) \<ge> 1) SYN_QUE_EXT_CAPAB
           set_ext_cap t s;
         (t, s) \<leftarrow> query_into D (SYN_EXT_CAP_REQUESTS (capabilities (synTPad t)) \<ge> 4) SYN_QUE_EXT_CAPAB_0C
           (\<lambda>cap t. t\<lparr>synTPad := (synTPad t)\<lparr>ext_cap_0c := be24 cap\<rparr>\<rparr>) t s;
         Some (True, t, s)
       }
     }
   }"

definition syn_coords :: "u8 list \<Rightarrow> u16 \<times> u16" where
  "syn_coords resp =
     (push_bit 5 (ucast (resp ! 0)) OR push_bit 1 (ucast (resp ! 1 AND 0x0f)),
      push_bit 5 (ucast (resp ! 2)) OR drop_bit 3 (ucast (resp ! 1 AND 0xf0)))"

definition set_resolution :: "u8 list \<Rightarrow> touchpad \<Rightarrow> touchpad" where
  "set_resolution resp t =
     (if resp ! 0 \<noteq> 0 \<and> resp ! 1 AND 0x80 \<noteq> 0 \<and> resp ! 2 \<noteq> 0
      then t\<lparr>synTPad := (synTPad t)\<lparr>x_res := ucast (resp ! 0), y_res := ucast (resp ! 2)\<rparr>\<rparr>
      else t)"

definition Synaptics_read_ranges :: "'s ps2dev \<Rightarrow> touchpad \<Rightarrow> 's \<Rightarrow> (touchpad \<times> 's) option" where
  "Synaptics_read_ranges D t s =
     (if SYN_ID_MAJOR (identity (synTPad t)) < 4 then Some (t, s)
      else do {
        (t, s) \<leftarrow> query_into D True SYN_QUE_RESOLUTION set_resolution t s;
        (t, s) \<leftarrow> query_into D (SYN_EXT_CAP_REQUESTS (capabilities (synTPad t)) \<ge> 5 \<and>
            SYN_CAP_MAX_DIMENSIONS (ext_cap_0c (synTPad t))) SYN_QUE_EXT_MAX_COORDS
          (\<lambda>resp t. t\<lparr>xmax := fst (syn_coords resp), ymax := snd (syn_coords resp)\<rparr>) t s;
        query_into D (SYN_EXT_CAP_REQUESTS (capabilities (synTPad t)) \<ge> 5 \<and>
            SYN_CAP_MIN_DIMENSIONS (ext_cap_0c (synTPad t))) SYN_QUE_EXT_MIN_COORDS
          (\<lambda>resp t. t\<lparr>xmin := fst (syn_coords resp), ymin := snd (syn_coords resp)\<rparr>) t s
      })"

definition begin_absolute :: "touchpad \<Rightarrow> touchpad" where
  "begin_absolute t =
     (let t = (if SYN_ID_DISGEST_SUPPORTED (identity (synTPad t))
               then t\<lparr>synTPad := (synTPad t)\<lparr>disable_gesture := True\<rparr>\<rparr> else t)
      in t\<lparr>synTPad := (synTPad t)\<lparr>absolute_mode := True\<rparr>\<rparr>)"

definition set_pkt_type :: "touchpad \<Rightarrow> touchpad" where
  "set_pkt_type t = t\<lparr>synTPad := (synTPad t)\<lparr>pkt_type :=
     (if SYN_MODEL_NEWABS (model_id (synTPad t)) then SYN_NEWABS else SYN_OLDABS)\<rparr>\<rparr>"

definition Synaptics_setup_touchpad :: "'s ps2dev \<Rightarrow> touchpad \<Rightarrow> 's \<Rightarrow> (bool \<times> touchpad \<times> 's) option" where
  "Synaptics_setup_touchpad D t s = do {
     (yes, t, s) \<leftarrow> Synaptics_identify D t s;
     if \<not> yes then Some (False, t, s)
     else do {
       (yes, t, s) \<leftarrow> Synaptics_read_capabilities D t s;
       if \<not> yes then Some (False, t, s)
       else do {
         (t, s) \<leftarrow> Synaptics_read_ranges D t s;
         let t = begin_absolute t;
         (ret, t, s) \<leftarrow> Synaptics_set_absolute_mode D t s;
         if ret \<noteq> 0 then Some (False, t, s)
         else do {
           let t = set_pkt_type t;
           (t, s) \<leftarrow> query_into D (SYN_CAP_PASS_THROUGH (capabilities (synTPad t))) SYN_QUE_MEXT_CAPAB_10
             (\<lambda>cap t. t\<lparr>synTPad := (synTPad t)\<lparr>ext_cap_10 := be24 cap\<rparr>\<rparr>) t s;
           Some (True, t\<lparr>isClickPad := SYN_CAP_CLICKPAD (ext_cap_0c (synTPad t))\<rparr>, s)
         }
       }
     }
   }"

section \<open>Packet validation\<close>

definition newabs_mask :: "u8 list" where "newabs_mask = [0xC8, 0x00, 0x00, 0xC8, 0x00]"
definition newabs_rel_mask :: "u8 list" where "newabs_rel_mask = [0xC0, 0x00, 0x00, 0xC0, 0x00]"
definition newabs_rslt :: "u8 list" where "newabs_rslt = [0x80, 0x00, 0x00, 0xC0, 0x00]"
definition oldabs_mask :: "u8 list" where "oldabs_mask = [0xC0, 0x60, 0x00, 0xC0, 0x60]"
definition oldabs_rslt :: "u8 list" where "oldabs_rslt = [0xC0, 0x00, 0x00, 0x80, 0x00]"

text \<open>
  The result is an IOReturn holding a truth value: 1 for a byte that matches its mask, 0 for one that
  does not, and 0, the success code, outside the table and for unknown packet types.
\<close>

definition Synaptics_validate_byte :: "u8 list \<Rightarrow> int \<Rightarrow> u8 \<Rightarrow> IOReturn" where
  "Synaptics_validate_byte packet idx ptype =
     (if idx < 0 \<or> idx > 4 then kIOReturnSuccess
      else let i = nat idx
           in if ptype = SYN_NEWABS \<or> ptype = SYN_NEWABS_RELAXED
              then of_bool (packet ! i AND newabs_rel_mask ! i = newabs_rslt ! i)
              else if ptype = SYN_NEWABS_STRICT
              then of_bool (packet ! i AND newabs_mask ! i = newabs_rslt ! i)
              else if ptype = SYN_OLDABS
              then of_bool (packet ! i AND oldabs_mask ! i = oldabs_rslt ! i)
              else kIOReturnSuccess)"

section \<open>Library lemmas\<close>

context request_device
begin

lemma mode_cmd_keeps: "Synaptics_mode_cmd D mode s = Some (ret, s') \<Longrightarrow> ok s \<Longrightarrow> dev_keeps s s'"
  by (auto simp: Synaptics_mode_cmd_def split: if_splits dest!: chain_keeps)
     (assumption | erule dev_keeps_trans)+

lemma advanced_gesture_keeps:
  "Synaptics_set_advanced_gesture_mode D t s = Some (ret, t', s') \<Longrightarrow> ok s \<Longrightarrow> dev_keeps s s'"
  by (auto simp: Synaptics_set_advanced_gesture_mode_def dev_keeps_refl split: if_splits dest!: chain_keeps)
     (assumption | erule dev_keeps_trans)+

lemma synaptics_absolute_keeps:
  "Synaptics_set_absolute_mode D t s = Some (ret, t', s') \<Longrightarrow> ok s \<Longrightarrow> dev_keeps s s'"
  by (auto simp: Synaptics_set_absolute_mode_def Let_def split: if_splits
      dest!: mode_cmd_keeps [THEN dev_keeps_and_ok] advanced_gesture_keeps [THEN dev_keeps_and_ok])
     ((assumption | erule dev_keeps_trans)+)?

lemma synaptics_identify_keeps:
  "Synaptics_identify D t s = Some (yes, t', s') \<Longrightarrow> ok s \<Longrightarrow> dev_keeps s s'"
  by (auto simp: Synaptics_identify_def Let_def split: if_splits dest!: chain_keeps)
     ((assumption | erule dev_keeps_trans)+)?

lemma query_into_keeps: "query_into D c cmd f t s = Some (t', s') \<Longrightarrow> ok s \<Longrightarrow> dev_keeps s s'"
  by (auto simp: query_into_def dev_keeps_refl split: if_splits dest: sendSynapticsCmd_keeps)

lemmas query_chain = query_into_keeps [THEN dev_keeps_and_ok]

lemma synaptics_capabilities_keeps:
  "Synaptics_read_capabilities D t s = Some (yes, t', s') \<Longrightarrow> ok s \<Longrightarrow> dev_keeps s s'"
  by (auto simp: Synaptics_read_capabilities_def Let_def split: if_splits dest!: query_chain chain_keeps)
     ((assumption | erule dev_keeps_trans)+)?

lemma synaptics_ranges_keeps:
  "Synaptics_read_ranges D t s = Some (t', s') \<Longrightarrow> ok s \<Longrightarrow> dev_keeps s s'"
  by (auto simp: Synaptics_read_ranges_def Let_def dev_keeps_refl split: if_splits dest!: query_chain chain_keeps)
     ((assumption | erule dev_keeps_trans)+)?

lemma synaptics_setup_keeps:
  "Synaptics_setup_touchpad D t s = Some (yes, t', s') \<Longrightarrow> ok s \<Longrightarrow> dev_keeps s s'"
  by (auto simp: Synaptics_setup_touchpad_def Let_def split: if_splits
      dest!: query_chain chain_keeps synaptics_identify_keeps [THEN dev_keeps_and_ok]
        synaptics_capabilities_keeps [THEN dev_keeps_and_ok] synaptics_ranges_keeps [THEN dev_keeps_and_ok]
        synaptics_absolute_keeps [THEN dev_keeps_and_ok])
     ((assumption | erule dev_keeps_trans)+)?

lemma mode_cmd_sends:
  assumes "Synaptics_mode_cmd D mode s = Some (0, s')" "ok s" "\<not> fault s'"
  shows "sent s' = sent s @ sent_by (slicedCommands mode) @ [kDP_SetMouseSampleRate, SYN_PS_SET_MODE2]"
proof -
  let ?bss = "[sent_by (slicedCommands mode), [kDP_SetMouseSampleRate], [SYN_PS_SET_MODE2]]"
  have a: "any_fails [sendSlicedPS2Cmd D mode, sendPS2Cmd D kDP_SetMouseSampleRate,
      sendPS2Cmd D SYN_PS_SET_MODE2] s = Some (False, s')"
    using assms(1) by (auto simp: Synaptics_mode_cmd_def split: if_splits)
  have "list_all2 sends [sendSlicedPS2Cmd D mode, sendPS2Cmd D kDP_SetMouseSampleRate,
      sendPS2Cmd D SYN_PS_SET_MODE2] ?bss" by (simp add: sends_intros)
  from any_fails_sends [OF this a assms(2,3)] show ?thesis by simp
qed

end

text \<open>The mode byte, bit by bit.\<close>

lemma synaptics_mode_bits:
  "bits_set (synaptics_mode t) SYN_BIT_ABSOLUTE_MODE = absolute_mode (synTPad t)"
  "bits_set (synaptics_mode t) SYN_BIT_DISABLE_GESTURE = disable_gesture (synTPad t)"
  "bits_set (synaptics_mode t) SYN_BIT_HIGH_RATE = (mSampleRate (ps2Mouse t) \<ge> 80)"
  "bits_set (synaptics_mode t) SYN_BIT_W_MODE = SYN_CAP_EXTENDED (capabilities (synTPad t))"
  by (cases "absolute_mode (synTPad t)"; cases "disable_gesture (synTPad t)";
      cases "mSampleRate (ps2Mouse t) \<ge> 80"; cases "SYN_CAP_EXTENDED (capabilities (synTPad t))";
      simp add: synaptics_mode_def bits_set_def)+

lemma u16_less_8192:
  assumes "\<And>n. bit (w :: u16) n \<Longrightarrow> n < 13"
  shows "w < 0x2000"
proof -
  have "take_bit 13 w = w"
    by (rule bit_eqI) (use assms in \<open>auto simp: bit_take_bit_iff\<close>)
  then have "unat w = take_bit 13 (unat w)" by (metis unsigned_take_bit_eq)
  also have "\<dots> < 2 ^ 13" by (rule take_bit_nat_less_exp)
  finally show ?thesis by (simp add: word_less_nat_alt)
qed

lemma syn_coords_bound: "fst (syn_coords resp) < 0x2000" "snd (syn_coords resp) < 0x2000"
proof -
  show "fst (syn_coords resp) < 0x2000"
    by (rule u16_less_8192)
       (simp only: syn_coords_def fst_conv bit_or_iff bit_push_bit_iff bit_unsigned_iff,
        auto dest!: bit_u8_bound)
  show "snd (syn_coords resp) < 0x2000"
    by (rule u16_less_8192)
       (simp only: syn_coords_def snd_conv bit_or_iff bit_push_bit_iff bit_drop_bit_eq bit_unsigned_iff
          comp_def, auto dest!: bit_u8_bound)
qed

definition coords_ok :: "touchpad \<Rightarrow> bool" where
  "coords_ok t \<longleftrightarrow> xmax t < 0x2000 \<and> ymax t < 0x2000 \<and> xmin t < 0x2000 \<and> ymin t < 0x2000"

lemma query_into_inv:
  assumes "query_into D c cmd f t s = Some (t', s')" "P t" "\<And>resp. P (f resp t)"
  shows "P t'"
  using assms by (auto simp: query_into_def split: if_splits)

text \<open>The identification of a Synaptics touchpad.\<close>

definition same_id :: "touchpad \<Rightarrow> touchpad \<Rightarrow> bool" where
  "same_id t t' \<longleftrightarrow> identity (synTPad t') = identity (synTPad t) \<and> model_id (synTPad t') = model_id (synTPad t) \<and>
     ps2Mouse t' = ps2Mouse t \<and> touchpadVendor t' = touchpadVendor t \<and> packetBuffer t' = packetBuffer t \<and>
     (coords_ok t \<longrightarrow> coords_ok t')"

lemma synaptics_identify_result:
  assumes "Synaptics_identify D t s = Some (True, t', s')"
  shows "SYN_ID_IS_SYNAPTICS (identity (synTPad t')) \<and> coords_ok t' = coords_ok t \<and> ps2Mouse t' = ps2Mouse t \<and>
    touchpadVendor t' = touchpadVendor t \<and> packetBuffer t' = packetBuffer t"
  using assms by (auto simp: Synaptics_identify_def coords_ok_def Let_def split: if_splits)

lemma same_id_trans: "same_id a b \<Longrightarrow> same_id b c \<Longrightarrow> same_id a c"
  by (simp add: same_id_def)

lemma same_id_updates [simp]:
  "same_id t (set_capabilities cap t)" "same_id t (drop_unextended t)" "same_id t (set_ext_cap cap t)"
  "same_id t (t\<lparr>synTPad := (synTPad t)\<lparr>ext_cap_0c := v\<rparr>\<rparr>)" "same_id t (set_resolution resp t)"
  "same_id t (t\<lparr>xmax := fst (syn_coords resp), ymax := snd (syn_coords resp)\<rparr>)"
  "same_id t (t\<lparr>xmin := fst (syn_coords resp), ymin := snd (syn_coords resp)\<rparr>)"
  "same_id t t"
  by (simp_all add: same_id_def set_capabilities_def drop_unextended_def set_ext_cap_def set_resolution_def
      coords_ok_def syn_coords_bound Let_def)

lemma query_into_same_id:
  "query_into D c cmd f t s = Some (t', s') \<Longrightarrow> (\<And>resp. same_id t (f resp t)) \<Longrightarrow> same_id t t'"
  by (erule query_into_inv [where P = "same_id t"]) (rule same_id_updates, blast)

lemma synaptics_capabilities_result:
  assumes "Synaptics_read_capabilities D t s = Some (True, t', s')"
  shows "same_id t t'"
proof -
  obtain cap s1 t2 s2 c1 c2 where
    q: "query_into D c1 SYN_QUE_EXT_CAPAB set_ext_cap (drop_unextended (set_capabilities cap t)) s1
        = Some (t2, s2)"
      "query_into D c2 SYN_QUE_EXT_CAPAB_0C
        (\<lambda>cap t. t\<lparr>synTPad := (synTPad t)\<lparr>ext_cap_0c := be24 cap\<rparr>\<rparr>) t2 s2 = Some (t', s')"
    using assms by (auto simp: Synaptics_read_capabilities_def Let_def split: if_splits)
  have "same_id t (drop_unextended (set_capabilities cap t))"
    by (rule same_id_trans [of _ "set_capabilities cap t"]) simp_all
  moreover have "same_id (drop_unextended (set_capabilities cap t)) t2"
    by (rule query_into_same_id [OF q(1)]) simp
  moreover have "same_id t2 t'" by (rule query_into_same_id [OF q(2)]) simp
  ultimately show ?thesis by (blast intro: same_id_trans)
qed

lemma synaptics_ranges_result:
  assumes "Synaptics_read_ranges D t s = Some (t', s')"
  shows "same_id t t'"
proof (cases "SYN_ID_MAJOR (identity (synTPad t)) < 4")
  case False
  then obtain t1 s1 t2 s2 c2 c3 where
    q: "query_into D True SYN_QUE_RESOLUTION set_resolution t s = Some (t1, s1)"
      "query_into D c2 SYN_QUE_EXT_MAX_COORDS
        (\<lambda>resp t. t\<lparr>xmax := fst (syn_coords resp), ymax := snd (syn_coords resp)\<rparr>) t1 s1 = Some (t2, s2)"
      "query_into D c3 SYN_QUE_EXT_MIN_COORDS
        (\<lambda>resp t. t\<lparr>xmin := fst (syn_coords resp), ymin := snd (syn_coords resp)\<rparr>) t2 s2 = Some (t', s')"
    using assms by (auto simp: Synaptics_read_ranges_def)
  have "same_id t t1" by (rule query_into_same_id [OF q(1)]) simp
  moreover have "same_id t1 t2" by (rule query_into_same_id [OF q(2)]) simp
  moreover have "same_id t2 t'" by (rule query_into_same_id [OF q(3)]) simp
  ultimately show ?thesis by (blast intro: same_id_trans)
qed (use assms in \<open>simp add: Synaptics_read_ranges_def same_id_def\<close>)

lemma extended_or_2 [simp]: "SYN_CAP_EXTENDED (c OR 2) = SYN_CAP_EXTENDED c"
proof -
  have "(c OR 2) AND 0x800000 = (c AND 0x800000) OR (2 AND 0x800000)" by (rule and.commute [THEN trans, OF _]) (simp add: bit.conj_disj_distrib2 and.commute)?
  then show ?thesis by (simp add: SYN_CAP_EXTENDED_def)
qed

lemma advanced_gesture_result:
  assumes "Synaptics_set_advanced_gesture_mode D t s = Some (ret, t', s')"
  shows "\<exists>c. t' = t\<lparr>synTPad := (synTPad t)\<lparr>capabilities := c\<rparr>\<rparr> \<and>
    SYN_CAP_EXTENDED c = SYN_CAP_EXTENDED (capabilities (synTPad t))"
proof (cases "SYN_CAP_ADV_GESTURE (ext_cap_0c (synTPad t)) \<or> SYN_CAP_IMAGE_SENSOR (ext_cap_0c (synTPad t))")
  case False
  then have "t' = t" using assms by (simp add: Synaptics_set_advanced_gesture_mode_def)
  then show ?thesis by (intro exI [of _ "capabilities (synTPad t)"]) simp
next
  case True
  define calls where "calls = [sendSlicedPS2Cmd D SYN_QUE_MODEL, sendPS2Cmd D kDP_SetMouseSampleRate, sendPS2Cmd D 0xc8]"
  have "t' = t \<or> t' = t\<lparr>synTPad := (synTPad t)\<lparr>capabilities := capabilities (synTPad t) OR 2\<rparr>\<rparr>"
    using True assms unfolding Synaptics_set_advanced_gesture_mode_def calls_def [symmetric]
    by (auto split: if_splits)
  then show ?thesis
  proof
    assume "t' = t"
    then show ?thesis by (intro exI [of _ "capabilities (synTPad t)"]) simp
  next
    assume "t' = t\<lparr>synTPad := (synTPad t)\<lparr>capabilities := capabilities (synTPad t) OR 2\<rparr>\<rparr>"
    then show ?thesis by (intro exI [of _ "capabilities (synTPad t) OR 2"]) simp
  qed
qed

lemma synaptics_absolute_result:
  assumes "Synaptics_set_absolute_mode D t s = Some (0, t', s')"
  obtains c where "t' = t\<lparr>synTPad := (synTPad t)\<lparr>syn_mode := synaptics_mode t, capabilities := c\<rparr>\<rparr>"
    "SYN_CAP_EXTENDED c = SYN_CAP_EXTENDED (capabilities (synTPad t))"
proof -
  let ?t = "t\<lparr>synTPad := (synTPad t)\<lparr>syn_mode := synaptics_mode t\<rparr>\<rparr>"
  have t: "?t = ?t\<lparr>synTPad := (synTPad ?t)\<lparr>capabilities := capabilities (synTPad ?t)\<rparr>\<rparr>" by simp
  have "\<exists>s1. t' = ?t \<or> Synaptics_set_advanced_gesture_mode D ?t s1 = Some (0, t', s')"
    using assms by (auto simp: Synaptics_set_absolute_mode_def Let_def split: if_splits)
  then obtain s1 where "t' = ?t \<or> Synaptics_set_advanced_gesture_mode D ?t s1 = Some (0, t', s')" ..
  then obtain c where "t' = ?t\<lparr>synTPad := (synTPad ?t)\<lparr>capabilities := c\<rparr>\<rparr>"
    "SYN_CAP_EXTENDED c = SYN_CAP_EXTENDED (capabilities (synTPad ?t))"
    using t advanced_gesture_result [of D ?t s1 0 t' s'] by metis
  then show ?thesis by (intro that [of c]) simp_all
qed

section \<open>Properties\<close>

text \<open>
  The mode command: when Synaptics_mode_cmd reports success without a heap fault, the touchpad
  has received one sliced command that carries the mode byte, followed by the set-sample-rate
  command with the mode-set argument 0x14.
\<close>

theorem synaptics_mode_command_protocol:
  assumes "Synaptics_mode_cmd mouseDevice mode s = Some (kIOReturnSuccess, s')" "quiet s" "\<not> ub s'"
  shows "\<exists>sliced. wire s' = wire s @ sliced @ [0xF3, 0x14] \<and> unslice sliced = Some mode"
proof -
  have "unslice (sent_by (slicedCommands mode)) = Some mode"
    by (simp add: sent_by_def slicedCommands_def slices_reassemble)
  then show ?thesis using mouse.mode_cmd_sends [OF assms] by auto
qed

theorem synaptics_mode_command_protocol_witness:
  "\<exists>s' sliced. Synaptics_mode_cmd mouseDevice 0xC1 (init (query_input 11 [])) = Some (kIOReturnSuccess, s') \<and>
     wire s' = sliced @ [0xF3, 0x14] \<and> unslice sliced = Some 0xC1"
proof -
  let ?s = "init (query_input 11 [])"
  have "map_option (\<lambda>(r, s). (r, ub s)) (Synaptics_mode_cmd mouseDevice 0xC1 ?s) = Some (kIOReturnSuccess, False)"
    by code_simp
  then obtain s' where run: "Synaptics_mode_cmd mouseDevice 0xC1 ?s = Some (kIOReturnSuccess, s')" "\<not> ub s'"
    by auto
  have "wire ?s = []" by (simp add: wire_def init_def)
  then show ?thesis using synaptics_mode_command_protocol [OF run(1) quiet_init run(2)] run(1) by simp
qed

lemma synaptics_setup_steps:
  assumes "Synaptics_setup_touchpad D t s = Some (True, t', s')"
  obtains t3 caps x where
    "SYN_ID_IS_SYNAPTICS (identity (synTPad t3))" "coords_ok t \<longrightarrow> coords_ok t3"
    "touchpadVendor t3 = touchpadVendor t" "packetBuffer t3 = packetBuffer t"
    "SYN_CAP_EXTENDED caps = SYN_CAP_EXTENDED (capabilities (synTPad (begin_absolute t3)))"
    "t' = (let t4 = (begin_absolute t3)\<lparr>synTPad := (synTPad (begin_absolute t3))\<lparr>
               syn_mode := synaptics_mode (begin_absolute t3), capabilities := caps\<rparr>\<rparr>;
             t5 = (set_pkt_type t4)\<lparr>synTPad := (synTPad (set_pkt_type t4))\<lparr>ext_cap_10 := x\<rparr>\<rparr>
         in t5\<lparr>isClickPad := SYN_CAP_CLICKPAD (ext_cap_0c (synTPad t5))\<rparr>)"
proof -
  from assms obtain t1 s1 t2 s2 t3 s3 t4 s4 t5 c where st:
    "Synaptics_identify D t s = Some (True, t1, s1)"
    "Synaptics_read_capabilities D t1 s1 = Some (True, t2, s2)"
    "Synaptics_read_ranges D t2 s2 = Some (t3, s3)"
    "Synaptics_set_absolute_mode D (begin_absolute t3) s3 = Some (0, t4, s4)"
    "query_into D c SYN_QUE_MEXT_CAPAB_10 (\<lambda>cap t. t\<lparr>synTPad := (synTPad t)\<lparr>ext_cap_10 := be24 cap\<rparr>\<rparr>)
       (set_pkt_type t4) s4 = Some (t5, s')"
    "t' = t5\<lparr>isClickPad := SYN_CAP_CLICKPAD (ext_cap_0c (synTPad t5))\<rparr>"
    by (auto simp: Synaptics_setup_touchpad_def Let_def split: if_splits)
  have i: "SYN_ID_IS_SYNAPTICS (identity (synTPad t3))" "coords_ok t \<longrightarrow> coords_ok t3"
    "touchpadVendor t3 = touchpadVendor t" "packetBuffer t3 = packetBuffer t"
    using synaptics_identify_result [OF st(1)] synaptics_capabilities_result [OF st(2)]
      synaptics_ranges_result [OF st(3)] by (auto simp: same_id_def)
  from synaptics_absolute_result [OF st(4)] obtain caps where
    t4: "t4 = (begin_absolute t3)\<lparr>synTPad := (synTPad (begin_absolute t3))\<lparr>
        syn_mode := synaptics_mode (begin_absolute t3), capabilities := caps\<rparr>\<rparr>"
    and caps: "SYN_CAP_EXTENDED caps = SYN_CAP_EXTENDED (capabilities (synTPad (begin_absolute t3)))" .
  obtain x where t5: "t5 = (set_pkt_type t4)\<lparr>synTPad := (synTPad (set_pkt_type t4))\<lparr>ext_cap_10 := x\<rparr>\<rparr>"
    by (rule query_into_inv [OF st(5), where P = "\<lambda>t5. \<exists>x. t5 = (set_pkt_type t4)\<lparr>synTPad :=
        (synTPad (set_pkt_type t4))\<lparr>ext_cap_10 := x\<rparr>\<rparr>", elim_format])
       (auto intro: exI [of _ "ext_cap_10 (synTPad (set_pkt_type t4))"])
  show ?thesis by (rule that [OF i caps]) (simp add: st(6) t5 t4 Let_def)
qed

text \<open>
  C25: A successful Synaptics setup is consistent, whatever the device answers: the identification is
  a Synaptics one, the mode byte last sent asks for absolute mode, for W mode exactly when extended
  capabilities are present, for disabled gestures when the firmware is of major version 4 or later,
  and for the high rate when the sample rate is at least 80; the packet type is that of the model;
  and the coordinate ranges fit the 13 bits of the packet fields.
\<close>

theorem synaptics_setup_consistent:
  assumes "Synaptics_setup_touchpad D t s = Some (True, t', s')" "coords_ok t"
  shows "SYN_ID_IS_SYNAPTICS (identity (synTPad t')) \<and> absolute_mode (synTPad t') \<and>
    bits_set (syn_mode (synTPad t')) SYN_BIT_ABSOLUTE_MODE \<and>
    bits_set (syn_mode (synTPad t')) SYN_BIT_W_MODE = SYN_CAP_EXTENDED (capabilities (synTPad t')) \<and>
    bits_set (syn_mode (synTPad t')) SYN_BIT_HIGH_RATE = (mSampleRate (ps2Mouse t') \<ge> 80) \<and>
    (SYN_ID_DISGEST_SUPPORTED (identity (synTPad t')) \<longrightarrow>
       bits_set (syn_mode (synTPad t')) SYN_BIT_DISABLE_GESTURE) \<and>
    pkt_type (synTPad t') = (if SYN_MODEL_NEWABS (model_id (synTPad t')) then SYN_NEWABS else SYN_OLDABS) \<and>
    coords_ok t'"
proof -
  from synaptics_setup_steps [OF assms(1)] obtain t3 caps x where i:
    "SYN_ID_IS_SYNAPTICS (identity (synTPad t3))" "coords_ok t \<longrightarrow> coords_ok t3"
    "SYN_CAP_EXTENDED caps = SYN_CAP_EXTENDED (capabilities (synTPad (begin_absolute t3)))"
    and t': "t' = (let t4 = (begin_absolute t3)\<lparr>synTPad := (synTPad (begin_absolute t3))\<lparr>
               syn_mode := synaptics_mode (begin_absolute t3), capabilities := caps\<rparr>\<rparr>;
             t5 = (set_pkt_type t4)\<lparr>synTPad := (synTPad (set_pkt_type t4))\<lparr>ext_cap_10 := x\<rparr>\<rparr>
         in t5\<lparr>isClickPad := SYN_CAP_CLICKPAD (ext_cap_0c (synTPad t5))\<rparr>)" .
  show ?thesis
    using i assms(2) synaptics_mode_bits [of "begin_absolute t3"] unfolding t'
    by (auto simp: set_pkt_type_def begin_absolute_def Let_def coords_ok_def)
qed

text \<open>The input of a Synaptics touchpad of major version 3 during setup.\<close>

definition synaptics_input :: "u8 list" where
  "synaptics_input = query_input 10 [0x01, 0x47, 0x13] @ query_input 10 [0x01, 0xe2, 0xb1] @
     query_input 10 [0x00, 0x10, 0x20] @ query_input 10 [0x04, 0x05, 0x06] @
     query_input 10 [0x80, 0x47, 0x03] @ query_input 11 []"

theorem synaptics_setup_consistent_witness:
  "\<exists>t' s'. Synaptics_setup_touchpad mouseDevice touchpad_init (init synaptics_input) = Some (True, t', s') \<and>
     bits_set (syn_mode (synTPad t')) SYN_BIT_W_MODE \<and> xmax t' < 0x2000"
proof -
  have "map_option (\<lambda>(b, t, s). (b, SYN_CAP_EXTENDED (capabilities (synTPad t))))
      (Synaptics_setup_touchpad mouseDevice touchpad_init (init synaptics_input)) = Some (True, True)"
    by code_simp
  then obtain t' s' where run: "Synaptics_setup_touchpad mouseDevice touchpad_init (init synaptics_input) =
      Some (True, t', s')" and x: "SYN_CAP_EXTENDED (capabilities (synTPad t'))" by auto
  have "coords_ok touchpad_init" by (simp add: touchpad_init_def coords_ok_def)
  note c = synaptics_setup_consistent [OF run this]
  have "bits_set (syn_mode (synTPad t')) SYN_BIT_W_MODE" "coords_ok t'" using c x by blast+
  then show ?thesis using run by (simp add: coords_ok_def)
qed

end
