(* ===== verification/Touchpad_Detect.thy ===== *)
theory Touchpad_Detect
  imports Touchpad_Synaptics
begin

text \<open>
  The FocalTech commands of ApplePS2SmartTouchPad.cpp, the detection of the vendor, the setup part
  of start, and the reconnection of a touchpad after sleep or a reset of the device.
\<close>

section \<open>FocalTech\<close>

definition Focaltech_read_reg :: "'s ps2dev \<Rightarrow> u8 \<Rightarrow> u8 list \<Rightarrow> 's \<Rightarrow> (IOReturn \<times> u8 list \<times> 's) option" where
  "Focaltech_read_reg D reg param s =
     (let (request, s) = dev_allocateRequest D s;
          request = setCommands [(Send, kDP_SetMouseScaling1To1), (Send, kDP_SetMouseResolution), (Send, 0),
            (Send, kDP_SetMouseResolution), (Send, 0), (Send, kDP_SetMouseResolution), (Send, 0),
            (Send, kDP_SetMouseResolution), (Send, reg)] request
      in do {
        (request, s) \<leftarrow> dev_submitRequestAndBlock D request s;
        let ret = (if commandsCount request \<noteq> 9 then kIOReturnIOError else kIOReturnSuccess);
        let s = dev_freeRequest D request s;
        (r, param, s) \<leftarrow> getMouseInformation D param s;
        Some (if r \<noteq> 0 then kIOReturnIOError else ret, param, s)
      })"

definition focaltechModeCommands :: "(PS2CommandEnum \<times> u8) list" where
  "focaltechModeCommands = [(Send, kDP_SetAllMakeRelease), (Send, 0), (Send, kDP_SetAllMakeRelease),
     (Send, 0), (Send, kDP_SetAllMakeRelease), (Send, 0), (Send, kDP_SetAllMakeRelease), (Send, 1),
     (Send, kDP_SetMouseScaling1To1)]"

definition Focaltech_set_absolute_mode :: "'s ps2dev \<Rightarrow> 's \<Rightarrow> (IOReturn \<times> 's) option" where
  "Focaltech_set_absolute_mode D s =
     (let (request, s) = dev_allocateRequest D s;
          request = setCommands focaltechModeCommands request
      in do {
        (request, s) \<leftarrow> dev_submitRequestAndBlock D request s;
        let ret = (if commandsCount request \<noteq> 9 then kIOReturnIOError else kIOReturnSuccess);
        Some (ret, dev_freeRequest D request s)
      })"

text \<open>The factors are promoted bytes, the products are stored in 16-bit members.\<close>

definition Focaltech_setup_touchpad :: "'s ps2dev \<Rightarrow> touchpad \<Rightarrow> 's \<Rightarrow> (bool \<times> touchpad \<times> 's) option" where
  "Focaltech_setup_touchpad D t s = do {
     (ret, param, s) \<leftarrow> Focaltech_read_reg D 2 [] s;
     if ret \<noteq> 0 then Some (False, t, s)
     else do {
       let t = t\<lparr>xmax := ucast (param ! 1) * 128, ymax := ucast (param ! 2) * 128\<rparr>;
       let t = t\<lparr>xcenter := xmax t div 2, ycenter := ymax t div 2\<rparr>;
       (ret, s) \<leftarrow> Focaltech_set_absolute_mode D s;
       Some (ret = 0, t, s)
     }
   }"

section \<open>Detection of the vendor\<close>

text \<open>
  The request of the detection lives across two submissions: set defaults, then the magic knock,
  which is read whether or not it was acknowledged.
\<close>

definition detect_knock :: "'s ps2dev \<Rightarrow> 's \<Rightarrow> (IOReturn \<times> (IOReturn \<times> u8 list) option \<times> 's) option" where
  "detect_knock D s =
     (let (request, s) = dev_allocateRequest D s
      in do {
        (request, s) \<leftarrow> dev_submitRequestAndBlock D (setCommands [(Send, kDP_SetDefaultsAndDisable)] request) s;
        if commandsCount request \<noteq> 1 then Some (kIOReturnIOError, None, dev_freeRequest D request s)
        else do {
          (request, s) \<leftarrow> dev_submitRequestAndBlock D (setCommands [(Send, kDP_SetMouseScaling1To1),
            (Send, kDP_SetMouseScaling1To1), (Send, kDP_SetMouseScaling1To1), (Send, kDP_GetMouseInformation),
            (kPS2C_ReadDataPort, 0), (kPS2C_ReadDataPort, 0), (kPS2C_ReadDataPort, 0)] request) s;
          let param = [respByte request 4, respByte request 5, respByte request 6];
          let ret = (if \<not> commandsCount request = 7 then kIOReturnIOError else kIOReturnSuccess);
          Some (kIOReturnSuccess, Some (ret, param), dev_freeRequest D request s)
        }
      })"

definition Detect_touchpad :: "'s ps2dev \<Rightarrow> touchpad \<Rightarrow> 's \<Rightarrow> (IOReturn \<times> touchpad \<times> 's) option" where
  "Detect_touchpad D t s = do {
     (early, knock, s) \<leftarrow> detect_knock D s;
     (case knock of
        None \<Rightarrow> Some (early, t, s)
      | Some (ret, param) \<Rightarrow>
          if touchpadVendor t = STD_FOCAL_TECH then
            (if param ! 0 \<noteq> 0x3c \<or> param ! 1 \<noteq> 0xf0 \<or> (param ! 2 \<noteq> 0xc8 \<and> param ! 2 \<noteq> 0x00)
             then Some (kIOReturnError, t, s) else Some (ret, t, s))
          else if param ! 0 \<noteq> 0x3c \<or> param ! 1 \<noteq> 0x03 \<or> (param ! 2 \<noteq> 0xc8 \<and> param ! 2 \<noteq> 0x00) then do {
            (r, s) \<leftarrow> Synaptics_detect D s;
            if r \<noteq> 0 then Some (ret, t\<lparr>touchpadVendor := STD_MOUSE\<rparr>, s)
            else Some (ret, t\<lparr>touchpadVendor := STD_SYNAPTICS\<rparr>, s)
          }
          else Some (ret, t\<lparr>touchpadVendor := STD_ELAN_TECH\<rparr>, s))
   }"

section \<open>Setup and reconnection\<close>

text \<open>
  The table of parity bits, filled from index 1 on from the entry with the lowest set bit cleared.
\<close>

fun fillParity :: "nat \<Rightarrow> nat \<Rightarrow> u8 list \<Rightarrow> u8 list" where
  "fillParity 0 i p = p"
| "fillParity (Suc n) i p = fillParity n (Suc i) (p[i := p ! (and i (i - 1)) XOR 1])"

definition initParity :: "u8 list \<Rightarrow> u8 list" where
  "initParity p = fillParity 255 1 (p[0 := 1])"

text \<open>The vendor switch of start: setup, packet size and hardware version.\<close>

definition setupVendor :: "'s ps2dev \<Rightarrow> touchpad \<Rightarrow> 's \<Rightarrow> (bool \<times> touchpad \<times> 's) option" where
  "setupVendor D t s =
     (if touchpadVendor t = STD_FOCAL_TECH then do {
        (yes, t, s) \<leftarrow> Focaltech_setup_touchpad D t s;
        if \<not> yes then Some (False, t, s)
        else Some (True, t\<lparr>pktsize := 6, hw_version := STD_FOCAL_TECH_HW, isClickPad := True\<rparr>, s)
      }
      else if touchpadVendor t = STD_ELAN_TECH then do {
        (yes, t, s) \<leftarrow> Elantech_setup_touchpad D t s;
        if \<not> yes then Some (False, t, s)
        else do {
          let t = t\<lparr>pktsize := (if hw_version t > 1 then 6 else 4)\<rparr>;
          Some (True, (if hw_version t < 3
            then t\<lparr>elanTPad := (elanTPad t)\<lparr>parityBit := initParity (parityBit (elanTPad t))\<rparr>\<rparr> else t), s)
        }
      }
      else if touchpadVendor t = STD_SYNAPTICS then do {
        (yes, t, s) \<leftarrow> Synaptics_setup_touchpad D t s;
        if \<not> yes then Some (False, t, s)
        else Some (True, t\<lparr>pktsize := 6, hw_version := STD_SYNAPTICS_HW\<rparr>, s)
      }
      else Some (True, t\<lparr>isClickPad := False, pktsize := 3, hw_version := STD_MOUSE_HW\<rparr>, s))"

definition startTouchpad :: "'s ps2dev \<Rightarrow> touchpad \<Rightarrow> 's \<Rightarrow> (bool \<times> touchpad \<times> 's) option" where
  "startTouchpad D t s = do {
     (ret, s) \<leftarrow> initializeMouse D (mSampleRate (ps2Mouse t)) (mResolution (ps2Mouse t)) (mScaling (ps2Mouse t)) s;
     if ret \<noteq> 0 then Some (False, t, s) else setupVendor D t s
   }"

definition Enable_touchpad :: "'s ps2dev \<Rightarrow> bool \<Rightarrow> 's \<Rightarrow> 's option" where
  "Enable_touchpad D enable s = do {
     s \<leftarrow> (if enable then setCommandByte D kCB_EnableMouseIRQ kCB_DisableMouseClock s else Some s);
     let (request, s) = dev_allocateRequest D s;
     (request, s) \<leftarrow> dev_submitRequestAndBlock D
       (setCommands [(Send, if enable then kDP_Enable else kDP_SetDefaultsAndDisable)] request) s;
     Some (dev_freeRequest D request s)
   }"

text \<open>The detection loop of the reconnection, with \<open>n\<close> tries left; the delay has no effect here.\<close>

fun redetect :: "'s ps2dev \<Rightarrow> nat \<Rightarrow> touchpad \<Rightarrow> 's \<Rightarrow> (bool \<times> touchpad \<times> 's) option" where
  "redetect D 0 t s = Some (False, t, s)"
| "redetect D (Suc n) t s = do {
     (ret, t, s) \<leftarrow> Detect_touchpad D t s;
     if ret \<noteq> 0 then redetect D n t s else Some (True, t, s)
   }"

definition Reconnect_mode :: "'s ps2dev \<Rightarrow> touchpad \<Rightarrow> 's \<Rightarrow> (IOReturn \<times> touchpad \<times> 's) option" where
  "Reconnect_mode D t s =
     (if touchpadVendor t = STD_FOCAL_TECH then do {
        (ret, s) \<leftarrow> Focaltech_set_absolute_mode D s;
        Some (ret, t, s)
      }
      else if touchpadVendor t = STD_ELAN_TECH then Elantech_set_absolute_mode D t s
      else if touchpadVendor t = STD_SYNAPTICS then Synaptics_set_absolute_mode D t s
      else Some (kIOReturnSuccess, t, s))"

definition Reconnect_touchpad :: "'s ps2dev \<Rightarrow> touchpad \<Rightarrow> 's \<Rightarrow> (touchpad \<times> 's) option" where
  "Reconnect_touchpad D t s = do {
     (r, s) \<leftarrow> resetMouse D s;
     (found, t, s) \<leftarrow> redetect D 3 t s;
     if \<not> found then Some (t, s)
     else do {
       (ret, s) \<leftarrow> initializeMouse D (mSampleRate (ps2Mouse t)) (mResolution (ps2Mouse t)) (mScaling (ps2Mouse t)) s;
       if ret \<noteq> 0 then Some (t, s)
       else do {
         (ret, t, s) \<leftarrow> Reconnect_mode D t s;
         if ret \<noteq> 0 then Some (t, s)
         else do {
           let t = t\<lparr>packetByteCount := 0\<rparr>;
           s \<leftarrow> Enable_touchpad D True s;
           Some (t, s)
         }
       }
     }
   }"

text \<open>
  The driver's power control action. The members of _kbEvent it clears are not part of this model;
  the delay before the reconnection has no effect here.
\<close>

definition setDevicePowerState :: "'s ps2dev \<Rightarrow> u32 \<Rightarrow> touchpad \<Rightarrow> 's \<Rightarrow> (touchpad \<times> 's) option" where
  "setDevicePowerState D whatToDo t s =
     (if whatToDo = kPS2C_DisableDevice then do {
        s \<leftarrow> Enable_touchpad D False s;
        Some (t, s)
      }
      else if whatToDo = kPS2C_EnableDevice then Reconnect_touchpad D (t\<lparr>modeSetTries := 3\<rparr>) s
      else Some (t, s))"

section \<open>Library lemmas\<close>

lemma sliced_zero_plain [simp]: "plain_commands [(Send, a), (Send, b), (Send, c), (Send, d), (Send, e),
    (Send, f), (Send, g), (Send, h), (Send, i)]"
  by (simp add: plain_commands_def plain_command_def)

lemma single_plain [simp]: "plain_commands [(Send, a)]"
  by (simp add: plain_commands_def plain_command_def)

lemma knock_plain: "plain_commands [(Send, a), (Send, b), (Send, c), (Send, d), (kPS2C_ReadDataPort, 0),
    (kPS2C_ReadDataPort, 0), (kPS2C_ReadDataPort, 0)]"
  by (simp add: plain_commands_def plain_command_def)

context request_device
begin

lemma focaltech_absolute_keeps:
  assumes "Focaltech_set_absolute_mode D s = Some (ret, s')" "ok s"
  shows "dev_keeps s s'"
proof -
  obtain r s0 where al: "dev_allocateRequest D s = (r, s0)" by fastforce
  then obtain r' s1 where "dev_submitRequestAndBlock D (setCommands focaltechModeCommands r) s0 = Some (r', s1)"
      "s' = dev_freeRequest D r' s1"
    using assms(1) by (auto simp: Focaltech_set_absolute_mode_def Let_def)
  then show ?thesis using one_request_keeps [OF al _ assms(2)] by (simp add: focaltechModeCommands_def)
qed

lemma focaltech_read_keeps:
  assumes "Focaltech_read_reg D reg param s = Some (ret, param', s')" "ok s"
  shows "dev_keeps s s'"
proof -
  let ?cs = "[(Send, kDP_SetMouseScaling1To1), (Send, kDP_SetMouseResolution), (Send, 0),
    (Send, kDP_SetMouseResolution), (Send, 0), (Send, kDP_SetMouseResolution), (Send, 0),
    (Send, kDP_SetMouseResolution), (Send, reg)]"
  obtain r s0 where al: "dev_allocateRequest D s = (r, s0)" by fastforce
  then obtain r' s1 i where st: "dev_submitRequestAndBlock D (setCommands ?cs r) s0 = Some (r', s1)"
      "getMouseInformation D param (dev_freeRequest D r' s1) = Some (i, param', s')"
    using assms(1) by (auto simp: Focaltech_read_reg_def Let_def)
  have k: "dev_keeps s (dev_freeRequest D r' s1)"
    using one_request_keeps [OF al st(1) assms(2)] by simp
  with getMouseInformation_keeps [OF st(2)] show ?thesis by (blast intro: dev_keeps_trans dev_keeps_ok)
qed

lemma focaltech_setup_keeps:
  "Focaltech_setup_touchpad D t s = Some (yes, t', s') \<Longrightarrow> ok s \<Longrightarrow> dev_keeps s s'"
  by (auto simp: Focaltech_setup_touchpad_def Let_def split: if_splits
      dest!: focaltech_read_keeps [THEN dev_keeps_and_ok] focaltech_absolute_keeps [THEN dev_keeps_and_ok]
      intro: dev_keeps_trans)

lemma synaptics_detect_keeps:
  assumes "Synaptics_detect D s = Some (ret, s')" "ok s"
  shows "dev_keeps s s'"
proof -
  let ?cs = "[(Send, kDP_SetMouseScaling1To1), (Send, kDP_SetMouseResolution), (Send, 0),
    (Send, kDP_SetMouseResolution), (Send, 0), (Send, kDP_SetMouseResolution), (Send, 0),
    (Send, kDP_SetMouseResolution), (Send, 0)]"
  obtain r s0 where al: "dev_allocateRequest D s = (r, s0)" by fastforce
  then obtain r' s1 i param' where st: "dev_submitRequestAndBlock D (setCommands ?cs r) s0 = Some (r', s1)"
      "getMouseInformation D [0, 0, 0] (dev_freeRequest D r' s1) = Some (i, param', s')"
    using assms(1) by (auto simp: Synaptics_detect_def Let_def)
  have k: "dev_keeps s (dev_freeRequest D r' s1)"
    using one_request_keeps [OF al st(1) assms(2)] by simp
  with getMouseInformation_keeps [OF st(2)] show ?thesis by (blast intro: dev_keeps_trans dev_keeps_ok)
qed

lemma detect_knock_keeps:
  assumes "detect_knock D s = Some (early, k, s')" "ok s"
  shows "dev_keeps s s'"
proof -
  let ?knock = "[(Send, kDP_SetMouseScaling1To1), (Send, kDP_SetMouseScaling1To1),
    (Send, kDP_SetMouseScaling1To1), (Send, kDP_GetMouseInformation), (kPS2C_ReadDataPort, 0),
    (kPS2C_ReadDataPort, 0), (kPS2C_ReadDataPort, 0)] :: (PS2CommandEnum \<times> u8) list"
  obtain r s0 where al: "dev_allocateRequest D s = (r, s0)" by fastforce
  then obtain r1 s1 where s1: "dev_submitRequestAndBlock D (setCommands [(Send, kDP_SetDefaultsAndDisable)] r) s0
      = Some (r1, s1)" and rest: "s' = dev_freeRequest D r1 s1 \<or>
      (\<exists>r2 s2. dev_submitRequestAndBlock D (setCommands ?knock r1) s1 = Some (r2, s2) \<and>
        s' = dev_freeRequest D r2 s2)"
    using assms(1) by (auto simp: detect_knock_def Let_def split: if_splits)
  from alloc [OF al assms(2)] obtain a where a: "r = zeroRequest a" "a \<notin> live s"
      "live s0 = insert a (live s)" "ok s0" "fault s0 = fault s" "sent s0 = sent s" by auto
  note f1 = submit_list [OF s1 a(4) _ single_plain]
  from rest show ?thesis
  proof
    assume "s' = dev_freeRequest D r1 s1"
    then show ?thesis using one_request_keeps [OF al s1 assms(2)] by simp
  next
    assume "\<exists>r2 s2. dev_submitRequestAndBlock D (setCommands ?knock r1) s1 = Some (r2, s2) \<and>
        s' = dev_freeRequest D r2 s2"
    then obtain r2 s2 where s2: "dev_submitRequestAndBlock D (setCommands ?knock r1) s1 = Some (r2, s2)"
      and s': "s' = dev_freeRequest D r2 s2" by blast
    have f: "length (commands r1) = kMaxCommands" "ok s1" using f1 a by simp_all
    note f2 = submit_list [OF s2 f(2,1) knock_plain]
    show ?thesis unfolding s' dev_keeps_def using free [OF f2(5), of r2] f1 f2 a by auto
  qed
qed

lemma detect_keeps:
  assumes "Detect_touchpad D t s = Some (ret, t', s')" "ok s"
  shows "dev_keeps s s'"
  using assms
  by (auto simp: Detect_touchpad_def Let_def split: if_splits option.splits prod.splits
      dest!: detect_knock_keeps [THEN dev_keeps_and_ok] synaptics_detect_keeps [THEN dev_keeps_and_ok])
     (assumption | erule dev_keeps_trans)+

lemma redetect_keeps: "redetect D n t s = Some (found, t', s') \<Longrightarrow> ok s \<Longrightarrow> dev_keeps s s'"
proof (induction n arbitrary: t s)
  case (Suc n)
  then obtain ret t1 s1 where d: "Detect_touchpad D t s = Some (ret, t1, s1)"
    and r: "s1 = s' \<or> redetect D n t1 s1 = Some (found, t', s')"
    by (auto split: if_splits)
  have "dev_keeps s s1" using detect_keeps [OF d Suc.prems(2)] .
  then show ?case using r Suc.IH dev_keeps_ok by (blast intro: dev_keeps_trans)
qed (simp add: dev_keeps_refl)

lemma enable_keeps:
  assumes "Enable_touchpad D enable s = Some s'" "ok s"
  shows "dev_keeps s s'"
proof -
  obtain sc where sc: "(if enable then setCommandByte D kCB_EnableMouseIRQ kCB_DisableMouseClock s else Some s) = Some sc"
    using assms(1) by (auto simp: Enable_touchpad_def)
  have k: "dev_keeps s sc" using sc assms(2) by (auto simp: dev_keeps_refl setCommandByte_keeps split: if_splits)
  obtain r s0 where al: "dev_allocateRequest D sc = (r, s0)" by fastforce
  then obtain r' s1 where "dev_submitRequestAndBlock D
      (setCommands [(Send, if enable then kDP_Enable else kDP_SetDefaultsAndDisable)] r) s0 = Some (r', s1)"
      "s' = dev_freeRequest D r' s1"
    using assms(1) sc by (auto simp: Enable_touchpad_def Let_def)
  then show ?thesis using k one_request_keeps [OF al _ dev_keeps_ok [OF k] single_plain]
    by (blast intro: dev_keeps_trans)
qed

lemma reconnect_mode_keeps:
  "Reconnect_mode D t s = Some (ret, t', s') \<Longrightarrow> ok s \<Longrightarrow> dev_keeps s s'"
  by (auto simp: Reconnect_mode_def dev_keeps_refl split: if_splits
      dest: focaltech_absolute_keeps elan_absolute_keeps synaptics_absolute_keeps)

lemmas reconnect_chain = resetMouse_keeps [THEN dev_keeps_and_ok] redetect_keeps [THEN dev_keeps_and_ok]
  initializeMouse_keeps [THEN dev_keeps_and_ok] reconnect_mode_keeps [THEN dev_keeps_and_ok]
  enable_keeps [THEN dev_keeps_and_ok]

lemma reconnect_keeps:
  "Reconnect_touchpad D t s = Some (t', s') \<Longrightarrow> ok s \<Longrightarrow> dev_keeps s s'"
  by (auto simp: Reconnect_touchpad_def Let_def split: if_splits dest!: reconnect_chain)
     ((assumption | erule dev_keeps_trans)+)?

lemma setup_vendor_keeps:
  "setupVendor D t s = Some (yes, t', s') \<Longrightarrow> ok s \<Longrightarrow> dev_keeps s s'"
  by (auto simp: setupVendor_def Let_def dev_keeps_refl split: if_splits
      dest: focaltech_setup_keeps elan_setup_keeps synaptics_setup_keeps)

lemma start_keeps:
  "startTouchpad D t s = Some (yes, t', s') \<Longrightarrow> ok s \<Longrightarrow> dev_keeps s s'"
  by (auto simp: startTouchpad_def split: if_splits dest!: initializeMouse_keeps [THEN dev_keeps_and_ok]
      setup_vendor_keeps [THEN dev_keeps_and_ok])
     (assumption | erule dev_keeps_trans)+

end

text \<open>The number of one bits, and the parity bit it gives.\<close>

fun ones :: "nat \<Rightarrow> nat" where
  "ones n = (if n = 0 then 0 else n mod 2 + ones (n div 2))"

declare ones.simps [simp del]

definition parity_of :: "nat \<Rightarrow> u8" where
  "parity_of i = of_bool (even (ones i))"

text \<open>The bitwise conjunction of i and i - 1 clears exactly the lowest one bit.\<close>

lemma ones_clear_lowest: "1 \<le> i \<Longrightarrow> Suc (ones (and i (i - 1))) = ones i \<and> and i (i - 1) < i"
proof (induction i rule: less_induct)
  case (less i)
  show ?case
  proof (cases "odd i")
    case True
    then obtain k where i: "i = 2 * k + 1" by (rule oddE)
    then have "and i (i - 1) = 2 * k" by (simp add: and_nat_rec [of "Suc (2 * k)"])
    then show ?thesis using i ones.simps [of i] ones.simps [of "2 * k"] ones.simps [of 0] by simp
  next
    case False
    then obtain k where i: "i = 2 * k" by (auto elim: evenE)
    then have k: "1 \<le> k" "k < i" using less.prems by simp_all
    have "(2 * k - 1) div 2 = k - 1" using k by simp
    then have a: "and i (i - 1) = 2 * and k (k - 1)"
      using i by (simp add: and_nat_rec [of "2 * k"])
    have "Suc (ones (and k (k - 1))) = ones k" "and k (k - 1) < k" using less.IH [OF k(2,1)] by simp_all
    moreover have "ones (2 * m) = ones m" for m using ones.simps [of "2 * m"] ones.simps [of 0] by simp
    ultimately show ?thesis using a i by simp
  qed
qed

lemma parity_step: "1 \<le> i \<Longrightarrow> parity_of i = parity_of (and i (i - 1)) XOR 1 \<and> and i (i - 1) < i"
  using ones_clear_lowest [of i] by (simp add: parity_of_def) (metis even_Suc)?

lemma fillParity_parity:
  assumes "length p = i + n" "i + n = 256" "1 \<le> i" "\<forall>j < i. p ! j = parity_of j"
  shows "\<forall>j < 256. fillParity n i p ! j = parity_of j"
  using assms
proof (induction n i p rule: fillParity.induct)
  case (2 n i p)
  have step: "parity_of i = parity_of (and i (i - 1)) XOR 1" "and i (i - 1) < i"
    using parity_step 2(4) by simp_all
  then have "p ! (and i (i - 1)) XOR 1 = parity_of i" using 2(5) by simp
  then show ?case using 2 by (auto simp: nth_list_update less_Suc_eq)
qed simp

text \<open>What the framing of packets relies on: vendor, hardware version and packet size fit together.\<close>

definition framing_ok :: "touchpad \<Rightarrow> bool" where
  "framing_ok t \<longleftrightarrow>
     (touchpadVendor t = STD_FOCAL_TECH \<longrightarrow> hw_version t = STD_FOCAL_TECH_HW) \<and>
     (touchpadVendor t = STD_SYNAPTICS \<longrightarrow> hw_version t = STD_SYNAPTICS_HW) \<and>
     (touchpadVendor t = STD_ELAN_TECH \<longrightarrow> hw_version t \<in> {STD_ELAN_HW_V2, STD_ELAN_HW_V3, STD_ELAN_HW_V4}) \<and>
     pktsize t = (if hw_version t = STD_MOUSE_HW then 3 else 6) \<and> length (packetBuffer t) = 6"

lemma focaltech_setup_result:
  "Focaltech_setup_touchpad D t s = Some (True, t', s') \<Longrightarrow>
     touchpadVendor t' = touchpadVendor t \<and> packetBuffer t' = packetBuffer t"
  by (auto simp: Focaltech_setup_touchpad_def Let_def split: if_splits)

lemma synaptics_setup_framing:
  assumes "Synaptics_setup_touchpad D t s = Some (True, t', s')"
  shows "touchpadVendor t' = touchpadVendor t \<and> packetBuffer t' = packetBuffer t"
  by (rule synaptics_setup_steps [OF assms])
     (simp add: Let_def set_pkt_type_def begin_absolute_def)

lemma setup_vendor_framing:
  assumes "setupVendor D t s = Some (True, t', s')" "length (packetBuffer t) = 6" "hw_version t \<le> 14"
  shows "framing_ok t'"
  using assms(1,2)
  by (auto simp: setupVendor_def framing_ok_def Let_def split: if_splits
      dest!: focaltech_setup_result synaptics_setup_framing elan_setup_result [OF _ assms(3)])

section \<open>Properties\<close>

text \<open>
  C33: The parity table: whatever the table held before, after its initialisation every entry i is 1
  when the byte i has an even number of one bits and 0 otherwise, so that byte and parity bit together
  have odd parity; every entry is read only after it has been written.
\<close>

theorem parity_table_correct:
  assumes "length p = 256" "b < 256"
  shows "initParity p ! b = (if even (ones b) then 1 else 0)"
proof -
  have "\<forall>j < 256. fillParity 255 1 (p[0 := 1]) ! j = parity_of j"
    by (rule fillParity_parity)
       (use assms(1) in \<open>simp_all add: parity_of_def ones.simps [of 0] nth_list_update\<close>)
  then show ?thesis using assms(2) by (simp add: initParity_def parity_of_def)
qed

theorem parity_table_correct_witness: "initParity (replicate 256 7) ! 0x47 = 1"
  using parity_table_correct [of "replicate 256 7" "0x47"] by (simp add: ones.simps)

text \<open>
  C23: Bringing a touchpad up or reconnecting it balances the request heap: whatever the vendor, the
  device's answers and the outcome, every request that start or Reconnect_touchpad allocates is off
  the heap when it returns, no routing prefix is left pending, and the request queue is empty.
\<close>

theorem touchpad_requests_balanced:
  assumes "quiet s"
    "startTouchpad mouseDevice t s = Some (yes, t', s') \<or> Reconnect_touchpad mouseDevice t s = Some (t', s')"
  shows "set (liveRequests s') = set (liveRequests s) \<and> wire_idle s' \<and> requestQueue s' = [] \<and>
    (\<exists>bytes. wire s' = wire s @ bytes)"
  using assms(2) mouse.start_keeps [OF _ assms(1)] mouse.reconnect_keeps [OF _ assms(1)]
  by (auto simp: mouse.dev_keeps_def quiet_def)

text \<open>The input during the initialisation of the mouse: the settings, then two information requests.\<close>

definition mouse_start_input :: "u8 list" where
  "mouse_start_input = query_input 6 [0x00, 0x03, 0x50] @ query_input 4 [0x00, 0x03, 0x50]"

theorem touchpad_requests_balanced_witness:
  "\<exists>t' s'. startTouchpad mouseDevice touchpad_init (init mouse_start_input) = Some (True, t', s') \<and>
     set (liveRequests s') = set (liveRequests (init mouse_start_input)) \<and> wire s' \<noteq> []"
proof -
  have "map_option (\<lambda>(b, t, s). (b, wire s \<noteq> [])) (startTouchpad mouseDevice touchpad_init (init mouse_start_input)) =
    Some (True, True)" by code_simp
  then obtain t' s' where run: "startTouchpad mouseDevice touchpad_init (init mouse_start_input) = Some (True, t', s')"
    "wire s' \<noteq> []" by auto
  show ?thesis using touchpad_requests_balanced [OF quiet_init disjI1, OF run(1)] run by blast
qed

text \<open>
  C9: A successful start leaves driver state that packet framing relies on: vendor, hardware version and
  packet size fit together (three bytes for a plain mouse, six otherwise; ELAN only in versions 2 to 4),
  so that a packet always fits the packet buffer.
\<close>

theorem start_framing:
  assumes "startTouchpad D t s = Some (True, t', s')" "length (packetBuffer t) = 6" "hw_version t \<le> 14"
  shows "framing_ok t'"
  using assms(1) setup_vendor_framing [OF _ assms(2,3)]
  by (auto simp: startTouchpad_def split: if_splits)

text \<open>Initialisation, then the setup of a version 4 ELAN touchpad.\<close>

theorem start_framing_witness:
  "\<exists>t' s'. startTouchpad mouseDevice (touchpad_init\<lparr>touchpadVendor := STD_ELAN_TECH\<rparr>)
      (init (mouse_start_input @ elan_v4_input)) = Some (True, t', s') \<and> framing_ok t' \<and> hw_version t' = STD_ELAN_HW_V4"
proof -
  let ?t = "touchpad_init\<lparr>touchpadVendor := STD_ELAN_TECH\<rparr>" and ?s = "init (mouse_start_input @ elan_v4_input)"
  have "map_option (\<lambda>(b, t, s). (b, hw_version t)) (startTouchpad mouseDevice ?t ?s) = Some (True, 4)"
    by code_simp
  then obtain t' s' where run: "startTouchpad mouseDevice ?t ?s = Some (True, t', s')" "hw_version t' = 4"
    by auto
  have "length (packetBuffer ?t) = 6" "hw_version ?t \<le> 14" by (simp_all add: touchpad_init_def)
  from start_framing [OF run(1) this] show ?thesis using run by simp
qed

end
