(* ===== verification/Touchpad_Packets.thy ===== *)
theory Touchpad_Packets
  imports Touchpad_Detect
begin

text \<open>
  The interrupt handler of the touchpad driver (ApplePS2SmartTouchpad::interruptOccurred): framing of
  the byte stream into packets, the conditions under which a packet is dropped, and the choice of the
  decoder by hardware version. The decoders and the gesture engine behind them are a parameter
  \<open>decode\<close>: what a call of theirs does to the driver. The calls made are also kept as a trace.
\<close>

section \<open>State\<close>

text \<open>
  The members that gate the processing of packets; \<open>accidentalInput\<close> to \<open>accInputTimeOut\<close> are members
  of _kbEvent.
\<close>

record input_gate =
  usbMouseDisablesTrackpad :: bool
  externalMouseFound :: bool
  lastExtMouseStatusCheckTime :: u64
  extMouseCheckPollRate :: u64
  isAsusNotebook :: bool
  enableLidPolling :: bool
  isFnKeyDisabledTouchpad :: bool
  lidClosed :: bool
  acpiPollRate :: u64
  lastFnKeyStateChkTime :: u64
  isTypeModeEnabled :: bool
  accidentalInput :: bool
  tapEnableTPad :: bool
  disableTouchpad :: bool
  kbKeysCount :: u8
  lastKeyPressTime :: u64
  accInputTimeOut :: u64

text \<open>The gate as init leaves it.\<close>

definition gate_init :: input_gate where
  "gate_init = \<lparr>usbMouseDisablesTrackpad = False, externalMouseFound = False,
     lastExtMouseStatusCheckTime = 0, extMouseCheckPollRate = 1500, isAsusNotebook = False,
     enableLidPolling = True, isFnKeyDisabledTouchpad = False, lidClosed = False,
     acpiPollRate = 1500000000, lastFnKeyStateChkTime = 0, isTypeModeEnabled = False,
     accidentalInput = False, tapEnableTPad = False, disableTouchpad = False, kbKeysCount = 0,
     lastKeyPressTime = 0, accInputTimeOut = 0\<rparr>"

text \<open>
  What the platform answers during one interrupt: the readings of the clock when the packet is
  complete, after the search for an external mouse and after the ACPI poll; the HIDKind values of the
  entries of NXSystemInfo; whether the AsusNBFnKeys entry exists and which of its properties
  TouchpadEnabled and TouchpadDisabled; and the lid: no device, no _LID method, or its value.
\<close>

record platform =
  uptime :: u64
  uptimeMouse :: u64
  uptimeAcpi :: u64
  hidKinds :: "u8 list"
  fnKeyEntry :: "(bool \<times> bool) option"
  lid :: "u32 option option"

datatype packet_call =
    ProcessMouse "u8 list"
  | SynapticsAbsolute "u8 list"
  | ElanV1 "u8 list"
  | ElanV2V3 u8 "u8 list"
  | ElanV4FocalTech u8 "u8 list"
  | ElanTrackpoint u8 "u8 list"
  | KeyboardNotification u32
  | StopEnhanceTimers
  | Reconnect

text \<open>
  \<open>gestures\<close> is the state of the gesture engine, \<open>overrun\<close> records a write outside the packet
  buffer, and \<open>calls\<close> is the trace, oldest call first.
\<close>

record 'g driver =
  tp :: touchpad
  gate :: input_gate
  now :: u64
  gestures :: 'g
  overrun :: bool
  calls :: "packet_call list"

type_synonym 'g decoder = "packet_call \<Rightarrow> 'g driver \<Rightarrow> 'g driver"

definition invoke :: "'g decoder \<Rightarrow> packet_call \<Rightarrow> 'g driver \<Rightarrow> 'g driver" where
  "invoke decode c d = decode c (d\<lparr>calls := calls d @ [c]\<rparr>)"

definition reconnect :: "'s ps2dev \<Rightarrow> 'g driver \<Rightarrow> 's \<Rightarrow> ('g driver \<times> 's) option" where
  "reconnect D d s = do {
     (t, s) \<leftarrow> Reconnect_touchpad D (tp d) s;
     Some (d\<lparr>tp := t, calls := calls d @ [Reconnect]\<rparr>, s)
   }"

section \<open>Polling the platform\<close>

fun externalMouse :: "u8 \<Rightarrow> bool \<Rightarrow> u8 list \<Rightarrow> bool" where
  "externalMouse mouseCount found [] = found"
| "externalMouse mouseCount found (hidKind # ks) =
     (if hidKind = 2 then externalMouse (mouseCount + 1) (mouseCount + 1 > 1) ks
      else externalMouse mouseCount found ks)"

definition detectExternalMouse :: "platform \<Rightarrow> 'g driver \<Rightarrow> 'g driver" where
  "detectExternalMouse pl d =
     d\<lparr>now := uptimeMouse pl,
       gate := (gate d)\<lparr>externalMouseFound := externalMouse 0 (externalMouseFound (gate d)) (hidKinds pl),
         lastExtMouseStatusCheckTime := uptimeMouse pl\<rparr>\<rparr>"

definition pollFnKeys :: "'g decoder \<Rightarrow> platform \<Rightarrow> 'g driver \<Rightarrow> 'g driver" where
  "pollFnKeys decode pl d =
     (case fnKeyEntry pl of
        None \<Rightarrow> d\<lparr>gate := (gate d)\<lparr>isAsusNotebook := False\<rparr>\<rparr>
      | Some (enabled, disabled) \<Rightarrow>
          let d = (if enabled then d\<lparr>gate := (gate d)\<lparr>isFnKeyDisabledTouchpad := False\<rparr>\<rparr>
                   else if disabled then d\<lparr>gate := (gate d)\<lparr>isFnKeyDisabledTouchpad := True\<rparr>\<rparr>
                   else d)
          in if isFnKeyDisabledTouchpad (gate d) then invoke decode StopEnhanceTimers d else d)"

text \<open>The lid is compared with the flag as a number, and the flag follows when they are equal.\<close>

definition pollLid :: "platform \<Rightarrow> input_gate \<Rightarrow> input_gate" where
  "pollLid pl g =
     (case lid pl of
        None \<Rightarrow> g
      | Some None \<Rightarrow> g\<lparr>enableLidPolling := False\<rparr>
      | Some (Some res) \<Rightarrow>
          if res = of_bool (lidClosed g) then g\<lparr>lidClosed := res = 0\<rparr> else g)"

definition Process_ACPI_IOREG_Polling :: "'g decoder \<Rightarrow> platform \<Rightarrow> 'g driver \<Rightarrow> 'g driver" where
  "Process_ACPI_IOREG_Polling decode pl d =
     (let d = (if isAsusNotebook (gate d) then pollFnKeys decode pl d else d);
          d = (if enableLidPolling (gate d) then d\<lparr>gate := pollLid pl (gate d)\<rparr> else d)
      in d\<lparr>now := uptimeAcpi pl, gate := (gate d)\<lparr>lastFnKeyStateChkTime := uptimeAcpi pl\<rparr>\<rparr>)"

section \<open>The conditions for processing a packet\<close>

definition gateExternalMouse :: "platform \<Rightarrow> 'g driver \<Rightarrow> bool \<times> 'g driver" where
  "gateExternalMouse pl d =
     (if \<not> usbMouseDisablesTrackpad (gate d) then (False, d)
      else let d = (if now d - lastExtMouseStatusCheckTime (gate d) > extMouseCheckPollRate (gate d)
                    then detectExternalMouse pl d else d)
           in (externalMouseFound (gate d), d))"

definition gatePolling :: "'g decoder \<Rightarrow> platform \<Rightarrow> 'g driver \<Rightarrow> bool \<times> 'g driver" where
  "gatePolling decode pl d =
     (if \<not> (isAsusNotebook (gate d) \<or> enableLidPolling (gate d)) then (False, d)
      else let d = (if now d - lastFnKeyStateChkTime (gate d) > acpiPollRate (gate d)
                    then Process_ACPI_IOREG_Polling decode pl d else d)
           in (isFnKeyDisabledTouchpad (gate d) \<or> lidClosed (gate d), d))"

definition gateAccidental :: "u64 \<Rightarrow> input_gate \<Rightarrow> bool \<times> input_gate" where
  "gateAccidental t g =
     (let timeSinceAccInput = t - lastKeyPressTime g;
          g = (if isTypeModeEnabled g \<and> accidentalInput g \<and> timeSinceAccInput > accInputTimeOut g \<and>
                  (accInputTimeOut g > 0 \<or> \<not> tapEnableTPad g)
               then g\<lparr>accidentalInput := False, kbKeysCount := 0\<rparr> else g)
      in (accidentalInput g \<and> \<not> tapEnableTPad g \<or> disableTouchpad g, g))"

text \<open>Whether the packet is dropped, in the order of the early returns of the source.\<close>

definition gatePacket :: "'g decoder \<Rightarrow> platform \<Rightarrow> 'g driver \<Rightarrow> bool \<times> 'g driver" where
  "gatePacket decode pl d =
     (let (stop, d) = gateExternalMouse pl d
      in if stop then (True, d)
         else let (stop, d) = gatePolling decode pl d
              in if stop then (True, d)
                 else let (stop, g) = gateAccidental (now d) (gate d) in (stop, d\<lparr>gate := g\<rparr>))"

section \<open>Processing a packet by hardware version\<close>

abbreviation PACKET_STATUS :: u8 where "PACKET_STATUS \<equiv> 0x00"
abbreviation PACKET_ABSOLUTE :: u8 where "PACKET_ABSOLUTE \<equiv> 0x01"
abbreviation PACKET_RELATIVE :: u8 where "PACKET_RELATIVE \<equiv> 0x02"
abbreviation PACKET_HEAD :: u8 where "PACKET_HEAD \<equiv> 0x03"
abbreviation PACKET_TAIL :: u8 where "PACKET_TAIL \<equiv> 0x04"
abbreviation PACKET_TRACKPOINT :: u8 where "PACKET_TRACKPOINT \<equiv> 0x08"
abbreviation PACKET_FT_STATUS :: u8 where "PACKET_FT_STATUS \<equiv> 0x03"
abbreviation PACKET_FT_ABSOLUTE :: u8 where "PACKET_FT_ABSOLUTE \<equiv> 0x06"
abbreviation PACKET_FT_RELATIVE :: u8 where "PACKET_FT_RELATIVE \<equiv> 0x09"

definition elan_debounce_packet_v2 :: "u8 list" where
  "elan_debounce_packet_v2 = [0x84, 0xff, 0xff, 0x02, 0xff, 0xff]"
definition elan_debounce_packet_v3 :: "u8 list" where
  "elan_debounce_packet_v3 = [0xc4, 0xff, 0xff, 0x02, 0xff, 0xff]"
definition elan_debounce_packet_v3_2 :: "u8 list" where
  "elan_debounce_packet_v3_2 = [0xcc, 0xff, 0xff, 0x0a, 0xff, 0xff]"
definition elan_end_packet_v3 :: "u8 list" where
  "elan_end_packet_v3 = [0x04, 0x00, 0x00, 0x02, 0x00, 0x00]"

abbreviation packet_of :: "'g driver \<Rightarrow> u8 list" where "packet_of d \<equiv> packetBuffer (tp d)"

definition backlight :: "'g decoder \<Rightarrow> 'g driver \<Rightarrow> 'g driver" where
  "backlight decode d =
     (if autoBackLight (tp d) then invoke decode (KeyboardNotification kPS2C_KeybrdBackLightOn) d else d)"

text \<open>Reconnection while tries are left, counting down before or after it.\<close>

definition retryThenCount :: "'s ps2dev \<Rightarrow> 'g driver \<Rightarrow> 's \<Rightarrow> ('g driver \<times> 's) option" where
  "retryThenCount D d s =
     (if modeSetTries (tp d) > 0 then do {
        (d, s) \<leftarrow> reconnect D d s;
        Some (d\<lparr>tp := (tp d)\<lparr>modeSetTries := modeSetTries (tp d) - 1\<rparr>\<rparr>, s)
      }
      else Some (d, s))"

definition countThenRetry :: "'s ps2dev \<Rightarrow> 'g driver \<Rightarrow> 's \<Rightarrow> ('g driver \<times> 's) option" where
  "countThenRetry D d s =
     (if modeSetTries (tp d) > 0
      then reconnect D (d\<lparr>tp := (tp d)\<lparr>modeSetTries := modeSetTries (tp d) - 1\<rparr>\<rparr>) s
      else Some (d, s))"

text \<open>
  The first packet decides between strict and relaxed validation: strict when all five bytes match.
\<close>

definition packetSynaptics :: "'g decoder \<Rightarrow> 'g driver \<Rightarrow> 'g driver" where
  "packetSynaptics decode d =
     (let d = (if pkt_type (synTPad (tp d)) = SYN_NEWABS
          then d\<lparr>tp := (tp d)\<lparr>synTPad := (synTPad (tp d))\<lparr>pkt_type :=
            (if \<exists>i \<in> set [0, 1, 2, 3, 4]. Synaptics_validate_byte (packet_of d) i SYN_NEWABS_STRICT = 0
             then SYN_NEWABS_RELAXED else SYN_NEWABS_STRICT)\<rparr>\<rparr>\<rparr>
          else d)
      in invoke decode (SynapticsAbsolute (packet_of d)) d)"

definition packetFocaltech :: "'g decoder \<Rightarrow> 's ps2dev \<Rightarrow> 'g driver \<Rightarrow> 's \<Rightarrow> ('g driver \<times> 's) option" where
  "packetFocaltech decode D d s =
     (let d = backlight decode d; p = packet_of d; packet_type = p ! 0 AND 0xf
      in if packet_type = PACKET_FT_STATUS then Some (invoke decode (ElanV4FocalTech PACKET_STATUS p) d, s)
         else if packet_type = PACKET_FT_ABSOLUTE then Some (invoke decode (ElanV4FocalTech PACKET_ABSOLUTE p) d, s)
         else if packet_type = PACKET_FT_RELATIVE then Some (invoke decode (ElanV4FocalTech PACKET_RELATIVE p) d, s)
         else retryThenCount D d s)"

definition parityV1 :: "u32 \<Rightarrow> u8 \<Rightarrow> u8 \<times> u8 \<times> u8" where
  "parityV1 fw b =
     (let (p1, p2) = (if fw < 0x020000 then (drop_bit 5 (b AND 0x20), drop_bit 4 (b AND 0x10))
                      else (drop_bit 4 (b AND 0x10), drop_bit 5 (b AND 0x20)))
      in (p1, p2, drop_bit 2 (b AND 0x04)))"

definition packetElanV1 :: "'g decoder \<Rightarrow> 'g driver \<Rightarrow> 'g driver" where
  "packetElanV1 decode d =
     (let p = packet_of d; e = elanTPad (tp d); (p1, p2, p3) = parityV1 (fw_version e) (p ! 0)
      in if paritycheck e \<and> \<not> (parityBit e ! unat (p ! 1) = p1 \<and> parityBit e ! unat (p ! 2) = p2 \<and>
              parityBit e ! unat (p ! 3) = p3)
         then d else invoke decode (ElanV1 p) d)"

text \<open>The checks of constant bits only log, so apart from debounce packets every packet is decoded.\<close>

definition packetElanV2 :: "'g decoder \<Rightarrow> 'g driver \<Rightarrow> 'g driver" where
  "packetElanV2 decode d =
     (if packet_of d = elan_debounce_packet_v2 then d
      else let d = backlight decode d in invoke decode (ElanV2V3 0 (packet_of d)) d)"

definition elanV3Type :: "bool \<Rightarrow> u8 list \<Rightarrow> u8" where
  "elanV3Type crc p =
     (let ty = 255
      in if crc then
           (let ty = (if p ! 3 AND 0x09 = 0x08 then PACKET_HEAD else ty)
            in if p ! 3 AND 0x09 = 0x09 then PACKET_TAIL else ty)
         else
           (let ty = (if p ! 0 AND 0x0c = 0x04 \<and> p ! 3 AND 0xcf = 0x02 then PACKET_HEAD else ty);
                ty = (if p ! 0 AND 0x0c = 0x0c \<and> p ! 3 AND 0xce = 0x0c then PACKET_TAIL else ty)
            in if p ! 3 AND 0x0f = 0x06 then PACKET_TRACKPOINT else ty))"

definition packetElanV3 :: "'g decoder \<Rightarrow> 's ps2dev \<Rightarrow> 'g driver \<Rightarrow> 's \<Rightarrow> ('g driver \<times> 's) option" where
  "packetElanV3 decode D d s =
     (if packet_of d = elan_end_packet_v3 then Some (d, s)
      else if packet_of d = elan_debounce_packet_v3 \<or> packet_of d = elan_debounce_packet_v3_2 then Some (d, s)
      else
        let packet_type = elanV3Type (crcEnabled (elanTPad (tp d))) (packet_of d);
            d = backlight decode d
        in if packet_type = PACKET_TRACKPOINT \<or> packet_type = PACKET_HEAD \<or> packet_type = PACKET_TAIL
           then Some (invoke decode (ElanV2V3 packet_type (packet_of d)) d, s)
           else if crcEnabled (elanTPad (tp d)) then
             (let p = packet_of d;
                  packet_type = (if p ! 3 AND 0x09 = 0x08 then PACKET_HEAD else packet_type);
                  packet_type = (if p ! 3 AND 0x09 = 0x09 then PACKET_TAIL else packet_type)
              in Some (invoke decode (ElanV2V3 packet_type p) d, s))
           else countThenRetry D d s)"

definition elanV4Type :: "bool \<Rightarrow> u8 list \<Rightarrow> u8" where
  "elanV4Type trackPoint p =
     (if trackPoint \<and> p ! 3 AND 0x0f = 0x06 then PACKET_TRACKPOINT else p ! 3 AND 0x03)"

definition elanV4Sane :: "bool \<Rightarrow> u8 list \<Rightarrow> bool" where
  "elanV4Sane crc p =
     (if crc then p ! 3 AND 0x08 = 0x00 else p ! 0 AND 0x0c = 0x04 \<and> p ! 3 AND 0x1c = 0x10)"

text \<open>
  A status packet that arrives one byte early is put right in the buffer itself, and the byte count
  moves on because the first byte of the next packet has been consumed already.
\<close>

definition misaligned :: "u8 list \<Rightarrow> bool" where
  "misaligned p \<longleftrightarrow> p ! 0 \<noteq> 0x00 \<and> p ! 1 = 0x00 \<and> p ! 2 = 0x10 \<and> p ! 3 = 0x00 \<and> p ! 4 = 0x00"

definition realign :: "touchpad \<Rightarrow> touchpad" where
  "realign t =
     (let p = packetBuffer t;
          p = p[1 := p ! 0]; p = p[3 := p ! 2];
          p = p[0 := 0x34, 2 := 0x00, 5 := 0x00]
      in t\<lparr>packetBuffer := p, packetByteCount := packetByteCount t + 1\<rparr>)"

definition packetElanV4 :: "'g decoder \<Rightarrow> 's ps2dev \<Rightarrow> 'g driver \<Rightarrow> 's \<Rightarrow> ('g driver \<times> 's) option" where
  "packetElanV4 decode D d s =
     (let p = packet_of d; e = elanTPad (tp d);
          packet_type = elanV4Type (supportsTrackPoint e) p;
          sane = elanV4Sane (crcEnabled e) p;
          d = d\<lparr>tp := (tp d)\<lparr>elanTPad := e\<lparr>sanityCheck := sane\<rparr>\<rparr>\<rparr>
      in if \<not> sane \<or> packet_type = 0 \<and> p ! 0 = 0 \<and>
            (p ! 1 \<noteq> 0 \<or> p ! 3 \<noteq> 0 \<or> p ! 2 \<noteq> 0 \<or> p ! 4 \<noteq> 0 \<or> p ! 5 \<noteq> 0)
         then (if \<not> sane then countThenRetry D d s else Some (d, s))
         else let d = backlight decode d
              in if packet_type = PACKET_STATUS then
                   (let d = (if misaligned (packet_of d) then d\<lparr>tp := realign (tp d)\<rparr> else d)
                    in Some (invoke decode (ElanV4FocalTech packet_type (packet_of d)) d, s))
                 else if packet_type = PACKET_ABSOLUTE \<or> packet_type = PACKET_RELATIVE
                 then Some (invoke decode (ElanV4FocalTech packet_type (packet_of d)) d, s)
                 else if packet_type = PACKET_TRACKPOINT then
                   Some (if disableTrackPoint (tp d) then d
                         else invoke decode (ElanTrackpoint packet_type (packet_of d)) d, s)
                 else retryThenCount D d s)"

definition dispatchPacket :: "'g decoder \<Rightarrow> 's ps2dev \<Rightarrow> 'g driver \<Rightarrow> 's \<Rightarrow> ('g driver \<times> 's) option" where
  "dispatchPacket decode D d s =
     (let hw = hw_version (tp d)
      in if hw = STD_MOUSE_HW then Some (invoke decode (ProcessMouse (packet_of d)) d, s)
         else if hw = STD_SYNAPTICS_HW then Some (packetSynaptics decode d, s)
         else if hw = STD_FOCAL_TECH_HW then packetFocaltech decode D d s
         else if hw = STD_ELAN_HW_V1 then Some (packetElanV1 decode d, s)
         else if hw = STD_ELAN_HW_V2 then Some (packetElanV2 decode d, s)
         else if hw = STD_ELAN_HW_V3 then packetElanV3 decode D d s
         else if hw = STD_ELAN_HW_V4 then packetElanV4 decode D d s
         else Some (d, s))"

section \<open>The interrupt handler\<close>

definition storeByte :: "u8 \<Rightarrow> 'g driver \<Rightarrow> 'g driver" where
  "storeByte b d =
     (let t = tp d; i = unat (packetByteCount t)
      in d\<lparr>tp := t\<lparr>packetBuffer := (packetBuffer t)[i := b], packetByteCount := packetByteCount t + 1\<rparr>,
           overrun := overrun d \<or> i \<ge> 6\<rparr>)"

definition invalidOrReset :: "touchpad \<Rightarrow> bool" where
  "invalidOrReset t \<longleftrightarrow>
     packetByteCount t = 1 \<and> packetBuffer t ! 0 = 0x00 \<and> packetsCount t = 0 \<and> cFingers t = 0 \<or>
     packetByteCount t = 2 \<and> packetBuffer t ! 0 = kSC_Reset \<and> packetBuffer t ! 1 = 0x00"

definition handleInvalidOrReset :: "'s ps2dev \<Rightarrow> 'g driver \<Rightarrow> 's \<Rightarrow> ('g driver \<times> 's) option" where
  "handleInvalidOrReset D d s =
     (if packetByteCount (tp d) = 1 \<and> touchpadVendor (tp d) = STD_ELAN_TECH \<and> crcEnabled (elanTPad (tp d))
      then Some (d, s)
      else do {
        (d, s) \<leftarrow> (if packet_of d ! 0 = kSC_Reset then reconnect D d s else Some (d, s));
        Some (d\<lparr>tp := (tp d)\<lparr>packetByteCount := 0, endPacketsCount := 0\<rparr>\<rparr>, s)
      })"

definition duplicateEnd :: "touchpad \<Rightarrow> bool" where
  "duplicateEnd t \<longleftrightarrow>
     (let p = packetBuffer t
      in cFingers t = 0 \<and> p ! 0 AND 0x03 = 0 \<and> buttonData t = 0 \<and> p ! 1 = 0 \<and> p ! 2 = 0 \<and>
         p ! 4 = 0 \<and> p ! 5 = 0)"

definition completePacket ::
  "'g decoder \<Rightarrow> 's ps2dev \<Rightarrow> platform \<Rightarrow> 'g driver \<Rightarrow> 's \<Rightarrow> ('g driver \<times> 's) option" where
  "completePacket decode D pl d s =
     (let d = d\<lparr>tp := (tp d)\<lparr>packetByteCount := 0\<rparr>\<rparr>;
          d = d\<lparr>tp := (tp d)\<lparr>endPacketsCount :=
            (if duplicateEnd (tp d) then endPacketsCount (tp d) + 1 else 0)\<rparr>\<rparr>
      in if endPacketsCount (tp d) > 1 then Some (d, s)
         else let (stop, d) = gatePacket decode pl (d\<lparr>now := uptime pl\<rparr>)
              in if stop then Some (d, s) else dispatchPacket decode D d s)"

definition Touchpad_interruptOccurred ::
  "'g decoder \<Rightarrow> 's ps2dev \<Rightarrow> platform \<Rightarrow> u8 \<Rightarrow> 'g driver \<Rightarrow> 's \<Rightarrow> ('g driver \<times> 's) option" where
  "Touchpad_interruptOccurred decode D pl b d s =
     (let d = storeByte b d
      in if invalidOrReset (tp d) then handleInvalidOrReset D d s
         else if packetByteCount (tp d) = pktsize (tp d) then completePacket decode D pl d s
         else Some (d, s))"

text \<open>The handler over a stream of bytes, each with the answers of the platform at that time.\<close>

fun interrupts ::
  "'g decoder \<Rightarrow> 's ps2dev \<Rightarrow> (platform \<times> u8) list \<Rightarrow> 'g driver \<Rightarrow> 's \<Rightarrow> ('g driver \<times> 's) option" where
  "interrupts decode D [] d s = Some (d, s)"
| "interrupts decode D ((pl, b) # bs) d s = do {
     (d, s) \<leftarrow> Touchpad_interruptOccurred decode D pl b d s;
     interrupts decode D bs d s
   }"

end
