(* ===== verification/Touchpad_PacketProps.thy ===== *)
theory Touchpad_PacketProps
  imports Touchpad_Packets
begin

text \<open>
  Properties of the packet framing: the buffer is never overrun, an aligned stream of bytes is processed
  packet by packet, and a reset or an early status packet brings the framing back into step.
\<close>

section \<open>What a reconnection leaves alone\<close>

definition same_frame :: "touchpad \<Rightarrow> touchpad \<Rightarrow> bool" where
  "same_frame t t' \<longleftrightarrow> pktsize t' = pktsize t \<and> hw_version t' = hw_version t \<and>
     packetBuffer t' = packetBuffer t \<and> packetsCount t' = packetsCount t \<and> cFingers t' = cFingers t \<and>
     buttonData t' = buttonData t \<and> modeSetTries t' = modeSetTries t \<and>
     endPacketsCount t' = endPacketsCount t \<and> packetByteCount t' = packetByteCount t"

lemma same_frame_refl [simp]: "same_frame t t"
  by (simp add: same_frame_def)

lemma same_frame_trans: "same_frame a b \<Longrightarrow> same_frame b c \<Longrightarrow> same_frame a c"
  by (simp add: same_frame_def)

lemma detect_frame: "Detect_touchpad D t s = Some (ret, t', s') \<Longrightarrow> same_frame t t'"
  by (auto simp: Detect_touchpad_def same_frame_def split: if_splits option.splits)

lemma redetect_frame: "redetect D n t s = Some (found, t', s') \<Longrightarrow> same_frame t t'"
proof (induction n arbitrary: t s)
  case (Suc n)
  then show ?case by (auto split: if_splits dest: detect_frame intro: same_frame_trans)
qed simp

lemma elan_mode_frame: "Elantech_set_absolute_mode D t s = Some (ret, t', s') \<Longrightarrow> same_frame t t'"
  by (auto simp: Elantech_set_absolute_mode_def Elantech_write_mode_def Let_def same_frame_def split: if_splits)

lemma synaptics_mode_frame: "Synaptics_set_absolute_mode D t s = Some (ret, t', s') \<Longrightarrow> same_frame t t'"
  by (auto simp: Synaptics_set_absolute_mode_def Synaptics_set_advanced_gesture_mode_def Let_def
      same_frame_def split: if_splits)

lemma reconnect_mode_frame: "Reconnect_mode D t s = Some (ret, t', s') \<Longrightarrow> same_frame t t'"
  by (auto simp: Reconnect_mode_def dest: elan_mode_frame synaptics_mode_frame split: if_splits)

lemma reconnect_touchpad_frame:
  assumes "Reconnect_touchpad D t s = Some (t', s')"
  obtains n where "same_frame t (t'\<lparr>packetByteCount := packetByteCount t\<rparr>)"
    "packetByteCount t' = n" "n = packetByteCount t \<or> n = 0"
proof -
  from assms have "\<exists>t1. same_frame t t1 \<and> (t' = t1 \<or> t' = t1\<lparr>packetByteCount := 0\<rparr>)"
    by (auto simp: Reconnect_touchpad_def Let_def split: if_splits
        dest!: redetect_frame reconnect_mode_frame) (metis same_frame_trans)+
  then show thesis using that by (auto simp: same_frame_def)
qed

section \<open>Framing\<close>

text \<open>Decoders may do anything to the driver but touch the framing of packets.\<close>

definition keeps_framing :: "'g decoder \<Rightarrow> bool" where
  "keeps_framing decode \<longleftrightarrow> (\<forall>c d. let t = tp d; d' = decode c d; t' = tp d'
     in pktsize t' = pktsize t \<and> hw_version t' = hw_version t \<and> packetBuffer t' = packetBuffer t \<and>
        packetByteCount t' = packetByteCount t \<and> overrun d' = overrun d)"

definition framed :: "'g driver \<Rightarrow> 'g driver \<Rightarrow> bool" where
  "framed d d' \<longleftrightarrow> pktsize (tp d') = pktsize (tp d) \<and> hw_version (tp d') = hw_version (tp d) \<and>
     packetBuffer (tp d') = packetBuffer (tp d) \<and> overrun d' = overrun d \<and>
     (packetByteCount (tp d') = packetByteCount (tp d) \<or> packetByteCount (tp d') = 0)"

lemma framed_refl [simp]: "framed d d"
  by (simp add: framed_def)

lemma framed_trans: "framed a b \<Longrightarrow> framed b c \<Longrightarrow> framed a c"
  by (auto simp: framed_def)

lemma framed_invoke: "keeps_framing decode \<Longrightarrow> framed d (invoke decode c d)"
proof -
  assume "keeps_framing decode"
  from this [unfolded keeps_framing_def, THEN spec [of _ c], THEN spec [of _ "d\<lparr>calls := calls d @ [c]\<rparr>"]]
  show ?thesis by (simp add: framed_def invoke_def Let_def)
qed

lemma framed_gate_update [simp]: "framed d (d\<lparr>gate := g\<rparr>)" "framed d (d\<lparr>now := t, gate := g\<rparr>)"
  by (simp_all add: framed_def)

lemma framed_backlight: "keeps_framing decode \<Longrightarrow> framed d (backlight decode d)"
  by (simp add: backlight_def framed_invoke)

lemma framed_reconnect: "reconnect D d s = Some (d', s') \<Longrightarrow> framed d d'"
  by (auto simp: reconnect_def framed_def same_frame_def elim!: reconnect_touchpad_frame)

lemma framed_retry: "retryThenCount D d s = Some (d', s') \<Longrightarrow> framed d d'"
  "countThenRetry D d s = Some (d', s') \<Longrightarrow> framed d d'"
  by (auto simp: retryThenCount_def countThenRetry_def framed_def split: if_splits
      dest!: framed_reconnect)

lemma framed_fnkeys: "keeps_framing decode \<Longrightarrow> framed d (pollFnKeys decode pl d)"
  by (auto simp: pollFnKeys_def Let_def split: option.splits
      intro: framed_invoke framed_trans [OF framed_gate_update(1) framed_invoke])

lemma framed_polling:
  assumes "keeps_framing decode"
  shows "framed d (Process_ACPI_IOREG_Polling decode pl d)"
proof -
  let ?d = "if isAsusNotebook (gate d) then pollFnKeys decode pl d else d"
  have "framed d ?d" using framed_fnkeys [OF assms] by simp
  moreover have "framed ?d (Process_ACPI_IOREG_Polling decode pl d)"
    by (auto simp: Process_ACPI_IOREG_Polling_def Let_def framed_def)
  ultimately show ?thesis by (rule framed_trans)
qed

lemma framed_gate:
  assumes "keeps_framing decode" "gatePacket decode pl d = (stop, d')"
  shows "framed d d'"
proof -
  have m: "framed e (snd (gateExternalMouse pl e))" for e :: "'a driver"
    by (auto simp: gateExternalMouse_def detectExternalMouse_def framed_def Let_def)
  have p: "framed e (snd (gatePolling decode pl e))" for e
    using framed_polling [OF assms(1)] by (auto simp: gatePolling_def Let_def)
  show ?thesis
    using assms(2) m [of d] p [of "snd (gateExternalMouse pl d)"]
    by (auto simp: gatePacket_def split: prod.splits if_splits
        intro: framed_trans [OF framed_trans framed_gate_update(1)] framed_trans)
qed

text \<open>A packet leaves the byte count as it is or clears it; only the realignment moves it on.\<close>

definition almost_framed :: "'g driver \<Rightarrow> 'g driver \<Rightarrow> bool" where
  "almost_framed d d' \<longleftrightarrow> pktsize (tp d') = pktsize (tp d) \<and> hw_version (tp d') = hw_version (tp d) \<and>
     length (packetBuffer (tp d')) = length (packetBuffer (tp d)) \<and> overrun d' = overrun d \<and>
     packetByteCount (tp d') \<in> {0, 1, packetByteCount (tp d), packetByteCount (tp d) + 1}"

lemma framed_almost: "framed d d' \<Longrightarrow> almost_framed d d'"
  by (auto simp: framed_def almost_framed_def)

lemma packetElanV4_framed:
  assumes "packetElanV4 decode D d s = Some (d', s')" "keeps_framing decode"
  shows "almost_framed d d' \<and> (\<not> misaligned (packet_of d) \<longrightarrow> framed d d')"
proof -
  let ?e = "elanTPad (tp d)"
  let ?d = "d\<lparr>tp := (tp d)\<lparr>elanTPad := ?e\<lparr>sanityCheck := elanV4Sane (crcEnabled ?e) (packet_of d)\<rparr>\<rparr>\<rparr>"
  let ?b = "backlight decode ?d"
  have 1: "framed d ?d" by (simp add: framed_def)
  have 2: "framed d ?b" by (rule framed_trans [OF 1 framed_backlight [OF assms(2)]])
  then have buf: "packet_of ?b = packet_of d" by (simp add: framed_def)
  consider "framed ?d d'" | "framed ?b d'"
    | c where "misaligned (packet_of d)" "d' = invoke decode c (?b\<lparr>tp := realign (tp ?b)\<rparr>)"
    using assms(1) buf
    by (auto simp: packetElanV4_def Let_def framed_invoke [OF assms(2)] split: if_splits dest: framed_retry)
  then show ?thesis
  proof cases
    case 1
    then show ?thesis using framed_trans [OF \<open>framed d ?d\<close>] framed_almost by blast
  next
    case 2
    then show ?thesis using framed_trans [OF \<open>framed d ?b\<close>] framed_almost by blast
  next
    case 3
    have "almost_framed d (?b\<lparr>tp := realign (tp ?b)\<rparr>)"
      using \<open>framed d ?b\<close> by (auto simp: almost_framed_def framed_def realign_def Let_def)
    then show ?thesis using 3 framed_invoke [OF assms(2), of "?b\<lparr>tp := realign (tp ?b)\<rparr>" c]
      by (auto simp: almost_framed_def framed_def)
  qed
qed

lemma dispatchPacket_framed:
  assumes "dispatchPacket decode D d s = Some (d', s')" "keeps_framing decode"
  shows "almost_framed d d' \<and> (hw_version (tp d) = STD_ELAN_HW_V4 \<and> misaligned (packet_of d) \<or> framed d d')"
proof -
  note inv = framed_invoke [OF assms(2)]
  note lit = framed_backlight [OF assms(2)]
  note chain = framed_trans [OF lit inv] framed_trans [OF lit framed_retry(1)]
    framed_trans [OF lit framed_retry(2)] inv framed_retry
  have syn: "framed d (packetSynaptics decode d)"
  proof -
    have "framed d (d\<lparr>tp := (tp d)\<lparr>synTPad := x\<rparr>\<rparr>)" for x by (simp add: framed_def)
    then show ?thesis unfolding packetSynaptics_def Let_def by (auto intro: framed_trans inv)
  qed
  have v1: "framed d (packetElanV1 decode d)" by (auto simp: packetElanV1_def Let_def inv split: prod.splits)
  have v2: "framed d (packetElanV2 decode d)" by (auto simp: packetElanV2_def Let_def chain)
  have ft: "packetFocaltech decode D d s = Some (d', s') \<Longrightarrow> framed d d'"
    by (auto simp: packetFocaltech_def Let_def split: if_splits intro: chain)
  have v3: "packetElanV3 decode D d s = Some (d', s') \<Longrightarrow> framed d d'"
    by (auto simp: packetElanV3_def Let_def split: if_splits intro: chain)
  show ?thesis
    using assms(1) syn v1 v2 ft v3 packetElanV4_framed [OF _ assms(2), of D d s d' s']
    by (auto simp: dispatchPacket_def Let_def inv intro: framed_almost split: if_splits)
qed

lemma completePacket_framed:
  assumes "completePacket decode D pl d s = Some (d', s')" "keeps_framing decode"
  shows "pktsize (tp d') = pktsize (tp d) \<and> hw_version (tp d') = hw_version (tp d) \<and>
    length (packet_of d') = length (packet_of d) \<and> overrun d' = overrun d \<and>
    packetByteCount (tp d') \<in> {0, 1} \<and>
    (hw_version (tp d) = STD_ELAN_HW_V4 \<and> misaligned (packet_of d) \<or> packetByteCount (tp d') = 0)"
proof -
  let ?d = "\<lambda>n. d\<lparr>tp := (tp d)\<lparr>packetByteCount := 0, endPacketsCount := n\<rparr>, now := uptime pl\<rparr>"
  consider n where "d' = d\<lparr>tp := (tp d)\<lparr>packetByteCount := 0, endPacketsCount := n\<rparr>\<rparr>"
    | n where "gatePacket decode pl (?d n) = (True, d')"
    | n e where "gatePacket decode pl (?d n) = (False, e)" "dispatchPacket decode D e s = Some (d', s')"
    using assms(1) by (auto simp: completePacket_def Let_def split: if_splits prod.splits)
  then show ?thesis
  proof cases
    case 2
    with framed_gate [OF assms(2) 2] show ?thesis by (auto simp: framed_def)
  next
    case 3
    from framed_gate [OF assms(2) 3(1)] dispatchPacket_framed [OF 3(2) assms(2)] show ?thesis
      by (auto simp: framed_def almost_framed_def)
  qed auto
qed

section \<open>The packet buffer\<close>

definition buffer_ok :: "'g driver \<Rightarrow> bool" where
  "buffer_ok d \<longleftrightarrow> pktsize (tp d) \<in> {3, 4, 6} \<and> length (packet_of d) = 6 \<and>
     packetByteCount (tp d) < pktsize (tp d) \<and> \<not> overrun d \<and>
     (hw_version (tp d) = STD_ELAN_HW_V4 \<longrightarrow> pktsize (tp d) = 6)"

lemma handleInvalidOrReset_framed:
  "handleInvalidOrReset D d s = Some (d', s') \<Longrightarrow>
     framed d d' \<and> (packetByteCount (tp d') = 0 \<or> packetByteCount (tp d') = 1)"
  by (auto simp: handleInvalidOrReset_def framed_def split: if_splits dest!: framed_reconnect)

lemma storeByte_ok:
  assumes "buffer_ok d"
  shows "pktsize (tp (storeByte b d)) = pktsize (tp d)" "length (packet_of (storeByte b d)) = 6"
    "packetByteCount (tp (storeByte b d)) = packetByteCount (tp d) + 1" "\<not> overrun (storeByte b d)"
    "hw_version (tp (storeByte b d)) = hw_version (tp d)"
  using assms by (auto simp: storeByte_def buffer_ok_def Let_def word_less_nat_alt)

lemma less_pktsize: "(n :: u8) < k \<Longrightarrow> k \<in> {3, 4, 6} \<Longrightarrow> n + 1 = k \<or> n + 1 < k"
  by (auto simp: word_less_nat_alt unat_word_ariths word_unat_eq_iff)

lemma interrupt_buffer_ok:
  assumes "Touchpad_interruptOccurred decode D pl b d s = Some (d', s')" "keeps_framing decode" "buffer_ok d"
  shows "buffer_ok d' \<and> pktsize (tp d') = pktsize (tp d) \<and> hw_version (tp d') = hw_version (tp d)"
proof -
  let ?d = "storeByte b d"
  note st = storeByte_ok [OF assms(3), of b]
  have k: "pktsize (tp d) \<in> {3, 4, 6}" using assms(3) by (simp add: buffer_ok_def)
  then have small: "(0 :: u8) < pktsize (tp d)" "(1 :: u8) < pktsize (tp d)" by auto
  have v4: "hw_version (tp d) = STD_ELAN_HW_V4 \<longrightarrow> pktsize (tp d) = 6" using assms(3) by (simp add: buffer_ok_def)
  consider "handleInvalidOrReset D ?d s = Some (d', s')"
    | "completePacket decode D pl ?d s = Some (d', s')"
    | "packetByteCount (tp ?d) \<noteq> pktsize (tp ?d)" "d' = ?d"
    using assms(1) by (auto simp: Touchpad_interruptOccurred_def Let_def split: if_splits)
  then show ?thesis
  proof cases
    case 1
    from handleInvalidOrReset_framed [OF 1] st k small v4 show ?thesis
      by (auto simp: buffer_ok_def framed_def)
  next
    case 2
    from completePacket_framed [OF 2 assms(2)] st k small v4 show ?thesis by (auto simp: buffer_ok_def)
  next
    case 3
    then show ?thesis using st k less_pktsize [of "packetByteCount (tp d)" "pktsize (tp d)"] assms(3)
      by (auto simp: buffer_ok_def)
  qed
qed

lemma interrupts_buffer_ok:
  "interrupts decode D bs d s = Some (d', s') \<Longrightarrow> keeps_framing decode \<Longrightarrow> buffer_ok d \<Longrightarrow>
   buffer_ok d' \<and> pktsize (tp d') = pktsize (tp d) \<and> hw_version (tp d') = hw_version (tp d)"
proof (induction decode D bs d s rule: interrupts.induct)
  case (2 decode D pl b bs d s)
  then obtain e t where e: "Touchpad_interruptOccurred decode D pl b d s = Some (e, t)"
    "interrupts decode D bs e t = Some (d', s')" by (auto split: option.splits Option.bind_splits)
  from interrupt_buffer_ok [OF e(1) 2(3,4)] 2(1) [OF e(1) refl e(2) 2(3)] show ?case by auto
qed auto

section \<open>An aligned stream\<close>

text \<open>
  The specification of framing: the stream is a list of packets, each processed as a whole by what the
  handler does once the buffer is full.
\<close>

definition fillBuffer :: "u8 list \<Rightarrow> 'g driver \<Rightarrow> 'g driver" where
  "fillBuffer p d = d\<lparr>tp := (tp d)\<lparr>packetBuffer := p @ drop (length p) (packet_of d),
     packetByteCount := of_nat (length p)\<rparr>\<rparr>"

fun packets ::
  "'g decoder \<Rightarrow> 's ps2dev \<Rightarrow> (platform \<times> u8) list list \<Rightarrow> 'g driver \<Rightarrow> 's \<Rightarrow> ('g driver \<times> 's) option" where
  "packets decode D [] d s = Some (d, s)"
| "packets decode D (q # qs) d s = do {
     (d, s) \<leftarrow> completePacket decode D (fst (last q)) (fillBuffer (map snd q) d) s;
     packets decode D qs d s
   }"

text \<open>Packets that look neither like noise nor like a reset, and that are in step.\<close>

definition regular :: "u8 list \<Rightarrow> bool" where
  "regular p \<longleftrightarrow> p ! 0 \<noteq> 0 \<and> \<not> (p ! 0 = kSC_Reset \<and> p ! 1 = 0) \<and>
     (length p = 6 \<longrightarrow> \<not> misaligned p)"

lemma interrupts_append:
  "interrupts decode D (xs @ ys) d s = Option.bind (interrupts decode D xs d s)
     (\<lambda>(d, s). interrupts decode D ys d s)"
  by (induction decode D xs d s rule: interrupts.induct) (auto split: Option.bind_split)

lemma fillBuffer_Nil: "packetByteCount (tp d) = 0 \<Longrightarrow> fillBuffer [] d = d"
  by (simp add: fillBuffer_def)

lemma storeByte_fill:
  assumes "length p < 6" "length (packet_of d) = 6" "\<not> overrun d"
  shows "storeByte b (fillBuffer p d) = fillBuffer (p @ [b]) d"
proof -
  have i: "unat (of_nat (length p) :: u8) = length p" using assms(1) by (simp add: unat_of_nat_u8)
  have "drop (length p) (packet_of d) = packet_of d ! length p # drop (Suc (length p)) (packet_of d)"
    using assms by (simp add: Cons_nth_drop_Suc)
  then show ?thesis using assms i
    by (simp add: storeByte_def fillBuffer_def Let_def list_update_append add.commute)
qed

lemma regular_not_reset:
  assumes "regular (p @ r)" "0 < length p" "length p \<le> 6"
  shows "\<not> invalidOrReset (tp (fillBuffer p d))"
proof
  assume i: "invalidOrReset (tp (fillBuffer p d))"
  have u: "unat (packetByteCount (tp (fillBuffer p d))) = length p"
    using assms(3) by (simp add: fillBuffer_def unat_of_nat_u8)
  have b: "packet_of (fillBuffer p d) ! j = p ! j" if "j < length p" for j
    using that by (simp add: fillBuffer_def nth_append)
  from i consider "packetByteCount (tp (fillBuffer p d)) = 1" "packet_of (fillBuffer p d) ! 0 = 0"
    | "packetByteCount (tp (fillBuffer p d)) = 2" "packet_of (fillBuffer p d) ! 0 = kSC_Reset"
      "packet_of (fillBuffer p d) ! 1 = 0"
    unfolding invalidOrReset_def by blast
  then show False
  proof cases
    case 1
    then show False using u b [of 0] assms(1,2) by (simp add: regular_def nth_append)
  next
    case 2
    then have "length p = 2" using u by simp
    then show False using 2 b [of 0] b [of 1] assms(1) by (simp add: regular_def nth_append)
  qed
qed

text \<open>A proper prefix of a packet is only stored.\<close>

lemma interrupts_prefix:
  assumes "packetByteCount (tp d) = 0" "length (packet_of d) = 6" "\<not> overrun d"
    "pktsize (tp d) \<le> 6" "length q < unat (pktsize (tp d))" "regular (map snd q @ r)"
  shows "interrupts decode D q d s = Some (fillBuffer (map snd q) d, s)"
  using assms(5,6)
proof (induction q arbitrary: r rule: rev_induct)
  case Nil
  then show ?case by (simp add: fillBuffer_Nil [OF assms(1)])
next
  case (snoc x q)
  obtain pl b where x: "x = (pl, b)" by fastforce
  have len: "length (map snd q) < 6" using snoc.prems(1) assms(4) by (simp add: word_le_nat_alt)
  have st: "storeByte b (fillBuffer (map snd q) d) = fillBuffer (map snd q @ [b]) d"
    by (rule storeByte_fill [OF len assms(2,3)])
  have nr: "\<not> invalidOrReset (tp (fillBuffer (map snd q @ [b]) d))"
    by (rule regular_not_reset [of _ r]) (use snoc.prems(2) x len in simp_all)
  have "packetByteCount (tp (fillBuffer (map snd q @ [b]) d)) \<noteq> pktsize (tp d)"
    using snoc.prems(1) unat_of_nat_u8 [of "Suc (length q)"] len
    by (auto simp: fillBuffer_def simp del: of_nat_Suc)
  moreover have "pktsize (tp (fillBuffer (map snd q @ [b]) d)) = pktsize (tp d)" by (simp add: fillBuffer_def)
  ultimately have "Touchpad_interruptOccurred decode D pl b (fillBuffer (map snd q) d) s
      = Some (fillBuffer (map snd q @ [b]) d, s)"
    using st nr by (simp add: Touchpad_interruptOccurred_def)
  then show ?case using snoc.IH [of "b # r"] snoc.prems x by (simp add: interrupts_append)
qed

lemma interrupts_packet:
  assumes "packetByteCount (tp d) = 0" "length (packet_of d) = 6" "\<not> overrun d"
    "pktsize (tp d) \<in> {3, 4, 6}" "length q = unat (pktsize (tp d))" "regular (map snd q)"
  shows "interrupts decode D q d s = completePacket decode D (fst (last q)) (fillBuffer (map snd q) d) s"
proof -
  have "q \<noteq> []" using assms(4,5) by auto
  then obtain q' pl b where q: "q = q' @ [(pl, b)]" by (metis surj_pair rev_exhaust)
  have le: "pktsize (tp d) \<le> 6" "unat (pktsize (tp d)) \<le> 6" using assms(4) by auto
  have pre: "interrupts decode D q' d s = Some (fillBuffer (map snd q') d, s)"
    by (rule interrupts_prefix [OF assms(1-3) le(1), of _ "[b]"]) (use assms(5,6) q in simp_all)
  have len: "length (map snd q') < 6" using assms(5) q le by simp
  have st: "storeByte b (fillBuffer (map snd q') d) = fillBuffer (map snd q) d"
    using storeByte_fill [OF len assms(2,3)] q by simp
  have nr: "\<not> invalidOrReset (tp (fillBuffer (map snd q) d))"
    by (rule regular_not_reset [of _ "[]"]) (use assms(5,6) q len in simp_all)
  have "packetByteCount (tp (fillBuffer (map snd q) d)) = pktsize (tp (fillBuffer (map snd q) d))"
    using assms(5) by (simp add: fillBuffer_def)
  then show ?thesis using st nr pre q
    by (simp add: interrupts_append Touchpad_interruptOccurred_def split: Option.bind_split)
qed

lemma interrupts_stream:
  assumes "keeps_framing decode" "buffer_ok d" "packetByteCount (tp d) = 0"
    "\<forall>q \<in> set qs. length q = unat (pktsize (tp d)) \<and> regular (map snd q)"
  shows "interrupts decode D (concat qs) d s = packets decode D qs d s"
  using assms(2-4)
proof (induction qs arbitrary: d s)
  case (Cons q qs)
  let ?d = "fillBuffer (map snd q) d"
  have d: "length (packet_of d) = 6" "\<not> overrun d" "pktsize (tp d) \<in> {3, 4, 6}"
    using Cons.prems(1) by (simp_all add: buffer_ok_def)
  have q: "length q = unat (pktsize (tp d))" "regular (map snd q)" using Cons.prems(3) by simp_all
  have one: "interrupts decode D q d s = completePacket decode D (fst (last q)) ?d s"
    by (rule interrupts_packet [OF Cons.prems(2) d q])
  show ?case
  proof (cases "completePacket decode D (fst (last q)) ?d s")
    case None
    then show ?thesis using one by (simp add: interrupts_append)
  next
    case (Some r)
    then obtain d' s' where r: "completePacket decode D (fst (last q)) ?d s = Some (d', s')"
      by (cases r) auto
    have fd: "pktsize (tp ?d) = pktsize (tp d)" "overrun ?d = overrun d" by (simp_all add: fillBuffer_def)
    have "length q \<le> 6" using q(1) d(3) by auto
    then have lf: "length (packet_of ?d) = 6" using d(1) by (simp add: fillBuffer_def)
    from completePacket_framed [OF r assms(1)] have c: "pktsize (tp d') = pktsize (tp d)"
      "hw_version (tp d') = hw_version (tp d)" "length (packet_of d') = 6" "overrun d' = overrun d"
      "hw_version (tp d) = STD_ELAN_HW_V4 \<and> misaligned (packet_of ?d) \<or> packetByteCount (tp d') = 0"
      using lf fd by (simp_all add: fillBuffer_def)
    have "packet_of ?d = map snd q" if "pktsize (tp d) = 6" using that q(1) d(1) by (simp add: fillBuffer_def)
    then have nm: "packetByteCount (tp d') = 0"
      using c(5) q Cons.prems(1) by (auto simp: regular_def buffer_ok_def)
    have "buffer_ok d'" using c nm Cons.prems(1) d(3) by (auto simp: buffer_ok_def)
    then have "interrupts decode D (concat qs) d' s' = packets decode D qs d' s'"
      using Cons.IH nm Cons.prems(3) c(1) by simp
    then show ?thesis using one r by (simp add: interrupts_append)
  qed
qed simp

text \<open>A decoder that ignores its calls.\<close>

definition idleDecoder :: "unit decoder" where
  "idleDecoder c d = d"

lemma keeps_idle [simp]: "keeps_framing idleDecoder"
  by (simp add: keeps_framing_def idleDecoder_def Let_def)

text \<open>The driver after init and start, before its first byte.\<close>

definition driver_init :: "touchpad \<Rightarrow> unit driver" where
  "driver_init t = \<lparr>tp = t, gate = gate_init, now = 0, gestures = (), overrun = False, calls = []\<rparr>"

definition quietPlatform :: platform where
  "quietPlatform = \<lparr>uptime = 0, uptimeMouse = 0, uptimeAcpi = 0, hidKinds = [], fnKeyEntry = None, lid = None\<rparr>"

lemma framing_buffer_ok:
  "framing_ok t \<Longrightarrow> packetByteCount t = 0 \<Longrightarrow> buffer_ok (driver_init t)"
  by (auto simp: framing_ok_def buffer_ok_def driver_init_def)

section \<open>Reconnections\<close>

text \<open>The reconnections made so far, and decoders that neither make any nor hand out tries.\<close>

definition reconnects :: "'g driver \<Rightarrow> nat" where
  "reconnects d = count_list (calls d) Reconnect"

definition keeps_tries :: "'g decoder \<Rightarrow> bool" where
  "keeps_tries decode \<longleftrightarrow> (\<forall>c d. modeSetTries (tp (decode c d)) = modeSetTries (tp d) \<and>
     calls (decode c d) = calls d)"

definition budget :: "'g driver \<Rightarrow> nat" where
  "budget d = reconnects d + unat (modeSetTries (tp d))"

lemma budget_invoke: "keeps_tries decode \<Longrightarrow> c \<noteq> Reconnect \<Longrightarrow> budget (invoke decode c d) = budget d"
  by (simp add: budget_def reconnects_def invoke_def keeps_tries_def)

lemma budget_backlight: "keeps_tries decode \<Longrightarrow> budget (backlight decode d) = budget d"
  by (simp add: backlight_def budget_invoke)

lemma reconnect_tries:
  "reconnect D d s = Some (d', s') \<Longrightarrow>
     modeSetTries (tp d') = modeSetTries (tp d) \<and> reconnects d' = Suc (reconnects d)"
  by (auto simp: reconnect_def reconnects_def same_frame_def elim!: reconnect_touchpad_frame)

lemma budget_retry:
  "retryThenCount D d s = Some (d', s') \<Longrightarrow> budget d' = budget d"
  "countThenRetry D d s = Some (d', s') \<Longrightarrow> budget d' = budget d"
proof -
  have u: "m \<noteq> 0 \<Longrightarrow> Suc (unat (m - 1)) = unat m" for m :: u8
    using unat_minus_one [of m] unat_gt_0 [of m] by linarith
  show "retryThenCount D d s = Some (d', s') \<Longrightarrow> budget d' = budget d"
    "countThenRetry D d s = Some (d', s') \<Longrightarrow> budget d' = budget d"
    by (auto simp: retryThenCount_def countThenRetry_def budget_def reconnects_def u word_gt_0
        split: if_splits dest!: reconnect_tries)
qed

lemma budget_gate:
  assumes "keeps_tries decode" "gatePacket decode pl d = (stop, d')"
  shows "budget d' = budget d"
proof -
  have g: "budget (e\<lparr>gate := g\<rparr>) = budget e" "budget (e\<lparr>now := t\<rparr>) = budget e" for e :: "'a driver" and g t
    by (simp_all add: budget_def reconnects_def)
  have f: "budget (pollFnKeys decode pl e) = budget e" for e
    by (simp add: pollFnKeys_def Let_def g budget_invoke [OF assms(1)] split: option.splits prod.splits)
  have a: "budget (Process_ACPI_IOREG_Polling decode pl e) = budget e" for e
    by (simp add: Process_ACPI_IOREG_Polling_def Let_def g f)
  have m: "budget (snd (gateExternalMouse pl e)) = budget e" for e :: "'a driver"
    by (simp add: gateExternalMouse_def detectExternalMouse_def Let_def g)
  have p: "budget (snd (gatePolling decode pl e)) = budget e" for e
    by (simp add: gatePolling_def Let_def a)
  show ?thesis using assms(2) m [of d] p [of "snd (gateExternalMouse pl d)"] g
    by (auto simp: gatePacket_def split: prod.splits if_splits)
qed

lemma budget_update [simp]:
  "budget (e\<lparr>tp := (tp e)\<lparr>elanTPad := x\<rparr>\<rparr>) = budget e" "budget (e\<lparr>tp := (tp e)\<lparr>synTPad := y\<rparr>\<rparr>) = budget e"
  "budget (e\<lparr>tp := realign (tp e)\<rparr>) = budget e" for e :: "'g driver"
  by (simp_all add: budget_def reconnects_def realign_def Let_def)

lemma budget_decoded:
  assumes "keeps_tries decode"
  shows "budget (packetSynaptics decode d) = budget d" "budget (packetElanV1 decode d) = budget d"
    "budget (packetElanV2 decode d) = budget d"
  by (simp_all add: packetSynaptics_def packetElanV1_def packetElanV2_def Let_def budget_invoke [OF assms]
      budget_backlight [OF assms] split: prod.splits)

lemma budget_focaltech:
  assumes "packetFocaltech decode D d s = Some (d', s')" "keeps_tries decode"
  shows "budget d' = budget d"
proof -
  have "budget d' = budget (backlight decode d)"
    using assms(1) unfolding packetFocaltech_def Let_def
    by (auto simp: budget_invoke [OF assms(2)] split: if_splits dest: budget_retry)
  then show ?thesis by (simp add: budget_backlight [OF assms(2)])
qed

lemma budget_v3:
  assumes "packetElanV3 decode D d s = Some (d', s')" "keeps_tries decode"
  shows "budget d' = budget d"
proof -
  have "d' = d \<or> budget d' = budget (backlight decode d)"
    using assms(1) unfolding packetElanV3_def Let_def
    by (auto simp: budget_invoke [OF assms(2)] split: if_splits dest: budget_retry)
  then show ?thesis using budget_backlight [OF assms(2)] by metis
qed

lemma budget_v4:
  assumes "packetElanV4 decode D d s = Some (d', s')" "keeps_tries decode"
  shows "budget d' = budget d"
proof -
  let ?d = "d\<lparr>tp := (tp d)\<lparr>elanTPad := (elanTPad (tp d))\<lparr>sanityCheck :=
    elanV4Sane (crcEnabled (elanTPad (tp d))) (packet_of d)\<rparr>\<rparr>\<rparr>"
  have "budget d' = budget ?d \<or> budget d' = budget (backlight decode ?d)"
    using assms(1) unfolding packetElanV4_def Let_def
    by (auto simp: budget_invoke [OF assms(2)] split: if_splits dest: budget_retry)
  then show ?thesis using budget_backlight [OF assms(2)] by (metis budget_update(1))
qed

lemma budget_dispatch:
  assumes "dispatchPacket decode D d s = Some (d', s')" "keeps_tries decode"
  shows "budget d' = budget d"
  using assms(1)
  by (auto simp: dispatchPacket_def Let_def budget_decoded [OF assms(2)] budget_invoke [OF assms(2)]
      split: if_splits
      dest: budget_focaltech [OF _ assms(2)] budget_v3 [OF _ assms(2)] budget_v4 [OF _ assms(2)])

lemma budget_complete:
  assumes "completePacket decode D pl d s = Some (d', s')" "keeps_tries decode"
  shows "budget d' = budget d"
proof -
  have g: "budget (d\<lparr>tp := (tp d)\<lparr>packetByteCount := 0, endPacketsCount := n\<rparr>\<rparr>) = budget d"
    "budget (d\<lparr>tp := (tp d)\<lparr>packetByteCount := 0, endPacketsCount := n\<rparr>, now := t\<rparr>) = budget d" for n t
    by (simp_all add: budget_def reconnects_def)
  show ?thesis using assms(1)
    by (auto simp: completePacket_def Let_def g split: if_splits prod.splits
        dest!: budget_gate [OF assms(2)] budget_dispatch [OF _ assms(2)])
qed

lemma budget_packets:
  "packets decode D qs d s = Some (d', s') \<Longrightarrow> keeps_tries decode \<Longrightarrow> budget d' = budget d"
proof (induction decode D qs d s rule: packets.induct)
  case (2 decode D q qs d s)
  then obtain e t where e: "completePacket decode D (fst (last q)) (fillBuffer (map snd q) d) s = Some (e, t)"
    "packets decode D qs e t = Some (d', s')" by auto
  have "budget (fillBuffer (map snd q) d) = budget d" by (simp add: budget_def reconnects_def fillBuffer_def)
  then show ?case using budget_complete [OF e(1) 2(3)] 2(1) [OF e(1) refl e(2) 2(3)] by simp
qed simp

lemma keeps_tries_idle [simp]: "keeps_tries idleDecoder"
  by (simp add: keeps_tries_def idleDecoder_def)

section \<open>The gate and the signatures\<close>

text \<open>Stopping the timers of the gesture engine changes neither the gate nor the trace.\<close>

definition keeps_gate :: "'g decoder \<Rightarrow> bool" where
  "keeps_gate decode \<longleftrightarrow> (\<forall>d. gate (decode StopEnhanceTimers d) = gate d \<and>
     calls (decode StopEnhanceTimers d) = calls d)"

definition only_stops :: "'g driver \<Rightarrow> 'g driver \<Rightarrow> bool" where
  "only_stops d d' \<longleftrightarrow> (calls d' = calls d \<or> calls d' = calls d @ [StopEnhanceTimers]) \<and>
     disableTouchpad (gate d') = disableTouchpad (gate d)"

lemma only_stops_polling:
  assumes "keeps_gate decode"
  shows "only_stops d (Process_ACPI_IOREG_Polling decode pl d)"
proof -
  have "gate (invoke decode StopEnhanceTimers e) = gate e \<and>
      calls (invoke decode StopEnhanceTimers e) = calls e @ [StopEnhanceTimers]" for e
    using assms by (simp add: keeps_gate_def invoke_def)
  then show ?thesis
    by (simp add: Process_ACPI_IOREG_Polling_def pollFnKeys_def pollLid_def only_stops_def Let_def
        split: option.splits prod.splits)
qed

lemma gate_disabled:
  assumes "keeps_gate decode" "disableTouchpad (gate d)" "gatePacket decode pl d = (stop, d')"
  shows "stop \<and> only_stops d d'"
proof -
  have m: "only_stops d (snd (gateExternalMouse pl d)) \<and> calls (snd (gateExternalMouse pl d)) = calls d"
    by (simp add: gateExternalMouse_def detectExternalMouse_def only_stops_def Let_def)
  have p: "only_stops e (snd (gatePolling decode pl e))" for e
    using only_stops_polling [OF assms(1)] by (simp add: gatePolling_def Let_def) (simp add: only_stops_def)
  have a: "disableTouchpad g \<Longrightarrow> fst (gateAccidental t g) \<and> disableTouchpad (snd (gateAccidental t g))" for t g
    by (simp add: gateAccidental_def Let_def)
  let ?e = "snd (gateExternalMouse pl d)" and ?f = "snd (gatePolling decode pl (snd (gateExternalMouse pl d)))"
  have f: "only_stops d ?f" using m p [of ?e] by (auto simp: only_stops_def)
  have g: "disableTouchpad (gate ?f)" using f assms(2) by (simp add: only_stops_def)
  show ?thesis
    using assms(3) m f a [OF g, of "now ?f"] assms(2)
    by (auto simp: gatePacket_def only_stops_def split: prod.splits if_splits)
qed

text \<open>A status packet one byte early never has the constant bits of a packet without checksum.\<close>

lemma misaligned_not_sane: "misaligned p \<Longrightarrow> \<not> elanV4Sane False p"
  by (simp add: misaligned_def elanV4Sane_def)

lemma misaligned_sane_crc: "misaligned p \<Longrightarrow> elanV4Sane True p \<and> elanV4Type tpt p = PACKET_STATUS"
  by (simp add: misaligned_def elanV4Sane_def elanV4Type_def)

section \<open>Properties\<close>

text \<open>
  C10: The packet buffer is never overrun: from a driver in order (such as start leaves it), after any
  stream of bytes, with any answers of the platform and of the device during reconnections, and whatever
  the decoders do short of touching the framing, every byte has been stored inside the six bytes of the
  buffer and fewer bytes are pending than a packet has.
\<close>

theorem packet_buffer_never_overrun:
  assumes "keeps_framing decode" "buffer_ok d" "interrupts decode D bs d s = Some (d', s')"
  shows "\<not> overrun d' \<and> packetByteCount (tp d') < pktsize (tp d') \<and> pktsize (tp d') \<le> 6 \<and>
    length (packet_of d') = 6 \<and> pktsize (tp d') = pktsize (tp d) \<and> hw_version (tp d') = hw_version (tp d)"
proof -
  have ok: "buffer_ok d'" and eq: "pktsize (tp d') = pktsize (tp d)" "hw_version (tp d') = hw_version (tp d)"
    using interrupts_buffer_ok [OF assms(3,1,2)] by auto
  then have "pktsize (tp d') \<le> 6" by (auto simp: buffer_ok_def)
  with ok eq show ?thesis by (simp add: buffer_ok_def)
qed

text \<open>
  C4: Framing refines its specification: on a stream that is a list of whole packets (of the packet size,
  not starting with a zero byte or a reset announcement, and in step) the byte-wise handler does exactly
  what processing the packets one after the other does.
\<close>

theorem stream_is_packets:
  assumes "keeps_framing decode" "buffer_ok d" "packetByteCount (tp d) = 0"
    "\<forall>q \<in> set qs. length q = unat (pktsize (tp d)) \<and> regular (map snd q)"
  shows "interrupts decode D (concat qs) d s = packets decode D qs d s"
  by (rule interrupts_stream [OF assms])

text \<open>Version 2 driver on which the examples run, and a stretch of bytes at one time.\<close>

definition exampleDriver :: "unit driver" where
  "exampleDriver = driver_init (touchpad_init\<lparr>touchpadVendor := STD_ELAN_TECH, hw_version := STD_ELAN_HW_V2,
     pktsize := 6\<rparr>)"

definition quietBytes :: "u8 list \<Rightarrow> (platform \<times> u8) list" where
  "quietBytes bs = map (Pair quietPlatform) bs"

lemma exampleDriver_ok: "buffer_ok exampleDriver" "packetByteCount (tp exampleDriver) = 0"
  "pktsize (tp exampleDriver) = 6"
  by (simp_all add: exampleDriver_def driver_init_def buffer_ok_def touchpad_init_def)

theorem packet_buffer_never_overrun_witness:
  "\<exists>d' s'. interrupts idleDecoder mouseDevice (quietBytes [0x84, 1, 2, 2, 3, 4, 0x94, 7]) exampleDriver (init [])
      = Some (d', s') \<and> packetByteCount (tp d') = 2 \<and> \<not> overrun d'"
proof -
  have "map_option (\<lambda>(d, s). packetByteCount (tp d))
      (interrupts idleDecoder mouseDevice (quietBytes [0x84, 1, 2, 2, 3, 4, 0x94, 7]) exampleDriver (init []))
    = Some 2" by code_simp
  then obtain d' s' where r: "interrupts idleDecoder mouseDevice (quietBytes [0x84, 1, 2, 2, 3, 4, 0x94, 7])
      exampleDriver (init []) = Some (d', s')" "packetByteCount (tp d') = 2" by auto
  show ?thesis
    using packet_buffer_never_overrun [OF keeps_idle exampleDriver_ok(1) r(1)] r by simp
qed

theorem stream_is_packets_witness:
  "interrupts idleDecoder mouseDevice (concat [quietBytes [0x84, 1, 2, 2, 3, 4], quietBytes [0x94, 0, 0, 2, 0, 0]])
      exampleDriver (init []) =
   packets idleDecoder mouseDevice [quietBytes [0x84, 1, 2, 2, 3, 4], quietBytes [0x94, 0, 0, 2, 0, 0]]
      exampleDriver (init [])"
  by (rule stream_is_packets [OF keeps_idle exampleDriver_ok(1,2)])
     (simp add: exampleDriver_ok(3) quietBytes_def regular_def misaligned_def)

text \<open>
  C35: A reset announcement brings the framing back into step: when the bytes 0xAA 0x00 arrive at the start
  of a packet, the touchpad is reconnected exactly once, no decoder is called, and the next byte starts a
  new packet.
\<close>

theorem reset_announcement_reconnects:
  assumes "packetByteCount (tp d) = 1" "packet_of d ! 0 = kSC_Reset" "length (packet_of d) = 6"
    "Touchpad_interruptOccurred decode D pl 0x00 d s = Some (d', s')"
  shows "packetByteCount (tp d') = 0 \<and> endPacketsCount (tp d') = 0 \<and> calls d' = calls d @ [Reconnect] \<and>
    (\<exists>t'. Reconnect_touchpad D (tp (storeByte 0x00 d)) s = Some (t', s'))"
proof -
  have st: "invalidOrReset (tp (storeByte 0x00 d))" "packetByteCount (tp (storeByte 0x00 d)) = 2"
    "packet_of (storeByte 0x00 d) ! 0 = kSC_Reset" "calls (storeByte 0x00 d) = calls d"
    using assms(1-3) by (simp_all add: storeByte_def Let_def invalidOrReset_def)
  then show ?thesis using assms(4)
    by (auto simp: Touchpad_interruptOccurred_def handleInvalidOrReset_def reconnect_def Let_def)
qed

text \<open>An offline controller: reconnecting fails at once.\<close>

theorem reset_announcement_reconnects_witness:
  "\<exists>d' s'. interrupts idleDecoder mouseDevice (quietBytes [0xAA]) exampleDriver ((init [])\<lparr>hardwareOffline := True\<rparr>) =
      Some (d', s') \<and> (\<exists>d'' s''. Touchpad_interruptOccurred idleDecoder mouseDevice quietPlatform 0x00 d' s' =
        Some (d'', s'') \<and> calls d'' = [Reconnect] \<and> packetByteCount (tp d'') = 0)"
proof -
  let ?d = "storeByte 0xAA exampleDriver" and ?s = "(init [])\<lparr>hardwareOffline := True\<rparr>"
  have one: "interrupts idleDecoder mouseDevice (quietBytes [0xAA]) exampleDriver ?s = Some (?d, ?s)"
    by (simp add: quietBytes_def Touchpad_interruptOccurred_def storeByte_def Let_def invalidOrReset_def
        exampleDriver_def driver_init_def touchpad_init_def)
  have d: "packetByteCount (tp ?d) = 1" "packet_of ?d ! 0 = kSC_Reset" "length (packet_of ?d) = 6" "calls ?d = []"
    by (simp_all add: storeByte_def Let_def exampleDriver_def driver_init_def touchpad_init_def)
  have "Touchpad_interruptOccurred idleDecoder mouseDevice quietPlatform 0x00 ?d ?s \<noteq> None" by code_simp
  then obtain d'' s'' where r: "Touchpad_interruptOccurred idleDecoder mouseDevice quietPlatform 0x00 ?d ?s =
    Some (d'', s'')" by auto
  from reset_announcement_reconnects [OF d(1-3) r] one r d(4) show ?thesis by auto
qed

text \<open>
  C36: Reconnections are bounded: over any stream of packets every reconnection made because a packet does
  not look like one of absolute mode uses up one of the tries left, so that at most as many happen as tries
  were left at the start.
\<close>

theorem reconnections_bounded:
  assumes "packets decode D qs d s = Some (d', s')" "keeps_tries decode"
  shows "reconnects d' + unat (modeSetTries (tp d')) = reconnects d + unat (modeSetTries (tp d)) \<and>
    reconnects d' \<le> reconnects d + unat (modeSetTries (tp d))"
  using budget_packets [OF assms] by (simp add: budget_def)

theorem reconnections_bounded_witness:
  "\<exists>d' s'. packets idleDecoder mouseDevice (replicate 5 (quietBytes [0x08, 1, 1, 0, 0, 0]))
      (exampleDriver\<lparr>tp := (tp exampleDriver)\<lparr>hw_version := STD_ELAN_HW_V3\<rparr>\<rparr>)
      ((init [])\<lparr>hardwareOffline := True\<rparr>) = Some (d', s') \<and>
    reconnects d' = 3 \<and> modeSetTries (tp d') = 0"
proof -
  let ?d = "exampleDriver\<lparr>tp := (tp exampleDriver)\<lparr>hw_version := STD_ELAN_HW_V3\<rparr>\<rparr>"
    and ?qs = "replicate 5 (quietBytes [0x08, 1, 1, 0, 0, 0])" and ?s = "(init [])\<lparr>hardwareOffline := True\<rparr>"
  have "map_option (\<lambda>(d, s). modeSetTries (tp d)) (packets idleDecoder mouseDevice ?qs ?d ?s) = Some 0"
    by code_simp
  then obtain d' s' where r: "packets idleDecoder mouseDevice ?qs ?d ?s = Some (d', s')" "modeSetTries (tp d') = 0"
    by auto
  have "reconnects ?d = 0" "unat (modeSetTries (tp ?d)) = 3"
    by (simp_all add: exampleDriver_def driver_init_def touchpad_init_def reconnects_def)
  with reconnections_bounded [OF r(1) keeps_tries_idle] r show ?thesis by auto
qed

text \<open>
  A disabled touchpad is silent: while the driver is told to disable the touchpad a complete packet
  reaches no decoder and causes no device access; at most the timers of the gesture engine are stopped.
\<close>

theorem disabled_touchpad_is_silent:
  assumes "keeps_gate decode" "disableTouchpad (gate d)" "completePacket decode D pl d s = Some (d', s')"
  shows "s' = s \<and> (calls d' = calls d \<or> calls d' = calls d @ [StopEnhanceTimers])"
proof -
  let ?d = "\<lambda>n. d\<lparr>tp := (tp d)\<lparr>packetByteCount := 0, endPacketsCount := n\<rparr>, now := uptime pl\<rparr>"
  have g: "stop \<and> only_stops d e" if "gatePacket decode pl (?d n) = (stop, e)" for n stop e
    using gate_disabled [OF assms(1) _ that] assms(2) by (simp add: only_stops_def)
  show ?thesis using assms(3)
    by (auto simp: completePacket_def Let_def only_stops_def split: if_splits prod.splits dest!: g)
qed

theorem disabled_touchpad_is_silent_witness:
  "\<exists>d'. completePacket idleDecoder mouseDevice quietPlatform
      (exampleDriver\<lparr>gate := gate_init\<lparr>disableTouchpad := True\<rparr>\<rparr>) (init []) = Some (d', init []) \<and>
    calls d' \<in> {[], [StopEnhanceTimers]}"
proof -
  let ?d = "exampleDriver\<lparr>gate := gate_init\<lparr>disableTouchpad := True\<rparr>\<rparr>"
  have "completePacket idleDecoder mouseDevice quietPlatform ?d (init []) \<noteq> None" by code_simp
  then obtain d' s' where r: "completePacket idleDecoder mouseDevice quietPlatform ?d (init []) = Some (d', s')"
    by auto
  have "keeps_gate idleDecoder" by (simp add: keeps_gate_def idleDecoder_def)
  from disabled_touchpad_is_silent [OF this _ r] r show ?thesis
    by (simp add: exampleDriver_def driver_init_def)
qed

text \<open>
  The repair of a status packet that arrives one byte early needs checksums: without them such a packet
  fails the check of its constant bits, so it is never repaired but uses up a reconnection; with them it is
  repaired in place, the decoder sees the packet with 0x34 and the finger mask in front, and the next five
  bytes complete the next packet.
\<close>

theorem early_status_packet:
  assumes "misaligned (packet_of d)" "length (packet_of d) = 6" "\<not> autoBackLight (tp d)"
  shows "if crcEnabled (elanTPad (tp d)) then \<exists>e. packetElanV4 decode D d s =
      Some (invoke decode (ElanV4FocalTech PACKET_STATUS [0x34, packet_of d ! 0, 0, 0x10, 0, 0]) e, s) \<and>
      packetByteCount (tp e) = packetByteCount (tp d) + 1
    else packetElanV4 decode D d s =
      countThenRetry D (d\<lparr>tp := (tp d)\<lparr>elanTPad := (elanTPad (tp d))\<lparr>sanityCheck := False\<rparr>\<rparr>\<rparr>) s"
proof -
  let ?p = "packet_of d" and ?e = "elanTPad (tp d)"
  note m = assms(1)
  have no: "\<not> crcEnabled ?e \<Longrightarrow> packetElanV4 decode D d s =
      countThenRetry D (d\<lparr>tp := (tp d)\<lparr>elanTPad := ?e\<lparr>sanityCheck := False\<rparr>\<rparr>\<rparr>) s"
    using misaligned_not_sane [OF m] by (simp add: packetElanV4_def Let_def)
  obtain x0 x5 where p: "?p = [x0, 0, 0x10, 0, 0, x5]" "x0 \<noteq> 0"
    using m assms(2) by (auto simp: misaligned_def eval_nat_numeral length_Suc_conv)
  have "crcEnabled ?e \<Longrightarrow> \<exists>e. packetElanV4 decode D d s =
      Some (invoke decode (ElanV4FocalTech PACKET_STATUS [0x34, ?p ! 0, 0, 0x10, 0, 0]) e, s) \<and>
      packetByteCount (tp e) = packetByteCount (tp d) + 1"
    using m misaligned_sane_crc [OF m, of "supportsTrackPoint ?e"] assms(3) p
    by (auto simp: packetElanV4_def Let_def backlight_def realign_def)
  with no show ?thesis by simp
qed

theorem early_status_packet_witness:
  "\<exists>e. packetElanV4 idleDecoder mouseDevice (fillBuffer [0x01, 0, 0x10, 0, 0, 0] (exampleDriver\<lparr>tp :=
      (tp exampleDriver)\<lparr>elanTPad := (elanTPad (tp exampleDriver))\<lparr>crcEnabled := True\<rparr>\<rparr>\<rparr>)) (init []) =
    Some (invoke idleDecoder (ElanV4FocalTech PACKET_STATUS [0x34, 0x01, 0, 0x10, 0, 0]) e, init [])"
proof -
  let ?d = "fillBuffer [0x01, 0, 0x10, 0, 0, 0] (exampleDriver\<lparr>tp :=
      (tp exampleDriver)\<lparr>elanTPad := (elanTPad (tp exampleDriver))\<lparr>crcEnabled := True\<rparr>\<rparr>\<rparr>)"
  have "misaligned (packet_of ?d)" "length (packet_of ?d) = 6" "\<not> autoBackLight (tp ?d)"
    "crcEnabled (elanTPad (tp ?d))" "packet_of ?d ! 0 = 0x01"
    by (simp_all add: fillBuffer_def exampleDriver_def driver_init_def touchpad_init_def misaligned_def)
  from early_status_packet [OF this(1-3), of idleDecoder mouseDevice "init []"] this(4,5) show ?thesis by auto
qed

text \<open>
  A reconnection never adapts the framing: it may detect another vendor (a plain mouse in the example),
  but packet size and hardware version stay those of the vendor found at start, so that the packets of the
  newly detected device are still collected and decoded as the old ones.
\<close>

theorem reconnect_keeps_old_framing:
  assumes "Reconnect_touchpad D t s = Some (t', s')"
  shows "pktsize t' = pktsize t \<and> hw_version t' = hw_version t \<and> packetBuffer t' = packetBuffer t \<and>
    modeSetTries t' = modeSetTries t \<and> (packetByteCount t' = packetByteCount t \<or> packetByteCount t' = 0)"
  by (rule reconnect_touchpad_frame [OF assms]) (auto simp: same_frame_def)

text \<open>
  The input of a plain mouse while it is reset, detected, initialised and enabled.
\<close>

definition mouse_reconnect_input :: "u8 list" where
  "mouse_reconnect_input = query_input 2 [0xAA, 0, 0] @ query_input 1 [] @ query_input 4 [0, 0, 100] @
     query_input 9 [] @ query_input 1 [0, 0, 100] @ mouse_start_input @
     0 # reply_input 0x45 @ 0 # reply_input 0x45 @ [0, 0] @ query_input 1 []"

declare setCommandByteLoop.simps [code]

theorem reconnect_keeps_old_framing_witness:
  "let t = touchpad_init\<lparr>touchpadVendor := STD_ELAN_TECH, hw_version := STD_ELAN_HW_V4, pktsize := 6\<rparr>
   in \<exists>t' s'. Reconnect_touchpad mouseDevice t (init mouse_reconnect_input) = Some (t', s') \<and>
     touchpadVendor t' = STD_MOUSE \<and> pktsize t' = 6 \<and> hw_version t' = STD_ELAN_HW_V4"
proof -
  let ?t = "touchpad_init\<lparr>touchpadVendor := STD_ELAN_TECH, hw_version := STD_ELAN_HW_V4, pktsize := 6\<rparr>"
  have "map_option (\<lambda>(t, s). touchpadVendor t) (Reconnect_touchpad mouseDevice ?t (init mouse_reconnect_input)) =
    Some STD_MOUSE" by code_simp
  then obtain t' s' where r: "Reconnect_touchpad mouseDevice ?t (init mouse_reconnect_input) = Some (t', s')"
    "touchpadVendor t' = STD_MOUSE" by auto
  from reconnect_keeps_old_framing [OF r(1)] r show ?thesis by (simp add: Let_def)
qed

end
