(* ===== verification/Touchpad_Mouse.thy ===== *)
theory Touchpad_Mouse
  imports Touchpad_PacketProps
begin

text \<open>
  The decoder of plain mouse packets (ApplePS2SmartTouchpad::processMousePacket): buttons and
  dragging, motion, and scrolling or swiping while the control key is held. The scroll factor is a
  floating-point preference; \<open>scale\<close> stands for the multiplication by it and the conversion of the
  result to a 16-bit integer. \<open>clock k\<close> is what the k-th reading of the system clock returns.
\<close>

section \<open>State and events\<close>


datatype pointer_event =
    RelativePointer int int u32
  | ScrollWheel int int int
  | AbsolutePointer int int u32
  | NotifyKeyboard u32

record mouse_state =
  dragPackets :: u8
  lastButton :: u8
  isCtrlScrollSwipe :: bool
  isSwipeDone :: bool
  enableLRSwipe :: bool
  lastSwipeTime :: u64
  isDragging :: bool
  rightClick :: bool
  isDragEnabled :: bool
  isDragLockEnabled :: bool
  isHScrollEnabled :: bool
  isVScrollEnabled :: bool
  lastDataTime :: u64
  mnow :: u64
  readings :: nat
  events :: "pointer_event list"

definition readClock :: "(nat \<Rightarrow> u64) \<Rightarrow> 'm mouse_state_scheme \<Rightarrow> 'm mouse_state_scheme" where
  "readClock clock m = m\<lparr>mnow := clock (readings m), readings := readings m + 1\<rparr>"

text \<open>The inline methods that dispatch to IOHIPointing read the clock first.\<close>

definition dispatchRelativePointerPosition ::
  "(nat \<Rightarrow> u64) \<Rightarrow> int \<Rightarrow> int \<Rightarrow> u32 \<Rightarrow> 'm mouse_state_scheme \<Rightarrow> 'm mouse_state_scheme" where
  "dispatchRelativePointerPosition clock dx dy buttonState m =
     (let m = readClock clock m in m\<lparr>events := events m @ [RelativePointer dx dy buttonState]\<rparr>)"

definition dispatchScrollDifference ::
  "(nat \<Rightarrow> u64) \<Rightarrow> int \<Rightarrow> int \<Rightarrow> int \<Rightarrow> 'm mouse_state_scheme \<Rightarrow> 'm mouse_state_scheme" where
  "dispatchScrollDifference clock a1 a2 a3 m =
     (let m = readClock clock m in m\<lparr>events := events m @ [ScrollWheel a1 a2 a3]\<rparr>)"

definition notifyKeyboard :: "u32 \<Rightarrow> 'm mouse_state_scheme \<Rightarrow> 'm mouse_state_scheme" where
  "notifyKeyboard code m = m\<lparr>events := events m @ [NotifyKeyboard code]\<rparr>"

section \<open>Motion and scroll levels\<close>

text \<open>The nine-bit deltas: sign extension on 32 bits, then truncation to SInt16.\<close>

definition mouseDx :: "u8 list \<Rightarrow> 16 word" where
  "mouseDx p = ucast ((if p ! 0 AND 0x10 \<noteq> 0 then 0xffffff00 else 0 :: u32) OR ucast (p ! 1))"

definition mouseDy :: "u8 list \<Rightarrow> 16 word" where
  "mouseDy p = ucast (- ((if p ! 0 AND 0x20 \<noteq> 0 then 0xffffff00 else 0 :: u32) OR ucast (p ! 2)))"

definition scrollLevel :: "bool \<Rightarrow> int \<Rightarrow> int" where
  "scrollLevel enabled delta =
     (if \<not> enabled then 0
      else let a = \<bar>delta\<bar>;
               l = (if 1 \<le> a \<and> a \<le> 5 then -2 else if 6 \<le> a \<and> a \<le> 15 then -5
                    else if 16 \<le> a \<and> a \<le> 30 then -10 else -15)
           in if delta < 0 then 0 - l else l)"

section \<open>The decoder\<close>

definition mouseLeftButton :: "(nat \<Rightarrow> u64) \<Rightarrow> 'm mouse_state_scheme \<Rightarrow> 'm mouse_state_scheme" where
  "mouseLeftButton clock m =
     (let m = (if dragPackets m > 5 \<and> isDragging m \<and> lastButton m = 0
               then m\<lparr>isDragging := False, dragPackets := 0\<rparr>
               else if dragPackets m < 10 then m\<lparr>dragPackets := dragPackets m + 1\<rparr> else m)
      in if isCtrlScrollSwipe m then
           (dispatchRelativePointerPosition clock 0 0 0
             (dispatchRelativePointerPosition clock 0 0 0x2 m))\<lparr>rightClick := True\<rparr>
         else if rightClick m then m\<lparr>rightClick := False\<rparr> else m)"

definition mouseButtons :: "u8 list \<Rightarrow> u8" where
  "mouseButtons p =
     (if p ! 0 AND 0x1 \<noteq> 0 then 0x1 else 0) OR (if p ! 0 AND 0x2 \<noteq> 0 then 0x2 else 0) OR
     (if p ! 0 AND 0x4 \<noteq> 0 then 0x4 else 0)"

text \<open>Dragging: the buttons that are reported and the state of the drag lock.\<close>

definition mouseDrag :: "u8 \<Rightarrow> 'm mouse_state_scheme \<Rightarrow> u8 \<times> 'm mouse_state_scheme" where
  "mouseDrag buttons m =
     (let m = m\<lparr>lastButton := buttons\<rparr>;
          m = (if buttons = 0 \<and> \<not> isDragging m then m\<lparr>dragPackets := 0\<rparr> else m);
          (buttons, m) = (if isDragEnabled m \<and> isDragLockEnabled m \<and> dragPackets m > 5
             then let m = (if buttons AND 0x1 \<noteq> 0 then m\<lparr>isDragging := True\<rparr> else m)
                  in (if isDragging m then buttons OR 0x1 else buttons, m)
             else (buttons, m))
      in (if \<not> isDragEnabled m \<and> dragPackets m > 1 then 0 else buttons, m))"

definition mouseSwipeTimeout :: "(nat \<Rightarrow> u64) \<Rightarrow> 'm mouse_state_scheme \<Rightarrow> 'm mouse_state_scheme" where
  "mouseSwipeTimeout clock m =
     (let m = (if \<not> isSwipeDone m then m\<lparr>lastSwipeTime := mnow m\<rparr> else m);
          m = readClock clock m
      in if mnow m - lastSwipeTime m > 250000000 then m\<lparr>isSwipeDone := False\<rparr> else m)"

definition mouseSwipes :: "int \<Rightarrow> int \<Rightarrow> 'm mouse_state_scheme \<Rightarrow> bool" where
  "mouseSwipes dx dy m \<longleftrightarrow> isCtrlScrollSwipe m \<and> enableLRSwipe m \<and> \<not> rightClick m \<and> \<not> isSwipeDone m \<and>
     \<bar>dx\<bar> > \<bar>dy\<bar> \<and> \<bar>dx\<bar> > 15"

definition mouseSwipe :: "(nat \<Rightarrow> u64) \<Rightarrow> int \<Rightarrow> 'm mouse_state_scheme \<Rightarrow> 'm mouse_state_scheme" where
  "mouseSwipe clock dx m =
     (let m = (if dx < 0 then notifyKeyboard kPS2C_Gesture_Backward m
               else if dx > 0 then notifyKeyboard kPS2C_Gesture_Forward m else m);
          m = readClock clock m
      in m\<lparr>lastSwipeTime := mnow m, isSwipeDone := True\<rparr>)"

definition mouseScroll ::
  "(int \<Rightarrow> int) \<Rightarrow> (nat \<Rightarrow> u64) \<Rightarrow> int \<Rightarrow> int \<Rightarrow> u8 \<Rightarrow> 'm mouse_state_scheme \<Rightarrow> 'm mouse_state_scheme" where
  "mouseScroll scale clock dx dy buttons m =
     (let m = (if buttons \<noteq> 0 then dispatchRelativePointerPosition clock 0 0 0 m else m)
      in if \<bar>dy\<bar> > \<bar>dx\<bar> \<and> dx < 8 \<and> dx > -8
         then dispatchScrollDifference clock (scale (scrollLevel (isVScrollEnabled m) dy)) 0 0 m
         else if \<bar>dx\<bar> > \<bar>dy\<bar> \<and> dy < 6 \<and> dy > -6 \<and> \<not> enableLRSwipe m
         then dispatchScrollDifference clock 0 (scale (scrollLevel (isHScrollEnabled m) dx)) 0 m
         else m)"

definition processMousePacket ::
  "(int \<Rightarrow> int) \<Rightarrow> (nat \<Rightarrow> u64) \<Rightarrow> u8 list \<Rightarrow> 'm mouse_state_scheme \<Rightarrow> 'm mouse_state_scheme" where
  "processMousePacket scale clock packet m =
     (let m = (if packet ! 0 AND 0x1 \<noteq> 0 then mouseLeftButton clock m else m);
          dx = sint (mouseDx packet); dy = sint (mouseDy packet);
          (buttons, m) = mouseDrag (mouseButtons packet) m;
          m = mouseSwipeTimeout clock m;
          m = (if mouseSwipes dx dy m then mouseSwipe clock dx m
               else if isCtrlScrollSwipe m \<and> \<not> rightClick m then mouseScroll scale clock dx dy buttons m
               else if \<not> isCtrlScrollSwipe m \<or> rightClick m then
                 dispatchRelativePointerPosition clock dx dy
                   (ucast (if rightClick m then 0x2 else buttons)) m
               else m)
      in m\<lparr>lastDataTime := mnow m\<rparr>)"

text \<open>The decoder of a driver that handles mouse packets itself.\<close>

definition mouseDecoder :: "(int \<Rightarrow> int) \<Rightarrow> (nat \<Rightarrow> u64) \<Rightarrow> mouse_state decoder" where
  "mouseDecoder scale clock c d =
     (case c of
        ProcessMouse p \<Rightarrow> d\<lparr>gestures := processMousePacket scale clock p ((gestures d)\<lparr>mnow := now d\<rparr>),
          now := mnow (processMousePacket scale clock p ((gestures d)\<lparr>mnow := now d\<rparr>))\<rparr>
      | _ \<Rightarrow> d)"

section \<open>Library lemmas\<close>

lemma sign_extended:
  "sint (ucast (0xffffff00 OR ucast (b :: u8) :: u32) :: 16 word) = uint b - 256"
  by (rule byte_cases [where P = "\<lambda>b. sint (ucast (0xffffff00 OR ucast b :: u32) :: 16 word) = uint b - 256"])
     code_simp

lemma sign_extended_neg:
  "sint (ucast (- (0xffffff00 OR ucast (b :: u8)) :: u32) :: 16 word) = 256 - uint b"
  by (rule byte_cases [where P = "\<lambda>b. sint (ucast (- (0xffffff00 OR ucast b) :: u32) :: 16 word) = 256 - uint b"])
     code_simp

lemma unsigned_delta:
  "sint (ucast (ucast (b :: u8) :: u32) :: 16 word) = uint b"
  "sint (ucast (- ucast (b :: u8) :: u32) :: 16 word) = - uint b"
proof -
  show "sint (ucast (ucast (b :: u8) :: u32) :: 16 word) = uint b"
    by (rule byte_cases [where P = "\<lambda>b. sint (ucast (ucast b :: u32) :: 16 word) = uint b"]) code_simp
  show "sint (ucast (- ucast (b :: u8) :: u32) :: 16 word) = - uint b"
    by (rule byte_cases [where P = "\<lambda>b. sint (ucast (- ucast b :: u32) :: 16 word) = - uint b"]) code_simp
qed

lemma mouse_deltas:
  "sint (mouseDx p) = uint (p ! 1) - (if p ! 0 AND 0x10 \<noteq> 0 then 256 else 0)"
  "sint (mouseDy p) = (if p ! 0 AND 0x20 \<noteq> 0 then 256 else 0) - uint (p ! 2)"
  by (simp_all add: mouseDx_def mouseDy_def sign_extended sign_extended_neg unsigned_delta)

lemma mouse_buttons: "mouseButtons p = p ! 0 AND 7"
  unfolding mouseButtons_def
  by (rule byte_cases [where P = "\<lambda>b. (if b AND 0x1 \<noteq> 0 then 0x1 else 0) OR (if b AND 0x2 \<noteq> 0 then 0x2 else 0) OR
     (if b AND 0x4 \<noteq> 0 then 0x4 else 0) = b AND 7"]) code_simp

text \<open>The motion a packet reports, as signed nine-bit numbers with the y axis pointing down.\<close>

definition motion :: "u8 list \<Rightarrow> pointer_event" where
  "motion p = RelativePointer (uint (p ! 1) - (if p ! 0 AND 0x10 \<noteq> 0 then 256 else 0))
     ((if p ! 0 AND 0x20 \<noteq> 0 then 256 else 0) - uint (p ! 2)) (ucast (p ! 0 AND 7))"

text \<open>The pointing mode: no control key, dragging allowed without drag lock.\<close>

definition pointing :: "mouse_state \<Rightarrow> bool" where
  "pointing m \<longleftrightarrow> \<not> isCtrlScrollSwipe m \<and> \<not> rightClick m \<and> isDragEnabled m \<and> \<not> isDragLockEnabled m"

lemma processMousePacket_pointing:
  assumes "pointing m"
  shows "events (processMousePacket scale clock p m) = events m @ [motion p] \<and>
    pointing (processMousePacket scale clock p m)"
proof -
  let ?m = "if p ! 0 AND 0x1 \<noteq> 0 then mouseLeftButton clock m else m"
  obtain b m1 where d: "mouseDrag (mouseButtons p) ?m = (b, m1)" by fastforce
  have l: "pointing ?m" "events ?m = events m"
    using assms by (simp_all add: mouseLeftButton_def pointing_def Let_def)
  have m1: "b = mouseButtons p" "pointing m1" "events m1 = events m"
    using d l by (auto simp: mouseDrag_def pointing_def Let_def split: if_splits)
  let ?t = "mouseSwipeTimeout clock m1"
  have t: "pointing ?t" "events ?t = events m"
    using m1 by (simp_all add: mouseSwipeTimeout_def readClock_def pointing_def Let_def)
  then have "\<not> mouseSwipes dx dy ?t" for dx dy by (simp add: mouseSwipes_def pointing_def)
  with t show ?thesis
    using m1(1) d
    by (simp add: processMousePacket_def Let_def pointing_def dispatchRelativePointerPosition_def readClock_def
        motion_def mouse_deltas mouse_buttons)
qed

section \<open>A mouse on the stream of bytes\<close>

lemma mouse_indices:
  assumes "length p = 3"
  shows "mouseDx (p @ r) = mouseDx p" "mouseDy (p @ r) = mouseDy p" "mouseButtons (p @ r) = mouseButtons p"
    "(p @ r) ! 0 = p ! 0" "processMousePacket scale clock (p @ r) m = processMousePacket scale clock p m"
proof -
  have i: "(p @ r) ! 0 = p ! 0" "(p @ r) ! 1 = p ! 1" "(p @ r) ! 2 = p ! 2"
    using assms by (simp_all add: nth_append)
  show dx: "mouseDx (p @ r) = mouseDx p" and dy: "mouseDy (p @ r) = mouseDy p"
    and b: "mouseButtons (p @ r) = mouseButtons p" and "(p @ r) ! 0 = p ! 0"
    by (simp_all only: mouseDx_def mouseDy_def mouseButtons_def i)
  show "processMousePacket scale clock (p @ r) m = processMousePacket scale clock p m"
    by (simp only: processMousePacket_def dx dy b i)
qed

lemma keeps_mouse [simp]:
  "keeps_framing (mouseDecoder scale clock)" "keeps_tries (mouseDecoder scale clock)"
  "keeps_gate (mouseDecoder scale clock)"
  by (simp_all add: keeps_framing_def keeps_tries_def keeps_gate_def mouseDecoder_def Let_def split: packet_call.split)

text \<open>
  The gate in front of the decoders is open, and a platform that keeps it open when it is polled: no second
  mouse, a function key state that does not switch the touchpad off, and a lid that does not read as closed.
\<close>

definition open_gate :: "input_gate \<Rightarrow> bool" where
  "open_gate g \<longleftrightarrow> (usbMouseDisablesTrackpad g \<longrightarrow> \<not> externalMouseFound g) \<and>
     \<not> isFnKeyDisabledTouchpad g \<and> \<not> lidClosed g \<and> \<not> accidentalInput g \<and> \<not> disableTouchpad g"

definition open_platform :: "platform \<Rightarrow> bool" where
  "open_platform pl \<longleftrightarrow> \<not> externalMouse 0 False (hidKinds pl) \<and> fnKeyEntry pl \<noteq> Some (False, True) \<and>
     lid pl \<noteq> Some (Some 0)"

lemma poll_open:
  assumes "open_gate (gate d)" "open_platform pl"
  shows "\<exists>g t. Process_ACPI_IOREG_Polling decode pl d = d\<lparr>gate := g, now := t\<rparr> \<and> open_gate g"
proof -
  have fn: "\<exists>g. pollFnKeys decode pl d = d\<lparr>gate := g\<rparr> \<and> open_gate g"
  proof -
    consider "fnKeyEntry pl = None" | b where "fnKeyEntry pl = Some (True, b)" | "fnKeyEntry pl = Some (False, False)"
      using assms(2) by (cases "fnKeyEntry pl") (auto simp: open_platform_def)
    then show ?thesis
    proof cases
      case 3
      then show ?thesis using assms(1)
        by (intro exI [of _ "gate d"]) (simp add: pollFnKeys_def open_gate_def)
    qed (use assms(1) in \<open>auto simp: pollFnKeys_def open_gate_def\<close>)
  qed
  have lid: "open_gate (pollLid pl g)" if "open_gate g" for g
    using that assms(2) by (auto simp: pollLid_def open_gate_def open_platform_def split: option.splits)
  obtain g where "(if isAsusNotebook (gate d) then pollFnKeys decode pl d else d) = d\<lparr>gate := g\<rparr>" "open_gate g"
  proof (cases "isAsusNotebook (gate d)")
    case False
    then show thesis using that [of "gate d"] assms(1) by simp
  qed (use fn that in auto)
  then have "Process_ACPI_IOREG_Polling decode pl d = d\<lparr>gate :=
      (if enableLidPolling g then pollLid pl g else g)\<lparr>lastFnKeyStateChkTime := uptimeAcpi pl\<rparr>, now := uptimeAcpi pl\<rparr>"
    and "open_gate (if enableLidPolling g then pollLid pl g else g)"
    using lid [of g] by (simp_all add: Process_ACPI_IOREG_Polling_def)
  moreover have "open_gate (h\<lparr>lastFnKeyStateChkTime := t\<rparr>) = open_gate h" for h t by (simp add: open_gate_def)
  ultimately show ?thesis by blast
qed

lemma gate_open:
  assumes "open_gate (gate d)" "open_platform pl"
  shows "\<exists>g t. gatePacket decode pl d = (False, d\<lparr>gate := g, now := t\<rparr>) \<and> open_gate g"
proof -
  have "\<exists>g t. gateExternalMouse pl d = (False, d\<lparr>gate := g, now := t\<rparr>) \<and> open_gate g"
  proof (cases "usbMouseDisablesTrackpad (gate d)")
    case True
    then have f: "\<not> externalMouseFound (gate d)" using assms(1) by (simp add: open_gate_def)
    show ?thesis
    proof (cases "now d - lastExtMouseStatusCheckTime (gate d) > extMouseCheckPollRate (gate d)")
      case True
      have "gateExternalMouse pl d = (False, d\<lparr>gate := (gate d)\<lparr>externalMouseFound := False,
          lastExtMouseStatusCheckTime := uptimeMouse pl\<rparr>, now := uptimeMouse pl\<rparr>)"
        using True f \<open>usbMouseDisablesTrackpad (gate d)\<close> assms(2)
        by (simp add: gateExternalMouse_def detectExternalMouse_def open_platform_def)
      moreover have "open_gate ((gate d)\<lparr>externalMouseFound := False,
          lastExtMouseStatusCheckTime := uptimeMouse pl\<rparr>)" using assms(1) by (simp add: open_gate_def)
      ultimately show ?thesis by blast
    next
      case False
      then show ?thesis using f assms(1)
        by (intro exI [of _ "gate d"] exI [of _ "now d"]) (simp add: gateExternalMouse_def)
    qed
  next
    case False
    then show ?thesis using assms(1)
      by (intro exI [of _ "gate d"] exI [of _ "now d"]) (simp add: gateExternalMouse_def)
  qed
  then obtain g t where x: "gateExternalMouse pl d = (False, d\<lparr>gate := g, now := t\<rparr>)" "open_gate g" by blast
  let ?d = "d\<lparr>gate := g, now := t\<rparr>"
  have "\<exists>h u. gatePolling decode pl ?d = (False, d\<lparr>gate := h, now := u\<rparr>) \<and> open_gate h"
  proof (cases "isAsusNotebook g \<or> enableLidPolling g")
    case True
    let ?p = "if now ?d - lastFnKeyStateChkTime (gate ?d) > acpiPollRate (gate ?d)
      then Process_ACPI_IOREG_Polling decode pl ?d else ?d"
    have "\<exists>h u. ?p = d\<lparr>gate := h, now := u\<rparr> \<and> open_gate h"
    proof (cases "now ?d - lastFnKeyStateChkTime (gate ?d) > acpiPollRate (gate ?d)")
      case True
      then show ?thesis using poll_open [of ?d pl decode] x(2) assms(2) by auto
    next
      case False
      then show ?thesis using x(2) by auto
    qed
    then obtain h u where "?p = d\<lparr>gate := h, now := u\<rparr>" "open_gate h" by blast
    then show ?thesis using True
      by (intro exI [of _ h] exI [of _ u]) (simp add: gatePolling_def Let_def open_gate_def)
  next
    case False
    then show ?thesis using x(2) by (intro exI [of _ g] exI [of _ t]) (simp add: gatePolling_def)
  qed
  then obtain h u where y: "gatePolling decode pl ?d = (False, d\<lparr>gate := h, now := u\<rparr>)" "open_gate h" by blast
  then show ?thesis using x(1)
    by (intro exI [of _ h] exI [of _ u])
       (simp add: gatePacket_def gateAccidental_def open_gate_def Let_def)
qed

text \<open>A driver in mouse mode between two packets.\<close>

definition mouse_ready_for :: "mouse_state driver \<Rightarrow> bool" where
  "mouse_ready_for d \<longleftrightarrow> hw_version (tp d) = STD_MOUSE_HW \<and> pktsize (tp d) = 3 \<and> length (packet_of d) = 6 \<and>
     packetByteCount (tp d) = 0 \<and> \<not> overrun d \<and> open_gate (gate d) \<and> pointing (gestures d)"

definition moving :: "u8 list \<Rightarrow> bool" where
  "moving p \<longleftrightarrow> length p = 3 \<and> regular p \<and> (p ! 1 \<noteq> 0 \<or> p ! 2 \<noteq> 0)"

lemma mouse_packet:
  assumes "mouse_ready_for d" "moving p" "open_platform pl"
  shows "\<exists>d'. completePacket (mouseDecoder scale clock) D pl (fillBuffer p d) s = Some (d', s) \<and>
    mouse_ready_for d' \<and> events (gestures d') = events (gestures d) @ [motion p]"
proof -
  let ?buf = "p @ drop 3 (packet_of d)"
  have p: "length p = 3" "p ! 1 \<noteq> 0 \<or> p ! 2 \<noteq> 0" using assms(2) by (auto simp: moving_def)
  let ?d = "(fillBuffer p d)\<lparr>tp := (tp d)\<lparr>packetBuffer := ?buf, packetByteCount := 0, endPacketsCount := 0\<rparr>,
     now := uptime pl\<rparr>"
  have dup: "\<not> duplicateEnd t" if "packetBuffer t = ?buf" for t
    using p that by (auto simp: duplicateEnd_def nth_append)
  have g: "open_gate (gate ?d)" "hw_version (tp ?d) = STD_MOUSE_HW" "packet_of ?d = ?buf"
    using assms(1) by (simp_all add: mouse_ready_for_def fillBuffer_def)
  obtain h u where h: "gatePacket (mouseDecoder scale clock) pl ?d = (False, ?d\<lparr>gate := h, now := u\<rparr>)"
      "open_gate h"
    using gate_open [OF g(1) assms(3)] by blast
  have step: "completePacket (mouseDecoder scale clock) D pl (fillBuffer p d) s =
      Some (invoke (mouseDecoder scale clock) (ProcessMouse ?buf) (?d\<lparr>gate := h, now := u\<rparr>), s)"
    using h g p dup
    by (simp add: completePacket_def dispatchPacket_def fillBuffer_def Let_def)
  have "pointing ((gestures d)\<lparr>mnow := t\<rparr>)" for t using assms(1) by (simp add: mouse_ready_for_def pointing_def)
  note pt = processMousePacket_pointing [OF this, of scale clock p]
  have "length ?buf = 6" using assms(1) p by (simp add: mouse_ready_for_def)
  then show ?thesis
    using step pt assms(1) h(2)
    by (simp add: invoke_def mouseDecoder_def mouse_ready_for_def fillBuffer_def mouse_indices [OF p(1)])
qed

lemma mouse_packets:
  assumes "mouse_ready_for d" "\<forall>q \<in> set qs. moving (map snd q) \<and> open_platform (fst (last q))"
  shows "\<exists>d'. packets (mouseDecoder scale clock) D qs d s = Some (d', s) \<and> mouse_ready_for d' \<and>
    events (gestures d') = events (gestures d) @ map (\<lambda>q. motion (map snd q)) qs"
  using assms
proof (induction qs arbitrary: d)
  case (Cons q qs)
  then obtain e where e: "completePacket (mouseDecoder scale clock) D (fst (last q)) (fillBuffer (map snd q) d) s
      = Some (e, s)" "mouse_ready_for e" "events (gestures e) = events (gestures d) @ [motion (map snd q)]"
    using mouse_packet by (metis list.set_intros(1))
  with Cons.IH [OF e(2)] Cons.prems(2) show ?case by simp
qed simp

section \<open>Swipes\<close>

definition is_notify :: "pointer_event \<Rightarrow> bool" where
  "is_notify e = (case e of NotifyKeyboard _ \<Rightarrow> True | _ \<Rightarrow> False)"

abbreviation notifications :: "mouse_state \<Rightarrow> pointer_event list" where
  "notifications m \<equiv> filter is_notify (events m)"

text \<open>A swipe was reported; the state between its report and the time-out.\<close>

definition same_swipe :: "mouse_state \<Rightarrow> mouse_state \<Rightarrow> bool" where
  "same_swipe m m' \<longleftrightarrow> isSwipeDone m' = isSwipeDone m \<and> lastSwipeTime m' = lastSwipeTime m \<and>
     notifications m' = notifications m \<and> readings m \<le> readings m'"

lemma same_swipe_trans: "same_swipe a b \<Longrightarrow> same_swipe b c \<Longrightarrow> same_swipe a c"
  by (simp add: same_swipe_def)

lemma same_swipe_dispatch [simp]:
  "same_swipe m (dispatchRelativePointerPosition clock dx dy b m)"
  "same_swipe m (dispatchScrollDifference clock a1 a2 a3 m)"
  by (simp_all add: same_swipe_def dispatchRelativePointerPosition_def dispatchScrollDifference_def readClock_def
      Let_def is_notify_def)

lemmas mouse_effects = dispatchRelativePointerPosition_def dispatchScrollDifference_def notifyKeyboard_def
  readClock_def

lemma same_swipe_button: "same_swipe m (mouseLeftButton clock m)"
  by (simp add: mouseLeftButton_def mouse_effects same_swipe_def is_notify_def Let_def)

lemma same_swipe_drag: "mouseDrag b m = (b', m') \<Longrightarrow> same_swipe m m'"
  by (auto simp: mouseDrag_def same_swipe_def Let_def split: if_splits)

lemma same_swipe_scroll: "same_swipe m (mouseScroll scale clock dx dy b m)"
  by (simp add: mouseScroll_def mouse_effects same_swipe_def is_notify_def Let_def)

lemma processMousePacket_readings: "readings (m :: mouse_state) \<le> readings (processMousePacket scale clock p m)"
proof -
  have "readings a \<le> readings (mouseLeftButton clock a)"
    "readings a \<le> readings (mouseSwipeTimeout clock a)"
    "readings a \<le> readings (mouseSwipe clock dx a)"
    "readings a \<le> readings (mouseScroll scale clock dx dy b a)"
    "readings a \<le> readings (dispatchRelativePointerPosition clock dx dy c a)" for a :: mouse_state and b c dx dy
    by (simp_all add: mouseLeftButton_def mouseSwipeTimeout_def mouseSwipe_def mouseScroll_def readClock_def
        dispatchRelativePointerPosition_def dispatchScrollDifference_def notifyKeyboard_def Let_def)
  note r = this
  have d: "mouseDrag b a = (b', a') \<Longrightarrow> readings a \<le> readings a'" for a a' :: mouse_state and b b'
    using same_swipe_drag by (auto simp: same_swipe_def)
  show ?thesis
    by (auto simp: processMousePacket_def Let_def split: prod.splits
        intro: order_trans [OF order_trans [OF order_trans [OF r(1) d] r(2)]]
          order_trans [OF order_trans [OF d r(2)]] r)
qed

lemma swipe_step:
  assumes "isSwipeDone m"
    "\<And>k. readings m \<le> k \<Longrightarrow> k < readings (processMousePacket scale clock p m) \<Longrightarrow>
       clock k - lastSwipeTime m \<le> 250000000"
  shows "same_swipe m (processMousePacket scale clock p m)"
proof -
  let ?m = "if p ! 0 AND 0x1 \<noteq> 0 then mouseLeftButton clock m else m" and ?dx = "sint (mouseDx p)"
    and ?dy = "sint (mouseDy p)"
  obtain b m1 where d: "mouseDrag (mouseButtons p) ?m = (b, m1)" by fastforce
  let ?t = "mouseSwipeTimeout clock m1"
  define r where "r = (if mouseSwipes ?dx ?dy ?t then mouseSwipe clock ?dx ?t
    else if isCtrlScrollSwipe ?t \<and> \<not> rightClick ?t then mouseScroll scale clock ?dx ?dy b ?t
    else if \<not> isCtrlScrollSwipe ?t \<or> rightClick ?t then
      dispatchRelativePointerPosition clock ?dx ?dy (ucast (if rightClick ?t then 0x2 else b)) ?t else ?t)"
  have res: "processMousePacket scale clock p m = r\<lparr>lastDataTime := mnow r\<rparr>"
    unfolding processMousePacket_def Let_def d r_def by simp
  have "same_swipe m ?m" using same_swipe_button by (simp add: same_swipe_def)
  from same_swipe_trans [OF this same_swipe_drag [OF d]] have m1: "same_swipe m m1" .
  have t: "readings ?t = Suc (readings m1)" by (simp add: mouseSwipeTimeout_def readClock_def Let_def)
  have "readings ?t \<le> readings r"
    using same_swipe_scroll [of ?t scale clock ?dx ?dy b]
    by (auto simp: r_def mouseSwipe_def readClock_def notifyKeyboard_def Let_def dispatchRelativePointerPosition_def
        same_swipe_def)
  then have "clock (readings m1) - lastSwipeTime m \<le> 250000000"
    using assms(2) [of "readings m1"] m1 res t by (simp add: same_swipe_def)
  then have ts: "same_swipe m1 ?t"
    using m1 assms(1) by (auto simp: same_swipe_def mouseSwipeTimeout_def readClock_def Let_def)
  then have "\<not> mouseSwipes ?dx ?dy ?t" using m1 assms(1) by (simp add: mouseSwipes_def same_swipe_def)
  then have "same_swipe ?t r" using same_swipe_scroll by (auto simp: r_def)
  then have "same_swipe m r" using m1 ts same_swipe_trans by blast
  then show ?thesis by (simp add: res same_swipe_def)
qed

definition processMousePackets ::
  "(int \<Rightarrow> int) \<Rightarrow> (nat \<Rightarrow> u64) \<Rightarrow> u8 list list \<Rightarrow> mouse_state \<Rightarrow> mouse_state" where
  "processMousePackets scale clock = fold (processMousePacket scale clock)"

section \<open>Properties\<close>

text \<open>
  Motion is decoded: in the pointing mode every packet yields exactly one event, the relative motion of
  its two nine-bit signed numbers (the y axis turned round) with the three buttons, and the mode is kept.
\<close>

theorem mouse_motion_decoded:
  assumes "pointing m"
  shows "events (processMousePacket scale clock p m) = events m @
      [RelativePointer (uint (p ! 1) - (if bit (p ! 0) 4 then 256 else 0))
         ((if bit (p ! 0) 5 then 256 else 0) - uint (p ! 2)) (ucast (p ! 0 AND 7))] \<and>
    pointing (processMousePacket scale clock p m)"
proof -
  have "bit b 4 \<longleftrightarrow> b AND 0x10 \<noteq> 0" "bit b 5 \<longleftrightarrow> b AND 0x20 \<noteq> 0" for b :: u8
    by (rule byte_cases [where P = "\<lambda>b. bit b 4 \<longleftrightarrow> b AND 0x10 \<noteq> 0"], code_simp)
       (rule byte_cases [where P = "\<lambda>b. bit b 5 \<longleftrightarrow> b AND 0x20 \<noteq> 0"], code_simp)
  then show ?thesis using processMousePacket_pointing [OF assms, of scale clock p] by (simp add: motion_def)
qed

definition exampleMouse :: mouse_state where
  "exampleMouse = \<lparr>dragPackets = 0, lastButton = 0, isCtrlScrollSwipe = False, isSwipeDone = False,
     enableLRSwipe = True, lastSwipeTime = 0, isDragging = False, rightClick = False, isDragEnabled = True,
     isDragLockEnabled = False, isHScrollEnabled = True, isVScrollEnabled = True, lastDataTime = 0, mnow = 0,
     readings = 0, events = []\<rparr>"

theorem mouse_motion_decoded_witness:
  "events (processMousePacket id (\<lambda>_. 0) [0x39, 0xF0, 0x08] exampleMouse) = [RelativePointer (-16) 248 1]"
proof -
  have "pointing exampleMouse" by (simp add: pointing_def exampleMouse_def)
  note e = mouse_motion_decoded [OF this, of id "\<lambda>_. 0" "[0x39, 0xF0, 0x08]"]
  have "bit (0x39 :: u8) 4" "bit (0x39 :: u8) 5" by code_simp+
  with e show ?thesis by (simp add: exampleMouse_def)
qed

text \<open>
  C22: End to end, a mouse moves the pointer: a driver that found a plain mouse and is between two packets,
  given any stream of the bytes of whole packets that move, passes on one event per packet, in order, with the
  motion and the buttons of that packet, and needs no access to the device. This is so while the driver accepts
  input and only points: the touchpad is neither switched off nor off after typing, no second mouse, function
  key or lid reads as a reason to close the gate, under whatever options these are polled; dragging is allowed,
  without drag lock; and no control key or right click is held.
\<close>

theorem mouse_stream:
  assumes "mouse_ready_for d" "\<forall>q \<in> set qs. moving (map snd q) \<and> open_platform (fst (last q))"
  shows "\<exists>d'. interrupts (mouseDecoder scale clock) D (concat qs) d s = Some (d', s) \<and> mouse_ready_for d' \<and>
    events (gestures d') = events (gestures d) @ map (\<lambda>q. motion (map snd q)) qs"
proof -
  have "buffer_ok d" "packetByteCount (tp d) = 0" using assms(1) by (auto simp: mouse_ready_for_def buffer_ok_def)
  moreover have "\<forall>q \<in> set qs. length q = unat (pktsize (tp d)) \<and> regular (map snd q)"
    using assms by (simp add: mouse_ready_for_def moving_def)
  ultimately have "interrupts (mouseDecoder scale clock) D (concat qs) d s =
      packets (mouseDecoder scale clock) D qs d s"
    by (intro interrupts_stream) simp_all
  with mouse_packets [OF assms] show ?thesis by metis
qed

text \<open>With the options of the property list: the lid is polled.\<close>

definition exampleMouseDriver :: "mouse_state driver" where
  "exampleMouseDriver = \<lparr>tp = touchpad_init\<lparr>touchpadVendor := STD_MOUSE, hw_version := STD_MOUSE_HW, pktsize := 3\<rparr>,
     gate = gate_init, now = 0, gestures = exampleMouse, overrun = False, calls = []\<rparr>"

theorem mouse_stream_witness:
  "\<exists>d'. interrupts (mouseDecoder id (\<lambda>_. 0)) mouseDevice (quietBytes [0x08, 3, 0, 0x29, 0, 0xFF])
      exampleMouseDriver (init []) = Some (d', init []) \<and>
    events (gestures d') = [RelativePointer 3 0 0, RelativePointer 0 1 1]"
proof -
  let ?qs = "[quietBytes [0x08, 3, 0], quietBytes [0x29, 0, 0xFF]]"
  have d: "mouse_ready_for exampleMouseDriver"
    by (simp add: mouse_ready_for_def exampleMouseDriver_def touchpad_init_def open_gate_def gate_init_def
        pointing_def exampleMouse_def)
  have q: "\<forall>q \<in> set ?qs. moving (map snd q) \<and> open_platform (fst (last q))"
    by (simp add: moving_def regular_def quietBytes_def open_platform_def quietPlatform_def)
  have m: "map (\<lambda>q. motion (map snd q)) ?qs = [RelativePointer 3 0 0, RelativePointer 0 1 1]"
    by (simp add: motion_def quietBytes_def)
  have "concat ?qs = quietBytes [0x08, 3, 0, 0x29, 0, 0xFF]" by (simp add: quietBytes_def)
  moreover have "events (gestures exampleMouseDriver) = []" by (simp add: exampleMouseDriver_def exampleMouse_def)
  ultimately show ?thesis
    using mouse_stream [OF d q, of id "\<lambda>_. 0" mouseDevice "init []"] unfolding m by auto
qed

text \<open>
  Swipes are rate limited: once a swipe was reported, whatever packets follow and whatever keys or buttons
  are held, no second notification is sent as long as every reading of the clock lies within 250 ms of it.
\<close>

theorem swipes_are_rate_limited:
  assumes "isSwipeDone m"
    "\<forall>k. readings m \<le> k \<longrightarrow> k < readings (processMousePackets scale clock ps m) \<longrightarrow>
       clock k - lastSwipeTime m \<le> 250000000"
  shows "notifications (processMousePackets scale clock ps m) = notifications m \<and>
    isSwipeDone (processMousePackets scale clock ps m) \<and>
    lastSwipeTime (processMousePackets scale clock ps m) = lastSwipeTime m"
proof -
  have mono: "readings e \<le> readings (processMousePackets scale clock qs e)" for qs e
    by (induction qs arbitrary: e) (auto simp: processMousePackets_def intro: order_trans processMousePacket_readings)
  have "same_swipe m (processMousePackets scale clock ps m)"
    using assms
  proof (induction ps arbitrary: m)
    case (Cons p ps)
    let ?e = "processMousePacket scale clock p m"
    have le: "readings ?e \<le> readings (processMousePackets scale clock (p # ps) m)"
      using mono [of ?e ps] by (simp add: processMousePackets_def)
    have "same_swipe m ?e" by (rule swipe_step) (use Cons.prems le in auto)
    moreover from this have "same_swipe ?e (processMousePackets scale clock ps ?e)"
      using Cons.prems by (intro Cons.IH) (auto simp: same_swipe_def processMousePackets_def)
    ultimately show ?case using same_swipe_trans by (simp add: processMousePackets_def)
  qed (simp add: processMousePackets_def same_swipe_def)
  then show ?thesis using assms(1) by (simp add: same_swipe_def)
qed

theorem swipes_are_rate_limited_witness:
  "let m = processMousePacket id (\<lambda>_. 5) [0x08, 40, 0] (exampleMouse\<lparr>isCtrlScrollSwipe := True\<rparr>)
   in events m = [NotifyKeyboard kPS2C_Gesture_Forward] \<and>
     notifications (processMousePackets id (\<lambda>_. 5) [[0x08, 60, 0], [0x18, 0xC0, 0]] m) =
       [NotifyKeyboard kPS2C_Gesture_Forward]"
proof -
  let ?m = "processMousePacket id (\<lambda>_. 5) [0x08, 40, 0] (exampleMouse\<lparr>isCtrlScrollSwipe := True\<rparr>)"
  have "isSwipeDone ?m" "events ?m = [NotifyKeyboard kPS2C_Gesture_Forward]" "lastSwipeTime ?m = 5" by code_simp+
  then show ?thesis
    using swipes_are_rate_limited [of ?m id "\<lambda>_. 5" "[[0x08, 60, 0], [0x18, 0xC0, 0]]"]
    by (simp add: is_notify_def Let_def)
qed

end
