(* ===== verification/Touchpad_Touch.thy ===== *)
theory Touchpad_Touch
  imports Touchpad_Mouse
begin

text \<open>
  The touch state the packet decoders of the touchpad driver share (SmartTouchpadFeatures.h), and the
  methods they all use: change of the number of fingers, physical buttons, edge swipes of two fingers and
  the trackpoint. The gesture engine behind the decoders (Process_singlefinger_touch and so on) is the
  parameter \<open>engine\<close>: what a call of it does to the driver; its own state is the record extension. What
  is done to the timers is kept as a trace.
\<close>

section \<open>State\<close>

datatype touch_mode =
    MODE_IDLE | MODE_MOVE | MODE_VSCROLL | MODE_HSCROLL | MODE_CSCROLL | MODE_EDGE_VSCROLL | MODE_EDGE_HSCROLL
  | MODE_CIR_HSCROLL | MODE_CIR_VSCROLL | MODE_CONT_SCROLL | MODE_5_FING_PINCH | MODE_5_FING_TAP
  | MODE_4_FING_TAP | MODE_3_FING_TAP | MODE_2_FING_TAP | MODE_1_FING_TAP | MODE_CORNER_TAP | MODE_BUTTONS
  | MODE_FIVE_FING_PRESS | MODE_FOUR_FING_PRESS | MODE_THREE_FING_PRESS | MODE_TWO_FING_PRESS | MODE_ROTATE
  | MODE_ZOOM | MODE_MUL_TOUCH_3 | MODE_MUL_TOUCH_4 | MODE_TOP_EDGE_SWIPE | MODE_BOTTOM_EDGE_SWIPE
  | MODE_LEFT_EDGE_SWIPE | MODE_RIGHT_EDGE_SWIPE | MODE_FEATURE_TOGGLE | MODE_4_FING_PINCH | MODE_PALM

text \<open>The type FingerDataStruct: position, last position, start, and total deltas of a finger.\<close>

record finger =
  posX :: u16
  posY :: u16
  lastX :: u16
  lastY :: u16
  startX :: u16
  startY :: u16
  tdx :: u32
  tdy :: u32
  sdx :: u32
  sdy :: u32
  fpressure :: u8
  fwidth :: u8

record delta_sample =
  skippedX :: u16
  skippedY :: u16
  lastDX1 :: u16
  lastDX2 :: u16
  lastDY1 :: u16
  lastDY2 :: u16
  lastSDX :: u16
  lastSDY :: u16
  samplePressure :: u8

text \<open>Values that a change of the number of fingers resets.\<close>

record smoothing =
  cSample :: u8
  skipSample :: u8
  pSmoothX :: u32
  pSmoothY :: u32
  pDx :: u32
  pDy :: u32
  pLastDx :: u32
  pLastDy :: u32
  zoomDx :: u16
  zoomDy :: u16
  scrollTotalDx :: u32
  scrollTotalDy :: u32
  maxPressDtd :: u8

record edge_config =
  hasEdgeSwipes :: bool
  edgeFingers :: u8
  has2WayEdgeSwipes :: bool
  topEdge :: u8
  bottomEdge :: u8
  rightEdge :: u8
  leftEdge :: u8
  edgeHArea :: u16
  edgeVArea :: u16
  nonEdgeHArea :: u16
  nonEdgeVArea :: u16
  edgeHDistance :: u16
  edgeVDistance :: u16

text \<open>Calls of the gesture engine.\<close>

datatype touch_call =
    SingleFinger int int int
  | TwoFingers int int int int
  | MultiFingers int int int
  | TouchEnd
  | ClickPadButtons "u8 list" u8 int u8
  | ClickPad2F "u8 list" u8 int int int int

text \<open>Timers of the driver and what is done to them.\<close>

datatype timer = PointerTimer | ScrollTimer | FeatureTimer | KBackLightTimer | ButtonDragTimer

datatype timer_call = SetTimeoutMS timer nat | CancelTimeout timer

text \<open>
  \<open>oob\<close> records an access outside the array of six fingers, \<open>hung\<close> a call that never returns, \<open>touchCalls\<close> and \<open>timerCalls\<close> are traces. The members of _button, _drag, _swipe, _palm
  and so on are listed flat; \<open>w\<close> to \<open>secondary_wait\<close> are members of _synTPad, \<open>singleFingerReports\<close> one of
  _elanTPad.
\<close>

record touch = mouse_state +
  fing :: "finger list"
  pid :: int
  sid :: int
  lastFingers :: u8
  palmMinPressure :: u8
  palmMinWidth :: u8
  palmDetectionEnabled :: bool
  palmDetected :: bool
  showPressWidth :: bool
  touchmode :: touch_mode
  gestureTime :: u64
  clickTimeout :: u64
  swipeDirection :: u8
  isEdgeGesture :: bool
  isAppSwitchDone :: bool
  edges :: edge_config
  isHoldDrag :: bool
  isTapDrag :: bool
  is3FDrag :: bool
  isFingOnBtnArea :: bool
  triggered :: bool
  enableMiddle :: bool
  disableClicks :: bool
  clickPadVBtnArea :: u16
  buttonState :: u8
  holdTime :: u64
  isRotateGesture :: bool
  isRotateMode :: bool
  maxCFDelta :: u16
  minCFingIdleTime :: u64
  doTimerJob :: bool
  doCont :: bool
  doSling :: bool
  doAuto :: bool
  inertiaDeltaX :: u16
  inertiaDeltaY :: u16
  pContinuousMove :: bool
  smooth :: smoothing
  lastSample :: "delta_sample list"
  synW :: u8
  ext_buttons :: u8
  secondary_pressure :: u8
  secondary_x :: u32
  secondary_y :: u32
  m_scroll :: u32
  touch_ended :: bool
  secondary_wait :: bool
  singleFingerReports :: u32
  oob :: bool
  hung :: bool
  touchCalls :: "touch_call list"
  timerCalls :: "timer_call list"

text \<open>The state as init leaves it: zeroed memory with a few values set.\<close>

definition noFinger :: finger where
  "noFinger = \<lparr>posX = 0, posY = 0, lastX = 0, lastY = 0, startX = 0, startY = 0, tdx = 0, tdy = 0, sdx = 0, sdy = 0,
     fpressure = 0, fwidth = 0\<rparr>"

definition noSample :: delta_sample where
  "noSample = \<lparr>skippedX = 0, skippedY = 0, lastDX1 = 0, lastDX2 = 0, lastDY1 = 0, lastDY2 = 0, lastSDX = 0,
     lastSDY = 0, samplePressure = 0\<rparr>"

definition noSmoothing :: smoothing where
  "noSmoothing = \<lparr>cSample = 0, skipSample = 0, pSmoothX = 0, pSmoothY = 0, pDx = 0, pDy = 0, pLastDx = 0, pLastDy = 0,
     zoomDx = 0, zoomDy = 0, scrollTotalDx = 0, scrollTotalDy = 0, maxPressDtd = 0\<rparr>"

definition noEdges :: edge_config where
  "noEdges = \<lparr>hasEdgeSwipes = False, edgeFingers = 0, has2WayEdgeSwipes = False, topEdge = 0, bottomEdge = 0,
     rightEdge = 0, leftEdge = 0, edgeHArea = 0, edgeVArea = 0, nonEdgeHArea = 0, nonEdgeVArea = 0,
     edgeHDistance = 0, edgeVDistance = 0\<rparr>"

definition touch_init :: touch where
  "touch_init = \<lparr>dragPackets = 0, lastButton = 0, isCtrlScrollSwipe = False, isSwipeDone = False,
     enableLRSwipe = False, lastSwipeTime = 0, isDragging = False, rightClick = False, isDragEnabled = True,
     isDragLockEnabled = False, isHScrollEnabled = False, isVScrollEnabled = True, lastDataTime = 0, mnow = 0,
     readings = 0, events = [],
     fing = replicate 6 noFinger, pid = -1, sid = -1, lastFingers = 0, palmMinPressure = 255, palmMinWidth = 15,
     palmDetectionEnabled = False, palmDetected = False, showPressWidth = False, touchmode = MODE_IDLE,
     gestureTime = 0, clickTimeout = 0, swipeDirection = 0, isEdgeGesture = False, isAppSwitchDone = False,
     edges = noEdges, isHoldDrag = False, isTapDrag = False, is3FDrag = False, isFingOnBtnArea = False,
     triggered = False, enableMiddle = False, disableClicks = False, clickPadVBtnArea = 0, buttonState = 0,
     holdTime = 0, isRotateGesture = False, isRotateMode = False, maxCFDelta = 0, minCFingIdleTime = 0,
     doTimerJob = False, doCont = False, doSling = False, doAuto = False, inertiaDeltaX = 0, inertiaDeltaY = 0,
     pContinuousMove = False, smooth = noSmoothing, lastSample = replicate 11 noSample, synW = 0, ext_buttons = 0,
     secondary_pressure = 0, secondary_x = 0, secondary_y = 0, m_scroll = 0, touch_ended = False,
     secondary_wait = False, singleFingerReports = 0, oob = False, hung = False, touchCalls = [], timerCalls = []\<rparr>"

type_synonym 'e touch_driver = "'e touch_scheme driver"
type_synonym 'e engine = "touch_call \<Rightarrow> 'e touch_driver \<Rightarrow> 'e touch_driver"

definition onTouch :: "('e touch_scheme \<Rightarrow> 'e touch_scheme) \<Rightarrow> 'e touch_driver \<Rightarrow> 'e touch_driver" where
  "onTouch f d = d\<lparr>gestures := f (gestures d)\<rparr>"

definition onPad :: "(touchpad \<Rightarrow> touchpad) \<Rightarrow> 'e touch_driver \<Rightarrow> 'e touch_driver" where
  "onPad f d = d\<lparr>tp := f (tp d)\<rparr>"

definition callEngine :: "'e engine \<Rightarrow> touch_call \<Rightarrow> 'e touch_driver \<Rightarrow> 'e touch_driver" where
  "callEngine engine c d = engine c (onTouch (\<lambda>g. g\<lparr>touchCalls := touchCalls g @ [c]\<rparr>) d)"

section \<open>Fingers\<close>

definition isFinger :: "int \<Rightarrow> bool" where
  "isFinger i \<longleftrightarrow> 0 \<le> i \<and> i < 6"

definition finger :: "int \<Rightarrow> 'e touch_driver \<Rightarrow> finger" where
  "finger i d = fing (gestures d) ! nat i"

text \<open>An access to a finger that only reads it.\<close>

definition reads :: "int \<Rightarrow> 'e touch_driver \<Rightarrow> 'e touch_driver" where
  "reads i = onTouch (\<lambda>g. g\<lparr>oob := oob g \<or> \<not> isFinger i\<rparr>)"

definition setFinger :: "int \<Rightarrow> (finger \<Rightarrow> finger) \<Rightarrow> 'e touch_driver \<Rightarrow> 'e touch_driver" where
  "setFinger i f = onTouch (\<lambda>g. if isFinger i then g\<lparr>fing := (fing g)[nat i := f (fing g ! nat i)]\<rparr>
     else g\<lparr>oob := True\<rparr>)"

definition startHere :: "finger \<Rightarrow> finger" where
  "startHere f = f\<lparr>startX := posX f, startY := posY f\<rparr>"

definition lastHere :: "finger \<Rightarrow> finger" where
  "lastHere f = f\<lparr>lastX := posX f, lastY := posY f\<rparr>"

definition moved :: "finger \<Rightarrow> int \<times> int" where
  "moved f = (uint (posX f) - uint (lastX f), uint (posY f) - uint (lastY f))"

definition addDelta :: "int \<Rightarrow> int \<Rightarrow> finger \<Rightarrow> finger" where
  "addDelta dx dy f = f\<lparr>tdx := tdx f + of_int dx, tdy := tdy f + of_int dy\<rparr>"

section \<open>Timers\<close>

definition setTimeout :: "timer \<Rightarrow> nat \<Rightarrow> 'e touch_driver \<Rightarrow> 'e touch_driver" where
  "setTimeout t ms = onTouch (\<lambda>g. g\<lparr>timerCalls := timerCalls g @ [SetTimeoutMS t ms]\<rparr>)"

definition cancelTimeout :: "timer \<Rightarrow> 'e touch_driver \<Rightarrow> 'e touch_driver" where
  "cancelTimeout t = onTouch (\<lambda>g. g\<lparr>timerCalls := timerCalls g @ [CancelTimeout t]\<rparr>)"

definition StopPointerEnhanceTimer :: "'e touch_driver \<Rightarrow> 'e touch_driver" where
  "StopPointerEnhanceTimer d = cancelTimeout PointerTimer
     (onTouch (\<lambda>g. g\<lparr>smooth := (smooth g)\<lparr>pDx := 0, pDy := 0\<rparr>, pContinuousMove := False\<rparr>) d)"

definition StopScrollEnhanceTimer :: "'e touch_driver \<Rightarrow> 'e touch_driver" where
  "StopScrollEnhanceTimer d =
     onTouch (\<lambda>g. g\<lparr>inertiaDeltaX := 0, inertiaDeltaY := 0, doTimerJob := False,
       doSling := doSling g \<and> doCont g, doAuto := False, doCont := False\<rparr>) (cancelTimeout ScrollTimer d)"

definition stopPointer :: "'e touch_driver \<Rightarrow> 'e touch_driver" where
  "stopPointer d = (if pContinuousMove (gestures d) then StopPointerEnhanceTimer d else d)"

section \<open>Change of the number of fingers\<close>

definition tracksTwoFingers :: "touchpad \<Rightarrow> bool" where
  "tracksTwoFingers t \<longleftrightarrow> SYN_CAP_ADV_GESTURE (ext_cap_0c (synTPad t)) \<or> SYN_CAP_IMAGE_SENSOR (ext_cap_0c (synTPad t))"

definition updateSlots :: "'e touch_driver \<Rightarrow> 'e touch_driver" where
  "updateSlots d =
     (if touchpadVendor (tp d) = STD_SYNAPTICS \<and> tracksTwoFingers (tp d) then
        (let w = synW (gestures d)
         in if w = 0 then onTouch (\<lambda>g. g\<lparr>pid := 0, sid := 1\<rparr>) d
            else if w = 1 then onTouch (\<lambda>g. g\<lparr>pid := 0, sid := 2\<rparr>) d
            else if 4 \<le> w \<and> w \<le> 15 then onTouch (\<lambda>g. g\<lparr>pid := 0, sid := -1\<rparr>) d
            else d)
      else d)"

definition cancelTimers :: "'e touch_driver \<Rightarrow> 'e touch_driver" where
  "cancelTimers d =
     (let g = gestures d
      in stopPointer (if doTimerJob g \<or> doCont g \<or> inertiaDeltaX g \<noteq> 0 \<or> inertiaDeltaY g \<noteq> 0
                      then StopScrollEnhanceTimer (cancelTimeout ButtonDragTimer d) else d))"

definition releasePointer :: "(nat \<Rightarrow> u64) \<Rightarrow> 'e touch_driver \<Rightarrow> 'e touch_driver" where
  "releasePointer clock = onTouch (dispatchRelativePointerPosition clock 0 0 0)"

definition clearDrag :: "(nat \<Rightarrow> u64) \<Rightarrow> 'e touch_driver \<Rightarrow> 'e touch_driver" where
  "clearDrag clock d =
     (let g = gestures d; c = cFingers (tp d);
          d = (if \<not> isTapDrag g \<and> isHoldDrag g then reads (pid g) d else d);
          f = finger (pid g) d
      in if (isTapDrag g \<or> isHoldDrag g \<and> (sint (tdx f) < uint (maxCFDelta g) \<or> sint (tdy f) < uint (maxCFDelta g)))
            \<and> (c > 2 \<and> \<not> is3FDrag g \<or> c = 0)
         then onTouch (\<lambda>g. g\<lparr>buttonState := 0, isDragging := False, isHoldDrag := False, isTapDrag := False,
                is3FDrag := False\<rparr>) (onPad (\<lambda>t. t\<lparr>buttonData := 0\<rparr>) (releasePointer clock d))
         else d)"

definition resetFinger :: "bool \<Rightarrow> finger \<Rightarrow> finger" where
  "resetFinger position f =
     (let f = f\<lparr>tdx := 0, tdy := 0, sdx := 0, sdy := 0, startX := 0, startY := 0\<rparr>
      in if position then f\<lparr>posX := 0, posY := 0, lastX := 0, lastY := 0\<rparr> else f)"

definition resetFingers :: "'e touch_driver \<Rightarrow> 'e touch_driver" where
  "resetFingers d =
     (let g = gestures d; last = lastFingers g; c = cFingers (tp d); n = packetsCount (tp d)
      in if last = 0 \<or> last > c \<or> last < c \<and> n > 3 then
           (let first = (if is3FDrag g then 0 else if last > c then c else if last < c then last else 0);
                position = (\<lambda>i. n > 0 \<and> int i \<noteq> sid g \<and> int i \<noteq> pid g \<or> last = 0 \<or> c > 2)
            in onTouch (\<lambda>g. g\<lparr>fing := map (\<lambda>i. if i \<ge> unat first then resetFinger (position i) (fing g ! i)
                 else fing g ! i) [0..<6]\<rparr>) d)
         else d)"

definition resetSamples :: "touch_mode \<Rightarrow> delta_sample list \<Rightarrow> delta_sample list" where
  "resetSamples mode ss =
     map (\<lambda>s. let s = s\<lparr>lastDX1 := 0, lastDY1 := 0, lastDX2 := 0, lastDY2 := 0\<rparr>
              in if mode \<in> set [MODE_VSCROLL, MODE_HSCROLL, MODE_EDGE_VSCROLL, MODE_EDGE_HSCROLL, MODE_CONT_SCROLL]
                 then s else s\<lparr>lastSDX := 0, lastSDY := 0\<rparr>) (take 10 ss) @ drop 10 ss"

definition changeModes :: "u8 \<Rightarrow> 'e touch_scheme \<Rightarrow> 'e touch_scheme" where
  "changeModes c g =
     (let g = (if lastFingers g \<le> c \<and> c > 1 \<and> touchmode g \<in> set [MODE_1_FING_TAP, MODE_2_FING_TAP,
                    MODE_3_FING_TAP, MODE_4_FING_TAP, MODE_5_FING_TAP]
               then g\<lparr>touchmode := MODE_IDLE\<rparr> else g);
          g = (if c \<noteq> 1 \<and> c \<noteq> 2 \<and> isEdgeGesture g then g\<lparr>isEdgeGesture := False, swipeDirection := 0\<rparr> else g)
      in if c = 2 then
           (let g = (if isRotateGesture g \<and> lastFingers g \<noteq> 2 then g\<lparr>touchmode := MODE_IDLE\<rparr> else g)
            in if lastFingers g = 1 \<and> gestureTime g > minCFingIdleTime g then g\<lparr>isRotateMode := True\<rparr> else g)
         else if 3 \<le> c \<and> c \<le> 5 then
           (if isRotateGesture g
            then g\<lparr>isRotateGesture := False, isRotateMode := False, touchmode := MODE_IDLE\<rparr> else g)
         else g)"

definition Process_fingers_change :: "(nat \<Rightarrow> u64) \<Rightarrow> 'e touch_driver \<Rightarrow> 'e touch_driver" where
  "Process_fingers_change clock d =
     (let d = clearDrag clock (cancelTimers (updateSlots d));
          d = onTouch (\<lambda>g. g\<lparr>touch_ended := False, smooth := noSmoothing\<rparr>) d;
          d = resetFingers d;
          d = onTouch (\<lambda>g. g\<lparr>lastSample := resetSamples (touchmode g) (lastSample g)\<rparr>) d;
          c = cFingers (tp d);
          d = onTouch (changeModes c) d
      in if c \<noteq> 0
         then onTouch (\<lambda>g. g\<lparr>gestureTime := 0, holdTime := 0\<rparr>) (onPad (\<lambda>t. t\<lparr>packetsCount := 0\<rparr>) d)
         else d)"

section \<open>Physical buttons\<close>

definition SYN_CAP_EXT_BUTTONS_STICK :: "u64 \<Rightarrow> bool" where
  "SYN_CAP_EXT_BUTTONS_STICK ex10 \<longleftrightarrow> ex10 AND 0x010000 \<noteq> 0"

definition stickPacket :: "u8 list \<Rightarrow> bool" where
  "stickPacket packet \<longleftrightarrow> packet ! 0 AND 0xFC = 0x84 \<and> packet ! 3 AND 0xCC = 0xc4"

definition packetButtons :: "touchpad \<Rightarrow> u8 list \<Rightarrow> u8" where
  "packetButtons t packet =
     (if touchpadVendor t = STD_SYNAPTICS \<and> stickPacket packet \<and> SYN_CAP_EXT_BUTTONS_STICK (ext_cap_10 (synTPad t))
      then packet ! 1 AND 0x07 else packet ! 0 AND 0x03)"

definition dispatchButtons :: "(nat \<Rightarrow> u64) \<Rightarrow> u8 \<Rightarrow> 'e touch_driver \<Rightarrow> 'e touch_driver" where
  "dispatchButtons clock b = onTouch (dispatchRelativePointerPosition clock 0 0 (ucast b))"

definition pressButton :: "(nat \<Rightarrow> u64) \<Rightarrow> u8 \<Rightarrow> 'e touch_driver \<Rightarrow> 'e touch_driver" where
  "pressButton clock b d =
     dispatchButtons clock b
       (onTouch (\<lambda>g. g\<lparr>triggered := True, buttonState := buttonState g OR b, touchmode := MODE_BUTTONS\<rparr>)
         (onPad (\<lambda>t. t\<lparr>buttonData := b\<rparr>) d))"

definition releaseButtons :: "(nat \<Rightarrow> u64) \<Rightarrow> 'e touch_driver \<Rightarrow> 'e touch_driver" where
  "releaseButtons clock d =
     (let g = gestures d;
          d = (if triggered g \<or> rightClick g then
                 (let d = onTouch (\<lambda>g. g\<lparr>buttonState := 0\<rparr>) d;
                      d = dispatchButtons clock 0 (dispatchButtons clock (buttonData (tp d)) d);
                      d = onTouch (\<lambda>g. g\<lparr>rightClick := False, isDragging := False, isTapDrag := False,
                        isHoldDrag := False, is3FDrag := False, holdTime := 0\<rparr>) d
                  in if isAppSwitchDone (gestures d)
                     then onTouch (\<lambda>g. (notifyKeyboard kPS2C_ReleaseCmdKey g)\<lparr>isAppSwitchDone := False\<rparr>) d else d)
               else d)
      in stopPointer (onTouch (\<lambda>g. g\<lparr>triggered := False\<rparr>) (onPad (\<lambda>t. t\<lparr>buttonData := 0\<rparr>) d)))"

definition Process_Physical_Buttons :: "(nat \<Rightarrow> u64) \<Rightarrow> u8 list \<Rightarrow> 'e touch_driver \<Rightarrow> 'e touch_driver" where
  "Process_Physical_Buttons clock packet d =
     (if disableClicks (gestures d) then d
      else let b = packetButtons (tp d) packet; d = onPad (\<lambda>t. t\<lparr>buttonData := b\<rparr>) d
           in if buttonState (gestures d) = b then d
              else if b = 0x04 \<or> b = 0x03 then
                pressButton clock (if enableMiddle (gestures d) then 0x4 else 0x0) d
              else if b = 0x01 then pressButton clock b d
              else if b = 0x02 then
                pressButton clock b (onTouch (\<lambda>g. g\<lparr>rightClick := True\<rparr>) d)
              else releaseButtons clock d)"

section \<open>Edge swipes of two fingers\<close>

definition Is2FingEdgeSwipe :: "'e touch_driver \<Rightarrow> 'e touch_driver" where
  "Is2FingEdgeSwipe d =
     (let g = gestures d; e = edges g; t = tp d; f0 = finger 0 d; f1 = finger 1 d;
          both = (\<lambda>P. P (uint (startY f0)) \<and> P (uint (startY f1)));
          bothX = (\<lambda>P. P (uint (startX f0)) \<and> P (uint (startX f1)));
          twoWay = (has2WayEdgeSwipes e \<and> isEdgeGesture g);
          swipe = (\<lambda>n. onTouch (\<lambda>g. g\<lparr>swipeDirection := n, isEdgeGesture := True\<rparr>) d)
      in if hasEdgeSwipes e \<and> (edgeFingers e = 0 \<or> edgeFingers e = 2) \<and> posY f0 \<noteq> 0 \<and> posY f1 \<noteq> 0 \<and>
            (both (\<lambda>y. y > uint (ymin t) + uint (nonEdgeVArea e) \<and> y < uint (ymax t) - uint (nonEdgeVArea e)) \<or>
             bothX (\<lambda>x. x > uint (xmin t) + uint (nonEdgeHArea e) \<and> x < uint (xmax t) - uint (nonEdgeHArea e)))
         then if topEdge e > 0 \<and> (both (\<lambda>y. y < uint (ymin t) + uint (edgeVArea e)) \<or>
                  both (\<lambda>y. y > uint (ymin t) + uint (edgeVDistance e)) \<and> twoWay) then swipe 4
              else if bottomEdge e > 0 \<and> (both (\<lambda>y. y > uint (ymax t) - uint (edgeVArea e)) \<or>
                  both (\<lambda>y. y < uint (ymax t) - uint (edgeVDistance e)) \<and> twoWay) then swipe 3
              else if rightEdge e > 0 \<and> (\<not> bothX (\<lambda>x. \<not> x > uint (xmax t) - uint (edgeHArea e)) \<or>
                  bothX (\<lambda>x. x < uint (xmax t) - uint (edgeHDistance e)) \<and> twoWay) then swipe 2
              else if leftEdge e > 0 \<and> (\<not> bothX (\<lambda>x. \<not> x < uint (xmin t) + uint (edgeHArea e)) \<or>
                  bothX (\<lambda>x. x > uint (xmin t) + uint (edgeHDistance e)) \<and> twoWay) then swipe 1
              else d
         else d)"

section \<open>The trackpoint\<close>

definition trackpointMotion :: "u8 list \<Rightarrow> int \<times> int" where
  "trackpointMotion packet =
     (uint (packet ! 4) - 2 * uint (packet ! 1 XOR 0x80), 2 * uint (packet ! 2 XOR 0x80) - uint (packet ! 5))"

definition Process_trackpoint_events_ELAN :: "'e engine \<Rightarrow> u8 list \<Rightarrow> 'e touch_driver \<Rightarrow> 'e touch_driver" where
  "Process_trackpoint_events_ELAN engine packet d =
     (let (x, y) = trackpointMotion packet;
          d = (if packetsCount (tp d) = 0 then setFinger 0 (\<lambda>f. f\<lparr>startX := 0, startY := 0\<rparr>) d
               else setFinger 0 (addDelta x y) d)
      in callEngine engine (SingleFinger x y 0) d)"

end
