(* ===== verification/Touchpad_ElanDecode.thy ===== *)
theory Touchpad_ElanDecode
  imports Touchpad_Touch
begin

text \<open>
  The decoders of ELAN and FocalTech packets: Process_absolute_events_ELANv1, Process_ELANv2v3_Checks,
  Process_absolute_events_ELANv2v3 and Process_absolute_events_ELANv4AndFocalTech. Positions are 16-bit
  words, so an assignment of an int truncates; comparisons are on integers as in the source.
\<close>

section \<open>Common parts\<close>

text \<open>The time since the last packet is added to the time of the gesture.\<close>

definition takeTime :: "(nat \<Rightarrow> u64) \<Rightarrow> 'e touch_driver \<Rightarrow> 'e touch_driver" where
  "takeTime clock d =
     (let d = onTouch (readClock clock) d
      in onTouch (\<lambda>g. (if packetsCount (tp d) > 0
           then g\<lparr>gestureTime := gestureTime g + (mnow g - lastDataTime g)\<rparr> else g)\<lparr>lastDataTime := mnow g\<rparr>) d)"

definition stopAccidental :: "'e touch_driver \<Rightarrow> 'e touch_driver" where
  "stopAccidental =
     onTouch (\<lambda>g. g\<lparr>touchmode := (if gestureTime g < clickTimeout g then MODE_1_FING_TAP else MODE_IDLE)\<rparr>)"

definition isAccidental :: "'e touch_driver \<Rightarrow> bool" where
  "isAccidental d \<longleftrightarrow> accidentalInput (gate d) \<and> tapEnableTPad (gate d)"

definition foundPalm :: "'e touch_driver \<Rightarrow> 'e touch_driver" where
  "foundPalm = onTouch (\<lambda>g. g\<lparr>palmDetected := True, touchmode := MODE_PALM\<rparr>)"

definition physicalButtons :: "(nat \<Rightarrow> u64) \<Rightarrow> u8 list \<Rightarrow> 'e touch_driver \<Rightarrow> 'e touch_driver" where
  "physicalButtons clock packet d =
     (if \<not> disableClicks (gestures d) then Process_Physical_Buttons clock packet d else d)"

text \<open>The position of two fingers as the gesture engine gets it.\<close>

definition callTwoFingers :: "'e engine \<Rightarrow> 'e touch_driver \<Rightarrow> 'e touch_driver" where
  "callTwoFingers engine d =
     (let p = pid (gestures d); s = sid (gestures d); d = reads p (reads s d)
      in callEngine engine (TwoFingers (uint (posX (finger p d))) (uint (posX (finger s d)))
           (uint (posY (finger p d))) (uint (posY (finger s d)))) d)"

definition bothFingers :: "(finger \<Rightarrow> finger) \<Rightarrow> 'e touch_driver \<Rightarrow> 'e touch_driver" where
  "bothFingers f d = setFinger (sid (gestures d)) f (setFinger (pid (gestures d)) f d)"

text \<open>A position of 12 bits in two bytes; the y axis points down.\<close>

definition pos12 :: "u8 \<Rightarrow> u8 \<Rightarrow> u16" where
  "pos12 hi lo = push_bit 8 (ucast (hi AND 0x0f)) OR ucast lo"

definition elanPressure :: "u8 list \<Rightarrow> u8" where
  "elanPressure p = (p ! 1 AND 0xf0) OR drop_bit 4 (p ! 4 AND 0xf0)"

section \<open>Hardware version 1\<close>

definition fingersV1 :: "u32 \<Rightarrow> u8 list \<Rightarrow> u8" where
  "fingersV1 fw p =
     (if fw < 0x020000 then drop_bit 7 (p ! 1 AND 0x80) + drop_bit 4 (p ! 1 AND 0x30)
      else drop_bit 6 (p ! 0 AND 0xc0))"

definition Process_absolute_events_ELANv1 ::
  "(nat \<Rightarrow> u64) \<Rightarrow> u8 list \<Rightarrow> 'e touch_driver \<Rightarrow> 'e touch_driver" where
  "Process_absolute_events_ELANv1 clock p d =
     (let c = fingersV1 (fw_version (elanTPad (tp d))) p; d = onPad (\<lambda>t. t\<lparr>cFingers := c\<rparr>) d;
          jumpy = jumpyCursor (elanTPad (tp d));
          d = (if jumpy \<and> c \<noteq> 1 then onTouch (\<lambda>g. g\<lparr>singleFingerReports := 0\<rparr>) d else d)
      in if jumpy \<and> c = 1 \<and> singleFingerReports (gestures d) < 2
         then onTouch (\<lambda>g. g\<lparr>singleFingerReports := singleFingerReports g + 1\<rparr>) d
         else
           (let d = physicalButtons clock p d;
                x = push_bit 6 (ucast (p ! 1 AND 0x0c)) OR ucast (p ! 2);
                y = ymax (tp d) - (push_bit 8 (ucast (p ! 1 AND 0x03)) OR ucast (p ! 3));
                d = (if cFingers (tp d) \<noteq> 0 then setFinger 0 (\<lambda>f. f\<lparr>posX := x, posY := y\<rparr>) d else d)
            in setFinger 0 lastHere d))"

section \<open>Hardware versions 2 and 3\<close>

definition Process_ELANv2v3_Checks :: "(nat \<Rightarrow> u64) \<Rightarrow> u8 list \<Rightarrow> 'e touch_driver \<Rightarrow> 'e touch_driver" where
  "Process_ELANv2v3_Checks clock p d =
     (let d = setFinger 0 (\<lambda>f. f\<lparr>fpressure := elanPressure p,
            fwidth := drop_bit 2 (p ! 0 AND 0x30) OR drop_bit 4 (p ! 3 AND 0x30)\<rparr>) d;
          n = drop_bit 6 (p ! 0 AND 0xc0); c = cFingers (tp d);
          d = (if c \<noteq> n then
                 (let d = onPad (\<lambda>t. t\<lparr>cFingers := n\<rparr>) (onTouch (\<lambda>g. g\<lparr>lastFingers := c\<rparr>) d)
                  in if n > 0 then Process_fingers_change clock d else d)
               else d);
          d = takeTime clock d
      in if \<not> disableClicks (gestures d) then
           Process_Physical_Buttons clock p
             (if cFingers (tp d) = 0 then onPad (\<lambda>t. t\<lparr>packetsCount := packetsCount t + 1\<rparr>) d else d)
         else d)"

definition palmV2V3 :: "'e touch_driver \<Rightarrow> bool" where
  "palmV2V3 d \<longleftrightarrow>
     (let g = gestures d; f = finger 0 d
      in palmDetected g \<and> (fpressure f = 0 \<and> fwidth f > palmMinWidth g \<or> fpressure f \<noteq> 0) \<or>
         palmDetectionEnabled g \<and> cFingers (tp d) = 1 \<and> fwidth f > palmMinWidth g \<and>
         (fpressure f = 0 \<or> fpressure f > palmMinPressure g))"

text \<open>One finger, or three or four, of which one position is reported.\<close>

definition oneFingerV2V3 :: "'e engine \<Rightarrow> u8 list \<Rightarrow> 'e touch_driver \<Rightarrow> 'e touch_driver" where
  "oneFingerV2V3 engine p d =
     (let d = setFinger 0 (\<lambda>f. f\<lparr>posX := pos12 (p ! 1) (p ! 2), posY := ymax (tp d) - pos12 (p ! 4) (p ! 5)\<rparr>) d;
          (dx, dy) = (if packetsCount (tp d) < 2 then (0, 0) else moved (finger 0 d));
          d = (if packetsCount (tp d) < 2
               then setFinger 0 (\<lambda>f. lastHere (startHere (f\<lparr>tdx := 0, tdy := 0\<rparr>))) d
               else setFinger 0 (addDelta dx dy) d);
          f = finger 0 d;
          d = (if cFingers (tp d) = 1 then callEngine engine (SingleFinger (uint (posX f)) (uint (posY f)) 0) d
               else if cFingers (tp d) = 3 \<and> \<not> isDragging (gestures d)
               then callEngine engine (MultiFingers dx dy 0) d else d)
      in setFinger 0 lastHere d)"

text \<open>The first packets of two fingers: where the fingers start.\<close>

definition keepsStart :: "'e touch_driver \<Rightarrow> bool" where
  "keepsStart d \<longleftrightarrow> swipeDirection (gestures d) < 3 \<or> lastFingers (gestures d) = 1 \<and> cFingers (tp d) = 2"

definition initFinger :: "int \<Rightarrow> 'e touch_driver \<Rightarrow> 'e touch_driver" where
  "initFinger i d =
     (let f = finger i d
      in if startX f = 0 \<and> startY f = 0 \<or> \<not> keepsStart d then setFinger i (\<lambda>f. lastHere (startHere f)) d else d)"

definition swapFingers :: "'e touch_driver \<Rightarrow> 'e touch_driver" where
  "swapFingers d =
     (let f0 = finger 0 d; f1 = finger 1 d;
          dx1 = \<bar>uint (posX f0) - uint (lastX f0)\<bar>; dx2 = \<bar>uint (posX f1) - uint (lastX f0)\<bar>
      in if dx2 < dx1 then
           setFinger 0 (\<lambda>f. lastHere (startHere f))
             (setFinger 1 (\<lambda>f. f\<lparr>startX := startX f0, startY := startY f0, lastX := lastX f0, lastY := lastY f0\<rparr>) d)
         else d)"

definition startTwoFingers :: "'e touch_driver \<Rightarrow> 'e touch_driver" where
  "startTwoFingers d =
     (let d = onTouch (\<lambda>g. g\<lparr>pid := 0, sid := 1\<rparr>) d;
          d = initFinger 1 (initFinger 0 d);
          d = (if \<not> isEdgeGesture (gestures d) then Is2FingEdgeSwipe d else d)
      in if isEdgeGesture (gestures d) then (if lastFingers (gestures d) = 1 then swapFingers d else d)
         else bothFingers (\<lambda>f. lastHere (startHere f)) d)"

text \<open>The positions of a packet of version 2; nine bits at a quarter of the resolution.\<close>

definition positionsV2 :: "u16 \<Rightarrow> u8 list \<Rightarrow> (finger \<Rightarrow> finger) \<times> (finger \<Rightarrow> finger)" where
  "positionsV2 yTop p =
     (let pos = (\<lambda>hi bits lo. push_bit 2 (bits hi OR ucast lo) :: u16);
          bx = (\<lambda>b. push_bit 4 (ucast (b AND 0x10))); by' = (\<lambda>b. push_bit 3 (ucast (b AND 0x20)));
          at = (\<lambda>b lx ly f. f\<lparr>posX := pos b bx lx, posY := yTop - pos b by' ly, fpressure := 127, fwidth := 7\<rparr>)
      in (at (p ! 0) (p ! 1) (p ! 2), at (p ! 3) (p ! 4) (p ! 5)))"

definition twoFingersV2V3 :: "'e engine \<Rightarrow> u8 \<Rightarrow> u8 list \<Rightarrow> 'e touch_driver \<Rightarrow> 'e touch_driver" where
  "twoFingersV2V3 engine packet_type p d =
     (let at = (\<lambda>f. f\<lparr>posX := pos12 (p ! 1) (p ! 2), posY := ymax (tp d) - pos12 (p ! 4) (p ! 5)\<rparr>);
          v2 = positionsV2 (ymax (tp d)) p; v2hw = (hw_version (tp d) = STD_ELAN_HW_V2)
      in if \<not> v2hw \<and> packet_type = PACKET_HEAD then setFinger 0 at d
         else
           (let d = (if v2hw then setFinger 1 (snd v2) (setFinger 0 (fst v2) d) else setFinger 1 at d);
                move = (\<lambda>i d. setFinger i (\<lambda>f. addDelta (fst (moved f)) (snd (moved f)) f) d);
                d = (if packetsCount (tp d) < 2 then startTwoFingers d else move 1 (move 0 d));
                d = callTwoFingers engine d
            in bothFingers lastHere d))"

definition Process_absolute_events_ELANv2v3 ::
  "(nat \<Rightarrow> u64) \<Rightarrow> 'e engine \<Rightarrow> u8 \<Rightarrow> u8 list \<Rightarrow> 'e touch_driver \<Rightarrow> 'e touch_driver" where
  "Process_absolute_events_ELANv2v3 clock engine packet_type p d =
     (let d = Process_ELANv2v3_Checks clock p d; hw = hw_version (tp d); c = cFingers (tp d);
          b = buttonData (tp d); pressure = fpressure (finger 0 d)
      in if \<not> showPressWidth (gestures d) \<and> palmV2V3 d then foundPalm d
         else if hw = STD_ELAN_HW_V2 \<and> p ! 0 \<in> set [0x04, 0x14, 0x24] \<and> c = 0 \<and> b = 0
         then callEngine engine TouchEnd d
         else if hw = STD_ELAN_HW_V3 \<and> c = 0 \<and> lastFingers (gestures d) = 0 \<and> pressure > 0 \<and>
             \<not> disableTrackPoint (tp d) \<and> (packet_type = PACKET_TRACKPOINT \<or> packet_type = PACKET_HEAD)
         then Process_trackpoint_events_ELAN engine p d
         else if hw = STD_ELAN_HW_V3 \<and> pressure = 0 \<and> c = 0 \<and> b = 0 then callEngine engine TouchEnd d
         else if isAccidental d then stopAccidental d
         else if c = 3 then
           oneFingerV2V3 engine p
             (if hw = STD_ELAN_HW_V2 \<and> p ! 3 AND 0x80 \<noteq> 0 then onPad (\<lambda>t. t\<lparr>cFingers := 4\<rparr>) d else d)
         else if c = 1 then oneFingerV2V3 engine p d
         else if c = 2 then twoFingersV2V3 engine packet_type p d
         else d)"

section \<open>Hardware version 4 and FocalTech\<close>

definition palmV4 :: "'e touch_driver \<Rightarrow> bool" where
  "palmV4 d \<longleftrightarrow>
     (let g = gestures d; f = finger 0 d; c = cFingers (tp d)
      in palmDetectionEnabled g \<and>
         (c = 2 \<and> lastFingers g < 3 \<and> fwidth f > palmMinWidth g \<or>
          c = 1 \<and> lastFingers g < 2 \<and> fpressure f > palmMinPressure g \<or> palmDetected g))"

text \<open>The number of fingers of a bit mask of fingers, with the masks reported between two numbers.\<close>

definition fingersOfMask :: "u8 \<Rightarrow> u8 option" where
  "fingersOfMask m =
     (if m = 0x00 then Some 0 else if m \<in> set [0x01, 0x02] then Some 1
      else if m \<in> set [0x03, 0x05, 0x0d] then Some 2 else if m \<in> set [0x07, 0x0b, 0x11] then Some 3
      else if m \<in> set [0x0f, 0x17] then Some 4 else if m = 0x1f then Some 5 else None)"

text \<open>All fingers are up: buttons, and the end of the touch. The result tells whether to stop.\<close>

definition allUpV4 ::
  "(nat \<Rightarrow> u64) \<Rightarrow> 'e engine \<Rightarrow> u8 \<Rightarrow> u8 list \<Rightarrow> 'e touch_driver \<Rightarrow> bool \<times> 'e touch_driver" where
  "allUpV4 clock engine packet_type p d =
     (let d = (if isClickPad (tp d) then callEngine engine (ClickPadButtons p packet_type 0 1) d
               else if \<not> disableClicks (gestures d) then
                 Process_Physical_Buttons clock p (onPad (\<lambda>t. t\<lparr>packetsCount := packetsCount t + 1\<rparr>) d)
               else d); g = gestures d
      in if lastFingers g > 0 \<and> touchmode g \<noteq> MODE_BUTTONS \<and> \<not> showPressWidth g
         then (True, callEngine engine TouchEnd d) else (False, d))"

definition tapInMove :: "(nat \<Rightarrow> u64) \<Rightarrow> 'e touch_driver \<Rightarrow> 'e touch_driver" where
  "tapInMove clock d =
     (let g = gestures d
      in if lastFingers g = 2 \<and> gestureTime g < clickTimeout g \<and> isFingOnBtnArea g then
           onPad (\<lambda>t. t\<lparr>buttonData := 0\<rparr>) (onTouch (\<lambda>g. g\<lparr>buttonState := 0\<rparr>)
             (dispatchButtons clock 0 (dispatchButtons clock 1 d)))
         else d)"

definition statusV4 ::
  "(nat \<Rightarrow> u64) \<Rightarrow> 'e engine \<Rightarrow> u8 \<Rightarrow> u8 list \<Rightarrow> 'e touch_driver \<Rightarrow> 'e touch_driver" where
  "statusV4 clock engine packet_type p d =
     (let mask = p ! 1 AND 0x1f;
          d = onTouch (\<lambda>g. g\<lparr>lastFingers := cFingers (tp d)\<rparr>) d;
          d = onPad (\<lambda>t. t\<lparr>cFingers := mask\<rparr>) d
      in case fingersOfMask mask of
           None \<Rightarrow> d
         | Some n \<Rightarrow>
             (let (stop, d) = (if mask = 0 then allUpV4 clock engine packet_type p d
                               else (False, if mask = 0x02 then tapInMove clock d else d));
                  d' = (if mask = 0 then d else onPad (\<lambda>t. t\<lparr>cFingers := n\<rparr>) d)
              in if stop then d else Process_fingers_change clock d'))"

text \<open>Absolute packets: the finger and its position.\<close>

definition absoluteId :: "touchpad \<Rightarrow> u8 list \<Rightarrow> int" where
  "absoluteId t p =
     (if touchpadVendor t = STD_FOCAL_TECH then uint (drop_bit 4 (p ! 1)) - 1
      else uint (drop_bit 5 (p ! 3 AND 0xe0)) - 1)"

definition absoluteFinger :: "touchpad \<Rightarrow> u8 list \<Rightarrow> finger \<Rightarrow> finger" where
  "absoluteFinger t p f =
     (if touchpadVendor t = STD_FOCAL_TECH
      then f\<lparr>fpressure := 128, fwidth := drop_bit 4 (p ! 5), posX := pos12 (p ! 1) (p ! 2),
             posY := ymax t - pos12 (p ! 3) (p ! 4)\<rparr>
      else f\<lparr>fpressure := elanPressure p, fwidth := drop_bit 4 (p ! 0 AND 0xf0), posX := pos12 (p ! 1) (p ! 2),
             posY := ymax t - pos12 (p ! 4) (p ! 5)\<rparr>)"

definition startAbsolute :: "int \<Rightarrow> 'e touch_driver \<Rightarrow> 'e touch_driver" where
  "startAbsolute fid d =
     (let fresh = (\<lambda>d. startX (finger fid d) = 0 \<and> startY (finger fid d) = 0)
      in if packetsCount (tp d) = 0 \<or> fresh d then
           (let d = onTouch (\<lambda>g. if pid g < 0 then g\<lparr>pid := fid\<rparr> else if sid g < 0 then g\<lparr>sid := fid\<rparr> else g) d
            in if fresh d \<or> \<not> (swipeDirection (gestures d) > 0 \<or> lastFingers (gestures d) = 1 \<and> cFingers (tp d) = 2)
               then setFinger fid (\<lambda>f. lastHere (startHere (f\<lparr>tdx := 0, tdy := 0\<rparr>))) d
               else d)
         else d)"

text \<open>The virtual buttons of a click pad; a click outside the button area starts dragging.\<close>

definition clickPadOneFinger :: "'e engine \<Rightarrow> u8 \<Rightarrow> u8 list \<Rightarrow> int \<Rightarrow> 'e touch_driver \<Rightarrow> 'e touch_driver" where
  "clickPadOneFinger engine packet_type p fid d =
     (let d = onTouch (\<lambda>g. g\<lparr>isFingOnBtnArea :=
            (uint (posY (finger fid d)) > uint (ymax (tp d)) - uint (clickPadVBtnArea g))\<rparr>) d;
          d = callEngine engine (ClickPadButtons p packet_type fid 1) d; g = gestures d
      in if triggered g \<and> \<not> isFingOnBtnArea g
         then onTouch (\<lambda>g. g\<lparr>isHoldDrag := True, isDragging := True, holdTime := 2000000001\<rparr>) d else d)"

definition oneFingerV4 ::
  "(nat \<Rightarrow> u64) \<Rightarrow> 'e engine \<Rightarrow> u8 \<Rightarrow> u8 list \<Rightarrow> int \<Rightarrow> 'e touch_driver \<Rightarrow> 'e touch_driver" where
  "oneFingerV4 clock engine packet_type p fid d =
     (let d = (if \<not> isClickPad (tp d) \<and> \<not> disableClicks (gestures d) then Process_Physical_Buttons clock p d
               else if packetsCount (tp d) > 0 then clickPadOneFinger engine packet_type p fid d else d);
          f = finger fid d
      in callEngine engine (SingleFinger (uint (posX f)) (uint (posY f)) fid) d)"

definition edgeOrRestart :: "'e touch_driver \<Rightarrow> 'e touch_driver" where
  "edgeOrRestart d =
     (let d = (if \<not> isEdgeGesture (gestures d) then Is2FingEdgeSwipe d else d)
      in if \<not> isEdgeGesture (gestures d) then bothFingers (\<lambda>f. lastHere (startHere f)) d else d)"

definition moreFingersV4 ::
  "'e engine \<Rightarrow> u8 \<Rightarrow> u8 list \<Rightarrow> int \<Rightarrow> 'e touch_driver \<Rightarrow> 'e touch_driver" where
  "moreFingersV4 engine packet_type p fid d =
     (let d = (if isClickPad (tp d) then callEngine engine (ClickPadButtons p packet_type fid (cFingers (tp d))) d else d);
          (dx, dy) = moved (finger fid d);
          d = setFinger fid (\<lambda>f. addDelta dx dy (f\<lparr>posX := posX f + of_int dx, posY := posY f + of_int dy\<rparr>)) d;
          g = gestures d
      in if cFingers (tp d) = 2 \<and> pid g \<ge> 0 \<and> sid g \<ge> 0 then callTwoFingers engine d
         else if cFingers (tp d) > 2 then callEngine engine (MultiFingers dx dy fid) d
         else d)"

definition absoluteV4 ::
  "(nat \<Rightarrow> u64) \<Rightarrow> 'e engine \<Rightarrow> u8 \<Rightarrow> u8 list \<Rightarrow> 'e touch_driver \<Rightarrow> 'e touch_driver" where
  "absoluteV4 clock engine packet_type p d =
     (let fid = absoluteId (tp d) p
      in if fid < 0 then d
         else
           (let d = startAbsolute fid (setFinger fid (absoluteFinger (tp d) p) d); c = cFingers (tp d);
                d = (if c = 1 then oneFingerV4 clock engine packet_type p fid d
                     else if c = 2 then moreFingersV4 engine packet_type p fid (edgeOrRestart d)
                     else if 3 \<le> c \<and> c \<le> 5 then moreFingersV4 engine packet_type p fid d
                     else d)
            in setFinger fid lastHere d))"

text \<open>Relative packets: the motion of two fingers, in two's complement.\<close>

definition relativeIds :: "touchpad \<Rightarrow> u8 list \<Rightarrow> int \<times> int \<times> int" where
  "relativeIds t p =
     (if touchpadVendor t = STD_FOCAL_TECH
      then (uint (drop_bit 4 (p ! 0) AND 0x7) - 1, uint (drop_bit 4 (p ! 3) AND 0x7) - 1, 1)
      else (uint (drop_bit 5 (p ! 0 AND 0xe0)) - 1, uint (drop_bit 5 (p ! 3 AND 0xe0)) - 1,
            if p ! 0 AND 0x10 \<noteq> 0 then 5 else 1))"

definition shiftFinger :: "int \<Rightarrow> int \<Rightarrow> int \<Rightarrow> 'e touch_driver \<Rightarrow> 'e touch_driver" where
  "shiftFinger i dx dy =
     setFinger i (\<lambda>f. addDelta dx dy (f\<lparr>posX := posX f + of_int dx, posY := posY f + of_int dy\<rparr>))"

definition relativeTwoFingers ::
  "'e engine \<Rightarrow> u8 \<Rightarrow> u8 list \<Rightarrow> (int \<Rightarrow> int) \<Rightarrow> (int \<Rightarrow> int) \<Rightarrow> 'e touch_driver \<Rightarrow> 'e touch_driver" where
  "relativeTwoFingers engine packet_type p dx dy d =
     (if isClickPad (tp d) then
        (let d = (if packetsCount (tp d) = 1 \<and> \<not> isEdgeGesture (gestures d) then bothFingers startHere d else d);
             i = pid (gestures d); j = sid (gestures d)
         in callEngine engine (ClickPad2F p packet_type (dx i) (dy i) (dx j) (dy j)) d)
      else callTwoFingers engine d)"

definition relativeMoreFingers ::
  "'e engine \<Rightarrow> u8 \<Rightarrow> u8 list \<Rightarrow> (int \<Rightarrow> int) \<Rightarrow> (int \<Rightarrow> int) \<Rightarrow> 'e touch_driver \<Rightarrow> 'e touch_driver" where
  "relativeMoreFingers engine packet_type p dx dy d =
     (let d = (if isClickPad (tp d)
               then callEngine engine (ClickPadButtons p packet_type (pid (gestures d)) (cFingers (tp d))) d else d)
      in if \<not> isDragging (gestures d) \<or> is3FDrag (gestures d) then
           (let i = pid (gestures d); d = callEngine engine (MultiFingers (dx i) (dy i) i) d
            in if sid (gestures d) \<ge> 0 then
                 (let d = onPad (\<lambda>t. t\<lparr>packetsCount := packetsCount t - 1\<rparr>) d; j = sid (gestures d)
                  in callEngine engine (MultiFingers (dx j) (dy j) j) d)
               else d)
         else d)"

definition relativeV4 :: "'e engine \<Rightarrow> u8 \<Rightarrow> u8 list \<Rightarrow> 'e touch_driver \<Rightarrow> 'e touch_driver" where
  "relativeV4 engine packet_type p d =
     (let (i, j, weight) = relativeIds (tp d) p;
          d = onTouch (\<lambda>g. g\<lparr>pid := i, sid := j\<rparr>) d;
          dx = (\<lambda>k. 0 :: int); dy = (\<lambda>k. 0 :: int);
          dx = (if i \<ge> 0 then dx(i := weight * sint (p ! 1)) else dx);
          dy = (if i \<ge> 0 then dy(i := dy i - weight * sint (p ! 2)) else dy);
          d = (if i \<ge> 0 then shiftFinger i (dx i) (dy i) d else d);
          dx = (if j \<ge> 0 then dx(j := weight * sint (p ! 4)) else dx);
          dy = (if j \<ge> 0 then dy(j := dy j - weight * sint (p ! 5)) else dy);
          d = (if j \<ge> 0 then shiftFinger j (dx j) (dy j) d else d)
      in if i < 0 \<or> j < 0 then d
         else
           (let c = cFingers (tp d);
                d = (if c = 2 then relativeTwoFingers engine packet_type p dx dy d
                     else if 3 \<le> c \<and> c \<le> 5 then relativeMoreFingers engine packet_type p dx dy d
                     else d);
                d = setFinger (pid (gestures d)) lastHere d
            in if sid (gestures d) \<ge> 0 then setFinger (sid (gestures d)) lastHere d else d))"

definition Process_absolute_events_ELANv4AndFocalTech ::
  "(nat \<Rightarrow> u64) \<Rightarrow> 'e engine \<Rightarrow> u8 \<Rightarrow> u8 list \<Rightarrow> 'e touch_driver \<Rightarrow> 'e touch_driver" where
  "Process_absolute_events_ELANv4AndFocalTech clock engine packet_type p d =
     (let show' = showPressWidth (gestures d); palm = (palmV4 d \<or> show');
          d = (if palm \<and> cFingers (tp d) = 1
               then setFinger 0 (\<lambda>f. f\<lparr>fpressure := elanPressure p, fwidth := drop_bit 4 (p ! 0 AND 0xf0)\<rparr>) d else d);
          d = (if palm \<and> \<not> show' then foundPalm d else d)
      in if palm \<and> \<not> show' \<and> packet_type \<noteq> PACKET_STATUS then d
         else if isAccidental d \<and> packet_type \<noteq> PACKET_STATUS then stopAccidental d
         else
           (let d = takeTime clock d
            in if packet_type = PACKET_STATUS then statusV4 clock engine packet_type p d
               else if packet_type = PACKET_ABSOLUTE then absoluteV4 clock engine packet_type p d
               else if packet_type = PACKET_RELATIVE then relativeV4 engine packet_type p d
               else d))"

end
