(* ===== verification/Touchpad_SynDecode.thy ===== *)
theory Touchpad_SynDecode
  imports Touchpad_ElanDecode
begin

text \<open>
  The decoder of Synaptics packets, Synaptics_report_absolute, and the packets of a pass-through device.
  The loops that reduce a middle-button scroll may not end; then the value of the decoder is None.
\<close>

section \<open>Constants\<close>

definition SYN_MODEL_PEN :: "u64 \<Rightarrow> bool" where "SYN_MODEL_PEN m \<longleftrightarrow> m AND 0x40 \<noteq> 0"
definition SYN_CAP_MIDDLE_BUTTON :: "u64 \<Rightarrow> bool" where "SYN_CAP_MIDDLE_BUTTON c \<longleftrightarrow> c AND 0x40000 \<noteq> 0"
definition SYN_CAP_MULTIFINGER :: "u64 \<Rightarrow> bool" where "SYN_CAP_MULTIFINGER c \<longleftrightarrow> c AND 0x02 \<noteq> 0"
definition SYN_CAP_PALMDETECT :: "u64 \<Rightarrow> bool" where "SYN_CAP_PALMDETECT c \<longleftrightarrow> c AND 0x01 \<noteq> 0"

abbreviation SYN_SCROLL_WHEEL :: u8 where "SYN_SCROLL_WHEEL \<equiv> 0"
abbreviation SYN_SECONDARY_FINGER :: u8 where "SYN_SECONDARY_FINGER \<equiv> 1"
abbreviation SYN_FINGER_STATE :: u8 where "SYN_FINGER_STATE \<equiv> 2"

abbreviation XMIN_NOMINAL :: int where "XMIN_NOMINAL \<equiv> 1472"
abbreviation X_MAX_POSITIVE :: int where "X_MAX_POSITIVE \<equiv> 8176"
abbreviation Y_MAX_POSITIVE :: int where "Y_MAX_POSITIVE \<equiv> 8176"
abbreviation XMAX :: int where "XMAX \<equiv> 6143"
abbreviation YMAX :: int where "YMAX \<equiv> 6143"
abbreviation MAX_NOISE_DELTA :: int where "MAX_NOISE_DELTA \<equiv> 120"

section \<open>Middle-button scroll\<close>

text \<open>
  The member is unsigned, so the first loop ends below 4, and the condition \<open>m_scroll \<le> -4\<close> of the
  second compares with 0xfffffffc.
\<close>

function scrollBackward :: "u32 \<Rightarrow> u32" where
  "scrollBackward m = (if m \<ge> 4 then scrollBackward (m - 4) else m)"
  by pat_completeness auto
termination
  by (relation "measure unat") (auto simp: unat_sub word_le_nat_alt)

declare scrollBackward.simps [simp del]

partial_function (option) scrollForward :: "u32 \<Rightarrow> u32 option" where
  "scrollForward m = (if m \<le> 0xfffffffc then scrollForward (m + 4) else Some m)"

definition middleScroll :: "u32 \<Rightarrow> u32 option" where
  "middleScroll m = scrollForward (scrollBackward (m + m))"

section \<open>Extended packets of several fingers\<close>

text \<open>The bits of a twelve-bit position at half the resolution.\<close>

definition secondaryFinger :: "u16 \<Rightarrow> u16 \<Rightarrow> u8 list \<Rightarrow> int \<times> int \<times> u8" where
  "secondaryFinger yTop yBottom p =
     (2 * uint (push_bit 8 (ucast (p ! 4 AND 0x0f)) OR ucast (p ! 1) :: u32),
      uint yTop + uint yBottom - 2 * uint (push_bit 4 (ucast (p ! 4 AND 0xf0)) OR ucast (p ! 2) :: u32),
      push_bit 1 ((p ! 3 AND 0x30) OR (p ! 5 AND 0x0f)))"

definition reportSecondary :: "u8 list \<Rightarrow> 'e touch_driver \<Rightarrow> 'e touch_driver" where
  "reportSecondary p d =
     (let (x, y, z) = secondaryFinger (ymax (tp d)) (ymin (tp d)) p
      in if uint (of_int x :: u32) < XMIN_NOMINAL div 2 \<and> z > 0 then
           stopPointer (onTouch (\<lambda>g. g\<lparr>secondary_x := 0, secondary_y := 0, secondary_pressure := 0\<rparr>) d)
         else onTouch (\<lambda>g. g\<lparr>secondary_x := of_int x, secondary_y := of_int y, secondary_pressure := z,
                secondary_wait := True\<rparr>) d)"

definition reportFingerState :: "(nat \<Rightarrow> u64) \<Rightarrow> u8 list \<Rightarrow> 'e touch_driver \<Rightarrow> 'e touch_driver" where
  "reportFingerState clock p d =
     (let d = onTouch (\<lambda>g. g\<lparr>pid := sint (p ! 2), sid := sint (p ! 4)\<rparr>) d
      in if cFingers (tp d) \<noteq> p ! 1 then
           Process_fingers_change clock
             (onPad (\<lambda>t. t\<lparr>cFingers := p ! 1\<rparr>) (onTouch (\<lambda>g. g\<lparr>lastFingers := cFingers (tp d)\<rparr>) d))
         else d)"

definition reportExtended :: "(nat \<Rightarrow> u64) \<Rightarrow> u8 list \<Rightarrow> 'e touch_driver \<Rightarrow> 'e touch_driver" where
  "reportExtended clock p d =
     (let ext_packet_type = drop_bit 4 (p ! 5 AND 0x30);
          d = onTouch (\<lambda>g. g\<lparr>secondary_x := 0, secondary_y := 0, secondary_pressure := 0\<rparr>) d
      in if ext_packet_type = SYN_SECONDARY_FINGER then reportSecondary p d
         else if ext_packet_type = SYN_FINGER_STATE then reportFingerState clock p d
         else d)"

section \<open>The primary finger\<close>

definition widthOf :: "bool \<Rightarrow> u8 list \<Rightarrow> u8" where
  "widthOf newabs p =
     (if newabs then drop_bit 2 (p ! 0 AND 0x30) OR drop_bit 1 (p ! 0 AND 0x04) OR drop_bit 2 (p ! 3 AND 0x04)
      else drop_bit 4 (p ! 1 AND 0x80) OR drop_bit 1 (p ! 0 AND 0x04))"

definition primaryX :: "bool \<Rightarrow> u8 list \<Rightarrow> int" where
  "primaryX newabs p =
     (if newabs then uint (push_bit 8 (ucast (p ! 3 AND 0x10)) OR push_bit 8 (ucast (p ! 1 AND 0x0f)) OR
        ucast (p ! 4) :: u32)
      else uint (push_bit 8 (ucast (p ! 1 AND 0x1f)) OR ucast (p ! 2) :: u32))"

definition primaryY :: "bool \<Rightarrow> u8 list \<Rightarrow> int" where
  "primaryY newabs p =
     (if newabs then uint (push_bit 7 (ucast (p ! 3 AND 0x20)) OR push_bit 4 (ucast (p ! 1 AND 0xf0)) OR
        ucast (p ! 5) :: u32)
      else uint (push_bit 8 (ucast (p ! 4 AND 0x1f)) OR ucast (p ! 5) :: u32))"

definition primaryZ :: "bool \<Rightarrow> u8 list \<Rightarrow> u8" where
  "primaryZ newabs p =
     (if newabs then p ! 2 else push_bit 2 (p ! 0 AND 0x30) OR (p ! 3 AND 0x3F))"

definition wrapX :: "int \<Rightarrow> int" where
  "wrapX x = (if x > X_MAX_POSITIVE then x - 8192 else if x = X_MAX_POSITIVE then XMAX else x)"

definition wrapY :: "int \<Rightarrow> int" where
  "wrapY y = (if y > Y_MAX_POSITIVE then y - 8192 else if y = Y_MAX_POSITIVE then YMAX else y)"

text \<open>A finger with pressure left of the area: an invalid packet.\<close>

definition invalidPrimary :: "'e engine \<Rightarrow> 'e touch_driver \<Rightarrow> 'e touch_driver" where
  "invalidPrimary engine d =
     (let d = stopPointer d;
          d = (if touchmode (gestures d) \<noteq> MODE_IDLE then callEngine engine TouchEnd d else d)
      in onTouch (\<lambda>g. g\<lparr>touch_ended := True\<rparr>) d)"

text \<open>Extra buttons: the cases of the switch fall through from 8 down to 2.\<close>

definition extButtons :: "u64 \<Rightarrow> u8 list \<Rightarrow> u8" where
  "extButtons n p =
     (let low = (\<lambda>b m. if p ! b AND m \<noteq> 0 then id else (\<lambda>_. 0)) in
      (if n = 8 then low 5 0x08 0x80 OR low 4 0x08 0x40 else 0) OR
      (if n \<in> set [6, 8] then low 5 0x04 0x20 OR low 4 0x04 0x10 else 0) OR
      (if n \<in> set [4, 6, 8] then low 5 0x02 0x08 OR low 4 0x02 0x04 else 0) OR
      (if n \<in> set [2, 4, 6, 8] then low 5 0x01 0x02 OR low 4 0x01 0x01 else 0))"

definition newabsButtons :: "u8 list \<Rightarrow> 'e touch_driver \<Rightarrow> 'e touch_driver" where
  "newabsButtons p d =
     (let s = synTPad (tp d); n = SYN_CAP_MULTI_BUTTON_NO (ext_cap s);
          d = (if \<not> isClickPad (tp d) \<and> SYN_CAP_MIDDLE_BUTTON (capabilities s) \<and> synW (gestures d) = 2
               then onTouch (\<lambda>g. g\<lparr>m_scroll := scast (p ! 1)\<rparr>) d else d)
      in if n \<noteq> 0 \<and> (p ! 0 XOR p ! 3) AND 0x02 \<noteq> 0
         then onTouch (\<lambda>g. g\<lparr>ext_buttons := ext_buttons g OR extButtons (n AND NOT 1) p\<rparr>) d
         else d)"

section \<open>Number of fingers\<close>

definition changeFingers :: "(nat \<Rightarrow> u64) \<Rightarrow> u8 \<Rightarrow> 'e touch_driver \<Rightarrow> 'e touch_driver" where
  "changeFingers clock n d =
     (if cFingers (tp d) \<noteq> n then
        Process_fingers_change clock
          (onPad (\<lambda>t. t\<lparr>cFingers := n\<rparr>) (onTouch (\<lambda>g. g\<lparr>lastFingers := cFingers (tp d)\<rparr>) d))
      else d)"

definition fingersDown :: "(nat \<Rightarrow> u64) \<Rightarrow> 'e touch_driver \<Rightarrow> 'e touch_driver" where
  "fingersDown clock d =
     (let w = synW (gestures d); c = capabilities (synTPad (tp d))
      in if \<not> SYN_CAP_EXTENDED c then d
         else if w = 0 \<or> w = 1 \<and> cFingers (tp d) \<le> 3 then
           (if SYN_CAP_MULTIFINGER c then changeFingers clock (w + 2) d else d)
         else if 4 \<le> w \<and> w \<le> 15 then
           (let d = changeFingers clock 1 d
            in if pid (gestures d) \<ge> 0
               then setFinger (pid (gestures d)) (\<lambda>f. f\<lparr>fwidth := if SYN_CAP_PALMDETECT c then synW (gestures d) else 5\<rparr>) d
               else onTouch (\<lambda>g. g\<lparr>pid := 0, sid := -1\<rparr>) d)
         else d)"

definition fingersUp :: "(nat \<Rightarrow> u64) \<Rightarrow> u8 list \<Rightarrow> 'e touch_driver \<Rightarrow> 'e touch_driver" where
  "fingersUp clock p d =
     (let d = (if cFingers (tp d) \<noteq> 0 then
            stopPointer (onPad (\<lambda>t. t\<lparr>cFingers := 0\<rparr>) (onTouch (\<lambda>g. g\<lparr>lastFingers := cFingers (tp d)\<rparr>) d))
          else d);
          d = (if pid (gestures d) \<ge> 0 then setFinger (pid (gestures d)) (\<lambda>f. f\<lparr>fwidth := 0\<rparr>) d else d)
      in if \<not> isClickPad (tp d) \<and> \<not> disableClicks (gestures d) then Process_Physical_Buttons clock p d else d)"

section \<open>Positions of the two fingers\<close>

definition startFinger :: "int \<Rightarrow> 'e touch_driver \<Rightarrow> 'e touch_driver" where
  "startFinger i d = (if packetsCount (tp d) = 0 then initFinger i d else d)"

definition setPrimary :: "int \<Rightarrow> int \<Rightarrow> u8 \<Rightarrow> 'e touch_driver \<Rightarrow> 'e touch_driver" where
  "setPrimary x y z d =
     (let i = pid (gestures d)
      in if i < 0 then d
         else if z > 0 then startFinger i (setFinger i (\<lambda>f. f\<lparr>posX := of_int x, posY := of_int y, fpressure := z\<rparr>) d)
         else setFinger i (\<lambda>f. f\<lparr>fpressure := 0\<rparr>) d)"

definition fromStart :: "finger \<Rightarrow> finger \<Rightarrow> int \<times> int" where
  "fromStart f g = (\<bar>uint (startX f) - uint (posX g)\<bar>, \<bar>uint (startY f) - uint (posY g)\<bar>)"

text \<open>The primary finger has jumped and the secondary has not: the slots were exchanged.\<close>

definition fixStart :: "'e touch_driver \<Rightarrow> 'e touch_driver" where
  "fixStart d =
     (let p = pid (gestures d); s = sid (gestures d)
      in if packetsCount (tp d) < 2 \<and> lastFingers (gestures d) = 1 \<and> cFingers (tp d) = 2 then
           (let d = reads p d; fp = finger p d; fs = finger s d; N = MAX_NOISE_DELTA;
                (px, py) = fromStart fp fp; (sx, sy) = fromStart fs fs; (cx, cy) = fromStart fp fs
            in if px > N \<and> sx < N \<or> py > N \<and> sy < N then
                 setFinger p startHere
                   (setFinger s (\<lambda>f. if cx > N \<or> cy > N then startHere f
                      else f\<lparr>startX := startX fp, startY := startY fp\<rparr>) d)
               else d)
         else d)"

definition setSecondary :: "'e touch_driver \<Rightarrow> 'e touch_driver" where
  "setSecondary d =
     (let g = gestures d; s = sid g
      in if s < 0 then d
         else if secondary_pressure g > 0 then
           fixStart (startFinger s (setFinger s (\<lambda>f. f\<lparr>posX := ucast (secondary_x g), posY := ucast (secondary_y g),
             fpressure := secondary_pressure g\<rparr>) d))
         else setFinger s (\<lambda>f. f\<lparr>fpressure := 0\<rparr>) d)"

section \<open>Palms\<close>

definition palmSynaptics :: "u8 \<Rightarrow> 'e touch_driver \<Rightarrow> bool" where
  "palmSynaptics z d \<longleftrightarrow>
     (let g = gestures d; f = finger 0 d; c = cFingers (tp d)
      in palmDetectionEnabled g \<and>
           (c = 1 \<and> fwidth f > palmMinWidth g \<and> fpressure f > palmMinPressure g \<or>
            c < 3 \<and> fpressure f > palmMinPressure g \<or> palmDetected g \<and> \<not> (c = 0 \<and> z = 0)) \<or>
         showPressWidth g \<or> c = 1 \<and> lastFingers g > 1 \<and> fwidth f > palmMinWidth g)"

section \<open>Dispatch by the number of fingers\<close>

definition lastPid :: "'e touch_driver \<Rightarrow> 'e touch_driver" where
  "lastPid d = setFinger (pid (gestures d)) lastHere d"

definition lastSid :: "'e touch_driver \<Rightarrow> 'e touch_driver" where
  "lastSid d = setFinger (sid (gestures d)) lastHere d"

definition callPrimary :: "'e engine \<Rightarrow> 'e touch_driver \<Rightarrow> 'e touch_driver" where
  "callPrimary engine d =
     (let i = pid (gestures d); d = reads i d; f = finger i d
      in lastPid (callEngine engine (SingleFinger (uint (posX f)) (uint (posY f)) i) d))"

definition oneFingerSynaptics ::
  "(nat \<Rightarrow> u64) \<Rightarrow> 'e engine \<Rightarrow> u8 list \<Rightarrow> 'e touch_driver \<Rightarrow> 'e touch_driver" where
  "oneFingerSynaptics clock engine p d =
     callPrimary engine
       (if \<not> isClickPad (tp d) \<and> \<not> disableClicks (gestures d) then Process_Physical_Buttons clock p d
        else if packetsCount (tp d) > 0
        then clickPadOneFinger engine 0 p (pid (gestures d)) (reads (pid (gestures d)) d)
        else d)"

definition twoFingersSynaptics :: "'e engine \<Rightarrow> u8 list \<Rightarrow> 'e touch_driver \<Rightarrow> 'e touch_driver" where
  "twoFingersSynaptics engine p d =
     (let d = (if packetsCount (tp d) \<le> 1 then edgeOrRestart d else d);
          d = (if isClickPad (tp d) \<and> packetsCount (tp d) > 1 then
                 (let i = pid (gestures d); j = sid (gestures d); d = reads j (reads i d);
                      (dx1, dy1) = moved (finger i d); (dx2, dy2) = moved (finger j d)
                  in callEngine engine (ClickPad2F p PACKET_ABSOLUTE dx1 dy1 dx2 dy2) d)
               else callTwoFingers engine d)
      in lastSid (lastPid d))"

definition moveFinger :: "'e engine \<Rightarrow> int \<Rightarrow> 'e touch_driver \<Rightarrow> 'e touch_driver" where
  "moveFinger engine i d =
     (let (dx, dy) = moved (finger i d)
      in callEngine engine (MultiFingers dx dy i) (setFinger i (addDelta dx dy) d))"

definition moreFingersSynaptics :: "'e engine \<Rightarrow> u8 list \<Rightarrow> 'e touch_driver \<Rightarrow> 'e touch_driver" where
  "moreFingersSynaptics engine p d =
     (let d = (if pid (gestures d) \<ge> 0 then lastPid (moveFinger engine (pid (gestures d)) d) else d)
      in if pid (gestures d) \<ge> 0 \<and> sid (gestures d) \<ge> 0 then
           (let d = (if isClickPad (tp d)
                     then callEngine engine (ClickPadButtons p PACKET_ABSOLUTE 0 (cFingers (tp d))) d else d);
                d = onPad (\<lambda>t. t\<lparr>packetsCount := packetsCount t - 1\<rparr>) d
            in lastSid (moveFinger engine (sid (gestures d)) d))
         else d)"

definition dispatchSynaptics ::
  "(nat \<Rightarrow> u64) \<Rightarrow> 'e engine \<Rightarrow> u8 \<Rightarrow> u8 list \<Rightarrow> 'e touch_driver \<Rightarrow> 'e touch_driver" where
  "dispatchSynaptics clock engine z p d =
     (let g = gestures d; c = cFingers (tp d)
      in if \<not> touch_ended g \<and> z = 0 \<and> c = 0 \<and> buttonData (tp d) = 0 \<and> (0 \<le> pid g \<and> pid g < 5 \<or> sid g \<ge> 0)
         then callEngine engine TouchEnd d
         else if c = 1 then oneFingerSynaptics clock engine p d
         else if c = 2 then twoFingersSynaptics engine p d
         else if 3 \<le> c \<and> c \<le> 5 then moreFingersSynaptics engine p d
         else d)"

text \<open>From the positions on: fingers, palms, accidental input and dispatch.\<close>

definition reportPrimary ::
  "(nat \<Rightarrow> u64) \<Rightarrow> 'e engine \<Rightarrow> int \<Rightarrow> int \<Rightarrow> u8 \<Rightarrow> u8 list \<Rightarrow> 'e touch_driver \<Rightarrow> 'e touch_driver" where
  "reportPrimary clock engine x y z p d =
     (let d = (if z > 0 then fingersDown clock d else fingersUp clock p d);
          d = (if secondary_wait (gestures d) \<and> tracksTwoFingers (tp d)
               then onTouch (\<lambda>g. g\<lparr>secondary_wait := False\<rparr>) d else d);
          d = setSecondary (setPrimary x y z d);
          c = cFingers (tp d); palm = palmSynaptics z d
      in if palm \<and> c = 1 \<and> lastFingers (gestures d) > 1 then d
         else if palm \<and> \<not> showPressWidth (gestures d) then foundPalm d
         else if isAccidental d \<and> \<not> (c = 0 \<and> z = 0) then stopAccidental d
         else dispatchSynaptics clock engine z p (takeTime clock d))"

section \<open>The decoder\<close>

definition Process_passthrough_events_Synaptics ::
  "(nat \<Rightarrow> u64) \<Rightarrow> 'e engine \<Rightarrow> int \<Rightarrow> int \<Rightarrow> u8 list \<Rightarrow> 'e touch_driver \<Rightarrow> 'e touch_driver" where
  "Process_passthrough_events_Synaptics clock engine x y p d =
     (let d = Process_Physical_Buttons clock p d
      in if p ! 2 \<noteq> 0 \<or> p ! 4 \<noteq> 0 \<or> p ! 5 \<noteq> 0 then
           callPrimary engine
             (setFinger 5 (\<lambda>f. f\<lparr>posX := of_int x, posY := of_int y\<rparr>) (onTouch (\<lambda>g. g\<lparr>pid := 5\<rparr>) d))
         else d)"

definition isPassThrough :: "touchpad \<Rightarrow> u8 list \<Rightarrow> bool" where
  "isPassThrough t p \<longleftrightarrow> SYN_CAP_PASS_THROUGH (capabilities (synTPad t)) \<and>
     SYN_CAP_EXT_BUTTONS_STICK (ext_cap_10 (synTPad t)) \<and> stickPacket p"

definition Synaptics_report_absolute ::
  "(nat \<Rightarrow> u64) \<Rightarrow> 'e engine \<Rightarrow> u8 list \<Rightarrow> 'e touch_driver \<Rightarrow> 'e touch_driver option" where
  "Synaptics_report_absolute clock engine p d =
     (let newabs = SYN_MODEL_NEWABS (model_id (synTPad (tp d)));
          d = onTouch (\<lambda>g. g\<lparr>synW := widthOf newabs p\<rparr>) d;
          x = primaryX newabs p; y = uint (ymax (tp d)) + uint (ymin (tp d)) - primaryY newabs p;
          z = primaryZ newabs p
      in if newabs \<and> tracksTwoFingers (tp d) \<and> synW (gestures d) = 2 then Some (reportExtended clock p d)
         else if x < (if newabs then XMIN_NOMINAL div 2 else XMIN_NOMINAL) \<and> z > 0
         then Some (invalidPrimary engine d)
         else
           (let d = (if newabs then newabsButtons p d else d); x = wrapX x; y = wrapY y
            in if m_scroll (gestures d) \<noteq> 0 then do {
                 m \<leftarrow> middleScroll (m_scroll (gestures d));
                 Some (onTouch (\<lambda>g. g\<lparr>m_scroll := m\<rparr>) d)
               }
               else if isPassThrough (tp d) p
               then Some (Process_passthrough_events_Synaptics clock engine x y p d)
               else Some (reportPrimary clock engine x y z p d)))"

end
