(* ===== verification/Touchpad_Roundtrip.thy ===== *)
theory Touchpad_Roundtrip
  imports Touchpad_SynDecode
begin

text \<open>A position, a pressure, a width and buttons as a Synaptics packet, and that the decoder reads them back.\<close>

definition synapticsPacket :: "u16 \<Rightarrow> u16 \<Rightarrow> u8 \<Rightarrow> u8 \<Rightarrow> u8 \<Rightarrow> u8 list" where
  "synapticsPacket x y z w b =
     (let hx = ucast (drop_bit 8 x); hy = ucast (drop_bit 8 y)
      in [0x80 OR push_bit 2 (w AND 0x0c) OR push_bit 1 (w AND 0x02) OR (b AND 0x03),
          push_bit 4 (hy AND 0x0f) OR (hx AND 0x0f), z,
          0xc0 OR push_bit 1 (hy AND 0x10) OR (hx AND 0x10) OR push_bit 2 (w AND 0x01), ucast x, ucast y])"

section \<open>Bytes\<close>

text \<open>Each field of a packet byte, masked with the mask of another field.\<close>

definition fields_disjoint :: "u8 \<Rightarrow> bool" where
  "fields_disjoint h \<longleftrightarrow>
     push_bit 1 (h AND 0x10) AND 0x10 = 0 \<and>
     push_bit 2 (h AND 0x01) AND 0x10 = 0 \<and>
     (h AND 0x10) AND 0x10 = h AND 0x10 \<and>
     push_bit 4 (h AND 0x0f) AND 0x0f = 0 \<and>
     (h AND 0x0f) AND 0x0f = h AND 0x0f \<and>
     push_bit 1 (h AND 0x10) AND 0x20 = push_bit 1 (h AND 0x10) \<and>
     (h AND 0x10) AND 0x20 = 0 \<and>
     push_bit 2 (h AND 0x01) AND 0x20 = 0 \<and>
     push_bit 4 (h AND 0x0f) AND 0xf0 = push_bit 4 (h AND 0x0f) \<and>
     (h AND 0x0f) AND 0xf0 = 0 \<and>
     push_bit 2 (h AND 0x0c) AND 0x30 = push_bit 2 (h AND 0x0c) \<and>
     push_bit 1 (h AND 0x02) AND 0x30 = 0 \<and>
     (h AND 0x03) AND 0x30 = 0 \<and>
     push_bit 2 (h AND 0x0c) AND 0x04 = 0 \<and>
     push_bit 1 (h AND 0x02) AND 0x04 = push_bit 1 (h AND 0x02) \<and>
     (h AND 0x03) AND 0x04 = 0 \<and>
     push_bit 1 (h AND 0x10) AND 0x04 = 0 \<and>
     (h AND 0x10) AND 0x04 = 0 \<and>
     push_bit 2 (h AND 0x01) AND 0x04 = push_bit 2 (h AND 0x01) \<and>
     push_bit 2 (h AND 0x0c) AND 0x03 = 0 \<and>
     push_bit 1 (h AND 0x02) AND 0x03 = 0 \<and>
     (h AND 0x03) AND 0x03 = h AND 0x03"

lemma byte_fields: "fields_disjoint h"
  by (rule byte_cases [where P = fields_disjoint]) code_simp

lemma byte_position:
  "push_bit 8 (ucast (h AND 0x10)) OR push_bit 8 (ucast (h AND 0x0f)) = (push_bit 8 (ucast (h AND 0x1f :: u8)) :: u32)"
  "push_bit 7 (ucast (push_bit 1 (h AND 0x10))) OR push_bit 4 (ucast (push_bit 4 (h AND 0x0f))) =
     (push_bit 8 (ucast (h AND 0x1f :: u8)) :: u32)"
  by (rule byte_cases [where b = h and P = "\<lambda>h. push_bit 8 (ucast (h AND 0x10)) OR push_bit 8 (ucast (h AND 0x0f)) =
        (push_bit 8 (ucast (h AND 0x1f)) :: u32)"], code_simp,
      rule byte_cases [where b = h and P = "\<lambda>h. push_bit 7 (ucast (push_bit 1 (h AND 0x10))) OR
        push_bit 4 (ucast (push_bit 4 (h AND 0x0f))) = (push_bit 8 (ucast (h AND 0x1f)) :: u32)"], code_simp)

lemma byte_width:
  "w < (16 :: u8) \<longrightarrow> drop_bit 2 (push_bit 2 (w AND 0x0c)) OR drop_bit 1 (push_bit 1 (w AND 0x02)) OR
     drop_bit 2 (push_bit 2 (w AND 0x01)) = w"
  by (rule byte_cases [where P = "\<lambda>w. w < 16 \<longrightarrow> drop_bit 2 (push_bit 2 (w AND 0x0c)) OR
     drop_bit 1 (push_bit 1 (w AND 0x02)) OR drop_bit 2 (push_bit 2 (w AND 0x01)) = w"]) code_simp

lemma two_bits: "b < (4 :: u8) \<longrightarrow> b AND 0x03 = b"
  by (rule byte_cases [where P = "\<lambda>b. b < 4 \<longrightarrow> b AND 0x03 = b"]) code_simp

lemma join_bytes:
  fixes x :: u16
  assumes "x < 0x2000"
  shows "uint (push_bit 8 (ucast (ucast (drop_bit 8 x) AND 0x1f :: u8)) OR ucast (ucast x :: u8) :: u32) = uint x"
proof -
  have t: "take_bit 13 x = x"
    using assms by (simp add: take_bit_eq_mod word_less_def uint_word_arith_bintrs unsigned_word_eqI mod_word_less)
  have b: "bit x n \<Longrightarrow> n < 13" for n by (metis t bit_take_bit_iff)
  have "(push_bit 8 (ucast (ucast (drop_bit 8 x) AND 0x1f :: u8)) OR ucast (ucast x :: u8) :: u32) = ucast x"
  proof (rule bit_eqI)
    fix n
    have m: "(0x1f :: u8) = mask 5" by (simp add: mask_eq_exp_minus_1)
    show "bit (push_bit 8 (ucast (ucast (drop_bit 8 x) AND 0x1f :: u8)) OR ucast (ucast x :: u8) :: u32) n = bit (ucast x :: u32) n"
      unfolding m using b [of n] by (auto simp: bit_simps)
  qed
  moreover have "uint (ucast x :: u32) = uint x" by (simp add: uint_up_ucast is_up)
  ultimately show ?thesis by (simp only:)
qed

lemma packet_bytes:
  "synapticsPacket x y z w b ! 0 = 0x80 OR push_bit 2 (w AND 0x0c) OR push_bit 1 (w AND 0x02) OR (b AND 0x03)"
  "synapticsPacket x y z w b ! 1 = push_bit 4 (ucast (drop_bit 8 y) AND 0x0f) OR (ucast (drop_bit 8 x) AND 0x0f)"
  "synapticsPacket x y z w b ! 2 = z"
  "synapticsPacket x y z w b ! 3 =
     0xc0 OR push_bit 1 (ucast (drop_bit 8 y) AND 0x10) OR (ucast (drop_bit 8 x) AND 0x10) OR push_bit 2 (w AND 0x01)"
  "synapticsPacket x y z w b ! 4 = ucast x" "synapticsPacket x y z w b ! 5 = ucast y"
  unfolding synapticsPacket_def Let_def by simp_all

lemma constant_fields:
  "(0x80 :: u8) AND 0x30 = 0" "(0x80 :: u8) AND 0x04 = 0" "(0x80 :: u8) AND 0x03 = 0" "(0xc0 :: u8) AND 0x10 = 0"
  "(0xc0 :: u8) AND 0x20 = 0" "(0xc0 :: u8) AND 0x04 = 0"
  by simp_all

text \<open>
  C27: What a Synaptics packet encodes is what the decoder reads: the position of 13 bits on both axes, the
  pressure, the width code and the buttons, which are spread over six bytes.
\<close>

theorem synaptics_packet_roundtrip:
  assumes "x < 0x2000" "y < 0x2000" "w < 16" "b < 4"
  shows "primaryX True (synapticsPacket x y z w b) = uint x \<and> primaryY True (synapticsPacket x y z w b) = uint y \<and>
    primaryZ True (synapticsPacket x y z w b) = z \<and> widthOf True (synapticsPacket x y z w b) = w \<and>
    synapticsPacket x y z w b ! 0 AND 0x03 = b"
proof -
  have b: "b AND 0x03 = b" using assms(4) two_bits by blast
  have d: "fields_disjoint h" for h by (rule byte_fields)
  note f = if_True packet_bytes bit.conj_disj_distrib2 d [unfolded fields_disjoint_def] constant_fields byte_position
    or.left_neutral or.right_neutral
  have "primaryX True (synapticsPacket x y z w b) = uint x"
    using join_bytes [OF assms(1)] by (simp only: primaryX_def f or.assoc [symmetric])
  moreover have "primaryY True (synapticsPacket x y z w b) = uint y"
    using join_bytes [OF assms(2)] by (simp only: primaryY_def f or.assoc [symmetric])
  moreover have "widthOf True (synapticsPacket x y z w b) = w"
    using byte_width [of w] assms(3) by (simp only: widthOf_def f or.assoc simp_thms)
  moreover have "synapticsPacket x y z w b ! 0 AND 0x03 = b" using b by (simp only: f)
  ultimately show ?thesis by (simp only: primaryZ_def f simp_thms)
qed

theorem synaptics_packet_roundtrip_witness:
  "synapticsPacket 0x1234 0x0567 60 5 1 = [0x91, 0x52, 60, 0xd4, 0x34, 0x67] \<and>
   primaryX True (synapticsPacket 0x1234 0x0567 60 5 1) = 0x1234"
  using synaptics_packet_roundtrip [of "0x1234" "0x0567" 5 1 60] by (simp add: synapticsPacket_def)

end
