(* ===== verification/Touchpad_Features.thy ===== *)
theory Touchpad_Features
  imports Touchpad_SynDecode Complex_Main
begin

text \<open>
  The state of the gesture engine of the touchpad driver (class SmartTouchpadFeatures), the actions its
  gestures end in (moving the pointer, notifying the keyboard driver, opening the notification centre) and
  edge swipes and finger presses. Signed members are words read by sint. A float is a rational and \<open>fl\<close>,
  an argument, is the rounding of the result of an operation to a float; products with the constant 0.8
  and its like are compared with integers, for which the exact value decides.
\<close>

section \<open>State\<close>

record pointer_prefs =
  pAccelPreference :: u8
  pAccelCustom :: u8
  pSmoothSamples :: u8
  pSmoothLevel :: u8
  tSenseLvl :: u8
  pExtAccelLevel :: u8
  pExtAccelMinDelta :: u8
  pSlowMoveNoiseDelta :: u8
  tpLeftEdgeDArea :: u16
  tpRightEdgeDArea :: u16
  tpTopEdgeDArea :: u16
  tpBottomEdgeDArea :: u16

text \<open>The members of _drag, _scroll and so on that are not in the state of the decoders.\<close>

record drag_struct =
  isQuickTap :: bool
  checkTapDrag :: bool
  hasFPresDrag :: bool
  fPressDragFingersID :: u8
  fPressDragFingersNum :: u8
  fPressDragPressure :: u8
  releaseTime :: u32
  releaseStartTime :: u64
  fPressDragStartTimeOut :: u64

record scroll_features =
  accelMode2F :: u8
  accelModeEdge :: u8
  smoothSamples :: u8
  contMaxDeltaEdge :: u8
  contMaxDelta2F :: u8
  contAccel :: u8
  edgeCirDelta :: u8
  scrollEdgeVArea :: u16
  scrollEdgeHArea :: u16
  edgeVAdaptArea :: u16
  edgeHAdaptArea :: u16
  hasEdgeScroll :: bool
  hasEdgeCScroll :: bool
  hasEdgeInertia :: bool
  hasEdgeCont :: bool
  hasEdgeSling :: bool
  hasEdgeAuto :: bool
  has2FInertia :: bool
  has2FCont :: bool
  has2FSling :: bool
  has2FAuto :: bool
  noHSInertia :: bool
  accelDelay :: u8
  edgeSpeedFactor :: u8
  stopSamples :: u8
  directionSamples :: u8
  idleFingMaxDelta :: u8
  idleFingDetectTimeout :: u64
  inertiaDepth :: u8
  inertiaDelay :: u8
  slingTriggerArea :: u16
  slingStartTimeout :: u64
  slingEffectRunTime :: u64

record scroll_state =
  xPacketsDir :: u8
  yPacketsDir :: u8
  noInertia :: bool
  scrollDx :: u16
  scrollDy :: u16
  edgeCirDxy :: u16
  maxLevelReached :: u8
  dxPacketsCount :: u8
  dyPacketsCount :: u8
  inertiaLevel :: u8
  maxInertiaLevel :: u8
  curInertiaDeltaX :: u16
  curInertiaDeltaY :: u16
  slingDepth :: u8
  slingEffectTime :: u64
  lastSlingEffectTime :: u64
  scrollSample :: u8
  skippedDx :: "u16 list"
  skippedDy :: "u16 list"

record corner_tap =
  corner :: u8
  tapAreaLength :: u16
  tapAreaHeight :: u16
  cornerEnabled :: bool
  bottomCornersDisabled :: bool
  releaseStartABS :: bool

record zoom_rotate =
  zoomEnabled :: bool
  isZoomOut :: bool
  isZoomIn :: bool
  tapZoomDone :: bool
  zoomMinSamples :: u8
  pinchDeltaScale :: u8
  zoomDelta :: u16
  rotateEnabled :: bool
  cirEnabled :: bool
  xAxisPos :: u16
  yAxisPos :: u16
  rotateXCounter :: u16
  rotateYCounter :: u16
  rotateDelta :: u16
  maxCFDeltaY :: u16

record swipe_struct =
  has3FSwipes :: bool
  has4FSwipes :: bool
  resetPointerOnEdge :: bool
  isInFullScreen :: bool
  isNCDone :: bool
  up3F :: u8
  down3F :: u8
  right3F :: u8
  left3F :: u8
  up4F :: u8
  down4F :: u8
  right4F :: u8
  left4F :: u8
  mulFingDeltaX :: u16
  mulFingDeltaY :: u16

record tap_struct =
  tapFingers1 :: u8
  tapFingers2 :: u8
  tapFingers3 :: u8
  tapFingers4 :: u8
  tapFingers5 :: u8
  tapLastTime :: u64
  mulFingsTimeout :: u64
  tapTimeout :: u64
  hasMulFDoubleTaps :: bool
  tapCount :: u8
  tapFingersCount :: u8
  noiseDelta :: u8
  noiseMultiTapDelta :: u8
  tapPressure :: u8
  maxTEndPressure :: u8
  maxTEndDelta :: u16

record press_struct =
  fings2Click :: u8
  fings2Press :: u8
  fings3Press :: u8
  fings4Press :: u8
  fings5Press :: u8
  pressTimeout :: u64
  pressGestureTime :: u64
  lastHoldTime :: u64
  fings4PinchAction :: u8
  fings5PinchAction :: u8

record button_struct =
  clickPad2FMove :: bool
  is2FClick :: bool
  clickPadHasVButtons :: bool
  enablePointingOnBtnArea :: bool
  fingerInUse :: u8

record backlight_struct =
  isKBLightOff :: bool
  kBLightAutoOffTimeout :: u32
  lastKBLightTriggerTime :: u64

record gesture = touch +
  pointerPrefs :: pointer_prefs
  drag :: drag_struct
  scrollF :: scroll_features
  scroll :: scroll_state
  cornerTap :: corner_tap
  zoomRotate :: zoom_rotate
  swipe :: swipe_struct
  tap :: tap_struct
  press :: press_struct
  button :: button_struct
  backlights :: backlight_struct
  isClickingEnabled :: bool
  isTapSwapEnabled :: bool
  scrollFactor :: rat
  maxDoubleClickTime :: u64
  secondarayClickInput :: u8
  threeFTapLookUp :: bool
  threeFDrag :: bool
  twoFDoubleTapSZoom :: bool
  isToggleKeyOnHold :: bool
  altFunction :: bool
  accInputKeysCount :: u8
  osxVersion :: u8

type_synonym 'x gesture_driver = "'x gesture_scheme driver"

text \<open>
  The state as init leaves it: the structures are cleared, and then or before some members set. The time-outs of
  _tap are set before _tap is cleared, so that they are 0 here.
\<close>

definition gesture_init :: gesture where
  "gesture_init = touch.extend touch_init (gesture.fields
     \<lparr>pAccelPreference = 0, pAccelCustom = 0, pSmoothSamples = 5, pSmoothLevel = 2, tSenseLvl = 0,
       pExtAccelLevel = 0, pExtAccelMinDelta = 0, pSlowMoveNoiseDelta = 0, tpLeftEdgeDArea = 0,
       tpRightEdgeDArea = 0, tpTopEdgeDArea = 0, tpBottomEdgeDArea = 0\<rparr>
     \<lparr>isQuickTap = False, checkTapDrag = False, hasFPresDrag = False, fPressDragFingersID = 0,
       fPressDragFingersNum = 0, fPressDragPressure = 0, releaseTime = 500, releaseStartTime = 0,
       fPressDragStartTimeOut = 0\<rparr>
     \<lparr>accelMode2F = 0, accelModeEdge = 0, smoothSamples = 0, contMaxDeltaEdge = 0, contMaxDelta2F = 0,
       contAccel = 0, edgeCirDelta = 0, scrollEdgeVArea = 0, scrollEdgeHArea = 0, edgeVAdaptArea = 0,
       edgeHAdaptArea = 0, hasEdgeScroll = False, hasEdgeCScroll = False, hasEdgeInertia = False,
       hasEdgeCont = False, hasEdgeSling = False, hasEdgeAuto = False, has2FInertia = False, has2FCont = False,
       has2FSling = False, has2FAuto = False, noHSInertia = False, accelDelay = 0, edgeSpeedFactor = 0,
       stopSamples = 0, directionSamples = 5, idleFingMaxDelta = 0, idleFingDetectTimeout = 0, inertiaDepth = 0,
       inertiaDelay = 0, slingTriggerArea = 0, slingStartTimeout = 0, slingEffectRunTime = 4000000000\<rparr>
     \<lparr>xPacketsDir = 0, yPacketsDir = 0, noInertia = False, scrollDx = 0, scrollDy = 0, edgeCirDxy = 0,
       maxLevelReached = 0, dxPacketsCount = 0, dyPacketsCount = 0, inertiaLevel = 0, maxInertiaLevel = 0,
       curInertiaDeltaX = 0, curInertiaDeltaY = 0, slingDepth = 0, slingEffectTime = 0, lastSlingEffectTime = 0,
       scrollSample = 0, skippedDx = replicate 11 0, skippedDy = replicate 11 0\<rparr>
     \<lparr>corner = 0, tapAreaLength = 0, tapAreaHeight = 0, cornerEnabled = False, bottomCornersDisabled = False,
       releaseStartABS = False\<rparr>
     \<lparr>zoomEnabled = False, isZoomOut = False, isZoomIn = False, tapZoomDone = False, zoomMinSamples = 0,
       pinchDeltaScale = 0, zoomDelta = 0, rotateEnabled = False, cirEnabled = False, xAxisPos = 0, yAxisPos = 0,
       rotateXCounter = 0, rotateYCounter = 0, rotateDelta = 0, maxCFDeltaY = 0\<rparr>
     \<lparr>has3FSwipes = False, has4FSwipes = False, resetPointerOnEdge = False, isInFullScreen = False,
       isNCDone = False, up3F = 0, down3F = 0, right3F = 0, left3F = 0, up4F = 0, down4F = 0, right4F = 0,
       left4F = 0, mulFingDeltaX = 0, mulFingDeltaY = 0\<rparr>
     \<lparr>tapFingers1 = 0, tapFingers2 = 0, tapFingers3 = 0, tapFingers4 = 0, tapFingers5 = 0, tapLastTime = 0,
       mulFingsTimeout = 0, tapTimeout = 0, hasMulFDoubleTaps = False, tapCount = 0, tapFingersCount = 0,
       noiseDelta = 0, noiseMultiTapDelta = 0, tapPressure = 0, maxTEndPressure = 0, maxTEndDelta = 0\<rparr>
     \<lparr>fings2Click = 0, fings2Press = 0, fings3Press = 0, fings4Press = 0, fings5Press = 0, pressTimeout = 0,
       pressGestureTime = 0, lastHoldTime = 0, fings4PinchAction = 0, fings5PinchAction = 0\<rparr>
     \<lparr>clickPad2FMove = False, is2FClick = False, clickPadHasVButtons = False, enablePointingOnBtnArea = False,
       fingerInUse = 0\<rparr>
     \<lparr>isKBLightOff = False, kBLightAutoOffTimeout = 10000, lastKBLightTriggerTime = 0\<rparr>
     True False 0 0 0 False False False False False 0 0)"

section \<open>Pointer, keyboard and timers\<close>

text \<open>The conversion of a float to an integer.\<close>

definition toInt :: "rat \<Rightarrow> int" where
  "toInt x = (if x \<ge> 0 then \<lfloor>x\<rfloor> else \<lceil>x\<rceil>)"

text \<open>A product with the scroll factor is rounded to a float and converted to a short.\<close>

definition scaled :: "(rat \<Rightarrow> rat) \<Rightarrow> rat \<Rightarrow> int \<Rightarrow> int" where
  "scaled fl factor n = sint (of_int (toInt (fl (of_int n * factor))) :: u16)"

definition movePointer :: "(nat \<Rightarrow> u64) \<Rightarrow> int \<Rightarrow> int \<Rightarrow> u8 \<Rightarrow> 'e touch_driver \<Rightarrow> 'e touch_driver" where
  "movePointer clock dx dy b = onTouch (dispatchRelativePointerPosition clock dx dy (ucast b))"

definition notify :: "u32 \<Rightarrow> 'e touch_driver \<Rightarrow> 'e touch_driver" where
  "notify code = onTouch (notifyKeyboard code)"

definition absolutePointer :: "int \<Rightarrow> int \<Rightarrow> u8 \<Rightarrow> 'e touch_driver \<Rightarrow> 'e touch_driver" where
  "absolutePointer x y b = onTouch (\<lambda>g. g\<lparr>events := events g @
     [AbsolutePointer (sint (of_int x :: u16)) (sint (of_int y :: u16)) (ucast b)]\<rparr>)"

text \<open>The pointer moves a little up or down to show that a feature was switched on or off.\<close>

definition nudge :: "(nat \<Rightarrow> u64) \<Rightarrow> bool \<Rightarrow> 'e touch_driver \<Rightarrow> 'e touch_driver" where
  "nudge clock enabled d = movePointer clock 0 (if enabled then -50 else 50) (buttonState (gestures d)) d"

definition ResetPointerToMiddle :: "'e touch_driver \<Rightarrow> 'e touch_driver" where
  "ResetPointerToMiddle d =
     (let t = tp d; x = (uint (xmin t) + uint (xmax t)) div 2; y = (uint (ymin t) + uint (ymax t)) div 2;
          b = buttonState (gestures d)
      in absolutePointer x y b (absolutePointer x y b d))"

definition Open_NC :: "'x gesture_driver \<Rightarrow> 'x gesture_driver" where
  "Open_NC d =
     (let t = tp d; full = isInFullScreen (swipe (gestures d));
          x = uint (xmax t) - (if \<not> full then 10
              else if osxVersion (gestures d) < 10 \<and> hw_version t \<noteq> 2 then 110 else 60);
          y = uint (ymin t) + (if \<not> full then 5 else 8);
          d = absolutePointer x y 0 d;
          d = onTouch (\<lambda>g. g\<lparr>swipe := (swipe g)\<lparr>isNCDone := True\<rparr>\<rparr>) d
      in if full then setTimeout FeatureTimer 350 d
         else ResetPointerToMiddle (absolutePointer x y 0 (absolutePointer x y 1 d)))"

section \<open>Edge swipes\<close>

definition edgeAction :: "u8 \<Rightarrow> u8 \<Rightarrow> u8" where
  "edgeAction gestureAction direction =
     (if gestureAction = 6 \<and> direction = 1 then 7 else if gestureAction = 7 \<and> direction = 1 then 6
      else gestureAction)"

definition Dispatch_edgeSwipe :: "u8 \<Rightarrow> u8 \<Rightarrow> 'x gesture_driver \<Rightarrow> 'x gesture_driver" where
  "Dispatch_edgeSwipe gestureAction direction d =
     (let d = (if gestureAction = ucast kPS2C_Gesture_NC_Workaround then Open_NC d
               else if gestureAction = ucast kPS2C_Gesture_AppSwitch
               then onTouch (\<lambda>g. g\<lparr>isAppSwitchDone := True\<rparr>) d else d);
          act = edgeAction gestureAction direction;
          d = onTouch (\<lambda>g. g\<lparr>lastSwipeTime := gestureTime g\<rparr>) (notify (ucast act) d)
      in if resetPointerOnEdge (swipe (gestures d)) \<and> act \<noteq> 17 then ResetPointerToMiddle d else d)"

text \<open>
  The start of the swipe moves, so that the reverse swipe works without lifting the finger; with two
  fingers the start of the first two fingers.
\<close>

definition resetStart :: "((u16 \<Rightarrow> u16) \<Rightarrow> finger \<Rightarrow> finger) \<Rightarrow> int \<Rightarrow> int option \<Rightarrow> 'e touch_driver \<Rightarrow> 'e touch_driver" where
  "resetStart start_update fid to d =
     (case to of
        None \<Rightarrow> d
      | Some v \<Rightarrow>
          let f = start_update (\<lambda>_. of_int v)
          in if cFingers (tp d) = 2 then setFinger 1 f (setFinger 0 f d) else setFinger fid f d)"

text \<open>\<open>touchmode < 26\<close> in the source: every mode before the edge swipes.\<close>

definition beforeEdgeModes :: "touch_mode \<Rightarrow> bool" where
  "beforeEdgeModes m \<longleftrightarrow> m \<notin> set [MODE_TOP_EDGE_SWIPE, MODE_BOTTOM_EDGE_SWIPE, MODE_LEFT_EDGE_SWIPE,
     MODE_RIGHT_EDGE_SWIPE, MODE_FEATURE_TOGGLE, MODE_4_FING_PINCH, MODE_PALM]"

definition isOut :: "touch_mode \<Rightarrow> 'e touch_driver \<Rightarrow> bool" where
  "isOut mode d \<longleftrightarrow> touchmode (gestures d) = mode \<or>
     has2WayEdgeSwipes (edges (gestures d)) \<and> beforeEdgeModes (touchmode (gestures d))"

definition edgeSwipeLeft :: "int \<Rightarrow> int \<Rightarrow> 'x gesture_driver \<Rightarrow> 'x gesture_driver" where
  "edgeSwipeLeft x fid d =
     (let e = edges (gestures d); t = tp d; s = uint (startX (finger fid d));
          area = uint (xmin t) + uint (edgeHArea e); dist = uint (xmin t) + uint (edgeHDistance e)
      in if leftEdge e > 0 \<and> (x < area \<and> s > dist \<and> isOut MODE_LEFT_EDGE_SWIPE d \<or> x > dist \<and> s < area) then
           (let d = (if s < area then Dispatch_edgeSwipe (leftEdge e) 0 d
                     else if x < area then Dispatch_edgeSwipe (leftEdge e) 1 d else d);
                d = onTouch (\<lambda>g. g\<lparr>touchmode := MODE_LEFT_EDGE_SWIPE\<rparr>) d
            in resetStart startX_update fid
                 (if s < area then Some (x + uint (edgeHArea e)) else if s > dist then Some (uint (xmin t)) else None) d)
         else d)"

definition edgeSwipeRight :: "int \<Rightarrow> int \<Rightarrow> 'x gesture_driver \<Rightarrow> 'x gesture_driver" where
  "edgeSwipeRight x fid d =
     (let e = edges (gestures d); t = tp d; s = uint (startX (finger fid d));
          area = uint (xmax t) - uint (edgeHArea e); dist = uint (xmax t) - uint (edgeHDistance e)
      in if rightEdge e > 0 \<and> (x > area \<and> s < dist \<and> isOut MODE_RIGHT_EDGE_SWIPE d \<or> x < dist \<and> s > area) then
           (let d = (if s > area then Dispatch_edgeSwipe (rightEdge e) 0 d
                     else if x > area then Dispatch_edgeSwipe (rightEdge e) 1 d else d);
                d = onTouch (\<lambda>g. g\<lparr>touchmode := MODE_RIGHT_EDGE_SWIPE\<rparr>) d
            in resetStart startX_update fid
                 (if s < dist then Some (uint (xmax t)) else if s > area then Some (x - uint (edgeHArea e)) else None) d)
         else d)"

text \<open>The bottom edge compares with 0.8 of the area and with the area less 30.\<close>

definition edgeSwipeBottom :: "int \<Rightarrow> int \<Rightarrow> 'x gesture_driver \<Rightarrow> 'x gesture_driver" where
  "edgeSwipeBottom y fid d =
     (let e = edges (gestures d); t = tp d; s = uint (startY (finger fid d));
          area = uint (ymax t) - uint (edgeVArea e); dist = uint (ymax t) - uint (edgeVDistance e);
          inArea = (5 * s > 5 * uint (ymax t) - 4 * uint (edgeVArea e))
      in if bottomEdge e > 0 \<and> (y > area \<and> s < dist \<and> isOut MODE_BOTTOM_EDGE_SWIPE d \<or> y < dist \<and> inArea) then
           (let d = (if s > uint (ymax t) - (uint (edgeVArea e) - 30) then Dispatch_edgeSwipe (bottomEdge e) 0 d
                     else if y > area then Dispatch_edgeSwipe (bottomEdge e) 1 d else d);
                d = onTouch (\<lambda>g. g\<lparr>touchmode := MODE_BOTTOM_EDGE_SWIPE\<rparr>) d
            in resetStart startY_update fid
                 (if inArea then Some (y - uint (edgeVArea e)) else if s < dist then Some (uint (ymax t)) else None) d)
         else d)"

definition edgeSwipeTop :: "int \<Rightarrow> int \<Rightarrow> 'x gesture_driver \<Rightarrow> 'x gesture_driver" where
  "edgeSwipeTop y fid d =
     (let e = edges (gestures d); t = tp d; s = uint (startY (finger fid d));
          area = uint (ymin t) + uint (edgeVArea e); dist = uint (ymin t) + uint (edgeVDistance e)
      in if topEdge e > 0 \<and> (y > dist \<and> s < area \<or> y < area \<and> s > dist \<and> isOut MODE_TOP_EDGE_SWIPE d) then
           (let d = (if s < area then Dispatch_edgeSwipe (topEdge e) 0 d
                     else if y < area then Dispatch_edgeSwipe (topEdge e) 1 d else d);
                d = onTouch (\<lambda>g. g\<lparr>touchmode := MODE_TOP_EDGE_SWIPE\<rparr>) d
            in resetStart startY_update fid
                 (if s < area then Some (y + uint (edgeVArea e)) else if s > dist then Some (uint (ymin t)) else None) d)
         else d)"

definition Process_edgeSwipe :: "int \<Rightarrow> int \<Rightarrow> int \<Rightarrow> 'x gesture_driver \<Rightarrow> 'x gesture_driver" where
  "Process_edgeSwipe x y fid d =
     (let n = swipeDirection (gestures d); d' = reads fid d
      in if n = 1 then edgeSwipeLeft x fid d' else if n = 2 then edgeSwipeRight x fid d'
         else if n = 3 then edgeSwipeBottom y fid d' else if n = 4 then edgeSwipeTop y fid d' else d)"

section \<open>Press of several fingers\<close>

definition pressDrag :: "touch_mode \<Rightarrow> 'x gesture_driver \<Rightarrow> 'x gesture_driver" where
  "pressDrag mode d =
     (if pressGestureTime (press (gestures d)) > fPressDragStartTimeOut (drag (gestures d)) \<or> triggered (gestures d)
      then onTouch (\<lambda>g. g\<lparr>isDragging := True, isHoldDrag := True, is3FDrag := True, touchmode := mode\<rparr>) d
      else d)"

definition pressAction :: "u8 \<Rightarrow> 'x gesture_driver \<Rightarrow> 'x gesture_driver" where
  "pressAction act d =
     (if act = ucast kPS2C_Gesture_NC_Workaround then ResetPointerToMiddle (Open_NC d)
      else if act > 0 then notify (ucast act) d else d)"

definition Proces_Fingers_Press :: "u8 \<Rightarrow> 'x gesture_driver \<Rightarrow> 'x gesture_driver" where
  "Proces_Fingers_Press fingers d =
     (let g = gestures d; p = press g; canDrag = (\<lambda>n. hasFPresDrag (drag g) \<and> fPressDragFingersNum (drag g) AND n \<noteq> 0);
          mode = (\<lambda>m. onTouch (\<lambda>g. g\<lparr>touchmode := m\<rparr>) d)
      in if fingers = 2 then
           (if canDrag 2 then pressDrag MODE_TWO_FING_PRESS d
            else pressAction (fings2Press p) (mode MODE_TWO_FING_PRESS))
         else if fingers = 3 then
           (if canDrag 4 then pressDrag MODE_THREE_FING_PRESS d
            else pressAction (fings3Press p) (mode MODE_THREE_FING_PRESS))
         else if fingers = 4 then pressAction (fings4Press p) d
         else if fingers = 5 then pressAction (fings5Press p) d
         else d)"

end
