(* ===== verification/Touchpad_Notify.thy ===== *)
theory Touchpad_Notify
  imports Touchpad_Features
begin

text \<open>
  What reaches the touchpad driver from outside its packets: notifications of the keyboard driver
  (receiveKeyboardNotifications) and the handlers of its timers that need no motion: taps that wait for a
  second tap (ProcessFeaturesToggle), the release of buttons and drags (Release_ButtonsAndDrag) and the
  keyboard backlight (ControlfKeybrdBackLight).
\<close>

section \<open>Updates of parts of the state\<close>

definition onGate :: "(input_gate \<Rightarrow> input_gate) \<Rightarrow> 'g driver \<Rightarrow> 'g driver" where
  "onGate f d = d\<lparr>gate := f (gate d)\<rparr>"

definition onScrollF :: "(scroll_features \<Rightarrow> scroll_features) \<Rightarrow> 'x gesture_driver \<Rightarrow> 'x gesture_driver" where
  "onScrollF f = onTouch (\<lambda>g. g\<lparr>scrollF := f (scrollF g)\<rparr>)"

definition onTap :: "(tap_struct \<Rightarrow> tap_struct) \<Rightarrow> 'x gesture_driver \<Rightarrow> 'x gesture_driver" where
  "onTap f = onTouch (\<lambda>g. g\<lparr>tap := f (tap g)\<rparr>)"

definition onZoom :: "(zoom_rotate \<Rightarrow> zoom_rotate) \<Rightarrow> 'x gesture_driver \<Rightarrow> 'x gesture_driver" where
  "onZoom f = onTouch (\<lambda>g. g\<lparr>zoomRotate := f (zoomRotate g)\<rparr>)"

definition onSwipe :: "(swipe_struct \<Rightarrow> swipe_struct) \<Rightarrow> 'x gesture_driver \<Rightarrow> 'x gesture_driver" where
  "onSwipe f = onTouch (\<lambda>g. g\<lparr>swipe := f (swipe g)\<rparr>)"

definition onButton :: "(button_struct \<Rightarrow> button_struct) \<Rightarrow> 'x gesture_driver \<Rightarrow> 'x gesture_driver" where
  "onButton f = onTouch (\<lambda>g. g\<lparr>button := f (button g)\<rparr>)"

definition onBacklight :: "(backlight_struct \<Rightarrow> backlight_struct) \<Rightarrow> 'x gesture_driver \<Rightarrow> 'x gesture_driver" where
  "onBacklight f = onTouch (\<lambda>g. g\<lparr>backlights := f (backlights g)\<rparr>)"

text \<open>A feature is switched, and the pointer shows its new value.\<close>

definition toggleThenNudge ::
  "(nat \<Rightarrow> u64) \<Rightarrow> ('x gesture_scheme \<Rightarrow> bool) \<Rightarrow> ('x gesture_driver \<Rightarrow> 'x gesture_driver) \<Rightarrow>
   'x gesture_driver \<Rightarrow> 'x gesture_driver" where
  "toggleThenNudge clock feature toggle d = (let d = toggle d in nudge clock (feature (gestures d)) d)"

section \<open>Notifications of the keyboard driver\<close>

definition pressed :: "'x gesture_driver \<Rightarrow> 'x gesture_driver" where
  "pressed d = onGate (\<lambda>k. k\<lparr>lastKeyPressTime := mnow (gestures d)\<rparr>) d"

definition notifyAccidentalInput :: "'x gesture_driver \<Rightarrow> 'x gesture_driver" where
  "notifyAccidentalInput d =
     pressed (onGate (\<lambda>k. let k = k\<lparr>kbKeysCount := kbKeysCount k + 1\<rparr>
       in if kbKeysCount k \<ge> accInputKeysCount (gestures d) \<and> isTypeModeEnabled k
          then k\<lparr>accidentalInput := True, kbKeysCount := 2\<rparr> else k) d)"

definition notifyEnable :: "'x gesture_driver \<Rightarrow> 'x gesture_driver" where
  "notifyEnable d =
     onGate (\<lambda>k. k\<lparr>kbKeysCount := 0, disableTouchpad := False, accidentalInput := False\<rparr>) (pressed d)"

definition releaseAppSwitch :: "'e touch_driver \<Rightarrow> 'e touch_driver" where
  "releaseAppSwitch d =
     (if isAppSwitchDone (gestures d)
      then onTouch (\<lambda>g. g\<lparr>isAppSwitchDone := False\<rparr>) (notify kPS2C_ReleaseCmdKey d) else d)"

definition clearDragStates :: "'e touch_scheme \<Rightarrow> 'e touch_scheme" where
  "clearDragStates g = g\<lparr>isDragging := False, isTapDrag := False, isHoldDrag := False, is3FDrag := False\<rparr>"

definition clearButtons :: "'e touch_driver \<Rightarrow> 'e touch_driver" where
  "clearButtons d = onPad (\<lambda>t. t\<lparr>buttonData := 0\<rparr>) (onTouch (\<lambda>g. g\<lparr>buttonState := 0\<rparr>) d)"

definition notifyESC :: "(nat \<Rightarrow> u64) \<Rightarrow> 'x gesture_driver \<Rightarrow> 'x gesture_driver" where
  "notifyESC clock d =
     (let d = onTap (\<lambda>t. t\<lparr>tapCount := 0\<rparr>) (onSwipe (\<lambda>w. w\<lparr>isInFullScreen := False\<rparr>) d);
          d = (if isToggleKeyOnHold (gestures d)
               then onTouch (\<lambda>g. g\<lparr>scrollFactor := (if scrollFactor g < 0 then 0 - scrollFactor g else scrollFactor g),
                      isToggleKeyOnHold := False\<rparr>) d
               else d);
          d = (if isDragging (gestures d)
               then onTouch clearDragStates (clearButtons (movePointer clock 0 0 0 d)) else d)
      in pressed (releaseAppSwitch d))"

definition notifyShift :: "'x gesture_driver \<Rightarrow> 'x gesture_driver" where
  "notifyShift d =
     (let d = onTouch (\<lambda>g. g\<lparr>isToggleKeyOnHold := \<not> isToggleKeyOnHold g, scrollFactor := 0 - scrollFactor g\<rparr>) d;
          d = onSwipe (\<lambda>w. w\<lparr>isInFullScreen := \<not> isInFullScreen w\<rparr>) d
      in if \<not> isToggleKeyOnHold (gestures d) then onTap (\<lambda>t. t\<lparr>tapCount := 0\<rparr>) d else d)"

text \<open>The features the keyboard switches on and off.\<close>

definition toggleFeature :: "(nat \<Rightarrow> u64) \<Rightarrow> u32 \<Rightarrow> 'x gesture_driver \<Rightarrow> 'x gesture_driver" where
  "toggleFeature clock data =
     (if data = kPS2C_ScrollLock_Auto then
        toggleThenNudge clock (\<lambda>g. hasEdgeAuto (scrollF g) \<or> has2FAuto (scrollF g))
          (onScrollF (\<lambda>s. s\<lparr>hasEdgeAuto := \<not> hasEdgeAuto s, has2FAuto := \<not> has2FAuto s\<rparr>))
      else if data = kPS2C_ScrollLock_Inertia then
        toggleThenNudge clock (\<lambda>g. hasEdgeInertia (scrollF g))
          (onScrollF (\<lambda>s. s\<lparr>has2FInertia := \<not> has2FInertia s, hasEdgeInertia := \<not> hasEdgeInertia s\<rparr>))
      else if data = kPS2C_ScrollLock_Continuous then
        toggleThenNudge clock (\<lambda>g. has2FCont (scrollF g))
          (onScrollF (\<lambda>s. s\<lparr>has2FCont := \<not> has2FCont s, hasEdgeCont := \<not> hasEdgeCont s\<rparr>))
      else if data = kPS2C_EdgeScroll then
        toggleThenNudge clock (\<lambda>g. hasEdgeScroll (scrollF g))
          (onScrollF (\<lambda>s. s\<lparr>hasEdgeScroll := \<not> hasEdgeScroll s\<rparr>))
      else if data = kPS2C_Gestures_1FSwipes then
        toggleThenNudge clock (\<lambda>g. hasEdgeSwipes (edges g))
          (onTouch (\<lambda>g. g\<lparr>edges := (edges g)\<lparr>hasEdgeSwipes := \<not> hasEdgeSwipes (edges g)\<rparr>\<rparr>))
      else if data = kPS2C_Gestures_3FSwipes then
        toggleThenNudge clock (\<lambda>g. has3FSwipes (swipe g)) (onSwipe (\<lambda>w. w\<lparr>has3FSwipes := \<not> has3FSwipes w\<rparr>))
      else if data = kPS2C_Gestures_4FSwipes then
        toggleThenNudge clock (\<lambda>g. has4FSwipes (swipe g)) (onSwipe (\<lambda>w. w\<lparr>has4FSwipes := \<not> has4FSwipes w\<rparr>))
      else if data = kPS2C_Gestures_Rotate then
        toggleThenNudge clock (\<lambda>g. rotateEnabled (zoomRotate g)) (onZoom (\<lambda>z. z\<lparr>rotateEnabled := \<not> rotateEnabled z\<rparr>))
      else if data = kPS2C_Gestures_Zoom then
        toggleThenNudge clock (\<lambda>g. zoomEnabled (zoomRotate g)) (onZoom (\<lambda>z. z\<lparr>zoomEnabled := \<not> zoomEnabled z\<rparr>))
      else if data = kPS2C_Gestures_DoubleTaps then
        toggleThenNudge clock (\<lambda>g. hasMulFDoubleTaps (tap g)) (onTap (\<lambda>t. t\<lparr>hasMulFDoubleTaps := \<not> hasMulFDoubleTaps t\<rparr>))
      else (\<lambda>d. d))"

text \<open>The time-out in nanoseconds is computed in 32 bits.\<close>

definition backlightTimeout :: "'x gesture_scheme \<Rightarrow> u64" where
  "backlightTimeout g = ucast (kBLightAutoOffTimeout (backlights g) * 1000000 :: u32)"

definition notifyBackLight :: "(nat \<Rightarrow> u64) \<Rightarrow> u32 \<Rightarrow> 'x gesture_driver \<Rightarrow> 'x gesture_driver" where
  "notifyBackLight clock data d =
     (let timeout = backlightTimeout (gestures d)
      in if data = kPS2C_KeybrdBackLightOff then
           (if \<not> isKBLightOff (backlights (gestures d))
            then setTimeout KBackLightTimer (unat (kBLightAutoOffTimeout (backlights (gestures d))))
                   (cancelTimeout KBackLightTimer d)
            else d)
         else if data = kPS2C_KeybrdBackLightOn then
           (let d = onTouch (readClock clock) d; g = gestures d
            in if isKBLightOff (backlights g) \<or> mnow g - lastKBLightTriggerTime (backlights g) > timeout
               then setTimeout KBackLightTimer 0 (cancelTimeout KBackLightTimer
                      (onBacklight (\<lambda>b. b\<lparr>lastKBLightTriggerTime := 0\<rparr>) d))
               else d)
         else if data = kPS2C_KeybrdBackLightToggleOn then onBacklight (\<lambda>b. b\<lparr>isKBLightOff := False\<rparr>) d
         else if data = kPS2C_KeybrdBackLightToggleOff then onBacklight (\<lambda>b. b\<lparr>isKBLightOff := True\<rparr>) d
         else d)"

definition contextMenu :: "(nat \<Rightarrow> u64) \<Rightarrow> 'x gesture_driver \<Rightarrow> 'x gesture_driver" where
  "contextMenu clock d =
     onTouch (\<lambda>g. g\<lparr>buttonState := 0\<rparr>) (movePointer clock 0 0 0 (movePointer clock 0 0 2 d))"

text \<open>Every notification but the one that reconnects the touchpad.\<close>

definition keyboardNotification ::
  "(nat \<Rightarrow> u64) \<Rightarrow> (rat \<Rightarrow> rat) \<Rightarrow> u32 \<Rightarrow> 'x gesture_driver \<Rightarrow> 'x gesture_driver" where
  "keyboardNotification clock fl data d =
     (if data = kPS2C_ShowTouchPressureWidth then onTouch (\<lambda>g. g\<lparr>showPressWidth := \<not> showPressWidth g\<rparr>) d
      else if data = kPS2C_AccidentalInput then notifyAccidentalInput d
      else if data = kPS2C_DisableTouchpad then onGate (\<lambda>k. k\<lparr>disableTouchpad := True\<rparr>) d
      else if data = kPS2C_EnableTouchpad then notifyEnable d
      else if data = kPS2C_ESC then notifyESC clock d
      else if data = kPS2C_DoContextMenu then contextMenu clock d
      else if data = kPS2C_ShiftKey then notifyShift d
      else if data = kPS2C_CNTRLKeyDown then onTouch (\<lambda>g. g\<lparr>isCtrlScrollSwipe := True\<rparr>) d
      else if data = kPS2C_CNTRLKeyUp then onTouch (\<lambda>g. g\<lparr>isCtrlScrollSwipe := False\<rparr>) d
      else if data = kPS2C_CNTRL_Feature_on then onTouch (\<lambda>g. g\<lparr>scrollFactor := fl (scrollFactor g * 2)\<rparr>) d
      else if data = kPS2C_CNTRL_Feature_off then onTouch (\<lambda>g. g\<lparr>scrollFactor := fl (scrollFactor g / 2)\<rparr>) d
      else if data = kPS2C_ALT_Funtion_on then onTouch (\<lambda>g. g\<lparr>altFunction := True\<rparr>) d
      else if data = kPS2C_ALT_Funtion_off then onTouch (\<lambda>g. g\<lparr>altFunction := False, doAuto := False\<rparr>) d
      else if data = kPS2C_OSXVersionNotify then
        notify (ucast (osxVersion (gestures d))) (notify kPS2C_OSXVersionNotify d)
      else toggleFeature clock data (notifyBackLight clock data d))"

definition receiveKeyboardNotifications ::
  "(nat \<Rightarrow> u64) \<Rightarrow> (rat \<Rightarrow> rat) \<Rightarrow> 's ps2dev \<Rightarrow> u32 \<Rightarrow> 'x gesture_driver \<Rightarrow> 's \<Rightarrow> ('x gesture_driver \<times> 's) option" where
  "receiveKeyboardNotifications clock fl D data d s =
     (let d = onTouch (readClock clock) d
      in if data = kPS2C_RestoreTouchpad then do {
           (d, s) \<leftarrow> reconnect D d s;
           Some (notify kPS2C_EnableTouchpad (notifyEnable d), s)
         }
         else Some (keyboardNotification clock fl data d, s))"

section \<open>Timer handlers\<close>

definition ControlfKeybrdBackLight :: "(nat \<Rightarrow> u64) \<Rightarrow> 'x gesture_driver \<Rightarrow> 'x gesture_driver" where
  "ControlfKeybrdBackLight clock d =
     (let b = backlights (gestures d);
          d = notify (if isKBLightOff b \<or> lastKBLightTriggerTime b = 0 then kPS2C_KeybrdBackLightOn
                      else kPS2C_KeybrdBackLightOff) d;
          d = onTouch (readClock clock) d
      in onBacklight (\<lambda>b. b\<lparr>lastKBLightTriggerTime := mnow (gestures d)\<rparr>) d)"

definition Release_ButtonsAndDrag :: "(nat \<Rightarrow> u64) \<Rightarrow> 'x gesture_driver \<Rightarrow> 'x gesture_driver" where
  "Release_ButtonsAndDrag clock d =
     (let d = onTouch (\<lambda>g. g\<lparr>readings := readings g + 1\<rparr>) d;
          d = releaseAppSwitch d; g = gestures d;
          d = (if isDragging g \<and> \<not> isDragLockEnabled g \<and> (isHoldDrag g \<or> isTapDrag g) \<or>
                  \<not> isDragging g \<and> checkTapDrag (drag g)
               then movePointer clock 0 0 0 (clearButtons
                      (onTouch (\<lambda>g. (clearDragStates g)\<lparr>drag := (drag g)\<lparr>checkTapDrag := False\<rparr>, holdTime := 0\<rparr>) d))
               else d)
      in onTouch (\<lambda>g. g\<lparr>drag := (drag g)\<lparr>isQuickTap := False\<rparr>, doTimerJob := False\<rparr>) d)"

definition endTaps :: "'x gesture_driver \<Rightarrow> 'x gesture_driver" where
  "endTaps = onTap (\<lambda>t. t\<lparr>tapCount := 0, tapFingersCount := 0\<rparr>)"

definition singleTap :: "(nat \<Rightarrow> u64) \<Rightarrow> 'x gesture_driver \<Rightarrow> 'x gesture_driver" where
  "singleTap clock d =
     (let g = gestures d; b = (if isTapSwapEnabled g = (tapFingersCount (tap g) = 2) then 2 else 4 :: u8);
          d = onTouch (\<lambda>g. g\<lparr>buttonState := buttonState g OR b\<rparr>) (onPad (\<lambda>t. t\<lparr>buttonData := b\<rparr>) d)
      in clearButtons (endTaps (movePointer clock 0 0 0 (movePointer clock 0 0 b d))))"

text \<open>An acceleration mode goes up by one and from 4 back to 0, which the pointer shows.\<close>

definition nextMode ::
  "(nat \<Rightarrow> u64) \<Rightarrow> u8 \<Rightarrow> ((u8 \<Rightarrow> u8) \<Rightarrow> 'x gesture_driver \<Rightarrow> 'x gesture_driver) \<Rightarrow> u8 \<Rightarrow>
   'x gesture_driver \<Rightarrow> 'x gesture_driver" where
  "nextMode clock limit upd n d =
     (if n + 1 > limit then nudge clock False (upd (\<lambda>_. 0) d) else nudge clock True (upd (\<lambda>_. n + 1) d))"

definition doubleTap :: "(nat \<Rightarrow> u64) \<Rightarrow> 'x gesture_driver \<Rightarrow> 'x gesture_driver" where
  "doubleTap clock d =
     (let g = gestures d; n = tapFingersCount (tap g); shift = isToggleKeyOnHold g
      in if n = 2 \<and> \<not> shift then
           (let d = onZoom (\<lambda>z. z\<lparr>tapZoomDone := \<not> tapZoomDone z\<rparr>) d; done = tapZoomDone (zoomRotate (gestures d));
                code = (if done then kPS2C_ZoomPlus else kPS2C_ZoomMinus)
            in nudge clock done (notify code (notify code d)))
         else if n = 2 then toggleFeature clock kPS2C_EdgeScroll d
         else if n = 3 \<and> \<not> shift then notify kPS2C_Gesture_AppWindows d
         else if n = 3 then
           (let d = nextMode clock 4 (\<lambda>f. onScrollF (accelMode2F_update f)) (accelMode2F (scrollF g)) d
            in nextMode clock 4 (\<lambda>f. onScrollF (accelModeEdge_update f)) (accelModeEdge (scrollF g)) d)
         else if n = 4 \<and> shift then
           toggleThenNudge clock (\<lambda>g. clickPadHasVButtons (button g))
             (onButton (\<lambda>b. b\<lparr>clickPadHasVButtons := \<not> clickPadHasVButtons b\<rparr>)) d
         else d)"

definition tripleTap :: "(nat \<Rightarrow> u64) \<Rightarrow> 'x gesture_driver \<Rightarrow> 'x gesture_driver" where
  "tripleTap clock d =
     (let g = gestures d; n = tapFingersCount (tap g); shift = isToggleKeyOnHold g
      in if n = 2 \<and> shift then
           toggleThenNudge clock (\<lambda>g. hasEdgeCScroll (scrollF g))
             (onScrollF (\<lambda>s. s\<lparr>hasEdgeCScroll := \<not> hasEdgeCScroll s\<rparr>)) d
         else if n = 3 \<and> shift then
           nextMode clock 20 (\<lambda>f. onTouch (\<lambda>g. g\<lparr>pointerPrefs := pAccelCustom_update f (pointerPrefs g)\<rparr>))
             (pAccelCustom (pointerPrefs g)) d
         else d)"

definition ProcessFeaturesToggle :: "(nat \<Rightarrow> u64) \<Rightarrow> 'x gesture_driver \<Rightarrow> 'x gesture_driver" where
  "ProcessFeaturesToggle clock d =
     (let d = (if isNCDone (swipe (gestures d)) then
                 onSwipe (\<lambda>w. w\<lparr>isNCDone := False\<rparr>)
                   (ResetPointerToMiddle (clearButtons (movePointer clock 0 0 0 (movePointer clock 0 0 1 d))))
               else d);
          n = tapCount (tap (gestures d))
      in if n = 1 then singleTap clock d
         else if n = 2 then endTaps (doubleTap clock d)
         else if n = 3 then endTaps (tripleTap clock d)
         else d)"

end
