(* ===== verification/Touchpad_Buttons.thy ===== *)
theory Touchpad_Buttons
  imports Touchpad_Notify
begin

text \<open>
  Updates of parts of the gesture state, arithmetic of the width of its members, and the virtual buttons of
  a click pad.
\<close>

section \<open>Updates and arithmetic\<close>

definition onScroll :: "(scroll_state \<Rightarrow> scroll_state) \<Rightarrow> 'x gesture_driver \<Rightarrow> 'x gesture_driver" where
  "onScroll f = onTouch (\<lambda>g. g\<lparr>scroll := f (scroll g)\<rparr>)"

definition onSmooth :: "(smoothing \<Rightarrow> smoothing) \<Rightarrow> 'e touch_driver \<Rightarrow> 'e touch_driver" where
  "onSmooth f = onTouch (\<lambda>g. g\<lparr>smooth := f (smooth g)\<rparr>)"

definition onDrag :: "(drag_struct \<Rightarrow> drag_struct) \<Rightarrow> 'x gesture_driver \<Rightarrow> 'x gesture_driver" where
  "onDrag f = onTouch (\<lambda>g. g\<lparr>drag := f (drag g)\<rparr>)"

definition onPress :: "(press_struct \<Rightarrow> press_struct) \<Rightarrow> 'x gesture_driver \<Rightarrow> 'x gesture_driver" where
  "onPress f = onTouch (\<lambda>g. g\<lparr>press := f (press g)\<rparr>)"

definition onCorner :: "(corner_tap \<Rightarrow> corner_tap) \<Rightarrow> 'x gesture_driver \<Rightarrow> 'x gesture_driver" where
  "onCorner f = onTouch (\<lambda>g. g\<lparr>cornerTap := f (cornerTap g)\<rparr>)"

definition setMode :: "touch_mode \<Rightarrow> 'e touch_driver \<Rightarrow> 'e touch_driver" where
  "setMode m = onTouch (\<lambda>g. g\<lparr>touchmode := m\<rparr>)"

text \<open>A value assigned to a signed variable of 16 bits.\<close>

definition s16 :: "int \<Rightarrow> int" where
  "s16 i = sint (of_int i :: u16)"

definition dispatchScroll :: "(nat \<Rightarrow> u64) \<Rightarrow> int \<Rightarrow> int \<Rightarrow> 'e touch_driver \<Rightarrow> 'e touch_driver" where
  "dispatchScroll clock dy dx = onTouch (dispatchScrollDifference clock (s16 dy) (s16 dx) 0)"

section \<open>Virtual buttons of a click pad\<close>

definition clickPadPressed :: "touchpad \<Rightarrow> u8 \<Rightarrow> u8 list \<Rightarrow> bool" where
  "clickPadPressed t packetType p \<longleftrightarrow>
     (if touchpadVendor t = STD_FOCAL_TECH
      then (if packetType = PACKET_ABSOLUTE then drop_bit 4 (p ! 0) AND 1 \<noteq> 0 else drop_bit 7 (p ! 0) \<noteq> 0)
      else if touchpadVendor t = STD_SYNAPTICS then (p ! 0 XOR p ! 3) AND 0x01 \<noteq> 0
      else if touchpadVendor t = STD_ELAN_TECH then p ! 0 AND 0x01 \<noteq> 0
      else False)"

text \<open>The button under a finger: the middle area is 13 percent on both sides of the centre, if it is enabled.\<close>

definition virtualButton :: "touchpad \<Rightarrow> bool \<Rightarrow> u16 \<Rightarrow> u8" where
  "virtualButton t middle x =
     (let area = (if middle then of_int (toInt (of_int (13 * (uint (xmax t) - uint (xmin t))) / 100)) else 0) :: u32;
          x = ucast x :: u32; centre = ucast (xcenter t)
      in if x \<le> centre - area then 1 else if x > centre + area then 2 else 4)"

text \<open>One finger clicks; the result tells to stop, as a click is on already.\<close>

definition clickOneFinger :: "int \<Rightarrow> 'x gesture_driver \<Rightarrow> bool \<times> 'x gesture_driver" where
  "clickOneFinger fid d =
     (let d = setMode MODE_BUTTONS d
      in if buttonData (tp d) \<noteq> 0 then (True, d)
         else if isFingOnBtnArea (gestures d) \<and> clickPadHasVButtons (button (gestures d)) then
           (let d = reads fid d; b = virtualButton (tp d) (enableMiddle (gestures d)) (posX (finger fid d));
                d = onPad (\<lambda>t. t\<lparr>buttonData := b\<rparr>) d
            in (False, if b = 2 then onTouch (\<lambda>g. g\<lparr>rightClick := True\<rparr>) d else d))
         else (False, onPad (\<lambda>t. t\<lparr>buttonData := 1\<rparr>) d))"

text \<open>The button that is on stays on, or the left button is pressed.\<close>

definition keepButton :: "'e touch_driver \<Rightarrow> 'e touch_driver" where
  "keepButton d =
     (let b = (if buttonState (gestures d) \<noteq> 0 then buttonState (gestures d) else 1)
      in onTouch (\<lambda>g. g\<lparr>buttonState := b\<rparr>) (onPad (\<lambda>t. t\<lparr>buttonData := b\<rparr>) d))"

definition onButtonArea :: "int \<Rightarrow> 'e touch_driver \<Rightarrow> bool" where
  "onButtonArea i d \<longleftrightarrow>
     uint (posY (finger i d)) > uint (ymax (tp d)) - uint (clickPadVBtnArea (gestures d))"

definition clickTwoFingers :: "'x gesture_driver \<Rightarrow> 'x gesture_driver" where
  "clickTwoFingers d =
     (let d = onButton (\<lambda>b. b\<lparr>is2FClick := True\<rparr>) (setMode MODE_BUTTONS d); g = gestures d;
          v = clickPadHasVButtons (button g); a = onButtonArea 0 d; b = onButtonArea 1 d; n = fings2Click (press g);
          area = (\<lambda>x. onTouch (\<lambda>g. g\<lparr>isFingOnBtnArea := x\<rparr>))
      in if buttonState g = 1 then d
         else if v \<and> a \<and> b then
           area True (if enableMiddle g then onPad (\<lambda>t. t\<lparr>buttonData := 4\<rparr>) d else keepButton d)
         else if \<not> v \<or> \<not> a \<and> \<not> b then
           area False
             (if n \<noteq> 0 then (let d = onPad (\<lambda>t. t\<lparr>buttonData := n\<rparr>) d
                             in if n = 2 then onTouch (\<lambda>g. g\<lparr>rightClick := True\<rparr>) d else d)
              else keepButton d)
         else
           (let d = onPad (\<lambda>t. t\<lparr>buttonData := 1, packetsCount := (if packetsCount t > 1 then 0 else packetsCount t)\<rparr>) d
            in area (clickPad2FMove (button g)) (onButton (\<lambda>b. b\<lparr>is2FClick := False\<rparr>) d)))"

definition clickDown :: "(nat \<Rightarrow> u64) \<Rightarrow> 'x gesture_driver \<Rightarrow> 'x gesture_driver" where
  "clickDown clock d =
     (let d = releaseAppSwitch (stopPointer d); b = buttonData (tp d)
      in if is2FClick (button (gestures d)) \<and> (b = 4 \<or> b = 0) then d
         else movePointer clock 0 0 b (onTouch (\<lambda>g. g\<lparr>buttonState := b\<rparr>) d))"

definition clickUp :: "(nat \<Rightarrow> u64) \<Rightarrow> 'x gesture_driver \<Rightarrow> 'x gesture_driver" where
  "clickUp clock d =
     (let g = gestures d;
          d = (if triggered g \<or> rightClick g then
                 (let d = movePointer clock 0 0 0 (movePointer clock 0 0 (buttonData (tp d)) d);
                      d = onButton (\<lambda>b. b\<lparr>is2FClick := False\<rparr>) d
                  in onTouch (\<lambda>g. (clearDragStates g)\<lparr>buttonState := 0, triggered := False, rightClick := False,
                       holdTime := 0\<rparr>) d)
               else d)
      in onPad (\<lambda>t. t\<lparr>buttonData := 0\<rparr>) d)"

definition Process_ClickPad_Virtual_Buttons ::
  "(nat \<Rightarrow> u64) \<Rightarrow> u8 list \<Rightarrow> u8 \<Rightarrow> u8 \<Rightarrow> u8 \<Rightarrow> 'x gesture_driver \<Rightarrow> bool \<times> 'x gesture_driver" where
  "Process_ClickPad_Virtual_Buttons clock p packetType fid fCount d =
     (if disableClicks (gestures d) then (False, d)
      else if clickPadPressed (tp d) packetType p then
        (let d = onTouch (\<lambda>g. g\<lparr>isRotateGesture := False, isRotateMode := False, triggered := True\<rparr>) d;
             (stop, d) = (if fCount = 1 then clickOneFinger (uint fid) d
                          else if fCount = 2 then (False, clickTwoFingers d) else (False, d))
         in (True, if stop then d else clickDown clock d))
      else (False, clickUp clock d))"

end
