(* ===== verification/Touchpad_Scroll.thy ===== *)
theory Touchpad_Scroll
  imports Touchpad_Buttons
begin

text \<open>
  Process_scroll: from the motion of one or two fingers to scroll events, the speed of continued scrolling and
  the direction of scrolling. \<open>mx\<close> and \<open>my\<close> are the parameters sdx and sdy; \<open>scroll_vars\<close> are the local
  variables sDelta, s_dx, s_dy (of 16 bits) and scrollDifflvl. Sleeps are not modelled.
\<close>

record scroll_vars =
  sDelta :: int
  sX :: int
  sY :: int
  slevel :: u8

text \<open>An access to a sample outside the array is recorded.\<close>

definition setSample :: "nat \<Rightarrow> (delta_sample \<Rightarrow> delta_sample) \<Rightarrow> 'e touch_driver \<Rightarrow> 'e touch_driver" where
  "setSample i f = onTouch (\<lambda>g. if i < 11 then g\<lparr>lastSample := (lastSample g)[i := f (lastSample g ! i)]\<rparr>
     else g\<lparr>oob := True\<rparr>)"

definition recordScroll :: "int \<Rightarrow> int \<Rightarrow> 'x gesture_driver \<Rightarrow> 'x gesture_driver" where
  "recordScroll mx my d =
     onScroll (\<lambda>s. s\<lparr>scrollSample := if scrollSample s < 4 then scrollSample s + 1 else 0\<rparr>)
       (setSample (unat (scrollSample (scroll (gestures d))))
         (\<lambda>s. s\<lparr>lastSDX := of_int \<bar>mx\<bar>, lastSDY := of_int \<bar>my\<bar>\<rparr>) d)"

section \<open>Scroll deltas\<close>

definition hMode :: "touch_mode \<Rightarrow> bool" where
  "hMode m \<longleftrightarrow> m = MODE_EDGE_HSCROLL \<or> m = MODE_CIR_HSCROLL"

definition vMode :: "touch_mode \<Rightarrow> bool" where
  "vMode m \<longleftrightarrow> m = MODE_EDGE_VSCROLL \<or> m = MODE_CIR_VSCROLL"

text \<open>Two fingers: the axis that dominates decides the mode.\<close>

definition chooseAxis :: "int \<Rightarrow> int \<Rightarrow> 'x gesture_driver \<Rightarrow> 'x gesture_driver" where
  "chooseAxis mx my d =
     (let g = gestures d; rest = uint (idleFingMaxDelta (scrollF g));
          d = (if isHScrollEnabled g \<and> \<bar>mx\<bar> \<ge> rest \<and> (\<bar>mx\<bar> > \<bar>my\<bar> \<or> dxPacketsCount (scroll g) \<ge> 5)
               then setMode MODE_HSCROLL d else d)
      in if isVScrollEnabled g \<and> \<bar>my\<bar> \<ge> rest \<and> (\<bar>my\<bar> \<ge> \<bar>mx\<bar> \<or> dyPacketsCount (scroll g) \<ge> 5)
         then setMode MODE_VSCROLL d else d)"

text \<open>The mean of the samples and of the last value, on one axis.\<close>

definition smoothDelta :: "(finger \<Rightarrow> u32) \<Rightarrow> u32 \<Rightarrow> int \<Rightarrow> 'x gesture_driver \<Rightarrow> int" where
  "smoothDelta sel prev m d =
     (let n = uint (smoothSamples (scrollF (gestures d)));
          both = sel (finger (pid (gestures d)) d) + sel (finger (sid (gestures d)) d)
      in if n > 0 then s16 ((s16 (sint both) + sint prev) sdiv (n + 1)) else s16 ((m + sint prev) sdiv 2))"

definition smoothBoth :: "int \<Rightarrow> int \<Rightarrow> scroll_vars \<Rightarrow> 'x gesture_driver \<Rightarrow> scroll_vars \<times> 'x gesture_driver" where
  "smoothBoth mx my v d =
     (let d = (if smoothSamples (scrollF (gestures d)) > 0
               then reads (sid (gestures d)) (reads (pid (gestures d)) d) else d);
          x = smoothDelta sdx (pSmoothX (smooth (gestures d))) mx d;
          y = smoothDelta sdy (pSmoothY (smooth (gestures d))) my d
      in (v\<lparr>sX := x, sY := y\<rparr>, onSmooth (\<lambda>s. s\<lparr>pSmoothX := of_int x, pSmoothY := of_int y\<rparr>) d))"

text \<open>
  The first switch of the loop body: the delta of the turn. With two fingers the turn on the horizontal axis may
  be skipped, and the number of turns skipped is returned.
\<close>

definition turnDelta ::
  "int \<Rightarrow> int \<Rightarrow> nat \<Rightarrow> scroll_vars \<Rightarrow> 'x gesture_driver \<Rightarrow> nat \<times> scroll_vars \<times> 'x gesture_driver" where
  "turnDelta mx my i v d =
     (let m = touchmode (gestures d)
      in if cFingers (tp d) = 1 then
           (0, if hMode m then v\<lparr>sDelta := s16 mx\<rparr> else if vMode m then v\<lparr>sDelta := s16 my\<rparr> else v, d)
         else if cFingers (tp d) = 2 then
           (let d = chooseAxis mx my d;
                (v, d) = (if i = 0 then smoothBoth mx my v d else (v, d)); m = touchmode (gestures d);
                k = (if i = 0 \<and> (\<not> isHScrollEnabled (gestures d) \<or> m = MODE_VSCROLL) then 1 else 0)
            in (k, if i + k = 0 then v\<lparr>sDelta := sX v\<rparr> else if m \<noteq> MODE_HSCROLL then v\<lparr>sDelta := sY v\<rparr> else v, d))
         else (0, v, d))"

text \<open>The acceleration modes: optimised, fixed, extended, and none for super acceleration.\<close>

definition accelerate :: "u8 \<Rightarrow> int \<Rightarrow> int" where
  "accelerate sMode n =
     (let t = n sdiv 10
      in if sMode = 0 then
           (if n < 0 then (if odd t then t + 1 else t) sdiv 2 - 1 else (if odd t then t - 1 else t) sdiv 2 + 1)
         else if sMode = 1 then (if n < 0 then -5 else 5)
         else if sMode = 2 then (if n < 0 then t - 1 else t + 1)
         else n)"

text \<open>The third switch: the delta of the axis and the scroll level.\<close>

definition turnResult :: "u8 \<Rightarrow> nat \<Rightarrow> scroll_vars \<Rightarrow> 'x gesture_driver \<Rightarrow> nat \<times> scroll_vars" where
  "turnResult sMode i v d =
     (let m = touchmode (gestures d); n = sDelta v; level = of_int \<bar>n\<bar> :: u8
      in if cFingers (tp d) = 1 then
           (0, (if hMode m then v\<lparr>sX := n\<rparr> else if vMode m then v\<lparr>sY := n\<rparr> else v)\<lparr>slevel := level\<rparr>)
         else if cFingers (tp d) = 2 then
           (let v = (if i = 0 then v\<lparr>sX := n\<rparr> else v\<lparr>sY := n\<rparr>);
                fast = of_int ((n sdiv 10 + 1) * 2) * 2;
                v = (if i = 1 \<and> m \<noteq> MODE_HSCROLL \<or> i = 0 then v\<lparr>slevel := if sMode > 2 then fast else level\<rparr> else v)
            in (if \<not> isVScrollEnabled (gestures d) then 1 else 0, v))
         else (0, v))"

definition scrollTurn ::
  "u8 \<Rightarrow> int \<Rightarrow> int \<Rightarrow> nat \<Rightarrow> scroll_vars \<times> 'x gesture_driver \<Rightarrow> nat \<times> scroll_vars \<times> 'x gesture_driver" where
  "scrollTurn sMode mx my i vd =
     (let (k, v, d) = turnDelta mx my i (fst vd) (snd vd);
          v = v\<lparr>sDelta := s16 (0 - accelerate sMode (sDelta v))\<rparr>;
          (k', v) = turnResult sMode (i + k) v d
      in (k + k', v, d))"

text \<open>The loop: one turn for each axis, of as many as there are fingers.\<close>

function scrollLoop :: "(nat \<Rightarrow> 's \<Rightarrow> nat \<times> 's) \<Rightarrow> nat \<Rightarrow> nat \<Rightarrow> 's \<Rightarrow> 's" where
  "scrollLoop turn c i s =
     (let (k, s') = turn i s in if i + k + 1 < c then scrollLoop turn c (i + k + 1) s' else s')"
  by pat_completeness auto
termination
  by (relation "measure (\<lambda>(turn, c, i, s). c - i)") auto

declare scrollLoop.simps [simp del]

definition scrollDeltas :: "u8 \<Rightarrow> int \<Rightarrow> int \<Rightarrow> 'x gesture_driver \<Rightarrow> scroll_vars \<times> 'x gesture_driver" where
  "scrollDeltas sMode mx my d =
     scrollLoop (scrollTurn sMode mx my) (unat (cFingers (tp d))) 0 (\<lparr>sDelta = 0, sX = 0, sY = 0, slevel = 0\<rparr>, d)"

section \<open>Change of direction\<close>

definition turnsBack :: "u16 \<Rightarrow> int \<Rightarrow> int \<Rightarrow> bool" where
  "turnsBack old new m \<longleftrightarrow> (sint old > 3 \<and> new < -3 \<or> sint old < -3 \<and> new > 3) \<and> \<bar>m\<bar> > 0"

definition restart :: "(scroll_state \<Rightarrow> scroll_state) \<Rightarrow> 'x gesture_driver \<Rightarrow> 'x gesture_driver" where
  "restart f d =
     bothFingers (\<lambda>f. lastHere (startHere f))
       (onPad (\<lambda>t. t\<lparr>packetsCount := 0\<rparr>) (onScroll (\<lambda>s. (f s)\<lparr>maxLevelReached := 0\<rparr>) d))"

definition changeDirection :: "int \<Rightarrow> int \<Rightarrow> scroll_vars \<Rightarrow> 'x gesture_driver \<Rightarrow> 'x gesture_driver" where
  "changeDirection mx my v d =
     (let g = gestures d; m = touchmode g;
          limit = (\<lambda>b. uint (if b then contMaxDelta2F (scrollF g) else contMaxDeltaEdge (scrollF g)))
      in if m = MODE_HSCROLL \<or> m = MODE_EDGE_HSCROLL then
           (if turnsBack (scrollDx (scroll g)) (sX v) mx \<and> slevel v \<noteq> 0 \<and> \<bar>mx\<bar> > limit (m = MODE_HSCROLL)
            then restart (\<lambda>s. s\<lparr>scrollDx := of_int (sX v)\<rparr>) d else d)
         else if m = MODE_VSCROLL \<or> m = MODE_EDGE_VSCROLL then
           (if turnsBack (scrollDy (scroll g)) (sY v) my \<and> slevel v \<noteq> 0 \<and> \<bar>my\<bar> > limit (m = MODE_VSCROLL)
            then restart (\<lambda>s. s\<lparr>scrollDy := of_int (sY v)\<rparr>) d else d)
         else d)"

definition countLevel :: "int \<Rightarrow> int \<Rightarrow> scroll_vars \<Rightarrow> 'x gesture_driver \<Rightarrow> 'x gesture_driver" where
  "countLevel mx my v d =
     onSmooth (\<lambda>s. s\<lparr>scrollTotalDx := scrollTotalDx s + of_int \<bar>mx\<bar>, scrollTotalDy := scrollTotalDy s + of_int \<bar>my\<bar>\<rparr>)
       (onScroll (\<lambda>s. s\<lparr>maxLevelReached := max (maxLevelReached s) (slevel v)\<rparr>) d)"

text \<open>Counters of packets in one direction, between -10 and 10, and speeds that follow them.\<close>

definition countDir :: "int \<Rightarrow> u8 \<Rightarrow> u8" where
  "countDir m n = (if m < 0 \<and> sint n > -10 then n - 1 else if m > 0 \<and> sint n < 10 then n + 1 else n)"

definition follow :: "int \<Rightarrow> u8 \<Rightarrow> u8 \<Rightarrow> u16 \<Rightarrow> u16" where
  "follow m n samples x =
     (if m < 0 \<and> sint n < - uint samples then (if sint x < 0 then - x else x)
      else if m > 0 \<and> sint n > uint samples then (if sint x > 0 then - x else x) else x)"

definition edgeDirection :: "int \<Rightarrow> int \<Rightarrow> 'x gesture_driver \<Rightarrow> 'x gesture_driver" where
  "edgeDirection mx my d =
     (let m = touchmode (gestures d); n = directionSamples (scrollF (gestures d))
      in if m = MODE_EDGE_VSCROLL then
           onScroll (\<lambda>s. let c = countDir my (yPacketsDir s)
             in s\<lparr>yPacketsDir := c, scrollDy := follow my c n (scrollDy s)\<rparr>) d
         else if m = MODE_EDGE_HSCROLL then
           onScroll (\<lambda>s. let c = countDir mx (xPacketsDir s)
             in s\<lparr>xPacketsDir := c, scrollDx := follow mx c n (scrollDx s)\<rparr>) d
         else d)"

definition countTo :: "u8 \<Rightarrow> u8" where
  "countTo n = (if n < 255 then n + 1 else n)"

definition twoDirectionX :: "u8 \<Rightarrow> u8 \<Rightarrow> int \<Rightarrow> int \<Rightarrow> scroll_state \<Rightarrow> scroll_state" where
  "twoDirectionX rest n mx my s =
     (let s = s\<lparr>dxPacketsCount := countTo (dxPacketsCount s)\<rparr>; many = (dxPacketsCount s \<ge> 5);
          s = (if \<bar>mx\<bar> > uint rest \<or> many then s\<lparr>xPacketsDir := countDir mx (xPacketsDir s)\<rparr> else s);
          turn = follow mx (xPacketsDir s) n
      in if many then
           s\<lparr>dyPacketsCount := (if \<bar>mx\<bar> > \<bar>my\<bar> \<and> dyPacketsCount s > 0 then dyPacketsCount s - 1 else dyPacketsCount s),
             scrollDx := turn (scrollDx s), scrollDy := turn (scrollDy s)\<rparr>
         else s)"

definition twoDirectionY :: "u8 \<Rightarrow> u8 \<Rightarrow> int \<Rightarrow> int \<Rightarrow> scroll_state \<Rightarrow> scroll_state" where
  "twoDirectionY rest n mx my s =
     (let s = s\<lparr>dyPacketsCount := countTo (dyPacketsCount s)\<rparr>; many = (dyPacketsCount s \<ge> 5);
          s = (if \<bar>my\<bar> > uint rest \<or> many then s\<lparr>yPacketsDir := countDir my (yPacketsDir s)\<rparr> else s);
          turn = follow my (yPacketsDir s) n
      in if many then
           s\<lparr>dxPacketsCount := (if \<bar>my\<bar> \<ge> \<bar>mx\<bar> \<and> dxPacketsCount s > 0 then dxPacketsCount s - 1 else dxPacketsCount s),
             scrollDx := turn (scrollDx s), scrollDy := turn (scrollDy s)\<rparr>
         else s)"

definition twoDirection :: "int \<Rightarrow> int \<Rightarrow> 'x gesture_driver \<Rightarrow> 'x gesture_driver" where
  "twoDirection mx my d =
     (let g = gestures d; m = touchmode g; rest = idleFingMaxDelta (scrollF g); n = directionSamples (scrollF g)
      in onScroll (\<lambda>s.
           let s = (if \<bar>mx\<bar> > \<bar>my\<bar> \<or> m = MODE_HSCROLL then twoDirectionX rest n mx my s else s)
           in if \<bar>my\<bar> \<ge> \<bar>mx\<bar> \<or> m = MODE_VSCROLL then twoDirectionY rest n mx my s else s) d)"

text \<open>Fingers held still stop the inertia and, without continued scrolling, the scroll.\<close>

definition heldStill ::
  "bool \<Rightarrow> bool \<Rightarrow> scroll_vars \<times> 'x gesture_driver \<Rightarrow> scroll_vars \<times> 'x gesture_driver" where
  "heldStill cont sling vd =
     (let (v, d) = vd
      in if holdTime (gestures d) > idleFingDetectTimeout (scrollF (gestures d)) then
           (if cont then v else v\<lparr>slevel := 0\<rparr>,
            onScroll (\<lambda>s. s\<lparr>noInertia := True,
              maxLevelReached := (if \<not> cont \<and> \<not> sling then 0 else maxLevelReached s)\<rparr>) d)
         else (v, d))"

definition scrollDirection :: "int \<Rightarrow> int \<Rightarrow> scroll_vars \<Rightarrow> 'x gesture_driver \<Rightarrow> scroll_vars \<times> 'x gesture_driver" where
  "scrollDirection mx my v d =
     (let F = scrollF (gestures d)
      in if cFingers (tp d) = 1 then heldStill (hasEdgeCont F) (hasEdgeSling F) (v, edgeDirection mx my d)
         else if cFingers (tp d) = 2 then
           (let d = twoDirection mx my d; g = gestures d; noise = ucast (noiseMultiTapDelta (tap g));
                start = (packetsCount (tp d) < 15 \<and> maxLevelReached (scroll g) < 2 \<and>
                         scrollTotalDx (smooth g) < noise \<and> scrollTotalDy (smooth g) < noise)
            in heldStill (has2FCont F) (has2FSling F) (if start then v\<lparr>slevel := 0, sX := 0, sY := 0\<rparr> else v, d))
         else (v, d))"

section \<open>The timer of continued scrolling\<close>

definition startScroll :: "'x gesture_driver \<Rightarrow> 'x gesture_driver" where
  "startScroll d = setTimeout ScrollTimer 0 (cancelTimeout ScrollTimer (onTouch (\<lambda>g. g\<lparr>doCont := True\<rparr>) d))"

definition startIfIdle :: "'x gesture_driver \<Rightarrow> 'x gesture_driver" where
  "startIfIdle d = (if doCont (gestures d) then d else startScroll d)"

definition noSpeed :: "'x gesture_driver \<Rightarrow> 'x gesture_driver" where
  "noSpeed = onScroll (\<lambda>s. s\<lparr>scrollDx := 0, scrollDy := 0\<rparr>)"

definition stopCont :: "'x gesture_driver \<Rightarrow> 'x gesture_driver" where
  "stopCont d = cancelTimeout ScrollTimer (noSpeed (onTouch (\<lambda>g. g\<lparr>doCont := False\<rparr>) d))"

section \<open>Circular scrolling\<close>

text \<open>The sense of rotation: 1, -1, or 0 if it is not clear.\<close>

definition rotation :: "int \<Rightarrow> int \<Rightarrow> 'x gesture_driver \<Rightarrow> int" where
  "rotation mx my d =
     (let c = uint (edgeCirDelta (scrollF (gestures d))); f = finger 0 d; t = tp d;
          up = posY f < ycenter t; down = posY f > ycenter t; left = posX f < xcenter t; right = posX f > xcenter t;
          pp = (my > c \<and> mx > c); pm = (my > c \<and> mx < -c); mm = (my < -c \<and> mx < -c); mp = (my < -c \<and> mx > c)
      in if pp \<and> up \<and> right \<or> pm \<and> down \<and> right \<or> mm \<and> down \<and> left \<or> mp \<and> up \<and> left then 1
         else if mm \<and> up \<and> right \<or> mp \<and> down \<and> right \<or> pp \<and> down \<and> left \<or> pm \<and> up \<and> left then -1
         else 0)"

definition circularDelta ::
  "int \<Rightarrow> int \<Rightarrow> scroll_vars \<times> 'x gesture_driver \<Rightarrow> scroll_vars \<times> 'x gesture_driver" where
  "circularDelta mx my vd =
     (let (v, d) = vd; r = rotation mx my d; signed = (\<lambda>minus n. if minus then - \<bar>n\<bar> else \<bar>n\<bar>)
      in if r = 0 then (v, d)
         else if touchmode (gestures d) = MODE_CIR_VSCROLL then
           (let y = s16 (signed (r = 1) (sY v))
            in (v\<lparr>sY := y\<rparr>, onScroll (\<lambda>s. s\<lparr>edgeCirDxy := of_int y\<rparr>) d))
         else
           (let x = s16 (signed (r \<noteq> 1) (sX v))
            in (v\<lparr>sX := x\<rparr>, onScroll (\<lambda>s. s\<lparr>edgeCirDxy := of_int x\<rparr>) d)))"

definition circularSpeed ::
  "(nat \<Rightarrow> u64) \<Rightarrow> (rat \<Rightarrow> rat) \<Rightarrow> int \<Rightarrow> int \<Rightarrow> 'x gesture_driver \<Rightarrow> 'x gesture_driver" where
  "circularSpeed clock fl mx my d =
     (let F = scrollF (gestures d); limit = uint (contMaxDeltaEdge F);
          d = (if \<bar>mx\<bar> \<ge> limit \<or> \<bar>my\<bar> \<ge> limit then
                 onScroll (\<lambda>s. let m = ucast (maxLevelReached s)
                   in s\<lparr>edgeCirDxy := (if sint (edgeCirDxy s) < 0 then - m else m),
                        maxLevelReached := maxLevelReached s div 2 + 1\<rparr>) d
               else d);
          vertical = (touchmode (gestures d) = MODE_CIR_VSCROLL); n = edgeCirDxy (scroll (gestures d));
          e = scaled fl (scrollFactor (gestures d)) (sint n)
      in if accelModeEdge F = 3 then (if vertical then dispatchScroll clock e 0 d else dispatchScroll clock 0 e d)
         else
           (let d = onScroll (\<lambda>s. if vertical then s\<lparr>scrollDy := n\<rparr> else s\<lparr>scrollDx := n\<rparr>) d
            in if doCont (gestures d) then d
               else setTimeout ScrollTimer 0 (onTouch (\<lambda>g. g\<lparr>doCont := True\<rparr>) d)))"

definition circularScroll ::
  "(nat \<Rightarrow> u64) \<Rightarrow> (rat \<Rightarrow> rat) \<Rightarrow> int \<Rightarrow> int \<Rightarrow> scroll_vars \<Rightarrow> 'x gesture_driver \<Rightarrow> 'x gesture_driver" where
  "circularScroll clock fl mx my v d =
     (let (v, d) = circularDelta mx my (v, d); g = gestures d
      in if sY v \<noteq> 0 \<or> sX v \<noteq> 0 then circularSpeed clock fl mx my d
         else if doCont g \<and> \<not> hasEdgeCont (scrollF g)
         then stopCont (onScroll (\<lambda>s. s\<lparr>edgeCirDxy := 0\<rparr>) d) else d)"

section \<open>Scrolls held back while a zoom is possible\<close>

definition skipScroll :: "scroll_vars \<Rightarrow> 'x gesture_driver \<Rightarrow> 'x gesture_driver" where
  "skipScroll v d =
     (let i = unat (skipSample (smooth (gestures d)));
          d = (if i < 11 then onScroll (\<lambda>s. s\<lparr>skippedDx := (skippedDx s)[i := of_int (sX v)],
                 skippedDy := (skippedDy s)[i := of_int (sY v)]\<rparr>) d
               else onTouch (\<lambda>g. g\<lparr>oob := True\<rparr>) d)
      in onSmooth (\<lambda>s. if skipSample s < 10 then s\<lparr>skipSample := skipSample s + 1\<rparr> else s) d)"

definition flushOne :: "(nat \<Rightarrow> u64) \<Rightarrow> (int \<Rightarrow> int) \<Rightarrow> nat \<Rightarrow> 'x gesture_driver \<Rightarrow> 'x gesture_driver" where
  "flushOne clock f i d =
     (let s = scroll (gestures d);
          d = (if i < 11 then d else onTouch (\<lambda>g. g\<lparr>oob := True\<rparr>) d)
      in onScroll (\<lambda>s. s\<lparr>skippedDx := (skippedDx s)[i := 0], skippedDy := (skippedDy s)[i := 0]\<rparr>)
           (dispatchScroll clock (f (sint (skippedDy s ! i))) (f (sint (skippedDx s ! i))) d))"

definition flushSkipped :: "(nat \<Rightarrow> u64) \<Rightarrow> (int \<Rightarrow> int) \<Rightarrow> 'x gesture_driver \<Rightarrow> 'x gesture_driver" where
  "flushSkipped clock f d =
     (if cFingers (tp d) = 2 \<and> skipSample (smooth (gestures d)) > 0 then
        onSmooth (\<lambda>s. s\<lparr>skipSample := 0\<rparr>)
          (fold (flushOne clock f) [0..<unat (skipSample (smooth (gestures d)))] d)
      else d)"

section \<open>Slow scrolling\<close>

text \<open>Edge scrolling is scaled by a percentage, which is divided by 100 as an integer first.\<close>

definition edgeFactor :: "(rat \<Rightarrow> rat) \<Rightarrow> 'x gesture_driver \<Rightarrow> rat" where
  "edgeFactor fl d =
     fl (of_int (uint (edgeSpeedFactor (scrollF (gestures d))) div 100) * scrollFactor (gestures d))"

text \<open>The switch on the mode: whether to stop, the factor, the local variables and the state.\<close>

definition slowMode ::
  "(rat \<Rightarrow> rat) \<Rightarrow> bool \<Rightarrow> scroll_vars \<Rightarrow> 'x gesture_driver \<Rightarrow> bool \<times> rat \<times> scroll_vars \<times> 'x gesture_driver" where
  "slowMode fl isZoomConflict v d =
     (let g = gestures d; m = touchmode g; F = scrollF g; f = scrollFactor g;
          cont = (\<lambda>b d. if b then setMode MODE_CONT_SCROLL d else d)
      in if m = MODE_HSCROLL then
           (let d = onScroll (\<lambda>s. s\<lparr>scrollDy := 0\<rparr>) d; v = v\<lparr>sY := 0\<rparr>
            in if isZoomConflict \<and> sX v \<noteq> 0 then (True, f, v, skipScroll v d) else (False, f, v, cont (has2FCont F) d))
         else if m = MODE_VSCROLL then
           (let d = onScroll (\<lambda>s. s\<lparr>scrollDx := 0\<rparr>) d; v = v\<lparr>sX := 0\<rparr>
            in if isZoomConflict \<and> sY v \<noteq> 0 then (True, f, v, skipScroll v d) else (False, f, v, cont (has2FCont F) d))
         else if m = MODE_EDGE_VSCROLL then
           (False, edgeFactor fl d, v, cont (hasEdgeCont F) (onScroll (\<lambda>s. s\<lparr>scrollDx := 0\<rparr>) d))
         else if m = MODE_EDGE_HSCROLL then
           (False, edgeFactor fl d, v, cont (hasEdgeCont F) (onScroll (\<lambda>s. s\<lparr>scrollDy := 0\<rparr>) d))
         else (False, f, v, d))"

text \<open>A speed gets a given size and keeps its sign, and 0 stays 0.\<close>

definition toSpeed :: "u16 \<Rightarrow> u16 \<Rightarrow> u16" where
  "toSpeed n x = (if x = 0 then 0 else if sint x < 0 then - n else n)"

definition bothSpeeds :: "(u8 \<Rightarrow> u16) \<Rightarrow> 'x gesture_driver \<Rightarrow> 'x gesture_driver" where
  "bothSpeeds f = onScroll (\<lambda>s. let n = f (maxLevelReached s)
     in s\<lparr>scrollDy := toSpeed n (scrollDy s), scrollDx := toSpeed n (scrollDx s)\<rparr>)"

definition slowSpeed ::
  "(nat \<Rightarrow> u64) \<Rightarrow> (rat \<Rightarrow> rat) \<Rightarrow> u8 \<Rightarrow> int \<Rightarrow> bool \<Rightarrow> rat \<Rightarrow> scroll_vars \<Rightarrow> 'x gesture_driver \<Rightarrow> 'x gesture_driver" where
  "slowSpeed clock fl sMode my contSAcell f v d =
     (if sMode = 0 \<or> sMode = 2 then
        (if contSAcell then bothSpeeds ucast d else if \<bar>my\<bar> > 0 then bothSpeeds (\<lambda>_. 1) d else d)
      else if sMode = 1 then bothSpeeds (\<lambda>_. 5) d
      else if sMode = 3 \<or> sMode = 4 then
        (if contSAcell then startIfIdle (bothSpeeds (\<lambda>m. 2 * ucast m) d)
         else
           (let d = onScroll (\<lambda>s. s\<lparr>scrollDy := of_int (sY v), scrollDx := of_int (sX v)\<rparr>) d
            in if sMode = 3 then
                 (let d = (if doCont (gestures d)
                           then cancelTimeout ScrollTimer (onTouch (\<lambda>g. g\<lparr>doCont := False\<rparr>) d) else d);
                      s = scroll (gestures d)
                  in dispatchScroll clock (scaled fl f (sint (scrollDy s))) (scaled fl f (sint (scrollDx s))) d)
               else d))
      else d)"

definition slowScroll ::
  "(nat \<Rightarrow> u64) \<Rightarrow> (rat \<Rightarrow> rat) \<Rightarrow> u8 \<Rightarrow> int \<Rightarrow> bool \<Rightarrow> scroll_vars \<Rightarrow> 'x gesture_driver \<Rightarrow> 'x gesture_driver" where
  "slowScroll clock fl sMode my isZoomConflict v d =
     (let (stop, f, v, d) = slowMode fl isZoomConflict v d
      in if stop then d
         else
           (let contSAcell = (touchmode (gestures d) = MODE_CONT_SCROLL);
                d = (if contSAcell then d else onScroll (\<lambda>s. s\<lparr>noInertia := False\<rparr>) d);
                d = flushSkipped clock (if sMode = 3 \<and> \<not> contSAcell then scaled fl f else (\<lambda>n. n sdiv 2)) d;
                d = slowSpeed clock fl sMode my contSAcell f v d; s = scroll (gestures d)
            in if (scrollDy s \<noteq> 0 \<or> scrollDx s \<noteq> 0) \<and> sMode \<noteq> 3 then startIfIdle d else d))"

section \<open>Fast scrolling\<close>

definition fastMode ::
  "(rat \<Rightarrow> rat) \<Rightarrow> bool \<Rightarrow> scroll_vars \<Rightarrow> 'x gesture_driver \<Rightarrow> bool \<times> rat \<times> scroll_vars \<times> 'x gesture_driver" where
  "fastMode fl isZoomConflict v d =
     (let g = gestures d; m = touchmode g; f = scrollFactor g;
          speed = (\<lambda>y x. onScroll (\<lambda>s. s\<lparr>scrollDy := of_int y, scrollDx := of_int x\<rparr>))
      in if m = MODE_HSCROLL then
           (let v = v\<lparr>sY := 0\<rparr>; d = speed 0 (sX v) d
            in if isZoomConflict \<and> sX v \<noteq> 0 then (True, f, v, skipScroll v d) else (False, f, v, d))
         else if m = MODE_VSCROLL then
           (let v = v\<lparr>sX := 0\<rparr>; d = speed (sY v) 0 d
            in if isZoomConflict \<and> sY v \<noteq> 0 then (True, f, v, skipScroll v d) else (False, f, v, d))
         else if m = MODE_EDGE_VSCROLL then (False, edgeFactor fl d, v, speed (sDelta v) 0 d)
         else if m = MODE_EDGE_HSCROLL then (False, edgeFactor fl d, v, speed 0 (sDelta v) d)
         else (False, f, v, d))"

definition halved :: "(rat \<Rightarrow> rat) \<Rightarrow> rat \<Rightarrow> int \<Rightarrow> int" where
  "halved fl f n = toInt (fl (fl (of_int n * f) / 2))"

definition fastScroll ::
  "(nat \<Rightarrow> u64) \<Rightarrow> (rat \<Rightarrow> rat) \<Rightarrow> u8 \<Rightarrow> bool \<Rightarrow> scroll_vars \<Rightarrow> 'x gesture_driver \<Rightarrow> 'x gesture_driver" where
  "fastScroll clock fl sMode isZoomConflict v d =
     (let d = onTouch (\<lambda>g. g\<lparr>doCont := False\<rparr>) (onScroll (\<lambda>s. s\<lparr>noInertia := False\<rparr>) d);
          (stop, f, v, d) = fastMode fl isZoomConflict v d
      in if stop then d
         else
           (let d = flushSkipped clock (scaled fl (scrollFactor (gestures d))) d; s = scroll (gestures d)
            in if sMode = 0 \<or> sMode = 1 \<or> sMode = 4 then startIfIdle d
               else if sMode = 2 then dispatchScroll clock (halved fl f (sY v)) (halved fl f (sX v)) d
               else if sMode = 3
               then dispatchScroll clock (scaled fl f (sint (scrollDy s))) (scaled fl f (sint (scrollDx s))) d
               else d))"

section \<open>The handler\<close>

definition Process_scroll ::
  "(nat \<Rightarrow> u64) \<Rightarrow> (rat \<Rightarrow> rat) \<Rightarrow> u8 \<Rightarrow> int \<Rightarrow> int \<Rightarrow> bool \<Rightarrow> 'x gesture_driver \<Rightarrow> 'x gesture_driver" where
  "Process_scroll clock fl sMode mx my isZoomConflict d =
     (let (v, d) = scrollDeltas sMode mx my (recordScroll mx my d);
          d = countLevel mx my v (changeDirection mx my v d);
          (v, d) = scrollDirection mx my v d;
          g = gestures d; s = scroll g; F = scrollF g; c = cFingers (tp d);
          limit = (if c = 1 then uint (contMaxDeltaEdge F) else if c = 2 then uint (contMaxDelta2F F) else 0);
          moves = (\<bar>mx\<bar> > 0 \<or> \<bar>my\<bar> > 0);
          scrolls = ((scrollDx s \<noteq> 0 \<or> scrollDy s \<noteq> 0) \<and> sMode < 2 \<or> (sX v \<noteq> 0 \<or> sY v \<noteq> 0) \<and> sMode > 1)
      in if touchmode g = MODE_CIR_VSCROLL \<or> touchmode g = MODE_CIR_HSCROLL then circularScroll clock fl mx my v d
         else if moves \<and> \<bar>mx\<bar> < limit \<and> \<bar>my\<bar> < limit \<and> scrolls \<and> slevel v \<noteq> 0
         then slowScroll clock fl sMode my isZoomConflict v d
         else if moves \<and> slevel v \<noteq> 0 then fastScroll clock fl sMode isZoomConflict v d
         else if slevel v = 0 \<and> doCont g \<and> (c = 2 \<and> \<not> has2FCont F \<or> c = 1 \<and> \<not> hasEdgeCont F)
         then stopCont d
         else d)"

end
