(* ===== verification/Touchpad_End.thy ===== *)
theory Touchpad_End
  imports Touchpad_Scroll
begin

text \<open>
  Process_touch_end: what a touch ends in (a click, a tap, a swipe, inertia of a scroll) and the reset of the
  state of the touch. The code reads the clock first; \<open>mnow\<close> is the member _now.
\<close>

section \<open>Taps\<close>

text \<open>A configured action: none if negative, the application switcher, the notification centre, or a notification.\<close>

definition tapAction :: "u8 \<Rightarrow> 'x gesture_driver \<Rightarrow> 'x gesture_driver" where
  "tapAction act d =
     (if sint act < 0 then d
      else if act = 1 then onTouch (\<lambda>g. g\<lparr>isAppSwitchDone := True\<rparr>) (notify kPS2C_Gesture_AppSwitch d)
      else if act = 17 then Open_NC d
      else notify (scast act) d)"

definition clickTap :: "(nat \<Rightarrow> u64) \<Rightarrow> 'x gesture_driver \<Rightarrow> 'x gesture_driver" where
  "clickTap clock d =
     (let g = gestures d;
          d = (if \<not> checkTapDrag (drag g) \<and> \<not> isDragging g
               then onDrag (\<lambda>r. r\<lparr>checkTapDrag := True\<rparr>) (onTap (\<lambda>t. t\<lparr>tapLastTime := mnow g\<rparr>) d) else d);
          d = (if isQuickTap (drag g) then clearButtons (movePointer clock 0 0 0 d) else d);
          d = (if isHoldDrag g \<or> isTapDrag g then
                 onDrag (\<lambda>r. r\<lparr>checkTapDrag := False\<rparr>) (onTap (\<lambda>t. t\<lparr>tapLastTime := 0\<rparr>)
                   (clearButtons (movePointer clock 0 0 0 (movePointer clock 0 0 1 d))))
               else
                 (let d = onTouch (\<lambda>g. g\<lparr>buttonState := buttonState g OR 1\<rparr>) (onPad (\<lambda>t. t\<lparr>buttonData := 1\<rparr>) d)
                  in movePointer clock 0 0 (buttonState (gestures d)) d))
      in onTouch (\<lambda>g. (clearDragStates g)\<lparr>holdTime := 0\<rparr>) d)"

definition oneFingerTap :: "(nat \<Rightarrow> u64) \<Rightarrow> 'x gesture_driver \<Rightarrow> 'x gesture_driver" where
  "oneFingerTap clock d =
     (let g = gestures d
      in if \<not> isClickingEnabled g \<or> gestureTime g = 0 then d
         else if \<not> isToggleKeyOnHold g \<and> tapFingers1 (tap g) \<noteq> 35 then tapAction (tapFingers1 (tap g)) d
         else if tapEnableTPad (gate d) \<and> accidentalInput (gate d)
         then onGate (\<lambda>k. k\<lparr>accidentalInput := False, kbKeysCount := 0\<rparr>) d
         else
           (let d = releaseAppSwitch d;
                d = (if buttonData (tp d) = 0 \<or> isTapDrag g \<or> isHoldDrag g then clickTap clock d else d)
            in onDrag (\<lambda>r. r\<lparr>isQuickTap := True\<rparr>) (onTap (\<lambda>t. t\<lparr>tapCount := 0\<rparr>) d)))"

text \<open>Position and motion of the pointer for the corners top left, bottom left, bottom right and top right.\<close>

definition cornerTarget :: "touchpad \<Rightarrow> u8 \<Rightarrow> int \<times> int \<times> int \<times> int" where
  "cornerTarget t n =
     (if n = 1 then (0, 0, 50, 50) else if n = 2 then (0, uint (ymax t), 50, -50)
      else if n = 3 then (uint (xmax t), uint (ymax t), -50, -50) else if n = 4 then (uint (xmax t), 0, -50, 50)
      else (0, 0, 0, 0))"

definition endCornerTap :: "(nat \<Rightarrow> u64) \<Rightarrow> 'x gesture_driver \<Rightarrow> 'x gesture_driver" where
  "endCornerTap clock d =
     (let g = gestures d; (x, y, dx, dy) = cornerTarget (tp d) (corner (cornerTap g))
      in if gestureTime g \<le> tapTimeout (tap g) \<and> cornerEnabled (cornerTap g)
         then absolutePointer x y 0 (onTouch (readClock clock) (movePointer clock dx dy 0 d)) else d)"

definition tapButton :: "bool \<Rightarrow> u8 \<Rightarrow> tap_struct \<Rightarrow> u8" where
  "tapButton swap n t =
     (if n = 2 then
        (if swap \<and> tapFingers2 t = 34 \<or> tapFingers2 t = 33 then 2 else if \<not> swap \<and> tapFingers2 t = 34 then 4
         else if tapFingers2 t = 35 then 1 else 0)
      else
        (if \<not> swap \<and> tapFingers3 t = 33 then 2 else if tapFingers3 t = 34 \<or> swap \<and> tapFingers3 t = 33 then 4
         else if tapFingers3 t = 35 then 1 else 0))"

definition actOnTap :: "(nat \<Rightarrow> u64) \<Rightarrow> u8 \<Rightarrow> 'x gesture_driver \<Rightarrow> 'x gesture_driver" where
  "actOnTap clock n d =
     (let g = gestures d; b = tapButton (isTapSwapEnabled g) n (tap g); d = onPad (\<lambda>t. t\<lparr>buttonData := b\<rparr>) d;
          d = (if b = 2 \<or> b = 4 then
                 movePointer clock 0 0 0 (movePointer clock 0 0 b (onTouch (\<lambda>g. g\<lparr>buttonState := buttonState g OR b\<rparr>) d))
               else tapAction (if n = 2 then tapFingers2 (tap g) else tapFingers3 (tap g)) d)
      in clearButtons (endTaps d))"

definition countTap :: "u8 \<Rightarrow> 'x gesture_driver \<Rightarrow> 'x gesture_driver" where
  "countTap n d =
     (let g = gestures d; counts = (hasMulFDoubleTaps (tap g) \<or> isToggleKeyOnHold g)
      in onTap (\<lambda>t. t\<lparr>tapCount := if counts then tapCount t + 1 else tapCount t, tapFingersCount := n\<rparr>) d)"

text \<open>With the shift key several taps within half a second are counted and acted on by a timer.\<close>

definition toggleTaps :: "u64 \<Rightarrow> 'x gesture_driver \<Rightarrow> 'x gesture_driver" where
  "toggleTaps doubleTapTime d =
     (if isToggleKeyOnHold (gestures d) \<and> sint (tapCount (tap (gestures d))) > 1 then
        (if doubleTapTime < 500000000 then setTimeout FeatureTimer 500 d
         else if doubleTapTime > 500000000 then onTap (\<lambda>t. t\<lparr>tapCount := tapCount t - 1\<rparr>) d else d)
      else d)"

definition stampTap :: "(nat \<Rightarrow> u64) \<Rightarrow> 'x gesture_driver \<Rightarrow> 'x gesture_driver" where
  "stampTap clock d =
     (let d = onTouch (readClock clock) d in onTap (\<lambda>t. t\<lparr>tapLastTime := mnow (gestures d)\<rparr>) d)"

definition fewFingersTap :: "(nat \<Rightarrow> u64) \<Rightarrow> u8 \<Rightarrow> 'x gesture_driver \<Rightarrow> 'x gesture_driver" where
  "fewFingersTap clock n d =
     (if \<not> isClickingEnabled (gestures d) then d
      else
        (let doubleTapTime = mnow (gestures d) - tapLastTime (tap (gestures d)); d = countTap n d; g = gestures d;
             toggle = isToggleKeyOnHold g; many = hasMulFDoubleTaps (tap g)
         in stampTap clock
              (if \<not> toggle \<and> \<not> many then actOnTap clock n d
               else if tapCount (tap g) = 1 \<and> \<not> toggle \<and> many then setTimeout FeatureTimer 300 d
               else toggleTaps doubleTapTime d)))"

definition manyFingersTap :: "(nat \<Rightarrow> u64) \<Rightarrow> u8 \<Rightarrow> 'x gesture_driver \<Rightarrow> 'x gesture_driver" where
  "manyFingersTap clock n d =
     (if \<not> isClickingEnabled (gestures d) then d
      else
        (let doubleTapTime = mnow (gestures d) - tapLastTime (tap (gestures d)); d = countTap n d; t = tap (gestures d);
             d = (if \<not> isToggleKeyOnHold (gestures d)
                  then endTaps (tapAction (if n = 4 then tapFingers4 t else tapFingers5 t) d) else d)
         in stampTap clock (toggleTaps doubleTapTime d)))"

section \<open>Swipes\<close>

definition swipeAction :: "touch_mode \<Rightarrow> u8 \<Rightarrow> swipe_struct \<Rightarrow> u8" where
  "swipeAction m direction w =
     (let four = (m = MODE_MUL_TOUCH_4)
      in if direction = 1 then (if four then left4F w else left3F w)
         else if direction = 2 then (if four then right4F w else right3F w)
         else if direction = 3 then (if four then down4F w else down3F w)
         else if direction = 4 then (if four then up4F w else up3F w)
         else 0)"

definition endSwipe :: "'x gesture_driver \<Rightarrow> 'x gesture_driver" where
  "endSwipe d =
     (let g = gestures d; act = swipeAction (touchmode g) (swipeDirection g) (swipe g)
      in onTouch (\<lambda>g. g\<lparr>swipeDirection := 0\<rparr>) (if sint act > 0 then tapAction act d else d))"

section \<open>Inertia of a scroll\<close>

definition stillSamples :: "'x gesture_scheme \<Rightarrow> u8" where
  "stillSamples g =
     (let t = tap g
      in if noInertia (scroll g) then 0
         else of_nat (length (filter (\<lambda>s. lastSDX s < maxTEndDelta t \<and> lastSDY s < maxTEndDelta t \<or>
                samplePressure s < maxTEndPressure t) (takeWhile (\<lambda>s. samplePressure s \<noteq> 0) (take 5 (lastSample g))))))"

definition inertiaDelta :: "int \<Rightarrow> u8 \<Rightarrow> u16 \<Rightarrow> u16" where
  "inertiaDelta sFactor level speed =
     of_int (sgn (sint speed) * (if level = 1 \<and> sFactor < 4 then 4 else uint level))"

definition chooseInertia :: "'x gesture_driver \<Rightarrow> 'x gesture_driver" where
  "chooseInertia d =
     (let g = gestures d; F = scrollF g
      in if doSling g then
           onScroll (\<lambda>s. s\<lparr>slingEffectTime := 0, lastSlingEffectTime := 0\<rparr>)
             (onTouch (\<lambda>g. g\<lparr>inertiaDeltaY := scast (slingDepth (scroll g)), doTimerJob := False\<rparr>) d)
         else if hasEdgeAuto F \<or> has2FAuto F then
           (let d = onTouch (\<lambda>g. g\<lparr>doSling := False\<rparr>) d
            in if (hasEdgeInertia F \<or> has2FInertia F) \<and> \<not> altFunction g
               then onTouch (\<lambda>g. g\<lparr>doAuto := False, doTimerJob := True\<rparr>) d
               else if inertiaDeltaY g \<noteq> 0 then onTouch (\<lambda>g. g\<lparr>doAuto := True\<rparr>) d
               else d)
         else onTouch (\<lambda>g. g\<lparr>doTimerJob := True, doSling := False\<rparr>) d)"

definition startInertia :: "int \<Rightarrow> 'x gesture_driver \<Rightarrow> 'x gesture_driver" where
  "startInertia sFactor d =
     (let g = gestures d; s = scroll g; F = scrollF g; level = maxLevelReached s;
          d = onTouch (\<lambda>g. g\<lparr>inertiaDeltaX := 0, inertiaDeltaY := inertiaDelta sFactor level (scrollDy s)\<rparr>) d;
          d = chooseInertia d;
          d = (if noHSInertia F
               then onScroll (\<lambda>s. s\<lparr>curInertiaDeltaX := 0\<rparr>) (onTouch (\<lambda>g. g\<lparr>inertiaDeltaX := 0\<rparr>) d)
               else onTouch (\<lambda>g. g\<lparr>inertiaDeltaX := inertiaDelta sFactor level (scrollDx s)\<rparr>) d);
          x = inertiaDeltaX (gestures d); y = inertiaDeltaY (gestures d);
          k = (if accelModeEdge F > 2 \<or> accelMode2F F > 2 then 2 else 1)
      in if x \<noteq> 0 \<or> y \<noteq> 0 then
           setTimeout ScrollTimer 1 (cancelTimeout ScrollTimer
             (onScroll (\<lambda>s. s\<lparr>inertiaLevel := 0, curInertiaDeltaY := y * k, curInertiaDeltaX := x * k\<rparr>)
               (onTouch (\<lambda>g. g\<lparr>inertiaDeltaX := x * k, inertiaDeltaY := y * k\<rparr>) d)))
         else d)"

definition endScroll :: "'x gesture_driver \<Rightarrow> 'x gesture_driver" where
  "endScroll d =
     (let g = gestures d; m = touchmode g; F = scrollF g; f = toInt (scrollFactor g); s = scroll g;
          two = (m = MODE_HSCROLL \<or> m = MODE_VSCROLL); edge = (m = MODE_EDGE_HSCROLL \<or> m = MODE_EDGE_VSCROLL);
          sFactor = (if edge then uint (edgeSpeedFactor F) div 100 * f else f);
          skipProcessing = (two \<and> \<not> has2FAuto F \<and> \<not> has2FInertia F \<or> edge \<and> \<not> hasEdgeAuto F \<and> \<not> hasEdgeInertia F);
          d = cancelTimeout ScrollTimer d
      in if (\<not> noInertia s \<or> doSling g) \<and> \<not> skipProcessing \<and> stillSamples g < stopSamples F \<and>
            (scrollDy s \<noteq> 0 \<or> scrollDx s \<noteq> 0)
         then startInertia sFactor d else d)"

section \<open>The end of the touch\<close>

definition endGesture :: "(nat \<Rightarrow> u64) \<Rightarrow> 'x gesture_driver \<Rightarrow> 'x gesture_driver" where
  "endGesture clock d =
     (case touchmode (gestures d) of
        MODE_1_FING_TAP \<Rightarrow> oneFingerTap clock d
      | MODE_CORNER_TAP \<Rightarrow> endCornerTap clock d
      | MODE_ZOOM \<Rightarrow>
          (let z = zoomRotate (gestures d)
           in if isZoomOut z then notify kPS2C_ZoomPlus d else if isZoomIn z then notify kPS2C_ZoomMinus d else d)
      | MODE_2_FING_TAP \<Rightarrow> fewFingersTap clock 2 d
      | MODE_3_FING_TAP \<Rightarrow> fewFingersTap clock 3 d
      | MODE_4_FING_TAP \<Rightarrow> manyFingersTap clock 4 d
      | MODE_5_FING_TAP \<Rightarrow> manyFingersTap clock 5 d
      | MODE_MUL_TOUCH_3 \<Rightarrow> endSwipe d
      | MODE_MUL_TOUCH_4 \<Rightarrow> endSwipe d
      | MODE_CONT_SCROLL \<Rightarrow> endScroll d
      | MODE_VSCROLL \<Rightarrow> endScroll d
      | MODE_HSCROLL \<Rightarrow> endScroll d
      | MODE_EDGE_HSCROLL \<Rightarrow> endScroll d
      | MODE_EDGE_VSCROLL \<Rightarrow> endScroll d
      | _ \<Rightarrow> d)"

text \<open>Timers that release a drag or the application switcher.\<close>

definition releaseLater :: "nat \<Rightarrow> 'x gesture_driver \<Rightarrow> 'x gesture_driver" where
  "releaseLater ms d = onTouch (\<lambda>g. g\<lparr>doTimerJob := True\<rparr>) (setTimeout ButtonDragTimer ms d)"

definition startReleaseTimers :: "'x gesture_driver \<Rightarrow> 'x gesture_driver" where
  "startReleaseTimers d =
     (let d = (if checkTapDrag (drag (gestures d)) then releaseLater 150 (cancelTimeout ButtonDragTimer d) else d);
          g = gestures d;
          d = (if (isTapDrag g \<or> isHoldDrag g) \<and> \<not> isDragLockEnabled g \<and> isDragging g
               then onDrag (\<lambda>r. r\<lparr>releaseStartTime := mnow g\<rparr>)
                      (releaseLater (unat (releaseTime (drag g))) (cancelTimeout ButtonDragTimer d))
               else d)
      in if isAppSwitchDone (gestures d) then releaseLater 1500 d else d)"

definition endFinger :: "bool \<Rightarrow> finger \<Rightarrow> finger" where
  "endFinger start f =
     noFinger\<lparr>startX := (if start then 0 else startX f), startY := (if start then 0 else startY f)\<rparr>"

definition resetScroll :: "scroll_state \<Rightarrow> scroll_state" where
  "resetScroll s =
     s\<lparr>noInertia := True, dxPacketsCount := 0, dyPacketsCount := 0, scrollDx := 0, scrollDy := 0, xPacketsDir := 0,
       yPacketsDir := 0, slingDepth := 0, maxLevelReached := 0, maxInertiaLevel := 0, inertiaLevel := 0,
       scrollSample := 0, skippedDx := replicate 10 0 @ drop 10 (skippedDx s),
       skippedDy := replicate 10 0 @ drop 10 (skippedDy s)\<rparr>"

definition resetSmooth :: "smoothing \<Rightarrow> smoothing" where
  "resetSmooth s =
     s\<lparr>pLastDx := 0, pLastDy := 0, pDx := 0, pDy := 0, pSmoothX := 0, pSmoothY := 0, skipSample := 0, cSample := 0\<rparr>"

definition resetTouch :: "bool \<Rightarrow> 'x gesture_scheme \<Rightarrow> 'x gesture_scheme" where
  "resetTouch clickPad g =
     (let start = (lastFingers g \<noteq> 2 \<or> \<not> clickPad);
          g = g\<lparr>lastSwipeTime := 0, touch_ended := False, secondary_wait := False, palmDetected := False,
                isFingOnBtnArea := False, isEdgeGesture := False, swipeDirection := 0, isRotateGesture := False,
                isRotateMode := False, m_scroll := 0, doCont := False, holdTime := 0,
                fing := map (endFinger start) (fing g), pContinuousMove := False, lastSample := replicate 11 noSample,
                lastFingers := 0, pid := -1, sid := -1, touchmode := MODE_IDLE, gestureTime := 0, lastDataTime := 0\<rparr>
      in g\<lparr>button := (button g)\<lparr>fingerInUse := 0\<rparr>,
           zoomRotate := (zoomRotate g)\<lparr>isZoomIn := False, isZoomOut := False, rotateXCounter := 0,
             rotateYCounter := 0, xAxisPos := 0, yAxisPos := 0\<rparr>,
           scroll := resetScroll (scroll g), smooth := resetSmooth (smooth g),
           press := (press g)\<lparr>lastHoldTime := 0, pressGestureTime := 0\<rparr>\<rparr>)"

definition Process_touch_end ::
  "(nat \<Rightarrow> u64) \<Rightarrow> (rat \<Rightarrow> rat) \<Rightarrow> 'x gesture_driver \<Rightarrow> 'x gesture_driver" where
  "Process_touch_end clock fl d =
     (let d = onTouch (readClock clock) d;
          d = startReleaseTimers (endGesture clock d);
          d = onPad (\<lambda>t. t\<lparr>packetsCount := 0\<rparr>) (onTouch (resetTouch (isClickPad (tp d))) d)
      in if autoBackLight (tp d)
         then keyboardNotification clock fl kPS2C_KeybrdBackLightOff (onTouch (readClock clock) d) else d)"

end
