(* ===== verification/Touchpad_Single.thy ===== *)
theory Touchpad_Single
  imports Touchpad_End
begin

text \<open>
  Process_singlefinger_touch: pointer motion with smoothing and acceleration, dragging, edge swipes, corner
  taps, edge and circular scrolling of one finger. The stages of the function are definitions of their own;
  a stage that may return tells so by a flag. An access to \<open>fid\<close> outside the array of fingers is recorded once.
\<close>

section \<open>Local variables and early returns\<close>

text \<open>The position x, y and the motion xDelta, yDelta.\<close>

record touch_vars =
  vx :: int
  vy :: int
  vdx :: int
  vdy :: int

definition proceed :: "bool \<times> 'd \<Rightarrow> ('d \<Rightarrow> 'd) \<Rightarrow> 'd" where
  "proceed r f = (if fst r then snd r else f (snd r))"

text \<open>us_dx and us_dy: the size of the motion in 16 bits.\<close>

definition usX :: "touch_vars \<Rightarrow> int" where
  "usX v = uint (of_int \<bar>vdx v\<bar> :: u16)"

definition usY :: "touch_vars \<Rightarrow> int" where
  "usY v = uint (of_int \<bar>vdy v\<bar> :: u16)"

definition still :: "touch_vars \<Rightarrow> bool" where
  "still v \<longleftrightarrow> vdx v = 0 \<and> vdy v = 0"

definition fingerPressure :: "int \<Rightarrow> 'e touch_driver \<Rightarrow> u8" where
  "fingerPressure fid d = fpressure (finger fid d)"

definition countPacket :: "'e touch_driver \<Rightarrow> 'e touch_driver" where
  "countPacket = onPad (\<lambda>t. if packetsCount t < 255 then t\<lparr>packetsCount := packetsCount t + 1\<rparr> else t)"

section \<open>The start of an edge swipe\<close>

definition atEdge :: "int \<Rightarrow> int \<Rightarrow> 'e touch_driver \<Rightarrow> bool" where
  "atEdge x y d \<longleftrightarrow>
     (let t = tp d; e = edges (gestures d); v = uint (edgeVArea e); h = uint (edgeHArea e)
      in y > uint (ymax t) - v \<or> y < uint (ymin t) + v \<or> x < uint (xmin t) + h \<or> x > uint (xmax t) - h)"

text \<open>From the low end (top or left) and from the high end of an axis: swipes in, and swipes out where enabled.\<close>

definition fromLow :: "bool \<Rightarrow> int \<Rightarrow> int \<Rightarrow> u16 \<Rightarrow> u16 \<Rightarrow> u16 \<Rightarrow> bool" where
  "fromLow twoWay pos start low area reach \<longleftrightarrow>
     start < uint low + uint area \<or> start > uint low + uint reach \<and> pos < uint low + uint area \<and> twoWay"

definition fromHigh :: "bool \<Rightarrow> int \<Rightarrow> int \<Rightarrow> u16 \<Rightarrow> u16 \<Rightarrow> u16 \<Rightarrow> bool" where
  "fromHigh twoWay pos start high area reach \<longleftrightarrow>
     start > uint high - uint area \<or> start < uint high - uint reach \<and> pos > uint high - uint area \<and> twoWay"

definition startEdgeSwipe :: "int \<Rightarrow> int \<Rightarrow> int \<Rightarrow> 'e touch_driver \<Rightarrow> 'e touch_driver" where
  "startEdgeSwipe x y fid d =
     (let g = gestures d; e = edges g; t = tp d; two = has2WayEdgeSwipes e;
          sx = uint (startX (finger fid d)); sy = uint (startY (finger fid d));
          swipe = (\<lambda>n. onTouch (\<lambda>g. g\<lparr>swipeDirection := n, isEdgeGesture := True\<rparr>) d)
      in if \<not> triggered g \<and> hasEdgeSwipes e \<and> (packetsCount (tp d) = 0 \<or> two \<and> atEdge x y d) then
           (if sx > uint (xmin t) + uint (nonEdgeHArea e) \<and> sx < uint (xmax t) - uint (nonEdgeHArea e) then
              (if topEdge e > 0 \<and> fromLow two y sy (ymin t) (edgeVArea e) (edgeVDistance e) then swipe 4
               else if bottomEdge e > 0 \<and> fromHigh two y sy (ymax t) (edgeVArea e) (edgeVDistance e) then swipe 3
               else d)
            else if sy > uint (ymin t) + uint (nonEdgeVArea e) \<and> sy < uint (ymax t) - uint (nonEdgeVArea e) then
              (if leftEdge e > 0 \<and> fromLow two x sx (xmin t) (edgeHArea e) (edgeHDistance e) then swipe 1
               else if rightEdge e > 0 \<and> fromHigh two x sx (xmax t) (edgeHArea e) (edgeHDistance e) then swipe 2
               else d)
            else d)
         else d)"

section \<open>Motion and samples\<close>

text \<open>
  The motion by the number of fingers. Of two fingers, one rests on the button area or holds the button,
  and x and y are already the motion of the other.
\<close>

definition touchMotion :: "int \<Rightarrow> int \<Rightarrow> int \<Rightarrow> 'e touch_driver \<Rightarrow> touch_vars" where
  "touchMotion x y fid d =
     (let g = gestures d; c = cFingers (tp d); lx = uint (lastX (finger fid d)); ly = uint (lastY (finger fid d));
          none = \<lparr>vx = x, vy = y, vdx = 0, vdy = 0\<rparr>; moved' = \<lparr>vx = x, vy = y, vdx = x - lx, vdy = y - ly\<rparr>
      in if c = 2 then
           (if isFingOnBtnArea g \<or> buttonState g = 1 then \<lparr>vx = lx + x, vy = ly + y, vdx = x, vdy = y\<rparr> else none)
         else if c = 3 then (if is3FDrag g then moved' else none)
         else if c = 1 \<or> c = 0 then moved'
         else none)"

definition countMotion :: "touch_vars \<Rightarrow> 'e touch_driver \<Rightarrow> 'e touch_driver" where
  "countMotion v d = (if packetsCount (tp d) > 5 \<and> still v then d else countPacket d)"

text \<open>A change of direction on an axis clears the samples.\<close>

definition turned :: "delta_sample \<Rightarrow> touch_vars \<Rightarrow> bool" where
  "turned s v \<longleftrightarrow> sint (lastDX1 s) > 0 \<and> vdx v < 0 \<or> sint (lastDX1 s) < 0 \<and> vdx v > 0 \<or>
     sint (lastDY1 s) > 0 \<and> vdy v < 0 \<or> sint (lastDY1 s) < 0 \<and> vdy v > 0"

definition readsSample :: "int \<Rightarrow> 'e touch_driver \<Rightarrow> 'e touch_driver" where
  "readsSample i = onTouch (\<lambda>g. g\<lparr>oob := oob g \<or> \<not> (0 \<le> i \<and> i < 11)\<rparr>)"

definition sumSamples :: "(delta_sample \<Rightarrow> u16) \<Rightarrow> nat \<Rightarrow> 'e touch_driver \<Rightarrow> u32" where
  "sumSamples sel n d = sum_list (map (\<lambda>s. scast (sel s)) (take n (lastSample (gestures d))))"

definition sampleMotion :: "touch_vars \<Rightarrow> int \<Rightarrow> 'x gesture_driver \<Rightarrow> 'x gesture_driver" where
  "sampleMotion v fid d =
     (let n = pSmoothSamples (pointerPrefs (gestures d)); c = cSample (smooth (gestures d));
          l = sint (if c = 0 then n - 1 else c - 1); d = readsSample l d;
          d = (if turned (lastSample (gestures d) ! nat l) v then
                 fold (\<lambda>s. setSample s (\<lambda>s. s\<lparr>lastDX1 := 0, lastDY1 := 0\<rparr>)) [0..<unat n]
                   (onSmooth (\<lambda>s. s\<lparr>cSample := 0\<rparr>) d)
               else d);
          d = setFinger fid (addDelta (vdx v) (vdy v)) d;
          d = setSample (unat (cSample (smooth (gestures d))))
                (\<lambda>s. s\<lparr>lastDX1 := of_int (vdx v), lastDY1 := of_int (vdy v)\<rparr>) d;
          d = (if still v then d else onSmooth (\<lambda>s. s\<lparr>cSample := cSample s + 1\<rparr>) d);
          d = onSmooth (\<lambda>s. if cSample s = n then s\<lparr>cSample := 0\<rparr> else s) d;
          d = readsSample (uint n - 1) d
      in setFinger fid (\<lambda>f. f\<lparr>sdx := sumSamples lastDX1 (unat n) d, sdy := sumSamples lastDY1 (unat n) d\<rparr>) d)"

definition takeSample :: "touch_vars \<Rightarrow> int \<Rightarrow> 'x gesture_driver \<Rightarrow> 'x gesture_driver" where
  "takeSample v fid d =
     (let P = pointerPrefs (gestures d)
      in if packetsCount (tp d) \<noteq> 0 \<and> pSmoothSamples P > 0 \<and> fingerPressure fid d \<ge> tSenseLvl P
         then sampleMotion v fid d else d)"

section \<open>Edge swipes and corner taps\<close>

definition edgeModes :: "touch_mode list" where
  "edgeModes = [MODE_TOP_EDGE_SWIPE, MODE_BOTTOM_EDGE_SWIPE, MODE_LEFT_EDGE_SWIPE, MODE_RIGHT_EDGE_SWIPE]"

definition onScrollArea :: "int \<Rightarrow> int \<Rightarrow> u16 \<Rightarrow> u16 \<Rightarrow> bool" where
  "onScrollArea pos start high area \<longleftrightarrow> pos > uint high - uint area \<and> start > uint high - uint area"

definition mayEdgeSwipe :: "touch_vars \<Rightarrow> int \<Rightarrow> 'x gesture_driver \<Rightarrow> bool" where
  "mayEdgeSwipe v fid d \<longleftrightarrow>
     (let g = gestures d; F = scrollF g; t = tp d; f = finger fid d
      in touchmode g \<in> set edgeModes \<or>
         isEdgeGesture g \<and> edgeFingers (edges g) < 2 \<and> \<not> triggered g \<and> touchmode g \<noteq> MODE_CIR_VSCROLL \<and>
         scrollTotalDx (smooth g) < 30 \<and> scrollTotalDy (smooth g) < 30 \<and>
         \<not> (onScrollArea (vx v) (uint (startX f)) (xmax t) (scrollEdgeVArea F) \<and> hasEdgeScroll F) \<and>
         \<not> (onScrollArea (vy v) (uint (startY f)) (ymax t) (scrollEdgeHArea F) \<and> hasEdgeScroll F))"

definition edgeSwipeStage :: "touch_vars \<Rightarrow> int \<Rightarrow> 'x gesture_driver \<Rightarrow> bool \<times> 'x gesture_driver" where
  "edgeSwipeStage v fid d =
     (if mayEdgeSwipe v fid d then
        (let e = edges (gestures d); f = finger fid d;
             sx = \<bar>uint (startX f) - vx v\<bar>; sy = \<bar>uint (startY f) - vy v\<bar>;
             d = (if (topEdge e > 0 \<or> bottomEdge e > 0) \<and> sx < sy div 2 \<and> sy > uint (edgeVDistance e) div 2 \<or>
                     (rightEdge e > 0 \<or> leftEdge e > 0) \<and> sy < sx div 2 \<and> sx > uint (edgeHDistance e) div 2
                  then Process_edgeSwipe (vx v) (vy v) fid d else d)
         in if \<not> beforeEdgeModes (touchmode (gestures d)) \<or> sy < uint (scrollEdgeHArea (scrollF (gestures d)))
            then (True, stopPointer d) else (False, d))
      else (False, d))"

definition cornerOf :: "touch_vars \<Rightarrow> int \<Rightarrow> 'x gesture_driver \<Rightarrow> u8 option" where
  "cornerOf v fid d =
     (let c = cornerTap (gestures d); t = tp d; f = finger fid d; h = uint (scrollEdgeHArea (scrollF (gestures d)));
          left = vx v < uint (xmin t) + uint (tapAreaLength c); right = vx v > uint (xmax t) - uint (tapAreaLength c);
          top' = vy v < uint (ymin t) + uint (tapAreaHeight c); bottom = vy v > uint (ymax t) - uint (tapAreaHeight c);
          small = usX v < 15 \<and> usY v < 15
      in if left \<and> top' then Some 1
         else if left \<and> bottom \<and> \<not> bottomCornersDisabled c then Some 2
         else if right \<and> bottom \<and> uint (startY f) > uint (ymax t) - h \<and> small \<and> \<not> bottomCornersDisabled c then Some 3
         else if right \<and> top' \<and> uint (startY f) < uint (ymin t) + h \<and> small then Some 4
         else None)"

definition noCorner :: "'x gesture_driver \<Rightarrow> 'x gesture_driver" where
  "noCorner d = setMode MODE_IDLE (onCorner (\<lambda>c. c\<lparr>corner := 0\<rparr>) d)"

definition cornerTapStage ::
  "(nat \<Rightarrow> u64) \<Rightarrow> touch_vars \<Rightarrow> int \<Rightarrow> 'x gesture_driver \<Rightarrow> bool \<times> 'x gesture_driver" where
  "cornerTapStage clock v fid d =
     (let g = gestures d; on = corner (cornerTap g) > 0
      in if cornerEnabled (cornerTap g) \<and> \<not> triggered g \<and> gestureTime g \<le> tapTimeout (tap g) \<and>
            lastFingers g = 0 \<and> packetsCount (tp d) > 2 then
           (case cornerOf v fid d of
              Some n \<Rightarrow>
                (True, movePointer clock 0 0 (buttonState g)
                         (setMode MODE_CORNER_TAP (onCorner (\<lambda>c. c\<lparr>corner := n\<rparr>) d)))
            | None \<Rightarrow> (False, if on then noCorner d else d))
         else (False, if (gestureTime g > tapTimeout (tap g) \<or> triggered g) \<and> on then noCorner d else d))"

section \<open>Modes of other gestures\<close>

definition modeStage :: "'x gesture_driver \<Rightarrow> bool \<times> 'x gesture_driver" where
  "modeStage d =
     (let g = gestures d; m = touchmode g;
          ending = m \<in> set [MODE_2_FING_TAP, MODE_3_FING_TAP, MODE_4_FING_TAP, MODE_5_FING_TAP, MODE_VSCROLL, MODE_HSCROLL];
          three = m \<in> set [MODE_MUL_TOUCH_3, MODE_MUL_TOUCH_4, MODE_5_FING_PINCH, MODE_TWO_FING_PRESS, MODE_THREE_FING_PRESS];
          other = m \<in> set ([MODE_FOUR_FING_PRESS, MODE_FIVE_FING_PRESS, MODE_ZOOM, MODE_ROTATE, MODE_CORNER_TAP] @ edgeModes)
      in if ending \<and> packetsCount (tp d) > 4 then (False, setMode MODE_IDLE d)
         else if (ending \<or> three) \<and> is3FDrag g then (False, d)
         else if ending \<or> three \<or> other then (True, StopScrollEnhanceTimer d)
         else (False, d))"

text \<open>A touch soon after a tap continues it as a drag.\<close>

definition quickTapStage :: "(nat \<Rightarrow> u64) \<Rightarrow> 'x gesture_driver \<Rightarrow> 'x gesture_driver" where
  "quickTapStage clock d =
     (let cur = clock (readings (gestures d)); d = onTouch (\<lambda>g. g\<lparr>readings := readings g + 1\<rparr>) d; g = gestures d;
          quick = isQuickTap (drag g); notQuick = onDrag (\<lambda>r. r\<lparr>isQuickTap := False\<rparr>)
      in if cFingers (tp d) = 1 \<and> lastFingers g = 0 \<and> \<not> triggered g \<and> quick then
           onDrag (\<lambda>r. r\<lparr>checkTapDrag := False\<rparr>)
             (if cur - tapLastTime (tap g) > tapTimeout (tap g) then notQuick (onTap (\<lambda>t. t\<lparr>tapLastTime := 0\<rparr>) d)
              else if isDragEnabled g \<and> checkTapDrag (drag g) then
                cancelTimeout ButtonDragTimer
                  (onTouch (\<lambda>g. g\<lparr>buttonState := buttonState g OR 1, isTapDrag := True, isDragging := True,
                     doTimerJob := False\<rparr>) (onPad (\<lambda>t. t\<lparr>buttonData := 1\<rparr>) d))
              else
                onTouch (\<lambda>g. g\<lparr>buttonState := buttonState g AND 6\<rparr>) (onPad (\<lambda>t. t\<lparr>buttonData := 0\<rparr>) d))
         else if cFingers (tp d) > 1 \<and> quick then notQuick d
         else d)"

section \<open>Edge scrolling\<close>

definition edgeScrollMode :: "touch_vars \<Rightarrow> int \<Rightarrow> 'x gesture_driver \<Rightarrow> touch_mode" where
  "edgeScrollMode v fid d =
     (let g = gestures d; F = scrollF g; t = tp d; f = finger fid d; m = touchmode g;
          vArea = uint (scrollEdgeVArea F); hArea = uint (scrollEdgeHArea F);
          circular = (\<lambda>c. if hasEdgeCScroll F then c else MODE_MOVE)
      in if m = MODE_EDGE_VSCROLL then
           (if vx v > uint (xmax t) - (vArea + uint (edgeVAdaptArea F)) then m
            else if \<not> scrollTotalDy (smooth g) > 250 then MODE_MOVE else circular MODE_CIR_VSCROLL)
         else if m = MODE_CIR_VSCROLL then circular MODE_CIR_VSCROLL
         else if m = MODE_EDGE_HSCROLL then
           (if vy v > uint (ymax t) - (hArea + uint (edgeHAdaptArea F)) then m
            else if \<not> scrollTotalDx (smooth g) > 250 then MODE_MOVE else circular MODE_CIR_HSCROLL)
         else if m = MODE_CIR_HSCROLL then circular MODE_CIR_HSCROLL
         else if onScrollArea (vx v) (uint (startX f)) (xmax t) (scrollEdgeVArea F) then MODE_EDGE_VSCROLL
         else if onScrollArea (vy v) (uint (startY f)) (ymax t) (scrollEdgeHArea F) then MODE_EDGE_HSCROLL
         else MODE_MOVE)"

definition edgeScrollStage :: "touch_vars \<Rightarrow> int \<Rightarrow> 'x gesture_driver \<Rightarrow> bool \<times> 'x gesture_driver" where
  "edgeScrollStage v fid d =
     (let g = gestures d
      in if packetsCount (tp d) > 1 \<and> hasEdgeScroll (scrollF g) \<and> \<not> triggered g \<and> touchmode g \<noteq> MODE_MOVE then
           (let d = stopPointer (setMode (edgeScrollMode v fid d) d); m = touchmode (gestures d); x = usX v; y = usY v
            in if m = MODE_EDGE_VSCROLL \<and> (packetsCount (tp d) < 50 \<or> still v) \<and>
                  (x \<ge> y \<and> x > 0 \<or> y > x \<and> y - x < 50 \<and> x > 10 \<and> y > 20)
               then (True, if doCont (gestures d) then StopScrollEnhanceTimer d else d)
               else (False, if m = MODE_MOVE then StopScrollEnhanceTimer d else d))
         else (False, d))"

section \<open>Dragging and taps\<close>

definition holdsPress :: "'x gesture_scheme \<Rightarrow> bool" where
  "holdsPress g \<longleftrightarrow>
     hasFPresDrag (drag g) \<and> \<not> isRotateGesture g \<and>
     (pressGestureTime (press g) > fPressDragStartTimeOut (drag g) \<and> fPressDragFingersNum (drag g) AND 1 \<noteq> 0 \<or>
      isHoldDrag g)"

definition dragStage :: "'x gesture_driver \<Rightarrow> 'x gesture_driver" where
  "dragStage d =
     (let g = gestures d; state = (\<lambda>b. onTouch (\<lambda>g. g\<lparr>buttonState := buttonState g OR b\<rparr>))
      in if isDragEnabled g \<and> (isTapDrag g \<or> holdsPress g) then
           (let d = state 1 d
            in if \<not> isTapDrag g \<and> \<not> isHoldDrag g then onTouch (\<lambda>g. g\<lparr>isHoldDrag := True, isDragging := True\<rparr>) d else d)
         else if triggered g then state (buttonData (tp d)) d
         else
           (let d = onPad (\<lambda>t. t\<lparr>buttonData := 0\<rparr>) d in if isDragging g then state 1 d else d))"

definition maybeTap :: "touch_vars \<Rightarrow> int \<Rightarrow> 'x gesture_driver \<Rightarrow> bool" where
  "maybeTap v fid d \<longleftrightarrow>
     (let g = gestures d; t = tap g; n = packetsCount (tp d); p = fingerPressure fid d; noise = uint (noiseDelta t)
      in gestureTime g < clickTimeout g \<and> (\<not> is3FDrag g \<or> cFingers (tp d) = 1 \<and> lastFingers g = 0) \<and> \<not> triggered g \<and>
         (p \<ge> tapPressure t \<or> maxPressDtd (smooth g) \<ge> tapPressure t \<or> still v) \<and>
         (n < 11 \<and> usX v < noise div 2 \<and> usY v < noise div 2 \<or> n < 11 \<and> p < maxTEndPressure t \<or>
          n < 6 \<and> usX v < noise \<and> usY v < noise))"

text \<open>
  A Synaptics finger that leaves with a motion: the touch is ended at once and the function returns. The result
  tells whether it does, and whether there is a tap.
\<close>

definition tapStage ::
  "(nat \<Rightarrow> u64) \<Rightarrow> (rat \<Rightarrow> rat) \<Rightarrow> touch_vars \<Rightarrow> int \<Rightarrow> 'x gesture_driver \<Rightarrow> bool \<times> bool \<times> 'x gesture_driver" where
  "tapStage clock fl v fid d =
     (let g = gestures d; p = fingerPressure fid d; ended = (\<lambda>b. onTouch (\<lambda>g. g\<lparr>touch_ended := b\<rparr>))
      in if \<not> maybeTap v fid d then (False, False, d)
         else if touchpadVendor (tp d) \<noteq> STD_SYNAPTICS \<or> still v then (False, True, d)
         else if touch_ended g \<and> p \<ge> tapPressure (tap g) then (False, True, ended False d)
         else if \<not> touch_ended g \<and> \<not> isQuickTap (drag g) \<and> p < fwidth (finger fid d)
         then (True, True, ended True (Process_touch_end clock fl (setMode MODE_1_FING_TAP d)))
         else (False, True, d))"

section \<open>Pointer motion\<close>

text \<open>
  On one axis: the mean of the samples, or the last speed where the motion is noise, and the extended acceleration
  of a motion beyond a threshold. \<open>m\<close> is the motion, \<open>other\<close> that on the other axis.
\<close>

definition smoothAxis :: "pointer_prefs \<Rightarrow> u32 \<Rightarrow> u32 \<Rightarrow> int \<Rightarrow> int \<Rightarrow> int" where
  "smoothAxis P samples prev m other =
     (let slow = uint (pSlowMoveNoiseDelta P); n = uint (pSmoothSamples P)
      in if \<bar>m\<bar> > 0 \<and> \<not> (\<bar>m\<bar> < slow \<and> \<bar>other\<bar> > slow * 2) then (if n > 0 then sint samples sdiv n + sgn m else m)
         else if m \<noteq> 0 then sint prev else 0)"

definition accelAxis :: "pointer_prefs \<Rightarrow> int \<Rightarrow> int \<Rightarrow> int \<Rightarrow> int \<Rightarrow> int \<times> int" where
  "accelAxis P m smoothed psmooth change =
     (if smoothed \<noteq> 0 \<and> \<bar>m\<bar> > uint (pExtAccelMinDelta P) * 2 then
        (let x = (smoothed + psmooth + sgn m * 2) sdiv 2; e = s16 (x sdiv 10 + sgn m);
             c = (change + sgn m) sdiv ((uint (pExtAccelLevel P) + 1) * 10) + 1
         in (x, x + e * c))
      else (smoothed, smoothed))"

definition pointerSpeed :: "touch_vars \<Rightarrow> int \<Rightarrow> 'x gesture_driver \<Rightarrow> 'x gesture_driver" where
  "pointerSpeed v fid d =
     (let P = pointerPrefs (gestures d); s = smooth (gestures d); f = finger fid d;
          change = (\<lambda>prev m. if prev = 0 then 0 else sint prev - m);
          cx = change (pLastDx s) (vdx v); cy = change (pLastDy s) (vdy v);
          x = smoothAxis P (sdx f) (pDx s) (vdx v) (vdy v); y = smoothAxis P (sdy f) (pDy s) (vdy v) (vdx v);
          fresh = pSmoothX s = 0 \<and> pSmoothY s = 0;
          psx = (if fresh then x else sint (pSmoothX s)); psy = (if fresh then y else sint (pSmoothY s));
          (x', px) = accelAxis P (vdx v) x psx cx; (y', py) = accelAxis P (vdy v) y psy cy;
          d = onSmooth (\<lambda>s. s\<lparr>pLastDx := of_int (vdx v), pLastDy := of_int (vdy v)\<rparr>) d
      in if pExtAccelLevel P > 0 then
           onSmooth (\<lambda>s. s\<lparr>pDx := of_int px, pDy := of_int py, pSmoothX := of_int x', pSmoothY := of_int y'\<rparr>) d
         else onSmooth (\<lambda>s. s\<lparr>pDx := of_int x, pDy := of_int y\<rparr>) d)"

definition inDeadArea :: "touch_vars \<Rightarrow> 'x gesture_driver \<Rightarrow> bool" where
  "inDeadArea v d \<longleftrightarrow>
     (let P = pointerPrefs (gestures d); t = tp d
      in tpLeftEdgeDArea P \<noteq> 0 \<and> vx v < uint (xmin t) + uint (tpLeftEdgeDArea P) \<or>
         tpRightEdgeDArea P \<noteq> 0 \<and> vx v > uint (xmax t) - uint (tpRightEdgeDArea P) \<or>
         tpTopEdgeDArea P \<noteq> 0 \<and> vy v < uint (ymin t) + uint (tpTopEdgeDArea P) \<or>
         tpBottomEdgeDArea P \<noteq> 0 \<and> vy v > uint (ymax t) - uint (tpBottomEdgeDArea P))"

text \<open>Motion held back while a tap is possible, and its replay.\<close>

definition holdMotion :: "(nat \<Rightarrow> u64) \<Rightarrow> touch_vars \<Rightarrow> 'x gesture_driver \<Rightarrow> 'x gesture_driver" where
  "holdMotion clock v d =
     (let d = movePointer clock 0 0 (buttonState (gestures d)) d; n = pSmoothSamples (pointerPrefs (gestures d));
          d = onSmooth (\<lambda>s. s\<lparr>pDx := 0, pDy := 0, cSample := if cSample s > 0 then cSample s - 1 else n - 1\<rparr>) d
      in if still v then d
         else onSmooth (\<lambda>s. if skipSample s < 10 then s\<lparr>skipSample := skipSample s + 1\<rparr> else s)
                (setSample (unat (skipSample (smooth (gestures d))))
                  (\<lambda>s. s\<lparr>skippedX := of_int (vdx v), skippedY := of_int (vdy v)\<rparr>) d))"

definition replayOne :: "(nat \<Rightarrow> u64) \<Rightarrow> nat \<Rightarrow> 'x gesture_driver \<Rightarrow> 'x gesture_driver" where
  "replayOne clock i d =
     (let s = lastSample (gestures d) ! i
      in setSample i (\<lambda>s. s\<lparr>skippedX := 0, skippedY := 0\<rparr>)
           (movePointer clock (sint (skippedX s)) (sint (skippedY s)) (buttonState (gestures d)) d))"

definition replayMotion :: "(nat \<Rightarrow> u64) \<Rightarrow> 'x gesture_driver \<Rightarrow> 'x gesture_driver" where
  "replayMotion clock d =
     (let n = unat (skipSample (smooth (gestures d)))
      in if n > 0 then
           onSmooth (\<lambda>s. s\<lparr>skipSample := 0\<rparr>)
             (setSample 0 (\<lambda>s. s\<lparr>skippedX := 0, skippedY := 0\<rparr>) (fold (replayOne clock) [1..<n] d))
         else d)"

definition dispatchMotion :: "(nat \<Rightarrow> u64) \<Rightarrow> 'x gesture_driver \<Rightarrow> 'x gesture_driver" where
  "dispatchMotion clock d =
     (let d = replayMotion clock d; s = smooth (gestures d);
          d = movePointer clock (sint (pDx s)) (sint (pDy s)) (buttonState (gestures d)) d; g = gestures d
      in if pAccelCustom (pointerPrefs g) > 0 \<and> \<not> pContinuousMove g
         then setTimeout PointerTimer 0 (onTouch (\<lambda>g. g\<lparr>pContinuousMove := True\<rparr>) d) else d)"

text \<open>The motion is suppressed, held back or sent; the flag is isTapGesture.\<close>

definition motionStage ::
  "(nat \<Rightarrow> u64) \<Rightarrow> touch_vars \<Rightarrow> int \<Rightarrow> bool \<Rightarrow> 'x gesture_driver \<Rightarrow> bool \<times> 'x gesture_driver" where
  "motionStage clock v fid isTap d =
     (let d = (if still v then stopPointer d else pointerSpeed v fid d); g = gestures d; s = smooth g
      in if inDeadArea v d then (False, stopPointer (movePointer clock 0 0 (buttonState g) d))
         else if (\<not> triggered g \<or> packetsCount (tp d) \<le> 2) \<and> (isQuickTap (drag g) \<or> usX v > 350 \<or> usY v > 350 \<or> isTap)
         then (isTap, holdMotion clock v d)
         else if (pDx s \<noteq> 0 \<or> pDy s \<noteq> 0) \<and> \<not> still v \<and> fingerPressure fid d \<ge> tSenseLvl (pointerPrefs g)
         then (isTap, dispatchMotion clock d)
         else (isTap, d))"

definition near :: "int \<Rightarrow> u16 \<Rightarrow> int \<Rightarrow> bool" where
  "near pos start n \<longleftrightarrow> pos < uint start + n \<and> pos > uint start - n"

definition pressStage :: "touch_vars \<Rightarrow> int \<Rightarrow> 'x gesture_driver \<Rightarrow> 'x gesture_driver" where
  "pressStage v fid d =
     (let g = gestures d; f = finger fid d
      in if fpressure f > fPressDragPressure (drag g) \<and> \<not> isDragging g \<and> \<not> triggered g \<and>
            gestureTime g < fPressDragStartTimeOut (drag g) + 3000000000 \<and> \<bar>vdx v\<bar> < 10 \<and> \<bar>vdy v\<bar> < 10 \<and>
            near (vx v) (startX f) 15 \<and> near (vy v) (startY f) 25
         then onPress (\<lambda>p. p\<lparr>pressGestureTime := gestureTime g\<rparr>) d
         else if \<not> isHoldDrag g then onPress (\<lambda>p. p\<lparr>pressGestureTime := 0\<rparr>) d
         else d)"

text \<open>The mode after the motion, and the greatest pressure.\<close>

definition afterMotion :: "touch_vars \<Rightarrow> int \<Rightarrow> bool \<Rightarrow> 'x gesture_driver \<Rightarrow> 'x gesture_driver" where
  "afterMotion v fid isTap d =
     (let d = (if packetsCount (tp d) > 1 then setMode MODE_MOVE d else d); d = pressStage v fid d; g = gestures d;
          d = (if lastFingers g < 2 \<and> packetsCount (tp d) > 1 \<and> isTap then setMode MODE_1_FING_TAP d
               else if touchmode g = MODE_1_FING_TAP \<and> (gestureTime g > clickTimeout g \<or> \<not> isTap) then setMode MODE_IDLE d
               else d);
          p = fingerPressure fid d; greatest = maxPressDtd (smooth g)
      in if touchpadVendor (tp d) \<noteq> STD_FOCAL_TECH \<and> (p \<ge> greatest \<or> greatest = 0)
         then onSmooth (\<lambda>s. s\<lparr>maxPressDtd := p\<rparr>) d else d)"

definition moveStage ::
  "(nat \<Rightarrow> u64) \<Rightarrow> (rat \<Rightarrow> rat) \<Rightarrow> touch_vars \<Rightarrow> int \<Rightarrow> 'x gesture_driver \<Rightarrow> 'x gesture_driver" where
  "moveStage clock fl v fid d =
     (let d = dragStage d; g = gestures d
      in if corner (cornerTap g) > 0 \<and> releaseStartABS (cornerTap g) then
           (let d = absolutePointer (vx v) (vy v) (buttonState g) (onTouch (readClock clock) d)
            in afterMotion v fid False (stopPointer (onCorner (\<lambda>c. c\<lparr>corner := 0\<rparr>) d)))
         else
           (let (stop, isTap, d) = tapStage clock fl v fid d
            in if stop then d
               else (let (isTap, d) = motionStage clock v fid isTap d in afterMotion v fid isTap d)))"

section \<open>Scrolling with one finger\<close>

definition holdStage :: "(nat \<Rightarrow> u64) \<Rightarrow> bool \<Rightarrow> 'x gesture_driver \<Rightarrow> 'x gesture_driver" where
  "holdStage clock resting d =
     (let F = scrollF (gestures d); prev = lastHoldTime (press (gestures d));
          stamp = (\<lambda>d. onPress (\<lambda>p. p\<lparr>lastHoldTime := mnow (gestures d)\<rparr>) d)
      in if resting then
           (let d = onTouch (readClock clock) d; g = gestures d
            in if prev = 0 then stamp d
               else if holdTime g < slingStartTimeout F \<or> holdTime g < idleFingDetectTimeout F
               then stamp (onTouch (\<lambda>g. g\<lparr>holdTime := holdTime g + (mnow g - prev)\<rparr>) d)
               else d)
         else onTouch (\<lambda>g. g\<lparr>holdTime := 0\<rparr>) (stamp d))"

text \<open>A finger held still near the end of the scroll area starts an acceleration towards that end.\<close>

definition slingStage :: "bool \<Rightarrow> int \<Rightarrow> 'x gesture_driver \<Rightarrow> 'x gesture_driver" where
  "slingStage hasSling y d =
     (let g = gestures d; F = scrollF g; t = tp d; area = uint (slingTriggerArea F); level = maxLevelReached (scroll g);
          low = y > uint (ymax t) - area; high = y < uint (ymin t) + area
      in if \<not> hasSling \<or> level = 0 then d
         else if \<not> (low \<or> high) then onScroll (\<lambda>s. s\<lparr>slingDepth := 0\<rparr>) (onTouch (\<lambda>g. g\<lparr>doSling := False\<rparr>) d)
         else if \<not> doSling g \<and> holdTime g > slingStartTimeout F then
           (let d = onTouch (\<lambda>g. g\<lparr>doSling := True\<rparr>) d
            in if slingDepth (scroll g) = 0
               then onScroll (\<lambda>s. s\<lparr>slingDepth := if low then level else - level\<rparr>) d else d)
         else d)"

definition edgeScrolling ::
  "(nat \<Rightarrow> u64) \<Rightarrow> (rat \<Rightarrow> rat) \<Rightarrow> touch_vars \<Rightarrow> int \<Rightarrow> 'x gesture_driver \<Rightarrow> 'x gesture_driver" where
  "edgeScrolling clock fl v fid d =
     (let d = stopPointer d;
          (dx, dy) = (if packetsCount (tp d) = 1 then (0, 0) else (vdx v, vdy v));
          vertical = (touchmode (gestures d) = MODE_EDGE_VSCROLL); F = scrollF (gestures d);
          resting = usX v < uint (idleFingMaxDelta F) \<and> usY v < uint (idleFingMaxDelta F);
          d = onScroll (\<lambda>s. s\<lparr>edgeCirDxy := if vertical then scrollDy s else scrollDx s\<rparr>) d;
          d = slingStage (hasEdgeSling F) (vy v) (holdStage clock resting d); p = fingerPressure fid d;
          i = unat (scrollSample (scroll (gestures d))); d = setSample i (\<lambda>s. s\<lparr>samplePressure := p\<rparr>) d; g = gestures d
      in if p < tSenseLvl (pointerPrefs g) \<or> p < maxTEndPressure (tap g) then recordScroll dx dy d
         else Process_scroll clock fl (accelModeEdge (scrollF g)) dx dy False d)"

definition circularScrolling ::
  "(nat \<Rightarrow> u64) \<Rightarrow> (rat \<Rightarrow> rat) \<Rightarrow> touch_vars \<Rightarrow> 'x gesture_driver \<Rightarrow> 'x gesture_driver" where
  "circularScrolling clock fl v d =
     (let g = gestures d; F = scrollF g; limit = uint (idleFingMaxDelta F); prev = lastHoldTime (press g);
          stamp = (\<lambda>d. onPress (\<lambda>p. p\<lparr>lastHoldTime := mnow (gestures d)\<rparr>) d);
          d = (if holdTime g < idleFingDetectTimeout F \<and> usY v < limit \<and> usX v < limit \<and> edgeCirDxy (scroll g) \<noteq> 0 then
                 (let d = onTouch (readClock clock) d
                  in stamp (if prev = 0 then d else onTouch (\<lambda>g. g\<lparr>holdTime := holdTime g + (mnow g - prev)\<rparr>) d))
               else
                 (let d = (if holdTime g > idleFingDetectTimeout F
                           then onScroll (\<lambda>s. s\<lparr>edgeCirDxy := (if hasEdgeCont F then edgeCirDxy s else 0), noInertia := True\<rparr>) d
                           else d)
                  in onTouch (\<lambda>g. g\<lparr>holdTime := 0\<rparr>) (stamp d)))
      in if edgeCirDxy (scroll (gestures d)) \<noteq> 0 \<or> \<not> still v
         then Process_scroll clock fl (accelModeEdge F) (vdx v) (vdy v) False d
         else if doCont (gestures d) \<and> \<not> hasEdgeCont F then stopCont d
         else d)"

section \<open>The handler\<close>

definition touchModeStage ::
  "(nat \<Rightarrow> u64) \<Rightarrow> (rat \<Rightarrow> rat) \<Rightarrow> touch_vars \<Rightarrow> int \<Rightarrow> 'x gesture_driver \<Rightarrow> 'x gesture_driver" where
  "touchModeStage clock fl v fid d =
     (let m = touchmode (gestures d)
      in if m \<in> set [MODE_1_FING_TAP, MODE_BUTTONS, MODE_MOVE, MODE_IDLE] then moveStage clock fl v fid d
         else if m \<in> set [MODE_CONT_SCROLL, MODE_EDGE_VSCROLL, MODE_EDGE_HSCROLL] then edgeScrolling clock fl v fid d
         else if m \<in> set [MODE_CIR_VSCROLL, MODE_CIR_HSCROLL] then circularScrolling clock fl v d
         else d)"

definition restsOnButtons :: "'x gesture_driver \<Rightarrow> bool" where
  "restsOnButtons d \<longleftrightarrow>
     (let g = gestures d
      in isClickPad (tp d) \<and> isFingOnBtnArea g \<and>
         uint (startY (finger (pid g) d)) > uint (ymax (tp d)) - uint (clickPadVBtnArea g) \<and>
         \<not> enablePointingOnBtnArea (button g) \<and> cFingers (tp d) < 2)"

definition Process_singlefinger_touch ::
  "(nat \<Rightarrow> u64) \<Rightarrow> (rat \<Rightarrow> rat) \<Rightarrow> int \<Rightarrow> int \<Rightarrow> int \<Rightarrow> 'x gesture_driver \<Rightarrow> 'x gesture_driver" where
  "Process_singlefinger_touch clock fl x y fid d =
     (let d = (if isClickPad (tp d) \<and> isFingOnBtnArea (gestures d) then reads (pid (gestures d)) d else d)
      in if restsOnButtons d then
           (let d = stopPointer (countPacket d) in movePointer clock 0 0 (buttonState (gestures d)) d)
         else if fid > 4 then d
         else
           (let d = startEdgeSwipe x y fid (reads fid d); v = touchMotion x y fid d;
                d = takeSample v fid (countMotion v d)
            in proceed (edgeSwipeStage v fid d) (\<lambda>d.
               proceed (cornerTapStage clock v fid d) (\<lambda>d.
               proceed (modeStage d) (\<lambda>d.
               proceed (edgeScrollStage v fid (quickTapStage clock d)) (touchModeStage clock fl v fid))))))"

end
