(* ===== verification/Touchpad_Two.thy ===== *)
theory Touchpad_Two
  imports Touchpad_Single
begin

text \<open>
  Process_twofingers_touch: edge swipes, rotating, zooming, scrolling, presses and taps of two fingers, and
  Process_ClickPad_2F, which chooses between them and a finger that moves while the other one clicks.
  A division by the configured scale of a pinch of 0 is recorded as a call that does not return.
\<close>

section \<open>Local variables\<close>

text \<open>Positions of the two fingers, their motion, and their start relative to the position.\<close>

record two_vars =
  tx1 :: int
  ty1 :: int
  tx2 :: int
  ty2 :: int
  tdx1 :: int
  tdy1 :: int
  tdx2 :: int
  tdy2 :: int
  tsx1 :: int
  tsy1 :: int
  tsx2 :: int
  tsy2 :: int

definition twoVars :: "int \<Rightarrow> int \<Rightarrow> int \<Rightarrow> int \<Rightarrow> 'e touch_driver \<Rightarrow> two_vars" where
  "twoVars x1 x2 y1 y2 d =
     (let p = finger (pid (gestures d)) d; q = finger (sid (gestures d)) d
      in \<lparr>tx1 = x1, ty1 = y1, tx2 = x2, ty2 = y2,
          tdx1 = x1 - uint (lastX p), tdy1 = y1 - uint (lastY p), tdx2 = x2 - uint (lastX q), tdy2 = y2 - uint (lastY q),
          tsx1 = uint (startX p) - x1, tsy1 = uint (startY p) - y1,
          tsx2 = uint (startX q) - x2, tsy2 = uint (startY q) - y2\<rparr>)"

text \<open>How much the distance of the fingers has changed, in 16 bits.\<close>

definition zoomDistance :: "two_vars \<Rightarrow> 'x gesture_driver \<Rightarrow> 'x gesture_driver" where
  "zoomDistance v =
     onSmooth (\<lambda>s. s\<lparr>zoomDx := of_int \<bar>s16 (tsx1 v - tsx2 v)\<bar>, zoomDy := of_int \<bar>s16 (tsy1 v - tsy2 v)\<bar>\<rparr>)"

definition secondSlot :: "'e touch_driver \<Rightarrow> 'e touch_driver" where
  "secondSlot = onTouch (\<lambda>g. if sid g < 0 then (if pid g = 0 then g\<lparr>sid := 1\<rparr> else if pid g = 1 then g\<lparr>sid := 0\<rparr> else g)
     else g)"

section \<open>Early stages\<close>

definition towardsZero :: "u16 \<Rightarrow> u16" where
  "towardsZero n = (if sint n > 0 then n - 1 else if sint n < 0 then n + 1 else n)"

definition isScrollMode :: "touch_mode \<Rightarrow> bool" where
  "isScrollMode m \<longleftrightarrow> m = MODE_VSCROLL \<or> m = MODE_HSCROLL \<or> m = MODE_CONT_SCROLL"

text \<open>Fingers with little pressure: a scroll slows down, and nothing else happens.\<close>

definition lightStage :: "two_vars \<Rightarrow> 'x gesture_driver \<Rightarrow> bool \<times> 'x gesture_driver" where
  "lightStage v d =
     (let g = gestures d; p = fpressure (finger (pid g) d); q = fpressure (finger (sid g) d);
          light = (\<lambda>n. p < n \<and> q < n)
      in if light (maxTEndPressure (tap g)) \<or> light (tSenseLvl (pointerPrefs g)) then
           (True,
            if isScrollMode (touchmode g) then
              onScroll (\<lambda>s. s\<lparr>scrollDx := towardsZero (scrollDx s), scrollDy := towardsZero (scrollDy s)\<rparr>)
                (recordScroll (tdx1 v) (tdy1 v)
                  (setSample (unat (scrollSample (scroll g))) (\<lambda>s. s\<lparr>samplePressure := p\<rparr>) d))
            else if packetsCount (tp d) < 5 then onPad (\<lambda>t. t\<lparr>packetsCount := 0\<rparr>) d else d)
         else (False, d))"

definition twoEdgeSwipe :: "two_vars \<Rightarrow> 'e touch_driver \<Rightarrow> bool" where
  "twoEdgeSwipe v d \<longleftrightarrow>
     (let e = edges (gestures d);
          along = (\<lambda>a b reach. \<bar>a\<bar> < \<bar>b\<bar> div 2 \<and> \<bar>b\<bar> > uint reach div 2)
      in (topEdge e > 0 \<or> bottomEdge e > 0) \<and> along (tsx1 v) (tsy1 v) (edgeVDistance e) \<and> along (tsx2 v) (tsy2 v) (edgeVDistance e) \<or>
         (rightEdge e > 0 \<or> leftEdge e > 0) \<and> along (tsy1 v) (tsx1 v) (edgeHDistance e) \<and> along (tsy2 v) (tsx2 v) (edgeHDistance e))"

definition twoEdgeStage :: "two_vars \<Rightarrow> 'x gesture_driver \<Rightarrow> bool \<times> 'x gesture_driver" where
  "twoEdgeStage v d =
     (let g = gestures d
      in if (isEdgeGesture g \<or> \<not> beforeEdgeModes (touchmode g)) \<and> \<not> triggered g then
           (let d = (if twoEdgeSwipe v d
                     then Process_edgeSwipe (tx2 v) (ty2 v) 1 (Process_edgeSwipe (tx1 v) (ty1 v) 0 d) else d)
            in if \<not> has2WayEdgeSwipes (edges (gestures d)) \<or> \<not> beforeEdgeModes (touchmode (gestures d))
               then (True, StopScrollEnhanceTimer d) else (False, d))
         else (False, d))"

section \<open>Circular rotation\<close>

text \<open>Which axis the fingers lay on first: they lie on an axis where a coordinate is the same.\<close>

definition countAxes :: "two_vars \<Rightarrow> zoom_rotate \<Rightarrow> zoom_rotate" where
  "countAxes v z =
     (let onY = (tx1 v = tx2 v); onX = (ty1 v = ty2 v);
          z = (if onY then z\<lparr>rotateXCounter := rotateXCounter z + 1\<rparr>
               else if onX then z\<lparr>rotateYCounter := rotateYCounter z + 1\<rparr> else z)
      in if xAxisPos z = 0 \<or> yAxisPos z = 0 then
           (if onY then z\<lparr>xAxisPos := yAxisPos z + 1\<rparr> else if onX then z\<lparr>yAxisPos := xAxisPos z + 1\<rparr> else z)
         else z)"

text \<open>1 for a rotation to the left, -1 for one to the right.\<close>

definition circularRotation :: "two_vars \<Rightarrow> zoom_rotate \<Rightarrow> int" where
  "circularRotation v z =
     (let turn = (\<lambda>a b. if a < 0 \<and> b > 0 then 1 else if a > 0 \<and> b < 0 then -1 else 0)
      in if xAxisPos z = 1 \<and> (yAxisPos z = 2 \<or> \<bar>ty1 v - ty2 v\<bar> < 100) then turn (tsx1 v) (tsx2 v)
         else if yAxisPos z = 1 \<and> (xAxisPos z = 2 \<or> \<bar>tx1 v - tx2 v\<bar> < 100) then turn (tsy1 v) (tsy2 v)
         else 0)"

definition circularStage :: "two_vars \<Rightarrow> 'x gesture_driver \<Rightarrow> 'x gesture_driver" where
  "circularStage v d =
     (let g = gestures d
      in if hw_version (tp d) = 3 \<and> cirEnabled (zoomRotate g) \<and> touchmode g \<noteq> MODE_ROTATE \<and> packetsCount (tp d) > 6 then
           (let d = onZoom (countAxes v) d; r = circularRotation v (zoomRotate (gestures d))
            in if r = 0 then d
               else
                 (let d = setMode MODE_ROTATE (notify (if r = 1 then kPS2C_RotateLeft else kPS2C_RotateRight) d);
                      d = onZoom (\<lambda>z. z\<lparr>isZoomOut := False, isZoomIn := False\<rparr>) d
                  in StopScrollEnhanceTimer (onTouch (\<lambda>g. g\<lparr>isRotateGesture := True\<rparr>) d)))
         else d)"

section \<open>Modes of other gestures\<close>

definition dragsFinger :: "int \<Rightarrow> 'x gesture_driver \<Rightarrow> bool" where
  "dragsFinger i d \<longleftrightarrow> ucast (fPressDragFingersID (drag (gestures d))) AND (of_int (2 * i) :: u32) \<noteq> 0"

text \<open>Dragging with several fingers: the finger that drags moves the pointer.\<close>

definition dragFingers ::
  "(int \<Rightarrow> int \<Rightarrow> int \<Rightarrow> 'x gesture_driver \<Rightarrow> 'x gesture_driver) \<Rightarrow> two_vars \<Rightarrow> 'x gesture_driver \<Rightarrow> 'x gesture_driver" where
  "dragFingers single v d =
     (let d = (if dragsFinger (pid (gestures d)) d then single (tdx1 v) (tdy1 v) (pid (gestures d)) d else d);
          d = (if dragsFinger (sid (gestures d)) d then single (tdx2 v) (tdy2 v) (sid (gestures d)) d else d); g = gestures d
      in if fPressDragFingersID (drag g) AND 1 \<noteq> 0 then
           (if pid g = 0 then single (tdx1 v) (tdy1 v) (pid g) d
            else if sid g = 0 then single (tdx2 v) (tdy2 v) (sid g) d else d)
         else d)"

text \<open>The labels of the switch from default on, in which the cases fall through.\<close>

definition lastLabels ::
  "('x gesture_driver \<Rightarrow> 'x gesture_driver) \<Rightarrow> 'x gesture_driver \<Rightarrow> bool \<times> 'x gesture_driver" where
  "lastLabels drag3 d = (True, StopScrollEnhanceTimer (if is3FDrag (gestures d) then drag3 d else d))"

definition rotateLabel ::
  "('x gesture_driver \<Rightarrow> 'x gesture_driver) \<Rightarrow> 'x gesture_driver \<Rightarrow> bool \<times> 'x gesture_driver" where
  "rotateLabel drag3 d = (if isRotateGesture (gestures d) then lastLabels drag3 d else (False, d))"

definition defaultLabel ::
  "('x gesture_driver \<Rightarrow> 'x gesture_driver) \<Rightarrow> 'x gesture_driver \<Rightarrow> bool \<times> 'x gesture_driver" where
  "defaultLabel drag3 d =
     (let g = gestures d
      in if \<not> isEdgeGesture g \<or> has2WayEdgeSwipes (edges g) then (False, d) else rotateLabel drag3 d)"

definition twoModeStage ::
  "('x gesture_driver \<Rightarrow> 'x gesture_driver) \<Rightarrow> 'x gesture_driver \<Rightarrow> bool \<times> 'x gesture_driver" where
  "twoModeStage drag3 d =
     (let g = gestures d; m = touchmode g; n = packetsCount (tp d);
          leave = (\<lambda>d. let d = StopScrollEnhanceTimer (stopPointer d)
             in defaultLabel drag3 (if packetsCount (tp d) > 3 then setMode MODE_IDLE d else d))
      in if m = MODE_CONT_SCROLL \<and> n > 3 then (False, d)
         else if (m = MODE_CONT_SCROLL \<or> m = MODE_MOVE) \<and> is3FDrag g then (True, drag3 d)
         else if m \<in> set [MODE_CONT_SCROLL, MODE_MOVE, MODE_1_FING_TAP, MODE_CORNER_TAP]
         then leave (onCorner (\<lambda>c. c\<lparr>corner := 0\<rparr>) d)
         else if m \<in> set [MODE_EDGE_VSCROLL, MODE_EDGE_HSCROLL, MODE_CIR_VSCROLL, MODE_CIR_HSCROLL] then leave d
         else if m = MODE_ROTATE then rotateLabel drag3 d
         else if m \<in> set ([MODE_ZOOM, MODE_MUL_TOUCH_3, MODE_MUL_TOUCH_4, MODE_5_FING_PINCH, MODE_TWO_FING_PRESS,
             MODE_THREE_FING_PRESS] @ edgeModes) then lastLabels drag3 d
         else if m \<in> set [MODE_FOUR_FING_PRESS, MODE_FIVE_FING_PRESS, MODE_3_FING_TAP, MODE_4_FING_TAP, MODE_5_FING_TAP]
         then (True, StopScrollEnhanceTimer d)
         else if m = MODE_IDLE then
           (if is3FDrag g then (True, drag3 d) else (lastFingers g > 2 \<and> n < 5, d))
         else defaultLabel drag3 d)"

section \<open>Rotation and zoom\<close>

definition rotateMode :: "'x gesture_driver \<Rightarrow> 'x gesture_driver" where
  "rotateMode d = onTouch (\<lambda>g. g\<lparr>isRotateGesture := True\<rparr>) (setMode MODE_ROTATE d)"

definition rotateTo :: "bool \<Rightarrow> 'x gesture_driver \<Rightarrow> 'x gesture_driver" where
  "rotateTo right = notify (if right then kPS2C_RotateRight else kPS2C_RotateLeft)"

text \<open>On one axis a finger rests and the other moves; both stay within a limit on the other axis.\<close>

definition oneMoves :: "int \<Rightarrow> int \<Rightarrow> int \<Rightarrow> bool" where
  "oneMoves delta a b \<longleftrightarrow>
     \<bar>a\<bar> < \<bar>b\<bar> \<and> \<bar>b\<bar> > delta \<and> \<bar>a\<bar> < \<bar>b\<bar> div 3 \<or> \<bar>b\<bar> < \<bar>a\<bar> \<and> \<bar>a\<bar> > delta \<and> \<bar>b\<bar> < \<bar>a\<bar> div 3"

definition straightRotation :: "two_vars \<Rightarrow> 'x gesture_scheme \<Rightarrow> bool" where
  "straightRotation v g \<longleftrightarrow>
     (let delta = uint (rotateDelta (zoomRotate g)); lx = uint (maxCFDelta g); ly = uint (maxCFDeltaY (zoomRotate g))
      in \<bar>tsx1 v\<bar> < lx \<and> \<bar>tsx2 v\<bar> < lx \<and> oneMoves delta (tsy1 v) (tsy2 v) \<or>
         \<bar>tsy1 v\<bar> < ly \<and> \<bar>tsy2 v\<bar> < ly \<and> oneMoves delta (tsx1 v) (tsx2 v))"

definition straightRotate :: "two_vars \<Rightarrow> 'x gesture_driver \<Rightarrow> 'x gesture_driver" where
  "straightRotate v d =
     (let delta = uint (rotateDelta (zoomRotate (gestures d))); left = (tx1 v < tx2 v);
          up = (\<lambda>a. \<bar>a\<bar> > delta \<and> a > 0); down = (\<lambda>a. \<bar>a\<bar> > delta \<and> a < 0)
      in if down (tsy2 v) \<or> up (tsy1 v) then rotateTo left d
         else if up (tsy2 v) \<or> down (tsy1 v) then rotateTo (\<not> left) d
         else if down (tsx2 v) \<or> down (tsx1 v) then rotateTo True d
         else if up (tsx2 v) \<or> up (tsx1 v) then rotateTo False d
         else d)"

text \<open>One finger rests and the other moves on both axes. Comparing with 0.8 of the delta.\<close>

definition diagonalRotation :: "int \<Rightarrow> int \<Rightarrow> int \<Rightarrow> int \<Rightarrow> 'x gesture_scheme \<Rightarrow> bool" where
  "diagonalRotation ax ay bx by' g \<longleftrightarrow>
     (let delta = uint (rotateDelta (zoomRotate g))
      in \<bar>ax\<bar> < uint (maxCFDelta g) \<and> \<bar>ay\<bar> < uint (maxCFDeltaY (zoomRotate g)) \<and> 5 * \<bar>bx\<bar> > 4 * delta \<and> 5 * \<bar>by'\<bar> > 4 * delta)"

definition diagonalRotate :: "int \<Rightarrow> int \<Rightarrow> 'x gesture_driver \<Rightarrow> 'x gesture_driver" where
  "diagonalRotate bx by' d =
     (if bx < 0 \<and> by' \<noteq> 0 then rotateTo True d else if bx > 0 \<and> by' \<noteq> 0 then rotateTo False d else d)"

text \<open>
  A pinch on one axis. The last condition of the source repeats its first: the first finger must have moved further.
\<close>

definition pinch :: "zoom_rotate \<Rightarrow> u16 \<Rightarrow> int \<Rightarrow> int \<Rightarrow> bool" where
  "pinch z distance a b \<longleftrightarrow>
     (let k = uint (pinchDeltaScale z); delta = uint (zoomDelta z)
      in sint distance > delta \<and>
         (\<bar>a\<bar> > \<bar>b\<bar> \<and> \<bar>b\<bar> > \<bar>a\<bar> div k \<or> \<bar>b\<bar> < \<bar>a\<bar> \<and> \<bar>a\<bar> > \<bar>b\<bar> div k) \<and> \<bar>a\<bar> > delta div k \<and> \<bar>b\<bar> > delta div k)"

text \<open>The pinch divides where its first two conditions hold.\<close>

definition pinchDivides :: "zoom_rotate \<Rightarrow> u16 \<Rightarrow> int \<Rightarrow> int \<Rightarrow> bool" where
  "pinchDivides z distance a b \<longleftrightarrow> sint distance > uint (zoomDelta z) \<and> \<bar>a\<bar> > \<bar>b\<bar>"

definition apart :: "int \<Rightarrow> int \<Rightarrow> int \<Rightarrow> int \<Rightarrow> bool" where
  "apart a b p q \<longleftrightarrow> a > 0 \<and> b < 0 \<and> p < q \<or> a < 0 \<and> b > 0 \<and> p > q"

definition together :: "int \<Rightarrow> int \<Rightarrow> int \<Rightarrow> int \<Rightarrow> bool" where
  "together a b p q \<longleftrightarrow> a < 0 \<and> b > 0 \<and> p < q \<or> a > 0 \<and> b < 0 \<and> p > q"

definition opposite :: "int \<Rightarrow> int \<Rightarrow> bool" where
  "opposite a b \<longleftrightarrow> a > 0 \<and> b < 0 \<or> a < 0 \<and> b > 0"

definition zoomStage :: "two_vars \<Rightarrow> 'x gesture_driver \<Rightarrow> bool \<times> 'x gesture_driver" where
  "zoomStage v d =
     (let g = gestures d; z = zoomRotate g; s = smooth g;
          px = pinch z (zoomDx s) (tsx1 v) (tsx2 v); py = pinch z (zoomDy s) (tsy1 v) (tsy2 v);
          divides = opposite (tsx1 v) (tsx2 v) \<and> pinchDivides z (zoomDx s) (tsx1 v) (tsx2 v) \<or>
            opposite (tsy1 v) (tsy2 v) \<and> pinchDivides z (zoomDy s) (tsy1 v) (tsy2 v);
          zoom = (\<lambda>out. onZoom (\<lambda>z. z\<lparr>isZoomOut := out, isZoomIn := \<not> out\<rparr>) (setMode MODE_ZOOM d))
      in if \<not> zoomEnabled z \<or> isRotateGesture g then (False, d)
         else if pinchDeltaScale z = 0 \<and> divides then (True, onTouch (\<lambda>g. g\<lparr>hung := True\<rparr>) d)
         else if apart (tsx1 v) (tsx2 v) (tx1 v) (tx2 v) \<and> px \<or> apart (tsy1 v) (tsy2 v) (ty1 v) (ty2 v) \<and> py
         then (True, zoom True)
         else if together (tsx1 v) (tsx2 v) (tx1 v) (tx2 v) \<and> px \<or> together (tsy1 v) (tsy2 v) (ty1 v) (ty2 v) \<and> py
         then (True, zoom False)
         else (False, d))"

definition rotateZoomStage :: "two_vars \<Rightarrow> 'x gesture_driver \<Rightarrow> bool \<times> 'x gesture_driver" where
  "rotateZoomStage v d =
     (let g = gestures d; z = zoomRotate g; zrDelta = uint (max (zoomDelta z) (rotateDelta z));
          differs = (\<lambda>a b. \<bar>\<bar>a\<bar> - \<bar>b\<bar>\<bar> > zrDelta);
          rotates = rotateEnabled z \<and> ty1 v \<noteq> ty2 v \<and> isRotateMode g
      in if (maxLevelReached (scroll g) < 3 \<or> differs (tsx1 v) (tsx2 v) \<or> differs (tsy1 v) (tsy2 v)) \<and>
            packetsCount (tp d) > zoomMinSamples z \<and> (zoomEnabled z \<or> rotateEnabled z) then
           (if rotates \<and> straightRotation v g then (False, rotateMode (straightRotate v d))
            else if rotates \<and> diagonalRotation (tsx1 v) (tsy1 v) (tsx2 v) (tsy2 v) g
            then (False, rotateMode (diagonalRotate (tsx2 v) (tsy2 v) d))
            else if rotates \<and> diagonalRotation (tsx2 v) (tsy2 v) (tsx1 v) (tsy1 v) g
            then (False, rotateMode (diagonalRotate (tsx1 v) (tsy1 v) d))
            else zoomStage v d)
         else (False, d))"

section \<open>Scrolling\<close>

definition sampleTwo :: "two_vars \<Rightarrow> 'x gesture_driver \<Rightarrow> 'x gesture_driver" where
  "sampleTwo v d =
     (let g = gestures d; n = smoothSamples (scrollF g); i = unat (cSample (smooth g)); p = pid g; q = sid g;
          d = setFinger q (addDelta (tdx2 v) (tdy2 v)) (setFinger p (addDelta (tdx1 v) (tdy1 v)) d);
          d = setSample i (\<lambda>s. s\<lparr>lastDX1 := of_int (tdx1 v), lastDY1 := of_int (tdy1 v), lastDX2 := of_int (tdx2 v),
                lastDY2 := of_int (tdy2 v)\<rparr>) d;
          d = onSmooth (\<lambda>s. let s = (if tdx1 v \<noteq> 0 \<or> tdy1 v \<noteq> 0 then s\<lparr>cSample := cSample s + 1\<rparr> else s)
                in if cSample s = n then s\<lparr>cSample := 0\<rparr> else s) d;
          d = readsSample (uint n - 1) d; add = (\<lambda>sel. sumSamples sel (unat n) d);
          d1 = setFinger p (\<lambda>f. f\<lparr>sdx := add lastDX1, sdy := add lastDY1\<rparr>) d
      in setFinger q (\<lambda>f. f\<lparr>sdx := add lastDX2, sdy := add lastDY2\<rparr>) d1)"

text \<open>The fingers move against each other far enough for a zoom, by the number of packets.\<close>

definition zoomConflict :: "two_vars \<Rightarrow> 'x gesture_driver \<Rightarrow> bool" where
  "zoomConflict v d \<longleftrightarrow>
     (let g = gestures d; n = packetsCount (tp d); s = smooth g;
          far = (\<lambda>k. sint (zoomDx s) > k \<or> sint (zoomDy s) > k);
          against = (\<lambda>a b p q. apart a b p q \<or> together a b p q)
      in zoomEnabled (zoomRotate g) \<and>
         (against (tsx1 v) (tsx2 v) (tx1 v) (tx2 v) \<or> against (tsy1 v) (tsy2 v) (ty1 v) (ty2 v)) \<and>
         (far 50 \<and> n < 5 \<or> far 100 \<and> n < 10 \<or> far 180 \<and> n > 10))"

text \<open>The difference of the fingers on the x axis is always 0 in the source, which subtracts x1_Dx from itself.\<close>

definition scrollsTogether :: "two_vars \<Rightarrow> 'x gesture_scheme \<Rightarrow> bool" where
  "scrollsTogether v g \<longleftrightarrow>
     (let m = uint (maxCFDelta g)
      in maxLevelReached (scroll g) > 2 \<or> \<bar>\<bar>tsy1 v\<bar> - \<bar>tsy2 v\<bar>\<bar> < 150 \<or> \<bar>tsx1 v\<bar> > m \<and> \<bar>tsx2 v\<bar> > m \<or>
         \<bar>tsy1 v\<bar> > m \<and> \<bar>tsy2 v\<bar> > m)"

definition scrollBy ::
  "(nat \<Rightarrow> u64) \<Rightarrow> (rat \<Rightarrow> rat) \<Rightarrow> int \<Rightarrow> int \<Rightarrow> bool \<Rightarrow> bool \<Rightarrow> 'x gesture_driver \<Rightarrow> 'x gesture_driver" where
  "scrollBy clock fl mx my conflict second d =
     (let d = Process_scroll clock fl (accelMode2F (scrollF (gestures d))) mx my conflict d;
          i = (if second then sid (gestures d) else pid (gestures d));
          p = fingerPressure i d
      in setSample (unat (scrollSample (scroll (gestures d)))) (\<lambda>s. s\<lparr>samplePressure := p\<rparr>) (reads i d))"

definition scrollTwo :: "(nat \<Rightarrow> u64) \<Rightarrow> (rat \<Rightarrow> rat) \<Rightarrow> two_vars \<Rightarrow> 'x gesture_driver \<Rightarrow> 'x gesture_driver" where
  "scrollTwo clock fl v d =
     (let g = gestures d; F = scrollF g;
          moves = (tdx1 v \<noteq> 0 \<or> tdx2 v \<noteq> 0 \<or> tdy1 v \<noteq> 0 \<or> tdy2 v \<noteq> 0)
      in if (isHScrollEnabled g \<or> isVScrollEnabled g) \<and> moves then
           (if scrollsTogether v g then
              (let conflict = zoomConflict v d; d = (if conflict then StopScrollEnhanceTimer d else d);
                   m = touchmode (gestures d)
               in if tdx1 v = 0 \<and> tdy1 v = 0 \<or> tdy2 v > tdy1 v \<and> m = MODE_VSCROLL \<or> tdx2 v > tdx1 v \<and> m = MODE_HSCROLL
                  then scrollBy clock fl (tdx2 v) (tdy2 v) conflict True d
                  else scrollBy clock fl (tdx1 v) (tdy1 v) conflict False d)
            else StopScrollEnhanceTimer (onScroll (\<lambda>s. s\<lparr>maxLevelReached := 0\<rparr>) d))
         else if doCont g \<and> \<not> has2FCont F then StopScrollEnhanceTimer d
         else d)"

definition twoScrollStage :: "(nat \<Rightarrow> u64) \<Rightarrow> (rat \<Rightarrow> rat) \<Rightarrow> two_vars \<Rightarrow> 'x gesture_driver \<Rightarrow> 'x gesture_driver" where
  "twoScrollStage clock fl v d =
     (let g = gestures d; m = touchmode g; F = scrollF g; hw = hw_version (tp d); lim = uint (idleFingMaxDelta F);
          resting = \<bar>tdx1 v\<bar> \<le> lim \<and> \<bar>tdy1 v\<bar> \<le> lim \<and> \<bar>tdx2 v\<bar> \<le> lim \<and> \<bar>tdy2 v\<bar> \<le> lim
      in if \<not> isRotateGesture g \<and> m \<noteq> MODE_ROTATE \<and>
            (tsy1 v \<noteq> 0 \<and> tsy2 v \<noteq> 0 \<or> tsx1 v \<noteq> 0 \<and> tsx2 v \<noteq> 0 \<or> m = MODE_VSCROLL \<or> m = MODE_HSCROLL) \<and>
            (hw < 4 \<and> hw > 1 \<and> ty1 v = ty2 v \<or> hw = 0 \<or> hw > 3) then
           (let d = (if packetsCount (tp d) \<noteq> 0 \<and> smoothSamples F > 0 then sampleTwo v d else d)
            in scrollTwo clock fl v (slingStage (has2FSling F) (ty1 v) (holdStage clock resting d)))
         else d)"

section \<open>Presses and taps\<close>

definition closeTo :: "int \<Rightarrow> u16 \<Rightarrow> bool" where
  "closeTo pos start \<longleftrightarrow> pos \<le> uint start + 75 \<and> pos \<ge> uint start - 75"

definition noPress :: "'x gesture_driver \<Rightarrow> 'x gesture_driver" where
  "noPress = onPress (\<lambda>p. p\<lparr>pressGestureTime := 0\<rparr>)"

definition twoPressStage :: "(nat \<Rightarrow> u64) \<Rightarrow> two_vars \<Rightarrow> 'x gesture_driver \<Rightarrow> 'x gesture_driver" where
  "twoPressStage clock v d =
     (let g = gestures d; noise = ucast (noiseMultiTapDelta (tap g)); p = finger (pid g) d; q = finger (sid g) d;
          timeout = pressTimeout (press g);
          still = \<not> triggered g \<and> gestureTime g < timeout + timeout \<and> closeTo (tx1 v) (startX p) \<and>
            closeTo (ty1 v) (startY p) \<and> closeTo (tx2 v) (startX q) \<and> closeTo (ty2 v) (startY q)
      in if scrollTotalDx (smooth g) < noise \<and> scrollTotalDy (smooth g) < noise then
           (let d = (if still then
                       (let d = onPress (\<lambda>p. p\<lparr>pressGestureTime := gestureTime g\<rparr>) d
                        in if isScrollMode (touchmode g) then StopScrollEnhanceTimer d else d)
                     else noPress d); g = gestures d; P = press g
            in if pressGestureTime P > timeout \<and> timeout \<noteq> 0 \<and> (sint (fings2Press P) > 0 \<or> isToggleKeyOnHold g) \<and>
                  maxLevelReached (scroll g) < 2 then
                 StopScrollEnhanceTimer
                   (if isToggleKeyOnHold g then
                      (let d = onPress (\<lambda>p. p\<lparr>fings2Press := - fings2Press p\<rparr>) d
                       in setMode MODE_TWO_FING_PRESS (nudge clock (sint (fings2Press (press (gestures d))) > 0) d))
                    else Proces_Fingers_Press 2 d)
               else d)
         else noPress d)"

definition twoTapStage :: "two_vars \<Rightarrow> 'x gesture_driver \<Rightarrow> 'x gesture_driver" where
  "twoTapStage v d =
     (let g = gestures d; n = uint (noiseMultiTapDelta (tap g)); timeout = tapTimeout (tap g);
          small = \<bar>tsx1 v\<bar> < n \<and> \<bar>tsy1 v\<bar> < n \<and> \<bar>tsx2 v\<bar> < n \<and> \<bar>tsy2 v\<bar> < n
      in if gestureTime g < timeout \<and> packetsCount (tp d) > 1 \<and> \<not> triggered g \<and> small then setMode MODE_2_FING_TAP d
         else if (gestureTime g > timeout \<or> \<not> small) \<and> touchmode g = MODE_2_FING_TAP then setMode MODE_IDLE d
         else d)"

section \<open>The handlers\<close>

definition Process_twofingers_touch ::
  "(nat \<Rightarrow> u64) \<Rightarrow> (rat \<Rightarrow> rat) \<Rightarrow> int \<Rightarrow> int \<Rightarrow> int \<Rightarrow> int \<Rightarrow> 'x gesture_driver \<Rightarrow> 'x gesture_driver" where
  "Process_twofingers_touch clock fl x1 x2 y1 y2 d =
     (let d = secondSlot (countPacket d); d = reads (sid (gestures d)) (reads (pid (gestures d)) d);
          v = twoVars x1 x2 y1 y2 d; drag3 = dragFingers (Process_singlefinger_touch clock fl) v
      in proceed (lightStage v (zoomDistance v d)) (\<lambda>d.
         proceed (twoEdgeStage v d) (\<lambda>d.
         proceed (twoModeStage drag3 (circularStage v d)) (\<lambda>d.
         proceed (rotateZoomStage v d) (\<lambda>d.
         twoTapStage v (twoPressStage clock v (twoScrollStage clock fl v d)))))))"

definition callTwo :: "(nat \<Rightarrow> u64) \<Rightarrow> (rat \<Rightarrow> rat) \<Rightarrow> 'x gesture_driver \<Rightarrow> 'x gesture_driver" where
  "callTwo clock fl d =
     (let p = pid (gestures d); q = sid (gestures d); d = reads p (reads q d)
      in Process_twofingers_touch clock fl (uint (posX (finger p d))) (uint (posX (finger q d)))
           (uint (posY (finger p d))) (uint (posY (finger q d))) d)"

end
