(* ===== verification/Touchpad_Multi.thy ===== *)
theory Touchpad_Multi
  imports Touchpad_Two
begin

text \<open>
  Process_ClickPad_2F, two fingers on a click pad, and Process_multiFingers_touch: taps, presses, swipes and
  pinches of three to five fingers.
\<close>

section \<open>Two fingers on a click pad\<close>

definition inUse :: "u8 \<Rightarrow> 'x gesture_driver \<Rightarrow> bool" where
  "inUse n d \<longleftrightarrow> fingerInUse (button (gestures d)) AND n \<noteq> 0"

definition setInUse :: "u8 \<Rightarrow> 'x gesture_driver \<Rightarrow> 'x gesture_driver" where
  "setInUse n = onButton (\<lambda>b. b\<lparr>fingerInUse := n\<rparr>)"

text \<open>A click with two fingers: the finger that started to move moves the pointer.\<close>

definition clickDrag ::
  "(int \<Rightarrow> int \<Rightarrow> int \<Rightarrow> 'x gesture_driver \<Rightarrow> 'x gesture_driver) \<Rightarrow> int \<times> int \<Rightarrow> int \<times> int \<Rightarrow> 'x gesture_driver \<Rightarrow> 'x gesture_driver" where
  "clickDrag single m1 m2 d =
     (if buttonState (gestures d) \<noteq> 1 then d
      else
        (let d = setMode MODE_MOVE d
         in if m1 \<noteq> (0, 0) \<and> (inUse 1 d \<or> m2 = (0, 0)) then single (fst m1) (snd m1) 0 (setInUse 1 d)
            else if m2 \<noteq> (0, 0) \<and> (inUse 2 d \<or> m1 = (0, 0)) then single (fst m2) (snd m2) 1 (setInUse 2 d)
            else stopPointer d))"

text \<open>
  One finger rests on the button area (\<open>other\<close>) and the other one (\<open>mover\<close>, with bit \<open>n\<close>) moves the pointer.
\<close>

definition movesOther :: "int \<Rightarrow> int \<Rightarrow> u8 \<Rightarrow> int \<times> int \<Rightarrow> int \<times> int \<Rightarrow> 'x gesture_driver \<Rightarrow> bool" where
  "movesOther mover other n m m' d \<longleftrightarrow>
     onButtonArea other d \<and> m \<noteq> (0, 0) \<and>
     (inUse n d \<or> \<not> is2FClick (button (gestures d)) \<and> m' = (0, 0) \<or> \<not> onButtonArea mover d)"

definition moveOther ::
  "(nat \<Rightarrow> u64) \<Rightarrow> (int \<Rightarrow> int \<Rightarrow> int \<Rightarrow> 'x gesture_driver \<Rightarrow> 'x gesture_driver) \<Rightarrow> u8 list \<Rightarrow> u8 \<Rightarrow> int \<Rightarrow> int \<Rightarrow> u8 \<Rightarrow>
   int \<times> int \<Rightarrow> 'x gesture_driver \<Rightarrow> 'x gesture_driver" where
  "moveOther clock single p packetType mover other n m d =
     (let d = onTouch (\<lambda>g. g\<lparr>isFingOnBtnArea := True\<rparr>) (setMode MODE_MOVE d);
          d = (if onButtonArea mover d then d else setInUse n d);
          d = (if isClickPad (tp d)
               then snd (Process_ClickPad_Virtual_Buttons clock p packetType (of_int other) 1 d) else d);
          d = (if triggered (gestures d) \<and> buttonData (tp d) \<noteq> 1 then
                 onButton (\<lambda>b. b\<lparr>is2FClick := False\<rparr>)
                   (onTouch (\<lambda>g. g\<lparr>buttonState := 1\<rparr>) (onPad (\<lambda>t. t\<lparr>buttonData := 1\<rparr>) d))
               else d)
      in single (fst m) (snd m) mover d)"

definition Process_ClickPad_2F ::
  "(nat \<Rightarrow> u64) \<Rightarrow> (rat \<Rightarrow> rat) \<Rightarrow> u8 list \<Rightarrow> u8 \<Rightarrow> int \<Rightarrow> int \<Rightarrow> int \<Rightarrow> int \<Rightarrow> 'x gesture_driver \<Rightarrow> 'x gesture_driver" where
  "Process_ClickPad_2F clock fl p packetType dx1 dy1 dx2 dy2 d =
     (let single = Process_singlefinger_touch clock fl;
          (pressed, d) = Process_ClickPad_Virtual_Buttons clock p packetType (of_int (pid (gestures d))) (cFingers (tp d)) d;
          g = gestures d; b = button g
      in if touchmode g \<in> set [MODE_CONT_SCROLL, MODE_HSCROLL, MODE_VSCROLL, MODE_ZOOM, MODE_ROTATE, MODE_TWO_FING_PRESS,
            MODE_2_FING_TAP] \<or> \<not> (clickPad2FMove b \<or> pressed) \<or> is3FDrag g then callTwo clock fl d
         else if (\<not> clickPadHasVButtons b \<or> is2FClick b) \<and> pressed then clickDrag single (dx1, dy1) (dx2, dy2) d
         else
           (let i = pid g; j = sid g; d = reads j (reads i d)
            in if movesOther i j 1 (dx1, dy1) (dx2, dy2) d then moveOther clock single p packetType i j 1 (dx1, dy1) d
               else if movesOther j i 2 (dx2, dy2) (dx1, dy1) d then moveOther clock single p packetType j i 2 (dx2, dy2) d
               else if \<not> triggered g \<and> \<not> isDragging g then callTwo clock fl d
               else stopPointer d))"

section \<open>Modes with three and more fingers\<close>

definition totalX :: "int \<Rightarrow> 'e touch_driver \<Rightarrow> int" where
  "totalX i d = sint (tdx (finger i d))"

definition totalY :: "int \<Rightarrow> 'e touch_driver \<Rightarrow> int" where
  "totalY i d = sint (tdy (finger i d))"

text \<open>Dragging with the finger chosen in the configuration.\<close>

definition dragOne ::
  "(int \<Rightarrow> int \<Rightarrow> int \<Rightarrow> 'x gesture_driver \<Rightarrow> 'x gesture_driver) \<Rightarrow> int \<Rightarrow> 'x gesture_driver \<Rightarrow> 'x gesture_driver" where
  "dragOne single fid d =
     (if dragsFinger fid d \<or> fPressDragFingersID (drag (gestures d)) AND 1 \<noteq> 0 \<and> fid = 0
      then single (uint (posX (finger fid d))) (uint (posY (finger fid d))) fid d else d)"

definition isTapMode :: "touch_mode \<Rightarrow> bool" where
  "isTapMode m \<longleftrightarrow> m = MODE_3_FING_TAP \<or> m = MODE_4_FING_TAP \<or> m = MODE_5_FING_TAP"

definition endTapMode :: "'e touch_driver \<Rightarrow> 'e touch_driver" where
  "endTapMode d = (if isTapMode (touchmode (gestures d)) then setMode MODE_IDLE d else d)"

definition tapModeOf :: "u8 \<Rightarrow> 'e touch_driver \<Rightarrow> 'e touch_driver" where
  "tapModeOf c d =
     (if c = 3 then setMode MODE_3_FING_TAP d else if c = 4 then setMode MODE_4_FING_TAP d
      else if c = 5 then setMode MODE_5_FING_TAP d else d)"

text \<open>Some finger has moved too far for a tap.\<close>

definition someMoved :: "int \<Rightarrow> 'e touch_driver \<Rightarrow> bool" where
  "someMoved n d \<longleftrightarrow>
     (\<exists>f \<in> set (take (unat (cFingers (tp d))) (fing (gestures d))). \<bar>sint (tdx f)\<bar> > n \<or> \<bar>sint (tdy f)\<bar> > n)"

text \<open>The last labels of the switch, with dragging and without.\<close>

definition stopLabel :: "'x gesture_driver \<Rightarrow> bool \<times> 'x gesture_driver" where
  "stopLabel d = (True, StopScrollEnhanceTimer d)"

definition dragLabel ::
  "(int \<Rightarrow> int \<Rightarrow> int \<Rightarrow> 'x gesture_driver \<Rightarrow> 'x gesture_driver) \<Rightarrow> int \<Rightarrow> 'x gesture_driver \<Rightarrow> bool \<times> 'x gesture_driver" where
  "dragLabel single fid d = (if is3FDrag (gestures d) then (True, dragOne single fid d) else stopLabel d)"

definition tapLabel ::
  "(int \<Rightarrow> int \<Rightarrow> int \<Rightarrow> 'x gesture_driver \<Rightarrow> 'x gesture_driver) \<Rightarrow> int \<Rightarrow> 'x gesture_driver \<Rightarrow> bool \<times> 'x gesture_driver" where
  "tapLabel single fid d =
     (let g = gestures d; n = uint (noiseMultiTapDelta (tap g)); c = cFingers (tp d);
          small = gestureTime g < mulFingsTimeout (tap g) \<and> \<bar>totalX fid d\<bar> < n \<and> \<bar>totalY fid d\<bar> < n;
          d = (if small then reads (uint c - 1) d else d)
      in if small \<and> someMoved n d then (True, endTapMode d)
         else
           (let d = (if small then (if lastFingers g \<le> c then tapModeOf c d else d) else endTapMode d); g = gestures d
            in if \<not> isAppSwitchDone g \<and> \<not> ((is2FClick (button g) \<or> isFingOnBtnArea g) \<and> triggered g)
               then (False, d) else dragLabel single fid d))"

definition multiModeStage ::
  "(int \<Rightarrow> int \<Rightarrow> int \<Rightarrow> 'x gesture_driver \<Rightarrow> 'x gesture_driver) \<Rightarrow> int \<Rightarrow> 'x gesture_driver \<Rightarrow> bool \<times> 'x gesture_driver" where
  "multiModeStage single fid d =
     (let g = gestures d; m = touchmode g;
          leave = (\<lambda>d. (False, setMode MODE_IDLE (StopScrollEnhanceTimer (stopPointer d))))
      in if (m = MODE_MOVE \<or> m = MODE_IDLE) \<and> is3FDrag g then (True, dragOne single fid d)
         else if m \<in> set [MODE_MOVE, MODE_1_FING_TAP, MODE_2_FING_TAP, MODE_CORNER_TAP]
         then leave (onCorner (\<lambda>c. c\<lparr>corner := 0\<rparr>) d)
         else if m \<in> set [MODE_EDGE_VSCROLL, MODE_EDGE_HSCROLL, MODE_CIR_VSCROLL, MODE_CIR_HSCROLL, MODE_CONT_SCROLL,
             MODE_VSCROLL, MODE_HSCROLL] then leave d
         else if m \<in> set [MODE_MUL_TOUCH_3, MODE_MUL_TOUCH_4, MODE_FEATURE_TOGGLE, MODE_5_FING_PINCH, MODE_4_FING_PINCH,
             MODE_TWO_FING_PRESS, MODE_THREE_FING_PRESS] then dragLabel single fid d
         else if m \<in> set [MODE_FOUR_FING_PRESS, MODE_FIVE_FING_PRESS, MODE_ZOOM, MODE_ROTATE] then stopLabel d
         else tapLabel single fid d)"

section \<open>Presses\<close>

text \<open>With the shift key a press switches the gesture on or off: its action changes its sign.\<close>

definition pressOf ::
  "(nat \<Rightarrow> u64) \<Rightarrow> u8 \<Rightarrow> ((u8 \<Rightarrow> u8) \<Rightarrow> press_struct \<Rightarrow> press_struct) \<Rightarrow> (press_struct \<Rightarrow> u8) \<Rightarrow> 'x gesture_driver \<Rightarrow> 'x gesture_driver" where
  "pressOf clock n upd sel d =
     (if isToggleKeyOnHold (gestures d)
      then (let d = onPress (upd uminus) d in nudge clock (sint (sel (press (gestures d))) > 0) d)
      else Proces_Fingers_Press n d)"

definition multiPress :: "(nat \<Rightarrow> u64) \<Rightarrow> 'x gesture_driver \<Rightarrow> 'x gesture_driver" where
  "multiPress clock d =
     (let c = cFingers (tp d)
      in if c = 3 then
           (let shift = isToggleKeyOnHold (gestures d); d = pressOf clock 3 fings3Press_update fings3Press d
            in if shift then setMode MODE_THREE_FING_PRESS d else d)
         else if c = 4 then setMode MODE_FOUR_FING_PRESS (pressOf clock 4 fings4Press_update fings4Press d)
         else if c = 5 then setMode MODE_FIVE_FING_PRESS (pressOf clock 5 fings5Press_update fings5Press d)
         else d)"

text \<open>The actions of the three presses are joined bitwise, so one that is switched off switches off all.\<close>

definition multiPressStage :: "(nat \<Rightarrow> u64) \<Rightarrow> int \<Rightarrow> int \<Rightarrow> 'x gesture_driver \<Rightarrow> bool \<times> 'x gesture_driver" where
  "multiPressStage clock mx my d =
     (let g = gestures d; p = press g
      in if sint (fings3Press p OR fings4Press p OR fings5Press p) > 0 \<or> isToggleKeyOnHold g then
           (let d = (if \<not> triggered g \<and> gestureTime g < pressTimeout p + 4000000000 \<and> mx < 50 \<and> my < 50
                     then onPress (\<lambda>p. p\<lparr>pressGestureTime := gestureTime g\<rparr>) d
                     else if pressTimeout p \<noteq> 0 \<and> pressGestureTime p \<noteq> 0
                     then onTouch (\<lambda>g. g\<lparr>gestureTime := 0\<rparr>) (noPress d) else d); g = gestures d;
                d = (if pressGestureTime (press g) > pressTimeout (press g) \<or> triggered g then multiPress clock d else d)
            in (touchmode (gestures d) \<in> set [MODE_THREE_FING_PRESS, MODE_FOUR_FING_PRESS, MODE_FIVE_FING_PRESS], d))
         else (False, d))"

section \<open>Swipes and pinches\<close>

text \<open>How many fingers have moved down, up, left and right by more than n.\<close>

definition movingFingers :: "int \<Rightarrow> 'e touch_driver \<Rightarrow> nat \<times> nat \<times> nat \<times> nat" where
  "movingFingers n d =
     (let count = (\<lambda>P. length (filter P (fing (gestures d))))
      in (count (\<lambda>f. sint (tdy f) > n), count (\<lambda>f. sint (tdy f) < - n),
          count (\<lambda>f. sint (tdx f) < - n), count (\<lambda>f. sint (tdx f) > n)))"

definition pinchAction :: "u8 \<Rightarrow> 'x gesture_driver \<Rightarrow> 'x gesture_driver" where
  "pinchAction act d = (if act = 17 then ResetPointerToMiddle (Open_NC d) else notify (scast act) d)"

definition isSwipe :: "int \<Rightarrow> int \<Rightarrow> int \<Rightarrow> 'x gesture_driver \<Rightarrow> bool" where
  "isSwipe mx my fid d \<longleftrightarrow>
     (let g = gestures d; w = swipe g; c = cFingers (tp d); l = lastFingers g;
          small = (\<lambda>n. l \<le> n \<or> mx < 30 \<and> my < 30 \<and> l > n)
      in (fwidth (finger fid d) > 0 \<or> hw_version (tp d) > 4) \<and> tapCount (tap g) = 0 \<and>
         (packetsCount (tp d) > 3 \<or> mx > uint (mulFingDeltaX w) \<or> my > uint (mulFingDeltaY w)) \<and>
         (has3FSwipes w \<and> c = 3 \<and> small 3 \<or> has4FSwipes w \<and> c = 4 \<and> small 4))"

text \<open>From version 4 on enough fingers must agree, and four fingers may pinch.\<close>

definition agreeStage :: "'x gesture_driver \<Rightarrow> bool \<times> 'x gesture_driver" where
  "agreeStage d =
     (let (down, up, left, right) = movingFingers 60 d; c = cFingers (tp d); g = gestures d;
          syn = (touchpadVendor (tp d) = STD_SYNAPTICS); need = (if syn then 2 else unat (c - 1));
          pinches = c = 4 \<and> \<not> isToggleKeyOnHold g \<and> (down = 3 \<and> up = 1 \<or> up = 3 \<and> right = 2)
      in if \<not> hw_version (tp d) > 3 then (False, d)
         else if \<not> syn \<and> pinches then (True, setMode MODE_4_FING_PINCH (pinchAction (fings4PinchAction (press g)) d))
         else (\<not> (down \<ge> need \<or> up \<ge> need \<or> left \<ge> need \<or> right \<ge> need), d))"

text \<open>A swipe up is compared with the limit of the x axis.\<close>

definition swipeTo :: "int \<Rightarrow> int \<Rightarrow> int \<Rightarrow> 'x gesture_driver \<Rightarrow> u8" where
  "swipeTo mx my fid d =
     (let g = gestures d; x = uint (mulFingDeltaX (swipe g)); y = uint (mulFingDeltaY (swipe g))
      in if mx > my \<and> mx > x \<and> totalX fid d < 0 then 1
         else if mx > my \<and> mx > x \<and> totalX fid d > 0 then 2
         else if my > mx \<and> my > y \<and> totalY fid d > 0 then 3
         else if my > mx \<and> my > x \<and> totalY fid d < 0 then 4
         else swipeDirection g)"

definition toggleBySwipe :: "(nat \<Rightarrow> u64) \<Rightarrow> u8 \<Rightarrow> 'x gesture_driver \<Rightarrow> 'x gesture_driver" where
  "toggleBySwipe clock n d =
     (if n = 1 then toggleFeature clock kPS2C_Gestures_Zoom d
      else if n = 2 then toggleFeature clock kPS2C_Gestures_Rotate d
      else if n = 3 then toggleFeature clock kPS2C_Gestures_1FSwipes d
      else if n = 4 then
        toggleThenNudge clock (\<lambda>g. cornerEnabled (cornerTap g)) (onCorner (\<lambda>c. c\<lparr>cornerEnabled := \<not> cornerEnabled c\<rparr>)) d
      else d)"

definition swipeStage :: "(nat \<Rightarrow> u64) \<Rightarrow> int \<Rightarrow> int \<Rightarrow> int \<Rightarrow> 'x gesture_driver \<Rightarrow> 'x gesture_driver" where
  "swipeStage clock mx my fid d =
     (let d = onTouch (\<lambda>g. g\<lparr>swipeDirection := swipeTo mx my fid d\<rparr>) d; n = swipeDirection (gestures d); c = cFingers (tp d)
      in if n = 0 then d
         else if isToggleKeyOnHold (gestures d) then setMode MODE_FEATURE_TOGGLE (toggleBySwipe clock n d)
         else if c = 3 then setMode MODE_MUL_TOUCH_3 d
         else if c = 4 then setMode MODE_MUL_TOUCH_4 d
         else d)"

definition fivePinch :: "nat \<times> nat \<times> nat \<times> nat \<Rightarrow> bool \<Rightarrow> bool" where
  "fivePinch counts syn \<longleftrightarrow>
     (let (down, up, left, right) = counts;
          most = (\<lambda>a b c d. 2 < a \<and> a < 5 \<and> (b \<noteq> 0 \<or> c \<noteq> 0 \<and> d \<noteq> 0))
      in syn \<and> down = 1 \<and> left = 1 \<or> most down up left right \<or> most up down left right \<or> most left right down up \<or>
         most right left up down)"

definition pinchStage :: "int \<Rightarrow> int \<Rightarrow> 'x gesture_driver \<Rightarrow> 'x gesture_driver" where
  "pinchStage mx my d =
     (let act = fings5PinchAction (press (gestures d))
      in if cFingers (tp d) = 5 \<and> sint act > 0 \<and> packetsCount (tp d) > 3 \<and> (mx > 50 \<or> my > 50) \<and>
            fivePinch (movingFingers 80 d) (touchpadVendor (tp d) = STD_SYNAPTICS)
         then setMode MODE_5_FING_PINCH (pinchAction act d) else d)"

section \<open>The handler\<close>

definition Process_multiFingers_touch ::
  "(nat \<Rightarrow> u64) \<Rightarrow> (rat \<Rightarrow> rat) \<Rightarrow> int \<Rightarrow> int \<Rightarrow> int \<Rightarrow> 'x gesture_driver \<Rightarrow> 'x gesture_driver" where
  "Process_multiFingers_touch clock fl dx dy fid d =
     (let d = reads fid (countPacket d); mx = \<bar>totalX fid d\<bar>; my = \<bar>totalY fid d\<bar>
      in proceed (multiModeStage (Process_singlefinger_touch clock fl) fid d) (\<lambda>d.
         if packetsCount (tp d) = 1 then d
         else proceed (multiPressStage clock mx my d) (\<lambda>d.
           if isSwipe mx my fid d then proceed (agreeStage d) (swipeStage clock mx my fid) else pinchStage mx my d)))"

end
