(* ===== verification/Touchpad_Timers.thy ===== *)
theory Touchpad_Timers
  imports Touchpad_Multi
begin

text \<open>
  The handlers of the pointer timer, which spreads a motion over time, and of the scroll timer, which
  continues a scroll after the fingers are lifted: held scrolls, automatic scrolls and inertia. A handler
  that reconnects the touchpad accesses the device and may fail to return.
\<close>

section \<open>The pointer timer\<close>

text \<open>A reading of the clock that is not kept.\<close>

definition glance :: "(nat \<Rightarrow> u64) \<Rightarrow> 'e touch_driver \<Rightarrow> u64 \<times> 'e touch_driver" where
  "glance clock d = (clock (readings (gestures d)), onTouch (\<lambda>g. g\<lparr>readings := readings g + 1\<rparr>) d)"

definition isIgnored :: "'e touch_driver \<Rightarrow> bool" where
  "isIgnored d \<longleftrightarrow> palmDetected (gestures d) \<or> accidentalInput (gate d)"

text \<open>The number of steps of a motion, not more than its size or the delay.\<close>

definition pointerSteps :: "int \<Rightarrow> int \<Rightarrow> int \<Rightarrow> int \<Rightarrow> int" where
  "pointerSteps level delay dx dy =
     (let x = \<bar>dx\<bar>; y = \<bar>dy\<bar>;
          n = (if (x \<noteq> 0 \<and> level > x) \<or> (y \<noteq> 0 \<and> level > y)
               then (if x > y \<and> y \<noteq> 0 then y else if x \<noteq> 0 then x else level) else level)
      in if n > delay then delay else n)"

definition stepOf :: "int \<Rightarrow> int \<Rightarrow> int" where
  "stepOf n v =
     (let odd = (if v smod 2 = 0 then 0 else 1)
      in if v < 0 then (let q = (v - odd) sdiv n in if q = 0 then -1 else q)
         else if v > 0 then (let q = (v + odd) sdiv n in if q = 0 then 1 else q)
         else 0)"

text \<open>The next call of the timer; the number of steps may be 0, and then the division traps.\<close>

definition nextPointerStep :: "int \<Rightarrow> int \<Rightarrow> 'e touch_driver \<Rightarrow> 'e touch_driver" where
  "nextPointerStep delay n d =
     (if n = 0 then onTouch (\<lambda>g. g\<lparr>hung := True\<rparr>) d else setTimeout PointerTimer (nat (delay sdiv n)) d)"

definition movePointerStep :: "(nat \<Rightarrow> u64) \<Rightarrow> 'x gesture_driver \<Rightarrow> 'x gesture_driver" where
  "movePointerStep clock d =
     (let p = pointerPrefs (gestures d);
          delay = (if pAccelCustom p > 0 then uint (pAccelCustom p) else 15);
          dx = sint (pDx (smooth (gestures d))); dy = sint (pDy (smooth (gestures d)));
          n = pointerSteps (uint (pSmoothLevel p)) delay dx dy
      in if n = 0 \<and> (dx \<noteq> 0 \<or> dy \<noteq> 0) then onTouch (\<lambda>g. g\<lparr>hung := True\<rparr>) d
         else nextPointerStep delay n (movePointer clock (stepOf n dx) (stepOf n dy) (buttonState (gestures d)) d))"

definition EnhancePointerAcceleration ::
  "(nat \<Rightarrow> u64) \<Rightarrow> (rat \<Rightarrow> rat) \<Rightarrow> 's ps2dev \<Rightarrow> 'x gesture_driver \<Rightarrow> 's \<Rightarrow> ('x gesture_driver \<times> 's) option" where
  "EnhancePointerAcceleration clock fl D d s =
     (if isIgnored d \<or> \<not> pContinuousMove (gestures d) then Some (d, s)
      else
        (let (t, d) = glance clock d; since = t - lastDataTime (gestures d); p = pointerPrefs (gestures d)
         in if since > ucast (pAccelCustom p) * 1000000 then
              (if since > 3000000000 then reconnect D (Process_touch_end clock fl d) s
               else Some (nextPointerStep 15 (uint (pSmoothLevel p)) d, s))
            else Some (movePointerStep clock d, s)))"

section \<open>Inertia\<close>

text \<open>
  The speed \<open>cur\<close> of one axis falls from \<open>start\<close>: it changes each time the level has gone from 0 to its
  highest, which depends on how far the speed has fallen. The products with 0.66, 0.33, 0.75 and so on are
  compared with integers, for which the products are exact.
\<close>

definition maxLevel :: "u8 \<Rightarrow> int \<Rightarrow> int \<Rightarrow> u8" where
  "maxLevel depth start cur =
     (if 100 * \<bar>cur\<bar> > 66 * start then depth else if 100 * \<bar>cur\<bar> > 33 * start then depth + 1 else depth - 1)"

definition slower :: "int \<Rightarrow> int" where
  "slower cur = s16 (if cur > 0 then cur - 1 else cur + 1)"

definition inertiaTimeout :: "u8 \<Rightarrow> int \<Rightarrow> int \<Rightarrow> u8" where
  "inertiaTimeout delay start cur =
     (if delay < 4 then 1 else delay div 4) *
     (if 4 * cur > 3 * start then 1 else if 2 * cur > start then 2 else if 4 * cur > start then 3 else 5)"

definition quartered :: "(rat \<Rightarrow> rat) \<Rightarrow> rat \<Rightarrow> int \<Rightarrow> int" where
  "quartered fl f n = toInt (fl (fl (of_int n * f) / 4))"

definition ProcessInertia :: "(nat \<Rightarrow> u64) \<Rightarrow> (rat \<Rightarrow> rat) \<Rightarrow> bool \<Rightarrow> 'x gesture_driver \<Rightarrow> 'x gesture_driver" where
  "ProcessInertia clock fl vertical d =
     (let g = gestures d; s = scroll g; F = scrollF g; f = scrollFactor g;
          start = s16 \<bar>sint (if vertical then inertiaDeltaY g else inertiaDeltaX g)\<bar>;
          cur = sint (if vertical then curInertiaDeltaY s else curInertiaDeltaX s);
          top = (if inertiaLevel s = 0 then maxLevel (inertiaDepth F) start cur else maxInertiaLevel s);
          level = (if inertiaLevel s < top then inertiaLevel s + 1 else 0);
          new = (if level = 0 then slower cur else cur);
          d = onScroll (\<lambda>s. s\<lparr>maxInertiaLevel := top, inertiaLevel := level\<rparr>) d;
          d = (if vertical
               then onScroll (\<lambda>s. s\<lparr>curInertiaDeltaY := of_int new\<rparr>) (dispatchScroll clock (halved fl f cur) 0 d)
               else onScroll (\<lambda>s. s\<lparr>curInertiaDeltaX := of_int new\<rparr>) (dispatchScroll clock 0 (quartered fl f cur) d))
      in setTimeout ScrollTimer (unat (inertiaTimeout (inertiaDelay F) start (s16 \<bar>new\<bar>))) d)"

section \<open>The scroll timer\<close>

text \<open>The scroll goes on while the fingers rest; after a second without a packet it ends.\<close>

definition continueScroll ::
  "(nat \<Rightarrow> u64) \<Rightarrow> (rat \<Rightarrow> rat) \<Rightarrow> 's ps2dev \<Rightarrow> rat \<Rightarrow> 'x gesture_driver \<Rightarrow> 's \<Rightarrow> ('x gesture_driver \<times> 's) option" where
  "continueScroll clock fl D f d s =
     (let (t, d) = glance clock d
      in if t - lastDataTime (gestures d) > 1000000000 then do {
           (d, s) \<leftarrow> reconnect D d s;
           Some (StopScrollEnhanceTimer (Process_touch_end clock fl d), s)
         }
         else
           (let r = scroll (gestures d); d = cancelTimeout ScrollTimer d;
                d = dispatchScroll clock (halved fl f (sint (scrollDy r))) (halved fl f (sint (scrollDx r))) d
            in Some (setTimeout ScrollTimer (unat (accelDelay (scrollF (gestures d)))) d, s)))"

text \<open>Sling scrolls read the clock and nothing else: their code is commented out.\<close>

definition coast :: "(nat \<Rightarrow> u64) \<Rightarrow> (rat \<Rightarrow> rat) \<Rightarrow> rat \<Rightarrow> 'x gesture_driver \<Rightarrow> 'x gesture_driver" where
  "coast clock fl f d =
     (let g = gestures d
      in if doSling g then snd (glance clock d)
         else if doAuto g then
           (let d = cancelTimeout ScrollTimer d;
                d = dispatchScroll clock (quartered fl f (sint (inertiaDeltaY g))) (quartered fl f (sint (inertiaDeltaX g))) d
            in setTimeout ScrollTimer (unat (accelDelay (scrollF g))) d)
         else
           (let d = (if curInertiaDeltaY (scroll (gestures d)) \<noteq> 0 then ProcessInertia clock fl True d else d)
            in if curInertiaDeltaX (scroll (gestures d)) \<noteq> 0 then ProcessInertia clock fl False d else d))"

definition EnhanceScrollAcceleration ::
  "(nat \<Rightarrow> u64) \<Rightarrow> (rat \<Rightarrow> rat) \<Rightarrow> 's ps2dev \<Rightarrow> 'x gesture_driver \<Rightarrow> 's \<Rightarrow> ('x gesture_driver \<times> 's) option" where
  "EnhanceScrollAcceleration clock fl D d s =
     (if isIgnored d then Some (d, s)
      else
        (let g = gestures d; m = touchmode g;
             f = (if m = MODE_EDGE_HSCROLL \<or> m = MODE_EDGE_VSCROLL then edgeFactor fl d else scrollFactor g)
         in if inertiaDeltaX g = 0 \<and> inertiaDeltaY g = 0 then
              (let d = onTouch (\<lambda>g. g\<lparr>doTimerJob := False\<rparr>) d
               in if doCont (gestures d) then continueScroll clock fl D f d s
                  else Some (onScroll (\<lambda>r. r\<lparr>maxInertiaLevel := 0, inertiaLevel := 0\<rparr>) d, s))
            else Some (coast clock fl f d, s)))"

end
