(* ===== verification/Touchpad_Engine.thy ===== *)
theory Touchpad_Engine
  imports Touchpad_Timers
begin

text \<open>
  The gesture engine: what the calls of the packet decoders do.
\<close>

definition gestureEngine :: "(nat \<Rightarrow> u64) \<Rightarrow> (rat \<Rightarrow> rat) \<Rightarrow> 'x gesture_ext engine" where
  "gestureEngine clock fl c d =
     (case c of
        SingleFinger x y fid \<Rightarrow> Process_singlefinger_touch clock fl x y fid d
      | TwoFingers x1 x2 y1 y2 \<Rightarrow> Process_twofingers_touch clock fl x1 x2 y1 y2 d
      | MultiFingers dx dy fid \<Rightarrow> Process_multiFingers_touch clock fl dx dy fid d
      | TouchEnd \<Rightarrow> Process_touch_end clock fl d
      | ClickPadButtons p ty fid n \<Rightarrow> snd (Process_ClickPad_Virtual_Buttons clock p ty (of_int fid) n d)
      | ClickPad2F p ty dx1 dy1 dx2 dy2 \<Rightarrow> Process_ClickPad_2F clock fl p ty dx1 dy1 dx2 dy2 d)"

end
