(* ===== verification/Touchpad_ScrollLoop.thy ===== *)
theory Touchpad_ScrollLoop
  imports Touchpad_SynDecode
begin

text \<open>When the Synaptics decoder returns.\<close>

section \<open>The loops of the middle-button scroll\<close>

lemma scrollBackward_mod: "uint (scrollBackward m) = uint m mod 4"
proof (induction m rule: scrollBackward.induct)
  case (1 m)
  show ?case
  proof (cases "m \<ge> 4")
    case True
    then have "uint (m - 4) = uint m - 4" using uint_minus_simple_alt [of 4 m] by simp
    with 1 True show ?thesis by (subst scrollBackward.simps) (simp add: mod_diff_right_eq [symmetric])
  next
    case False
    then have "uint m < 4" by (simp add: word_le_def)
    with False show ?thesis by (subst scrollBackward.simps) simp
  qed
qed

lemma uint_plus_4_mod: "uint (m + 4 :: u32) mod 4 = uint m mod 4"
  by (simp add: uint_word_ariths mod_mod_cancel)

lemma scrollForward_Some: "scrollForward m = Some r \<Longrightarrow> uint m mod 4 \<noteq> 0"
proof (rule scrollForward.raw_induct [where P = "\<lambda>m r. uint m mod 4 \<noteq> 0"])
  fix f and m r :: u32
  assume IH: "\<And>m r. f m = Some r \<Longrightarrow> uint m mod 4 \<noteq> 0"
    and eq: "(if m \<le> 0xfffffffc then f (m + 4) else Some m) = Some r"
  show "uint m mod 4 \<noteq> 0"
  proof (cases "m \<le> 0xfffffffc")
    case True
    with eq have "f (m + 4) = Some r" by simp
    from IH [OF this] show ?thesis by (simp add: uint_plus_4_mod)
  next
    case False
    then have "uint m > 0xfffffffc" "uint m < 2 ^ 32" using uint_lt2p [of m] by (auto simp: word_le_def)
    then show ?thesis by simp presburger
  qed
qed

lemma scrollForward_ends:
  "uint m mod 4 \<noteq> 0 \<Longrightarrow> scrollForward m = Some (word_of_int (0xfffffffc + uint m mod 4))"
proof (induction "nat (2 ^ 32 - uint m)" arbitrary: m rule: less_induct)
  case less
  have lt: "uint m < 2 ^ 32" using uint_lt2p [of m] by simp
  show ?case
  proof (cases "m \<le> 0xfffffffc")
    case True
    then have le: "uint m \<le> 0xfffffffc" by (simp add: word_le_def)
    with less.prems have "uint m < 0xfffffffc" by (cases "uint m = 0xfffffffc") auto
    then have "uint (m + 4) = uint m + 4" by (simp add: uint_word_ariths)
    with less.hyps [of "m + 4"] less.prems lt True show ?thesis
      by (subst scrollForward.simps) (simp add: uint_plus_4_mod)
  next
    case False
    then have "uint m > 0xfffffffc" by (simp add: word_le_def)
    with lt have "0xfffffffc + uint m mod 4 = uint m" by simp presburger
    with False show ?thesis by (subst scrollForward.simps) simp
  qed
qed

lemma middleScroll_cases: "middleScroll m = (if even (uint m) then None else Some 0xfffffffe)"
proof -
  have d: "uint (scrollBackward (m + m)) = 2 * uint m mod 4"
    by (simp add: scrollBackward_mod uint_word_ariths mod_mod_cancel)
  show ?thesis
  proof (cases "even (uint m)")
    case True
    then have "2 * uint m mod 4 = 0" by presburger
    with d scrollForward_Some [of "scrollBackward (m + m)"] True show ?thesis
      by (cases "middleScroll m") (simp_all add: middleScroll_def)
  next
    case False
    then have "2 * uint m mod 4 = 2" by presburger
    with d False scrollForward_ends [of "scrollBackward (m + m)"] show ?thesis
      by (simp add: middleScroll_def)
  qed
qed

section \<open>The decoder\<close>

text \<open>The packets whose position is decoded, and the scroll value that is pending then.\<close>

definition withWidth :: "u8 list \<Rightarrow> 'e touch_driver \<Rightarrow> 'e touch_driver" where
  "withWidth p d = onTouch (\<lambda>g. g\<lparr>synW := widthOf (SYN_MODEL_NEWABS (model_id (synTPad (tp d)))) p\<rparr>) d"

definition decodesPosition :: "u8 list \<Rightarrow> 'e touch_driver \<Rightarrow> bool" where
  "decodesPosition p d \<longleftrightarrow>
     (let newabs = SYN_MODEL_NEWABS (model_id (synTPad (tp d)))
      in \<not> (newabs \<and> tracksTwoFingers (tp d) \<and> widthOf newabs p = 2) \<and>
         \<not> (primaryX newabs p < (if newabs then XMIN_NOMINAL div 2 else XMIN_NOMINAL) \<and> primaryZ newabs p > 0))"

definition pendingScroll :: "u8 list \<Rightarrow> 'e touch_driver \<Rightarrow> u32" where
  "pendingScroll p d =
     (let s = synTPad (tp d)
      in if SYN_MODEL_NEWABS (model_id s) \<and> \<not> isClickPad (tp d) \<and> SYN_CAP_MIDDLE_BUTTON (capabilities s) \<and>
            widthOf True p = 2
         then scast (p ! 1) else m_scroll (gestures d))"

lemma onTouch_tp [simp]: "tp (onTouch f d) = tp d" "gate (onTouch f d) = gate d"
  "gestures (onTouch f d) = f (gestures d)"
  by (simp_all add: onTouch_def)

lemma newabsButtons_keeps [simp]: "tp (newabsButtons p d) = tp d"
  by (simp add: newabsButtons_def Let_def)

definition withButtons :: "u8 list \<Rightarrow> 'e touch_driver \<Rightarrow> 'e touch_driver" where
  "withButtons p d =
     (if SYN_MODEL_NEWABS (model_id (synTPad (tp d))) then newabsButtons p (withWidth p d) else withWidth p d)"

lemma withButtons_keeps [simp]: "tp (withButtons p d) = tp d"
  by (simp add: withButtons_def withWidth_def)

lemma withButtons_scroll [simp]: "m_scroll (gestures (withButtons p d)) = pendingScroll p d"
  by (simp add: pendingScroll_def withButtons_def newabsButtons_def withWidth_def Let_def)

lemma Synaptics_report_absolute_eq:
  "Synaptics_report_absolute clock engine p d =
     (if decodesPosition p d then
        (if pendingScroll p d \<noteq> 0 then
           Option.bind (middleScroll (pendingScroll p d)) (\<lambda>m. Some (onTouch (\<lambda>g. g\<lparr>m_scroll := m\<rparr>) (withButtons p d)))
         else
           (let newabs = SYN_MODEL_NEWABS (model_id (synTPad (tp d))); x = wrapX (primaryX newabs p);
                y = wrapY (uint (ymax (tp d)) + uint (ymin (tp d)) - primaryY newabs p)
            in Some (if isPassThrough (tp d) p
                 then Process_passthrough_events_Synaptics clock engine x y p (withButtons p d)
                 else reportPrimary clock engine x y (primaryZ newabs p) p (withButtons p d))))
      else if SYN_MODEL_NEWABS (model_id (synTPad (tp d))) \<and> tracksTwoFingers (tp d) \<and> widthOf True p = 2
      then Some (reportExtended clock p (withWidth p d))
      else Some (invalidPrimary engine (withWidth p d)))"
proof -
  let ?n = "SYN_MODEL_NEWABS (model_id (synTPad (tp d)))"
  have b: "(if ?n then newabsButtons p (withWidth p d) else withWidth p d) = withButtons p d"
    by (simp add: withButtons_def)
  have w: "onTouch (\<lambda>g. g\<lparr>synW := widthOf ?n p\<rparr>) d = withWidth p d" "synW (gestures (withWidth p d)) = widthOf ?n p"
    "tp (withWidth p d) = tp d" by (simp_all add: withWidth_def)
  show ?thesis
    unfolding Synaptics_report_absolute_def Let_def w b withButtons_scroll withButtons_keeps decodesPosition_def
    by auto
qed

text \<open>
  C28: The Synaptics decoder does not return exactly on a packet with a position while an even scroll value
  is pending: its second loop compares an unsigned member with -4, so from a multiple of 4 it never leaves.
\<close>

theorem synaptics_decoder_hangs_iff:
  "Synaptics_report_absolute clock engine p d = None \<longleftrightarrow>
     decodesPosition p d \<and> pendingScroll p d \<noteq> 0 \<and> even (uint (pendingScroll p d))"
  by (simp add: Synaptics_report_absolute_eq middleScroll_cases Let_def)

text \<open>An odd scroll leaves an even one behind, so the next position is the last.\<close>

lemma scroll_then_position_hangs:
  assumes "decodesPosition p d" "odd (uint (pendingScroll p d))"
    "Synaptics_report_absolute clock engine p d = Some d1"
    "decodesPosition q d1" "pendingScroll q d1 = m_scroll (gestures d1)"
  shows "Synaptics_report_absolute clock engine q d1 = None"
proof -
  have "pendingScroll p d \<noteq> 0" using assms(2) by auto
  with assms(1,2,3) have "m_scroll (gestures d1) = 0xfffffffe"
    by (auto simp: Synaptics_report_absolute_eq middleScroll_cases)
  with assms(4,5) show ?thesis by (simp add: synaptics_decoder_hangs_iff)
qed

end
