(* ===== verification/Touchpad_Frame.thy ===== *)
theory Touchpad_Frame
  imports Touchpad_ScrollLoop
begin

text \<open>
  What the parts of the decoders leave alone: the hardware, the pending scroll and the slots of the
  fingers; and that they stay inside the array of fingers when the slots are known. All are equations,
  so that the simplifier carries them through the composition of a decoder.
\<close>

text \<open>The hardware a touchpad was found to have, and the framing of its packets.\<close>

type_synonym hardware = "u8 \<times> u8 \<times> synapticsStruct \<times> bool \<times> u16 \<times> bool \<times> u8 \<times> u8 list \<times> u8 \<times> u8"

definition hardware :: "touchpad \<Rightarrow> hardware" where
  "hardware t = (touchpadVendor t, hw_version t, synTPad t, isClickPad t, ymax t, disableTrackPoint t,
     pktsize t, packetBuffer t, packetByteCount t, modeSetTries t)"

text \<open>The hardware and the number of fingers.\<close>

definition board :: "touchpad \<Rightarrow> hardware \<times> u8" where
  "board t = (hardware t, cFingers t)"

lemma board_updates [simp]:
  "board (buttonData_update f t) = board t" "board (packetsCount_update f t) = board t"
  by (simp_all add: board_def hardware_def)

text \<open>The array has its six fingers and no access was outside it.\<close>

definition inside :: "'e touch_driver \<Rightarrow> bool" where
  "inside d \<longleftrightarrow> length (fing (gestures d)) = 6 \<and> \<not> oob (gestures d)"

text \<open>The ids a call of the gesture engine is made with are known, and for several fingers so is the last of them.\<close>

fun known_call :: "(int \<Rightarrow> bool) \<Rightarrow> touch_call \<Rightarrow> touchpad \<Rightarrow> bool" where
  "known_call known (SingleFinger x y i) t = known i"
| "known_call known (MultiFingers dx dy i) t = (known i \<and> known (uint (cFingers t) - 1))"
| "known_call known (ClickPadButtons p ty i n) t = known i"
| "known_call known c t = True"

named_theorems touch \<open>what a part of a decoder leaves alone\<close>

section \<open>Control structure\<close>

text \<open>
  Rules that carry a predicate through the lets, cases and conditions of a decoder without expanding them;
  they are used with \<open>P\<close> instantiated.
\<close>

lemma control_let: "P e \<Longrightarrow> (\<And>d. P d \<Longrightarrow> P (f d)) \<Longrightarrow> P (let d = e in f d)"
  by (simp add: Let_def)

lemma control_let_value: "(\<And>x. x = e \<Longrightarrow> P (f x)) \<Longrightarrow> P (let x = e in f x)"
  by (simp add: Let_def)

lemma control_let_pair:
  "P (snd e) \<Longrightarrow> (\<And>x d. P d \<Longrightarrow> P (f x d)) \<Longrightarrow> P (let (x, d) = e in f x d)"
  by (cases e) simp

lemma control_prod: "(\<And>x y. e = (x, y) \<Longrightarrow> P (f x y)) \<Longrightarrow> P (case e of (x, y) \<Rightarrow> f x y)"
  by (cases e) simp

lemma control_option:
  "P a \<Longrightarrow> (\<And>x. e = Some x \<Longrightarrow> P (b x)) \<Longrightarrow> P (case e of None \<Rightarrow> a | Some x \<Rightarrow> b x)"
  by (cases e) simp_all

lemma control_if: "(c \<Longrightarrow> P a) \<Longrightarrow> (\<not> c \<Longrightarrow> P b) \<Longrightarrow> P (if c then a else b)"
  by simp

lemmas control_rules = control_let control_let_pair control_option control_let_value control_prod control_if

section \<open>Elementary steps\<close>

lemma driver_simps [simp]:
  "overrun (onPad f d) = overrun d" "calls (onPad f d) = calls d" "overrun (onTouch g d) = overrun d" "calls (onTouch g d) = calls d"
  by (simp_all add: onPad_def onTouch_def)

lemma onPad_simps [simp]: "tp (onPad f d) = f (tp d)" "gestures (onPad f d) = gestures d" "gate (onPad f d) = gate d"
  by (simp_all add: onPad_def)

lemma hardware_updates [simp]:
  "hardware (cFingers_update f t) = hardware t" "hardware (buttonData_update f t) = hardware t"
  "hardware (packetsCount_update f t) = hardware t"
  by (simp_all add: hardware_def)

lemma inside_onTouch [touch]:
  "length (fing (f (gestures d))) = length (fing (gestures d)) \<Longrightarrow> oob (f (gestures d)) = oob (gestures d) \<Longrightarrow>
     inside (onTouch f d) = inside d"
  by (simp add: inside_def)

lemma inside_onPad [touch]: "inside (onPad f d) = inside d"
  by (simp add: inside_def)

lemma finger_steps [touch]:
  "inside (setFinger i f d) = (inside d \<and> isFinger i)" "inside (reads i d) = (inside d \<and> isFinger i)"
  "tp (setFinger i f d) = tp d" "tp (reads i d) = tp d" "gate (setFinger i f d) = gate d" "gate (reads i d) = gate d"
  "m_scroll (gestures (setFinger i f d)) = m_scroll (gestures d)" "m_scroll (gestures (reads i d)) = m_scroll (gestures d)"
  "pid (gestures (setFinger i f d)) = pid (gestures d)" "pid (gestures (reads i d)) = pid (gestures d)"
  "sid (gestures (setFinger i f d)) = sid (gestures d)" "sid (gestures (reads i d)) = sid (gestures d)"
  by (auto simp: inside_def setFinger_def reads_def)

lemma isFinger_simps [simp]: "isFinger 0" "isFinger 1" "isFinger 2" "isFinger 5" "\<not> isFinger (-1)"
  by (simp_all add: isFinger_def)

section \<open>Timers, buttons and the number of fingers\<close>

lemmas event_defs = dispatchRelativePointerPosition_def dispatchScrollDifference_def notifyKeyboard_def readClock_def

lemma timer_steps [touch]:
  "inside (StopPointerEnhanceTimer d) = inside d" "inside (StopScrollEnhanceTimer d) = inside d"
  "inside (stopPointer d) = inside d" "inside (cancelTimers d) = inside d"
  "tp (stopPointer d) = tp d" "tp (cancelTimers d) = tp d"
  "m_scroll (gestures (stopPointer d)) = m_scroll (gestures d)" "m_scroll (gestures (cancelTimers d)) = m_scroll (gestures d)"
  "pid (gestures (stopPointer d)) = pid (gestures d)" "pid (gestures (cancelTimers d)) = pid (gestures d)"
  "sid (gestures (stopPointer d)) = sid (gestures d)" "sid (gestures (cancelTimers d)) = sid (gestures d)"
  by (simp_all add: cancelTimers_def stopPointer_def StopPointerEnhanceTimer_def StopScrollEnhanceTimer_def
      cancelTimeout_def touch Let_def)

lemma dispatch_steps [touch]:
  "inside (releasePointer clock d) = inside d" "inside (dispatchButtons clock b d) = inside d"
  "tp (releasePointer clock d) = tp d" "tp (dispatchButtons clock b d) = tp d"
  "m_scroll (gestures (releasePointer clock d)) = m_scroll (gestures d)"
  "m_scroll (gestures (dispatchButtons clock b d)) = m_scroll (gestures d)"
  "pid (gestures (releasePointer clock d)) = pid (gestures d)" "pid (gestures (dispatchButtons clock b d)) = pid (gestures d)"
  "sid (gestures (releasePointer clock d)) = sid (gestures d)" "sid (gestures (dispatchButtons clock b d)) = sid (gestures d)"
  by (simp_all add: releasePointer_def dispatchButtons_def event_defs touch Let_def)

lemma clearDrag_steps [touch]:
  "isFinger (pid (gestures d)) \<Longrightarrow> inside (clearDrag clock d) = inside d"
  "hardware (tp (clearDrag clock d)) = hardware (tp d)"
  "m_scroll (gestures (clearDrag clock d)) = m_scroll (gestures d)"
  "pid (gestures (clearDrag clock d)) = pid (gestures d)" "sid (gestures (clearDrag clock d)) = sid (gestures d)"
  "cFingers (tp (clearDrag clock d)) = cFingers (tp d)"
  by (simp_all add: clearDrag_def touch Let_def)

lemma resetFingers_steps [touch]:
  "inside d \<Longrightarrow> inside (resetFingers d)" "tp (resetFingers d) = tp d"
  "m_scroll (gestures (resetFingers d)) = m_scroll (gestures d)"
  "pid (gestures (resetFingers d)) = pid (gestures d)" "sid (gestures (resetFingers d)) = sid (gestures d)"
  by (simp_all add: resetFingers_def inside_def Let_def)

lemma changeModes_steps [touch]:
  "fing (changeModes c g) = fing g" "oob (changeModes c g) = oob g" "m_scroll (changeModes c g) = m_scroll g"
  "pid (changeModes c g) = pid g" "sid (changeModes c g) = sid g"
  by (simp_all add: changeModes_def Let_def)

lemma updateSlots_steps [touch]:
  "inside (updateSlots d) = inside d" "tp (updateSlots d) = tp d"
  "m_scroll (gestures (updateSlots d)) = m_scroll (gestures d)"
  "isFinger (pid (gestures d)) \<Longrightarrow> isFinger (pid (gestures (updateSlots d)))"
  "\<not> tracksTwoFingers (tp d) \<or> touchpadVendor (tp d) \<noteq> STD_SYNAPTICS \<Longrightarrow> updateSlots d = d"
  by (auto simp: updateSlots_def touch Let_def)

lemma Process_fingers_change_steps [touch]:
  "isFinger (pid (gestures d)) \<Longrightarrow> inside d \<Longrightarrow> inside (Process_fingers_change clock d)"
  "hardware (tp (Process_fingers_change clock d)) = hardware (tp d)"
  "m_scroll (gestures (Process_fingers_change clock d)) = m_scroll (gestures d)"
  "cFingers (tp (Process_fingers_change clock d)) = cFingers (tp d)"
  by (simp_all add: Process_fingers_change_def touch Let_def)

lemma Process_Physical_Buttons_steps [touch]:
  "inside (Process_Physical_Buttons clock p d) = inside d"
  "hardware (tp (Process_Physical_Buttons clock p d)) = hardware (tp d)"
  "cFingers (tp (Process_Physical_Buttons clock p d)) = cFingers (tp d)"
  "m_scroll (gestures (Process_Physical_Buttons clock p d)) = m_scroll (gestures d)"
  "pid (gestures (Process_Physical_Buttons clock p d)) = pid (gestures d)"
  "sid (gestures (Process_Physical_Buttons clock p d)) = sid (gestures d)"
  by (simp_all add: Process_Physical_Buttons_def pressButton_def releaseButtons_def event_defs touch Let_def)

lemma Is2FingEdgeSwipe_steps [touch]:
  "inside (Is2FingEdgeSwipe d) = inside d" "tp (Is2FingEdgeSwipe d) = tp d"
  "m_scroll (gestures (Is2FingEdgeSwipe d)) = m_scroll (gestures d)"
  "pid (gestures (Is2FingEdgeSwipe d)) = pid (gestures d)" "sid (gestures (Is2FingEdgeSwipe d)) = sid (gestures d)"
  by (simp_all add: Is2FingEdgeSwipe_def touch Let_def)

section \<open>What belongs to the gesture engine\<close>

text \<open>The indices of samples, and the part of the state that belongs to the engine.\<close>

definition counters :: "'e touch_scheme \<Rightarrow> u8 \<times> u8 \<times> 'e" where
  "counters g = (skipSample (smooth g), cSample (smooth g), touch.more g)"

lemma counters_updates [simp]:
  "counters (smooth_update f g) = (skipSample (f (smooth g)), cSample (f (smooth g)), touch.more g)"
  "counters (fing_update f2 g) = counters g" "counters (oob_update f3 g) = counters g"
  "counters (timerCalls_update f4 g) = counters g" "counters (touchCalls_update f5 g) = counters g"
  "counters (pid_update f6 g) = counters g" "counters (sid_update f6 g) = counters g"
  by (simp_all add: counters_def)

lemma counters_steps [touch]:
  "counters (gestures (setFinger i f d)) = counters (gestures d)" "counters (gestures (reads i d)) = counters (gestures d)"
  "counters (gestures (StopPointerEnhanceTimer d)) = counters (gestures d)"
  "counters (gestures (StopScrollEnhanceTimer d)) = counters (gestures d)"
  "counters (gestures (stopPointer d)) = counters (gestures d)"
  "counters (gestures (dispatchButtons clock b d)) = counters (gestures d)"
  "counters (gestures (releasePointer clock d)) = counters (gestures d)"
  by (simp_all add: setFinger_def reads_def)
    (simp_all add: stopPointer_def StopPointerEnhanceTimer_def StopScrollEnhanceTimer_def cancelTimeout_def dispatchButtons_def
      releasePointer_def event_defs counters_def Let_def)

lemma counters_buttons [touch]:
  "counters (gestures (cancelTimers d)) = counters (gestures d)" "counters (gestures (clearDrag clock d)) = counters (gestures d)"
  "counters (gestures (updateSlots d)) = counters (gestures d)" "counters (gestures (resetFingers d)) = counters (gestures d)"
  "counters (gestures (pressButton clock b d)) = counters (gestures d)"
  "counters (gestures (releaseButtons clock d)) = counters (gestures d)"
  "counters (gestures (Is2FingEdgeSwipe d)) = counters (gestures d)" "counters (changeModes c g) = counters g"
proof -
  have t: "counters (gestures (onTouch f d)) = counters (gestures d)" if "counters (f (gestures d)) = counters (gestures d)"
    for f and d :: "'a touch_driver" using that by simp
  have c: "counters (g\<lparr>pContinuousMove := x\<rparr>) = counters g" for x and g :: "'a touch_scheme" by (simp add: counters_def)
  show "counters (gestures (cancelTimers d)) = counters (gestures d)"
    by (simp add: cancelTimers_def touch cancelTimeout_def Let_def)
  show "counters (gestures (updateSlots d)) = counters (gestures d)" "counters (gestures (resetFingers d)) = counters (gestures d)"
    by (simp_all add: updateSlots_def resetFingers_def Let_def)
  show "counters (gestures (clearDrag clock d)) = counters (gestures d)"
  proof -
    have "counters (g\<lparr>buttonState := 0, isDragging := False, isHoldDrag := False, isTapDrag := False, is3FDrag := False\<rparr>) =
      counters g" for g :: "'a touch_scheme" by (simp add: counters_def)
    then show ?thesis by (simp add: clearDrag_def touch Let_def)
  qed
  show "counters (gestures (pressButton clock b d)) = counters (gestures d)"
    by (simp add: pressButton_def touch) (simp add: counters_def)
  show "counters (gestures (releaseButtons clock d)) = counters (gestures d)"
    by (simp add: releaseButtons_def touch Let_def) (simp add: counters_def dispatchButtons_def event_defs Let_def)
  show "counters (gestures (Is2FingEdgeSwipe d)) = counters (gestures d)"
    by (simp add: Is2FingEdgeSwipe_def Let_def) (simp add: counters_def)
  show "counters (changeModes c g) = counters g"
    by (simp add: changeModes_def counters_def Let_def)
qed

lemma counters_change [touch]:
  "counters (gestures (Process_fingers_change clock d)) = (0, 0, touch.more (gestures d))"
proof -
  have m: "touch.more (gestures d) = snd (snd (counters (gestures d)))" for d :: "'a touch_driver"
    by (simp add: counters_def)
  have g: "counters (g\<lparr>lastSample := l\<rparr>) = counters g" "counters (g\<lparr>gestureTime := 0, holdTime := 0\<rparr>) = counters g"
    "touch.more g = snd (snd (counters g))" for l and g :: "'a touch_scheme"
    by (simp_all add: counters_def)
  have s: "counters (g\<lparr>touch_ended := False\<rparr>) = counters g" for g :: "'a touch_scheme" by (simp add: counters_def)
  have n: "skipSample noSmoothing = 0" "cSample noSmoothing = 0" by (simp_all add: noSmoothing_def)
  show ?thesis
    by (simp add: Process_fingers_change_def touch g s n Let_def)
qed

lemma counters_physical [touch]:
  "counters (gestures (Process_Physical_Buttons clock p d)) = counters (gestures d)"
proof -
  have "counters (g\<lparr>rightClick := True\<rparr>) = counters g" for g :: "'a touch_scheme" by (simp add: counters_def)
  then show ?thesis by (simp add: Process_Physical_Buttons_def touch Let_def)
qed

end
