(* ===== verification/Touchpad_Keeps.thy ===== *)
theory Touchpad_Keeps
  imports Touchpad_Engine Touchpad_Frame
begin

text \<open>
  What the gesture engine keeps, proved once for any predicate that its elementary steps keep: the locale
  below names these steps, and its lemmas carry the predicate through every operation of the engine. The
  interpretations are in Touchpad_Bounds.
\<close>

section \<open>Control structure\<close>

text \<open>As the control rules of the decoders, for results that hold the driver as a component.\<close>

lemma let_into: "P e \<Longrightarrow> (\<And>d. P d \<Longrightarrow> Q (f d)) \<Longrightarrow> Q (let d = e in f d)"
  by (simp add: Let_def)

lemma let_into_pair: "P (snd e) \<Longrightarrow> (\<And>x d. P d \<Longrightarrow> Q (f x d)) \<Longrightarrow> Q (let (x, d) = e in f x d)"
  by (cases e) simp

lemma let_into_triple:
  "P (snd (snd e)) \<Longrightarrow> (\<And>x y d. P d \<Longrightarrow> Q (f x y d)) \<Longrightarrow> Q (let (x, y, d) = e in f x y d)"
  by (cases e) simp

lemma let_into_quad:
  "P (snd (snd (snd e))) \<Longrightarrow> (\<And>x y z d. P d \<Longrightarrow> Q (f x y z d)) \<Longrightarrow> Q (let (x, y, z, d) = e in f x y z d)"
  by (cases e) simp

lemma proceed_into: "P (snd r) \<Longrightarrow> (\<And>d. P d \<Longrightarrow> P (f d)) \<Longrightarrow> P (proceed r f)"
  by (simp add: proceed_def)

lemma fold_into: "(\<And>x d. x \<in> set xs \<Longrightarrow> P d \<Longrightarrow> P (g x d)) \<Longrightarrow> P d \<Longrightarrow> P (fold g xs d)"
  by (induction xs arbitrary: d) simp_all

section \<open>The part of the state that matters\<close>

text \<open>The array of fingers and its slots, the indices of samples, the configured numbers of samples, and the flags.\<close>

definition core :: "'x gesture_scheme \<Rightarrow>
    (nat \<times> bool \<times> int \<times> int \<times> u32) \<times> (u8 \<times> u8 \<times> u8) \<times> u8 \<times> u8" where
  "core g = ((length (fing g), oob g, pid g, sid g, m_scroll g),
     (skipSample (smooth g), cSample (smooth g), scrollSample (scroll g)),
     pSmoothSamples (pointerPrefs g), smoothSamples (scrollF g))"

locale gesture_frame =
  fixes P :: "'x gesture_driver \<Rightarrow> bool" and known :: "int \<Rightarrow> bool"
    and B :: "hardware \<times> u8"
  assumes board: "P d \<Longrightarrow> board (tp d) = B"
    and touchI: "P d \<Longrightarrow> core (f (gestures d)) = core (gestures d) \<Longrightarrow> P (onTouch f d)"
    and padI: "P d \<Longrightarrow> board (t (tp d)) = board (tp d) \<Longrightarrow> P (onPad t d)"
    and gateI: "P d \<Longrightarrow> P (onGate h d)"
    and fingerI: "P d \<Longrightarrow> known i \<Longrightarrow> P (setFinger i u d)"
    and readsI: "P d \<Longrightarrow> known i \<Longrightarrow> P (reads i d)"
    and slots: "P d \<Longrightarrow> known (pid (gestures d))" "P d \<Longrightarrow> known (sid (gestures d))"
    and known_first: "known 0" "known 1"
    and known_byte: "known i \<Longrightarrow> known (uint (of_int i :: u8))"
    and pressureI: "P d \<Longrightarrow> P (setSample (unat (scrollSample (scroll (gestures d)))) s d)"
    and recordI: "P d \<Longrightarrow> P (recordScroll mx my d)"
    and sampleI: "P d \<Longrightarrow> known i \<Longrightarrow> pSmoothSamples (pointerPrefs (gestures d)) > 0 \<Longrightarrow> P (sampleMotion v i d)"
    and sampleTwoI: "P d \<Longrightarrow> smoothSamples (scrollF (gestures d)) > 0 \<Longrightarrow> P (sampleTwo w d)"
    and holdI: "P d \<Longrightarrow> P (holdMotion clock v d)"
    and replayI: "P d \<Longrightarrow> P (replayMotion clock d)"
    and skipI: "P d \<Longrightarrow> P (skipScroll sv d)"
    and flushI: "P d \<Longrightarrow> P (flushSkipped clock scale d)"
    and secondI: "P d \<Longrightarrow> P (secondSlot d)"
    and endI: "P d \<Longrightarrow> touchpadVendor (tp d) = STD_SYNAPTICS \<Longrightarrow> P (onTouch (resetTouch b) d)"
begin

lemmas into = let_into [where P = P and Q = P] let_into_pair [where P = P and Q = P]
  let_into_triple [where P = P and Q = P] let_into_quad [where P = P and Q = P]
  let_into [where P = P and Q = "\<lambda>r. P (snd r)"] let_into_pair [where P = P and Q = "\<lambda>r. P (snd r)"]
  let_into [where P = P and Q = "\<lambda>r. P (snd (snd r))"] let_into_pair [where P = P and Q = "\<lambda>r. P (snd (snd r))"]
  let_into [where P = P and Q = "\<lambda>r. P (snd (snd (snd r)))"]
  control_let_value [where P = P] control_let_value [where P = "\<lambda>r. P (snd r)"]
  control_let_value [where P = "\<lambda>r. P (snd (snd r))"] control_let_value [where P = "\<lambda>r. P (snd (snd (snd r)))"]
  control_if [where P = P] control_if [where P = "\<lambda>r. P (snd r)"]
  control_if [where P = "\<lambda>r. P (snd (snd r))"] control_if [where P = "\<lambda>r. P (snd (snd (snd r)))"]
  control_option [where P = P] control_option [where P = "\<lambda>r. P (snd r)"]
  control_prod [where P = P] control_prod [where P = "\<lambda>r. P (snd r)"]
  proceed_into [where P = P]

lemmas elementary [simp] = gateI fingerI readsI slots known_first known_byte pressureI recordI sampleI sampleTwoI
  holdI replayI skipI flushI secondI

lemma same_board: "P d \<Longrightarrow> P e \<Longrightarrow> board (tp d) = board (tp e)"
  using board [of d] board [of e] by simp

lemma same_vendor: "P d \<Longrightarrow> P e \<Longrightarrow> touchpadVendor (tp d) = touchpadVendor (tp e)"
  using same_board [of d e] by (simp add: board_def hardware_def)

lemma same_fingers: "P d \<Longrightarrow> P e \<Longrightarrow> cFingers (tp d) = cFingers (tp e)"
  using same_board [of d e] by (simp add: board_def)

section \<open>Parts of the state, events and timers\<close>

lemma parts [simp]:
  assumes "P d"
  shows "(\<And>s. scrollSample (f1 s) = scrollSample s) \<Longrightarrow> P (onScroll f1 d)"
    "(\<And>s. cSample (f2 s) = cSample s) \<Longrightarrow> (\<And>s. skipSample (f2 s) = skipSample s) \<Longrightarrow> P (onSmooth f2 d)"
    "(\<And>s. smoothSamples (f3 s) = smoothSamples s) \<Longrightarrow> P (onScrollF f3 d)"
    "P (onTap f4 d)" "P (onZoom f5 d)" "P (onSwipe f6 d)" "P (onButton f7 d)" "P (onBacklight f8 d)"
    "P (onDrag f9 d)" "P (onPress f10 d)" "P (onCorner f11 d)" "P (setMode m d)"
  using assms
  by (simp_all add: touchI core_def onScroll_def onSmooth_def onScrollF_def onTap_def onZoom_def onSwipe_def onButton_def
      onBacklight_def onDrag_def onPress_def onCorner_def setMode_def)

lemma events [simp]:
  assumes "P d"
  shows "P (movePointer clock dx dy b d)" "P (notify code d)" "P (absolutePointer x y b d)" "P (nudge clock e d)"
    "P (dispatchScroll clock y' x' d)" "P (setTimeout t n d)" "P (cancelTimeout t d)" "P (onTouch (readClock clock) d)"
  using assms
  by (simp_all add: touchI core_def movePointer_def notify_def absolutePointer_def nudge_def dispatchScroll_def setTimeout_def
      cancelTimeout_def event_defs Let_def)

lemma stops [simp]:
  assumes "P d"
  shows "P (StopPointerEnhanceTimer d)" "P (StopScrollEnhanceTimer d)" "P (stopPointer d)" "P (countPacket d)"
    "P (clearButtons d)" "P (releaseAppSwitch d)" "P (ResetPointerToMiddle d)" "P (pressed d)" "P (endTaps d)"
  using assms
  by (simp_all add: touchI padI core_def StopPointerEnhanceTimer_def StopScrollEnhanceTimer_def stopPointer_def countPacket_def
      clearButtons_def releaseAppSwitch_def ResetPointerToMiddle_def pressed_def endTaps_def Let_def)

lemma both [simp]: "P d \<Longrightarrow> P (bothFingers f d)"
  by (simp add: bothFingers_def)

lemma openNC [simp]: "P d \<Longrightarrow> P (Open_NC d)"
  unfolding Open_NC_def by ((intro into)?; simp add: touchI core_def)


section \<open>Edge swipes and presses\<close>

lemma swipes [simp]:
  assumes "P d"
  shows "P (Dispatch_edgeSwipe act dir d)" "known i \<Longrightarrow> P (resetStart upd i to d)"
proof -
  show "P (Dispatch_edgeSwipe act dir d)"
    using assms unfolding Dispatch_edgeSwipe_def by ((intro into)?; simp add: touchI core_def)
  show "P (resetStart upd i to d)" if "known i"
    using assms that unfolding resetStart_def by ((intro into)?; simp)
qed

lemma edgeSwipe [simp]:
  assumes "P d" "known i"
  shows "P (edgeSwipeLeft x i d)" "P (edgeSwipeRight x i d)" "P (edgeSwipeBottom x i d)" "P (edgeSwipeTop x i d)"
    "P (Process_edgeSwipe x y i d)"
proof -
  have *: "P (edgeSwipeLeft x i d)" "P (edgeSwipeRight x i d)" "P (edgeSwipeBottom x i d)" "P (edgeSwipeTop x i d)" if "P d"
    for x d
    using that assms(2) unfolding edgeSwipeLeft_def edgeSwipeRight_def edgeSwipeBottom_def edgeSwipeTop_def
    by ((intro into)?; simp add: touchI core_def)+
  show "P (edgeSwipeLeft x i d)" "P (edgeSwipeRight x i d)" "P (edgeSwipeBottom x i d)" "P (edgeSwipeTop x i d)"
    by (simp_all add: * assms)
  show "P (Process_edgeSwipe x y i d)"
    using assms unfolding Process_edgeSwipe_def by ((intro into)?; simp add: *)
qed

lemma fingersPress [simp]:
  assumes "P d"
  shows "P (pressDrag m d)" "P (pressAction act d)" "P (Proces_Fingers_Press n d)"
proof -
  have *: "P (pressDrag m d)" "P (pressAction act d)" if "P d" for m act d
    using that unfolding pressDrag_def pressAction_def by ((intro into)?; simp add: touchI core_def)+
  show "P (pressDrag m d)" "P (pressAction act d)" by (simp_all add: * assms)
  show "P (Proces_Fingers_Press n d)"
    using assms unfolding Proces_Fingers_Press_def by ((intro into)?; simp add: * touchI core_def)
qed

section \<open>Notifications\<close>

lemma toggles [simp]:
  assumes "P d"
  shows "(\<And>d. P d \<Longrightarrow> P (toggle d)) \<Longrightarrow> P (toggleThenNudge clock feature toggle d)"
    "P (toggleFeature clock data d)"
proof -
  have *: "P (toggleThenNudge clock feature toggle d)" if "\<And>d. P d \<Longrightarrow> P (toggle d)" for clock feature toggle
    using assms that by (simp add: toggleThenNudge_def Let_def)
  show "P (toggleThenNudge clock feature toggle d)" if "\<And>d. P d \<Longrightarrow> P (toggle d)"
    using that by (rule *)
  show "P (toggleFeature clock data d)"
    by (simp add: toggleFeature_def * assms touchI core_def)
qed

lemma notifications [simp]:
  assumes "P d"
  shows "P (notifyAccidentalInput d)" "P (notifyEnable d)" "P (notifyESC clock d)" "P (notifyShift d)"
    "P (notifyBackLight clock data d)" "P (contextMenu clock d)" "P (keyboardNotification clock fl data d)"
proof -
  have *: "P (notifyAccidentalInput d)" "P (notifyEnable d)" "P (notifyESC clock d)" "P (notifyShift d)"
    "P (notifyBackLight clock data d)" "P (contextMenu clock d)" if "P d" for d
    using that unfolding notifyAccidentalInput_def notifyEnable_def notifyESC_def notifyShift_def notifyBackLight_def contextMenu_def
    by ((intro into)?; simp add: touchI core_def clearDragStates_def)+
  show "P (notifyAccidentalInput d)" "P (notifyEnable d)" "P (notifyESC clock d)" "P (notifyShift d)"
    "P (notifyBackLight clock data d)" "P (contextMenu clock d)" by (simp_all add: * assms)
  show "P (keyboardNotification clock fl data d)"
    using assms unfolding keyboardNotification_def by ((intro into)?; simp add: * touchI core_def)
qed

lemma timers [simp]:
  assumes "P d"
  shows "P (ControlfKeybrdBackLight clock d)" "P (Release_ButtonsAndDrag clock d)" "P (ProcessFeaturesToggle clock d)"
proof -
  show "P (ControlfKeybrdBackLight clock d)" "P (Release_ButtonsAndDrag clock d)"
    using assms unfolding ControlfKeybrdBackLight_def Release_ButtonsAndDrag_def
    by ((intro into)?; simp add: touchI core_def clearDragStates_def)+
  have next': "P (nextMode clock l upd n e)" if "\<And>f d. P d \<Longrightarrow> P (upd f d)" "P e" for l upd n e
    using that by (simp add: nextMode_def)
  have t: "P (singleTap clock e)" "P (doubleTap clock e)" "P (tripleTap clock e)" if "P e" for e
    using that unfolding singleTap_def doubleTap_def tripleTap_def
    by ((intro into)?; simp add: touchI padI core_def next')+
  show "P (ProcessFeaturesToggle clock d)"
    using assms unfolding ProcessFeaturesToggle_def by ((intro into)?; simp add: t)
qed

section \<open>Click pads\<close>

lemma clickPad [simp]:
  assumes "P d" "known (uint i)"
  shows "P (snd (Process_ClickPad_Virtual_Buttons clock p ty i n d))"
proof -
  have one: "P (snd (clickOneFinger j e))" if "P e" "known j" for j e
    using that unfolding clickOneFinger_def by ((intro into)?; simp add: touchI padI core_def)
  have keep: "P (keepButton e)" if "P e" for e
    using that unfolding keepButton_def by ((intro into)?; simp add: touchI padI core_def)
  have two: "P (clickTwoFingers e)" if "P e" for e
    using that unfolding clickTwoFingers_def by ((intro into)?; simp add: touchI padI core_def keep Let_def)
  have down: "P (clickDown clock e)" "P (clickUp clock e)" if "P e" for e
    using that unfolding clickDown_def clickUp_def by ((intro into)?; simp add: touchI padI core_def clearDragStates_def)+
  show ?thesis
    using assms unfolding Process_ClickPad_Virtual_Buttons_def by ((intro into)?; simp add: touchI core_def one two down)
qed

section \<open>Scrolling\<close>

lemma scrollLoop_into:
  assumes "\<And>i s. Q s \<Longrightarrow> Q (snd (turn i s))" "Q s"
  shows "Q (scrollLoop turn c i s)"
  using assms
proof (induction turn c i s rule: scrollLoop.induct)
  case (1 turn c i s)
  obtain k s' where t: "turn i s = (k, s')" by fastforce
  then have "Q s'" using 1(2) [of s i] 1(3) by simp
  then show ?case using 1 t by (simp add: scrollLoop.simps [of turn c i s])
qed

lemma turn:
  assumes "P d"
  shows "P (snd (snd (turnDelta mx my i v d)))" "P (snd (snd (scrollTurn m mx my i (v, d))))"
    "P (snd (scrollDeltas m mx my d))"
proof -
  have axis: "P (chooseAxis mx my e)" "P (snd (smoothBoth mx my v e))" if "P e" for v e
    using that unfolding chooseAxis_def smoothBoth_def by ((intro into)?; simp)+
  have delta: "P (snd (snd (turnDelta mx my i v e)))" if "P e" for i v e
    using that unfolding turnDelta_def by ((intro into)?; simp add: axis)
  then show "P (snd (snd (turnDelta mx my i v d)))" using assms .
  have t: "P (snd (snd (scrollTurn m mx my i (v, e))))" if "P e" for i v e
    using delta [OF that] unfolding scrollTurn_def by (simp add: Let_def case_prod_beta)
  then show "P (snd (snd (scrollTurn m mx my i (v, d))))" using assms .
  show "P (snd (scrollDeltas m mx my d))"
    unfolding scrollDeltas_def by (rule scrollLoop_into) (use assms t in auto)
qed

lemma direction [simp]:
  assumes "P d"
  shows "P (changeDirection mx my v d)" "P (countLevel mx my v d)" "P (snd (scrollDirection mx my v d))"
proof -
  have r: "P (restart f e)" if "P e" "\<And>s. scrollSample (f s) = scrollSample s" for f e
    using that unfolding restart_def by (simp add: padI)
  show "P (changeDirection mx my v d)" "P (countLevel mx my v d)"
    using assms unfolding changeDirection_def countLevel_def by ((intro into)?; simp add: r)+
  have e: "P (edgeDirection mx my e)" "P (twoDirection mx my e)" "P (snd (heldStill cont sling (v, e)))" if "P e" for e cont sling v
    using that unfolding edgeDirection_def twoDirection_def heldStill_def
    by ((intro into)?; simp add: twoDirectionX_def twoDirectionY_def Let_def)+
  show "P (snd (scrollDirection mx my v d))"
    using assms unfolding scrollDirection_def by ((intro into)?; simp add: e Let_def)
qed

lemma speeds [simp]:
  assumes "P d"
  shows "P (startScroll d)" "P (startIfIdle d)" "P (noSpeed d)" "P (stopCont d)" "P (bothSpeeds f d)"
  using assms unfolding startIfIdle_def startScroll_def noSpeed_def stopCont_def bothSpeeds_def
  by (simp_all add: touchI core_def Let_def)

lemma circular [simp]: "P d \<Longrightarrow> P (circularScroll clock fl mx my v d)"
proof -
  have c: "P (snd (circularDelta mx my (v, e)))" "P (circularSpeed clock fl mx my e)" if "P e" for v e
    using that unfolding circularDelta_def circularSpeed_def
    by ((intro into)?; simp add: touchI core_def Let_def)+
  show "P d \<Longrightarrow> P (circularScroll clock fl mx my v d)"
    unfolding circularScroll_def by ((intro into)?; simp add: c)
qed

lemma slow [simp]: "P d \<Longrightarrow> P (slowScroll clock fl m my z v d)"
proof -
  have c: "P (snd (snd (snd (slowMode fl z v e))))" "P (slowSpeed clock fl m my b f v e)" if "P e" for v e b f
    using that unfolding slowMode_def slowSpeed_def
    by ((intro into)?; simp add: touchI core_def Let_def)+
  show "P d \<Longrightarrow> P (slowScroll clock fl m my z v d)"
    unfolding slowScroll_def by ((intro into)?; simp add: c)
qed

lemma fast [simp]: "P d \<Longrightarrow> P (fastScroll clock fl m z v d)"
proof -
  have c: "P (snd (snd (snd (fastMode fl z v e))))" if "P e" for v e
    using that unfolding fastMode_def by ((intro into)?; simp add: Let_def)+
  show "P d \<Longrightarrow> P (fastScroll clock fl m z v d)"
    unfolding fastScroll_def by ((intro into)?; simp add: c touchI core_def)
qed

lemma scroll [simp]: "P d \<Longrightarrow> P (Process_scroll clock fl m mx my z d)"
  unfolding Process_scroll_def by ((intro into)?; simp add: turn)

section \<open>The end of a touch, but for the reset\<close>

lemma actions [simp]:
  assumes "P d"
  shows "P (tapAction act d)" "P (clickTap clock d)" "P (oneFingerTap clock d)" "P (endCornerTap clock d)"
    "P (actOnTap clock n d)" "P (countTap n d)" "P (toggleTaps t d)" "P (stampTap clock d)" "P (endSwipe d)"
proof -
  have t: "P (tapAction act e)" "P (clickTap clock e)" if "P e" for act e
    using that unfolding tapAction_def clickTap_def
    by ((intro into)?; simp add: touchI padI core_def clearDragStates_def)+
  then show "P (tapAction act d)" "P (clickTap clock d)" by (simp_all add: assms)
  show "P (oneFingerTap clock d)" "P (endCornerTap clock d)" "P (actOnTap clock n d)" "P (countTap n d)" "P (toggleTaps t d)"
    "P (stampTap clock d)" "P (endSwipe d)"
    using assms unfolding oneFingerTap_def endCornerTap_def actOnTap_def countTap_def toggleTaps_def stampTap_def endSwipe_def
    by ((intro into)?; simp add: touchI padI core_def t)+
qed

lemma endings [simp]:
  assumes "P d"
  shows "P (fewFingersTap clock n d)" "P (manyFingersTap clock n d)" "P (endScroll d)" "P (endGesture clock d)"
    "P (startReleaseTimers d)"
proof -
  have c: "P (chooseInertia e)" if "P e" for e
    using that unfolding chooseInertia_def by ((intro into)?; simp add: touchI core_def Let_def)
  have i: "P (startInertia k e)" if "P e" for k e
    using that unfolding startInertia_def by ((intro into)?; simp add: touchI core_def c)
  have t: "P (fewFingersTap clock n e)" "P (manyFingersTap clock n e)" "P (endScroll e)" if "P e" for n e
    using that unfolding fewFingersTap_def manyFingersTap_def endScroll_def by ((intro into)?; simp add: i)+
  then show "P (fewFingersTap clock n d)" "P (manyFingersTap clock n d)" "P (endScroll d)" by (simp_all add: assms)
  show "P (endGesture clock d)"
    using assms by (simp add: endGesture_def t Let_def split: touch_mode.split)
  show "P (startReleaseTimers d)"
    using assms unfolding startReleaseTimers_def releaseLater_def by ((intro into)?; simp add: touchI core_def)
qed

end

end
