(* ===== verification/Touchpad_KeepsEngine.thy ===== *)
theory Touchpad_KeepsEngine
  imports Touchpad_Keeps
begin

text \<open>
  The second part of what the gesture engine keeps: the handlers of one, two and more fingers, the end of a
  touch, and the engine as a whole.
\<close>

context gesture_frame
begin

section \<open>The end of a touch\<close>

lemma touchEnd:
  assumes "P d" "\<And>e b. P e \<Longrightarrow> P (onTouch (resetTouch b) e)"
  shows "P (Process_touch_end clock fl d)"
  using assms unfolding Process_touch_end_def by ((intro into)?; simp add: padI)

section \<open>One finger\<close>

lemma oneFinger [simp]:
  assumes "P d"
  shows "known i \<Longrightarrow> P (startEdgeSwipe x y i d)" "P (countMotion v d)" "known i \<Longrightarrow> P (takeSample v i d)"
    "known i \<Longrightarrow> P (snd (edgeSwipeStage v i d))" "P (snd (cornerTapStage clock v i d))" "P (snd (modeStage d))"
    "P (quickTapStage clock d)" "P (snd (edgeScrollStage v i d))" "P (dragStage d)"
proof -
  show "known i \<Longrightarrow> P (startEdgeSwipe x y i d)" "P (countMotion v d)" "known i \<Longrightarrow> P (takeSample v i d)"
    "known i \<Longrightarrow> P (snd (edgeSwipeStage v i d))"  "P (snd (modeStage d))"
    "P (quickTapStage clock d)" "P (snd (edgeScrollStage v i d))" "P (dragStage d)"
    using assms unfolding startEdgeSwipe_def countMotion_def takeSample_def edgeSwipeStage_def modeStage_def
      quickTapStage_def edgeScrollStage_def dragStage_def
    by ((intro into)?; simp add: touchI padI core_def Let_def)+
  have "P (noCorner e)" if "P e" for e using that by (simp add: noCorner_def)
  then show "P (snd (cornerTapStage clock v i d))"
    using assms unfolding cornerTapStage_def by ((intro into)?; simp)
qed

lemma motion [simp]:
  assumes "P d"
  shows "P (snd (motionStage clock v i b d))" "P (afterMotion v i b d)"
proof -
  have s: "P (pointerSpeed v i e)" "P (dispatchMotion clock e)" "P (pressStage v i e)" if "P e" for e
    using that unfolding pointerSpeed_def dispatchMotion_def pressStage_def
    by ((intro into)?; simp add: touchI core_def Let_def)+
  show "P (snd (motionStage clock v i b d))" "P (afterMotion v i b d)"
    using assms unfolding motionStage_def afterMotion_def by ((intro into)?; simp add: s)+
qed

lemma tap [simp]:
  assumes "P d"
  shows "P (snd (snd (tapStage clock fl v i d)))"
proof -
  have "P (Process_touch_end clock fl (setMode MODE_1_FING_TAP d))" if "touchpadVendor (tp d) = STD_SYNAPTICS"
  proof (rule touchEnd)
    show "P (setMode MODE_1_FING_TAP d)" using assms by simp
    show "P (onTouch (resetTouch b) e)" if "P e" for e b
      by (rule endI) (use that same_vendor [OF that assms] \<open>touchpadVendor (tp d) = STD_SYNAPTICS\<close> in simp_all)
  qed
  with assms show ?thesis
    unfolding tapStage_def by ((intro into)?; simp add: touchI core_def Let_def)
qed

lemma move [simp]: "P d \<Longrightarrow> P (moveStage clock fl v i d)"
  unfolding moveStage_def by ((intro into)?; simp)

lemma holds [simp]:
  assumes "P d"
  shows "P (holdStage clock b d)" "P (slingStage b y d)"
  using assms unfolding holdStage_def slingStage_def by ((intro into)?; simp add: touchI core_def Let_def)+

lemma edgeScrolls [simp]:
  assumes "P d"
  shows "P (edgeScrolling clock fl v i d)" "P (circularScrolling clock fl v d)" "P (touchModeStage clock fl v i d)"
proof -
  show *: "P (edgeScrolling clock fl v i d)" "P (circularScrolling clock fl v d)"
    using assms unfolding edgeScrolling_def circularScrolling_def by ((intro into)?; simp add: touchI core_def Let_def)+
  show "P (touchModeStage clock fl v i d)"
    using assms unfolding touchModeStage_def by ((intro into)?; simp add: *)
qed

lemma single [simp]:
  assumes "P d" "known i"
  shows "P (Process_singlefinger_touch clock fl x y i d)"
proof -
  have p: "P (proceed (edgeSwipeStage v i e) (\<lambda>e. proceed (cornerTapStage clock v i e) (\<lambda>e. proceed (modeStage e) (\<lambda>e.
      proceed (edgeScrollStage v i (quickTapStage clock e)) (touchModeStage clock fl v i)))))" if "P e" for v e
    using that assms(2) by (intro proceed_into [where P = P]) simp_all
  show ?thesis
    using assms unfolding Process_singlefinger_touch_def by ((intro into)?; simp add: p Let_def)
qed

section \<open>Two fingers\<close>

lemma twoStages [simp]:
  assumes "P d"
  shows "P (zoomDistance w d)" "P (snd (lightStage w d))" "P (snd (twoEdgeStage w d))" "P (circularStage w d)"
    "P (snd (rotateZoomStage w d))" "P (twoScrollStage clock fl w d)" "P (twoPressStage clock w d)" "P (twoTapStage w d)"
proof -
  show "P (zoomDistance w d)" "P (snd (lightStage w d))" "P (snd (twoEdgeStage w d))" "P (circularStage w d)" "P (twoTapStage w d)"
    using assms unfolding zoomDistance_def lightStage_def twoEdgeStage_def circularStage_def twoTapStage_def
    by ((intro into)?; simp add: touchI padI core_def Let_def)+
  have r: "P (straightRotate w e)" "P (diagonalRotate a b e)" "P (rotateMode e)" "P (snd (zoomStage w e))" "P (noPress e)"
    if "P e" for a b e
    using that unfolding straightRotate_def diagonalRotate_def rotateMode_def rotateTo_def zoomStage_def noPress_def
    by ((intro into)?; simp add: touchI core_def Let_def)+
  show "P (snd (rotateZoomStage w d))"
    using assms unfolding rotateZoomStage_def by ((intro into)?; simp add: r Let_def)
  have b: "P (scrollBy clock fl mx my z t e)" if "P e" for mx my z t e
  proof -
    define e' where "e' = Process_scroll clock fl (accelMode2F (scrollF (gestures e))) mx my z e"
    have e': "P e'" using that by (simp add: e'_def)
    have s: "P (setSample (unat (scrollSample (scroll (gestures e')))) f (reads j e'))" if "known j" for f j
      using pressureI [OF readsI [OF e' that], of f] by (simp add: reads_def)
    show ?thesis
      unfolding scrollBy_def Let_def e'_def [symmetric] by (rule s) (simp add: slots e')
  qed
  have s: "P (scrollTwo clock fl w e)" if "P e" for e
    using that unfolding scrollTwo_def by ((intro into)?; simp add: b Let_def)
  show "P (twoScrollStage clock fl w d)"
    using assms unfolding twoScrollStage_def by ((intro into)?; simp add: s)
  show "P (twoPressStage clock w d)"
    using assms unfolding twoPressStage_def by ((intro into)?; simp add: r Let_def)
qed

lemma twoMode [simp]:
  assumes "P d" "\<And>x y i d. P d \<Longrightarrow> known i \<Longrightarrow> P (sg x y i d)"
  shows "P (snd (twoModeStage (dragFingers sg w) d))"
proof -
  have g: "P (dragFingers sg w e)" if "P e" for e
    using that assms(2) unfolding dragFingers_def by ((intro into)?; simp add: slots)
  have l: "P (snd (defaultLabel (dragFingers sg w) e))" "P (snd (rotateLabel (dragFingers sg w) e))"
    "P (snd (lastLabels (dragFingers sg w) e))" if "P e" for e
    using that g by (simp_all add: defaultLabel_def rotateLabel_def lastLabels_def Let_def)
  have leave: "P (snd (let d = StopScrollEnhanceTimer (stopPointer e)
      in defaultLabel (dragFingers sg w) (if packetsCount (tp d) > 3 then setMode MODE_IDLE d else d)))" if "P e" for e
    using that by (simp add: l Let_def)
  show ?thesis
    using assms(1) unfolding twoModeStage_def by ((intro into)?; simp add: l g leave)
qed

lemma two [simp]: "P d \<Longrightarrow> P (Process_twofingers_touch clock fl x1 x2 y1 y2 d)"
proof -
  assume d: "P d"
  have p: "P (proceed (lightStage v (zoomDistance v e)) (\<lambda>d. proceed (twoEdgeStage v d) (\<lambda>d.
      proceed (twoModeStage (dragFingers (Process_singlefinger_touch clock fl) v) (circularStage v d)) (\<lambda>d.
      proceed (rotateZoomStage v d) (\<lambda>d. twoTapStage v (twoPressStage clock v (twoScrollStage clock fl v d)))))))"
    if "P e" for v e
    using that by (intro proceed_into [where P = P]) simp_all
  have "P (secondSlot (countPacket d))" using d by simp
  then show ?thesis unfolding Process_twofingers_touch_def Let_def by (intro p) simp
qed

lemma callTwo [simp]: "P d \<Longrightarrow> P (callTwo clock fl d)"
  unfolding callTwo_def by ((intro into)?; simp)

section \<open>Click pads and more fingers\<close>

lemma clickPad2F [simp]:
  assumes "P d"
  shows "P (Process_ClickPad_2F clock fl p ty dx1 dy1 dx2 dy2 d)"
proof -
  have c: "P (clickDrag (Process_singlefinger_touch clock fl) a b e)" if "P e" for a b e
    using that unfolding clickDrag_def setInUse_def by ((intro into)?; simp add: Let_def)
  have m: "P (moveOther clock (Process_singlefinger_touch clock fl) p ty i j n m e)" if "P e" "known i" "known j" for i j n m e
    using that unfolding moveOther_def setInUse_def by ((intro into)?; simp add: touchI padI core_def)
  show ?thesis
    using assms unfolding Process_ClickPad_2F_def by ((intro into)?; simp add: c m slots Let_def)
qed

lemma multi [simp]:
  assumes "P d" "known i" "known (uint (cFingers (tp d)) - 1)"
  shows "P (Process_multiFingers_touch clock fl dx dy i d)"
proof -
  let ?sg = "Process_singlefinger_touch clock fl"
  have n: "known (uint (cFingers (tp e)) - 1)" if "P e" for e
    using assms(3) same_fingers [OF assms(1) that] by simp
  have l: "P (dragOne ?sg i e)" "P (snd (stopLabel e))" "P (endTapMode e)" "P (tapModeOf c e)" if "P e" for c e
    using that assms(2) by (simp_all add: dragOne_def stopLabel_def endTapMode_def tapModeOf_def)
  have dl: "P (snd (dragLabel ?sg i e))" if "P e" for e
    using that by (simp add: dragLabel_def l)
  have tl: "P (snd (tapLabel ?sg i e))" if "P e" for e
    using that n [OF that] unfolding tapLabel_def by ((intro into)?; simp add: l dl Let_def)
  have mode: "P (snd (multiModeStage ?sg i e))" if "P e" for e
    using that unfolding multiModeStage_def by ((intro into)?; simp add: l dl tl Let_def)
  have press: "P (multiPress clock e)" if "P e" for e
    using that unfolding multiPress_def pressOf_def by ((intro into)?; simp add: Let_def)
  have stage: "P (snd (multiPressStage clock mx my e))" if "P e" for mx my e
    using that unfolding multiPressStage_def noPress_def by ((intro into)?; simp add: touchI core_def press Let_def)
  have pa: "P (pinchAction a e)" "P (toggleBySwipe clock k e)" if "P e" for a k e
    using that unfolding pinchAction_def toggleBySwipe_def by simp_all
  have sw: "P (snd (agreeStage e))" "P (swipeStage clock mx my i e)" "P (pinchStage mx my e)" if "P e" for mx my e
    using that unfolding agreeStage_def swipeStage_def pinchStage_def
    by ((intro into)?; simp add: touchI core_def pa Let_def split: prod.split)+
  show ?thesis
    using assms(1,2) unfolding Process_multiFingers_touch_def Let_def
    by (intro proceed_into [where P = P] control_if [where P = P]) (simp_all add: mode stage sw)
qed

section \<open>The engine\<close>

lemma engine:
  assumes "P d" "known_call known c (tp d)" "c \<noteq> TouchEnd"
  shows "P (gestureEngine clock fl c d)"
  using assms by (cases c) (simp_all add: gestureEngine_def)

lemma engine_end:
  assumes "P d" "\<And>e b. P e \<Longrightarrow> P (onTouch (resetTouch b) e)" "known_call known c (tp d)"
  shows "P (gestureEngine clock fl c d)"
  using assms engine touchEnd by (cases "c = TouchEnd") (simp_all add: gestureEngine_def)

section \<open>Timers\<close>

lemma inertia [simp]: "P d \<Longrightarrow> P (ProcessInertia clock fl b d)"
  unfolding ProcessInertia_def by ((intro into)?; simp)

lemma pointerStep [simp]: "P d \<Longrightarrow> P (movePointerStep clock d)"
  unfolding movePointerStep_def nextPointerStep_def by ((intro into)?; simp add: touchI core_def Let_def)

lemma coast [simp]: "P d \<Longrightarrow> P (coast clock fl f d)"
  unfolding coast_def glance_def by ((intro into)?; simp add: touchI core_def)

end

end
