(* ===== verification/Touchpad_DecodeSafe.thy ===== *)
theory Touchpad_DecodeSafe
  imports Touchpad_Frame
begin

text \<open>
  Memory safety of the ELAN and FocalTech decoders: they stay inside the array of fingers as long as the
  ids of the packets are those of fingers and both slots are known; and the packets with which they leave it.
\<close>

section \<open>The contract of the gesture engine\<close>

definition slots_known :: "'e touch_driver \<Rightarrow> bool" where
  "slots_known d \<longleftrightarrow> isFinger (pid (gestures d)) \<and> isFinger (sid (gestures d))"

text \<open>The state between two packets of a touch; \<open>J\<close> is an invariant of the engine.\<close>

definition safe_touch :: "(u8 \<times> u8 \<times> 'e \<Rightarrow> bool) \<Rightarrow> u8 \<Rightarrow> 'e touch_driver \<Rightarrow> bool" where
  "safe_touch J v d \<longleftrightarrow> inside d \<and> slots_known d \<and> touchpadVendor (tp d) = v \<and> v \<noteq> STD_SYNAPTICS \<and>
     J (counters (gestures d))"

lemma vendor_hardware: "hardware t = hardware t' \<Longrightarrow> touchpadVendor t = touchpadVendor t'"
  by (simp add: hardware_def)

text \<open>After a packet the state is the same, unless the packet reported that all fingers are up.\<close>

definition after_packet :: "(u8 \<times> u8 \<times> 'e \<Rightarrow> bool) \<Rightarrow> u8 \<Rightarrow> bool \<Rightarrow> 'e touch_driver \<Rightarrow> bool" where
  "after_packet J v up d \<longleftrightarrow> inside d \<and> (\<not> up \<longrightarrow> safe_touch J v d)"

lemma safe_after: "safe_touch J v d \<Longrightarrow> after_packet J v up d"
  by (simp add: after_packet_def safe_touch_def)

text \<open>
  What the decoders rely on: the engine keeps the hardware and the record of calls, the flag of accesses outside the array and an
  absent scroll; called on fingers it stays inside the array and keeps the slots, until the touch ends.
\<close>

locale touch_engine =
  fixes engine :: "'e engine" and J :: "u8 \<times> u8 \<times> 'e \<Rightarrow> bool"
  assumes engine_board: "board (tp (engine c d)) = board (tp d)"
    and engine_driver: "overrun (engine c d) = overrun d \<and> calls (engine c d) = calls d"
    and engine_scroll: "m_scroll (gestures d) = 0 \<Longrightarrow> m_scroll (gestures (engine c d)) = 0"
    and engine_flags: "oob (gestures d) \<Longrightarrow> oob (gestures (engine c d))"
    and engine_step: "safe_touch J v d \<Longrightarrow> known_call isFinger c (tp d) \<Longrightarrow> c \<noteq> TouchEnd \<Longrightarrow> safe_touch J v (engine c d)"
    and engine_ends: "safe_touch J v d \<Longrightarrow> inside (engine TouchEnd d)"
    and fresh: "J (k, n, e) \<Longrightarrow> J (0, 0, e)"
begin

lemma call_board [simp]: "board (tp (callEngine engine c d)) = board (tp d)"
  by (simp add: callEngine_def engine_board)

lemma call_fingers [simp]: "cFingers (tp (callEngine engine c d)) = cFingers (tp d)"
  using call_board [of c d] by (simp add: board_def)

lemma safe_counted:
  "safe_touch J v d \<Longrightarrow> safe_touch J v (onTouch (\<lambda>g. g\<lparr>touchCalls := touchCalls g @ [c]\<rparr>) d)"
  by (simp add: safe_touch_def slots_known_def counters_def touch)

lemma callEngine_safe [intro]:
  "safe_touch J v d \<Longrightarrow> known_call isFinger c (tp d) \<Longrightarrow> c \<noteq> TouchEnd \<Longrightarrow> safe_touch J v (callEngine engine c d)"
  unfolding callEngine_def by (intro engine_step safe_counted) simp_all

lemma callEngine_ends: "safe_touch J v d \<Longrightarrow> inside (callEngine engine TouchEnd d)"
  unfolding callEngine_def by (rule engine_ends [OF safe_counted])

lemma safe_onTouch [intro]:
  assumes "safe_touch J v d" "length (fing (f (gestures d))) = length (fing (gestures d))"
    "oob (f (gestures d)) = oob (gestures d)" "pid (f (gestures d)) = pid (gestures d)" "sid (f (gestures d)) = sid (gestures d)"
    "counters (f (gestures d)) = counters (gestures d)"
  shows "safe_touch J v (onTouch f d)"
  using assms by (simp add: safe_touch_def slots_known_def touch)

lemma safe_onPad [intro]:
  "safe_touch J v d \<Longrightarrow> touchpadVendor (f (tp d)) = touchpadVendor (tp d) \<Longrightarrow> safe_touch J v (onPad f d)"
  by (simp add: safe_touch_def slots_known_def touch)

lemma safe_fingers [simp, intro]:
  "safe_touch J v d \<Longrightarrow> isFinger i \<Longrightarrow> safe_touch J v (setFinger i f d)" "safe_touch J v d \<Longrightarrow> isFinger i \<Longrightarrow> safe_touch J v (reads i d)"
  by (simp_all add: safe_touch_def slots_known_def touch)

lemma safe_slots [simp]:
  "safe_touch J v d \<Longrightarrow> isFinger (pid (gestures d))" "safe_touch J v d \<Longrightarrow> isFinger (sid (gestures d))"
  by (simp_all add: safe_touch_def slots_known_def)

lemma safe_both [simp, intro]: "safe_touch J v d \<Longrightarrow> safe_touch J v (bothFingers f d)"
  by (simp add: bothFingers_def safe_touch_def slots_known_def touch del: safe_slots)

lemma Process_fingers_change_slots [simp]:
  "touchpadVendor (tp d) \<noteq> STD_SYNAPTICS \<Longrightarrow> pid (gestures (Process_fingers_change clock d)) = pid (gestures d)"
  "touchpadVendor (tp d) \<noteq> STD_SYNAPTICS \<Longrightarrow> sid (gestures (Process_fingers_change clock d)) = sid (gestures d)"
  by (simp_all add: Process_fingers_change_def touch Let_def)

lemma counters_time [simp]: "counters (gestures (takeTime clock d)) = counters (gestures d)"
  by (simp add: counters_def takeTime_def readClock_def Let_def)

lemma safe_change: "safe_touch J v d \<Longrightarrow> J (0, 0, touch.more (gestures d))"
  using fresh [of "skipSample (smooth (gestures d))" "cSample (smooth (gestures d))"] by (simp add: safe_touch_def counters_def)

lemma safe_parts [simp, intro]:
  assumes "safe_touch J v d"
  shows "safe_touch J v (Process_fingers_change clock d)" "safe_touch J v (Process_Physical_Buttons clock p d)"
    "safe_touch J v (Is2FingEdgeSwipe d)" "safe_touch J v (takeTime clock d)" "safe_touch J v (stopAccidental d)"
    "safe_touch J v (foundPalm d)" "safe_touch J v (dispatchButtons clock b d)"
proof -
  show "safe_touch J v (Process_fingers_change clock d)" "safe_touch J v (Process_Physical_Buttons clock p d)"
    using assms safe_change [OF assms] vendor_hardware [OF Process_fingers_change_steps(2) [of clock d]]
      vendor_hardware [OF Process_Physical_Buttons_steps(2) [of clock p d]]
    by (simp_all add: safe_touch_def slots_known_def touch del: safe_slots)
  show "safe_touch J v (Is2FingEdgeSwipe d)" "safe_touch J v (dispatchButtons clock b d)" "safe_touch J v (takeTime clock d)"
    using assms by (simp_all add: safe_touch_def slots_known_def touch del: safe_slots)
      (simp_all add: takeTime_def readClock_def Let_def touch)
  show "safe_touch J v (stopAccidental d)" "safe_touch J v (foundPalm d)"
    using assms by (simp_all add: stopAccidental_def foundPalm_def safe_onTouch counters_def)
qed

lemmas safe_control = control_rules [where P = "safe_touch J v" for v]

section \<open>Hardware versions 2 and 3\<close>

lemma safe_checks [simp, intro]: "safe_touch J v d \<Longrightarrow> safe_touch J v (Process_ELANv2v3_Checks clock p d)"
  unfolding Process_ELANv2v3_Checks_def
  by (intro safe_control) (simp_all add: safe_onPad safe_onTouch counters_def)

lemma safe_two [intro]: "safe_touch J v d \<Longrightarrow> safe_touch J v (callTwoFingers engine d)"
  unfolding callTwoFingers_def Let_def by (rule callEngine_safe) simp_all

lemma last_finger: "cFingers t = n \<Longrightarrow> 0 < n \<Longrightarrow> n \<le> 6 \<Longrightarrow> isFinger (uint (cFingers t) - 1)"
  by (auto simp: isFinger_def word_le_def word_less_def)

lemma safe_oneV2V3 [intro]: "safe_touch J v d \<Longrightarrow> safe_touch J v (oneFingerV2V3 engine p d)"
  unfolding oneFingerV2V3_def
  by (intro safe_control) (simp_all add: callEngine_safe last_finger)

lemma safe_init [simp, intro]: "safe_touch J v d \<Longrightarrow> isFinger i \<Longrightarrow> safe_touch J v (initFinger i d)"
  by (simp add: initFinger_def Let_def)

lemma safe_swap [simp, intro]: "safe_touch J v d \<Longrightarrow> safe_touch J v (swapFingers d)"
  by (simp add: swapFingers_def Let_def)

lemma safe_setSlots [simp]:
  "safe_touch J v d \<Longrightarrow> isFinger i \<Longrightarrow> isFinger j \<Longrightarrow> safe_touch J v (onTouch (\<lambda>g. g\<lparr>pid := i, sid := j\<rparr>) d)"
  by (simp add: safe_touch_def slots_known_def touch del: safe_slots)

lemma safe_start [simp, intro]: "safe_touch J v d \<Longrightarrow> safe_touch J v (startTwoFingers d)"
  unfolding startTwoFingers_def by (intro safe_control) simp_all

lemma safe_twoV2V3 [intro]: "safe_touch J v d \<Longrightarrow> safe_touch J v (twoFingersV2V3 engine packet_type p d)"
  unfolding twoFingersV2V3_def
  by (intro safe_control) (simp_all add: safe_two)

lemma safe_trackpoint [intro]: "safe_touch J v d \<Longrightarrow> safe_touch J v (Process_trackpoint_events_ELAN engine p d)"
  unfolding Process_trackpoint_events_ELAN_def
  by (intro safe_control) (simp_all add: callEngine_safe)

lemma checks_fingers: "cFingers (tp (Process_ELANv2v3_Checks clock p d)) = drop_bit 6 (p ! 0 AND 0xc0)"
  by (simp add: Process_ELANv2v3_Checks_def touch takeTime_def Let_def)

lemma ends_after: "safe_touch J v d \<Longrightarrow> up \<Longrightarrow> after_packet J v up (callEngine engine TouchEnd d)"
  by (simp add: after_packet_def callEngine_ends)

lemmas after_control = control_rules [where P = "after_packet J v up" for v up]

lemma after_v2v3:
  assumes "safe_touch J v d"
  shows "after_packet J v (drop_bit 6 (p ! 0 AND 0xc0) = 0) (Process_absolute_events_ELANv2v3 clock engine packet_type p d)"
proof -
  let ?e = "Process_ELANv2v3_Checks clock p d"
  have e: "safe_touch J v ?e" using assms by simp
  show ?thesis
    unfolding Process_absolute_events_ELANv2v3_def Let_def
    by (intro control_if [where P = "after_packet J v (drop_bit 6 (p ! 0 AND 0xc0) = 0)"])
      (simp_all add: e ends_after safe_after checks_fingers safe_trackpoint safe_oneV2V3 safe_twoV2V3 safe_onPad)
qed

section \<open>Hardware version 4 and FocalTech\<close>

lemma safe_tap [simp, intro]: "safe_touch J v d \<Longrightarrow> safe_touch J v (tapInMove clock d)"
  unfolding tapInMove_def Let_def by (simp add: safe_onPad safe_onTouch counters_def)

lemma after_allUp:
  assumes "safe_touch J v d" "allUpV4 clock engine packet_type p d = (stop, e)"
  shows "if stop then inside e else safe_touch J v e"
proof -
  have "safe_touch J v (if isClickPad (tp d) then callEngine engine (ClickPadButtons p packet_type 0 1) d
      else if \<not> disableClicks (gestures d) then
        Process_Physical_Buttons clock p (onPad (\<lambda>t. t\<lparr>packetsCount := packetsCount t + 1\<rparr>) d) else d)"
    using assms(1) by (simp add: callEngine_safe safe_onPad)
  with assms(2) show ?thesis
    unfolding allUpV4_def Let_def by (auto simp: callEngine_ends split: if_split_asm)
qed

lemma after_status:
  assumes "safe_touch J v d"
  shows "after_packet J v (p ! 1 AND 0x1f = 0) (statusV4 clock engine packet_type p d)"
proof -
  let ?d = "onPad (\<lambda>t. t\<lparr>cFingers := p ! 1 AND 0x1f\<rparr>) (onTouch (\<lambda>g. g\<lparr>lastFingers := cFingers (tp d)\<rparr>) d)"
  have d: "safe_touch J v ?d" using assms by (simp add: safe_onPad safe_onTouch counters_def)
  show ?thesis
  proof (cases "p ! 1 AND 0x1f = 0")
    case True
    obtain stop e where e: "allUpV4 clock engine packet_type p ?d = (stop, e)" by fastforce
    then have "statusV4 clock engine packet_type p d = (if stop then e else Process_fingers_change clock e)"
      using True by (simp add: statusV4_def fingersOfMask_def Let_def)
    moreover have "inside (if stop then e else Process_fingers_change clock e)"
      using after_allUp [OF d e] safe_parts(1) [of v e clock] by (cases stop) (simp_all add: safe_touch_def)
    ultimately show ?thesis using True by (simp add: after_packet_def)
  next
    case False
    define e where "e = ?d"
    have "statusV4 clock engine packet_type p d = (case fingersOfMask (p ! 1 AND 0x1f) of None \<Rightarrow> e
        | Some n \<Rightarrow> Process_fingers_change clock (onPad (\<lambda>t. t\<lparr>cFingers := n\<rparr>) (if p ! 1 AND 0x1f = 0x02 then tapInMove clock e else e)))"
      using False unfolding statusV4_def Let_def e_def [symmetric] by (simp split: option.split)
    moreover have "safe_touch J v e" using d by (simp add: e_def)
    ultimately show ?thesis by (simp add: safe_after safe_onPad split: option.split)
  qed
qed

lemma safe_startAbsolute [intro]:
  assumes "safe_touch J v d" "isFinger fid"
  shows "safe_touch J v (startAbsolute fid d)"
proof -
  have "safe_touch J v (onTouch (\<lambda>g. if pid g < 0 then g\<lparr>pid := fid\<rparr> else if sid g < 0 then g\<lparr>sid := fid\<rparr> else g) d)"
  proof -
    have "\<not> pid (gestures d) < 0" "\<not> sid (gestures d) < 0"
      using safe_slots [OF assms(1)] by (simp_all add: isFinger_def)
    with assms(1) show ?thesis by (intro safe_onTouch) simp_all
  qed
  with assms show ?thesis
    unfolding startAbsolute_def by (intro safe_control) simp_all
qed

lemma safe_oneV4 [intro]:
  assumes "safe_touch J v d" "isFinger fid"
  shows "safe_touch J v (oneFingerV4 clock engine packet_type p fid d)"
proof -
  have "safe_touch J v (clickPadOneFinger engine packet_type p fid d)"
    using assms unfolding clickPadOneFinger_def
    by (intro safe_control) (simp_all add: callEngine_safe safe_onTouch counters_def)
  with assms show ?thesis unfolding oneFingerV4_def
    by (intro safe_control) (simp_all add: callEngine_safe)
qed

lemma safe_moreV4 [intro]:
  assumes "safe_touch J v d" "isFinger fid" "isFinger (uint (cFingers (tp d)) - 1)"
  shows "safe_touch J v (moreFingersV4 engine packet_type p fid d)"
proof -
  let ?e = "if isClickPad (tp d) then callEngine engine (ClickPadButtons p packet_type fid (cFingers (tp d))) d else d"
  have e: "safe_touch J v ?e" "cFingers (tp ?e) = cFingers (tp d)"
    using assms by (simp_all add: callEngine_safe)
  have m: "safe_touch J v (let (dx, dy) = moved (finger fid e);
      d = setFinger fid (\<lambda>f. addDelta dx dy (f\<lparr>posX := posX f + of_int dx, posY := posY f + of_int dy\<rparr>)) e; g = gestures d
      in if cFingers (tp d) = 2 \<and> pid g \<ge> 0 \<and> sid g \<ge> 0 then callTwoFingers engine d
         else if cFingers (tp d) > 2 then callEngine engine (MultiFingers dx dy fid) d else d)"
    if "safe_touch J v e" "cFingers (tp e) = cFingers (tp d)" for e
    using that assms(2,3) by (simp add: callEngine_safe safe_two touch Let_def split: prod.split)
  show ?thesis
    unfolding moreFingersV4_def by (subst Let_def) (rule m [OF e])
qed

lemma edge_fingers [simp]: "cFingers (tp (edgeOrRestart d)) = cFingers (tp d)"
  by (simp add: edgeOrRestart_def bothFingers_def touch Let_def)

lemma start_fingers [simp]: "cFingers (tp (startAbsolute i d)) = cFingers (tp d)"
  by (simp add: startAbsolute_def touch Let_def)

lemma safe_edge [simp, intro]: "safe_touch J v d \<Longrightarrow> safe_touch J v (edgeOrRestart d)"
  by (simp add: edgeOrRestart_def Let_def)

lemma safe_absolute:
  assumes "safe_touch J v d" "absoluteId (tp d) p < 6"
  shows "safe_touch J v (absoluteV4 clock engine packet_type p d)"
proof (cases "absoluteId (tp d) p < 0")
  case True
  then show ?thesis using assms by (simp add: absoluteV4_def Let_def)
next
  case False
  let ?fid = "absoluteId (tp d) p"
  let ?s = "startAbsolute ?fid (setFinger ?fid (absoluteFinger (tp d) p) d)"
  have f: "isFinger ?fid" using False assms(2) by (simp add: isFinger_def)
  then have s: "safe_touch J v ?s" using assms(1) by auto
  have "safe_touch J v (if cFingers (tp ?s) = 1 then oneFingerV4 clock engine packet_type p ?fid ?s
      else if cFingers (tp ?s) = 2 then moreFingersV4 engine packet_type p ?fid (edgeOrRestart ?s)
      else if 3 \<le> cFingers (tp ?s) \<and> cFingers (tp ?s) \<le> 5 then moreFingersV4 engine packet_type p ?fid ?s else ?s)"
  proof (intro control_if [where P = "safe_touch J v"])
    assume "3 \<le> cFingers (tp ?s) \<and> cFingers (tp ?s) \<le> 5"
    then have "isFinger (uint (cFingers (tp ?s)) - 1)" by (simp add: isFinger_def word_le_def)
    then show "safe_touch J v (moreFingersV4 engine packet_type p ?fid ?s)" using s f by (rule safe_moreV4 [rotated 2])
  qed (use s f last_finger in \<open>auto intro!: safe_moreV4 safe_oneV4\<close>)
  with f False show ?thesis
    unfolding absoluteV4_def Let_def by auto
qed

lemma safe_relativeTwo [intro]: "safe_touch J v d \<Longrightarrow> safe_touch J v (relativeTwoFingers engine packet_type p dx dy d)"
  unfolding relativeTwoFingers_def
  by (intro safe_control) (simp_all add: callEngine_safe safe_two)

lemma safe_relativeMore [intro]:
  assumes "safe_touch J v d" "isFinger (uint (cFingers (tp d)) - 1)"
  shows "safe_touch J v (relativeMoreFingers engine packet_type p dx dy d)"
proof -
  have m: "safe_touch J v (let i = pid (gestures e); d = callEngine engine (MultiFingers (dx i) (dy i) i) e
      in if sid (gestures d) \<ge> 0 then
           (let d = onPad (\<lambda>t. t\<lparr>packetsCount := packetsCount t - 1\<rparr>) d; j = sid (gestures d)
            in callEngine engine (MultiFingers (dx j) (dy j) j) d)
         else d)" if e: "safe_touch J v e" "cFingers (tp e) = cFingers (tp d)" for e
  proof -
    let ?e = "callEngine engine (MultiFingers (dx (pid (gestures e))) (dy (pid (gestures e))) (pid (gestures e))) e"
    have s: "safe_touch J v ?e" using e assms(2) by (intro callEngine_safe) simp_all
    have "safe_touch J v (onPad (\<lambda>t. t\<lparr>packetsCount := packetsCount t - 1\<rparr>) ?e)" (is "safe_touch J v ?f")
      using s by (rule safe_onPad) simp
    moreover have "isFinger (sid (gestures ?f))" using safe_slots(2) [OF s] by simp
    ultimately have "safe_touch J v (callEngine engine (MultiFingers (dx (sid (gestures ?f))) (dy (sid (gestures ?f))) (sid (gestures ?f))) ?f)"
      using e assms(2) by (intro callEngine_safe) simp_all
    with s show ?thesis by (simp add: Let_def)
  qed
  let ?e = "if isClickPad (tp d)
    then callEngine engine (ClickPadButtons p packet_type (pid (gestures d)) (cFingers (tp d))) d else d"
  have e: "safe_touch J v ?e" "cFingers (tp ?e) = cFingers (tp d)"
    using assms by (simp_all add: callEngine_safe)
  show ?thesis
    unfolding relativeMoreFingers_def by (subst Let_def, rule control_if [where P = "safe_touch J v"]) (rule m [OF e] e)+
qed

lemma safe_shift [simp, intro]: "safe_touch J v d \<Longrightarrow> isFinger i \<Longrightarrow> safe_touch J v (shiftFinger i dx dy d)"
  by (simp add: shiftFinger_def)

lemma safe_relative:
  assumes "safe_touch J v d" "relativeIds (tp d) p = (i, j, w)" "isFinger i" "isFinger j"
  shows "safe_touch J v (relativeV4 engine packet_type p d)"
proof -
  have ij: "\<not> i < 0" "\<not> j < 0" using assms(3,4) by (simp_all add: isFinger_def)
  have n: "isFinger (uint n - 1)" if "3 \<le> n" "n \<le> 5" for n :: u8
    using that by (simp add: isFinger_def word_le_def)
  show ?thesis
    using assms ij unfolding relativeV4_def
    by (intro safe_control) (simp_all add: safe_relativeTwo safe_relativeMore n)
qed

end

text \<open>The packets whose ids are those of fingers.\<close>

definition ids_ok :: "touchpad \<Rightarrow> u8 \<Rightarrow> u8 list \<Rightarrow> bool" where
  "ids_ok t packet_type p \<longleftrightarrow>
     (packet_type = PACKET_ABSOLUTE \<longrightarrow> absoluteId t p < 6) \<and>
     (packet_type = PACKET_RELATIVE \<longrightarrow> isFinger (fst (relativeIds t p)) \<and> isFinger (fst (snd (relativeIds t p))))"

lemma ids_vendor: "touchpadVendor t = touchpadVendor t' \<Longrightarrow> ids_ok t ty p = ids_ok t' ty p"
  by (simp add: ids_ok_def absoluteId_def relativeIds_def)

text \<open>The calls that interruptOccurred makes for ELAN and FocalTech hardware.\<close>

definition elanDecoder :: "(nat \<Rightarrow> u64) \<Rightarrow> 'e engine \<Rightarrow> 'e touch_scheme decoder" where
  "elanDecoder clock engine c d =
     (case c of
        ElanV1 p \<Rightarrow> Process_absolute_events_ELANv1 clock p d
      | ElanV2V3 packet_type p \<Rightarrow> Process_absolute_events_ELANv2v3 clock engine packet_type p d
      | ElanV4FocalTech packet_type p \<Rightarrow> Process_absolute_events_ELANv4AndFocalTech clock engine packet_type p d
      | ElanTrackpoint packet_type p \<Rightarrow> Process_trackpoint_events_ELAN engine p d
      | _ \<Rightarrow> d)"

fun call_ids_ok :: "touchpad \<Rightarrow> packet_call \<Rightarrow> bool" where
  "call_ids_ok t (ElanV4FocalTech packet_type p) = ids_ok t packet_type p"
| "call_ids_ok t c = True"

lemma oob_fingers [simp]:
  "oob (gestures (setFinger i f d)) = (oob (gestures d) \<or> \<not> isFinger i)"
  "oob (gestures (reads i d)) = (oob (gestures d) \<or> \<not> isFinger i)"
  by (auto simp: setFinger_def reads_def)

text \<open>Two fingers before the first packet of either: nothing but the start of the touch is going on.\<close>

definition two_fingers_start :: "'e touch_driver \<Rightarrow> bool" where
  "two_fingers_start d \<longleftrightarrow> pid (gestures d) = -1 \<and> sid (gestures d) = -1 \<and> cFingers (tp d) = 2 \<and>
     packetsCount (tp d) = 0 \<and> \<not> palmDetectionEnabled (gestures d) \<and> \<not> showPressWidth (gestures d) \<and>
     \<not> isAccidental d \<and> \<not> isEdgeGesture (gestures d) \<and> \<not> hasEdgeSwipes (edges (gestures d))"

text \<open>The packets that report that all fingers are up.\<close>

fun all_up :: "packet_call \<Rightarrow> bool" where
  "all_up (ElanV2V3 packet_type p) = (drop_bit 6 (p ! 0 AND 0xc0) = 0)"
| "all_up (ElanV4FocalTech packet_type p) = (packet_type = PACKET_STATUS \<and> p ! 1 AND 0x1f = 0)"
| "all_up c = False"

context touch_engine
begin

lemma after_v4:
  assumes "safe_touch J v d" "ids_ok (tp d) packet_type p"
  shows "after_packet J v (packet_type = PACKET_STATUS \<and> p ! 1 AND 0x1f = 0)
    (Process_absolute_events_ELANv4AndFocalTech clock engine packet_type p d)"
proof -
  let ?up = "packet_type = PACKET_STATUS \<and> p ! 1 AND 0x1f = 0"
  let ?palm = "palmV4 d \<or> showPressWidth (gestures d)"
  define d1 where "d1 = (if ?palm \<and> cFingers (tp d) = 1
    then setFinger 0 (\<lambda>f. f\<lparr>fpressure := elanPressure p, fwidth := drop_bit 4 (p ! 0 AND 0xf0)\<rparr>) d else d)"
  define d2 where "d2 = (if ?palm \<and> \<not> showPressWidth (gestures d) then foundPalm d1 else d1)"
  define d3 where "d3 = takeTime clock d2"
  have s1: "safe_touch J v d1" using assms(1) by (simp add: d1_def)
  then have s2: "safe_touch J v d2" by (simp add: d2_def)
  then have s3: "safe_touch J v d3" by (simp add: d3_def)
  have t: "tp d3 = tp d"
    by (simp add: d1_def d2_def d3_def touch foundPalm_def takeTime_def Let_def)
  have "after_packet J v ?up (statusV4 clock engine packet_type p d3)" if "packet_type = PACKET_STATUS"
    using after_status [OF s3, of p clock packet_type] that by simp
  moreover have "safe_touch J v (absoluteV4 clock engine packet_type p d3)" if "packet_type = PACKET_ABSOLUTE"
    using safe_absolute [OF s3] assms(2) that by (simp add: ids_ok_def t)
  moreover have "safe_touch J v (relativeV4 engine packet_type p d3)" if "packet_type = PACKET_RELATIVE"
    using safe_relative [OF s3] assms(2) that by (cases "relativeIds (tp d3) p") (auto simp: ids_ok_def t)
  moreover have "safe_touch J v (stopAccidental d2)" using s2 by simp
  ultimately have "after_packet J v ?up
    (if ?palm \<and> \<not> showPressWidth (gestures d) \<and> packet_type \<noteq> PACKET_STATUS then d2
     else if isAccidental d2 \<and> packet_type \<noteq> PACKET_STATUS then stopAccidental d2
     else if packet_type = PACKET_STATUS then statusV4 clock engine packet_type p d3
     else if packet_type = PACKET_ABSOLUTE then absoluteV4 clock engine packet_type p d3
     else if packet_type = PACKET_RELATIVE then relativeV4 engine packet_type p d3
     else d3)"
    using s2 s3 by (intro control_if [where P = "after_packet J v ?up"]) (simp_all add: safe_after)
  then show ?thesis
    unfolding Process_absolute_events_ELANv4AndFocalTech_def Let_def d3_def d2_def d1_def .
qed

lemma safe_v1: "safe_touch J v d \<Longrightarrow> safe_touch J v (Process_absolute_events_ELANv1 clock p d)"
  unfolding Process_absolute_events_ELANv1_def
  by (intro safe_control) (simp_all add: safe_onPad safe_onTouch physicalButtons_def counters_def)

lemma after_elan:
  assumes "safe_touch J v d" "call_ids_ok (tp d) c"
  shows "after_packet J v (all_up c) (elanDecoder clock engine c d)"
proof (cases c)
  case (ElanV2V3 packet_type p)
  then show ?thesis using after_v2v3 [OF assms(1), of p clock packet_type] by (simp add: elanDecoder_def)
next
  case (ElanV4FocalTech packet_type p)
  then show ?thesis using after_v4 [OF assms(1), of packet_type p clock] assms(2) by (simp add: elanDecoder_def)
qed (use assms(1) in \<open>simp_all add: elanDecoder_def safe_after safe_v1 safe_trackpoint\<close>)

text \<open>A touch from its first packets to the packet that ends it.\<close>

lemma touch_stays_inside:
  assumes "safe_touch J v d" "\<forall>c \<in> set cs. call_ids_ok (tp d) c \<and> \<not> all_up c" "call_ids_ok (tp d) c"
  shows "inside (elanDecoder clock engine c (fold (elanDecoder clock engine) cs d)) \<and>
    safe_touch J v (fold (elanDecoder clock engine) cs d)"
proof -
  have v: "call_ids_ok (tp e) c = call_ids_ok (tp d) c" if "safe_touch J v e" for e c
    using that assms(1) ids_vendor [of "tp e" "tp d"] by (cases c) (auto simp: safe_touch_def)
  have s: "safe_touch J v (fold (elanDecoder clock engine) cs d)"
    using assms(2)
  proof (induction cs rule: rev_induct)
    case (snoc c cs)
    then have e: "safe_touch J v (fold (elanDecoder clock engine) cs d)" by simp
    with snoc.prems after_elan [OF e, of c clock] v [OF e, of c] show ?case by (simp add: after_packet_def)
  qed (use assms(1) in simp)
  with after_elan [OF s, of c clock] v [OF s, of c] assms(3) show ?thesis by (simp add: after_packet_def)
qed

lemma oob_engine: "oob (gestures d) \<Longrightarrow> oob (gestures (callEngine engine c d))"
  by (simp add: callEngine_def engine_flags)

lemma oob_more:
  assumes "oob (gestures d)"
  shows "oob (gestures (moreFingersV4 engine packet_type p fid d))"
  using assms unfolding moreFingersV4_def callTwoFingers_def Let_def
  by (auto split: prod.split simp: oob_engine oob_fingers)

text \<open>
  The first absolute packet of a touch with two fingers writes outside the array of fingers: one slot is still
  -1, and the reset of both starts uses it as an index.
\<close>

lemma first_packet_outside:
  assumes "two_fingers_start d" "absoluteId (tp d) p \<ge> 0"
  shows "oob (gestures (Process_absolute_events_ELANv4AndFocalTech clock engine PACKET_ABSOLUTE p d))"
proof -
  let ?fid = "absoluteId (tp d) p" and ?t = "takeTime clock d"
  have t: "tp ?t = tp d" "two_fingers_start ?t"
    using assms(1) by (auto simp: takeTime_def readClock_def two_fingers_start_def isAccidental_def Let_def)
  let ?s = "startAbsolute ?fid (setFinger ?fid (absoluteFinger (tp d) p) ?t)"
  have s: "\<not> isEdgeGesture (gestures ?s)" "\<not> hasEdgeSwipes (edges (gestures ?s))" "sid (gestures ?s) = -1"
    "cFingers (tp ?s) = 2"
    using t(2) by (simp_all add: two_fingers_start_def startAbsolute_def setFinger_def Let_def)
  then have "Is2FingEdgeSwipe ?s = ?s" by (simp add: Is2FingEdgeSwipe_def Let_def)
  with s have "oob (gestures (edgeOrRestart ?s))" by (simp add: edgeOrRestart_def bothFingers_def Let_def)
  from oob_more [OF this] have "oob (gestures (absoluteV4 clock engine PACKET_ABSOLUTE p ?t))"
    using s(4) t(1) assms(2) by (simp add: absoluteV4_def Let_def)
  then show ?thesis
    using assms(1)
    by (simp add: Process_absolute_events_ELANv4AndFocalTech_def palmV4_def two_fingers_start_def Let_def)
qed

end

text \<open>An id beyond the last finger: ELAN sends three bits of it, FocalTech four.\<close>

lemma large_id_out_of_bounds:
  assumes "absoluteId (tp d) p \<ge> 6" "cFingers (tp d) = 0"
  shows "oob (gestures (absoluteV4 clock engine PACKET_ABSOLUTE p d))"
  using assms by (simp add: absoluteV4_def isFinger_def Let_def)

end
