(* ===== verification/Touchpad_Bounds.thy ===== *)
theory Touchpad_Bounds
  imports Touchpad_KeepsEngine Touchpad_DecodeSafe
begin

text \<open>
  What the gesture engine keeps on its own definitions: the hardware and an absent scroll; a flagged access
  outside the arrays stays flagged; and, with the same number of samples for the pointer and for the scroll, no
  access is outside the arrays of fingers and of samples.
\<close>

section \<open>The hardware, the scroll and the flag\<close>

text \<open>The hardware is \<open>B\<close>, the rest of the driver is \<open>F\<close>; if \<open>z\<close> no scroll is pending, and if \<open>u\<close> an access was outside an array.\<close>

definition steady ::
  "bool \<Rightarrow> bool \<Rightarrow> hardware \<times> u8 \<Rightarrow> bool \<times> packet_call list \<Rightarrow> 'e touch_driver \<Rightarrow> bool" where
  "steady z u B F d \<longleftrightarrow> board (tp d) = B \<and> (overrun d, calls d) = F \<and> (z \<longrightarrow> m_scroll (gestures d) = 0) \<and> (u \<longrightarrow> oob (gestures d))"

lemma steady_onTouch:
  "steady z u B F d \<Longrightarrow> m_scroll (f (gestures d)) = m_scroll (gestures d) \<Longrightarrow> oob (gestures d) \<longrightarrow> oob (f (gestures d)) \<Longrightarrow>
     steady z u B F (onTouch f d)"
  by (auto simp: steady_def)

lemma steady_parts [simp]:
  assumes "steady z u B F d"
  shows "steady z u B F (onSmooth f1 d)" "steady z u B F (onScroll f2 d)"
    "steady z u B F (setFinger i f3 d)" "steady z u B F (reads i d)" "steady z u B F (setSample n f4 d)" "steady z u B F (readsSample i d)"
    "steady z u B F (movePointer clock dx dy b d)" "steady z u B F (dispatchScroll clock y x d)"
  using assms
  by (simp_all add: steady_onTouch onSmooth_def onScroll_def setFinger_def reads_def setSample_def readsSample_def
      movePointer_def dispatchScroll_def event_defs Let_def)

lemmas steady_into = control_rules [where P = "steady z u B F" for z u B F]
lemmas steady_fold [simp] = fold_into [where P = "steady z u B F" for z u B F]

lemma steady_one [simp]:
  assumes "steady z u B F d"
  shows "steady z u B F (replayOne clock i d)" "steady z u B F (flushOne clock h i d)"
  using assms unfolding replayOne_def flushOne_def
  by ((intro steady_into)?; simp add: steady_onTouch)+

lemma steady_motion [simp]:
  assumes "steady z u B F d"
  shows "steady z u B F (sampleMotion v i d)" "steady z u B F (holdMotion clock v d)" "steady z u B F (replayMotion clock d)"
  using assms unfolding sampleMotion_def holdMotion_def replayMotion_def
  by ((intro steady_into)?; simp)+

lemma steady_scroll [simp]:
  assumes "steady z u B F d"
  shows "steady z u B F (recordScroll mx my d)" "steady z u B F (sampleTwo w d)" "steady z u B F (skipScroll sv d)"
    "steady z u B F (flushSkipped clock h d)" "steady z u B F (secondSlot d)" "steady z u B F (onTouch (resetTouch b) d)"
proof -
  show "steady z u B F (recordScroll mx my d)" "steady z u B F (sampleTwo w d)" "steady z u B F (skipScroll sv d)"
    "steady z u B F (flushSkipped clock h d)" "steady z u B F (secondSlot d)"
    using assms unfolding recordScroll_def sampleTwo_def skipScroll_def flushSkipped_def secondSlot_def
    by ((intro steady_into)?; simp add: steady_onTouch)+
  show "steady z u B F (onTouch (resetTouch b) d)"
    using assms by (simp add: steady_def resetTouch_def Let_def)
qed

lemma core_flags:
  assumes "core g' = core g"
  shows "m_scroll g' = m_scroll g" "oob g' = oob g"
  using assms by (simp_all add: core_def)

interpretation steady: gesture_frame "steady z u B F" "\<lambda>_. True" B for z u B F
proof unfold_locales
  show "board (tp d) = B" if "steady z u B F d" for d using that by (simp add: steady_def)
  show "steady z u B F (onTouch f d)" if "steady z u B F d" "core (f (gestures d)) = core (gestures d)" for d f
    using that(1) core_flags [OF that(2)] by (simp add: steady_onTouch)
  show "steady z u B F (onPad t d)" if "steady z u B F d" "board (t (tp d)) = board (tp d)" for t d
    using that by (simp add: steady_def)
  show "steady z u B F (onGate h d)" if "steady z u B F d" for h d using that by (simp add: steady_def onGate_def)
qed simp_all

section \<open>The arrays of fingers and of samples\<close>

text \<open>
  The indices of samples stay in their arrays. The ring of the pointer has pSmoothSamples elements and that of
  the scroll with two fingers smoothSamples, but they share the index, so this needs both to be equal (or the
  second one, which is then not used, to be 0).
\<close>

definition samples_ok :: "'x gesture_scheme \<Rightarrow> bool" where
  "samples_ok g \<longleftrightarrow> skipSample (smooth g) \<le> 10 \<and> scrollSample (scroll g) \<le> 4 \<and>
     pSmoothSamples (pointerPrefs g) \<le> 11 \<and> smoothSamples (scrollF g) \<in> {0, pSmoothSamples (pointerPrefs g)} \<and>
     (cSample (smooth g) < pSmoothSamples (pointerPrefs g) \<or> pSmoothSamples (pointerPrefs g) = 0)"

definition in_arrays :: "hardware \<times> u8 \<Rightarrow> 'x gesture_driver \<Rightarrow> bool" where
  "in_arrays B d \<longleftrightarrow> board (tp d) = B \<and> inside d \<and> slots_known d \<and> touchpadVendor (tp d) \<noteq> STD_SYNAPTICS \<and>
     samples_ok (gestures d)"

lemma samples_simps [simp]:
  "samples_ok (oob_update f1 g) = samples_ok g" "samples_ok (fing_update f2 g) = samples_ok g"
  "samples_ok (lastSample_update f3 g) = samples_ok g"
  by (simp_all add: samples_ok_def)

lemma samples_fingers [simp]:
  "samples_ok (gestures (setFinger i f d)) = samples_ok (gestures d)" "samples_ok (gestures (reads i d)) = samples_ok (gestures d)"
  by (simp_all add: setFinger_def reads_def)

lemma in_arrays_parts [simp]:
  assumes "in_arrays B d"
  shows "isFinger i \<Longrightarrow> in_arrays B (setFinger i f d)" "isFinger i \<Longrightarrow> in_arrays B (reads i d)"
    "n < 11 \<Longrightarrow> in_arrays B (setSample n f2 d)" "0 \<le> j \<and> j < 11 \<Longrightarrow> in_arrays B (readsSample j d)"
    "in_arrays B (movePointer clock dx dy b d)" "in_arrays B (dispatchScroll clock y x d)"
proof -
  show "isFinger i \<Longrightarrow> in_arrays B (setFinger i f d)" "isFinger i \<Longrightarrow> in_arrays B (reads i d)"
    "n < 11 \<Longrightarrow> in_arrays B (setSample n f2 d)" "0 \<le> j \<and> j < 11 \<Longrightarrow> in_arrays B (readsSample j d)"
    using assms by (simp_all add: in_arrays_def slots_known_def touch setSample_def readsSample_def)
  show "in_arrays B (movePointer clock dx dy b d)" "in_arrays B (dispatchScroll clock y x d)"
    using assms by (simp_all add: in_arrays_def slots_known_def inside_def samples_ok_def movePointer_def dispatchScroll_def
        event_defs Let_def)
qed

lemma in_arrays_onTouch:
  assumes "in_arrays B d" "core g = core (gestures d)"
  shows "in_arrays B (d\<lparr>gestures := g\<rparr>)"
  using assms by (simp add: in_arrays_def slots_known_def inside_def core_def samples_ok_def)

lemma in_arrays_indices [simp]:
  assumes "in_arrays B d"
  shows "unat (skipSample (smooth (gestures d))) < 11" "unat (scrollSample (scroll (gestures d))) < 11"
    "pSmoothSamples (pointerPrefs (gestures d)) \<le> 11"
    "cSample (smooth (gestures d)) < pSmoothSamples (pointerPrefs (gestures d)) \<Longrightarrow> unat (cSample (smooth (gestures d))) < 11"
  using assms by (auto simp: in_arrays_def samples_ok_def word_le_nat_alt word_less_nat_alt)

lemma in_arrays_scroll [simp]:
  assumes "in_arrays B d" "\<And>s. scrollSample s \<le> 4 \<Longrightarrow> scrollSample (f s) \<le> 4"
  shows "in_arrays B (onScroll f d)"
  using assms by (simp add: in_arrays_def slots_known_def inside_def samples_ok_def onScroll_def)

lemma in_arrays_smooth:
  assumes "in_arrays B d" "skipSample (f (smooth (gestures d))) \<le> 10"
    "cSample (f (smooth (gestures d))) < pSmoothSamples (pointerPrefs (gestures d)) \<or> pSmoothSamples (pointerPrefs (gestures d)) = 0"
  shows "in_arrays B (onSmooth f d)"
  using assms by (simp add: in_arrays_def slots_known_def inside_def samples_ok_def onSmooth_def)

lemma in_arrays_fold [simp]:
  "(\<And>x d. x \<in> set xs \<Longrightarrow> in_arrays B d \<Longrightarrow> in_arrays B (g x d)) \<Longrightarrow> in_arrays B d \<Longrightarrow> in_arrays B (fold g xs d)"
  by (rule fold_into)

lemma smooth_parts [simp]:
  "smooth (gestures (setSample i f d)) = smooth (gestures d)" "smooth (gestures (readsSample j d)) = smooth (gestures d)"
  "smooth (gestures (setFinger k f2 d)) = smooth (gestures d)" "smooth (gestures (onSmooth f3 d)) = f3 (smooth (gestures d))"
  "smooth (gestures (movePointer clock dx dy b d)) = smooth (gestures d)" "smooth (gestures (onScroll f4 e)) = smooth (gestures e)"
  "smooth (gestures (dispatchScroll clock y x d)) = smooth (gestures d)"
  by (simp_all add: setSample_def readsSample_def setFinger_def onSmooth_def onScroll_def movePointer_def dispatchScroll_def
      event_defs Let_def)

lemma prefs_parts [simp]:
  "pointerPrefs (gestures (setSample i f d)) = pointerPrefs (gestures d)"
  "pointerPrefs (gestures (readsSample j d)) = pointerPrefs (gestures d)"
  "pointerPrefs (gestures (setFinger k f2 d)) = pointerPrefs (gestures d)"
  "pointerPrefs (gestures (onSmooth f3 d)) = pointerPrefs (gestures d)"
  "pointerPrefs (gestures (onScroll f4 d)) = pointerPrefs (gestures d)"
  "pointerPrefs (gestures (movePointer clock dx dy b d)) = pointerPrefs (gestures d)"
  by (simp_all add: setSample_def readsSample_def setFinger_def onSmooth_def onScroll_def movePointer_def event_defs Let_def)

lemmas in_arrays_into = control_rules [where P = "in_arrays B" for B]

lemma in_arrays_one [simp]:
  assumes "in_arrays B d" "i < 11"
  shows "in_arrays B (replayOne clock i d)" "in_arrays B (flushOne clock h i d)"
  using assms unfolding replayOne_def flushOne_def
  by ((intro in_arrays_into)?; simp)+

lemma in_arrays_skip [simp]:
  assumes "in_arrays B d" "\<And>s. cSample (f s) = cSample s" "\<And>s. skipSample s \<le> 10 \<Longrightarrow> skipSample (f s) \<le> 10"
  shows "in_arrays B (onSmooth f d)"
  using assms by (intro in_arrays_smooth) (auto simp: in_arrays_def samples_ok_def)

lemma next_in [simp]: "k < n \<Longrightarrow> k + 1 \<le> n" for k n :: u8
  by (simp add: inc_le)

lemma in_arrays_skipped [simp]:
  assumes "in_arrays B d"
  shows "in_arrays B (replayMotion clock d)" "in_arrays B (skipScroll sv d)" "in_arrays B (flushSkipped clock h d)"
    "in_arrays B (recordScroll mx my d)" "in_arrays B (setSample (unat (scrollSample (scroll (gestures d)))) st d)"
    "in_arrays B (secondSlot d)"
proof -
  have f: "in_arrays B (fold (replayOne clock) [1..<unat (skipSample (smooth (gestures d)))] d)"
    "in_arrays B (fold (flushOne clock h) [0..<unat (skipSample (smooth (gestures d)))] d)"
    using assms by (auto intro!: in_arrays_fold in_arrays_one less_trans [OF _ in_arrays_indices(1) [OF assms]])
  then show "in_arrays B (replayMotion clock d)" "in_arrays B (flushSkipped clock h d)"
    using assms by (simp_all add: replayMotion_def flushSkipped_def Let_def)
  show "in_arrays B (skipScroll sv d)" "in_arrays B (recordScroll mx my d)"
    "in_arrays B (setSample (unat (scrollSample (scroll (gestures d)))) st d)"
    using assms by (simp_all add: skipScroll_def recordScroll_def Let_def)
  have "0 \<le> sid (gestures d)" using assms by (simp add: in_arrays_def slots_known_def isFinger_def)
  then show "in_arrays B (secondSlot d)" using assms by (simp add: secondSlot_def onTouch_def not_less)
qed

lemma sint_small:
  assumes "k < (11 :: u8)"
  shows "0 \<le> sint k \<and> sint k < 11"
proof -
  have "uint k < 11" using assms by (simp add: word_less_def)
  moreover have "0 \<le> uint k" by simp
  moreover from calculation have "signed_take_bit 7 (uint k) = uint k"
    by (intro signed_take_bit_int_eq_self) (auto intro: order_trans [of _ 0])
  ultimately show ?thesis by (simp add: sint_uint)
qed

lemma previous:
  assumes "n \<le> 11" "n > (0 :: u8)"
  shows "n - 1 < 11"
proof -
  have "1 \<le> n" using inc_le [OF assms(2)] by simp
  then show ?thesis using assms by (simp add: word_less_nat_alt word_le_nat_alt unat_sub)
qed

lemma pred_less:
  assumes "(n :: u8) \<noteq> 0"
  shows "n - 1 < n"
proof -
  have "1 \<le> n" using inc_le [of 0 n] assms by (simp add: word_gt_0)
  moreover have "unat n > 0" using assms by (simp add: unat_gt_0)
  ultimately show ?thesis by (simp add: word_less_nat_alt unat_sub)
qed

lemma next_sample: "c < n \<Longrightarrow> c + 1 = n \<or> c + 1 < (n :: u8)"
  using next_in [of c n] by (auto simp: order_le_less)

text \<open>The index goes round the ring.\<close>

lemma in_arrays_ring:
  assumes "in_arrays B d" "n = pSmoothSamples (pointerPrefs (gestures d))" "n > 0"
  shows "in_arrays B (onSmooth (\<lambda>s. if cSample s = n then s\<lparr>cSample := 0\<rparr> else s)
    (if b then d else onSmooth (\<lambda>s. s\<lparr>cSample := cSample s + 1\<rparr>) d))"
proof -
  have "onSmooth (\<lambda>s. if cSample s = n then s\<lparr>cSample := 0\<rparr> else s)
      (if b then d else onSmooth (\<lambda>s. s\<lparr>cSample := cSample s + 1\<rparr>) d) =
    onSmooth (\<lambda>s. let s = (if b then s else s\<lparr>cSample := cSample s + 1\<rparr>) in if cSample s = n then s\<lparr>cSample := 0\<rparr> else s) d"
    by (simp add: onSmooth_def onTouch_def Let_def)
  moreover have "cSample (smooth (gestures d)) < n" "skipSample (smooth (gestures d)) \<le> 10"
    using assms by (auto simp: in_arrays_def samples_ok_def)
  moreover from this have "in_arrays B (onSmooth (\<lambda>s. let s = (if b then s else s\<lparr>cSample := cSample s + 1\<rparr>)
      in if cSample s = n then s\<lparr>cSample := 0\<rparr> else s) d)"
    using assms next_sample [of "cSample (smooth (gestures d))" n]
    by (intro in_arrays_smooth) (auto simp: Let_def)
  ultimately show ?thesis by simp
qed

lemma in_arrays_sample [simp]:
  assumes "in_arrays B d" "isFinger i" "pSmoothSamples (pointerPrefs (gestures d)) > 0"
  shows "in_arrays B (sampleMotion v i d)"
proof -
  define n where "n = pSmoothSamples (pointerPrefs (gestures d))"
  define c where "c = cSample (smooth (gestures d))"
  define l where "l = sint (if c = 0 then n - 1 else c - 1)"
  have n: "n \<le> 11" "n > 0" "c < n" using assms by (auto simp: n_def c_def in_arrays_def samples_ok_def)
  have l: "0 \<le> l \<and> l < 11" unfolding l_def using n by (intro sint_small) (auto intro!: previous simp: word_gt_0)
  define d1 where "d1 = readsSample l d"
  define d2 where "d2 = (if turned (lastSample (gestures d1) ! nat l) v then
      fold (\<lambda>s. setSample s (\<lambda>s. s\<lparr>lastDX1 := 0, lastDY1 := 0\<rparr>)) [0..<unat n] (onSmooth (\<lambda>s. s\<lparr>cSample := 0\<rparr>) d1)
    else d1)"
  define d3 where "d3 = setFinger i (addDelta (vdx v) (vdy v)) d2"
  define d4 where "d4 = setSample (unat (cSample (smooth (gestures d3)))) (\<lambda>s. s\<lparr>lastDX1 := of_int (vdx v), lastDY1 := of_int (vdy v)\<rparr>) d3"
  have 1: "in_arrays B d1 \<and> pSmoothSamples (pointerPrefs (gestures d1)) = n"
    using assms l by (simp add: d1_def n_def)
  let ?d = "onSmooth (\<lambda>s. s\<lparr>cSample := 0\<rparr>) d1" and ?P = "\<lambda>e. in_arrays B e \<and> pSmoothSamples (pointerPrefs (gestures e)) = n"
  have s: "?P ?d" using 1 n by (intro conjI in_arrays_smooth) (auto simp: in_arrays_def samples_ok_def)
  have "?P (fold (\<lambda>s. setSample s (\<lambda>s. s\<lparr>lastDX1 := 0, lastDY1 := 0\<rparr>)) [0..<unat n] ?d)"
  proof (rule fold_into [where P = ?P, OF _ s])
    show "?P (setSample x f e)" if "x \<in> set [0..<unat n]" "?P e" for x e f
      using that n(1) by (simp add: word_le_nat_alt)
  qed
  with 1 have 2: "?P d2" unfolding d2_def by (rule control_if [where P = ?P, rotated])
  then have 3: "in_arrays B d3" "pSmoothSamples (pointerPrefs (gestures d3)) = n" using assms(2) by (simp_all add: d3_def)
  moreover have "cSample (smooth (gestures d3)) < n" using 3 n(2) by (auto simp: in_arrays_def samples_ok_def)
  ultimately have 4: "in_arrays B d4" "pSmoothSamples (pointerPrefs (gestures d4)) = n" by (simp_all add: d4_def)
  define d5 where "d5 = onSmooth (\<lambda>s. if cSample s = n then s\<lparr>cSample := 0\<rparr> else s)
    (if still v then d4 else onSmooth (\<lambda>s. s\<lparr>cSample := cSample s + 1\<rparr>) d4)"
  have 5: "in_arrays B d5" unfolding d5_def using 4 n(2) by (intro in_arrays_ring) simp_all
  have "0 \<le> uint n - 1 \<and> uint n - 1 < 11" using n(1,2) by (simp add: word_le_def word_less_def)
  with 5 assms(2) have "in_arrays B (let d = readsSample (uint n - 1) d5
    in setFinger i (\<lambda>f. f\<lparr>sdx := sumSamples lastDX1 (unat n) d, sdy := sumSamples lastDY1 (unat n) d\<rparr>) d)"
    by (simp add: Let_def)
  then show ?thesis
    unfolding sampleMotion_def Let_def d5_def d4_def d3_def d2_def d1_def l_def c_def n_def .
qed

lemma sampleTwo_step:
  assumes "in_arrays B d" "n = pSmoothSamples (pointerPrefs (gestures d))" "n > 0"
  shows "in_arrays B (onSmooth (\<lambda>s. let s = (if b then s\<lparr>cSample := cSample s + 1\<rparr> else s)
    in if cSample s = n then s\<lparr>cSample := 0\<rparr> else s) d)"
proof -
  have "cSample (smooth (gestures d)) < n" "skipSample (smooth (gestures d)) \<le> 10"
    using assms by (auto simp: in_arrays_def samples_ok_def)
  then show ?thesis
    using assms next_sample [of "cSample (smooth (gestures d))" n]
    by (intro in_arrays_smooth) (auto simp: Let_def)
qed

lemma in_arrays_slots [simp]:
  "in_arrays B d \<Longrightarrow> isFinger (pid (gestures d))" "in_arrays B d \<Longrightarrow> isFinger (sid (gestures d))"
  by (simp_all add: in_arrays_def slots_known_def)

lemma in_arrays_sampleTwo [simp]:
  assumes "in_arrays B d" "smoothSamples (scrollF (gestures d)) > 0"
  shows "in_arrays B (sampleTwo w d)"
proof -
  define n where "n = smoothSamples (scrollF (gestures d))"
  define d1 where "d1 = setFinger (sid (gestures d)) (addDelta (tdx2 w) (tdy2 w))
    (setFinger (pid (gestures d)) (addDelta (tdx1 w) (tdy1 w)) d)"
  define d2 where "d2 = setSample (unat (cSample (smooth (gestures d)))) (\<lambda>s. s\<lparr>lastDX1 := of_int (tdx1 w),
    lastDY1 := of_int (tdy1 w), lastDX2 := of_int (tdx2 w), lastDY2 := of_int (tdy2 w)\<rparr>) d1"
  have n: "n = pSmoothSamples (pointerPrefs (gestures d))" "n > 0" "n \<le> 11" "cSample (smooth (gestures d)) < n"
    using assms by (auto simp: n_def in_arrays_def samples_ok_def)
  have 2: "in_arrays B d2" "pSmoothSamples (pointerPrefs (gestures d2)) = n"
    using assms(1) n by (simp_all add: d1_def d2_def)
  define d3 where "d3 = onSmooth (\<lambda>s. let s = (if tdx1 w \<noteq> 0 \<or> tdy1 w \<noteq> 0 then s\<lparr>cSample := cSample s + 1\<rparr> else s)
    in if cSample s = n then s\<lparr>cSample := 0\<rparr> else s) d2"
  have "in_arrays B d3" unfolding d3_def using 2 n(2) by (intro sampleTwo_step) simp_all
  moreover have "0 \<le> uint n - 1 \<and> uint n - 1 < 11" using n(2,3) by (simp add: word_le_def word_less_def)
  ultimately have "in_arrays B (let p = pid (gestures d); q = sid (gestures d); d = readsSample (uint n - 1) d3;
      add = (\<lambda>sel. sumSamples sel (unat n) d);
      d1 = setFinger p (\<lambda>f. f\<lparr>sdx := add lastDX1, sdy := add lastDY1\<rparr>) d
    in setFinger q (\<lambda>f. f\<lparr>sdx := add lastDX2, sdy := add lastDY2\<rparr>) d1)"
    using assms(1) by (simp add: Let_def)
  then show ?thesis
    unfolding sampleTwo_def Let_def d3_def d2_def d1_def n_def .
qed

lemma in_arrays_hold [simp]:
  assumes "in_arrays B d"
  shows "in_arrays B (holdMotion clock v d)"
proof -
  define d1 where "d1 = movePointer clock 0 0 (buttonState (gestures d)) d"
  define n where "n = pSmoothSamples (pointerPrefs (gestures d1))"
  define d2 where "d2 = onSmooth (\<lambda>s. s\<lparr>pDx := 0, pDy := 0, cSample := if cSample s > 0 then cSample s - 1 else n - 1\<rparr>) d1"
  have 1: "in_arrays B d1" using assms by (simp add: d1_def)
  have "(if cSample (smooth (gestures d1)) > 0 then cSample (smooth (gestures d1)) - 1 else n - 1) < n" if "n \<noteq> 0"
  proof -
    have "cSample (smooth (gestures d1)) < n" using 1 that by (auto simp: in_arrays_def samples_ok_def n_def)
    then show ?thesis
      using that pred_less [of n] pred_less [of "cSample (smooth (gestures d1))"] by (auto simp: word_gt_0)
  qed
  then have 2: "in_arrays B d2"
    using 1 unfolding d2_def by (intro in_arrays_smooth) (auto simp: in_arrays_def samples_ok_def n_def)
  then have "in_arrays B (if still v then d2
      else onSmooth (\<lambda>s. if skipSample s < 10 then s\<lparr>skipSample := skipSample s + 1\<rparr> else s)
             (setSample (unat (skipSample (smooth (gestures d2)))) (\<lambda>s. s\<lparr>skippedX := of_int (vdx v), skippedY := of_int (vdy v)\<rparr>) d2))"
    by simp
  then show ?thesis
    unfolding holdMotion_def Let_def d2_def n_def d1_def by simp
qed

lemma small_finger: "isFinger i \<Longrightarrow> isFinger (uint (of_int i :: u8))"
  by (auto simp: isFinger_def uint_word_of_int)

interpretation arrays: gesture_frame "in_arrays B" isFinger B for B
proof unfold_locales
  show "board (tp d) = B" if "in_arrays B d" for d using that by (simp add: in_arrays_def)
  show "in_arrays B (onTouch f d)" if "in_arrays B d" "core (f (gestures d)) = core (gestures d)" for d f
    using in_arrays_onTouch [OF that] by (simp add: onTouch_def)
  show "in_arrays B (onPad t d)" if "in_arrays B d" "board (t (tp d)) = board (tp d)" for t d
  proof -
    have "touchpadVendor (t (tp d)) = touchpadVendor (tp d)" using that(2) by (simp add: board_def hardware_def)
    with that show ?thesis by (simp add: in_arrays_def slots_known_def inside_def del: in_arrays_slots in_arrays_indices)
  qed
  show "in_arrays B (onGate h d)" if "in_arrays B d" for h d
    using that by (simp add: in_arrays_def slots_known_def inside_def onGate_def del: in_arrays_slots in_arrays_indices)
  show "in_arrays B (onTouch (resetTouch b) d)" if "in_arrays B d" "touchpadVendor (tp d) = STD_SYNAPTICS" for b d
    using that by (simp add: in_arrays_def)
qed (simp_all add: small_finger)

end
