(* ===== verification/Touchpad_DecodeProps.thy ===== *)
theory Touchpad_DecodeProps
  imports Touchpad_DecodeSafe
begin

text \<open>
  Properties of the packet decoders: packets of Synaptics hardware decode to what they encode, no button
  stays pressed, and touchpads without a middle button decode every packet.
\<close>

section \<open>Examples\<close>

text \<open>A driver as init leaves it, with the hardware found.\<close>

definition exampleTouch :: "u8 \<Rightarrow> u8 \<Rightarrow> touch driver" where
  "exampleTouch vendor hw = \<lparr>tp = touchpad_init\<lparr>touchpadVendor := vendor, hw_version := hw, pktsize := 6\<rparr>,
     gate = gate_init, now = 0, gestures = touch_init, overrun = False, calls = []\<rparr>"

section \<open>Buttons\<close>

text \<open>The buttons the system believes to be pressed: those of the last event that reports buttons.\<close>

fun buttonsAfter :: "u32 \<Rightarrow> pointer_event \<Rightarrow> u32" where
  "buttonsAfter b (RelativePointer dx dy b') = b'"
| "buttonsAfter b (AbsolutePointer x y b') = b'"
| "buttonsAfter b e = b"

definition reported :: "'e touch_driver \<Rightarrow> u32" where
  "reported d = foldl buttonsAfter 0 (events (gestures d))"

definition buttons_inv :: "'e touch_driver \<Rightarrow> bool" where
  "buttons_inv d \<longleftrightarrow> (buttonState (gestures d) = 0 \<longrightarrow> reported d = 0) \<and>
     (\<not> triggered (gestures d) \<and> \<not> rightClick (gestures d) \<longrightarrow> buttonState (gestures d) = 0) \<and>
     \<not> disableClicks (gestures d)"

lemma stopPointer_buttons [simp]:
  "events (gestures (stopPointer d)) = events (gestures d)" "buttonState (gestures (stopPointer d)) = buttonState (gestures d)"
  "triggered (gestures (stopPointer d)) = triggered (gestures d)"
  "rightClick (gestures (stopPointer d)) = rightClick (gestures d)"
  "disableClicks (gestures (stopPointer d)) = disableClicks (gestures d)"
  by (simp_all add: stopPointer_def StopPointerEnhanceTimer_def cancelTimeout_def reported_def)

lemma press_inv:
  assumes "\<not> disableClicks (gestures d)"
  shows "buttons_inv (pressButton clock b d)"
  using assms
  by (auto simp: or_eq_0_iff buttons_inv_def pressButton_def reported_def dispatchButtons_def event_defs Let_def)

lemma release_inv:
  assumes "buttons_inv d"
  shows "buttons_inv (releaseButtons clock d) \<and> reported (releaseButtons clock d) = 0 \<and>
    buttonState (gestures (releaseButtons clock d)) = 0"
  using assms
  by (auto simp: buttons_inv_def releaseButtons_def reported_def dispatchButtons_def event_defs Let_def)

lemma buttons_step:
  assumes "buttons_inv d"
  shows "buttons_inv (Process_Physical_Buttons clock p d) \<and>
    (packetButtons (tp d) p = 0 \<longrightarrow> reported (Process_Physical_Buttons clock p d) = 0 \<and>
       buttonState (gestures (Process_Physical_Buttons clock p d)) = 0)"
proof -
  let ?b = "packetButtons (tp d) p"
  let ?d = "onPad (\<lambda>t. t\<lparr>buttonData := ?b\<rparr>) d"
  have d: "buttons_inv ?d" "\<not> disableClicks (gestures ?d)"
    using assms by (simp_all add: buttons_inv_def reported_def)
  note r = release_inv [OF d(1), of clock] and pr = press_inv [of "?d" clock]
    and pr2 = press_inv [of "onTouch (\<lambda>g. g\<lparr>rightClick := True\<rparr>) ?d" clock]
  show ?thesis
    using d r pr pr2 assms
    unfolding Process_Physical_Buttons_def Let_def
    by (auto simp: buttons_inv_def reported_def)
qed

text \<open>
  The handler of the physical buttons, taken alone, leaves no button pressed: started between two presses and
  with clicks not disabled, and with no tap or drag of the gesture engine in between, it reports no button
  after a packet without buttons, whatever buttons the packets before it had in whatever order.
\<close>

theorem no_button_stays_pressed:
  assumes "buttons_inv d"
    "packetButtons (tp (fold (Process_Physical_Buttons clock) ps d)) p = 0"
  shows "reported (fold (Process_Physical_Buttons clock) (ps @ [p]) d) = 0 \<and>
    buttonState (gestures (fold (Process_Physical_Buttons clock) (ps @ [p]) d)) = 0"
proof -
  have "buttons_inv (fold (Process_Physical_Buttons clock) ps d)"
    by (induction ps rule: rev_induct) (use assms(1) buttons_step in auto)
  with assms(2) buttons_step show ?thesis by fastforce
qed

theorem no_button_stays_pressed_witness:
  "events (gestures (fold (Process_Physical_Buttons (\<lambda>_. 0)) [[1, 0, 0, 0, 0, 0], [0, 0, 0, 0, 0, 0]]
      (exampleTouch STD_ELAN_TECH STD_ELAN_HW_V4))) =
     [RelativePointer 0 0 1, RelativePointer 0 0 0, RelativePointer 0 0 0] \<and>
   reported (fold (Process_Physical_Buttons (\<lambda>_. 0)) ([[1, 0, 0, 0, 0, 0]] @ [[0, 0, 0, 0, 0, 0]])
      (exampleTouch STD_ELAN_TECH STD_ELAN_HW_V4)) = 0"
proof -
  let ?d = "exampleTouch STD_ELAN_TECH STD_ELAN_HW_V4"
  have "buttons_inv ?d"
    by (simp add: buttons_inv_def reported_def exampleTouch_def touch_init_def)
  moreover have "packetButtons (tp (fold (Process_Physical_Buttons (\<lambda>_. 0)) [[1, 0, 0, 0, 0, 0]] ?d)) [0, 0, 0, 0, 0, 0] = 0"
    by (simp add: packetButtons_def stickPacket_def)
  ultimately have "reported (fold (Process_Physical_Buttons (\<lambda>_. 0)) ([[1, 0, 0, 0, 0, 0]] @ [[0, 0, 0, 0, 0, 0]]) ?d) = 0"
    using no_button_stays_pressed by blast
  moreover have "events (gestures (fold (Process_Physical_Buttons (\<lambda>_. 0)) [[1, 0, 0, 0, 0, 0], [0, 0, 0, 0, 0, 0]] ?d)) =
     [RelativePointer 0 0 1, RelativePointer 0 0 0, RelativePointer 0 0 0]" by code_simp
  ultimately show ?thesis by blast
qed

text \<open>Pressing the right button before the left one is up leaves both in the state, so every packet is reported again.\<close>

lemma changed_button_is_repeated:
  "events (gestures (fold (Process_Physical_Buttons (\<lambda>_. 0)) [[1, 0, 0, 0, 0, 0], [2, 0, 0, 0, 0, 0], [2, 0, 0, 0, 0, 0]]
      (exampleTouch STD_ELAN_TECH STD_ELAN_HW_V4))) =
     [RelativePointer 0 0 1, RelativePointer 0 0 2, RelativePointer 0 0 2]"
  by code_simp

section \<open>Synaptics packets without a scroll button\<close>

text \<open>The hardware is \<open>h\<close> and no scroll is pending.\<close>

definition quiet :: "hardware \<Rightarrow> 'e touch_driver \<Rightarrow> bool" where
  "quiet h d \<longleftrightarrow> hardware (tp d) = h \<and> m_scroll (gestures d) = 0"

lemmas quiet_control = control_rules [where P = "quiet h" for h]

lemma quiet_onTouch [simp]: "m_scroll (f (gestures d)) = m_scroll (gestures d) \<Longrightarrow> quiet h (onTouch f d) = quiet h d"
  by (simp add: quiet_def)

lemma quiet_onPad [simp]: "hardware (f (tp d)) = hardware (tp d) \<Longrightarrow> quiet h (onPad f d) = quiet h d"
  by (simp add: quiet_def)

lemma quiet_parts [simp]:
  "quiet h (setFinger i f d) = quiet h d" "quiet h (reads i d) = quiet h d" "quiet h (stopPointer d) = quiet h d"
  "quiet h (Process_fingers_change clock d) = quiet h d" "quiet h (Process_Physical_Buttons clock p d) = quiet h d"
  "quiet h (Is2FingEdgeSwipe d) = quiet h d" "quiet h (bothFingers f d) = quiet h d"
  "quiet h (takeTime clock d) = quiet h d" "quiet h (stopAccidental d) = quiet h d" "quiet h (foundPalm d) = quiet h d"
  by (simp_all add: quiet_def touch bothFingers_def takeTime_def readClock_def stopAccidental_def foundPalm_def Let_def)

lemma quiet_initFinger [simp]: "quiet h (initFinger i d) = quiet h d"
  by (simp add: initFinger_def Let_def)

lemma quiet_synaptics_parts [simp]:
  "quiet h d \<Longrightarrow> quiet h (reportSecondary p d)" "quiet h d \<Longrightarrow> quiet h (reportFingerState clock p d)"
  "quiet h d \<Longrightarrow> quiet h (changeFingers clock n d)" "quiet h d \<Longrightarrow> quiet h (fingersUp clock p d)"
  "quiet h d \<Longrightarrow> quiet h (setPrimary x y z d)" "quiet h d \<Longrightarrow> quiet h (fixStart d)"
  "quiet h d \<Longrightarrow> quiet h (edgeOrRestart d)" "quiet h d \<Longrightarrow> quiet h (lastPid d)" "quiet h d \<Longrightarrow> quiet h (lastSid d)"
  unfolding reportSecondary_def reportFingerState_def changeFingers_def fingersUp_def setPrimary_def startFinger_def
    fixStart_def edgeOrRestart_def lastPid_def lastSid_def
  by ((intro quiet_control)?; simp)+

lemma quiet_setSecondary [simp]: "quiet h d \<Longrightarrow> quiet h (setSecondary d)"
  unfolding setSecondary_def startFinger_def by (intro quiet_control; simp)

lemma quiet_fingersDown [simp]: "quiet h d \<Longrightarrow> quiet h (fingersDown clock d)"
  unfolding fingersDown_def by (intro quiet_control; simp)

lemma quiet_extended [simp]: "quiet h d \<Longrightarrow> quiet h (reportExtended clock p d)"
  unfolding reportExtended_def by (intro quiet_control; simp)

text \<open>A touchpad without a middle button, or a click pad.\<close>

definition no_scroll_button :: "touchpad \<Rightarrow> bool" where
  "no_scroll_button t \<longleftrightarrow> isClickPad t \<or> \<not> SYN_CAP_MIDDLE_BUTTON (capabilities (synTPad t))"

fun synapticsPackets :: "(nat \<Rightarrow> u64) \<Rightarrow> 'e engine \<Rightarrow> u8 list list \<Rightarrow> 'e touch_driver \<Rightarrow> 'e touch_driver option" where
  "synapticsPackets clock engine [] d = Some d"
| "synapticsPackets clock engine (p # ps) d = do {
     d \<leftarrow> Synaptics_report_absolute clock engine p d;
     synapticsPackets clock engine ps d
   }"

context touch_engine
begin

lemma quiet_engine [simp]: "quiet h d \<Longrightarrow> quiet h (callEngine engine c d)"
  using call_board [of c d] by (simp add: quiet_def board_def callEngine_def engine_scroll)

lemma quiet_calls [simp]:
  assumes "quiet h d"
  shows "quiet h (callTwoFingers engine d)" "quiet h (clickPadOneFinger engine ty p i d)" "quiet h (callPrimary engine d)"
    "quiet h (invalidPrimary engine d)" "quiet h (moveFinger engine i d)"
  using assms unfolding callTwoFingers_def clickPadOneFinger_def callPrimary_def invalidPrimary_def moveFinger_def
  by ((intro quiet_control)?; simp)+

lemma quiet_dispatch [simp]:
  assumes "quiet h d"
  shows "quiet h (dispatchSynaptics clock engine z p d)"
proof -
  have "quiet h (oneFingerSynaptics clock engine p d)" "quiet h (twoFingersSynaptics engine p d)"
    "quiet h (moreFingersSynaptics engine p d)"
    using assms unfolding oneFingerSynaptics_def twoFingersSynaptics_def moreFingersSynaptics_def
    by ((intro quiet_control)?; simp)+
  with assms show ?thesis unfolding dispatchSynaptics_def by (intro quiet_control) simp_all
qed

lemma quiet_primary [simp]:
  assumes "quiet h d"
  shows "quiet h (reportPrimary clock engine x y z p d)"
    "quiet h (Process_passthrough_events_Synaptics clock engine x y p d)"
  using assms unfolding reportPrimary_def Process_passthrough_events_Synaptics_def
  by ((intro quiet_control)?; simp)+

lemma quiet_packet:
  assumes "quiet h d" "no_scroll_button (tp d)"
  shows "\<exists>d'. Synaptics_report_absolute clock engine p d = Some d' \<and> quiet h d'"
proof -
  have w: "quiet h (withWidth p d)" using assms(1) by (simp add: withWidth_def)
  have "pendingScroll p d = 0" using assms by (auto simp: pendingScroll_def no_scroll_button_def quiet_def Let_def)
  moreover from this have "quiet h (withButtons p d)"
    using withButtons_scroll [of p d] assms(1) by (simp add: quiet_def)
  ultimately show ?thesis
    using w by (simp add: Synaptics_report_absolute_eq Let_def)
qed

lemma packets_return:
  assumes "no_scroll_button (tp d)" "m_scroll (gestures d) = 0"
  shows "\<exists>d'. synapticsPackets clock engine ps d = Some d' \<and> quiet (hardware (tp d)) d'"
proof -
  have "quiet (hardware (tp d)) d" using assms(2) by (simp add: quiet_def)
  moreover have "\<exists>d'. synapticsPackets clock engine ps e = Some d' \<and> quiet h d'"
    if "quiet h e" "no_scroll_button (tp e)" for h e
    using that
  proof (induction ps arbitrary: e)
    case (Cons p ps)
    from quiet_packet [OF Cons.prems] obtain e' where
      e': "Synaptics_report_absolute clock engine p e = Some e'" "quiet h e'" by blast
    moreover from this have "no_scroll_button (tp e')"
      using Cons.prems by (auto simp: quiet_def hardware_def no_scroll_button_def)
    ultimately show ?case using Cons.IH by simp
  qed simp
  ultimately show ?thesis using assms(1) by blast
qed

end

definition exampleSynaptics :: "u64 \<Rightarrow> touch driver" where
  "exampleSynaptics caps = onPad (\<lambda>t. t\<lparr>synTPad := (synTPad t)\<lparr>model_id := 0x80, capabilities := caps\<rparr>\<rparr>)
     (exampleTouch STD_SYNAPTICS STD_SYNAPTICS_HW)"

text \<open>With a middle button and no extended packets, the packet after a scroll is never decoded.\<close>

lemma scrolling_hangs:
  "synapticsPackets (\<lambda>_. 0) engine [[0x84, 1, 0, 0xc0, 0, 0], [0x90, 0, 0, 0xc0, 0, 0]]
     (exampleSynaptics 0x840000) = None"
proof -
  let ?p = "[0x84, 1, 0, 0xc0, 0, 0] :: u8 list" and ?q = "[0x90, 0, 0, 0xc0, 0, 0] :: u8 list"
  let ?d = "exampleSynaptics 0x840000"
  let ?e = "onTouch (\<lambda>g. g\<lparr>m_scroll := 0xfffffffe\<rparr>) (withButtons ?p ?d)"
  have "decodesPosition ?p ?d" "pendingScroll ?p ?d = 1" by code_simp+
  then have "Synaptics_report_absolute (\<lambda>_. 0) engine ?p ?d = Some ?e"
    by (simp add: Synaptics_report_absolute_eq middleScroll_cases)
  moreover have "decodesPosition ?q ?e" "pendingScroll ?q ?e = 0xfffffffe" by code_simp+
  then have "Synaptics_report_absolute (\<lambda>_. 0) engine ?q ?e = None"
    by (simp add: synaptics_decoder_hangs_iff)
  ultimately show ?thesis by simp
qed

end
