(* ===== verification/Touchpad_Decoder.thy ===== *)
theory Touchpad_Decoder
  imports Touchpad_Notify Touchpad_DecodeProps
begin

text \<open>
  The decoders and the notification handler put together as the decoder argument of the packet framing, and
  how typing on the keyboard closes the gate of the touchpad.
\<close>

section \<open>The decoder of all packets\<close>

definition touchDecoder ::
  "(nat \<Rightarrow> u64) \<Rightarrow> (rat \<Rightarrow> rat) \<Rightarrow> 'x gesture_ext engine \<Rightarrow> 'x gesture_scheme decoder" where
  "touchDecoder clock fl engine c d =
     (let d = onTouch (\<lambda>g. g\<lparr>mnow := now d\<rparr>) d;
          d = (case c of
                 ProcessMouse p \<Rightarrow> onTouch (\<lambda>g. processMousePacket (scaled fl (scrollFactor g)) clock p g) d
               | SynapticsAbsolute p \<Rightarrow>
                   (case Synaptics_report_absolute clock engine p d of
                      Some d' \<Rightarrow> d'
                    | None \<Rightarrow> onTouch (\<lambda>g. g\<lparr>hung := True\<rparr>) d)
               | KeyboardNotification code \<Rightarrow>
                   keyboardNotification clock fl code (onTouch (readClock clock) d)
               | StopEnhanceTimers \<Rightarrow> StopPointerEnhanceTimer (StopScrollEnhanceTimer d)
               | _ \<Rightarrow> elanDecoder clock engine c d)
      in d\<lparr>now := mnow (gestures d)\<rparr>)"

section \<open>Typing and the gate\<close>

text \<open>The keyboard driver reports each key while typing as accidental input.\<close>

definition typeKey :: "(nat \<Rightarrow> u64) \<Rightarrow> (rat \<Rightarrow> rat) \<Rightarrow> 'x gesture_driver \<Rightarrow> 'x gesture_driver" where
  "typeKey clock fl d = keyboardNotification clock fl kPS2C_AccidentalInput (onTouch (readClock clock) d)"

lemma receive_typeKey:
  "receiveKeyboardNotifications clock fl D kPS2C_AccidentalInput d s = Some (typeKey clock fl d, s)"
  by (simp add: receiveKeyboardNotifications_def typeKey_def Let_def)

text \<open>What typing leaves alone in the gate.\<close>

definition typing_frame :: "input_gate \<Rightarrow> input_gate" where
  "typing_frame k = k\<lparr>accidentalInput := False, kbKeysCount := 0, lastKeyPressTime := 0\<rparr>"

lemma typeKey_gate:
  "gate (typeKey clock fl d) =
     (if kbKeysCount (gate d) + 1 \<ge> accInputKeysCount (gestures d) \<and> isTypeModeEnabled (gate d)
      then (gate d)\<lparr>kbKeysCount := 2, accidentalInput := True, lastKeyPressTime := clock (readings (gestures d))\<rparr>
      else (gate d)\<lparr>kbKeysCount := kbKeysCount (gate d) + 1, lastKeyPressTime := clock (readings (gestures d))\<rparr>)"
  by (simp add: typeKey_def keyboardNotification_def notifyAccidentalInput_def pressed_def onGate_def onTouch_def
      readClock_def Let_def)

lemma typeKey_keeps [simp]:
  "tp (typeKey clock fl d) = tp d" "calls (typeKey clock fl d) = calls d"
  "accInputKeysCount (gestures (typeKey clock fl d)) = accInputKeysCount (gestures d)"
  "readings (gestures (typeKey clock fl d)) = Suc (readings (gestures d))"
  "typing_frame (gate (typeKey clock fl d)) = typing_frame (gate d)"
  by (simp_all add: typeKey_gate typing_frame_def)
     (simp_all add: typeKey_def keyboardNotification_def notifyAccidentalInput_def pressed_def onGate_def onTouch_def readClock_def)

definition typeKeys :: "(nat \<Rightarrow> u64) \<Rightarrow> (rat \<Rightarrow> rat) \<Rightarrow> nat \<Rightarrow> 'x gesture_driver \<Rightarrow> 'x gesture_driver" where
  "typeKeys clock fl n = (typeKey clock fl ^^ n)"

lemma typeKeys_keeps [simp]:
  "tp (typeKeys clock fl n d) = tp d" "calls (typeKeys clock fl n d) = calls d"
  "accInputKeysCount (gestures (typeKeys clock fl n d)) = accInputKeysCount (gestures d)"
  "readings (gestures (typeKeys clock fl n d)) = readings (gestures d) + n"
  "typing_frame (gate (typeKeys clock fl n d)) = typing_frame (gate d)"
  by (induction n) (simp_all add: typeKeys_def)

lemma typing_frame_eq:
  assumes "typing_frame k = typing_frame k'"
  shows "isTypeModeEnabled k = isTypeModeEnabled k'" "isAsusNotebook k = isAsusNotebook k'"
    "accInputTimeOut k = accInputTimeOut k'" "tapEnableTPad k = tapEnableTPad k'"
proof -
  have "isTypeModeEnabled (typing_frame k) = isTypeModeEnabled (typing_frame k')"
    "isAsusNotebook (typing_frame k) = isAsusNotebook (typing_frame k')"
    "accInputTimeOut (typing_frame k) = accInputTimeOut (typing_frame k')"
    "tapEnableTPad (typing_frame k) = tapEnableTPad (typing_frame k')" using assms by simp_all
  then show "isTypeModeEnabled k = isTypeModeEnabled k'" "isAsusNotebook k = isAsusNotebook k'"
    "accInputTimeOut k = accInputTimeOut k'" "tapEnableTPad k = tapEnableTPad k'"
    by (simp_all add: typing_frame_def)
qed

lemma typing_is_noticed:
  assumes "isTypeModeEnabled (gate d)" "kbKeysCount (gate d) = 0" "n \<le> 255"
  shows "accidentalInput (gate (typeKeys clock fl n d)) \<or>
    kbKeysCount (gate (typeKeys clock fl n d)) = of_nat n \<and> (n = 0 \<or> of_nat n < accInputKeysCount (gestures d))"
  using assms(3)
proof (induction n)
  case 0
  then show ?case using assms by (simp add: typeKeys_def)
next
  case (Suc n)
  let ?e = "typeKeys clock fl n d"
  have k: "typeKeys clock fl (Suc n) d = typeKey clock fl ?e" by (simp add: typeKeys_def)
  have t: "isTypeModeEnabled (gate ?e)" "accInputKeysCount (gestures ?e) = accInputKeysCount (gestures d)"
    using assms(1) typing_frame_eq(1) [of "gate ?e" "gate d"] by simp_all
  show ?case
  proof (cases "accidentalInput (gate ?e)")
    case True
    then show ?thesis unfolding k typeKey_gate by simp
  next
    case False
    with Suc have "kbKeysCount (gate ?e) = of_nat n" by auto
    with t show ?thesis unfolding k typeKey_gate by (auto simp: add.commute not_le)
  qed
qed

lemma typing_is_accidental:
  assumes "isTypeModeEnabled (gate d)" "kbKeysCount (gate d) = 0" "n = unat (accInputKeysCount (gestures d))" "n > 0"
  shows "accidentalInput (gate (typeKeys clock fl n d))"
proof -
  have "n < 2 ^ LENGTH(8)" unfolding assms(3) by (rule unsigned_less)
  then have "n \<le> 255" by simp
  from typing_is_noticed [OF assms(1,2) this, of clock fl] assms(3,4) show ?thesis by auto
qed

text \<open>The polls of the platform change the time, within its readings, and parts of the gate that typing leaves alone.\<close>

definition polled :: "platform \<Rightarrow> 'g driver \<Rightarrow> 'g driver \<Rightarrow> bool" where
  "polled pl d d' \<longleftrightarrow> calls d' = calls d \<and> gestures d' = gestures d \<and> now d' \<in> {now d, uptimeMouse pl, uptimeAcpi pl} \<and>
     accidentalInput (gate d') = accidentalInput (gate d) \<and> tapEnableTPad (gate d') = tapEnableTPad (gate d) \<and>
     lastKeyPressTime (gate d') = lastKeyPressTime (gate d) \<and> accInputTimeOut (gate d') = accInputTimeOut (gate d) \<and>
     isAsusNotebook (gate d') = isAsusNotebook (gate d)"

lemma polled_external: "gateExternalMouse pl d = (b, d') \<Longrightarrow> polled pl d d'"
  by (auto simp: gateExternalMouse_def detectExternalMouse_def polled_def Let_def split: if_splits)

lemma pollLid_keeps [simp]:
  "accidentalInput (pollLid pl k) = accidentalInput k" "tapEnableTPad (pollLid pl k) = tapEnableTPad k"
  "lastKeyPressTime (pollLid pl k) = lastKeyPressTime k" "accInputTimeOut (pollLid pl k) = accInputTimeOut k"
  "isAsusNotebook (pollLid pl k) = isAsusNotebook k"
  by (simp_all add: pollLid_def split: option.split)

lemma polled_polling:
  "gatePolling decode pl d = (b, d') \<Longrightarrow> \<not> isAsusNotebook (gate d) \<Longrightarrow> polled pl d d'"
  by (auto simp: gatePolling_def Process_ACPI_IOREG_Polling_def polled_def Let_def split: if_splits)

lemma gate_closed:
  assumes "accidentalInput (gate d)" "\<not> tapEnableTPad (gate d)" "\<not> isAsusNotebook (gate d)"
    "\<forall>t \<in> set [now d, uptimeMouse pl, uptimeAcpi pl]. t - lastKeyPressTime (gate d) \<le> accInputTimeOut (gate d)"
  shows "\<exists>d'. gatePacket decode pl d = (True, d') \<and> calls d' = calls d \<and> gestures d' = gestures d"
proof -
  obtain b1 d1 where 1: "gateExternalMouse pl d = (b1, d1)" by fastforce
  note p1 = polled_external [OF 1]
  obtain b2 d2 where 2: "gatePolling decode pl d1 = (b2, d2)" by fastforce
  have p2: "polled pl d1 d2" by (rule polled_polling [OF 2]) (use p1 assms(3) in \<open>simp add: polled_def\<close>)
  have "\<not> accInputTimeOut (gate d2) < now d2 - lastKeyPressTime (gate d2)" "accidentalInput (gate d2)"
    "\<not> tapEnableTPad (gate d2)"
    using p1 p2 assms by (auto simp: polled_def not_less)
  then have "gateAccidental (now d2) (gate d2) = (True, gate d2)"
    by (simp add: gateAccidental_def Let_def)
  then show ?thesis using p1 p2 by (simp add: gatePacket_def 1 2 polled_def)
qed

text \<open>A packet that the gate stops is dropped as it is, and so is a repeated one.\<close>

lemma completePacket_dropped:
  assumes "\<And>t. \<exists>d'. gatePacket decode pl (d\<lparr>tp := t, now := uptime pl\<rparr>) = (True, d') \<and> calls d' = calls d \<and>
    gestures d' = gestures d"
  shows "\<exists>d'. completePacket decode D pl d s = Some (d', s) \<and> calls d' = calls d \<and> gestures d' = gestures d"
proof -
  define t where "t = (tp d)\<lparr>packetByteCount := 0,
    endPacketsCount := (if duplicateEnd ((tp d)\<lparr>packetByteCount := 0\<rparr>) then endPacketsCount (tp d) + 1 else 0)\<rparr>"
  have "completePacket decode D pl d s = (if endPacketsCount t > 1 then Some (d\<lparr>tp := t\<rparr>, s)
      else case gatePacket decode pl (d\<lparr>tp := t, now := uptime pl\<rparr>) of (stop, d') \<Rightarrow>
        if stop then Some (d', s) else dispatchPacket decode D d' s)"
    unfolding completePacket_def Let_def t_def by simp
  with assms [of t] show ?thesis by (auto split: if_splits)
qed

text \<open>
  C6: Typing closes the touchpad: in typing mode, with the option that lets taps through switched off
  (TapEnablesTPadFromAccInput) and not on an ASUS notebook, as many keys in a row as the configuration asks
  for, counted from a key count that was just reset, close it: every packet that is complete within the
  time-out of the last key is dropped, with no decoder called and no access to the device, whatever the
  packet and the platform are.
\<close>

theorem typing_closes_the_touchpad:
  fixes clock d
  defines "n \<equiv> unat (accInputKeysCount (gestures d))"
  assumes "isTypeModeEnabled (gate d)" "kbKeysCount (gate d) = 0" "accInputKeysCount (gestures d) > 0"
    "\<not> tapEnableTPad (gate d)" "\<not> isAsusNotebook (gate d)"
    "\<forall>t \<in> set [uptime pl, uptimeMouse pl, uptimeAcpi pl].
       t - clock (readings (gestures d) + n - 1) \<le> accInputTimeOut (gate d)"
  shows "\<exists>d'. completePacket decode D pl (typeKeys clock fl n d) s = Some (d', s) \<and> calls d' = calls d \<and>
    gestures d' = gestures (typeKeys clock fl n d)"
proof -
  let ?e = "typeKeys clock fl n d"
  have n: "n > 0" using assms(4) by (simp add: n_def unat_gt_0 word_neq_0_conv)
  have f: "typing_frame (gate ?e) = typing_frame (gate d)" by simp
  note fr = typing_frame_eq [OF f]
  have acc: "accidentalInput (gate ?e)" by (rule typing_is_accidental [OF assms(2,3)]) (use n in \<open>simp_all add: n_def\<close>)
  obtain m where m: "n = Suc m" using n by (cases n) auto
  have "?e = typeKey clock fl (typeKeys clock fl m d)" by (simp add: m typeKeys_def)
  then have "lastKeyPressTime (gate ?e) = clock (readings (gestures d) + m)" by (simp add: typeKey_gate)
  moreover have "readings (gestures d) + n - 1 = readings (gestures d) + m" by (simp add: m)
  ultimately have time: "\<forall>t \<in> set [uptime pl, uptimeMouse pl, uptimeAcpi pl].
      t - lastKeyPressTime (gate ?e) \<le> accInputTimeOut (gate ?e)"
    using assms(7) fr by simp
  have "\<exists>d'. gatePacket decode pl (?e\<lparr>tp := t, now := uptime pl\<rparr>) = (True, d') \<and> calls d' = calls ?e \<and> gestures d' = gestures ?e" for t
    using gate_closed [of "?e\<lparr>tp := t, now := uptime pl\<rparr>" pl decode] acc time fr assms(5,6) by simp
  from completePacket_dropped [of decode pl ?e D s, OF this] show ?thesis by simp
qed

section \<open>Witness\<close>

definition typingPad :: "gesture driver" where
  "typingPad = \<lparr>tp = touchpad_init\<lparr>touchpadVendor := STD_ELAN_TECH, hw_version := STD_ELAN_HW_V2, pktsize := 6\<rparr>,
     gate = gate_init\<lparr>isTypeModeEnabled := True, accInputTimeOut := 500\<rparr>, now = 0,
     gestures = gesture_init\<lparr>accInputKeysCount := 2\<rparr>, overrun = False, calls = []\<rparr>"

theorem typing_closes_the_touchpad_witness:
  "\<exists>d'. completePacket (touchDecoder (\<lambda>n. 100 * of_nat n) id (\<lambda>_. id)) mouseDevice (quietPlatform\<lparr>uptime := 300, uptimeMouse := 300, uptimeAcpi := 300\<rparr>)
      (typeKeys (\<lambda>n. 100 * of_nat n) id 2 typingPad) (init []) = Some (d', init []) \<and> calls d' = [] \<and>
      gestures d' = gestures (typeKeys (\<lambda>n. 100 * of_nat n) id 2 typingPad)"
proof -
  let ?pl = "quietPlatform\<lparr>uptime := 300, uptimeMouse := 300, uptimeAcpi := 300\<rparr>"
  have "isTypeModeEnabled (gate typingPad)" "kbKeysCount (gate typingPad) = 0"
    "accInputKeysCount (gestures typingPad) > 0" "\<not> tapEnableTPad (gate typingPad)"
    "\<not> isAsusNotebook (gate typingPad)" "calls typingPad = []" "unat (accInputKeysCount (gestures typingPad)) = 2"
    "\<forall>t \<in> set [uptime ?pl, uptimeMouse ?pl, uptimeAcpi ?pl].
       t - 100 * of_nat (readings (gestures typingPad) + unat (accInputKeysCount (gestures typingPad)) - 1)
         \<le> accInputTimeOut (gate typingPad)"
    by (simp_all add: typingPad_def gate_init_def quietPlatform_def gesture_init_def touch_init_def touch.defs gesture.defs)
  note h = this
  from typing_closes_the_touchpad [OF h(1-5), where clock = "\<lambda>n. 100 * of_nat n" and fl = id and
      pl = ?pl and decode = "touchDecoder (\<lambda>n. 100 * of_nat n) id (\<lambda>_. id)" and D = mouseDevice and s = "init []"]
    h(6-8)
  show ?thesis by simp
qed

end
