(* ===== verification/Touchpad_Framing.thy ===== *)
theory Touchpad_Framing
  imports Touchpad_Decoder
begin

text \<open>
  What the packet framing relies on of its decoder argument, for the decoders of the touchpad: none of them,
  nor the gesture engine behind them, changes the buffer and the counters of the framing, the number of
  reconnections left, or the record of calls, whatever the packet is.
\<close>

section \<open>Parts of the decoders\<close>

text \<open>The hardware and the framing are \<open>h\<close>, the rest of the driver is \<open>F\<close>.\<close>

definition kept :: "hardware \<Rightarrow> bool \<times> packet_call list \<Rightarrow> 'e touch_driver \<Rightarrow> bool" where
  "kept h F d \<longleftrightarrow> hardware (tp d) = h \<and> (overrun d, calls d) = F"

lemmas kept_control = control_rules [where P = "kept h F" for h F]

lemma kept_onTouch [simp]: "kept h F (onTouch f d) = kept h F d"
  by (simp add: kept_def)

lemma kept_onPad [simp]: "hardware (f (tp d)) = hardware (tp d) \<Longrightarrow> kept h F (onPad f d) = kept h F d"
  by (simp add: kept_def)

lemma kept_onGate [simp]: "kept h F (onGate f d) = kept h F d"
  by (simp add: kept_def onGate_def)

lemma kept_elementary [simp]:
  "kept h F (setFinger i u d) = kept h F d" "kept h F (reads i d) = kept h F d"
  "kept h F (setTimeout t n d) = kept h F d" "kept h F (cancelTimeout t d) = kept h F d"
  "kept h F (StopPointerEnhanceTimer d) = kept h F d" "kept h F (StopScrollEnhanceTimer d) = kept h F d"
  "kept h F (stopPointer d) = kept h F d" "kept h F (releasePointer clock d) = kept h F d"
  "kept h F (dispatchButtons clock b d) = kept h F d" "kept h F (bothFingers u d) = kept h F d"
  "kept h F (takeTime clock d) = kept h F d" "kept h F (stopAccidental d) = kept h F d"
  "kept h F (foundPalm d) = kept h F d" "kept h F (movePointer clock dx dy b d) = kept h F d"
  "kept h F (notify code d) = kept h F d" "kept h F (nudge clock on d) = kept h F d"
  by (simp_all add: setFinger_def reads_def setTimeout_def cancelTimeout_def StopPointerEnhanceTimer_def
      StopScrollEnhanceTimer_def stopPointer_def releasePointer_def dispatchButtons_def bothFingers_def takeTime_def
      stopAccidental_def foundPalm_def movePointer_def notify_def nudge_def Let_def)

lemma kept_changes [simp]:
  assumes "kept h F d"
  shows "kept h F (updateSlots d)" "kept h F (cancelTimers d)" "kept h F (clearDrag clock d)" "kept h F (resetFingers d)"
    "kept h F (pressButton clock b d)" "kept h F (releaseButtons clock d)" "kept h F (Is2FingEdgeSwipe d)"
  using assms unfolding updateSlots_def cancelTimers_def clearDrag_def resetFingers_def pressButton_def
    releaseButtons_def Is2FingEdgeSwipe_def
  by ((intro kept_control)?; simp)+

lemma kept_fingers [simp]:
  assumes "kept h F d"
  shows "kept h F (Process_fingers_change clock d)" "kept h F (Process_Physical_Buttons clock p d)"
    "kept h F (physicalButtons clock p d)"
proof -
  show b: "kept h F (Process_Physical_Buttons clock p d)"
    using assms unfolding Process_Physical_Buttons_def by ((intro kept_control)?; simp)
  show "kept h F (Process_fingers_change clock d)" "kept h F (physicalButtons clock p d)"
    using assms b unfolding Process_fingers_change_def physicalButtons_def
    by ((intro kept_control)?; simp)+
qed

lemma kept_starts [simp]:
  assumes "kept h F d"
  shows "kept h F (initFinger i d)" "kept h F (swapFingers d)" "kept h F (edgeOrRestart d)" "kept h F (startAbsolute i d)"
    "kept h F (shiftFinger i dx dy d)" "kept h F (tapInMove clock d)" "kept h F (lastPid d)" "kept h F (lastSid d)"
    "kept h F (startFinger i d)" "kept h F (fixStart d)" "kept h F (setPrimary x y z d)"
  using assms unfolding initFinger_def swapFingers_def edgeOrRestart_def startAbsolute_def shiftFinger_def tapInMove_def
    lastPid_def lastSid_def startFinger_def fixStart_def setPrimary_def
  by ((intro kept_control)?; simp)+

lemma kept_synaptics_parts [simp]:
  assumes "kept h F d"
  shows "kept h F (startTwoFingers d)" "kept h F (setSecondary d)" "kept h F (changeFingers clock n d)"
    "kept h F (reportSecondary p d)" "kept h F (reportFingerState clock p d)" "kept h F (newabsButtons p d)"
  using assms unfolding startTwoFingers_def setSecondary_def changeFingers_def reportSecondary_def reportFingerState_def
    newabsButtons_def
  by ((intro kept_control)?; simp)+

lemma kept_synaptics_fingers [simp]:
  assumes "kept h F d"
  shows "kept h F (fingersDown clock d)" "kept h F (fingersUp clock p d)" "kept h F (reportExtended clock p d)"
    "kept h F (Process_ELANv2v3_Checks clock p d)" "kept h F (Process_absolute_events_ELANv1 clock p d)"
  using assms unfolding fingersDown_def fingersUp_def reportExtended_def Process_ELANv2v3_Checks_def
    Process_absolute_events_ELANv1_def
  by ((intro kept_control)?; simp)+

section \<open>Notifications of the keyboard driver\<close>

lemma kept_parts [simp]:
  "kept h F (onScrollF f1 d) = kept h F d" "kept h F (onTap f2 d) = kept h F d" "kept h F (onZoom f3 d) = kept h F d"
  "kept h F (onSwipe f4 d) = kept h F d" "kept h F (onButton f5 d) = kept h F d" "kept h F (onBacklight f6 d) = kept h F d"
  "kept h F (pressed d) = kept h F d" "kept h F (notifyAccidentalInput d) = kept h F d" "kept h F (notifyEnable d) = kept h F d"
  "kept h F (releaseAppSwitch d) = kept h F d" "kept h F (clearButtons d) = kept h F d"
  by (simp_all add: onScrollF_def onTap_def onZoom_def onSwipe_def onButton_def onBacklight_def pressed_def
      notifyAccidentalInput_def notifyEnable_def releaseAppSwitch_def clearButtons_def)

lemma kept_notifications [simp]:
  assumes "kept h F d"
  shows "kept h F (notifyESC clock d)" "kept h F (notifyShift d)" "kept h F (notifyBackLight clock data d)"
    "kept h F (contextMenu clock d)" "kept h F (toggleFeature clock data d)"
proof -
  show "kept h F (notifyESC clock d)" "kept h F (notifyShift d)" "kept h F (notifyBackLight clock data d)"
    "kept h F (contextMenu clock d)"
    using assms unfolding notifyESC_def notifyShift_def notifyBackLight_def contextMenu_def
    by ((intro kept_control)?; simp)+
  show "kept h F (toggleFeature clock data d)"
    using assms by (simp add: toggleFeature_def toggleThenNudge_def Let_def)
qed

lemma kept_keyboard [simp]: "kept h F d \<Longrightarrow> kept h F (keyboardNotification clock fl data d)"
  by (simp add: keyboardNotification_def)

section \<open>The decoders with the engine behind them\<close>

context touch_engine
begin

lemma kept_engine [simp]: "kept h F d \<Longrightarrow> kept h F (callEngine engine c d)"
  using engine_board [of c "onTouch (\<lambda>g. g\<lparr>touchCalls := touchCalls g @ [c]\<rparr>) d"]
    engine_driver [of c "onTouch (\<lambda>g. g\<lparr>touchCalls := touchCalls g @ [c]\<rparr>) d"]
  by (simp add: kept_def callEngine_def board_def)

lemma kept_calls [simp]:
  assumes "kept h F d"
  shows "kept h F (callTwoFingers engine d)" "kept h F (oneFingerV2V3 engine p d)"
    "kept h F (Process_trackpoint_events_ELAN engine p d)" "kept h F (clickPadOneFinger engine ty p i d)"
    "kept h F (callPrimary engine d)" "kept h F (invalidPrimary engine d)" "kept h F (moveFinger engine i d)"
  using assms unfolding callTwoFingers_def oneFingerV2V3_def Process_trackpoint_events_ELAN_def clickPadOneFinger_def
    callPrimary_def invalidPrimary_def moveFinger_def
  by ((intro kept_control)?; simp)+

lemma kept_stages [simp]:
  assumes "kept h F d"
  shows "kept h F (oneFingerV4 clock engine ty p i d)" "kept h F (moreFingersV4 engine ty p i d)"
    "kept h F (relativeTwoFingers engine ty p dx dy d)" "kept h F (relativeMoreFingers engine ty p dx dy d)"
    "kept h F (oneFingerSynaptics clock engine p d)" "kept h F (twoFingersSynaptics engine p d)"
    "kept h F (moreFingersSynaptics engine p d)"
  using assms unfolding oneFingerV4_def moreFingersV4_def relativeTwoFingers_def relativeMoreFingers_def
    oneFingerSynaptics_def twoFingersSynaptics_def moreFingersSynaptics_def
  by ((intro kept_control)?; simp)+

lemma kept_twoFingersV2V3 [simp]: "kept h F d \<Longrightarrow> kept h F (twoFingersV2V3 engine ty p d)"
  by (simp add: twoFingersV2V3_def Let_def)

lemma kept_allUp: "kept h F d \<Longrightarrow> allUpV4 clock engine ty p d = (stop, e) \<Longrightarrow> kept h F e"
  by (auto simp: allUpV4_def Let_def split: if_splits)

lemma kept_up:
  assumes "kept h F d"
    "(if m = 0 then allUpV4 clock engine ty p d else (False, if m = 0x02 then tapInMove clock d else d)) = (stop, e)"
  shows "kept h F e"
  using assms kept_allUp [OF assms(1)] by (auto split: if_splits)

lemma kept_status [simp]:
  assumes "kept h F d"
  shows "kept h F (statusV4 clock engine ty p d)"
proof -
  let ?d = "onPad (\<lambda>t. t\<lparr>cFingers := p ! 1 AND 0x1f\<rparr>) (onTouch (\<lambda>g. g\<lparr>lastFingers := cFingers (tp d)\<rparr>) d)"
  let ?up = "if p ! 1 AND 0x1f = 0 then allUpV4 clock engine ty p ?d
    else (False, if p ! 1 AND 0x1f = 0x02 then tapInMove clock ?d else ?d)"
  have d: "kept h F ?d" using assms by simp
  obtain stop e where e: "?up = (stop, e)" by fastforce
  then have k: "kept h F e" by (rule kept_up [OF d])
  show ?thesis
  proof (cases "fingersOfMask (p ! 1 AND 0x1f)")
    case None
    then show ?thesis using d by (simp only: statusV4_def Let_def option.case)
  next
    case (Some n)
    then have "statusV4 clock engine ty p d =
      (if stop then e else Process_fingers_change clock (if p ! 1 AND 0x1f = 0 then e else onPad (\<lambda>t. t\<lparr>cFingers := n\<rparr>) e))"
      using e by (simp only: statusV4_def Let_def option.case prod.case)
    then show ?thesis using k by simp
  qed
qed

lemma kept_absolute [simp]: "kept h F d \<Longrightarrow> kept h F (absoluteV4 clock engine ty p d)"
  unfolding absoluteV4_def by (intro kept_control) simp_all

lemma kept_relative [simp]: "kept h F d \<Longrightarrow> kept h F (relativeV4 engine ty p d)"
  unfolding relativeV4_def by (intro kept_control) simp_all

lemma kept_elan:
  assumes "kept h F d"
  shows "kept h F (elanDecoder clock engine c d)"
proof -
  have "kept h F (Process_absolute_events_ELANv2v3 clock engine ty p d)"
    "kept h F (Process_absolute_events_ELANv4AndFocalTech clock engine ty p d)" for ty p
    using assms unfolding Process_absolute_events_ELANv2v3_def Process_absolute_events_ELANv4AndFocalTech_def
    by ((intro kept_control)?; simp)+
  then show ?thesis using assms by (simp add: elanDecoder_def split: packet_call.split)
qed

lemma kept_primary [simp]:
  assumes "kept h F d"
  shows "kept h F (dispatchSynaptics clock engine z p d)" "kept h F (reportPrimary clock engine x y z p d)"
    "kept h F (Process_passthrough_events_Synaptics clock engine x y p d)"
proof -
  have "kept h F (dispatchSynaptics clock engine z p e)" if "kept h F e" for e
    using that unfolding dispatchSynaptics_def by (intro kept_control) simp_all
  then show "kept h F (dispatchSynaptics clock engine z p d)" "kept h F (reportPrimary clock engine x y z p d)"
    "kept h F (Process_passthrough_events_Synaptics clock engine x y p d)"
    using assms unfolding reportPrimary_def Process_passthrough_events_Synaptics_def
    by ((intro kept_control)?; simp)+
qed

lemma kept_synaptics:
  assumes "kept h F d" "Synaptics_report_absolute clock engine p d = Some d'"
  shows "kept h F d'"
proof -
  have "kept h F (newabsButtons p e)" if "kept h F e" for e using that by simp
  then show ?thesis using assms
    by (auto simp: Synaptics_report_absolute_def Let_def bind_eq_Some_conv split: if_splits)
qed

end

end
