(* ===== verification/Touchpad_Smart.thy ===== *)
theory Touchpad_Smart
  imports Touchpad_Bounds Touchpad_Framing
begin

text \<open>
  The touchpad driver as a whole: the packet decoders with the gesture engine behind them. The engine keeps
  the contract the decoders rely on, so what was proved of the decoders holds of the driver.
\<close>

section \<open>The end of a touch\<close>

lemma backlight_off:
  "keyboardNotification clock fl kPS2C_KeybrdBackLightOff d = notifyBackLight clock kPS2C_KeybrdBackLightOff d"
  by (simp add: keyboardNotification_def toggleFeature_def)

text \<open>Nothing of a touch is left.\<close>

definition at_rest :: "'x gesture_scheme \<Rightarrow> bool" where
  "at_rest g \<longleftrightarrow> pid g = -1 \<and> sid g = -1 \<and> touchmode g = MODE_IDLE \<and> m_scroll g = 0 \<and> lastFingers g = 0 \<and>
     fingerInUse (button g) = 0 \<and> lastSample g = replicate 11 noSample \<and> \<not> isEdgeGesture g \<and> \<not> palmDetected g \<and>
     cSample (smooth g) = 0 \<and> skipSample (smooth g) = 0 \<and> scrollSample (scroll g) = 0 \<and> holdTime g = 0 \<and>
     gestureTime g = 0 \<and> pressGestureTime (press g) = 0"

lemma touch_end:
  defines "e \<equiv> \<lambda>clock d. startReleaseTimers (endGesture clock (onTouch (readClock clock) d))"
  shows "at_rest (gestures (Process_touch_end clock fl d))" "packetsCount (tp (Process_touch_end clock fl d)) = 0"
    "length (fing (gestures (Process_touch_end clock fl d))) = length (fing (gestures (e clock d)))"
    "oob (gestures (Process_touch_end clock fl d)) = oob (gestures (e clock d))"
proof -
  have t: "Process_touch_end clock fl d = (let d = onPad (\<lambda>t. t\<lparr>packetsCount := 0\<rparr>) (onTouch (resetTouch (isClickPad (tp (e clock d)))) (e clock d))
      in if autoBackLight (tp d)
         then keyboardNotification clock fl kPS2C_KeybrdBackLightOff (onTouch (readClock clock) d) else d)"
    by (simp add: Process_touch_end_def e_def Let_def)
  show "at_rest (gestures (Process_touch_end clock fl d))" "packetsCount (tp (Process_touch_end clock fl d)) = 0"
    "length (fing (gestures (Process_touch_end clock fl d))) = length (fing (gestures (e clock d)))"
    "oob (gestures (Process_touch_end clock fl d)) = oob (gestures (e clock d))"
    unfolding t
    by (simp_all add: backlight_off notifyBackLight_def setTimeout_def cancelTimeout_def readClock_def resetTouch_def
        resetSmooth_def resetScroll_def at_rest_def Let_def)
qed

section \<open>The contract of the engine\<close>

text \<open>The samples in terms of what belongs to the engine.\<close>

definition samples_kept :: "u8 \<times> u8 \<times> 'x gesture_ext \<Rightarrow> bool" where
  "samples_kept = (\<lambda>(k, c, e). samples_ok ((touch.extend touch_init e)\<lparr>smooth := noSmoothing\<lparr>skipSample := k, cSample := c\<rparr>\<rparr>))"

lemma samples_kept_counters: "samples_kept (counters g) = samples_ok g"
  by (cases g rule: gesture.cases_scheme) (simp add: samples_kept_def counters_def samples_ok_def touch.defs touch_init_def)

lemma safe_arrays:
  "safe_touch samples_kept v d \<longleftrightarrow> in_arrays (board (tp d)) d \<and> touchpadVendor (tp d) = v"
  by (auto simp: safe_touch_def in_arrays_def samples_kept_counters)

lemma board_vendor: "board t = board t' \<Longrightarrow> touchpadVendor t = touchpadVendor t'"
  by (simp add: board_def hardware_def)

lemma in_arrays_safe:
  assumes "safe_touch samples_kept v d" "\<And>B. in_arrays B d \<Longrightarrow> in_arrays B (f d)"
  shows "safe_touch samples_kept v (f d)"
proof -
  have "in_arrays (board (tp d)) (f d)" using assms(1) by (intro assms(2)) (simp add: safe_arrays)
  moreover from this have "board (tp (f d)) = board (tp d)" by (simp add: in_arrays_def)
  moreover from this have "touchpadVendor (tp (f d)) = v" using assms(1) by (metis board_vendor safe_arrays)
  ultimately show ?thesis by (simp add: safe_arrays)
qed

lemma any_call: "known_call (\<lambda>_. True) c t"
  by (cases c) simp_all

interpretation smart: touch_engine "gestureEngine clock fl" samples_kept for clock fl
proof unfold_locales
  have s: "steady z u B F (gestureEngine clock fl c d)" if "steady z u B F d" for z u B F c and d :: "'a gesture_driver"
    using that by (rule steady.engine_end) (simp_all add: any_call)
  show "board (tp (gestureEngine clock fl c d)) = board (tp d)" for c and d :: "'a gesture_driver"
    using s [of False False "board (tp d)" "(overrun d, calls d)" d c] by (simp add: steady_def)
  show "overrun (gestureEngine clock fl c d) = overrun d \<and> calls (gestureEngine clock fl c d) = calls d"
    for c and d :: "'a gesture_driver"
    using s [of False False "board (tp d)" "(overrun d, calls d)" d c] by (simp add: steady_def)
  show "m_scroll (gestures (gestureEngine clock fl c d)) = 0" if "m_scroll (gestures d) = 0" for c and d :: "'a gesture_driver"
    using s [of True False "board (tp d)" "(overrun d, calls d)" d c] that by (simp add: steady_def)
  show "oob (gestures (gestureEngine clock fl c d))" if "oob (gestures d)" for c and d :: "'a gesture_driver"
    using s [of False True "board (tp d)" "(overrun d, calls d)" d c] that by (simp add: steady_def)
  show "safe_touch samples_kept v (gestureEngine clock fl c d)"
    if "safe_touch samples_kept v d" "known_call isFinger c (tp d)" "c \<noteq> TouchEnd" for v c and d :: "'a gesture_driver"
    using that(2,3) by (intro in_arrays_safe [OF that(1)] arrays.engine)
  show "inside (gestureEngine clock fl TouchEnd d)" if "safe_touch samples_kept v d" for v and d :: "'a gesture_driver"
  proof -
    have "safe_touch samples_kept v (startReleaseTimers (endGesture clock (onTouch (readClock clock) d)))"
      using that by (rule in_arrays_safe) simp
    then show ?thesis by (simp add: gestureEngine_def safe_arrays in_arrays_def inside_def touch_end(3,4))
  qed
  show "samples_kept (0, 0, e)" if "samples_kept (k, n, e)" for k n and e :: "'a gesture_ext"
    using that by (auto simp: samples_kept_def samples_ok_def noSmoothing_def word_gt_0)
qed

section \<open>The driver\<close>

text \<open>What interruptOccurred calls, with the gesture engine behind the decoders.\<close>

definition smartTouchpad :: "(nat \<Rightarrow> u64) \<Rightarrow> (rat \<Rightarrow> rat) \<Rightarrow> 'x gesture_scheme decoder" where
  "smartTouchpad clock fl = touchDecoder clock fl (gestureEngine clock fl)"

text \<open>
  The driver keeps what the framing of packets relies on, so the theorems of Touchpad_PacketProps on streams of
  packets, the packet buffer and reconnections hold for it.
\<close>

lemma kept_smart: "kept (hardware (tp d)) (overrun d, calls d) (smartTouchpad clock fl c d)"
proof -
  let ?d = "onTouch (\<lambda>g. g\<lparr>mnow := now d\<rparr>) d" and ?K = "kept (hardware (tp d)) (overrun d, calls d)"
  have d: "?K ?d" by (simp add: kept_def)
  have t: "?K (e\<lparr>now := u\<rparr>) = ?K e" for e :: "'x gesture_driver" and u by (simp add: kept_def)
  have s: "?K e" if "Synaptics_report_absolute clock (gestureEngine clock fl) p ?d = Some e" for p e
    by (rule smart.kept_synaptics [OF d that])
  show ?thesis using d
    by (cases c) (auto simp: smartTouchpad_def touchDecoder_def t smart.kept_elan Let_def
        dest: s split: option.split)
qed

lemma smartTouchpad_keeps [simp]:
  "keeps_framing (smartTouchpad clock fl)" "keeps_tries (smartTouchpad clock fl)"
  using kept_smart [of _ clock fl] by (auto simp: keeps_framing_def keeps_tries_def kept_def hardware_def Let_def)

text \<open>What reaches a touchpad that is not a Synaptics one: packets with the ids of fingers, and notifications.\<close>

fun elan_call :: "touchpad \<Rightarrow> packet_call \<Rightarrow> bool" where
  "elan_call t (SynapticsAbsolute p) = False"
| "elan_call t c = call_ids_ok t c"

lemma mouse_events [simp]:
  "mouse_state.more (dispatchRelativePointerPosition clock dx dy b m) = mouse_state.more m"
  "mouse_state.more (dispatchScrollDifference clock x y z m) = mouse_state.more m"
  "mouse_state.more (notifyKeyboard code m) = mouse_state.more m" "mouse_state.more (readClock clock m) = mouse_state.more m"
  by (simp_all add: event_defs Let_def)

lemma mouse_parts [simp]:
  "mouse_state.more (mouseLeftButton clock m) = mouse_state.more m"
  "mouse_state.more (snd (mouseDrag buttons m)) = mouse_state.more m"
  "mouse_state.more (mouseSwipeTimeout clock m) = mouse_state.more m"
  "mouse_state.more (mouseSwipe clock dx m) = mouse_state.more m"
  "mouse_state.more (mouseScroll h clock dx dy buttons m) = mouse_state.more m"
  unfolding mouseLeftButton_def mouseDrag_def mouseSwipeTimeout_def mouseSwipe_def mouseScroll_def
  by (simp_all add: Let_def split: prod.split)

lemma mouse_more: "mouse_state.more (processMousePacket h clock p m) = mouse_state.more m"
proof -
  define m1 where "m1 = (if p ! 0 AND 0x1 \<noteq> 0 then mouseLeftButton clock m else m)"
  obtain b m2 where m2: "mouseDrag (mouseButtons p) m1 = (b, m2)" by fastforce
  have "mouse_state.more m2 = mouse_state.more m1" using mouse_parts(2) [of "mouseButtons p" m1] by (simp add: m2)
  moreover have "mouse_state.more m1 = mouse_state.more m" by (simp add: m1_def)
  ultimately show ?thesis
    unfolding processMousePacket_def m1_def [symmetric] Let_def by (simp add: m2)
qed

lemma core_more:
  assumes "mouse_state.more g' = mouse_state.more g"
  shows "core g' = core g"
  using assms by (cases g rule: gesture.cases_scheme, cases g' rule: gesture.cases_scheme) (simp add: core_def)

lemma touchDecoder_eq:
  "touchDecoder clock fl engine c d =
     (let e = (case c of
          ProcessMouse p \<Rightarrow> onTouch (\<lambda>g. processMousePacket (scaled fl (scrollFactor g)) clock p g) (onTouch (\<lambda>g. g\<lparr>mnow := now d\<rparr>) d)
        | SynapticsAbsolute p \<Rightarrow>
            (case Synaptics_report_absolute clock engine p (onTouch (\<lambda>g. g\<lparr>mnow := now d\<rparr>) d) of
               Some d' \<Rightarrow> d'
             | None \<Rightarrow> onTouch (\<lambda>g. g\<lparr>hung := True\<rparr>) (onTouch (\<lambda>g. g\<lparr>mnow := now d\<rparr>) d))
        | KeyboardNotification code \<Rightarrow>
            keyboardNotification clock fl code (onTouch (readClock clock) (onTouch (\<lambda>g. g\<lparr>mnow := now d\<rparr>) d))
        | StopEnhanceTimers \<Rightarrow> StopPointerEnhanceTimer (StopScrollEnhanceTimer (onTouch (\<lambda>g. g\<lparr>mnow := now d\<rparr>) d))
        | _ \<Rightarrow> elanDecoder clock engine c (onTouch (\<lambda>g. g\<lparr>mnow := now d\<rparr>) d))
      in e\<lparr>now := mnow (gestures e)\<rparr>)"
  by (simp add: touchDecoder_def Let_def)

lemma safe_now [simp]: "safe_touch J v (d\<lparr>now := t\<rparr>) = safe_touch J v d" "inside (d\<lparr>now := t\<rparr>) = inside d"
  "after_packet J v up (d\<lparr>now := t\<rparr>) = after_packet J v up d"
  by (simp_all add: safe_touch_def after_packet_def slots_known_def inside_def)

lemma after_smart:
  assumes "safe_touch samples_kept v d" "elan_call (tp d) c"
  shows "after_packet samples_kept v (all_up c) (smartTouchpad clock fl c d)"
proof -
  define e where "e = onTouch (\<lambda>g. g\<lparr>mnow := now d\<rparr>) d"
  have e: "safe_touch samples_kept v e" "tp e = tp d"
    unfolding e_def using assms(1) by (auto intro: in_arrays_safe simp: arrays.touchI core_def)
  have m: "safe_touch samples_kept v (onTouch (\<lambda>g. processMousePacket (h g) clock p g) e)" for h p
    using e(1) by (rule in_arrays_safe) (rule arrays.touchI, assumption, rule core_more, rule mouse_more)
  have k: "safe_touch samples_kept v (keyboardNotification clock fl code (onTouch (readClock clock) e))" for code
    using e(1) by (rule in_arrays_safe) simp
  have t: "safe_touch samples_kept v (StopPointerEnhanceTimer (StopScrollEnhanceTimer e))"
    using e(1) by (rule in_arrays_safe) simp
  have "after_packet samples_kept v (all_up c) (elanDecoder clock (gestureEngine clock fl) c e)" if "call_ids_ok (tp d) c"
    using smart.after_elan [OF e(1)] that e(2) by simp
  with assms(2) m k t show ?thesis
    unfolding smartTouchpad_def touchDecoder_eq e_def [symmetric] Let_def
    by (cases c) (simp_all add: safe_after)
qed

lemma elan_call_vendor: "touchpadVendor t = touchpadVendor t' \<Longrightarrow> elan_call t c = elan_call t' c"
  using ids_vendor [of t t'] by (cases c) simp_all

lemma safe_calls:
  assumes "safe_touch samples_kept v d" "\<forall>c \<in> set cs. elan_call (tp d) c \<and> \<not> all_up c"
  shows "safe_touch samples_kept v (fold (smartTouchpad clock fl) cs d)"
  using assms(2)
proof (induction cs rule: rev_induct)
  case (snoc c cs)
  let ?e = "fold (smartTouchpad clock fl) cs d"
  have e: "safe_touch samples_kept v ?e" using snoc by simp
  moreover from this assms(1) have "elan_call (tp ?e) c = elan_call (tp d) c"
    by (intro elan_call_vendor) (simp add: safe_touch_def)
  ultimately show ?case using after_smart [of v ?e c clock fl] snoc.prems by (simp add: after_packet_def)
qed (use assms(1) in simp)

section \<open>Properties\<close>

text \<open>A driver as init leaves it, with the hardware found.\<close>

definition examplePad :: "u8 \<Rightarrow> u8 \<Rightarrow> gesture driver" where
  "examplePad vendor hw = \<lparr>tp = touchpad_init\<lparr>touchpadVendor := vendor, hw_version := hw, pktsize := 6\<rparr>,
     gate = gate_init, now = 0, gestures = gesture_init, overrun = False, calls = []\<rparr>"

lemma gesture_init_simps [simp]:
  "length (fing gesture_init) = 6" "\<not> oob gesture_init" "m_scroll gesture_init = 0"
  "pid gesture_init = -1" "sid gesture_init = -1" "\<not> palmDetectionEnabled gesture_init" "\<not> showPressWidth gesture_init"
  "\<not> isEdgeGesture gesture_init" "edges gesture_init = noEdges" "smooth gesture_init = noSmoothing"
  "scrollSample (scroll gesture_init) = 0" "pSmoothSamples (pointerPrefs gesture_init) = 5"
  "smoothSamples (scrollF gesture_init) = 0"
  by (simp_all add: gesture_init_def touch_init_def touch.defs gesture.defs)

text \<open>
  C12: A touch stays in bounds: once both slots hold fingers, no packet and no notification of an ELAN or FocalTech
  touchpad makes the driver (decoder and gesture engine) leave the array of six fingers or an array of samples,
  up to and including the packet that ends the touch, if the ids in version 4 packets are those of fingers and
  the numbers of samples are those the configuration permits and equal.
\<close>

theorem elan_decoders_stay_in_bounds:
  assumes "inside d" "slots_known d" "samples_ok (gestures d)" "touchpadVendor (tp d) \<noteq> STD_SYNAPTICS"
    "\<forall>c \<in> set cs. elan_call (tp d) c \<and> \<not> all_up c" "elan_call (tp d) c"
  shows "inside (smartTouchpad clock fl c (fold (smartTouchpad clock fl) cs d)) \<and>
    slots_known (fold (smartTouchpad clock fl) cs d)"
proof -
  let ?v = "touchpadVendor (tp d)" and ?e = "fold (smartTouchpad clock fl) cs d"
  have d: "safe_touch samples_kept ?v d" using assms(1-4) by (simp add: safe_touch_def samples_kept_counters)
  from safe_calls [OF d assms(5)] have e: "safe_touch samples_kept ?v ?e" .
  then have "elan_call (tp ?e) c" using assms(6) elan_call_vendor [of "tp ?e" "tp d"] by (simp add: safe_touch_def)
  with after_smart [OF e] e show ?thesis by (simp add: after_packet_def safe_touch_def)
qed

theorem elan_decoders_stay_in_bounds_witness:
  "inside (smartTouchpad (\<lambda>_. 0) id (ElanV2V3 0 [0, 0, 0, 0, 0, 0])
     (fold (smartTouchpad (\<lambda>_. 0) id) [ElanV2V3 0 [0x84, 1, 2, 0, 3, 4], KeyboardNotification kPS2C_ESC]
       (onTouch (\<lambda>g. g\<lparr>pid := 0, sid := 1\<rparr>) (examplePad STD_ELAN_TECH STD_ELAN_HW_V2))))"
proof -
  let ?d = "onTouch (\<lambda>g. g\<lparr>pid := 0, sid := 1\<rparr>) (examplePad STD_ELAN_TECH STD_ELAN_HW_V2)"
  have d: "inside ?d" "slots_known ?d" "samples_ok (gestures ?d)" "touchpadVendor (tp ?d) \<noteq> STD_SYNAPTICS"
    by (simp_all add: inside_def slots_known_def samples_ok_def examplePad_def noSmoothing_def)
  show ?thesis by (rule elan_decoders_stay_in_bounds [OF d, THEN conjunct1]) simp_all
qed



text \<open>
  C18: A Synaptics touchpad without a middle button, and every click pad, decodes every stream of packets to
  its end: the decoder always returns, and no scroll is ever pending.
\<close>

theorem synaptics_packets_are_decoded:
  assumes "no_scroll_button (tp d)" "m_scroll (gestures d) = 0"
  shows "\<exists>d'. synapticsPackets clock (gestureEngine clock fl) ps d = Some d' \<and> m_scroll (gestures d') = 0"
proof -
  have "\<exists>d'. synapticsPackets clock (gestureEngine clock fl) ps d = Some d' \<and> quiet (hardware (tp d)) d'"
    using assms by (rule smart.packets_return)
  then show ?thesis by (auto simp: quiet_def)
qed

definition exampleSynapticsPad :: "u64 \<Rightarrow> gesture driver" where
  "exampleSynapticsPad caps = onPad (\<lambda>t. t\<lparr>synTPad := (synTPad t)\<lparr>model_id := 0x80, capabilities := caps\<rparr>\<rparr>)
     (examplePad STD_SYNAPTICS STD_SYNAPTICS_HW)"

theorem synaptics_packets_are_decoded_witness:
  "\<exists>d'. synapticsPackets (\<lambda>_. 0) (gestureEngine (\<lambda>_. 0) id) [[0x80, 0x44, 60, 0xc0, 0x10, 0x20], [0x80, 0, 0, 0xc0, 0, 0]]
     (exampleSynapticsPad 0x800000) = Some d' \<and> m_scroll (gestures d') = 0"
  by (rule synaptics_packets_are_decoded)
    (simp_all add: no_scroll_button_def exampleSynapticsPad_def examplePad_def SYN_CAP_MIDDLE_BUTTON_def)

text \<open>
  The end of a touch puts everything to rest, whatever the touch was: no slot holds a finger, the mode is idle,
  no scroll, no sample and no time of the touch is left, no packet is counted, and the hardware is the same.
\<close>

theorem touch_end_puts_to_rest:
  "at_rest (gestures (gestureEngine clock fl TouchEnd d)) \<and> packetsCount (tp (gestureEngine clock fl TouchEnd d)) = 0 \<and>
   board (tp (gestureEngine clock fl TouchEnd d)) = board (tp d)"
  using smart.engine_board [of clock fl TouchEnd d] touch_end(1,2) [where clock = clock and fl = fl and d = d]
  by (simp add: gestureEngine_def)

end
