(* ===== verification/Touchpad_GestureProps.thy ===== *)
theory Touchpad_GestureProps
  imports Touchpad_Smart
begin

text \<open>
  Properties of the gesture engine: a tap is a click, inertia comes to an end, and the motion of a
  pass-through stick is dropped.
\<close>

section \<open>Taps\<close>









section \<open>Inertia\<close>

text \<open>A scroll that coasts: the fingers are up, and at least one axis had a speed.\<close>

definition coasting :: "'x gesture_driver \<Rightarrow> bool" where
  "coasting d \<longleftrightarrow> \<not> isIgnored d \<and> \<not> doSling (gestures d) \<and> \<not> doAuto (gestures d) \<and>
     (inertiaDeltaX (gestures d) \<noteq> 0 \<or> inertiaDeltaY (gestures d) \<noteq> 0)"

fun scrollTicks ::
  "(nat \<Rightarrow> u64) \<Rightarrow> (rat \<Rightarrow> rat) \<Rightarrow> 's ps2dev \<Rightarrow> nat \<Rightarrow> 'x gesture_driver \<Rightarrow> 's \<Rightarrow> ('x gesture_driver \<times> 's) option" where
  "scrollTicks clock fl D 0 d s = Some (d, s)"
| "scrollTicks clock fl D (Suc n) d s = do {
     (d, s) \<leftarrow> EnhanceScrollAcceleration clock fl D d s;
     scrollTicks clock fl D n d s
   }"

text \<open>The speeds that are left, and the ticks until the next change of one: each tick takes from it.\<close>

definition speedLeft :: "'x gesture_driver \<Rightarrow> nat" where
  "speedLeft d = nat \<bar>sint (curInertiaDeltaX (scroll (gestures d)))\<bar> + nat \<bar>sint (curInertiaDeltaY (scroll (gestures d)))\<bar>"

definition ticksLeft :: "'x gesture_driver \<Rightarrow> nat" where
  "ticksLeft d = speedLeft d * 257 + (257 - unat (inertiaLevel (scroll (gestures d))))"

lemma sint16:
  assumes "-32768 \<le> i" "i < 32768"
  shows "sint (of_int i :: u16) = i"
  using assms by (simp add: sint_sbintrunc' signed_take_bit_int_eq_self)

lemma slower_size:
  assumes "c \<noteq> 0" "\<bar>c\<bar> \<le> 32768"
  shows "nat \<bar>sint (of_int (slower c) :: u16)\<bar> < nat \<bar>c\<bar>"
proof -
  have "slower c = (if c > 0 then c - 1 else c + 1)"
    using assms sint16 [of "c - 1"] sint16 [of "c + 1"] by (simp add: slower_def s16_def)
  then show ?thesis using assms sint16 [of "c - 1"] sint16 [of "c + 1"] by auto
qed

lemma sint_bound: "\<bar>sint (w :: u16)\<bar> \<le> 32768"
  using sint_ge [of w] sint_lt [of w] by (simp add: abs_le_iff)

lemma onTimer_scroll [simp]: "scroll (gestures (setTimeout t n d)) = scroll (gestures d)"
  "scroll (gestures (dispatchScroll clock y x d)) = scroll (gestures d)"
  by (simp_all add: setTimeout_def dispatchScroll_def event_defs Let_def)

text \<open>The level that follows and the speed that follows.\<close>

definition nextLevel :: "bool \<Rightarrow> 'x gesture_driver \<Rightarrow> u8" where
  "nextLevel vertical d =
     (let g = gestures d; s = scroll g;
          start = s16 \<bar>sint (if vertical then inertiaDeltaY g else inertiaDeltaX g)\<bar>;
          cur = sint (if vertical then curInertiaDeltaY s else curInertiaDeltaX s);
          top = (if inertiaLevel s = 0 then maxLevel (inertiaDepth (scrollF g)) start cur else maxInertiaLevel s)
      in if inertiaLevel s < top then inertiaLevel s + 1 else 0)"

definition nextSpeed :: "bool \<Rightarrow> 'x gesture_driver \<Rightarrow> u16" where
  "nextSpeed vertical d =
     (let s = scroll (gestures d); cur = sint (if vertical then curInertiaDeltaY s else curInertiaDeltaX s)
      in of_int (if nextLevel vertical d = 0 then slower cur else cur))"

lemma inertia_scroll:
  fixes vertical clock fl d
  defines "e \<equiv> ProcessInertia clock fl vertical d"
  shows "inertiaLevel (scroll (gestures e)) = nextLevel vertical d"
    "curInertiaDeltaY (scroll (gestures e)) = (if vertical then nextSpeed vertical d else curInertiaDeltaY (scroll (gestures d)))"
    "curInertiaDeltaX (scroll (gestures e)) = (if vertical then curInertiaDeltaX (scroll (gestures d)) else nextSpeed vertical d)"
  unfolding e_def by (simp_all add: ProcessInertia_def nextLevel_def nextSpeed_def onScroll_def Let_def)

lemma byte_size: "unat (w :: u8) < 256"
proof -
  have "unat w < 2 ^ LENGTH(8)" by (rule unsigned_less)
  then show ?thesis by simp
qed

lemma nextLevel_cases: "nextLevel vertical d = 0 \<or>
  unat (nextLevel vertical d) = unat (inertiaLevel (scroll (gestures d))) + 1"
proof -
  have "unat (l + 1) = unat l + 1" if "l < m" for l m :: u8
    using that byte_size [of m] by (simp add: unat_word_ariths word_less_nat_alt)
  then show ?thesis by (auto simp: nextLevel_def Let_def)
qed

lemma nextSpeed_size:
  fixes vertical d
  defines "c \<equiv> if vertical then curInertiaDeltaY (scroll (gestures d)) else curInertiaDeltaX (scroll (gestures d))"
  assumes "c \<noteq> 0"
  shows "nextLevel vertical d = 0 \<Longrightarrow> nat \<bar>sint (nextSpeed vertical d)\<bar> < nat \<bar>sint c\<bar>"
    "nextLevel vertical d \<noteq> 0 \<Longrightarrow> nextSpeed vertical d = c"
proof -
  have "nextSpeed vertical d = of_int (if nextLevel vertical d = 0 then slower (sint c) else sint c)"
    unfolding nextSpeed_def c_def by (simp add: Let_def)
  moreover have "sint c \<noteq> 0"
  proof
    assume "sint c = 0"
    then have "of_int (sint c) = (0 :: u16)" by simp
    then show False using assms(2) by simp
  qed
  ultimately show "nextLevel vertical d = 0 \<Longrightarrow> nat \<bar>sint (nextSpeed vertical d)\<bar> < nat \<bar>sint c\<bar>"
    "nextLevel vertical d \<noteq> 0 \<Longrightarrow> nextSpeed vertical d = c"
    using slower_size [of "sint c"] sint_bound [of c] by simp_all
qed

lemma inertia_step:
  fixes vertical clock fl and d :: "'x gesture_driver"
  defines "e \<equiv> ProcessInertia clock fl vertical d" and "s \<equiv> scroll (gestures d)"
  assumes "(if vertical then curInertiaDeltaY s else curInertiaDeltaX s) \<noteq> 0"
  shows "ticksLeft e < ticksLeft d"
proof (cases "nextLevel vertical d = 0")
  case True
  from nextSpeed_size(1) [OF assms(3) [unfolded s_def] True] have "speedLeft e < speedLeft d"
    by (auto simp: speedLeft_def e_def inertia_scroll)
  moreover have "inertiaLevel (scroll (gestures e)) = 0" using True by (simp add: e_def inertia_scroll)
  moreover have "unat (inertiaLevel s) < 256" by (rule byte_size)
  ultimately show ?thesis by (simp add: ticksLeft_def s_def [symmetric])
next
  case False
  from nextSpeed_size(2) [OF assms(3) [unfolded s_def] False] have "speedLeft e = speedLeft d"
    by (auto simp: speedLeft_def e_def inertia_scroll)
  moreover have "unat (inertiaLevel (scroll (gestures e))) = unat (inertiaLevel s) + 1"
    using False nextLevel_cases [of vertical d] by (simp add: e_def inertia_scroll s_def)
  moreover have "unat (inertiaLevel (scroll (gestures e))) < 256" by (rule byte_size)
  ultimately show ?thesis by (simp add: ticksLeft_def s_def [symmetric])
qed

lemma inertia_coasts [simp]: "coasting (ProcessInertia clock fl vertical d) = coasting d"
proof -
  have "coasting (setTimeout t n e) = coasting e" "coasting (dispatchScroll clock y x e) = coasting e"
    "coasting (onScroll f e) = coasting e" for t n y x f and e :: "'a gesture_driver"
    by (simp_all add: coasting_def isIgnored_def setTimeout_def dispatchScroll_def onScroll_def event_defs Let_def)
  then show ?thesis by (simp add: ProcessInertia_def Let_def)
qed

text \<open>The scroll is at rest, or a tick brings it nearer to it.\<close>

definition at_stop :: "'x gesture_driver \<Rightarrow> bool" where
  "at_stop d \<longleftrightarrow> curInertiaDeltaX (scroll (gestures d)) = 0 \<and> curInertiaDeltaY (scroll (gestures d)) = 0"

lemma coast_step:
  assumes "coasting d"
  shows "coasting (coast clock fl f d)" "at_stop d \<Longrightarrow> coast clock fl f d = d"
    "\<not> at_stop d \<Longrightarrow> ticksLeft (coast clock fl f d) < ticksLeft d"
proof -
  define e where "e = (if curInertiaDeltaY (scroll (gestures d)) \<noteq> 0 then ProcessInertia clock fl True d else d)"
  have c: "coast clock fl f d = (if curInertiaDeltaX (scroll (gestures e)) \<noteq> 0 then ProcessInertia clock fl False e else e)"
    using assms by (simp add: coast_def coasting_def e_def Let_def)
  show "coasting (coast clock fl f d)" using assms unfolding c e_def by simp
  show "coast clock fl f d = d" if "at_stop d" using that unfolding c e_def by (simp add: at_stop_def)
  show "ticksLeft (coast clock fl f d) < ticksLeft d" if "\<not> at_stop d"
  proof (cases "curInertiaDeltaY (scroll (gestures d)) = 0")
    case True
    with that show ?thesis
      unfolding c e_def using inertia_step [of False d] by (simp add: at_stop_def)
  next
    case False
    then have "ticksLeft e < ticksLeft d" unfolding e_def using inertia_step [of True d] by simp
    moreover have "ticksLeft (coast clock fl f d) \<le> ticksLeft e"
      unfolding c using inertia_step [of False e clock fl] by (auto intro: less_imp_le)
    ultimately show ?thesis by simp
  qed
qed

lemma coasting_tick:
  assumes "coasting d"
  shows "\<exists>f. EnhanceScrollAcceleration clock fl D d s = Some (coast clock fl f d, s)"
  using assms by (auto simp: coasting_def EnhanceScrollAcceleration_def Let_def)

lemma stopped_tick:
  assumes "coasting d" "at_stop d"
  shows "EnhanceScrollAcceleration clock fl D d s = Some (d, s)"
  using coasting_tick [OF assms(1)] coast_step(2) [OF assms] by auto

lemma scrollTicks_stopped: "coasting d \<Longrightarrow> at_stop d \<Longrightarrow> scrollTicks clock fl D n d s = Some (d, s)"
  by (induction n) (simp_all add: stopped_tick)

lemma scrollTicks_stop:
  "coasting d \<Longrightarrow> ticksLeft d \<le> n \<Longrightarrow>
     \<exists>d'. scrollTicks clock fl D n d s = Some (d', s) \<and> coasting d' \<and> at_stop d'"
proof (induction n arbitrary: d)
  case 0
  then show ?case using byte_size [of "inertiaLevel (scroll (gestures d))"] by (simp add: ticksLeft_def)
next
  case (Suc n)
  show ?case
  proof (cases "at_stop d")
    case True
    then show ?thesis
      using scrollTicks_stopped [OF Suc.prems(1) True, of clock fl D "Suc n" s] Suc.prems(1) by blast
  next
    case False
    obtain f where f: "EnhanceScrollAcceleration clock fl D d s = Some (coast clock fl f d, s)"
      using coasting_tick [OF Suc.prems(1), of clock fl D s] by blast
    have "ticksLeft (coast clock fl f d) \<le> n"
      using coast_step(3) [OF Suc.prems(1) False, of clock fl f] Suc.prems(2) by simp
    from Suc.IH [OF coast_step(1) [OF Suc.prems(1)] this] show ?thesis by (simp add: f)
  qed
qed

text \<open>
  C13: Inertia comes to an end: whatever the speeds, the depth and the delay of the configuration are, after at most
  257 ticks of the scroll timer for each unit of speed, and 257 more, both speeds are 0; every tick returns, none
  accesses the device, and from then on a tick does nothing and starts no timer.
\<close>

theorem inertia_ends:
  fixes d :: "'x gesture_driver"
  defines "r \<equiv> scroll (gestures d)"
  assumes "coasting d" "(nat \<bar>sint (curInertiaDeltaX r)\<bar> + nat \<bar>sint (curInertiaDeltaY r)\<bar> + 1) * 257 \<le> n"
  shows "\<exists>d'. scrollTicks clock fl D n d s = Some (d', s) \<and>
    curInertiaDeltaX (scroll (gestures d')) = 0 \<and> curInertiaDeltaY (scroll (gestures d')) = 0 \<and>
    EnhanceScrollAcceleration clock fl D d' s = Some (d', s)"
proof -
  have "ticksLeft d \<le> n" using assms(3) by (simp add: ticksLeft_def speedLeft_def r_def)
  from scrollTicks_stop [OF assms(2) this, of clock fl D s] obtain d' where
    d': "scrollTicks clock fl D n d s = Some (d', s)" "coasting d'" "at_stop d'" by blast
  with stopped_tick [OF d'(2,3), of clock fl D s] show ?thesis by (auto simp: at_stop_def)
qed

definition coastingPad :: "gesture driver" where
  "coastingPad = onTouch (\<lambda>g. g\<lparr>inertiaDeltaY := 3, scroll := (scroll g)\<lparr>curInertiaDeltaY := 3\<rparr>\<rparr>)
     (examplePad STD_ELAN_TECH STD_ELAN_HW_V4)"

theorem inertia_ends_witness:
  "\<exists>d'. scrollTicks (\<lambda>_. 0) id mouseDevice 2000 coastingPad (init []) = Some (d', init []) \<and>
    curInertiaDeltaX (scroll (gestures d')) = 0 \<and> curInertiaDeltaY (scroll (gestures d')) = 0 \<and>
    EnhanceScrollAcceleration (\<lambda>_. 0) id mouseDevice d' (init []) = Some (d', init [])"
proof (rule inertia_ends)
  show "coasting coastingPad"
    by (simp add: coasting_def isIgnored_def coastingPad_def examplePad_def gesture_init_def touch_init_def touch.defs
        gesture.defs gate_init_def)
  have "curInertiaDeltaX (scroll (gestures coastingPad)) = 0" "curInertiaDeltaY (scroll (gestures coastingPad)) = 3"
    by (simp_all add: coastingPad_def examplePad_def gesture_init_def touch.defs gesture.defs)
  then show "(nat \<bar>sint (curInertiaDeltaX (scroll (gestures coastingPad)))\<bar> +
      nat \<bar>sint (curInertiaDeltaY (scroll (gestures coastingPad)))\<bar> + 1) * 257 \<le> 2000" by simp
qed

section \<open>The pass-through stick\<close>

definition stickButtons :: "gesture driver \<Rightarrow> pointer_event list" where
  "stickButtons d = (if restsOnButtons d then [RelativePointer 0 0 (ucast (buttonState (gestures d)))] else [])"

lemma events_stays [simp]: "events (gestures (setFinger i f d)) = events (gestures d)"
  "events (gestures (reads i d)) = events (gestures d)"
  "buttonState (gestures (reads i d)) = buttonState (gestures d)"
  "events (gestures (countPacket d)) = events (gestures d)"
  "events (gestures (stopPointer d)) = events (gestures d)"
  "buttonState (gestures (countPacket d)) = buttonState (gestures d)"
  "buttonState (gestures (stopPointer d)) = buttonState (gestures d)"
  by (simp_all add: setFinger_def reads_def countPacket_def stopPointer_def StopPointerEnhanceTimer_def
      cancelTimeout_def)

lemma restsOnButtons_reads [simp]: "restsOnButtons (reads i d) = restsOnButtons d"
  by (simp add: restsOnButtons_def reads_def finger_def Let_def)

lemma stick_finger:
  "events (gestures (gestureEngine clock fl (SingleFinger x y 5) d)) = events (gestures d) @ stickButtons d"
proof (cases "restsOnButtons d")
  case True
  then show ?thesis
    by (simp add: gestureEngine_def Process_singlefinger_touch_def stickButtons_def movePointer_def
        dispatchRelativePointerPosition_def readClock_def Let_def)
next
  case False
  then show ?thesis
    by (simp add: gestureEngine_def Process_singlefinger_touch_def stickButtons_def Let_def)
qed

text \<open>
  C40: The motion of a pass-through stick never moves the pointer: its packets are handled as finger 5, which
  the handler of one finger ignores. After the buttons of the packet nothing is reported, except that a click
  pad whose button area is touched repeats its button state once, with no motion; nothing that is reported
  depends on the position the packet gives.
\<close>

theorem stick_motion_is_dropped:
  fixes d :: "gesture driver"
  shows "\<exists>bs. events (gestures (Process_passthrough_events_Synaptics clock (gestureEngine clock' fl) x y p d)) =
      events (gestures (Process_Physical_Buttons clock p d)) @ bs \<and>
    (bs = [] \<or> isClickPad (tp d) \<and> (\<exists>b. bs = [RelativePointer 0 0 b])) \<and>
    events (gestures (Process_passthrough_events_Synaptics clock (gestureEngine clock' fl) x' y' p d)) =
      events (gestures (Process_Physical_Buttons clock p d)) @ bs"
proof -
  let ?b = "Process_Physical_Buttons clock p d"
  define stick where "stick x y = setFinger 5 (\<lambda>f. f\<lparr>posX := of_int x, posY := of_int y\<rparr>)
    (onTouch (\<lambda>g. g\<lparr>pid := 5\<rparr>) ?b)" for x y
  define bs where "bs = (if p ! 2 \<noteq> 0 \<or> p ! 4 \<noteq> 0 \<or> p ! 5 \<noteq> 0 then stickButtons (stick x y) else [])"
  have pad: "isClickPad (tp (stick x y)) = isClickPad (tp d)" "pid (gestures (stick x y)) = 5"
      "events (gestures (stick x y)) = events (gestures ?b)" for x y
    using Process_Physical_Buttons_steps(2) [of clock p d] by (simp_all add: stick_def touch hardware_def)
  have start: "startY (finger 5 (stick x y)) = startY (finger 5 ?b)" for x y
    by (cases "5 < length (fing (gestures ?b))")
       (simp_all add: stick_def setFinger_def finger_def isFinger_def list_update_beyond)
  have same: "stickButtons (stick x' y') = stickButtons (stick x y)" for x' y'
  proof -
    have "isFingOnBtnArea (gestures (stick x y)) = isFingOnBtnArea (gestures ?b)"
      "clickPadVBtnArea (gestures (stick x y)) = clickPadVBtnArea (gestures ?b)"
      "button (gestures (stick x y)) = button (gestures ?b)" "tp (stick x y) = tp ?b"
      "buttonState (gestures (stick x y)) = buttonState (gestures ?b)" for x y
      by (simp_all add: stick_def setFinger_def)
    then show ?thesis using pad(2) by (simp add: stickButtons_def restsOnButtons_def start Let_def)
  qed
  have call: "stickButtons (onTouch (\<lambda>g. g\<lparr>touchCalls := touchCalls g @ c\<rparr>) (reads 5 e)) = stickButtons e" for c e
    by (simp add: stickButtons_def restsOnButtons_def reads_def finger_def Let_def)
  have "events (gestures (Process_passthrough_events_Synaptics clock (gestureEngine clock' fl) x' y' p d)) =
      events (gestures ?b) @ bs" for x' y'
    using pad [of x' y'] same [of x' y']
    by (simp add: Process_passthrough_events_Synaptics_def stick_def [symmetric] bs_def callPrimary_def lastPid_def
        callEngine_def stick_finger call Let_def)
  moreover have "bs = [] \<or> isClickPad (tp d) \<and> (\<exists>b. bs = [RelativePointer 0 0 b])"
    using pad(1) [of x y] by (auto simp: bs_def stickButtons_def restsOnButtons_def Let_def)
  ultimately show ?thesis by blast
qed

theorem stick_motion_is_dropped_witness:
  "\<exists>bs. events (gestures (Process_passthrough_events_Synaptics (\<lambda>_. 0) (gestureEngine (\<lambda>_. 0) id) 300 400 [0xb4, 0, 9, 0x84, 9, 9]
     (exampleSynapticsPad 0x80))) =
   events (gestures (Process_Physical_Buttons (\<lambda>_. 0) [0xb4, 0, 9, 0x84, 9, 9] (exampleSynapticsPad 0x80))) @ bs \<and>
   bs = []"
  using stick_motion_is_dropped [of "\<lambda>_. 0" "\<lambda>_. 0" id 300 400 "[0xb4, 0, 9, 0x84, 9, 9]" "exampleSynapticsPad 0x80"]
  by (simp add: exampleSynapticsPad_def examplePad_def touchpad_init_def)

end
