(* ===== verification/Touchpad_Config.thy ===== *)
theory Touchpad_Config
  imports Touchpad_Buttons
begin

text \<open>
  The configuration of the touchpad driver: the property list in the registry entry of the driver
  (ReadSTDPlistConfig, ReadAccelPlistConfig), the adaptation to the hardware that start makes of it, and the
  preferences of the system (setParamProperties). The registry is part of the state; a dictionary is a list
  in the order of its iterator.
\<close>

section \<open>Property lists\<close>

datatype property =
    PNumber u64 | PBoolean bool | PString string | PDict "(string \<times> property) list" | PData nat | PArray nat

type_synonym dictionary = "(string \<times> property) list"

fun asNumber :: "property option \<Rightarrow> u64 option" where
  "asNumber (Some (PNumber n)) = Some n"
| "asNumber _ = None"

fun asBoolean :: "property option \<Rightarrow> bool option" where
  "asBoolean (Some (PBoolean b)) = Some b"
| "asBoolean _ = None"

fun asDict :: "property option \<Rightarrow> dictionary option" where
  "asDict (Some (PDict p)) = Some p"
| "asDict _ = None"

text \<open>The instances of readPlistKey: a key that is missing or has another type reads as 0 or False.\<close>

definition readInt8 :: "dictionary \<Rightarrow> string \<Rightarrow> u8" where
  "readInt8 p k = (case asNumber (map_of p k) of Some n \<Rightarrow> ucast n | None \<Rightarrow> 0)"

definition readInt16 :: "dictionary \<Rightarrow> string \<Rightarrow> u16" where
  "readInt16 p k = (case asNumber (map_of p k) of Some n \<Rightarrow> ucast n | None \<Rightarrow> 0)"

definition readInt32 :: "dictionary \<Rightarrow> string \<Rightarrow> u32" where
  "readInt32 p k = (case asNumber (map_of p k) of Some n \<Rightarrow> ucast n | None \<Rightarrow> 0)"

definition readBool :: "dictionary \<Rightarrow> string \<Rightarrow> bool" where
  "readBool p k = (case asBoolean (map_of p k) of Some b \<Rightarrow> b | None \<Rightarrow> False)"

text \<open>Milliseconds are converted to nanoseconds in 32 bits.\<close>

definition readTime :: "dictionary \<Rightarrow> string \<Rightarrow> u64" where
  "readTime p k = ucast (readInt32 p k * 1000000)"

text \<open>The name of the hardware in the dictionaries that hold a value for each.\<close>

definition hardwareKey :: "touchpad \<Rightarrow> string option" where
  "hardwareKey t =
     (let v = hw_version t
      in if v = 2 then Some ''ELANv2'' else if v = 3 then Some ''ELANv3'' else if v = 4 then Some ''ELANv4''
         else if v = 5 then Some ''FocalTech'' else if v = 6 then Some ''Synaptics'' else None)"

definition ReadPlistDictionaryKey :: "touchpad \<Rightarrow> dictionary \<Rightarrow> u8" where
  "ReadPlistDictionaryKey t p =
     (case hardwareKey t of
        None \<Rightarrow> 0
      | Some k \<Rightarrow> readInt8 p (if isClickPad t \<and> (hw_version t = 4 \<or> hw_version t = 6) then k @ ''ClickPad'' else k))"

text \<open>A percentage of a range, computed as an int of 32 bits.\<close>

definition percentOf :: "u16 \<Rightarrow> u16 \<Rightarrow> u16 \<Rightarrow> u16" where
  "percentOf low high p = of_int (sint (of_int ((uint high - uint low) * uint p) :: u32) sdiv 100)"

definition upTo100 :: "u16 \<Rightarrow> u16 \<Rightarrow> u16 \<Rightarrow> u16" where
  "upTo100 low high p = (if p > 100 then 0 else percentOf low high p)"

section \<open>The members that only the configuration uses\<close>

record preferences =
  registry :: "string \<Rightarrow> property option"
  sleepInitDelay :: u16
  pointerAccell :: u64
  scrollAccell :: u64
  pointerResolution :: u32
  scrollResolution :: u32
  levelAtBoot :: u8
  levelFactor :: u8
  levelGranularity :: u8
  useGenericBounds :: bool
  has16LvlKBLight :: bool
  hasAsusKBackLight :: bool
  hasKBLightAutoOff :: bool

text \<open>The driver with them: they are the extension of the state of the gesture engine.\<close>

type_synonym configured_driver = "preferences gesture_driver"

definition prefs :: "configured_driver \<Rightarrow> preferences" where
  "prefs d = gesture.more (gestures d)"

definition onPrefs :: "(preferences \<Rightarrow> preferences) \<Rightarrow> configured_driver \<Rightarrow> configured_driver" where
  "onPrefs f = onTouch (gesture.more_update f)"

definition setProperty :: "string \<Rightarrow> property \<Rightarrow> configured_driver \<Rightarrow> configured_driver" where
  "setProperty k v = onPrefs (\<lambda>p. p\<lparr>registry := (registry p)(k \<mapsto> v)\<rparr>)"

definition removeProperty :: "string \<Rightarrow> configured_driver \<Rightarrow> configured_driver" where
  "removeProperty k = onPrefs (\<lambda>p. p\<lparr>registry := (registry p)(k := None)\<rparr>)"

definition getProperty :: "configured_driver \<Rightarrow> string \<Rightarrow> property option" where
  "getProperty d k = registry (prefs d) k"

text \<open>An update with the contents of a dictionary, if there is one.\<close>

definition withDict :: "property option \<Rightarrow> (dictionary \<Rightarrow> 'd \<Rightarrow> 'd) \<Rightarrow> 'd \<Rightarrow> 'd" where
  "withDict v f d = (case asDict v of Some p \<Rightarrow> f p d | None \<Rightarrow> d)"

definition onPointer :: "(pointer_prefs \<Rightarrow> pointer_prefs) \<Rightarrow> 'x gesture_driver \<Rightarrow> 'x gesture_driver" where
  "onPointer f = onTouch (\<lambda>g. g\<lparr>pointerPrefs := f (pointerPrefs g)\<rparr>)"

definition onEdges :: "(edge_config \<Rightarrow> edge_config) \<Rightarrow> 'x gesture_driver \<Rightarrow> 'x gesture_driver" where
  "onEdges f = onTouch (\<lambda>g. g\<lparr>edges := f (edges g)\<rparr>)"

section \<open>Buttons and pointer\<close>

definition readButtons :: "dictionary \<Rightarrow> configured_driver \<Rightarrow> configured_driver" where
  "readButtons p d =
     (let area = readInt16 p ''ClickpadVirtualButtonsArea''; click = readInt8 p ''2FingersClickAction'';
          d = onTouch (\<lambda>g. g\<lparr>disableClicks := readBool p ''DisablePhysicalClicks'',
                enableMiddle := readBool p ''VirtualMiddleButton'',
                clickPadVBtnArea := if area > 0 then percentOf (ymin (tp d)) (ymax (tp d)) area else 0\<rparr>) d;
          d = onButton (\<lambda>b. b\<lparr>clickPadHasVButtons := readBool p ''ClickpadVirtualButtons'',
                enablePointingOnBtnArea := readBool p ''EnablePointingOnVirtualButtonArea''\<rparr>) d
      in onPress (\<lambda>f. f\<lparr>fings2Click := if click > 32 then 0 else click\<rparr>) d)"

definition readEdgeAreas :: "dictionary \<Rightarrow> configured_driver \<Rightarrow> configured_driver" where
  "readEdgeAreas p d =
     (let t = tp d; area = (\<lambda>low high k. let a = readInt16 p k in if a > 0 then percentOf low high a else 0)
      in onPointer (\<lambda>q. q\<lparr>tpLeftEdgeDArea := area (xmin t) (xmax t) ''DisableLeftEdgeActiveArea'',
           tpRightEdgeDArea := area (xmin t) (xmax t) ''DisableRightEdgeActiveArea'',
           tpTopEdgeDArea := area (ymin t) (ymax t) ''DisableTopEdgeActiveArea'',
           tpBottomEdgeDArea := area (ymin t) (ymax t) ''DisableBottomEdgeActiveArea''\<rparr>) d)"

text \<open>A value for the hardware, or for the mode of a mouse if it has no name.\<close>

definition hardwareNumber :: "touchpad \<Rightarrow> dictionary \<Rightarrow> u64 option" where
  "hardwareNumber t p = asNumber (map_of p (case hardwareKey t of Some k \<Rightarrow> k | None \<Rightarrow> ''MouseMode''))"

definition readPointerResolution :: "dictionary \<Rightarrow> configured_driver \<Rightarrow> configured_driver" where
  "readPointerResolution p d =
     (case hardwareNumber (tp d) p of None \<Rightarrow> d | Some n \<Rightarrow> onPrefs (\<lambda>q. q\<lparr>pointerResolution := ucast n\<rparr>) d)"

definition readScrollResolution :: "dictionary \<Rightarrow> configured_driver \<Rightarrow> configured_driver" where
  "readScrollResolution p d =
     (case hardwareNumber (tp d) p of None \<Rightarrow> d | Some n \<Rightarrow> onPrefs (\<lambda>q. q\<lparr>scrollResolution := ucast n\<rparr>) d)"

definition readCustomAccel :: "dictionary \<Rightarrow> configured_driver \<Rightarrow> configured_driver" where
  "readCustomAccel p d =
     (case hardwareKey (tp d) of
        None \<Rightarrow> onPointer (\<lambda>q. q\<lparr>pAccelCustom := 16\<rparr>) d
      | Some k \<Rightarrow>
          (case asNumber (map_of p k) of None \<Rightarrow> d | Some n \<Rightarrow> onPointer (\<lambda>q. q\<lparr>pAccelCustom := ucast (ucast n :: u32)\<rparr>) d))"

definition readPointing :: "dictionary \<Rightarrow> configured_driver \<Rightarrow> configured_driver" where
  "readPointing p d =
     (let d = onPrefs (\<lambda>q. q\<lparr>pointerAccell := ucast (readInt8 p ''HIDTrackpadAccelLevel'')\<rparr>) d;
          n = readInt8 p ''PointerSmoothSamples''; l = readInt8 p ''PointerSmoothLevel'';
          d = onPointer (\<lambda>q. q\<lparr>pAccelPreference := readInt8 p ''AccelerationPrefValue'',
                pSmoothSamples := if n > 10 then 10 else n, pSmoothLevel := if l > 20 then 20 else l\<rparr>) d;
          d = withDict (map_of p ''SlowMoveNoiseMaxDelta'')
                (\<lambda>s d. onPointer (\<lambda>q. q\<lparr>pSlowMoveNoiseDelta := ReadPlistDictionaryKey (tp d) s\<rparr>) d) d;
          d = withDict (map_of p ''TouchpadEdges'') readEdgeAreas d;
          d = withDict (map_of p ''PointerResolution'') readPointerResolution d;
          d = withDict (map_of p ''PointerCustomAcceleration'') readCustomAccel d;
          d = onPointer (\<lambda>q. q\<lparr>pExtAccelLevel := readInt8 p ''EnhancedAccelerationLevel'',
                pExtAccelMinDelta := readInt8 p ''EnhancedAccelerationMinDelta''\<rparr>) d;
          d = withDict (map_of p ''Sensitivity'')
                (\<lambda>s d. onPointer (\<lambda>q. q\<lparr>tSenseLvl := ReadPlistDictionaryKey (tp d) s\<rparr>) d) d;
          d = onButton (\<lambda>b. b\<lparr>clickPad2FMove := readBool p ''Clickpad2FingersMove''\<rparr>) d
      in onPad (\<lambda>t. t\<lparr>disableTrackPoint := readBool p ''DisableTrackPointButton''\<rparr>) d)"

section \<open>Scrolling\<close>

definition readEdgeScroll :: "dictionary \<Rightarrow> configured_driver \<Rightarrow> configured_driver" where
  "readEdgeScroll p d =
     (let t = tp d; x = upTo100 (xmin t) (xmax t); y = upTo100 (ymin t) (ymax t);
          d = onScrollF (\<lambda>s. s\<lparr>accelModeEdge := readInt8 p ''EdgeScrollAccelMode'',
                edgeCirDelta := readInt8 p ''EdgeCircularScrollDelta'',
                edgeHAdaptArea := y (readInt16 p ''EdgeHScrollAdaptArea''),
                edgeVAdaptArea := x (readInt16 p ''EdgeVScrollAdaptArea''),
                scrollEdgeHArea := y (readInt16 p ''EdgeHScrollArea''),
                scrollEdgeVArea := x (readInt16 p ''EdgeVScrollArea''),
                edgeSpeedFactor := readInt8 p ''EScrolSpeedFactor''\<rparr>) d;
          d = withDict (map_of p ''EContScrollMaxDelta'')
                (\<lambda>c d. onScrollF (\<lambda>s. s\<lparr>contMaxDeltaEdge := ReadPlistDictionaryKey (tp d) c\<rparr>) d) d
      in onScrollF (\<lambda>s. s\<lparr>hasEdgeScroll := readBool p ''EdgeScrolling'', hasEdgeInertia := readBool p ''InertialEdgeScroll'',
           hasEdgeCScroll := readBool p ''EdgeCircularScroll'', hasEdgeCont := readBool p ''ContinuousEdgeScroll'',
           hasEdgeAuto := readBool p ''AutoEdgeScroll'', hasEdgeSling := readBool p ''SlingEdgeScroll''\<rparr>) d)"

definition readTwoFingerScroll :: "dictionary \<Rightarrow> configured_driver \<Rightarrow> configured_driver" where
  "readTwoFingerScroll p d =
     (let d = (if readBool p ''ChangeScrollFlowlDirection'' then onTouch (\<lambda>g. g\<lparr>scrollFactor := - scrollFactor g\<rparr>) d else d);
          m = readInt8 p ''2FScrollAccelMode''; n = readInt8 p ''ScrollSmoothSamples'';
          d = onTouch (\<lambda>g. g\<lparr>isVScrollEnabled := readBool p ''2FVerticalScroll'',
                isHScrollEnabled := readBool p ''2FHorizontalScroll''\<rparr>) d;
          d = onScrollF (\<lambda>s. s\<lparr>accelMode2F := if m > 3 then 3 else m,
                has2FInertia := readBool p ''Inertial2FingScroll'', has2FCont := readBool p ''Continuous2FingScroll'',
                has2FAuto := readBool p ''Auto2FingScroll'', has2FSling := readBool p ''Sling2FingScroll'',
                smoothSamples := if n > 10 then 10 else n\<rparr>) d
      in withDict (map_of p ''2FContScrollMaxDelta'')
           (\<lambda>c d. onScrollF (\<lambda>s. s\<lparr>contMaxDelta2F := ReadPlistDictionaryKey (tp d) c\<rparr>) d) d)"

definition readScrolling :: "dictionary \<Rightarrow> configured_driver \<Rightarrow> configured_driver" where
  "readScrolling p d =
     (let d = withDict (map_of p ''ScrollResolution'') readScrollResolution d;
          d = withDict (map_of p ''EdgeScroll'') readEdgeScroll d;
          d = withDict (map_of p ''2FScroll'') readTwoFingerScroll d;
          d = onScrollF (\<lambda>s. s\<lparr>inertiaDepth := readInt8 p ''InertialScrollDepth'',
                inertiaDelay := readInt8 p ''InertialScrollDelay'', accelDelay := readInt8 p ''ScrollAccelDelay''\<rparr>) d;
          d = onPrefs (\<lambda>q. q\<lparr>levelAtBoot := readInt8 p ''ScrollLevelAtBoot'', levelFactor := readInt8 p ''ScrollLevelFactor'',
                levelGranularity := readInt8 p ''ScrollLevelGranularity''\<rparr>) d;
          d = withDict (map_of p ''ScrollDirectionSamples'')
                (\<lambda>c d. let n = ReadPlistDictionaryKey (tp d) c
                       in onScrollF (\<lambda>s. s\<lparr>directionSamples := if n > 9 then 9 else n\<rparr>) d) d
      in onScrollF (\<lambda>s. s\<lparr>stopSamples := readInt8 p ''ScrollStopDetectSamples'',
           idleFingMaxDelta := readInt8 p ''ScrollMaxIdleStateDelta'',
           idleFingDetectTimeout := readTime p ''ScrollMaxIdleDetectTimeout'',
           slingStartTimeout := readTime p ''SlingScrollStartTimeOut'',
           slingTriggerArea := upTo100 (ymin (tp d)) (ymax (tp d)) (readInt16 p ''SlingTriggerArea''),
           noHSInertia := readBool p ''NoInertiaForHScroll''\<rparr>) d)"

section \<open>Swipes, presses, taps and drags\<close>

definition readSwiping :: "dictionary \<Rightarrow> configured_driver \<Rightarrow> configured_driver" where
  "readSwiping p d =
     (let t = tp d; x = upTo100 (xmin t) (xmax t); y = upTo100 (ymin t) (ymax t);
          fifth = (\<lambda>low high. of_int ((uint high - uint low) sdiv 5));
          d = onEdges (\<lambda>e. e\<lparr>hasEdgeSwipes := readBool p ''EdgeSwipes'', has2WayEdgeSwipes := readBool p ''EdgeSwipes2Ways'',
                leftEdge := readInt8 p ''EdgeSwipeLeft'', rightEdge := readInt8 p ''EdgeSwipeRight'',
                topEdge := readInt8 p ''EdgeSwipeTop'', bottomEdge := readInt8 p ''EdgeSwipeBottom'',
                edgeHArea := x (readInt16 p ''EdgeSwipeSenseHArea''), nonEdgeHArea := fifth (xmin t) (xmax t),
                edgeVArea := y (readInt16 p ''EdgeSwipeSenseVArea''), nonEdgeVArea := fifth (ymin t) (ymax t),
                edgeFingers := readInt8 p ''EdgeSwipeFingers'',
                edgeHDistance := x (ucast (readInt8 p ''EdgeSwipeDeltaX'')),
                edgeVDistance := y (ucast (readInt8 p ''EdgeSwipeDeltaY''))\<rparr>) d
      in onSwipe (\<lambda>w. w\<lparr>resetPointerOnEdge := readBool p ''EdgeSwipesResetPointer'',
           has3FSwipes := readBool p ''3FingerSwipes'', has4FSwipes := readBool p ''4FingerSwipes'',
           left3F := readInt8 p ''3FingerSwipeLeftAction'', right3F := readInt8 p ''3FingerSwipeRightAction'',
           up3F := readInt8 p ''3FingerSwipeUpAction'', down3F := readInt8 p ''3FingerSwipeDownAction'',
           left4F := readInt8 p ''4FingerSwipeLeftAction'', right4F := readInt8 p ''4FingerSwipeRightAction'',
           up4F := readInt8 p ''4FingerSwipeUpAction'', down4F := readInt8 p ''4FingerSwipeDownAction'',
           mulFingDeltaX := readInt16 p ''MultiFingerSwipesDeltaX'', mulFingDeltaY := readInt16 p ''MultiFingerSwipesDeltaY''\<rparr>) d)"

definition readFingersPress :: "dictionary \<Rightarrow> configured_driver \<Rightarrow> configured_driver" where
  "readFingersPress p =
     onPress (\<lambda>f. f\<lparr>fings2Press := readInt8 p ''2FingersPressAction'', fings3Press := readInt8 p ''3FingersPressAction'',
       fings4Press := readInt8 p ''4FingersPressAction'', fings5Press := readInt8 p ''5FingersPressAction'',
       pressTimeout := readTime p ''FingersPressTimeOut''\<rparr>)"

definition readTapping :: "dictionary \<Rightarrow> configured_driver \<Rightarrow> configured_driver" where
  "readTapping p d =
     (let t = tp d; l = ucast (readInt8 p ''CornerTapAreaLength''); h = ucast (readInt8 p ''CornerTapAreaHeight'');
          d = onTouch (\<lambda>g. g\<lparr>isClickingEnabled := readBool p ''Enable'', clickTimeout := readTime p ''1FClickTimeOut''\<rparr>) d;
          d = onCorner (\<lambda>c. c\<lparr>cornerEnabled := readBool p ''TrackpadTappingCorners'',
                bottomCornersDisabled := readBool p ''DisableBottomCornersTap'', releaseStartABS := readBool p ''CornerTapStartABS'',
                tapAreaLength := upTo100 0 (xmax t) l, tapAreaHeight := upTo100 0 (ymax t) h\<rparr>) d;
          d = onTap (\<lambda>s. s\<lparr>hasMulFDoubleTaps := readBool p ''MulFingDoubleTaps'',
                tapFingers1 := readInt8 p ''1FingerTapAction'', tapFingers2 := readInt8 p ''2FingersTapAction'',
                tapFingers3 := readInt8 p ''3FingersTapAction'', tapFingers4 := readInt8 p ''4FingersTapAction'',
                tapFingers5 := readInt8 p ''5FingersTapAction'', noiseDelta := readInt8 p ''TapMaxDelta'',
                noiseMultiTapDelta := readInt8 p ''MulFingTapMaxDelta'', mulFingsTimeout := readTime p ''MulFingTapTimeOut'',
                tapTimeout := readTime p ''12TapTimeOut''\<rparr>) d
      in withDict (map_of p ''1FTapPressure'') (\<lambda>c d. onTap (\<lambda>s. s\<lparr>tapPressure := ReadPlistDictionaryKey (tp d) c\<rparr>) d) d)"

definition readDragging :: "dictionary \<Rightarrow> configured_driver \<Rightarrow> configured_driver" where
  "readDragging p d =
     (let d = onTouch (\<lambda>g. g\<lparr>isDragEnabled := readBool p ''Enable'', isDragLockEnabled := readBool p ''DragLock''\<rparr>) d;
          d = onDrag (\<lambda>r. r\<lparr>fPressDragFingersID := readInt8 p ''DragFingerIDToUseForData'',
                fPressDragFingersNum := readInt8 p ''DragFingersNum'', releaseTime := readInt32 p ''FLiftDragReleaseTimeOut'',
                hasFPresDrag := readBool p ''FingerPressDrag'',
                fPressDragStartTimeOut := readTime p ''FingerPressDragStartTimeOut''\<rparr>) d
      in withDict (map_of p ''FingerPressDragPressure'')
           (\<lambda>c d. onDrag (\<lambda>r. r\<lparr>fPressDragPressure := ReadPlistDictionaryKey (tp d) c\<rparr>) d) d)"

section \<open>Other gestures, the mouse and the keyboard\<close>

text \<open>The idle time is computed as an int of 32 bits and extended with its sign.\<close>

definition idleTime :: "u16 \<Rightarrow> u64" where
  "idleTime ms = scast (ucast ms * 1000000 :: u32)"

definition pollRate :: "u64 \<Rightarrow> u64" where
  "pollRate n = (let r = ucast (ucast n * 1000000 :: u32) in if r < 500000000 then 500000000 else r)"

definition readOthers :: "dictionary \<Rightarrow> configured_driver \<Rightarrow> configured_driver" where
  "readOthers p d =
     (let d = onPrefs (\<lambda>q. q\<lparr>useGenericBounds := readBool p ''UseSynapticsGenericBounds''\<rparr>) d;
          d = onGate (\<lambda>k. k\<lparr>enableLidPolling := readBool p ''DisableTPadOnLIDClose''\<rparr>) d;
          cf = readInt16 p ''RotationMaxCFingDelta'';
          d = onZoom (\<lambda>z. z\<lparr>zoomEnabled := readBool p ''PinchZoom'', rotateEnabled := readBool p ''Rotation'',
                cirEnabled := readBool p ''CircularRotate'', pinchDeltaScale := readInt8 p ''PinchDeltaScale'',
                zoomMinSamples := readInt8 p ''PinchRotateMinSamples'', zoomDelta := readInt16 p ''PinchZoomDelta'',
                rotateDelta := readInt16 p ''RotationDelta'', maxCFDeltaY := cf\<rparr>) d;
          d = onTouch (\<lambda>g. g\<lparr>maxCFDelta := cf, minCFingIdleTime := idleTime (readInt16 p ''RotationMinCFingIdleTime''),
                palmDetectionEnabled := readBool p ''PalmDetection''\<rparr>) d;
          d = onPress (\<lambda>f. f\<lparr>fings4PinchAction := readInt8 p ''4FingersPinchAction'',
                fings5PinchAction := readInt8 p ''5FingersPinchAction''\<rparr>) d;
          d = withDict (map_of p ''MaxTouchEndPressure'')
                (\<lambda>c d. onTap (\<lambda>s. s\<lparr>maxTEndPressure := ReadPlistDictionaryKey (tp d) c\<rparr>) d) d;
          d = withDict (map_of p ''MaxTouchEndDelta'')
                (\<lambda>c d. onTap (\<lambda>s. s\<lparr>maxTEndDelta := ucast (ReadPlistDictionaryKey (tp d) c)\<rparr>) d) d;
          d = withDict (map_of p ''PalmCheckMinPressure'')
                (\<lambda>c d. onTouch (\<lambda>g. g\<lparr>palmMinPressure := ReadPlistDictionaryKey (tp d) c\<rparr>) d) d;
          d = withDict (map_of p ''PalmCheckMinWidth'')
                (\<lambda>c d. onTouch (\<lambda>g. g\<lparr>palmMinWidth := ReadPlistDictionaryKey (tp d) c\<rparr>) d) d
      in case asNumber (map_of p ''TPadStatusCheckPollRate'') of
           None \<Rightarrow> d
         | Some n \<Rightarrow> onGate (\<lambda>k. k\<lparr>acpiPollRate := pollRate n\<rparr>) d)"

definition readMouse :: "dictionary \<Rightarrow> configured_driver \<Rightarrow> configured_driver" where
  "readMouse p =
     onPad (\<lambda>t. t\<lparr>ps2Mouse := \<lparr>mSampleRate = readInt8 p ''SampleRate'', mResolution = readInt8 p ''Resolution'',
       mScaling = if readInt8 p ''Scaling'' > 1 then kDP_SetMouseScaling2To1 else kDP_SetMouseScaling1To1\<rparr>\<rparr>)"

definition readKeyboard :: "dictionary \<Rightarrow> configured_driver \<Rightarrow> configured_driver" where
  "readKeyboard p d =
     (let asus = readBool p ''EnableAsusKBacklightSupport''; off = readBool p ''EnableAsusKBacklightAutoOff'';
          d = onGate (\<lambda>k. k\<lparr>isTypeModeEnabled := readBool p ''IgnoreAccidentalTouchpadInput'',
                tapEnableTPad := readBool p ''TapEnablesTPadFromAccInput'',
                accInputTimeOut := readTime p ''TimeOutEnablesTPadAfterAccInput''\<rparr>) d;
          d = onPad (\<lambda>t. t\<lparr>autoBackLight := asus \<and> off\<rparr>) d;
          d = onPrefs (\<lambda>q. q\<lparr>hasAsusKBackLight := asus, hasKBLightAutoOff := off,
                has16LvlKBLight := readBool p ''AsusKBacklightHas16Levels''\<rparr>) d;
          d = onBacklight (\<lambda>b. b\<lparr>kBLightAutoOffTimeout := readInt32 p ''AsusKBacklightAutoOffTimeOut''\<rparr>) d
      in onTouch (\<lambda>g. g\<lparr>accInputKeysCount := readInt8 p ''TriggerAccInputForKeyPressCount''\<rparr>) d)"

definition ReadSTDPlistConfig :: "configured_driver \<Rightarrow> configured_driver" where
  "ReadSTDPlistConfig d =
     withDict (getProperty d ''Preferences'')
       (\<lambda>p d. let d = onPrefs (\<lambda>q. q\<lparr>sleepInitDelay := readInt16 p ''SleepInitDelay''\<rparr>) d;
                  d = withDict (map_of p ''Buttons'') readButtons d;
                  d = withDict (map_of p ''Pointing'') readPointing d;
                  d = withDict (map_of p ''Scrolling'') readScrolling d;
                  d = withDict (map_of p ''Swiping'') readSwiping d;
                  d = withDict (map_of p ''FingersPress'') readFingersPress d;
                  d = withDict (map_of p ''Tapping'') readTapping d;
                  d = withDict (map_of p ''Dragging'') readDragging d;
                  d = withDict (map_of p ''Others'') readOthers d;
                  d = withDict (map_of p ''Mouse'') readMouse d
              in withDict (map_of p ''Keyboard'') readKeyboard d) d"

section \<open>Acceleration tables\<close>

text \<open>The comparison \<open>strncmp (key, name, strlen (key)) = 0\<close>: the key is a prefix of the name.\<close>

definition isPrefix :: "string \<Rightarrow> string \<Rightarrow> bool" where
  "isPrefix k name \<longleftrightarrow> take (length k) name = k"

definition useTable :: "property \<Rightarrow> string \<Rightarrow> bool \<Rightarrow> configured_driver \<Rightarrow> configured_driver" where
  "useTable v behaviour noCurves d =
     (let d = setProperty ''HIDDefaultBehavior'' (PString behaviour) (setProperty ''HIDPointerAccelerationTable'' v d)
      in if noCurves then removeProperty ''HIDAccelCurves'' d else d)"

definition accelEntry :: "string \<times> property \<Rightarrow> configured_driver \<Rightarrow> configured_driver" where
  "accelEntry kv d =
     (let (k, v) = kv; n = pAccelPreference (pointerPrefs (gestures d))
      in case v of
           PArray _ \<Rightarrow>
             (if isPrefix k ''HIDAccelCurvesMT'' \<and> n = 1 then setProperty ''HIDAccelCurves'' v d
              else if isPrefix k ''HIDAccelCurvesBT'' \<and> n = 0 then setProperty ''HIDAccelCurves'' v d
              else d)
         | PData _ \<Rightarrow>
             (if isPrefix k ''AppleMultiTouch'' \<and> n = 1 then useTable v ''Trackpad'' False d
              else if isPrefix k ''AppleUSBMouse'' \<and> n = 2 then useTable v ''Mouse'' True d
              else if isPrefix k ''AppleWirelessMouse2007'' \<and> n = 3 then useTable v ''Mouse'' True d
              else if isPrefix k ''AppleBluetoothMultiTouch'' \<and> n = 4 then useTable v ''Trackpad'' True d
              else if isPrefix k ''AppleBluetoothTrackpad'' \<and> n = 0 then useTable v ''Trackpad'' False d
              else d)
         | _ \<Rightarrow> d)"

definition ReadAccelPlistConfig :: "configured_driver \<Rightarrow> configured_driver" where
  "ReadAccelPlistConfig d =
     (if pAccelPreference (pointerPrefs (gestures d)) \<noteq> 0
      then withDict (getProperty d ''AccelerationPreferences'') (\<lambda>p. fold accelEntry p) d else d)"

section \<open>Adaptation to the hardware\<close>

definition threeQuarters :: "u16 \<Rightarrow> u16" where
  "threeQuarters w = of_nat (unat w * 3 div 4)"

definition adaptSynaptics :: "configured_driver \<Rightarrow> configured_driver" where
  "adaptSynaptics d =
     (let d = (if SYN_ID_MAJOR (identity (synTPad (tp d))) < 8
               then onZoom (\<lambda>z. z\<lparr>maxCFDeltaY := rotateDelta z div 3\<rparr>) d else d);
          d = (if xmax (tp d) = 0 \<or> ymax (tp d) = 0 \<or> useGenericBounds (prefs d)
               then onPad (\<lambda>t. t\<lparr>xmin := 1472, ymin := 1408, ymax := 4448, xmax := 5472\<rparr>) d else d);
          d = onPad (\<lambda>t. t\<lparr>xcenter := of_nat ((unat (xmax t) + unat (xmin t)) div 2),
                ycenter := of_nat ((unat (ymax t) + unat (ymin t)) div 2)\<rparr>) d;
          d = onEdges (\<lambda>e. e\<lparr>nonEdgeHArea := nonEdgeHArea e div 3, edgeHArea := edgeHArea e div 2,
                nonEdgeVArea := nonEdgeVArea e div 3, edgeVArea := edgeVArea e div 2\<rparr>) d
      in onScrollF (\<lambda>s. s\<lparr>scrollEdgeVArea := scrollEdgeVArea s div 2, scrollEdgeHArea := scrollEdgeHArea s div 2\<rparr>) d)"

definition adaptElanV2 :: "configured_driver \<Rightarrow> configured_driver" where
  "adaptElanV2 d =
     (let d = onSwipe (\<lambda>w. w\<lparr>mulFingDeltaX := mulFingDeltaX w div 3, mulFingDeltaY := mulFingDeltaY w div 3\<rparr>) d;
          d = onTap (\<lambda>t. t\<lparr>noiseDelta := noiseDelta t div 2, noiseMultiTapDelta := noiseMultiTapDelta t div 2\<rparr>) d;
          d = onZoom (\<lambda>z. z\<lparr>zoomDelta := zoomDelta z div 2, rotateDelta := threeQuarters (rotateDelta z)\<rparr>) d;
          d = onEdges (\<lambda>e. e\<lparr>edgeHArea := threeQuarters (edgeHArea e), edgeVArea := threeQuarters (edgeVArea e)\<rparr>) d;
          d = onScrollF (\<lambda>s. s\<lparr>scrollEdgeHArea := threeQuarters (scrollEdgeHArea s),
                scrollEdgeVArea := threeQuarters (scrollEdgeVArea s)\<rparr>) d
      in onZoom (\<lambda>z. z\<lparr>maxCFDeltaY := rotateDelta z div 3\<rparr>) d)"

definition adaptElanV3 :: "configured_driver \<Rightarrow> configured_driver" where
  "adaptElanV3 d =
     (let d = (if v3ElanLegacyMode (elanTPad (tp d)) \<and> pointerResolution (prefs d) \<ge> 500
               then onPrefs (\<lambda>p. p\<lparr>pointerResolution := pointerResolution p - 400\<rparr>) d else d);
          d = onSwipe (\<lambda>w. w\<lparr>mulFingDeltaX := mulFingDeltaX w - mulFingDeltaX w div 4,
                mulFingDeltaY := mulFingDeltaY w - mulFingDeltaY w div 4\<rparr>) d
      in onZoom (\<lambda>z. z\<lparr>maxCFDeltaY := rotateDelta z div 3\<rparr>) d)"

definition adaptToHardware :: "configured_driver \<Rightarrow> configured_driver" where
  "adaptToHardware d =
     (let v = touchpadVendor (tp d)
      in if v = STD_SYNAPTICS then adaptSynaptics d
         else if v = STD_ELAN_TECH then
           (let d = (if \<not> isClickPad (tp d) then onButton (\<lambda>b. b\<lparr>clickPad2FMove := False\<rparr>) d else d)
            in if hw_version (tp d) = 2 then adaptElanV2 d else if hw_version (tp d) = 3 then adaptElanV3 d else d)
         else d)"

definition setAccelAndResolution :: "configured_driver \<Rightarrow> configured_driver" where
  "setAccelAndResolution d =
     (let p = push_bit 16 (pointerResolution (prefs d)); s = push_bit 16 (scrollResolution (prefs d));
          d = setProperty ''HIDPointerResolution'' (PNumber (ucast p)) d;
          d = setProperty ''HIDScrollResolution'' (PNumber (ucast s)) d;
          d = setProperty ''HIDScrollResolutionX'' (PNumber (ucast s)) d;
          d = setProperty ''HIDPointerButtonCount'' (PNumber 3) d;
          d = setProperty ''HIDPointerAccelerationType'' (PString ''HIDTrackpadAcceleration'') d
      in setProperty ''HIDScrollAccelerationType'' (PString ''HIDTrackpadScrollAcceleration'') d)"

text \<open>What start does with the configuration once the hardware is set up; in between it initializes the mouse again.\<close>

definition configureTouchpad :: "'s ps2dev \<Rightarrow> configured_driver \<Rightarrow> 's \<Rightarrow> (bool \<times> configured_driver \<times> 's) option" where
  "configureTouchpad D d s =
     (let d = ReadAccelPlistConfig (ReadSTDPlistConfig d); m = ps2Mouse (tp d)
      in do {
        (ret, s) \<leftarrow> initializeMouse D (mSampleRate m) (mResolution m) (mScaling m) s;
        if ret \<noteq> 0 then Some (False, d, s)
        else Some (True, setAccelAndResolution (adaptToHardware d), s)
      })"

section \<open>The preferences of the system\<close>

text \<open>A number or a boolean is copied to the registry of the driver.\<close>

definition copyPreference :: "string \<times> property \<Rightarrow> configured_driver \<Rightarrow> configured_driver" where
  "copyPreference kv d =
     (case snd kv of PNumber n \<Rightarrow> setProperty (fst kv) (PNumber n) d | PBoolean b \<Rightarrow> setProperty (fst kv) (PBoolean b) d | _ \<Rightarrow> d)"

definition appleProperties :: dictionary where
  "appleProperties =
     [(''ApplePreferenceIdentifier'', PString ''com.apple.AppleMultitouchTrackpad''), (''MTHIDDevice'', PBoolean True),
      (''MT Built-in'', PBoolean True), (''ApplePreferenceCapability'', PBoolean True), (''TrackpadEmbedded'', PBoolean True),
      (''SupportsGestureScrolling'', PBoolean True), (''TrackpadThreeFingerDrag'', PBoolean True),
      (''TrackpadFourFingerGestures'', PBoolean False), (''TrackpadTwoFingerDoubleTapGesture'', PBoolean True),
      (''TrackpadTwoFingerFromRightEdgeSwipeGesture'', PBoolean True),
      (''TrackpadThreeFingerVertSwipeGesture'', PBoolean False), (''TrackpadThreeFingerHorizSwipeGesture'', PBoolean False)]"

text \<open>The table boolVars: the properties and the members they set.\<close>

definition boolVars :: "(string \<times> (bool \<Rightarrow> configured_driver \<Rightarrow> configured_driver)) list" where
  "boolVars =
     [(''Clicking'', \<lambda>b. onTouch (\<lambda>g. g\<lparr>isClickingEnabled := b\<rparr>)),
      (''Dragging'', \<lambda>b. onTouch (\<lambda>g. g\<lparr>isDragEnabled := b\<rparr>)),
      (''DragLock'', \<lambda>b. onTouch (\<lambda>g. g\<lparr>isDragLockEnabled := b\<rparr>)),
      (''TrackpadRightClick'', \<lambda>b. onTouch (\<lambda>g. g\<lparr>isTapSwapEnabled := b\<rparr>)),
      (''TrackpadThreeFingerDrag'', \<lambda>b. onTouch (\<lambda>g. g\<lparr>threeFDrag := b\<rparr>)),
      (''TrackpadThreeFingerTapGesture'', \<lambda>b. onTouch (\<lambda>g. g\<lparr>threeFTapLookUp := b\<rparr>)),
      (''TrackpadScroll'', \<lambda>b. onTouch (\<lambda>g. g\<lparr>isVScrollEnabled := b\<rparr>)),
      (''TrackpadHorizScroll'', \<lambda>b. onTouch (\<lambda>g. g\<lparr>isHScrollEnabled := b\<rparr>)),
      (''TrackpadPinch'', \<lambda>b. onZoom (\<lambda>z. z\<lparr>zoomEnabled := b\<rparr>)),
      (''TrackpadRotate'', \<lambda>b. onZoom (\<lambda>z. z\<lparr>rotateEnabled := b\<rparr>)),
      (''TrackpadTwoFingerDoubleTapGesture'', \<lambda>b. onTouch (\<lambda>g. g\<lparr>twoFDoubleTapSZoom := b\<rparr>)),
      (''JitterNoMove'', \<lambda>b. onGate (\<lambda>k. k\<lparr>isTypeModeEnabled := b\<rparr>)),
      (''USBMouseStopsTrackpad'', \<lambda>b. onGate (\<lambda>k. k\<lparr>usbMouseDisablesTrackpad := b\<rparr>))]"

definition readBoolVar ::
  "string \<times> (bool \<Rightarrow> configured_driver \<Rightarrow> configured_driver) \<Rightarrow> configured_driver \<Rightarrow> configured_driver" where
  "readBoolVar var d =
     (case getProperty d (fst var) of
        Some (PBoolean b) \<Rightarrow> snd var b d
      | Some (PNumber n) \<Rightarrow> snd var ((ucast n :: u8) \<noteq> 0) d
      | _ \<Rightarrow> d)"

text \<open>The loop over the table intVars, which has one entry, uses the table boolVars.\<close>

definition readIntVars :: "configured_driver \<Rightarrow> configured_driver" where
  "readIntVars d =
     (case asNumber (getProperty d (fst (hd boolVars))) of
        None \<Rightarrow> d
      | Some n \<Rightarrow> snd (hd boolVars) ((ucast n :: u32) \<noteq> 0) d)"

text \<open>The acceleration and the factor of a scroll level at boot; other levels change neither.\<close>

definition bootLevel :: "u8 \<Rightarrow> u8 \<Rightarrow> (u64 \<times> rat) option" where
  "bootLevel osx l =
     (if l = 1 then Some (0, 1) else if l = 2 then Some (2 * 4096, 2)
      else if l = 3 then Some ((if osx \<ge> 10 then 3 else 8) * 4096, 3)
      else if l = 4 then Some ((if osx \<ge> 10 then 5 else 11) * 4096, 4)
      else if l = 5 then Some ((if osx \<ge> 10 then 8 else 14) * 4096, 5)
      else if l = 6 then Some ((if osx \<ge> 10 then 12 else 16) * 4096, 6)
      else if l = 7 then Some ((if osx \<ge> 10 then 16 else 24) * 4096, 7)
      else if l = 8 then Some ((if osx \<ge> 10 then 24 else 32) * 4096, 8)
      else if l = 9 then Some (40 * 4096, 9) else if l = 10 then Some (48 * 4096, 10) else None)"

definition sliderFactor :: "u8 \<Rightarrow> u64 \<Rightarrow> rat" where
  "sliderFactor osx accel =
     (let l = ucast (accel div 4096) :: u8
      in if l = 0 then 1 else if l = 2 then 2 else if l = 3 then 3 else if l = 8 then (if osx \<ge> 10 then 5 else 3)
         else if l = 5 \<or> l = 11 then 4 else if l = 14 then 5 else if l = 12 then 6
         else if l = 16 then (if osx \<ge> 10 then 7 else 6) else if l = 24 then (if osx \<ge> 10 then 8 else 7)
         else if l = 32 then 8 else if l = 40 then 9 else if l = 48 then 10 else 0)"

text \<open>The factors of the property list, and the finer scale of the third acceleration mode.\<close>

definition scaleFactor :: "(rat \<Rightarrow> rat) \<Rightarrow> configured_driver \<Rightarrow> rat \<Rightarrow> rat" where
  "scaleFactor fl d f =
     (let p = prefs d;
          f = (if levelFactor p > 0 then fl (f * of_int (uint (levelFactor p))) else f);
          f = (if levelGranularity p > 0 then fl (fl (f * of_int (uint (levelGranularity p))) / 100) else f)
      in if accelMode2F (scrollF (gestures d)) > 2 then fl (f / (if osxVersion (gestures d) \<ge> 10 then 8 else 10)) else f)"

definition setScrollFactor :: "rat \<Rightarrow> configured_driver \<Rightarrow> configured_driver" where
  "setScrollFactor f = onTouch (\<lambda>g. g\<lparr>scrollFactor := f\<rparr>)"

definition chooseScroll :: "u64 \<Rightarrow> configured_driver \<Rightarrow> configured_driver" where
  "chooseScroll n d =
     (let n = (if n = 655 then 24 * 4096 else n); osx = osxVersion (gestures d); l = levelAtBoot (prefs d);
          d = onPrefs (\<lambda>p. p\<lparr>scrollAccell := n\<rparr>) d
      in if l \<noteq> 0 then
           onPrefs (\<lambda>p. p\<lparr>levelAtBoot := 0\<rparr>)
             (case bootLevel osx l of
                None \<Rightarrow> d
              | Some (accel, f) \<Rightarrow> setScrollFactor f (onPrefs (\<lambda>p. p\<lparr>scrollAccell := accel\<rparr>) d))
         else setScrollFactor (sliderFactor osx n) d)"

definition setScroll :: "(rat \<Rightarrow> rat) \<Rightarrow> u64 option \<Rightarrow> configured_driver \<Rightarrow> configured_driver" where
  "setScroll fl accel d =
     (let d = (case accel of
                 Some n \<Rightarrow> chooseScroll n d
               | None \<Rightarrow> setScrollFactor 4
                   (onPrefs (\<lambda>p. p\<lparr>scrollAccell := (if osxVersion (gestures d) \<ge> 10 then 8 else 11) * 4096\<rparr>) d));
          d = setScrollFactor (scaleFactor fl d (scrollFactor (gestures d))) d
      in setProperty ''HIDTrackpadScrollAcceleration'' (PNumber (scrollAccell (prefs d))) d)"

text \<open>
  The number the dictionary holds for the scroll acceleration is overwritten in place; the call of the
  superclass at the end gets the dictionary with it.
\<close>

definition overwrite :: "string \<Rightarrow> u64 \<Rightarrow> dictionary \<Rightarrow> dictionary" where
  "overwrite k n p = map (\<lambda>(k', v). (k', if k' = k \<and> asNumber (Some v) \<noteq> None then PNumber n else v)) p"

definition setParamProperties ::
  "(rat \<Rightarrow> rat) \<Rightarrow> dictionary \<Rightarrow> configured_driver \<Rightarrow> dictionary \<times> configured_driver" where
  "setParamProperties fl config d =
     (let d = fold copyPreference config d;
          d = (if osxVersion (gestures d) > 11 then fold (\<lambda>(k, v). setProperty k v) appleProperties d else d);
          d = setAccelAndResolution (readIntVars (fold readBoolVar boolVars d));
          d = (case asNumber (map_of config ''HIDTrackpadAcceleration'') of
                 None \<Rightarrow> d
               | Some n \<Rightarrow> setProperty ''HIDTrackpadAcceleration'' (PNumber n) (onPrefs (\<lambda>p. p\<lparr>pointerAccell := n\<rparr>) d));
          d = setScroll fl (asNumber (map_of config ''HIDTrackpadScrollAcceleration'')) d;
          config = overwrite ''HIDTrackpadScrollAcceleration'' (scrollAccell (prefs d)) config;
          d = (case asNumber (map_of config ''HIDClickTime'') of
                 None \<Rightarrow> d
               | Some n \<Rightarrow> setProperty ''HIDClickTime'' (PNumber n) (onTouch (\<lambda>g. g\<lparr>maxDoubleClickTime := n\<rparr>) d))
      in (config, d))"

section \<open>The configuration before start\<close>

text \<open>A configured driver as init leaves it.\<close>

definition noPreferences :: preferences where
  "noPreferences = \<lparr>registry = Map.empty, sleepInitDelay = 0, pointerAccell = 0, scrollAccell = 0, pointerResolution = 1200,
     scrollResolution = 400, levelAtBoot = 0, levelFactor = 0, levelGranularity = 0, useGenericBounds = False,
     has16LvlKBLight = False, hasAsusKBackLight = False, hasKBLightAutoOff = False\<rparr>"

definition configuredPad :: "u8 \<Rightarrow> u8 \<Rightarrow> configured_driver" where
  "configuredPad vendor hw = \<lparr>tp = touchpad_init\<lparr>touchpadVendor := vendor, hw_version := hw, pktsize := 6\<rparr>,
     gate = gate_init, now = 0, gestures = gesture.extend (gesture.truncate gesture_init) noPreferences, overrun = False, calls = []\<rparr>"

end
