(* ===== verification/Touchpad_ConfigProps.thy ===== *)
theory Touchpad_ConfigProps
  imports Touchpad_Config Touchpad_Smart
begin

text \<open>
  Properties of the configuration: the limits it keeps to whatever the property list holds, and that the scroll
  level set at boot survives the way through the preferences of the system.
\<close>

section \<open>The scroll level\<close>

text \<open>What the scroll factor depends on.\<close>

definition scrollSetup :: "configured_driver \<Rightarrow> u8 \<times> u8 \<times> u8 \<times> u8 \<times> u8" where
  "scrollSetup d = (osxVersion (gestures d), accelMode2F (scrollF (gestures d)), levelAtBoot (prefs d),
     levelFactor (prefs d), levelGranularity (prefs d))"

lemma setup_property [simp]:
  "scrollSetup (setProperty k v d) = scrollSetup d" "scrollFactor (gestures (setProperty k v d)) = scrollFactor (gestures d)"
  "scrollAccell (prefs (setProperty k v d)) = scrollAccell (prefs d)"
  by (simp_all add: scrollSetup_def setProperty_def onPrefs_def prefs_def)

lemma setup_copy [simp]:
  "scrollSetup (fold copyPreference ps d) = scrollSetup d"
  by (induction ps arbitrary: d) (simp_all add: copyPreference_def split: property.split)

lemma setup_apple [simp]: "scrollSetup (fold (\<lambda>(k, v). setProperty k v) ps d) = scrollSetup d"
  by (induction ps arbitrary: d) (simp_all add: split_beta)

lemma boolVars_setup:
  assumes "var \<in> set boolVars"
  shows "scrollSetup (snd var b d) = scrollSetup d"
  using assms
  by (auto simp: boolVars_def scrollSetup_def prefs_def onZoom_def onGate_def)

lemma setup_bools [simp]: "scrollSetup (fold readBoolVar boolVars d) = scrollSetup d"
proof -
  have "scrollSetup (fold readBoolVar vs d) = scrollSetup d" if "set vs \<subseteq> set boolVars" for vs d
    using that
  proof (induction vs arbitrary: d)
    case (Cons v vs)
    have "scrollSetup (readBoolVar v d) = scrollSetup d"
      using boolVars_setup Cons.prems by (auto simp: readBoolVar_def split: option.split property.split)
    with Cons show ?case by simp
  qed simp
  then show ?thesis by blast
qed

lemma setup_ints [simp]: "scrollSetup (readIntVars d) = scrollSetup d"
  using boolVars_setup [of "hd boolVars"] by (simp add: readIntVars_def boolVars_def split: option.split)

lemma setup_resolution [simp]: "scrollSetup (setAccelAndResolution d) = scrollSetup d"
  by (simp add: setAccelAndResolution_def Let_def)

text \<open>What is left of setParamProperties for scrolling.\<close>

definition beforeScroll :: "dictionary \<Rightarrow> configured_driver \<Rightarrow> configured_driver" where
  "beforeScroll config d =
     (let d = fold copyPreference config d;
          d = (if osxVersion (gestures d) > 11 then fold (\<lambda>(k, v). setProperty k v) appleProperties d else d);
          d = setAccelAndResolution (readIntVars (fold readBoolVar boolVars d))
      in case asNumber (map_of config ''HIDTrackpadAcceleration'') of
           None \<Rightarrow> d
         | Some n \<Rightarrow> setProperty ''HIDTrackpadAcceleration'' (PNumber n) (onPrefs (\<lambda>p. p\<lparr>pointerAccell := n\<rparr>) d))"

lemma setup_before [simp]: "scrollSetup (beforeScroll config d) = scrollSetup d"
proof -
  have "scrollSetup (onPrefs (\<lambda>p. p\<lparr>pointerAccell := n\<rparr>) d) = scrollSetup d" for n d
    by (simp add: scrollSetup_def onPrefs_def prefs_def)
  then show ?thesis by (simp add: beforeScroll_def Let_def split: option.split)
qed

text \<open>The acceleration and the factor before scaling.\<close>

definition chosen :: "u8 \<Rightarrow> u8 \<Rightarrow> u64 \<Rightarrow> rat \<Rightarrow> u64 \<times> rat" where
  "chosen osx l n f =
     (let n = (if n = 655 then 24 * 4096 else n)
      in if l \<noteq> 0 then (case bootLevel osx l of Some af \<Rightarrow> af | None \<Rightarrow> (n, f)) else (n, sliderFactor osx n))"

lemma chooseScroll_chosen:
  "(scrollAccell (prefs (chooseScroll n d)), scrollFactor (gestures (chooseScroll n d))) =
     chosen (osxVersion (gestures d)) (levelAtBoot (prefs d)) n (scrollFactor (gestures d))"
  "scrollSetup (chooseScroll n d) =
     (osxVersion (gestures d), accelMode2F (scrollF (gestures d)), 0, levelFactor (prefs d), levelGranularity (prefs d))"
  by (simp_all add: chooseScroll_def chosen_def setScrollFactor_def onPrefs_def prefs_def scrollSetup_def Let_def
      split: option.split)

definition scaled_by :: "(rat \<Rightarrow> rat) \<Rightarrow> u8 \<times> u8 \<times> u8 \<times> u8 \<times> u8 \<Rightarrow> rat \<Rightarrow> rat" where
  "scaled_by fl = (\<lambda>(osx, mode, l, lf, lg) f.
     (let f = (if lf > 0 then fl (f * of_int (uint lf)) else f);
          f = (if lg > 0 then fl (fl (f * of_int (uint lg)) / 100) else f)
      in if mode > 2 then fl (f / (if osx \<ge> 10 then 8 else 10)) else f))"

lemma scaleFactor_setup: "scaleFactor fl d f = scaled_by fl (scrollSetup d) f"
  by (simp add: scaleFactor_def scaled_by_def scrollSetup_def Let_def)

lemma setup_split:
  assumes "scrollSetup d = (osx, mode, l, lf, lg)"
  shows "osxVersion (gestures d) = osx" "levelAtBoot (prefs d) = l" "accelMode2F (scrollF (gestures d)) = mode"
    "levelFactor (prefs d) = lf" "levelGranularity (prefs d) = lg"
  using assms by (simp_all add: scrollSetup_def)

text \<open>The effect of setParamProperties on scrolling.\<close>

lemma setParam_scroll:
  assumes "scrollSetup d = (osx, mode, l, lf, lg)" "asNumber (map_of config ''HIDTrackpadScrollAcceleration'') = Some n"
    "chosen osx l n (scrollFactor (gestures (beforeScroll config d))) = (a, f)"
  shows "scrollAccell (prefs (snd (setParamProperties fl config d))) = a"
    "scrollFactor (gestures (snd (setParamProperties fl config d))) = scaled_by fl (osx, mode, 0, lf, lg) f"
    "scrollSetup (snd (setParamProperties fl config d)) = (osx, mode, 0, lf, lg)"
    "fst (setParamProperties fl config d) = overwrite ''HIDTrackpadScrollAcceleration'' a config"
proof -
  let ?e = "beforeScroll config d"
  define r where "r = setScroll fl (Some n) ?e"
  have e: "scrollSetup ?e = (osx, mode, l, lf, lg)" using assms(1) by simp
  note f = setup_split [OF e]
  have c: "scrollAccell (prefs (chooseScroll n ?e)) = a" "scrollFactor (gestures (chooseScroll n ?e)) = f"
    "scrollSetup (chooseScroll n ?e) = (osx, mode, 0, lf, lg)"
    using chooseScroll_chosen [of n ?e] assms(3) by (simp_all add: f)
  have s: "scrollSetup (setScrollFactor h d) = scrollSetup d" "scrollAccell (prefs (setScrollFactor h d)) = scrollAccell (prefs d)" for h d
    by (simp_all add: setScrollFactor_def scrollSetup_def prefs_def)
  have r: "scrollAccell (prefs r) = a" "scrollFactor (gestures r) = scaled_by fl (osx, mode, 0, lf, lg) f"
    "scrollSetup r = (osx, mode, 0, lf, lg)"
    unfolding r_def setScroll_def by (simp_all add: c s scaleFactor_setup Let_def) (simp add: setScrollFactor_def)
  have p: "setParamProperties fl config d = (overwrite ''HIDTrackpadScrollAcceleration'' (scrollAccell (prefs r)) config,
    case asNumber (map_of (overwrite ''HIDTrackpadScrollAcceleration'' (scrollAccell (prefs r)) config) ''HIDClickTime'') of None \<Rightarrow> r
    | Some n \<Rightarrow> setProperty ''HIDClickTime'' (PNumber n) (onTouch (\<lambda>g. g\<lparr>maxDoubleClickTime := n\<rparr>) r))"
    unfolding r_def beforeScroll_def setParamProperties_def Let_def assms(2) by (rule refl)
  have t: "scrollSetup (onTouch (\<lambda>g. g\<lparr>maxDoubleClickTime := n\<rparr>) r) = scrollSetup r" for n
    by (simp add: scrollSetup_def prefs_def)
  have u: "scrollAccell (prefs (onTouch (\<lambda>g. g\<lparr>maxDoubleClickTime := n\<rparr>) r)) = scrollAccell (prefs r)" for n
    by (simp add: prefs_def)
  show "scrollAccell (prefs (snd (setParamProperties fl config d))) = a"
    "scrollFactor (gestures (snd (setParamProperties fl config d))) = scaled_by fl (osx, mode, 0, lf, lg) f"
    "scrollSetup (snd (setParamProperties fl config d)) = (osx, mode, 0, lf, lg)"
    "fst (setParamProperties fl config d) = overwrite ''HIDTrackpadScrollAcceleration'' a config"
    unfolding p using r t u by (simp_all split: option.split)
qed

lemma overwrite_same [simp]:
  "asNumber (map_of config k) = Some n \<Longrightarrow> asNumber (map_of (overwrite k m config) k) = Some m"
  by (induction config) (auto simp: overwrite_def split: if_splits)

lemma boot_levels:
  assumes "l \<le> 10" "l \<noteq> 0"
  shows "\<exists>a f. bootLevel osx l = Some (a, f) \<and> a \<noteq> 655 \<and> sliderFactor osx a = f"
proof -
  have "unat l \<le> 10" "unat l \<noteq> 0" using assms by (simp_all add: word_le_nat_alt unat_eq_0)
  moreover have "k = 1 \<or> k = 2 \<or> k = 3 \<or> k = 4 \<or> k = 5 \<or> k = 6 \<or> k = 7 \<or> k = 8 \<or> k = 9 \<or> k = 10"
    if "k \<le> 10" "k \<noteq> 0" for k :: nat using that by arith
  ultimately have "unat l \<in> {1, 2, 3, 4, 5, 6, 7, 8, 9, 10}" by simp
  moreover have "l = of_nat (unat l)" by simp
  ultimately obtain k :: nat where "l = of_nat k" "k \<in> {1, 2, 3, 4, 5, 6, 7, 8, 9, 10}" by blast
  then show ?thesis by (auto simp: bootLevel_def sliderFactor_def Let_def)
qed

text \<open>
  C16: The scroll level survives: the acceleration that the driver announces for a level set at boot is
  understood, when the preferences of the system hand it back, as the same level, for each of the ten levels,
  each version of the system and any scaling; and the same holds for a value of the preferences.
\<close>

theorem scroll_level_roundtrip:
  fixes fl config d
  defines "r \<equiv> setParamProperties fl config d"
  assumes "levelAtBoot (prefs d) \<le> 10" "asNumber (map_of config ''HIDTrackpadScrollAcceleration'') = Some n"
  shows "scrollFactor (gestures (snd (setParamProperties fl (fst r) (snd r)))) = scrollFactor (gestures (snd r)) \<and>
    scrollAccell (prefs (snd (setParamProperties fl (fst r) (snd r)))) = scrollAccell (prefs (snd r))"
proof -
  obtain osx mode l lf lg where d: "scrollSetup d = (osx, mode, l, lf, lg)" by (cases "scrollSetup d") auto
  then have l: "l \<le> 10" using setup_split(2) [OF d] assms(2) by simp
  obtain a f where c: "chosen osx l n (scrollFactor (gestures (beforeScroll config d))) = (a, f)" by fastforce
  have a: "a \<noteq> 655 \<and> sliderFactor osx a = f"
  proof (cases "l = 0")
    case True
    then show ?thesis using c by (auto simp: chosen_def Let_def split: if_splits)
  next
    case False
    then show ?thesis using boot_levels [OF l False, of osx] c by (auto simp: chosen_def Let_def)
  qed
  then have c2: "chosen osx 0 a g = (a, f)" for g by (simp add: chosen_def)
  note r = setParam_scroll [OF d assms(3) c, of fl, folded r_def]
  have "asNumber (map_of (fst r) ''HIDTrackpadScrollAcceleration'') = Some a" using assms(3) by (simp add: r(4))
  from setParam_scroll(1,2) [OF r(3) this c2, of fl] r(1,2) show ?thesis by simp
qed

theorem scroll_level_roundtrip_witness:
  fixes d :: configured_driver
  defines "d \<equiv> onPrefs (\<lambda>p. p\<lparr>levelAtBoot := 7\<rparr>) (configuredPad STD_ELAN_TECH STD_ELAN_HW_V4)"
  defines "r \<equiv> setParamProperties id [(''HIDTrackpadScrollAcceleration'', PNumber 4096)] d"
  shows "scrollFactor (gestures (snd (setParamProperties id (fst r) (snd r)))) = scrollFactor (gestures (snd r))"
proof -
  have "levelAtBoot (prefs d) \<le> 10" by (simp add: d_def onPrefs_def prefs_def)
  from scroll_level_roundtrip [OF this, of "[(''HIDTrackpadScrollAcceleration'', PNumber 4096)]" 4096 id]
  show ?thesis by (simp add: r_def)
qed

text \<open>The direction of scrolling that the property list may turn round is set again by the preferences.\<close>

lemma scroll_flow_is_lost:
  assumes "levelAtBoot (prefs d) \<le> 10" "asNumber (map_of config ''HIDTrackpadScrollAcceleration'') = Some n"
  shows "scrollFactor (gestures (snd (setParamProperties fl config (onTouch (\<lambda>g. g\<lparr>scrollFactor := h\<rparr>) d)))) =
    scrollFactor (gestures (snd (setParamProperties fl config d)))"
proof -
  let ?e = "onTouch (\<lambda>g. g\<lparr>scrollFactor := h\<rparr>) d"
  obtain osx mode l lf lg where d: "scrollSetup d = (osx, mode, l, lf, lg)" by (cases "scrollSetup d") auto
  then have e: "scrollSetup ?e = (osx, mode, l, lf, lg)" by (simp add: scrollSetup_def prefs_def)
  have l: "l \<le> 10" using setup_split(2) [OF d] assms(1) by simp
  obtain a f where c: "chosen osx l n (scrollFactor (gestures (beforeScroll config d))) = (a, f)" by fastforce
  moreover have "chosen osx l n k = chosen osx l n k'" for k k'
    using boot_levels [OF l, of osx] by (cases "l = 0") (auto simp: chosen_def Let_def)
  ultimately have c': "chosen osx l n (scrollFactor (gestures (beforeScroll config ?e))) = (a, f)" by metis
  show ?thesis
    using setParam_scroll(2) [OF d assms(2) c] setParam_scroll(2) [OF e assms(2) c'] by simp
qed

section \<open>The limits of the configuration\<close>

definition config_limits :: "configured_driver \<Rightarrow> bool" where
  "config_limits d \<longleftrightarrow> pSmoothSamples (pointerPrefs (gestures d)) \<le> 10 \<and> pSmoothLevel (pointerPrefs (gestures d)) \<le> 20 \<and>
     smoothSamples (scrollF (gestures d)) \<le> 10 \<and> accelMode2F (scrollF (gestures d)) \<le> 3 \<and>
     directionSamples (scrollF (gestures d)) \<le> 9 \<and> fings2Click (press (gestures d)) \<le> 32 \<and>
     acpiPollRate (gate d) \<ge> 500000000 \<and>
     mScaling (ps2Mouse (tp d)) \<in> {kDP_SetMouseScaling1To1, kDP_SetMouseScaling2To1}"

lemma withDict_into: "P d \<Longrightarrow> (\<And>p d. P d \<Longrightarrow> P (f p d)) \<Longrightarrow> P (withDict v f d)"
  by (simp add: withDict_def split: option.split)

text \<open>The elementary steps that keep the limits; the others are those that set a limited member.\<close>

lemma limits_steps [simp]:
  assumes "config_limits d"
  shows "config_limits (onPrefs f1 d)" "config_limits (onEdges f2 d)" "config_limits (onButton f3 d)" "config_limits (onSwipe f4 d)"
    "config_limits (onTap f5 d)" "config_limits (onCorner f6 d)" "config_limits (onDrag f7 d)" "config_limits (onZoom f8 d)"
    "config_limits (onBacklight f9 d)"
    "(\<And>g. pointerPrefs (h g) = pointerPrefs g \<and> scrollF (h g) = scrollF g \<and> press (h g) = press g) \<Longrightarrow> config_limits (onTouch h d)"
    "(\<And>k. acpiPollRate (u k) = acpiPollRate k) \<Longrightarrow> config_limits (onGate u d)"
    "(\<And>t. ps2Mouse (v t) = ps2Mouse t) \<Longrightarrow> config_limits (onPad v d)"
  using assms
  by (simp_all add: config_limits_def onPrefs_def onEdges_def onButton_def onSwipe_def onTap_def onCorner_def onDrag_def
      onZoom_def onBacklight_def onGate_def)

lemma limits_members [simp]:
  assumes "config_limits d"
  shows "(\<And>q. pSmoothSamples q \<le> 10 \<Longrightarrow> pSmoothSamples (f1 q) \<le> 10) \<Longrightarrow> (\<And>q. pSmoothLevel q \<le> 20 \<Longrightarrow> pSmoothLevel (f1 q) \<le> 20) \<Longrightarrow>
      config_limits (onPointer f1 d)"
    "(\<And>s. smoothSamples s \<le> 10 \<Longrightarrow> smoothSamples (f2 s) \<le> 10) \<Longrightarrow> (\<And>s. accelMode2F s \<le> 3 \<Longrightarrow> accelMode2F (f2 s) \<le> 3) \<Longrightarrow>
      (\<And>s. directionSamples s \<le> 9 \<Longrightarrow> directionSamples (f2 s) \<le> 9) \<Longrightarrow> config_limits (onScrollF f2 d)"
    "(\<And>f. fings2Click f \<le> 32 \<Longrightarrow> fings2Click (f3 f) \<le> 32) \<Longrightarrow> config_limits (onPress f3 d)"
  using assms by (simp_all add: config_limits_def onPointer_def onScrollF_def onPress_def)

lemmas config_into = let_into [where P = config_limits and Q = config_limits] withDict_into [where P = config_limits]
  control_let_value [where P = config_limits] control_if [where P = config_limits] control_option [where P = config_limits]

lemma limits_readings [simp]:
  assumes "config_limits d"
  shows "config_limits (readButtons p d)" "config_limits (readEdgeAreas p d)" "config_limits (readPointerResolution p d)"
    "config_limits (readScrollResolution p d)" "config_limits (readCustomAccel p d)" "config_limits (readEdgeScroll p d)"
    "config_limits (readTwoFingerScroll p d)"
    "config_limits (readSwiping p d)" "config_limits (readFingersPress p d)" "config_limits (readTapping p d)"
    "config_limits (readDragging p d)" "config_limits (readKeyboard p d)"
  using assms unfolding readButtons_def readEdgeAreas_def readPointerResolution_def readScrollResolution_def readCustomAccel_def
    readEdgeScroll_def readTwoFingerScroll_def readSwiping_def readFingersPress_def readTapping_def readDragging_def readKeyboard_def
  by ((intro config_into)?; simp add: not_less)+

lemma limits_poll [simp]: "config_limits d \<Longrightarrow> config_limits (onGate (\<lambda>k. k\<lparr>acpiPollRate := pollRate n\<rparr>) d)"
  by (simp add: config_limits_def onGate_def pollRate_def not_less Let_def)

lemma limits_mouse [simp]: "config_limits d \<Longrightarrow> config_limits (readMouse p d)"
  by (simp add: config_limits_def readMouse_def)

lemma limits_lists [simp]:
  assumes "config_limits d"
  shows "config_limits (readPointing p d)" "config_limits (readScrolling p d)" "config_limits (readOthers p d)"
  using assms unfolding readPointing_def readScrolling_def readOthers_def
  by ((intro config_into)?; simp add: not_less)+

lemma limits_plist [simp]: "config_limits d \<Longrightarrow> config_limits (ReadSTDPlistConfig d)"
  unfolding ReadSTDPlistConfig_def by (intro config_into) simp_all

lemma limits_property [simp]: "config_limits d \<Longrightarrow> config_limits (setProperty k v d)"
  "config_limits d \<Longrightarrow> config_limits (removeProperty k d)"
  by (simp_all add: setProperty_def removeProperty_def)

lemma limits_accel [simp]: "config_limits d \<Longrightarrow> config_limits (ReadAccelPlistConfig d)"
proof -
  have e: "config_limits (accelEntry kv e)" if "config_limits e" for kv e
    using that by (simp add: accelEntry_def useTable_def Let_def split: prod.split property.split)
  have "config_limits (fold accelEntry p e)" if "config_limits e" for p e
    using that by (rule fold_into [where P = config_limits, rotated]) (rule e)
  then show "config_limits d \<Longrightarrow> config_limits (ReadAccelPlistConfig d)"
    by (simp add: ReadAccelPlistConfig_def withDict_def split: option.split)
qed

lemma limits_adapt [simp]:
  assumes "config_limits d"
  shows "config_limits (adaptToHardware d)" "config_limits (setAccelAndResolution d)"
proof -
  have "config_limits (adaptSynaptics e)" "config_limits (adaptElanV2 e)" "config_limits (adaptElanV3 e)" if "config_limits e" for e
    using that unfolding adaptSynaptics_def adaptElanV2_def adaptElanV3_def by ((intro config_into)?; simp)+
  then show "config_limits (adaptToHardware d)"
    using assms by (simp add: adaptToHardware_def Let_def)
  show "config_limits (setAccelAndResolution d)" using assms by (simp add: setAccelAndResolution_def Let_def)
qed

text \<open>
  C15: The configuration keeps its limits, whatever the property list holds: the numbers of samples, the smooth
  level, the acceleration mode, the samples of a direction, the action of a click, the poll rate and the scaling of
  the mouse are what the driver can work with.
\<close>

theorem configuration_keeps_limits:
  assumes "config_limits d" "configureTouchpad D d s = Some (ok, d', s')"
  shows "config_limits d'"
proof -
  have "config_limits (ReadAccelPlistConfig (ReadSTDPlistConfig d))" using assms(1) by simp
  then show ?thesis
    using assms(2) by (auto simp: configureTouchpad_def Let_def bind_eq_Some_conv split: if_splits)
qed

definition examplePlist :: dictionary where
  "examplePlist = [(''Pointing'', PDict [(''PointerSmoothSamples'', PNumber 200), (''PointerSmoothLevel'', PNumber 5)]),
     (''Scrolling'', PDict [(''2FScroll'', PDict [(''ScrollSmoothSamples'', PNumber 70), (''2FScrollAccelMode'', PNumber 9)])])]"

definition listedPad :: configured_driver where
  "listedPad = setProperty ''Preferences'' (PDict examplePlist) (configuredPad STD_MOUSE STD_MOUSE_HW)"

lemma configuredPad_limits: "config_limits (configuredPad vendor hw)"
  by (simp add: config_limits_def configuredPad_def gesture_init_def gesture.defs touch_init_def touch.defs touchpad_init_def gate_init_def)

theorem configuration_keeps_limits_witness:
  "\<exists>d' s'. configureTouchpad mouseDevice listedPad (init mouse_start_input) = Some (True, d', s') \<and> config_limits d' \<and>
     pSmoothSamples (pointerPrefs (gestures d')) = 10 \<and> smoothSamples (scrollF (gestures d')) = 10"
proof -
  have "map_option (\<lambda>(ok, d, s). (ok, pSmoothSamples (pointerPrefs (gestures d)), smoothSamples (scrollF (gestures d))))
      (configureTouchpad mouseDevice listedPad (init mouse_start_input)) = Some (True, 10, 10)"
    by code_simp
  then obtain d' s' where run: "configureTouchpad mouseDevice listedPad (init mouse_start_input) = Some (True, d', s')"
    "pSmoothSamples (pointerPrefs (gestures d')) = 10" "smoothSamples (scrollF (gestures d')) = 10" by auto
  have "config_limits listedPad" using configuredPad_limits by (simp add: listedPad_def)
  from configuration_keeps_limits [OF this run(1)] run show ?thesis by blast
qed

text \<open>With equal numbers of samples the driver meets the condition of the bounds of its arrays.\<close>

lemma limits_samples:
  assumes "config_limits d" "smoothSamples (scrollF (gestures d)) = pSmoothSamples (pointerPrefs (gestures d))"
    "cSample (smooth (gestures d)) = 0" "skipSample (smooth (gestures d)) = 0" "scrollSample (scroll (gestures d)) = 0"
  shows "samples_ok (gestures d)"
proof -
  have "pSmoothSamples (pointerPrefs (gestures d)) \<le> 11"
    using assms(1) order_trans [of "pSmoothSamples (pointerPrefs (gestures d))" 10 11] by (simp add: config_limits_def)
  with assms(2-) show ?thesis by (simp add: samples_ok_def word_gt_0)
qed

section \<open>The areas\<close>

text \<open>Every area that the configuration derives from a percentage lies on the touchpad.\<close>

definition areas_ok :: "configured_driver \<Rightarrow> bool" where
  "areas_ok d \<longleftrightarrow> (let t = tp d; g = gestures d; e = edges g; s = scrollF g; c = cornerTap g; w = xmax t - xmin t; h = ymax t - ymin t
     in edgeHArea e \<le> w \<and> edgeHDistance e \<le> w \<and> nonEdgeHArea e \<le> w \<and> edgeVAdaptArea s \<le> w \<and> scrollEdgeVArea s \<le> w \<and>
        edgeVArea e \<le> h \<and> edgeVDistance e \<le> h \<and> nonEdgeVArea e \<le> h \<and> edgeHAdaptArea s \<le> h \<and> scrollEdgeHArea s \<le> h \<and>
        slingTriggerArea s \<le> h \<and> tapAreaLength c \<le> xmax t \<and> tapAreaHeight c \<le> ymax t)"

lemma sint32:
  assumes "0 \<le> i" "i < 2147483648"
  shows "sint (of_int i :: u32) = i"
  using assms by (simp add: sint_sbintrunc' signed_take_bit_int_eq_self)

lemma sdiv_nonneg: "0 \<le> a \<Longrightarrow> 0 < b \<Longrightarrow> a sdiv b = a div (b :: int)"
  by (auto simp: signed_divide_int_def sgn_if)

lemma percent_range:
  assumes "low \<le> high"
  shows "upTo100 low high p \<le> high - low"
proof (cases "p > 100")
  case False
  then have p: "uint p \<le> 100" by (simp add: not_less word_le_def)
  define r where "r = uint high - uint low"
  define q where "q = r * uint p div 100"
  have "uint high < 65536" "0 \<le> uint low" using uint_lt2p [of high] by simp_all
  moreover have "uint low \<le> uint high" using assms by (simp add: word_le_def)
  ultimately have r: "0 \<le> r" "r \<le> 65535" unfolding r_def by linarith+
  have u: "uint (high - low) = r" using assms uint_sub_lem [of low high] by (simp add: r_def word_le_def)
  have m: "0 \<le> r * uint p" "r * uint p \<le> r * 100" using r p by (simp_all add: mult_left_mono)
  then have q: "0 \<le> q" "q \<le> r" unfolding q_def by (simp_all add: div_le_dividend)
  have "sint (of_int (r * uint p) :: u32) = r * uint p"
    by (rule sint32) (use m r in linarith)+
  moreover have "(r * uint p) sdiv 100 = q"
    using m(1) by (simp add: q_def sdiv_nonneg)
  ultimately have "upTo100 low high p = of_int q"
    using False by (simp only: upTo100_def percentOf_def r_def if_False)
  moreover have "uint (of_int q :: u16) = q" using q r by (simp add: uint_word_of_int)
  ultimately show ?thesis using q(2) u by (simp add: word_le_def)
qed (simp add: upTo100_def)

lemma fifth_range:
  assumes "low \<le> (high :: u16)"
  shows "of_int ((uint high - uint low) sdiv 5) \<le> high - low"
proof -
  define r where "r = uint high - uint low"
  have "uint high < 65536" "0 \<le> uint low" using uint_lt2p [of high] by simp_all
  moreover have "uint low \<le> uint high" using assms by (simp add: word_le_def)
  ultimately have r: "0 \<le> r" "r \<le> 65535" unfolding r_def by linarith+
  have "uint (high - low) = r" using assms uint_sub_lem [of low high] by (simp add: r_def word_le_def)
  moreover have "r sdiv 5 = r div 5" using r by (simp add: sdiv_nonneg)
  moreover have "uint (of_int (r div 5) :: u16) = r div 5" using r by (simp add: uint_word_of_int)
  moreover have "r div 5 \<le> r" using r by (simp add: div_le_dividend)
  ultimately show ?thesis by (simp only: word_le_def r_def [symmetric])
qed

text \<open>What the areas are measured against.\<close>

definition plane :: "touchpad \<Rightarrow> u16 \<times> u16 \<times> u16 \<times> u16" where
  "plane t = (xmin t, xmax t, ymin t, ymax t)"

definition areas_in :: "u16 \<times> u16 \<times> u16 \<times> u16 \<Rightarrow> configured_driver \<Rightarrow> bool" where
  "areas_in p d \<longleftrightarrow> plane (tp d) = p \<and> areas_ok d"

lemma areas_steps [simp]:
  assumes "areas_in p d"
  shows "areas_in p (onPrefs f1 d)" "areas_in p (onPointer f2 d)" "areas_in p (onButton f3 d)" "areas_in p (onSwipe f4 d)"
    "areas_in p (onTap f5 d)" "areas_in p (onPress f6 d)" "areas_in p (onDrag f7 d)" "areas_in p (onZoom f8 d)"
    "areas_in p (onBacklight f9 d)" "areas_in p (onGate u d)"
    "(\<And>g. edges (h g) = edges g \<and> scrollF (h g) = scrollF g \<and> cornerTap (h g) = cornerTap g) \<Longrightarrow> areas_in p (onTouch h d)"
    "(\<And>t. plane (v t) = plane t) \<Longrightarrow> areas_in p (onPad v d)"
    "(\<And>s. (edgeVAdaptArea (k s), scrollEdgeVArea (k s), edgeHAdaptArea (k s), scrollEdgeHArea (k s), slingTriggerArea (k s)) =
       (edgeVAdaptArea s, scrollEdgeVArea s, edgeHAdaptArea s, scrollEdgeHArea s, slingTriggerArea s)) \<Longrightarrow> areas_in p (onScrollF k d)"
  using assms
  by (simp_all add: areas_in_def areas_ok_def plane_def onPrefs_def onPointer_def onButton_def onSwipe_def onTap_def onPress_def
      onDrag_def onZoom_def onBacklight_def onGate_def onScrollF_def Let_def)

lemmas areas_into = let_into [where P = "areas_in p" and Q = "areas_in p" for p] withDict_into [where P = "areas_in p" for p]
  control_let_value [where P = "areas_in p" for p] control_if [where P = "areas_in p" for p]
  control_option [where P = "areas_in p" for p]

lemma areas_readings [simp]:
  assumes "areas_in p d"
  shows "areas_in p (readButtons l d)" "areas_in p (readEdgeAreas l d)" "areas_in p (readPointerResolution l d)"
    "areas_in p (readScrollResolution l d)" "areas_in p (readCustomAccel l d)" "areas_in p (readFingersPress l d)"
    "areas_in p (readDragging l d)" "areas_in p (readKeyboard l d)" "areas_in p (readMouse l d)"
    "areas_in p (readTwoFingerScroll l d)" "areas_in p (readPointing l d)" "areas_in p (readOthers l d)"
proof -
  have *: "areas_in p (readEdgeAreas l e)" "areas_in p (readPointerResolution l e)" "areas_in p (readScrollResolution l e)"
    "areas_in p (readCustomAccel l e)" if "areas_in p e" for l e
    using that unfolding readEdgeAreas_def readPointerResolution_def readScrollResolution_def readCustomAccel_def
    by ((intro areas_into)?; simp)+
  show "areas_in p (readButtons l d)" "areas_in p (readEdgeAreas l d)" "areas_in p (readPointerResolution l d)"
    "areas_in p (readScrollResolution l d)" "areas_in p (readCustomAccel l d)" "areas_in p (readFingersPress l d)"
    "areas_in p (readDragging l d)" "areas_in p (readKeyboard l d)" "areas_in p (readMouse l d)"
    "areas_in p (readTwoFingerScroll l d)" "areas_in p (readPointing l d)" "areas_in p (readOthers l d)"
    using assms *
    unfolding readButtons_def readFingersPress_def readDragging_def readKeyboard_def readMouse_def readTwoFingerScroll_def
      readPointing_def readOthers_def
    by ((intro areas_into)?; simp add: plane_def)+
qed

text \<open>The steps that set areas.\<close>

lemma areas_in_iff:
  "areas_in (xl, xh, yl, yh) d \<longleftrightarrow> (let g = gestures d; e = edges g; s = scrollF g; c = cornerTap g; w = xh - xl; h = yh - yl
     in (xmin (tp d) = xl \<and> xmax (tp d) = xh \<and> ymin (tp d) = yl \<and> ymax (tp d) = yh) \<and>
        edgeHArea e \<le> w \<and> edgeHDistance e \<le> w \<and> nonEdgeHArea e \<le> w \<and> edgeVAdaptArea s \<le> w \<and> scrollEdgeVArea s \<le> w \<and>
        edgeVArea e \<le> h \<and> edgeVDistance e \<le> h \<and> nonEdgeVArea e \<le> h \<and> edgeHAdaptArea s \<le> h \<and> scrollEdgeHArea s \<le> h \<and>
        slingTriggerArea s \<le> h \<and> tapAreaLength c \<le> xh \<and> tapAreaHeight c \<le> yh)"
  by (auto simp: areas_in_def areas_ok_def plane_def Let_def)

lemma areas_set_steps:
  assumes "areas_in (xl, xh, yl, yh) d"
  shows "(\<And>s. edgeVAdaptArea (k s) \<le> xh - xl \<and> scrollEdgeVArea (k s) \<le> xh - xl \<and> edgeHAdaptArea (k s) \<le> yh - yl \<and>
      scrollEdgeHArea (k s) \<le> yh - yl \<and> slingTriggerArea (k s) = slingTriggerArea s) \<Longrightarrow> areas_in (xl, xh, yl, yh) (onScrollF k d)"
    "(\<And>s. slingTriggerArea (m s) \<le> yh - yl \<and> (edgeVAdaptArea (m s), scrollEdgeVArea (m s), edgeHAdaptArea (m s), scrollEdgeHArea (m s)) =
      (edgeVAdaptArea s, scrollEdgeVArea s, edgeHAdaptArea s, scrollEdgeHArea s)) \<Longrightarrow> areas_in (xl, xh, yl, yh) (onScrollF m d)"
    "(\<And>e. edgeHArea (n e) \<le> xh - xl \<and> edgeHDistance (n e) \<le> xh - xl \<and> nonEdgeHArea (n e) \<le> xh - xl \<and>
      edgeVArea (n e) \<le> yh - yl \<and> edgeVDistance (n e) \<le> yh - yl \<and> nonEdgeVArea (n e) \<le> yh - yl) \<Longrightarrow>
      areas_in (xl, xh, yl, yh) (onEdges n d)"
    "(\<And>c. tapAreaLength (r c) \<le> xh \<and> tapAreaHeight (r c) \<le> yh) \<Longrightarrow> areas_in (xl, xh, yl, yh) (onCorner r d)"
    "xmin (tp d) = xl" "xmax (tp d) = xh" "ymin (tp d) = yl" "ymax (tp d) = yh"
  using assms
  by (simp_all add: areas_in_iff onScrollF_def onEdges_def onCorner_def Let_def)

lemma corner_range: "upTo100 0 high p \<le> high"
  using percent_range [of 0 high p] by simp

lemma areas_set [simp]:
  assumes "areas_in (xl, xh, yl, yh) d" "xl \<le> xh" "yl \<le> yh"
  shows "areas_in (xl, xh, yl, yh) (readEdgeScroll l d)" "areas_in (xl, xh, yl, yh) (readSwiping l d)"
    "areas_in (xl, xh, yl, yh) (readTapping l d)"
proof -
  note p = areas_set_steps(5-8) [OF assms(1)] percent_range fifth_range corner_range
  show "areas_in (xl, xh, yl, yh) (readEdgeScroll l d)"
    unfolding readEdgeScroll_def Let_def
    by (rule areas_steps(13), rule withDict_into [where P = "areas_in (xl, xh, yl, yh)"], rule areas_set_steps(1))
      (simp_all add: p assms)
  show "areas_in (xl, xh, yl, yh) (readSwiping l d)" "areas_in (xl, xh, yl, yh) (readTapping l d)"
    using assms unfolding readSwiping_def readTapping_def Let_def
    by (intro withDict_into [where P = "areas_in (xl, xh, yl, yh)"] areas_set_steps(3,4) areas_steps; simp add: p)+
qed

lemma areas_scrolling [simp]:
  assumes "areas_in (xl, xh, yl, yh) d" "xl \<le> xh" "yl \<le> yh"
  shows "areas_in (xl, xh, yl, yh) (readScrolling l d)"
proof -
  have s: "areas_in (xl, xh, yl, yh) (onScrollF (\<lambda>s. s\<lparr>stopSamples := a, idleFingMaxDelta := b, idleFingDetectTimeout := c,
      slingStartTimeout := t, slingTriggerArea := upTo100 (ymin (tp e)) (ymax (tp e)) w, noHSInertia := h\<rparr>) e)"
    if "areas_in (xl, xh, yl, yh) e" for a b c t w h e
    using that assms(3) areas_set_steps(7,8) [OF that] by (simp add: areas_set_steps(2) percent_range)
  show ?thesis
    using assms unfolding readScrolling_def
    by ((intro let_into [where P = "areas_in (xl, xh, yl, yh)" and Q = "areas_in (xl, xh, yl, yh)"]
          withDict_into [where P = "areas_in (xl, xh, yl, yh)"] s); simp add: Let_def)
qed

text \<open>
  C17: The areas the configuration derives from the percentages it checks (those of areas_ok) stay on the
  touchpad, whatever the property list holds: for these areas no percentage above 100 gets through, and no
  product overflows. The button area and the disabled edges are not among them: their percentages are not
  checked in the source.
\<close>

theorem configured_areas_fit:
  assumes "areas_ok d" "xmin (tp d) \<le> xmax (tp d)" "ymin (tp d) \<le> ymax (tp d)"
  shows "areas_ok (ReadSTDPlistConfig d)"
proof -
  obtain xl xh yl yh where p: "plane (tp d) = (xl, xh, yl, yh)" by (cases "plane (tp d)") auto
  then have r: "xl \<le> xh" "yl \<le> yh" using assms(2,3) by (simp_all add: plane_def)
  have "areas_in (xl, xh, yl, yh) d" using assms(1) p by (simp add: areas_in_def)
  then have "areas_in (xl, xh, yl, yh) (ReadSTDPlistConfig d)"
    unfolding ReadSTDPlistConfig_def
    by (intro areas_into) (simp_all add: r)
  then show ?thesis by (simp add: areas_in_def)
qed

text \<open>A touchpad of which the hardware has told its extent, and a property list that asks for areas.\<close>

definition areaPlist :: dictionary where
  "areaPlist = [(''Swiping'', PDict [(''EdgeSwipeSenseHArea'', PNumber 10), (''EdgeSwipeSenseVArea'', PNumber 101)]),
     (''Scrolling'', PDict [(''EdgeScroll'', PDict [(''EdgeVScrollArea'', PNumber 100)])])]"

definition widePad :: configured_driver where
  "widePad = setProperty ''Preferences'' (PDict areaPlist)
     (onPad (\<lambda>t. t\<lparr>xmin := 1000, xmax := 5000, ymin := 1000, ymax := 4000\<rparr>) (configuredPad STD_SYNAPTICS STD_SYNAPTICS_HW))"

theorem configured_areas_fit_witness:
  "areas_ok (ReadSTDPlistConfig widePad) \<and> scrollEdgeVArea (scrollF (gestures (ReadSTDPlistConfig widePad))) = 4000"
proof
  have "areas_ok widePad" "xmin (tp widePad) \<le> xmax (tp widePad)" "ymin (tp widePad) \<le> ymax (tp widePad)"
    by code_simp+
  then show "areas_ok (ReadSTDPlistConfig widePad)" by (rule configured_areas_fit)
  show "scrollEdgeVArea (scrollF (gestures (ReadSTDPlistConfig widePad))) = 4000" by code_simp
qed

end
