(* ===== verification/Touchpad_Device.thy ===== *)
theory Touchpad_Device
  imports Touchpad_Config Touchpad_Detect PS2_Clients
begin

text \<open>
  The touchpad driver on its nub (ApplePS2MouseDevice): the version of the system, probe, start, stop, free and
  power control. The record life holds what these functions do to IOKit objects: the pointers the driver keeps
  and its references to the nub and to the work loop.
\<close>

section \<open>The version of the system\<close>

text \<open>A store to the buffer of eight characters; the flag says that one left it.\<close>

definition writeBuffer :: "nat \<Rightarrow> char \<Rightarrow> string \<times> bool \<Rightarrow> string \<times> bool" where
  "writeBuffer i c b = ((fst b)[i := c], snd b \<or> length (fst b) \<le> i)"

text \<open>
  The loop over the build version: it copies the fourth word. The end of the string is the end of the list.
\<close>

fun scanBuild :: "string \<Rightarrow> nat \<Rightarrow> nat \<Rightarrow> string \<times> bool \<Rightarrow> string \<times> bool" where
  "scanBuild [] index strCount b = b"
| "scanBuild (c # cs) index strCount b =
     (if c = CHR '' '' \<or> c = CHR '':'' then
        (let b = (if c = CHR '':'' then writeBuffer index (CHR 0x00) b else b)
         in if strCount + 1 = 4 then b else scanBuild cs 0 (strCount + 1) b)
      else if strCount = 3 then scanBuild cs (index + 1) strCount (writeBuffer index c b)
      else scanBuild cs index strCount b)"

definition isDigit :: "char \<Rightarrow> bool" where
  "isDigit c \<longleftrightarrow> of_char c \<in> {48 .. 57 :: nat}"

definition digitValue :: "char \<Rightarrow> int" where
  "digitValue c = of_char c - 48"

definition decimalValue :: "string \<Rightarrow> int" where
  "decimalValue ds = foldl (\<lambda>n c. 10 * n + digitValue c) 0 ds"

definition isSpace :: "char \<Rightarrow> bool" where
  "isSpace c \<longleftrightarrow> of_char c = (32 :: nat) \<or> of_char c \<in> {9 .. 13 :: nat}"

text \<open>The library function strtol with base 10, on a list; the second result is what it did not read.\<close>

definition strtol10 :: "string \<Rightarrow> int \<times> string" where
  "strtol10 s =
     (let s = dropWhile isSpace s;
          (minus, s) = (case s of c # cs \<Rightarrow> if c = CHR ''-'' then (True, cs) else if c = CHR ''+'' then (False, cs) else (False, s)
                        | [] \<Rightarrow> (False, s));
          n = decimalValue (takeWhile isDigit s)
      in (if minus then - n else n, dropWhile isDigit s))"

text \<open>
  The version is stored even when the copy left the buffer; reading on behind the buffer is an access outside too.
\<close>

definition detectOSXVersion :: "string option \<Rightarrow> 'x gesture_driver \<Rightarrow> 'x gesture_driver" where
  "detectOSXVersion build d =
     (case build of
        None \<Rightarrow> d
      | Some cs \<Rightarrow>
          (let (b, outside) = scanBuild cs 0 0 (replicate 8 (CHR 0x00), False);
               (n, rest) = strtol10 b;
               v = of_int n :: u8
           in onTouch (\<lambda>g. g\<lparr>osxVersion := if v > 4 then v - 4 else v, oob := oob g \<or> outside \<or> rest = []\<rparr>) d))"

section \<open>The nub and the objects of IOKit\<close>

record 's mousedev = "'s ps2dev" +
  mdev_installInterruptAction :: "'s \<Rightarrow> 's"
  mdev_installPowerControlAction :: "'s \<Rightarrow> 's"
  mdev_installPS2NotificationAction :: "'s \<Rightarrow> 's"
  mdev_uninstallInterruptAction :: "'s \<Rightarrow> 's"
  mdev_uninstallPowerControlAction :: "'s \<Rightarrow> 's"
  mdev_unistallPS2NotificationAction :: "'s \<Rightarrow> 's"
  mdev_dispatchPS2Notification :: "u32 \<Rightarrow> 's \<Rightarrow> 's"

text \<open>ApplePS2MouseDevice.cpp hands everything to the controller; driver object and methods are numbers.\<close>

definition touchpadDevice :: "nat \<Rightarrow> ctl mousedev" where
  "touchpadDevice this = ps2dev.extend mouseDevice
     \<lparr>mdev_installInterruptAction = Mouse_installInterruptAction this 1,
      mdev_installPowerControlAction = Mouse_installPowerControlAction this 2,
      mdev_installPS2NotificationAction = Mouse_installPS2NotificationAction this 3,
      mdev_uninstallInterruptAction = Mouse_uninstallInterruptAction,
      mdev_uninstallPowerControlAction = Mouse_uninstallPowerControlAction,
      mdev_unistallPS2NotificationAction = Mouse_unistallPS2NotificationAction,
      mdev_dispatchPS2Notification = Mouse_dispatchPS2Notification\<rparr>"

abbreviation nub :: "'s mousedev \<Rightarrow> 's ps2dev" where
  "nub D \<equiv> ps2dev.truncate D"

text \<open>
  The pointers _device and _stdWorkLoop (set or null), how many references the driver took and gave back, the timers
  that exist, the flags of the installed handlers, and whether a method was called through a null pointer.
\<close>

record life =
  hasDevice :: bool
  nubHolds :: int
  hasWorkLoop :: bool
  workLoopHolds :: int
  timers :: "timer list"
  interruptHandlerInstalled :: bool
  powerControlHandlerInstalled :: bool
  keyboardNotificationHandlerInstalled :: bool
  nullCall :: bool

definition life_init :: life where
  "life_init = \<lparr>hasDevice = False, nubHolds = 0, hasWorkLoop = False, workLoopHolds = 0, timers = [],
     interruptHandlerInstalled = False, powerControlHandlerInstalled = False,
     keyboardNotificationHandlerInstalled = False, nullCall = False\<rparr>"

text \<open>What IOKit answers: the superclass, the work loop, the timers, the registry.\<close>

record iokit =
  superAccepts :: bool
  focaltechName :: bool
  offersWorkLoop :: bool
  createsTimer :: "timer \<Rightarrow> bool"
  IOKitBuildVersion :: "string option"
  hasATKD :: bool

section \<open>Probe\<close>

definition detectTouchpadVendor :: "iokit \<Rightarrow> touchpad \<Rightarrow> touchpad" where
  "detectTouchpadVendor E t = (if focaltechName E then t\<lparr>touchpadVendor := STD_FOCAL_TECH\<rparr> else t)"

definition probe :: "'s mousedev \<Rightarrow> iokit \<Rightarrow> life \<Rightarrow> touchpad \<Rightarrow> 's \<Rightarrow> (bool \<times> life \<times> touchpad \<times> 's) option" where
  "probe D E l t s =
     (if \<not> superAccepts E then Some (False, l, t, s)
      else do {
        (ret, t, s) \<leftarrow> Detect_touchpad (nub D) (detectTouchpadVendor E t) s;
        Some (ret = 0, l\<lparr>hasDevice := True\<rparr>, t, s)
      })"

section \<open>Start\<close>

text \<open>The property Debug Level is read without a check.\<close>

datatype start_result = NullDebugLevel | Refused | Started

definition describe :: "configured_driver \<Rightarrow> configured_driver" where
  "describe d =
     setProperty ''VersionString'' (PString ''4.7'')
       (setProperty ''VersionNumber'' (PNumber 4) (setProperty ''Product'' (PString ''PS/2 Smart-Pad'') d))"

definition wantedTimers :: "configured_driver \<Rightarrow> timer list" where
  "wantedTimers d =
     [PointerTimer, ScrollTimer, ButtonDragTimer, FeatureTimer] @
     (if hasAsusKBackLight (prefs d) \<and> hasKBLightAutoOff (prefs d) then [KBackLightTimer] else [])"

definition announcements :: "configured_driver \<Rightarrow> u32 list" where
  "announcements d =
     (if hasAsusKBackLight (prefs d) then [kPS2C_EnableAsusKBacklight] else []) @
     (if has16LvlKBLight (prefs d) then [kPS2C_EnableAsusKBacklight16Levels] else []) @
     [kPS2C_InitKeyboard, kPS2C_OSXVersionNotify, ucast (osxVersion (gestures d))]"

text \<open>What start does once the hardware is set up and configured.\<close>

definition goLive :: "'s mousedev \<Rightarrow> iokit \<Rightarrow> life \<Rightarrow> configured_driver \<Rightarrow> 's \<Rightarrow>
    (start_result \<times> life \<times> configured_driver \<times> 's) option" where
  "goLive D E l d s =
     (let d = describe d; l = l\<lparr>hasWorkLoop := offersWorkLoop E\<rparr>
      in if \<not> offersWorkLoop E then Some (Refused, l\<lparr>nubHolds := nubHolds l - 1\<rparr>, d, s)
         else
           (let l = l\<lparr>timers := filter (createsTimer E) (wantedTimers d), interruptHandlerInstalled := True,
                  powerControlHandlerInstalled := True, keyboardNotificationHandlerInstalled := True\<rparr>;
                s = mdev_installPS2NotificationAction D (mdev_installPowerControlAction D (mdev_installInterruptAction D s));
                d = onGate (\<lambda>k. k\<lparr>isAsusNotebook := hasATKD E\<rparr>) (detectOSXVersion (IOKitBuildVersion E) d);
                s = fold (mdev_dispatchPS2Notification D) (announcements d) s
            in do {
              s \<leftarrow> Enable_touchpad (nub D) True s;
              Some (Started, l, d, s)
            }))"

definition startDriver :: "'s mousedev \<Rightarrow> iokit \<Rightarrow> life \<Rightarrow> configured_driver \<Rightarrow> 's \<Rightarrow>
    (start_result \<times> life \<times> configured_driver \<times> 's) option" where
  "startDriver D E l d s =
     (if asNumber (getProperty d ''Debug Level'') = None then Some (NullDebugLevel, l, d, s)
      else if \<not> superAccepts E then Some (Refused, l, d, s)
      else do {
        let l = l\<lparr>hasDevice := True, nubHolds := nubHolds l + 1\<rparr>;
        let vendor = touchpadVendor (tp d);
        (ok, t, s) \<leftarrow> startTouchpad (nub D) (tp d) s;
        let d = onPad (\<lambda>_. t) d;
        if \<not> ok then Some (Refused, l, d, s)
        else do {
          let d = (if vendor \<in> {STD_FOCAL_TECH, STD_ELAN_TECH, STD_SYNAPTICS} then d
                   else onPrefs (\<lambda>p. p\<lparr>pointerResolution := 200\<rparr>) d);
          (ok, d, s) \<leftarrow> configureTouchpad (nub D) d s;
          if \<not> ok then Some (Refused, l, d, s) else goLive D E l d s
        }
      })"

section \<open>Stop and free\<close>

text \<open>An uninstallation guarded by its flag.\<close>

definition ifInstalled :: "bool \<Rightarrow> ('s \<Rightarrow> 's) \<Rightarrow> 's \<Rightarrow> 's" where
  "ifInstalled yes f s = (if yes then f s else s)"

definition stopDriver :: "'s mousedev \<Rightarrow> life \<Rightarrow> touchpad \<Rightarrow> 's \<Rightarrow> (life \<times> 's) option" where
  "stopDriver D l t s = do {
     s \<leftarrow> (if touchpadVendor t = STD_SYNAPTICS then Synaptics_reset (nub D) s else Some s);
     let l = (if hasWorkLoop l then l\<lparr>hasWorkLoop := False, workLoopHolds := workLoopHolds l - 1\<rparr> else l);
     s \<leftarrow> Enable_touchpad (nub D) False s;
     s \<leftarrow> setCommandByte (nub D) kCB_DisableMouseClock kCB_EnableMouseIRQ s;
     let s = ifInstalled (interruptHandlerInstalled l) (mdev_uninstallInterruptAction D) s;
     let s = ifInstalled (powerControlHandlerInstalled l) (mdev_uninstallPowerControlAction D) s;
     let s = ifInstalled (keyboardNotificationHandlerInstalled l) (mdev_unistallPS2NotificationAction D) s;
     Some (l\<lparr>interruptHandlerInstalled := False, powerControlHandlerInstalled := False,
       keyboardNotificationHandlerInstalled := False\<rparr>, s)
   }"

text \<open>Each timer is taken off the work loop, whose pointer is not tested.\<close>

definition freeTimer :: "timer \<Rightarrow> life \<times> 'x gesture_driver \<Rightarrow> life \<times> 'x gesture_driver" where
  "freeTimer t ld =
     (let (l, d) = ld
      in if t \<in> set (timers l) then (l\<lparr>nullCall := nullCall l \<or> \<not> hasWorkLoop l, timers := removeAll t (timers l)\<rparr>, cancelTimeout t d)
         else (l, d))"

definition freeDriver :: "life \<Rightarrow> 'x gesture_driver \<Rightarrow> life \<times> 'x gesture_driver" where
  "freeDriver l d =
     (let l = (if hasDevice l then l\<lparr>hasDevice := False, nubHolds := nubHolds l - 1\<rparr> else l)
      in fold freeTimer [PointerTimer, ScrollTimer, ButtonDragTimer, FeatureTimer, KBackLightTimer] (l, d))"

section \<open>Power control\<close>

text \<open>Waking up clears what keeps packets from being processed.\<close>

definition powerControl :: "'s ps2dev \<Rightarrow> u32 \<Rightarrow> 'x gesture_driver \<Rightarrow> 's \<Rightarrow> ('x gesture_driver \<times> 's) option" where
  "powerControl D whatToDo d s =
     (let d = (if whatToDo = kPS2C_EnableDevice
               then onTouch (\<lambda>g. g\<lparr>showPressWidth := False\<rparr>)
                 (onGate (\<lambda>k. k\<lparr>accidentalInput := False, disableTouchpad := False\<rparr>) d)
               else d)
      in do {
        (t, s) \<leftarrow> setDevicePowerState D whatToDo (tp d) s;
        Some (onPad (\<lambda>_. t) d, s)
      })"

end
