(* ===== verification/Touchpad_DeviceProps.thy ===== *)
theory Touchpad_DeviceProps
  imports Touchpad_Device PS2_System PS2_InterfaceProps
begin

text \<open>
  Properties of the life of the touchpad driver: the version of the system is read from the build version, stop
  undoes what start did to the controller, and what goes wrong when the driver is freed.
\<close>

section \<open>The version of the system\<close>

lemma scanBuild_skip:
  assumes "set w \<inter> {CHR '' '', CHR '':''} = {}" "k \<noteq> 3"
  shows "scanBuild (w @ cs) i k b = scanBuild cs i k b"
  using assms by (induction w) auto

lemma writeBuffer_fits:
  "i < length b \<Longrightarrow> writeBuffer i c (b, f) = (take i b @ c # drop (i + 1) b, f)"
  by (simp add: writeBuffer_def upd_conv_take_nth_drop)

lemma scanBuild_copy:
  assumes "set w \<inter> {CHR '' '', CHR '':''} = {}" "i + length w \<le> length b"
  shows "scanBuild (w @ cs) i 3 (b, f) = scanBuild cs (i + length w) 3 (take i b @ w @ drop (i + length w) b, f)"
  using assms
proof (induction w arbitrary: i b)
  case (Cons c w)
  let ?b = "take i b @ c # drop (i + 1) b"
  have "scanBuild ((c # w) @ cs) i 3 (b, f) = scanBuild (w @ cs) (i + 1) 3 (?b, f)"
    using Cons.prems by (auto simp: writeBuffer_fits)
  also have "\<dots> = scanBuild cs (i + 1 + length w) 3 (take (i + 1) ?b @ w @ drop (i + 1 + length w) ?b, f)"
    by (rule Cons.IH) (use Cons.prems in auto)
  also have "take (i + 1) ?b = take i b @ [c]" using Cons.prems by simp
  also have "drop (i + 1 + length w) ?b = drop (i + length (c # w)) b"
    using Cons.prems by (simp add: drop_Cons' add.commute)
  finally show ?case by simp
qed simp

lemma scanBuild_flag:
  "snd b \<Longrightarrow> snd (scanBuild cs i k b)"
  by (induction cs i k b rule: scanBuild.induct) (auto simp: writeBuffer_def Let_def)

lemma scanBuild_length:
  "length (fst (scanBuild cs i k b)) = length (fst b)"
  by (induction cs i k b rule: scanBuild.induct) (auto simp: writeBuffer_def Let_def)

text \<open>A word that ends behind the buffer, with the zero that is stored after it.\<close>

lemma scanBuild_overrun:
  assumes "set w \<inter> {CHR '' '', CHR '':''} = {}" "length (fst b) \<le> i + length w"
  shows "snd (scanBuild (w @ CHR '':'' # cs) i 3 b)"
  using assms
proof (induction w arbitrary: i b)
  case (Cons c w)
  have "scanBuild ((c # w) @ CHR '':'' # cs) i 3 b = scanBuild (w @ CHR '':'' # cs) (i + 1) 3 (writeBuffer i c b)"
    using Cons.prems by auto
  then show ?case using Cons.IH [of "writeBuffer i c b" "i + 1"] Cons.prems by (simp add: writeBuffer_def)
qed (simp add: writeBuffer_def Let_def)

lemma digits_not_space: "isDigit c \<Longrightarrow> \<not> isSpace c \<and> c \<noteq> CHR ''-'' \<and> c \<noteq> CHR ''+''"
  by (auto simp: isDigit_def isSpace_def)

lemma strtol10_digits:
  assumes "ds \<noteq> []" "list_all isDigit ds" "r \<noteq> [] \<Longrightarrow> \<not> isDigit (hd r)"
  shows "strtol10 (ds @ r) = (decimalValue ds, r)"
proof -
  obtain c cs where ds: "ds = c # cs" using assms(1) by (cases ds) simp_all
  have "takeWhile isDigit (ds @ r) = ds" "dropWhile isDigit (ds @ r) = r"
    using assms(2,3) by (cases r; simp add: list_all_iff takeWhile_append2 dropWhile_append2)+
  moreover have "dropWhile isSpace (ds @ r) = ds @ r" "c \<noteq> CHR ''-''" "c \<noteq> CHR ''+''"
    using assms(2) digits_not_space by (auto simp: ds)
  ultimately show ?thesis using ds by (simp add: strtol10_def Let_def)
qed

text \<open>
  The version of the system is read from the build version: the digits at the start of its fourth word, less 4
  if there are more than 4. The buffer is left exactly when the word has more than seven characters.
\<close>

theorem system_version_is_read:
  fixes d :: "'x gesture_driver" and rest :: string
  assumes words: "set a \<inter> {CHR '' '', CHR '':''} = {}" "set b \<inter> {CHR '' '', CHR '':''} = {}" "set c \<inter> {CHR '' '', CHR '':''} = {}"
    and version: "set (ds @ r) \<inter> {CHR '' '', CHR '':''} = {}" "ds \<noteq> []" "list_all isDigit ds" "r \<noteq> [] \<Longrightarrow> \<not> isDigit (hd r)"
  defines "e \<equiv> detectOSXVersion (Some (a @ CHR '' '' # b @ CHR '' '' # c @ CHR '' '' # (ds @ r) @ CHR '':'' # rest)) d"
  shows "(oob (gestures e) \<longleftrightarrow> oob (gestures d) \<or> length (ds @ r) > 7) \<and>
    (length (ds @ r) \<le> 7 \<longrightarrow>
       osxVersion (gestures e) = (let v = of_int (decimalValue ds) in if v > 4 then v - 4 else v))"
proof -
  let ?w = "ds @ r" and ?zero = "replicate 8 (CHR 0x00)"
  let ?line = "a @ CHR '' '' # b @ CHR '' '' # c @ CHR '' '' # ?w @ CHR '':'' # rest"
  have s: "scanBuild ?line 0 0 (?zero, False) = scanBuild (?w @ CHR '':'' # rest) 0 3 (?zero, False)"
    using words by (simp add: scanBuild_skip numeral_3_eq_3 Let_def)
  show ?thesis
  proof (cases "length ?w \<le> 7")
    case True
    let ?r = "r @ CHR 0x00 # drop (length ?w + 1) ?zero"
    have "scanBuild ?line 0 0 (?zero, False) =
        scanBuild (CHR '':'' # rest) (length ?w) 3 (?w @ drop (length ?w) ?zero, False)"
      using scanBuild_copy [OF version(1), of 0 ?zero "CHR '':'' # rest" False] True unfolding s by simp
    also have "\<dots> = (ds @ ?r, False)"
      using True by (simp add: writeBuffer_fits)
    finally have scan: "scanBuild ?line 0 0 (?zero, False) = (ds @ ?r, False)" .
    have r: "?r \<noteq> []" by simp
    have "\<not> isDigit (hd ?r)" using version(4) by (cases r) (simp_all add: isDigit_def)
    then have "strtol10 (ds @ ?r) = (decimalValue ds, ?r)" using version(2,3) by (intro strtol10_digits) simp_all
    then show ?thesis using True
      by (simp add: e_def detectOSXVersion_def scan [unfolded append_assoc] onTouch_def Let_def)
  next
    case False
    then have "snd (scanBuild ?line 0 0 (?zero, False))"
      unfolding s by (intro scanBuild_overrun version(1)) simp
    then show ?thesis using False by (auto simp: e_def detectOSXVersion_def onTouch_def Let_def split: prod.split)
  qed
qed

text \<open>A version of the year 2016.\<close>

theorem system_version_is_read_witness:
  fixes d :: "'x gesture_driver"
  defines "e \<equiv> detectOSXVersion (Some ''Darwin Kernel Version 16.1.0: x'') d"
  shows "osxVersion (gestures e) = 12 \<and> oob (gestures e) = oob (gestures d)"
proof -
  have "decimalValue ''16'' = 16" by code_simp
  then show ?thesis
    using system_version_is_read [of "''Darwin''" "''Kernel''" "''Version''" "''16''" "''.1.0''" "'' x''" d]
    by (simp add: e_def isDigit_def)
qed

section \<open>Stop undoes start\<close>

text \<open>
  The operations of the set-up keep the contract of the nub with one more thing to keep: the registrations of the
  clients.
\<close>

definition settled :: "ctl \<Rightarrow> ctl \<Rightarrow> bool" where
  "settled s0 s \<longleftrightarrow> quiet s \<and> slots_same s0 s"

lemma slots_same_keeps: "keeps s s' \<Longrightarrow> slots_same s s'"
  by (simp add: keeps_def)

interpretation settled: request_device mouseDevice "\<lambda>s. set (liveRequests s)" ub "settled s0" wire for s0
proof (unfold_locales, goal_cases)
  case (1 s r s1)
  then have "slots_same s s1"
    by (auto simp: mouseDevice_def allocateRequest_def intro!: slots_same_keeps)
  with 1 show ?case using mouse.alloc [of s r s1] by (auto simp: settled_def intro: slots_same_trans)
next
  case (2 s r)
  have "slots_same s (dev_freeRequest mouseDevice r s)" by (simp add: mouseDevice_def slots_same_keeps)
  with 2 show ?case using mouse.free [of s r] by (auto simp: settled_def intro: slots_same_trans)
next
  case (3 r s r' s1)
  then have "slots_same s s1" by (auto simp: mouseDevice_def dest!: keeps_submitAndBlock slots_same_keeps)
  with 3 show ?case using mouse.submit [of r s r' s1] by (auto simp: settled_def intro: slots_same_trans)
qed

lemma nub_mouse [simp]: "nub (touchpadDevice this) = mouseDevice"
  by (simp add: touchpadDevice_def ps2dev.defs mouseDevice_def)

text \<open>The three handlers of the driver are registered, and nothing else differs from \<open>s\<close>.\<close>

definition mouse_free :: "ctl \<Rightarrow> bool" where
  "mouse_free s \<longleftrightarrow> interruptSlot kDT_Mouse s = emptySlot \<and> powerSlot kDT_Mouse s = emptySlot \<and>
     notificationSlot kDT_Mouse s = emptySlot"

definition registered :: "nat \<Rightarrow> ctl \<Rightarrow> ctl \<Rightarrow> bool" where
  "registered this s s' \<longleftrightarrow> refs s' = (refs s)(this := refs s this + 3) \<and>
     (\<forall>d. interruptSlot d s' = (if d = kDT_Mouse then \<lparr>target = this, action = 1, installed = True\<rparr> else interruptSlot d s) \<and>
       powerSlot d s' = (if d = kDT_Mouse then \<lparr>target = this, action = 2, installed = True\<rparr> else powerSlot d s) \<and>
       notificationSlot d s' = (if d = kDT_Mouse then \<lparr>target = this, action = 3, installed = True\<rparr> else notificationSlot d s))"

abbreviation install_all :: "nat \<Rightarrow> ctl \<Rightarrow> ctl" where
  "install_all this s \<equiv> mdev_installPS2NotificationAction (touchpadDevice this)
     (mdev_installPowerControlAction (touchpadDevice this) (mdev_installInterruptAction (touchpadDevice this) s))"

abbreviation uninstall_all :: "nat \<Rightarrow> ctl \<Rightarrow> ctl" where
  "uninstall_all this s \<equiv> mdev_unistallPS2NotificationAction (touchpadDevice this)
     (mdev_uninstallPowerControlAction (touchpadDevice this) (mdev_uninstallInterruptAction (touchpadDevice this) s))"

lemmas touchpadDevice_defs = touchpadDevice_def ps2dev.defs mouseDevice_def nub_defs

lemmas registry_laws =
  interrupts.install_free interrupts.install_free_refs interrupts.uninstall_busy interrupts.uninstall_busy_refs
  powers.install_free powers.install_free_refs powers.uninstall_busy powers.uninstall_busy_refs
  notifications.install_free notifications.install_free_refs notifications.uninstall_busy notifications.uninstall_busy_refs

lemma install_registers:
  assumes "mouse_free s"
  shows "registered this s (install_all this s)"
  using assms by (auto simp: mouse_free_def registered_def touchpadDevice_defs registry_laws emptySlot_def)

lemma registered_same: "registered this s s' \<Longrightarrow> slots_same s' s'' \<Longrightarrow> registered this s s''"
  by (simp add: registered_def slots_same_def)

lemma uninstall_restores:
  assumes "registered this s s'" "mouse_free s"
  shows "slots_same s (uninstall_all this s')"
  using assms by (auto simp: mouse_free_def registered_def touchpadDevice_defs registry_laws slots_same_def)

text \<open>Registrations and notifications leave the requests and the wire alone.\<close>

definition same_requests :: "ctl \<Rightarrow> ctl \<Rightarrow> bool" where
  "same_requests s s' \<longleftrightarrow> liveRequests s' = liveRequests s \<and> ub s' = ub s \<and> wire s' = wire s \<and> (quiet s \<longrightarrow> quiet s')"

lemma same_requests_refl: "same_requests s s"
  by (simp add: same_requests_def)

lemma same_requests_trans: "same_requests a b \<Longrightarrow> same_requests b c \<Longrightarrow> same_requests a c"
  by (simp add: same_requests_def)

lemma same_requests_registry:
  "same_requests s (mdev_installInterruptAction (touchpadDevice this) s)"
  "same_requests s (mdev_installPowerControlAction (touchpadDevice this) s)"
  "same_requests s (mdev_installPS2NotificationAction (touchpadDevice this) s)"
  "same_requests s (mdev_uninstallInterruptAction (touchpadDevice this) s)"
  "same_requests s (mdev_uninstallPowerControlAction (touchpadDevice this) s)"
  "same_requests s (mdev_unistallPS2NotificationAction (touchpadDevice this) s)"
  "same_requests s (mdev_dispatchPS2Notification (touchpadDevice this) w s)"
  by (simp_all add: same_requests_def touchpadDevice_defs interrupt_registry_defs power_registry_defs
      notification_registry_defs dispatchPS2Notification_def Let_def quiet_def wire_def wire_idle_def route_ok_def
      mouse_sent_append mouse_pending_append)

lemma same_requests_install: "same_requests s (install_all this s)"
  by (blast intro: same_requests_trans same_requests_registry)

lemma same_requests_uninstall: "same_requests s (uninstall_all this s)"
  by (blast intro: same_requests_trans same_requests_registry)

lemma same_requests_announce: "same_requests s (fold (mdev_dispatchPS2Notification (touchpadDevice this)) ws s)"
  by (induction ws arbitrary: s) (auto intro: same_requests_refl same_requests_trans same_requests_registry)

lemma slots_same_announce: "slots_same s (fold (mdev_dispatchPS2Notification (touchpadDevice this)) ws s)"
proof (induction ws arbitrary: s)
  case (Cons w ws)
  have "slots_same s (mdev_dispatchPS2Notification (touchpadDevice this) w s)"
    by (simp add: touchpadDevice_defs slots_same_deliveries)
  with Cons show ?case by (auto intro: slots_same_trans)
qed (simp add: slots_same_def)

lemma settled_refl: "quiet s \<Longrightarrow> settled s s"
  by (simp add: settled_def slots_same_def)

lemmas settled_chain = settled.start_keeps settled.initializeMouse_keeps settled.enable_keeps settled.setCommandByte_keeps
  settled.mode_cmd_keeps

lemma configure_keeps:
  "configureTouchpad mouseDevice d s = Some (ok, d', s') \<Longrightarrow> settled s0 s \<Longrightarrow> settled.dev_keeps s0 s s'"
  by (auto simp: configureTouchpad_def Let_def bind_eq_Some_conv split: if_splits
      dest: settled.initializeMouse_keeps [of _ _ _ _ _ _ s0])

text \<open>A successful start: the set-up, the registrations and announcements, and the enabling.\<close>

lemma started:
  assumes "startDriver (touchpadDevice this) E l d s = Some (Started, l', d', s')" "quiet s"
  obtains s1 ws where "settled s s1" "set (liveRequests s1) = set (liveRequests s)"
    "Enable_touchpad mouseDevice True (fold (mdev_dispatchPS2Notification (touchpadDevice this)) ws (install_all this s1)) = Some s'"
    "interruptHandlerInstalled l'" "powerControlHandlerInstalled l'" "keyboardNotificationHandlerInstalled l'"
    "hasWorkLoop l'" "hasDevice l'" "nubHolds l' = nubHolds l + 1" "workLoopHolds l' = workLoopHolds l"
    "\<And>t. createsTimer E t \<Longrightarrow> t \<noteq> KBackLightTimer \<Longrightarrow> t \<in> set (timers l')"
proof -
  from assms(1) obtain t s0 d0 d1 s1 where a: "startTouchpad mouseDevice (tp d) s = Some (True, t, s0)"
    "configureTouchpad mouseDevice d0 s0 = Some (True, d1, s1)"
    "goLive (touchpadDevice this) E (l\<lparr>hasDevice := True, nubHolds := nubHolds l + 1\<rparr>) d1 s1 = Some (Started, l', d', s')"
    by (auto simp: startDriver_def Let_def bind_eq_Some_conv split: if_splits)
  have k: "settled.dev_keeps s s s0" using settled.start_keeps [OF a(1)] settled_refl [OF assms(2)] by blast
  then have "settled.dev_keeps s s0 s1" using configure_keeps [OF a(2), of s] by (simp add: settled.dev_keeps_def)
  with k have s1: "settled s s1" "set (liveRequests s1) = set (liveRequests s)"
    by (simp_all add: settled.dev_keeps_def)
  have t: "t \<in> set (wantedTimers e)" if "t \<noteq> KBackLightTimer" for t e
    using that by (cases t) (simp_all add: wantedTimers_def)
  from a(3) show ?thesis
    by (auto simp: goLive_def Let_def bind_eq_Some_conv t split: if_splits intro!: that [OF s1])
qed

text \<open>Stop, from any state in which the handlers are still registered.\<close>

lemma stopped:
  assumes "stopDriver (touchpadDevice this) l t s = Some (l', s')" "settled s0 s"
    "interruptHandlerInstalled l" "powerControlHandlerInstalled l" "keyboardNotificationHandlerInstalled l"
  obtains s1 where "settled s0 s1" "set (liveRequests s1) = set (liveRequests s)" "s' = uninstall_all this s1"
proof -
  from assms obtain sa sb sc r where a: "sa = s \<or> Synaptics_mode_cmd mouseDevice 0 s = Some (r, sa)"
    "Enable_touchpad mouseDevice False sa = Some sb"
    "setCommandByte mouseDevice kCB_DisableMouseClock kCB_EnableMouseIRQ sb = Some sc" "s' = uninstall_all this sc"
    by (auto simp: stopDriver_def Synaptics_reset_def Let_def bind_eq_Some_conv ifInstalled_def split: if_splits)
  have "settled.dev_keeps s0 s sa" using a(1) assms(2) settled.mode_cmd_keeps [of _ _ _ _ s0] settled.dev_keeps_refl by blast
  then have sa: "settled s0 sa" "set (liveRequests sa) = set (liveRequests s)"
    by (simp_all add: settled.dev_keeps_def)
  have "settled.dev_keeps s0 sa sb" using settled.enable_keeps [OF a(2) sa(1)] .
  moreover from this have "settled.dev_keeps s0 sb sc"
    using settled.setCommandByte_keeps [OF a(3), of s0] by (simp add: settled.dev_keeps_def)
  ultimately show ?thesis using sa a(4) by (intro that) (simp_all add: settled.dev_keeps_def)
qed

lemma start_registers:
  assumes "startDriver (touchpadDevice this) E l d s = Some (Started, l', d', s')" "quiet s" "mouse_free s"
  obtains s1 where "settled s s1" "registered this s1 s'" "quiet s'" "set (liveRequests s') = set (liveRequests s)"
proof -
  obtain s1 ws where a: "settled s s1" "set (liveRequests s1) = set (liveRequests s)"
    "Enable_touchpad mouseDevice True (fold (mdev_dispatchPS2Notification (touchpadDevice this)) ws (install_all this s1)) = Some s'"
    using started [OF assms(1,2)] by metis
  let ?s2 = "fold (mdev_dispatchPS2Notification (touchpadDevice this)) ws (install_all this s1)"
  have b: "same_requests s1 ?s2" by (blast intro: same_requests_trans same_requests_install same_requests_announce)
  have "mouse_free s1" using a(1) assms(3) by (simp add: settled_def slots_same_def mouse_free_def)
  then have "registered this s1 ?s2" by (blast intro: registered_same install_registers slots_same_announce)
  moreover have "quiet ?s2" using b a(1) by (simp add: same_requests_def settled_def)
  from settled.enable_keeps [OF a(3) settled_refl [OF this]]
  have "slots_same ?s2 s'" "quiet s'" "set (liveRequests s') = set (liveRequests ?s2)"
    by (simp_all add: settled.dev_keeps_def settled_def)
  ultimately show ?thesis using a(1,2) b by (intro that) (auto simp: same_requests_def intro: registered_same)
qed

section \<open>Freeing\<close>

lemma freeTimer_keeps: "nullCall (fst ld) \<Longrightarrow> nullCall (fst (freeTimer t ld))"
  "nubHolds (fst (freeTimer t ld)) = nubHolds (fst ld)"
  by (cases ld; simp add: freeTimer_def)+

lemma stopDriver_life:
  "stopDriver D l t s = Some (l', s') \<Longrightarrow> \<not> hasWorkLoop l' \<and> timers l' = timers l \<and>
     workLoopHolds l' = workLoopHolds l - of_bool (hasWorkLoop l)"
  by (auto simp: stopDriver_def Let_def bind_eq_Some_conv split: if_splits)

text \<open>
  A driver that was stopped cannot be freed: stop has set the pointer to the work loop to null, through which
  free takes each timer that was created off the loop. Stop also gives back a reference to the work loop that
  start never took.
\<close>

theorem stopped_driver_cannot_be_freed:
  assumes "startDriver (touchpadDevice this) E l d s = Some (Started, l', d', s')" "quiet s"
    "createsTimer E PointerTimer" "stopDriver (touchpadDevice this) l' t x = Some (l'', x')"
  shows "nullCall (fst (freeDriver l'' e)) \<and> workLoopHolds l'' = workLoopHolds l - 1"
proof -
  have l: "hasWorkLoop l'" "PointerTimer \<in> set (timers l')" "workLoopHolds l' = workLoopHolds l"
    by (rule started [OF assms(1,2)], use assms(3) in simp)+
  define k where "k = (if hasDevice l'' then l''\<lparr>hasDevice := False, nubHolds := nubHolds l'' - 1\<rparr> else l'')"
  have "\<not> hasWorkLoop k" "PointerTimer \<in> set (timers k)" "workLoopHolds l'' = workLoopHolds l - 1"
    using l stopDriver_life [OF assms(4)] by (simp_all add: k_def)
  moreover have "fst (freeDriver l'' e) =
      fst (fold freeTimer [ScrollTimer, ButtonDragTimer, FeatureTimer, KBackLightTimer] (freeTimer PointerTimer (k, e)))"
    by (simp add: freeDriver_def k_def)
  ultimately show ?thesis
    by (simp add: freeTimer_def [of PointerTimer] freeTimer_keeps)
qed

text \<open>
  A start that finds no work loop gives its reference to the nub back but keeps the pointer, and the free that
  follows gives it back once more.
\<close>

theorem missing_work_loop_releases_twice:
  assumes "\<not> offersWorkLoop E" "goLive D E l d s = Some (r, l', d', s')" "hasDevice l"
  shows "r = Refused \<and> nubHolds l' = nubHolds l - 1 \<and> nubHolds (fst (freeDriver l' e)) = nubHolds l - 2"
  using assms by (auto simp: goLive_def freeDriver_def freeTimer_keeps Let_def)

section \<open>The property\<close>

text \<open>
  C19: Stop undoes start: after a successful start, whatever ran in between that left the controller between two
  requests with the registrations start made, stop gives the controller back the registrations and reference
  counts it had before start, so the touchpad driver holds no slot any more, and every request that start and
  stop allocated is off the heap, for any hardware and any answers of it.
\<close>

theorem stop_undoes_start:
  assumes "quiet s" "mouse_free s" "startDriver (touchpadDevice this) E l d s = Some (Started, l', d', s')"
    "settled s' x" "stopDriver (touchpadDevice this) l' t x = Some (l'', x')"
  shows "slots_same s x' \<and> quiet x' \<and> set (liveRequests s') = set (liveRequests s) \<and>
    set (liveRequests x') = set (liveRequests x)"
proof -
  obtain s1 where a: "settled s s1" "registered this s1 s'" "set (liveRequests s') = set (liveRequests s)"
    using start_registers [OF assms(3,1,2)] by metis
  have "interruptHandlerInstalled l'" "powerControlHandlerInstalled l'" "keyboardNotificationHandlerInstalled l'"
    using started [OF assms(3,1)] by metis+
  with stopped [OF assms(5,4)] obtain x1 where d: "settled s' x1" "set (liveRequests x1) = set (liveRequests x)"
    "x' = uninstall_all this x1" by metis
  have "mouse_free s1" using a(1) assms(2) by (simp add: settled_def slots_same_def mouse_free_def)
  moreover have "registered this s1 x1" using a(2) d(1) by (auto simp: settled_def intro: registered_same)
  ultimately have "slots_same s1 x'" using uninstall_restores d(3) by blast
  moreover have "same_requests x1 x'" using same_requests_uninstall d(3) by simp
  ultimately show ?thesis
    using a d by (auto simp: settled_def same_requests_def intro: slots_same_trans)
qed

text \<open>A mouse that answers everything, first and last.\<close>

definition plainIOKit :: iokit where
  "plainIOKit = \<lparr>superAccepts = True, focaltechName = False, offersWorkLoop = True, createsTimer = (\<lambda>t. True),
     IOKitBuildVersion = Some ''Darwin Kernel Version 16.1.0: x'', hasATKD = False\<rparr>"

definition set_bits_input :: "u8 \<Rightarrow> u8 list" where
  "set_bits_input b = 0 # reply_input b @ 0 # reply_input b @ [0, 0]"

definition mouse_life_input :: "u8 list" where
  "mouse_life_input = mouse_start_input @ mouse_start_input @ set_bits_input 0x61 @ ack_input @ ack_input @ set_bits_input 0x43"

definition newMouse :: configured_driver where
  "newMouse = setProperty ''Debug Level'' (PNumber 0) (configuredPad STD_MOUSE STD_MOUSE_HW)"

declare setCommandByteLoop.simps [code]

lemma touchpadDevice_ops:
  "mdev_installInterruptAction (touchpadDevice this) = Mouse_installInterruptAction this 1"
  "mdev_installPowerControlAction (touchpadDevice this) = Mouse_installPowerControlAction this 2"
  "mdev_installPS2NotificationAction (touchpadDevice this) = Mouse_installPS2NotificationAction this 3"
  "mdev_uninstallInterruptAction (touchpadDevice this) = Mouse_uninstallInterruptAction"
  "mdev_uninstallPowerControlAction (touchpadDevice this) = Mouse_uninstallPowerControlAction"
  "mdev_unistallPS2NotificationAction (touchpadDevice this) = Mouse_unistallPS2NotificationAction"
  "mdev_dispatchPS2Notification (touchpadDevice this) = Mouse_dispatchPS2Notification"
  by (simp_all add: touchpadDevice_def ps2dev.defs)

text \<open>The life of that driver in stages, each of which is evaluated on the result of the one before.\<close>

fun configureStage :: "bool \<times> touchpad \<times> ctl \<Rightarrow> (bool \<times> configured_driver \<times> ctl) option" where
  "configureStage (ok, t, s) = configureTouchpad mouseDevice
     (onPrefs (\<lambda>p. p\<lparr>pointerResolution := 200\<rparr>) (onPad (\<lambda>_. t) newMouse)) s"

fun liveStage :: "bool \<times> configured_driver \<times> ctl \<Rightarrow> (start_result \<times> life \<times> configured_driver \<times> ctl) option" where
  "liveStage (ok, d, s) = goLive (touchpadDevice 7) plainIOKit (life_init\<lparr>hasDevice := True, nubHolds := 1\<rparr>) d s"

fun stopStage :: "start_result \<times> life \<times> configured_driver \<times> ctl \<Rightarrow> (life \<times> ctl) option" where
  "stopStage (r, l, d, s) = stopDriver (touchpadDevice 7) l (tp d) s"

abbreviation firstStage :: "(bool \<times> touchpad \<times> ctl) option" where
  "firstStage \<equiv> startTouchpad mouseDevice (tp newMouse) (init mouse_life_input)"

lemma life_stages:
  "map_option fst firstStage = Some True"
  "map_option fst (configureStage (the firstStage)) = Some True"
  "map_option (\<lambda>(r, l, d, s). (r, refs s 7)) (liveStage (the (configureStage (the firstStage)))) = Some (Started, 3)"
  "map_option (\<lambda>(l, s). refs s 7) (stopStage (the (liveStage (the (configureStage (the firstStage)))))) = Some 0"
  by code_simp+

lemma mouse_life:
  obtains l d s l' s' where
    "startDriver (touchpadDevice 7) plainIOKit life_init newMouse (init mouse_life_input) = Some (Started, l, d, s)"
    "refs s 7 = 3" "stopDriver (touchpadDevice 7) l (tp d) s = Some (l', s')" "refs s' 7 = 0"
proof -
  obtain t s0 where 1: "firstStage = Some (True, t, s0)" using life_stages(1) by auto
  let ?d = "onPrefs (\<lambda>p. p\<lparr>pointerResolution := 200\<rparr>) (onPad (\<lambda>_. t) newMouse)"
  obtain d1 s1 where 2: "configureTouchpad mouseDevice ?d s0 = Some (True, d1, s1)"
    using life_stages(2) 1 by auto
  obtain l d s where 3: "goLive (touchpadDevice 7) plainIOKit (life_init\<lparr>hasDevice := True, nubHolds := 1\<rparr>) d1 s1 =
      Some (Started, l, d, s)" "refs s 7 = 3"
    using life_stages(3) 1 2 by auto
  obtain l' s' where 4: "stopDriver (touchpadDevice 7) l (tp d) s = Some (l', s')" "refs s' 7 = 0"
    using life_stages(4) 1 2 3 by auto
  have "asNumber (getProperty newMouse ''Debug Level'') \<noteq> None" "touchpadVendor (tp newMouse) = STD_MOUSE"
    by code_simp+
  then have "startDriver (touchpadDevice 7) plainIOKit life_init newMouse (init mouse_life_input) = Some (Started, l, d, s)"
    using 1 2 3 by (simp add: startDriver_def plainIOKit_def life_init_def Let_def)
  with 3 4 that show thesis by blast
qed

theorem stop_undoes_start_witness:
  "\<exists>l d s l' s'. startDriver (touchpadDevice 7) plainIOKit life_init newMouse (init mouse_life_input) =
      Some (Started, l, d, s) \<and> refs s 7 = 3 \<and>
    stopDriver (touchpadDevice 7) l (tp d) s = Some (l', s') \<and> refs s' 7 = 0 \<and> set (liveRequests s') = {}"
proof -
  obtain l d s l' s' where r:
    "startDriver (touchpadDevice 7) plainIOKit life_init newMouse (init mouse_life_input) = Some (Started, l, d, s)"
    "refs s 7 = 3" "stopDriver (touchpadDevice 7) l (tp d) s = Some (l', s')" by (rule mouse_life)
  have i: "quiet (init mouse_life_input)" "mouse_free (init mouse_life_input)"
    by (simp_all add: quiet_def init_def wire_idle_def route_ok_def mouse_free_def interruptSlot_def powerSlot_def
        notificationSlot_def emptySlot_def)
  have "quiet s" by (rule start_registers [OF r(1) i])
  then have "settled s s" by (rule settled_refl)
  note u = stop_undoes_start [OF i r(1) this r(3)]
  have "refs s' 7 = 0" using u by (simp add: slots_same_def init_def)
  moreover have "set (liveRequests s') = {}" using u by (simp add: init_def)
  ultimately show ?thesis using r by blast
qed

end
