(* ===== verification/Keyboard_State.thy ===== *)
theory Keyboard_State
  imports PS2_Protocol
begin

text \<open>
  The state of the keyboard driver (ApplePS2Keyboard/ApplePS2Keyboard.h), the translation tables of
  ApplePS2ToADBMap.h, and the operations on the key states, the LEDs and the modifier positions.
  Key codes are bytes: scan codes without their up bit, members of type UInt8 and table entries, which
  are all below 256. What the driver passes to IOKit, to its nub and to ACPI is a list of events.
\<close>

section \<open>Tables\<close>

abbreviation DEADKEY :: u8 where "DEADKEY \<equiv> 0xa2"

definition PS2ToADBMap :: "u8 list" where
  "PS2ToADBMap =
    [0xa2, 0x35, 0x12, 0x13, 0x14, 0x15, 0x17, 0x16, 0x1a, 0x1c, 0x19, 0x1d, 0x1b, 0x18, 0x33, 0x30,
     0x0c, 0x0d, 0x0e, 0x0f, 0x11, 0x10, 0x20, 0x22, 0x1f, 0x23, 0x21, 0x1e, 0x24, 0x3b, 0x00, 0x01,
     0x02, 0x03, 0x05, 0x04, 0x26, 0x28, 0x25, 0x29, 0x27, 0x32, 0x38, 0x2a, 0x06, 0x07, 0x08, 0x09,
     0x0b, 0x2d, 0x2e, 0x2b, 0x2f, 0x2c, 0x3c, 0x43, 0x3a, 0x31, 0x39, 0x7a, 0x78, 0x63, 0x76, 0x60,
     0x61, 0x62, 0x64, 0x65, 0x6d, 0x47, 0xa2, 0x59, 0x5b, 0x5c, 0x4e, 0x56, 0x57, 0x58, 0x45, 0x53,
     0x54, 0x55, 0x52, 0x41, 0x3f, 0xa2, 0x0a, 0x67, 0x6f, 0x51, 0xa2, 0x37, 0x5f, 0xa2, 0xa2, 0xa2,
     0xa2, 0xa2, 0xa2, 0xa2, 0x69, 0x6b, 0x71, 0x6a, 0x6c, 0x6e, 0x66, 0x68, 0xa2, 0xa2, 0xa2, 0xa2,
     0xa2, 0xa2, 0xa2, 0x5e, 0xa2, 0xa2, 0xa2, 0x5a, 0x5a, 0x5a, 0xa2, 0x5f, 0xa2, 0x5d, 0x5f, 0xa2]"

definition ExtendedPS2ToADBMap :: "u8 list" where
  "ExtendedPS2ToADBMap =
    [0xa2, 0x35, 0x50, 0xa2, 0xa2, 0x4f, 0x4d, 0xa2, 0x4d, 0x4f, 0xa2, 0xa2, 0xa2, 0xa2, 0xa2, 0xa2,
     0x46, 0xa2, 0x4f, 0xa2, 0xa2, 0xa2, 0xa2, 0x4d, 0xa2, 0x44, 0xa2, 0xa2, 0x4c, 0x3e, 0xa2, 0xa2,
     0x4a, 0xa2, 0x42, 0xa2, 0xa2, 0x72, 0xa2, 0xa2, 0xa2, 0x50, 0xa2, 0xa2, 0xa2, 0xa2, 0x49, 0xa2,
     0x48, 0x72, 0xa2, 0xa2, 0xa2, 0x4b, 0xa2, 0xa2, 0x3d, 0xa2, 0xa2, 0x50, 0xa2, 0xa2, 0xa2, 0x3f,
     0xa2, 0xa2, 0x70, 0xa2, 0xa2, 0xa1, 0x70, 0x73, 0x7e, 0x74, 0xa2, 0x7b, 0xa2, 0x7c, 0x72, 0x77,
     0x7d, 0x79, 0x72, 0x75, 0x3f, 0xa2, 0xa2, 0xa2, 0xa2, 0x4d, 0xa2, 0x37, 0x36, 0x3f, 0x7f, 0xa2,
     0xa2, 0xa2, 0xa2, 0xa2, 0xa2, 0xa2, 0xa2, 0xa2, 0xa2, 0xa2, 0xa2, 0xa2, 0xa2, 0xa2, 0x4d, 0x4f,
     0xa2, 0xa2, 0xa2, 0xa2, 0xa2, 0xa2, 0xa2, 0x4f, 0x4d, 0xa2, 0xa2, 0xa2, 0xa2, 0xa2, 0xa2, 0xa2]"

section \<open>Events and the environment\<close>

datatype kb_event =
    KeyEvent u8 bool
  | Notification u32
  | SubmitCommands "(PS2CommandEnum \<times> u8) list"
  | SetAlphaLock bool
  | SleepNow
  | EvaluateSLPN
  | EvaluateSKBL u8
  | SetProduct

text \<open>
  The answers of the platform: the k-th question is answered by the value at k. A clock, the modifier
  mapping pairs (source and destination) of the registry, the ACPI methods of the keyboard backlight
  (None when device or method is missing or fails; SKBL: the device, and whether it has the method), the sleep button,
  the number of levels of the Asus backlight panel, the property lists of the driver, and the release of the
  operating system.
\<close>

datatype modifier_key =
    NX_MODIFIERKEY_ALPHALOCK
  | NX_MODIFIERKEY_SHIFT
  | NX_MODIFIERKEY_CONTROL
  | NX_MODIFIERKEY_ALTERNATE
  | NX_MODIFIERKEY_COMMAND
  | OtherModifier nat

datatype preference = PrefBool bool | PrefNumber u32 | PrefOther

record kb_env =
  kb_clock :: "nat \<Rightarrow> u64"
  microtime :: "nat \<Rightarrow> u32 \<times> u32"
  modifierPairs :: "nat \<Rightarrow> (modifier_key \<times> modifier_key) list option"
  acpi_GKBL :: "nat \<Rightarrow> u8 \<Rightarrow> u32 option"
  acpi_GKLM :: "nat \<Rightarrow> u32 option"
  acpi_SKBL :: "nat \<Rightarrow> bool option"
  acpi_SLPN :: "nat \<Rightarrow> bool"
  asusPanelLevels :: "nat \<Rightarrow> u8 option"
  kb_preferences :: "(string \<times> preference) list option"
  fnKeysMode1 :: "(string \<rightharpoonup> string) option"
  fnKeysMode2 :: "(string \<rightharpoonup> string) option"
  fnKeysLayout :: "string option"
  extendedFunctions :: "(string \<times> string option) list option"
  productName :: "string option"
  fnKeysMode :: "16 word option"
  keyboardType :: "u32 option"
  useISOLayout :: bool
  osMajor :: int

section \<open>The driver object\<close>

text \<open>The keys with special functions and the preferences are grouped.\<close>

record fn_keys =
  brightNessUp :: u8
  brightNessDown :: u8
  kbrdBrightnessUp :: u8
  kbrdBrightnessDown :: u8
  volMute :: u8
  volDown :: u8
  volUp :: u8
  mediaPrev :: u8
  mediaPlay :: u8
  mediaNext :: u8
  sleepKey :: u8
  launchpadFun :: u8
  missonCtlFun :: u8
  videoMirror :: u8
  dispSleep :: u8
  touchpadKey :: u8

record kb_prefs =
  macintoshMode :: bool
  hasExtendFunctions :: bool
  makeShiftCapsAsFn :: bool
  makeDelIntoCmdBspace :: bool
  makeKeyDotAsComma :: bool
  noNumLockLED :: bool
  makeNumLockAsClear :: bool
  useFinerBrightnesCtrl :: bool
  useFinerVolumeCtrl :: bool
  fixSierraCapsLockBug :: bool
  rightCtxtMKey :: u8
  rightCntrlKey :: u8
  rightALTKey :: u8
  capsKey :: u8
  fnKeysModeNum :: u8
  fnKeysVendorLayout :: u8
  keyboardTypeID :: u32
  ISOLSquareBracket :: u8
  ISORSquareBracket :: u8
  letterM :: u8
  letterQ :: u8

text \<open>\<open>bad\<close> records an access outside an array or through a null pointer.\<close>

record keyboard =
  extendCount :: u8
  keyBitVector :: "u32 list"
  commandKey :: u8
  contrlKey :: u8
  altkey :: u8
  ledState :: u8
  kb_debug :: bool
  osxVersion :: u8
  isKeyboardEnabled :: bool
  isTPadEnabled :: bool
  featureToggleMode :: bool
  isNumPadKey :: bool
  isAccInputExceptionKey :: bool
  isNumPadLocked :: bool
  isCapsLocked :: bool
  isFnKeyPressed :: bool
  isFnKeyComb :: bool
  displaySleep :: bool
  extendedCode :: bool
  releaseGestureKey :: bool
  germanTurkishLayout :: bool
  altFunctionEnabled :: bool
  controllingFeature :: bool
  enabledAsusKBacklight :: bool
  asusKBHas16LevelSupport :: bool
  asusFnKeyWorkAsFunction :: bool
  kbrdBackLightLvl :: "8 word"
  modifierKeystate :: u8
  generatedCode :: u8
  tempCode1 :: u8
  tempCode2 :: u8
  lastEventSecs :: u32
  lastEventMicrosecs :: u32
  lastModifiersReadTime :: u64
  fx :: "string option list"
  fnk :: fn_keys
  prefs :: kb_prefs
  normalMap :: "u8 list"
  extendedMap :: "u8 list"
  kb_now :: u64
  kb_asked :: nat
  kb_events :: "kb_event list"
  bad :: bool

text \<open>The object as init leaves it; the allocator has zeroed what init does not mention.\<close>

definition keyboard_init :: keyboard where
  "keyboard_init =
     \<lparr>extendCount = 0, keyBitVector = replicate 8 0, commandKey = 0x5b, contrlKey = 0x1d, altkey = 0x38,
      ledState = 0, kb_debug = False, osxVersion = 12, isKeyboardEnabled = True, isTPadEnabled = True,
      featureToggleMode = False, isNumPadKey = False, isAccInputExceptionKey = False,
      isNumPadLocked = False, isCapsLocked = False, isFnKeyPressed = False, isFnKeyComb = False,
      displaySleep = False, extendedCode = False, releaseGestureKey = False, germanTurkishLayout = False,
      altFunctionEnabled = False, controllingFeature = False, enabledAsusKBacklight = False,
      asusKBHas16LevelSupport = False, asusFnKeyWorkAsFunction = False, kbrdBackLightLvl = 0,
      modifierKeystate = 0, generatedCode = 0, tempCode1 = 0, tempCode2 = 0, lastEventSecs = 0,
      lastEventMicrosecs = 0, lastModifiersReadTime = 0, fx = replicate 12 None,
      fnk = \<lparr>brightNessUp = 0, brightNessDown = 0, kbrdBrightnessUp = 0, kbrdBrightnessDown = 0, volMute = 0,
        volDown = 0, volUp = 0, mediaPrev = 0, mediaPlay = 0, mediaNext = 0, sleepKey = 0, launchpadFun = 0,
        missonCtlFun = 0, videoMirror = 0, dispSleep = 0, touchpadKey = 0\<rparr>,
      prefs = \<lparr>macintoshMode = False, hasExtendFunctions = False, makeShiftCapsAsFn = False,
        makeDelIntoCmdBspace = False, makeKeyDotAsComma = False, noNumLockLED = False,
        makeNumLockAsClear = False, useFinerBrightnesCtrl = False, useFinerVolumeCtrl = False,
        fixSierraCapsLockBug = True, rightCtxtMKey = 0x5d, rightCntrlKey = 0x1d, rightALTKey = 0, capsKey = 0,
        fnKeysModeNum = 0, fnKeysVendorLayout = 0, keyboardTypeID = 0, ISOLSquareBracket = 0,
        ISORSquareBracket = 0, letterM = 0x2e, letterQ = 0x0c\<rparr>,
      normalMap = PS2ToADBMap, extendedMap = ExtendedPS2ToADBMap, kb_now = 0, kb_asked = 0,
      kb_events = [], bad = False\<rparr>"

definition happen :: "kb_event \<Rightarrow> keyboard \<Rightarrow> keyboard" where
  "happen e s = s\<lparr>kb_events := kb_events s @ [e]\<rparr>"

definition asked :: "keyboard \<Rightarrow> keyboard" where
  "asked s = s\<lparr>kb_asked := kb_asked s + 1\<rparr>"

definition misuse :: "bool \<Rightarrow> keyboard \<Rightarrow> keyboard" where
  "misuse b s = s\<lparr>bad := bad s \<or> b\<rparr>"

section \<open>Key states\<close>

text \<open>The macros KBV_KEYDOWN, KBV_KEYUP and KBV_IS_KEYDOWN.\<close>

definition KBV_KEYDOWN :: "u8 \<Rightarrow> u32 list \<Rightarrow> u32 list" where
  "KBV_KEYDOWN n bits = bits[unat (drop_bit 5 n) := bits ! unat (drop_bit 5 n) OR push_bit (unat (n AND 31)) 1]"

definition KBV_KEYUP :: "u8 \<Rightarrow> u32 list \<Rightarrow> u32 list" where
  "KBV_KEYUP n bits =
     bits[unat (drop_bit 5 n) := bits ! unat (drop_bit 5 n) AND NOT (push_bit (unat (n AND 31)) 1)]"

definition KBV_IS_KEYDOWN :: "u8 \<Rightarrow> u32 list \<Rightarrow> bool" where
  "KBV_IS_KEYDOWN n bits \<longleftrightarrow> bits ! unat (drop_bit 5 n) AND push_bit (unat (n AND 31)) 1 \<noteq> 0"

abbreviation held :: "u8 \<Rightarrow> keyboard \<Rightarrow> bool" where
  "held k s \<equiv> KBV_IS_KEYDOWN k (keyBitVector s)"

section \<open>Events to the system\<close>

definition dispatchKeyboardKeyCode :: "kb_env \<Rightarrow> u8 \<Rightarrow> bool \<Rightarrow> keyboard \<Rightarrow> keyboard" where
  "dispatchKeyboardKeyCode E keyCode goingDown s =
     happen (KeyEvent keyCode goingDown) (asked (s\<lparr>kb_now := kb_clock E (kb_asked s)\<rparr>))"

text \<open>A key code looked up in a table of 128 entries.\<close>

definition dispatchNormal :: "kb_env \<Rightarrow> u8 \<Rightarrow> bool \<Rightarrow> keyboard \<Rightarrow> keyboard" where
  "dispatchNormal E k goingDown s =
     dispatchKeyboardKeyCode E (normalMap s ! unat k) goingDown (misuse (k \<ge> 0x80) s)"

definition dispatchExtended :: "kb_env \<Rightarrow> u8 \<Rightarrow> bool \<Rightarrow> keyboard \<Rightarrow> keyboard" where
  "dispatchExtended E k goingDown s =
     dispatchKeyboardKeyCode E (extendedMap s ! unat k) goingDown (misuse (k \<ge> 0x80) s)"

definition dispatchADB :: "kb_env \<Rightarrow> u8 \<Rightarrow> bool \<Rightarrow> keyboard \<Rightarrow> keyboard" where
  "dispatchADB E k goingDown s =
     (if extendedCode s then dispatchExtended E k goingDown s else dispatchNormal E k goingDown s)"

definition pressRelease :: "kb_env \<Rightarrow> u8 \<Rightarrow> keyboard \<Rightarrow> keyboard" where
  "pressRelease E k s = dispatchKeyboardKeyCode E k False (dispatchKeyboardKeyCode E k True s)"

definition releaseKey :: "kb_env \<Rightarrow> u8 \<Rightarrow> keyboard \<Rightarrow> keyboard" where
  "releaseKey E keyCode s =
     dispatchKeyboardKeyCode E keyCode False (dispatchKeyboardKeyCode E keyCode True s)"

definition notify :: "u32 \<Rightarrow> keyboard \<Rightarrow> keyboard" where
  "notify datum = happen (Notification datum)"

definition toggleTPad :: "keyboard \<Rightarrow> keyboard" where
  "toggleTPad s =
     (let s = s\<lparr>isTPadEnabled := \<not> isTPadEnabled s\<rparr>
      in if \<not> isTPadEnabled s then notify kPS2C_DisableTouchpad s else notify kPS2C_EnableTouchpad s)"

definition dispatchKeyboardBacklightNotification :: "bool \<Rightarrow> keyboard \<Rightarrow> keyboard" where
  "dispatchKeyboardBacklightNotification keyState s =
     (if enabledAsusKBacklight s
      then (if keyState then notify kPS2C_KeybrdBackLightOn s else notify kPS2C_KeybrdBackLightOff s)
      else s)"

section \<open>LEDs\<close>

abbreviation kLED_NumLock :: u8 where "kLED_NumLock \<equiv> 0x02"
abbreviation kLED_CapsLock :: u8 where "kLED_CapsLock \<equiv> 0x04"

text \<open>A request that is allocated, filled and submitted, then freed by the controller.\<close>

definition setLEDs :: "u8 \<Rightarrow> keyboard \<Rightarrow> keyboard" where
  "setLEDs led = happen (SubmitCommands
     [(kPS2C_WriteDataPort, kDP_SetKeyboardLEDs), (kPS2C_ReadDataPortAndCompare, kSC_Acknowledge),
      (kPS2C_WriteDataPort, led), (kPS2C_ReadDataPortAndCompare, kSC_Acknowledge)])"

definition setAlphaLockFeedback :: "bool \<Rightarrow> keyboard \<Rightarrow> keyboard" where
  "setAlphaLockFeedback locked s =
     (let s = s\<lparr>ledState := (if locked then ledState s OR kLED_CapsLock
                            else ledState s AND NOT kLED_CapsLock)\<rparr>
      in setLEDs (ledState s) s)"

definition setNumLockFeedback :: "bool \<Rightarrow> keyboard \<Rightarrow> keyboard" where
  "setNumLockFeedback locked s =
     (if noNumLockLED (prefs s) then s
      else let s = s\<lparr>ledState := (if locked then ledState s OR kLED_NumLock
                                 else ledState s AND NOT kLED_NumLock)\<rparr>
           in setLEDs (ledState s) s)"

section \<open>Modifier positions\<close>

abbreviation MODIFIERS_STATUS_CHK_INTERVAL :: u64 where "MODIFIERS_STATUS_CHK_INTERVAL \<equiv> 4000000000"

definition getModifiersPosition :: "modifier_key \<Rightarrow> u8" where
  "getModifiersPosition m =
     (case m of NX_MODIFIERKEY_ALPHALOCK \<Rightarrow> 0x3A | NX_MODIFIERKEY_SHIFT \<Rightarrow> 0x2A | NX_MODIFIERKEY_CONTROL \<Rightarrow> 0x1D
      | NX_MODIFIERKEY_ALTERNATE \<Rightarrow> 0x38 | NX_MODIFIERKEY_COMMAND \<Rightarrow> 0x5B | OtherModifier _ \<Rightarrow> 0x0)"

definition moveModifier :: "modifier_key \<times> modifier_key \<Rightarrow> keyboard \<Rightarrow> keyboard" where
  "moveModifier p s =
     (case snd p of NX_MODIFIERKEY_COMMAND \<Rightarrow> s\<lparr>commandKey := getModifiersPosition (fst p)\<rparr>
      | NX_MODIFIERKEY_CONTROL \<Rightarrow> s\<lparr>contrlKey := getModifiersPosition (fst p)\<rparr>
      | NX_MODIFIERKEY_ALTERNATE \<Rightarrow> s\<lparr>altkey := getModifiersPosition (fst p)\<rparr>
      | _ \<Rightarrow> s)"

definition readKeyboardModifiers :: "kb_env \<Rightarrow> keyboard \<Rightarrow> keyboard" where
  "readKeyboardModifiers E s =
     (if kb_now s - lastModifiersReadTime s > MODIFIERS_STATUS_CHK_INTERVAL \<or> lastModifiersReadTime s = 0
      then let s = (case modifierPairs E (kb_asked s) of
                 None \<Rightarrow> s
               | Some [] \<Rightarrow> s\<lparr>commandKey := 0x5b, contrlKey := 0x1d, altkey := 0x38\<rparr>
               | Some ps \<Rightarrow> fold moveModifier ps s)
           in asked (s\<lparr>lastModifiersReadTime := kb_now s\<rparr>)
      else s)"

end
