(* ===== verification/Keyboard_Config.thy ===== *)
theory Keyboard_Config
  imports Keyboard_State
begin

text \<open>
  The configuration of the keyboard driver: preferences, function keys by mode or by vendor layout, and
  the key combinations of the extended functions. Keys of property lists are compared with strncmp over
  the length of the key that was found, so a key matches every name it is a prefix of.
\<close>

definition strncmp_eq :: "string \<Rightarrow> string \<Rightarrow> bool" where
  "strncmp_eq key name \<longleftrightarrow> take (length key) name = key"

section \<open>Preferences\<close>

definition setBoolPreference :: "string \<Rightarrow> bool \<Rightarrow> keyboard \<Rightarrow> keyboard" where
  "setBoolPreference key b s =
     (if strncmp_eq key ''Swap alt and windows key'' then s\<lparr>prefs := (prefs s)\<lparr>macintoshMode := b\<rparr>\<rparr>
      else if strncmp_eq key ''Enable Extended Functions'' then s\<lparr>prefs := (prefs s)\<lparr>hasExtendFunctions := b\<rparr>\<rparr>
      else if strncmp_eq key ''Make shift + caps into Fn key'' then s\<lparr>prefs := (prefs s)\<lparr>makeShiftCapsAsFn := b\<rparr>\<rparr>
      else if strncmp_eq key ''Make delete key into cmd + backspace'' then s\<lparr>prefs := (prefs s)\<lparr>makeDelIntoCmdBspace := b\<rparr>\<rparr>
      else if strncmp_eq key ''Make ISO keypad key . to ,'' then s\<lparr>prefs := (prefs s)\<lparr>makeKeyDotAsComma := b\<rparr>\<rparr>
      else if strncmp_eq key ''Num Lock enabled at boot'' then s\<lparr>isNumPadLocked := b\<rparr>
      else if strncmp_eq key ''Disable Num Lock LED'' then s\<lparr>prefs := (prefs s)\<lparr>noNumLockLED := b\<rparr>\<rparr>
      else if strncmp_eq key ''Make Num Lock into Clear'' then s\<lparr>prefs := (prefs s)\<lparr>makeNumLockAsClear := b\<rparr>\<rparr>
      else if strncmp_eq key ''FinerFnBrightnessControl'' then s\<lparr>prefs := (prefs s)\<lparr>useFinerBrightnesCtrl := b\<rparr>\<rparr>
      else if strncmp_eq key ''FinerFnVolumeControl'' then s\<lparr>prefs := (prefs s)\<lparr>useFinerVolumeCtrl := b\<rparr>\<rparr>
      else if strncmp_eq key ''Enable Sierra Caps Lock Fix'' then s\<lparr>prefs := (prefs s)\<lparr>fixSierraCapsLockBug := b\<rparr>\<rparr>
      else s)"

definition setNumberPreference :: "string \<Rightarrow> u32 \<Rightarrow> keyboard \<Rightarrow> keyboard" where
  "setNumberPreference key n s =
     (if n = 0 then s
      else if strncmp_eq key ''Make context menu key into key'' then s\<lparr>prefs := (prefs s)\<lparr>rightCtxtMKey := ucast n\<rparr>\<rparr>
      else if strncmp_eq key ''Make right control into key'' then s\<lparr>prefs := (prefs s)\<lparr>rightCntrlKey := ucast n\<rparr>\<rparr>
      else if strncmp_eq key ''Make right alt into key'' then s\<lparr>prefs := (prefs s)\<lparr>rightALTKey := ucast n\<rparr>\<rparr>
      else if strncmp_eq key ''Make Caps Lock into key'' then s\<lparr>prefs := (prefs s)\<lparr>capsKey := ucast n\<rparr>\<rparr>
      else s)"

definition setPreference :: "string \<times> preference \<Rightarrow> keyboard \<Rightarrow> keyboard" where
  "setPreference p s =
     (case snd p of PrefBool b \<Rightarrow> setBoolPreference (fst p) b s
      | PrefNumber n \<Rightarrow> setNumberPreference (fst p) n s
      | PrefOther \<Rightarrow> s)"

definition ReadKeyboardPreferences :: "kb_env \<Rightarrow> keyboard \<Rightarrow> keyboard" where
  "ReadKeyboardPreferences E s =
     (case kb_preferences E of None \<Rightarrow> s | Some ps \<Rightarrow> fold setPreference ps s)"

section \<open>Function keys\<close>

definition setupFnkeys :: "u8 \<Rightarrow> string \<Rightarrow> u8" where
  "setupFnkeys mode key =
     (if strncmp_eq key ''F1'' then 0x3b
      else if strncmp_eq key ''F2'' then 0x3c
      else if strncmp_eq key ''F3'' then 0x3d
      else if strncmp_eq key ''F4'' then 0x3e
      else if strncmp_eq key ''F5'' then 0x3f
      else if strncmp_eq key ''F6'' then 0x40
      else if strncmp_eq key ''F7'' then 0x41
      else if strncmp_eq key ''F8'' then 0x42
      else if strncmp_eq key ''F9'' then 0x43
      else if strncmp_eq key ''F10'' then 0x44
      else if strncmp_eq key ''F11'' then 0x57
      else if strncmp_eq key ''F12'' then 0x58
      else if strncmp_eq key ''ArrowLeft'' \<and> mode > 1 then 0x4b
      else if strncmp_eq key ''ArrowDown'' \<and> mode > 1 then 0x50
      else if strncmp_eq key ''ArrowUp'' \<and> mode > 1 then 0x48
      else if strncmp_eq key ''ArrowRight'' \<and> mode > 1 then 0x4d
      else if strncmp_eq key ''Pause'' \<and> mode < 2 then 0x45
      else 0)"

definition fnKeyOf :: "u8 \<Rightarrow> (string \<rightharpoonup> string) \<Rightarrow> string \<Rightarrow> u8 \<Rightarrow> u8" where
  "fnKeyOf mode config name old = (case config name of None \<Rightarrow> old | Some key \<Rightarrow> setupFnkeys mode key)"

definition configureFnKeys :: "u8 \<Rightarrow> (string \<rightharpoonup> string) \<Rightarrow> fn_keys \<Rightarrow> fn_keys" where
  "configureFnKeys mode config k =
     (let k = k\<lparr>sleepKey := fnKeyOf mode config ''SystemSleep'' (sleepKey k)\<rparr>;
          k = k\<lparr>brightNessDown := fnKeyOf mode config ''BrightnessDown'' (brightNessDown k)\<rparr>;
          k = k\<lparr>brightNessUp := fnKeyOf mode config ''BrightnessUp'' (brightNessUp k)\<rparr>;
          k = k\<lparr>missonCtlFun := fnKeyOf mode config ''Misson Control'' (missonCtlFun k)\<rparr>;
          k = k\<lparr>launchpadFun := fnKeyOf mode config ''Launchpad'' (launchpadFun k)\<rparr>;
          k = k\<lparr>dispSleep := fnKeyOf mode config ''SleepDisplay'' (dispSleep k)\<rparr>;
          k = k\<lparr>videoMirror := fnKeyOf mode config ''VideoMirror'' (videoMirror k)\<rparr>;
          k = k\<lparr>touchpadKey := fnKeyOf mode config ''Touchpad'' (touchpadKey k)\<rparr>;
          k = k\<lparr>volMute := fnKeyOf mode config ''VolumeMute'' (volMute k)\<rparr>;
          k = k\<lparr>volDown := fnKeyOf mode config ''VolumeDown'' (volDown k)\<rparr>;
          k = k\<lparr>volUp := fnKeyOf mode config ''VolumeUp'' (volUp k)\<rparr>;
          k = k\<lparr>mediaPrev := fnKeyOf mode config ''MediaPrevious'' (mediaPrev k)\<rparr>;
          k = k\<lparr>mediaPlay := fnKeyOf mode config ''MediaPlayPause'' (mediaPlay k)\<rparr>;
          k = k\<lparr>mediaNext := fnKeyOf mode config ''MediaNext'' (mediaNext k)\<rparr>;
          k = k\<lparr>kbrdBrightnessDown := fnKeyOf mode config ''KBBacklightDown'' (kbrdBrightnessDown k)\<rparr>;
          k = k\<lparr>kbrdBrightnessUp := fnKeyOf mode config ''KBBacklightUp'' (kbrdBrightnessUp k)\<rparr>
      in k)"

definition ReadFnKeyConfig :: "kb_env \<Rightarrow> keyboard \<Rightarrow> keyboard" where
  "ReadFnKeyConfig E s =
     (case (if fnKeysModeNum (prefs s) = 1 then fnKeysMode1 E else fnKeysMode2 E) of
        None \<Rightarrow> s
      | Some config \<Rightarrow> s\<lparr>fnk := configureFnKeys (fnKeysModeNum (prefs s)) config (fnk s)\<rparr>)"

text \<open>The layouts of the vendors.\<close>

definition fnLayout_NONE :: "fn_keys \<Rightarrow> fn_keys" where
  "fnLayout_NONE k =
     k\<lparr>sleepKey := DEADKEY, missonCtlFun := DEADKEY, launchpadFun := DEADKEY,
       dispSleep := DEADKEY, videoMirror := DEADKEY, touchpadKey := DEADKEY,
       brightNessDown := DEADKEY, brightNessUp := DEADKEY, volMute := DEADKEY, volDown := DEADKEY,
       volUp := DEADKEY, mediaPrev := DEADKEY, mediaPlay := DEADKEY, mediaNext := DEADKEY\<rparr>"

definition fnLayout_ASUS :: "bool \<Rightarrow> fn_keys \<Rightarrow> fn_keys" where
  "fnLayout_ASUS backlight k =
     (if backlight then k\<lparr>missonCtlFun := DEADKEY, launchpadFun := DEADKEY, kbrdBrightnessDown := 0x3d,
         kbrdBrightnessUp := 0x3e\<rparr>
      else k\<lparr>missonCtlFun := 0x3d, launchpadFun := 0x3e\<rparr>)
      \<lparr>sleepKey := 0x3b, dispSleep := 0x41, videoMirror := 0x42, touchpadKey := 0x43,
         brightNessDown := 0x3f, brightNessUp := 0x40, volMute := 0x44, volDown := 0x57,
         volUp := 0x58, mediaPrev := 0x4b, mediaPlay := 0x50, mediaNext := 0x4d\<rparr>"

definition fnLayout_DELL :: "fn_keys \<Rightarrow> fn_keys" where
  "fnLayout_DELL k =
     k\<lparr>sleepKey := 0x4b, missonCtlFun := 0x40, launchpadFun := 0x41, dispSleep := 0x4d,
       videoMirror := 0x3b, touchpadKey := 0x3d, brightNessDown := 0x3e, brightNessUp := 0x3f,
       volMute := 0x50, volDown := 0x57, volUp := 0x58, mediaPrev := 0x42, mediaPlay := 0x43,
       mediaNext := 0x44\<rparr>"

definition fnLayout_ACER :: "fn_keys \<Rightarrow> fn_keys" where
  "fnLayout_ACER k =
     k\<lparr>sleepKey := 0x3e, missonCtlFun := 0x3c, launchpadFun := 0x3d, dispSleep := 0x40,
       videoMirror := 0x3f, touchpadKey := 0x41, brightNessDown := 0x4b, brightNessUp := 0x4d,
       volMute := 0x42, volDown := 0x50, volUp := 0x48, mediaPrev := 0x44, mediaPlay := 0x57,
       mediaNext := 0x58\<rparr>"

definition fnLayout_SAMSUNG :: "fn_keys \<Rightarrow> fn_keys" where
  "fnLayout_SAMSUNG k =
     k\<lparr>sleepKey := 0x57, missonCtlFun := 0x43, launchpadFun := 0x44, dispSleep := 0x3b,
       videoMirror := 0x3e, touchpadKey := 0x3f, brightNessDown := 0x3c, brightNessUp := 0x3d,
       volMute := 0x40, volDown := 0x41, volUp := 0x42, mediaPrev := 0x4b, mediaPlay := 0x50,
       mediaNext := 0x4d\<rparr>"

definition fnLayout_MSI :: "fn_keys \<Rightarrow> fn_keys" where
  "fnLayout_MSI k =
     k\<lparr>sleepKey := 0x58, missonCtlFun := 0x41, launchpadFun := 0x57, dispSleep := 0x3e,
       videoMirror := 0x3c, touchpadKey := 0x3d, brightNessDown := 0x50, brightNessUp := 0x48,
       volMute := 0x52, volDown := 0x4b, volUp := 0x4d, mediaPrev := 0x4b, mediaPlay := 0x50,
       mediaNext := 0x4d\<rparr>"

definition fnLayout_GIGABYTE :: "fn_keys \<Rightarrow> fn_keys" where
  "fnLayout_GIGABYTE k =
     k\<lparr>missonCtlFun := 0x58, launchpadFun := 0x57, sleepKey := 0x3b, videoMirror := 0x3f,
       touchpadKey := 0x40, dispSleep := 0x44, brightNessDown := 0x3d, brightNessUp := 0x3e,
       volMute := 0x41, volDown := 0x42, volUp := 0x43, mediaPrev := 0x4b, mediaPlay := 0x50,
       mediaNext := 0x4d\<rparr>"

definition fnLayout_LENOVO :: "fn_keys \<Rightarrow> fn_keys" where
  "fnLayout_LENOVO k =
     k\<lparr>missonCtlFun := 0x42, launchpadFun := 0x3e, sleepKey := 0x41, videoMirror := 0x44,
       touchpadKey := 0x40, dispSleep := 0x43, brightNessDown := 0x57, brightNessUp := 0x58,
       volMute := 0x3b, volDown := 0x3c, volUp := 0x3d, mediaPrev := 0x4b, mediaPlay := 0x50,
       mediaNext := 0x4d\<rparr>"

definition fnLayout_HP :: "fn_keys \<Rightarrow> fn_keys" where
  "fnLayout_HP k =
     k\<lparr>missonCtlFun := 0x4b, launchpadFun := 0x4d, sleepKey := 0x3b, videoMirror := 0x3e,
       touchpadKey := 0x50, dispSleep := 0x3f, brightNessDown := 0x3c, brightNessUp := 0x3d,
       volMute := 0x57, volDown := 0x43, volUp := 0x44, mediaPrev := 0x40, mediaPlay := 0x41,
       mediaNext := 0x42\<rparr>"

definition fnLayout_LG :: "fn_keys \<Rightarrow> fn_keys" where
  "fnLayout_LG k =
     k\<lparr>missonCtlFun := 0x42, launchpadFun := 0x44, sleepKey := 0x3e, videoMirror := 0x41,
       touchpadKey := 0x3f, dispSleep := 0x40, brightNessDown := 0x3c, brightNessUp := 0x3d,
       volMute := 0x43, volDown := 0x57, volUp := 0x58, mediaPrev := 0x4b, mediaPlay := 0x50,
       mediaNext := 0x4d\<rparr>"

definition setVendor :: "u8 \<Rightarrow> keyboard \<Rightarrow> keyboard" where
  "setVendor v s = s\<lparr>prefs := (prefs s)\<lparr>fnKeysVendorLayout := v, fnKeysModeNum := 3\<rparr>\<rparr>"

abbreviation GIGABYTE :: u8 where "GIGABYTE \<equiv> 6"

definition ReadFnKeyLayout :: "kb_env \<Rightarrow> keyboard \<Rightarrow> keyboard" where
  "ReadFnKeyLayout E s =
     (case fnKeysLayout E of
        None \<Rightarrow> s
      | Some layout \<Rightarrow>
          (if strncmp_eq layout ''NONE'' then
             s\<lparr>prefs := (prefs s)\<lparr>fnKeysVendorLayout := 0\<rparr>, fnk := fnLayout_NONE (fnk s)\<rparr>
           else if strncmp_eq layout ''ASUS'' then
             (setVendor 1 s)\<lparr>fnk := fnLayout_ASUS (enabledAsusKBacklight s) (fnk s)\<rparr>
           else if strncmp_eq layout ''DELL'' then
             (setVendor 2 s)\<lparr>fnk := fnLayout_DELL (fnk s), extendedMap := (extendedMap s)[0x08 := DEADKEY, 0x59 := DEADKEY]\<rparr>
           else if strncmp_eq layout ''ACER'' then
             (setVendor 3 s)\<lparr>fnk := fnLayout_ACER (fnk s), extendedMap := (extendedMap s)[0x78 := DEADKEY]\<rparr>
           else if strncmp_eq layout ''SAMSUNG'' then
             (setVendor 4 s)\<lparr>fnk := fnLayout_SAMSUNG (fnk s), extendedMap := (extendedMap s)[0x77 := DEADKEY, 0x29 := DEADKEY]\<rparr>
           else if strncmp_eq layout ''MSI'' then
             (setVendor 5 s)\<lparr>fnk := fnLayout_MSI (fnk s), extendedMap := (extendedMap s)[0x6e := DEADKEY, 0x6f := DEADKEY, 0x4e := DEADKEY]\<rparr>
           else if strncmp_eq layout ''GIGABYTE'' then
             (setVendor 6 s)\<lparr>fnk := fnLayout_GIGABYTE (fnk s)\<rparr>
           else if strncmp_eq layout ''LENOVO'' then
             (setVendor 7 s)\<lparr>fnk := fnLayout_LENOVO (fnk s)\<rparr>
           else if strncmp_eq layout ''HP'' then
             (setVendor 8 s)\<lparr>fnk := fnLayout_HP (fnk s)\<rparr>
           else if strncmp_eq layout ''LG'' then
             (setVendor 9 s)\<lparr>fnk := fnLayout_LG (fnk s)\<rparr>
           else ReadFnKeyConfig E (s\<lparr>prefs := (prefs s)\<lparr>fnKeysModeNum := 2\<rparr>\<rparr>)))"

section \<open>Extended functions\<close>

definition setExtendedFunction :: "string \<times> string option \<Rightarrow> keyboard \<Rightarrow> keyboard" where
  "setExtendedFunction p s =
     (case p of
        (key, None) \<Rightarrow> s
      | (key, Some v) \<Rightarrow>
          if strncmp_eq key ''F13'' then s\<lparr>fx := (fx s)[0 := Some v]\<rparr>
          else if strncmp_eq key ''F14'' then s\<lparr>fx := (fx s)[1 := Some v]\<rparr>
          else if strncmp_eq key ''F15'' then s\<lparr>fx := (fx s)[2 := Some v]\<rparr>
          else if strncmp_eq key ''F16'' then s\<lparr>fx := (fx s)[3 := Some v]\<rparr>
          else if strncmp_eq key ''F17'' then s\<lparr>fx := (fx s)[4 := Some v]\<rparr>
          else if strncmp_eq key ''F18'' then s\<lparr>fx := (fx s)[5 := Some v]\<rparr>
          else if strncmp_eq key ''F19'' then s\<lparr>fx := (fx s)[6 := Some v]\<rparr>
          else if strncmp_eq key ''F20'' then s\<lparr>fx := (fx s)[7 := Some v]\<rparr>
          else if strncmp_eq key ''F21'' then s\<lparr>fx := (fx s)[8 := Some v]\<rparr>
          else if strncmp_eq key ''F22'' then s\<lparr>fx := (fx s)[9 := Some v]\<rparr>
          else if strncmp_eq key ''F23'' then s\<lparr>fx := (fx s)[10 := Some v]\<rparr>
          else if strncmp_eq key ''F24'' then s\<lparr>fx := (fx s)[11 := Some v]\<rparr>
          else s)"

definition ReadExtendedFunctionsConfig :: "kb_env \<Rightarrow> keyboard \<Rightarrow> keyboard" where
  "ReadExtendedFunctionsConfig E s =
     (case extendedFunctions E of None \<Rightarrow> s | Some fs \<Rightarrow> fold setExtendedFunction fs s)"

end
