(* ===== verification/Keyboard_Keys.thy ===== *)
theory Keyboard_Keys
  imports Keyboard_Config
begin

text \<open>
  The key functions of the keyboard driver: key combinations, extended functions, the generator of ADB
  codes, the German and Turkish layout, function keys with the Asus backlight, the notifications of the
  touchpad driver and the switches of touchpad features.
\<close>

section \<open>Key combinations\<close>

definition keyChars :: "(char \<times> u8) list" where
  "keyChars =
    [(CHR ''A'', 0x00), (CHR ''B'', 0x0b), (CHR ''C'', 0x08), (CHR ''D'', 0x02), (CHR ''E'', 0x0e),
     (CHR ''F'', 0x03), (CHR ''G'', 0x05), (CHR ''H'', 0x04), (CHR ''I'', 0x22), (CHR ''J'', 0x26),
     (CHR ''K'', 0x28), (CHR ''L'', 0x25), (CHR ''M'', 0x2e), (CHR ''N'', 0x2d), (CHR ''O'', 0x1f),
     (CHR ''P'', 0x23), (CHR ''Q'', 0x0c), (CHR ''R'', 0x0f), (CHR ''S'', 0x01), (CHR ''T'', 0x11),
     (CHR ''U'', 0x20), (CHR ''V'', 0x09), (CHR ''W'', 0x0d), (CHR ''X'', 0x07), (CHR ''Y'', 0x10),
     (CHR ''Z'', 0x06), (CHR ''1'', 0x12), (CHR ''2'', 0x13), (CHR ''3'', 0x14), (CHR ''4'', 0x15),
     (CHR ''5'', 0x17), (CHR ''6'', 0x16), (CHR ''7'', 0x1a), (CHR ''8'', 0x1c), (CHR ''9'', 0x19),
     (CHR ''0'', 0x1d), (CHR 0x60, 0x32), (CHR ''-'', 0x1b), (CHR ''+'', 0x18), (CHR ''['', 0x21),
     (CHR '']'', 0x1e), (CHR 0x5C, 0x2a), (CHR ''/'', 0x2c), (CHR ''.'', 0x2f), (CHR '','', 0x2b),
     (CHR 0x27, 0x27), (CHR '';'', 0x29)]"

definition ADBCodeForKeyChar :: "char \<Rightarrow> u8" where
  "ADBCodeForKeyChar key = (case map_of keyChars key of None \<Rightarrow> DEADKEY | Some code \<Rightarrow> code)"

definition combKeyCode :: "string \<Rightarrow> u8" where
  "combKeyCode key =
     (if length key = 1 then ADBCodeForKeyChar (hd key)
      else if strncmp_eq key ''CMD'' then 0x36
           else if strncmp_eq key ''ALT'' then 0x3a
           else if strncmp_eq key ''CTRL'' then 0x3b
           else if strncmp_eq key ''SHFT'' then 0x38
           else if strncmp_eq key ''ESC'' then 0x35
           else if strncmp_eq key ''ENTR'' then 0x24
           else if strncmp_eq key ''SPCE'' then 0x31
           else if strncmp_eq key ''DAW'' then 0x7d
           else if strncmp_eq key ''UAW'' then 0x7e
           else if strncmp_eq key ''LAW'' then 0x7b
           else if strncmp_eq key ''RAW'' then 0x7c
           else if strncmp_eq key ''TAB'' then 0x30
           else DEADKEY)"

text \<open>
  A word of a combination is complete; the result is the number of keys dispatched so far. The buffer of
  a word has five characters, of which the last must stay null.
\<close>

definition combKey :: "kb_env \<Rightarrow> bool \<Rightarrow> string \<Rightarrow> nat \<Rightarrow> keyboard \<Rightarrow> nat \<times> keyboard" where
  "combKey E goingDown key l s =
     (let s = misuse (length key \<ge> 5) s
      in if combKeyCode key \<noteq> DEADKEY then (l + 1, dispatchKeyboardKeyCode E (combKeyCode key) goingDown s)
         else (l, s))"

text \<open>The loop over the string; \<open>key\<close> is the word read so far.\<close>

fun combLoop :: "kb_env \<Rightarrow> bool \<Rightarrow> string \<Rightarrow> string \<Rightarrow> nat \<Rightarrow> keyboard \<Rightarrow> keyboard" where
  "combLoop E goingDown key [] l s = snd (combKey E goingDown key l s)"
| "combLoop E goingDown key (c # cs) l s =
     (if c = CHR '' '' then
        (let (l, s) = combKey E goingDown key l s
         in if l = 3 then s else combLoop E goingDown [] cs l s)
      else combLoop E goingDown (key @ [c]) cs l s)"

definition ProcessKeyCombinations :: "kb_env \<Rightarrow> string option \<Rightarrow> bool \<Rightarrow> bool \<Rightarrow> keyboard \<Rightarrow> keyboard" where
  "ProcessKeyCombinations E keys goingDown gesture s =
     (case keys of
        None \<Rightarrow> s
      | Some ks \<Rightarrow>
          (let s = (if goingDown \<and> \<not> gesture then dispatchNormal E 0x2a False s else s);
               s = combLoop E goingDown [] ks 0 s
           in if \<not> goingDown \<and> \<not> gesture then dispatchNormal E 0x2a True s else s))"

section \<open>Extended functions\<close>

text \<open>
  The key with index \<open>i\<close>: its combination when it has one, else the key \<open>other\<close>. The length of a string
  that was never configured is read through a null pointer.
\<close>

definition extendedFunction :: "kb_env \<Rightarrow> nat \<Rightarrow> u8 \<Rightarrow> bool \<Rightarrow> keyboard \<Rightarrow> u8 \<times> keyboard" where
  "extendedFunction E i other goingDown s =
     (case fx s ! i of
        None \<Rightarrow> (0, misuse True s)
      | Some ks \<Rightarrow> if ks \<noteq> [] then (0, ProcessKeyCombinations E (Some ks) goingDown False s) else (other, s))"

definition extendedKeys :: "(u8 \<times> nat \<times> u8) list" where
  "extendedKeys = [(0x3b, 0, 0x64), (0x3c, 1, 0x65), (0x3d, 2, 0x66), (0x3e, 3, 0x67), (0x3f, 4, 0x68),
     (0x40, 5, 0x69), (0x41, 6, 0x6a), (0x42, 7, 0x6b), (0x43, 8, 0), (0x44, 9, 0), (0x57, 10, 0),
     (0x58, 11, 0)]"

definition ProcessExtendedFunctions :: "kb_env \<Rightarrow> u8 \<Rightarrow> bool \<Rightarrow> keyboard \<Rightarrow> bool \<times> keyboard" where
  "ProcessExtendedFunctions E keyCode goingDown s =
     (case map_of extendedKeys keyCode of
        None \<Rightarrow> (False, s)
      | Some (i, other) \<Rightarrow>
          (let (keyCode, s) = extendedFunction E i other goingDown s
           in (True,
               if keyCode = 0 then s
               else if goingDown then
                 dispatchNormal E keyCode goingDown (dispatchNormal E 0x2a (\<not> goingDown) s)
               else dispatchNormal E 0x2a (\<not> goingDown) (dispatchNormal E keyCode goingDown s))))"

section \<open>The generator of ADB codes\<close>

definition keypadDigits :: "(u8 \<times> u8) list" where
  "keypadDigits = [(0x52, 0), (0x4f, 1), (0x50, 2), (0x51, 3), (0x4b, 4), (0x4c, 5), (0x4d, 6), (0x47, 7),
     (0x48, 8), (0x49, 9)]"

definition generateAndSeeADBCode :: "kb_env \<Rightarrow> u8 \<Rightarrow> bool \<Rightarrow> keyboard \<Rightarrow> keyboard" where
  "generateAndSeeADBCode E keyCode goingDown s =
     (if goingDown then
        (let g = (case map_of keypadDigits keyCode of None \<Rightarrow> generatedCode s | Some d \<Rightarrow> d)
         in if tempCode1 s = 0 then s\<lparr>generatedCode := g, tempCode1 := g, tempCode2 := 0\<rparr>
            else if tempCode2 s = 0 then
              s\<lparr>tempCode2 := (if g = 0 then 10 else g), generatedCode := tempCode1 s * 10 + g\<rparr>
            else
              (let t2 = (if tempCode2 s = 10 then 0 else tempCode2 s)
               in s\<lparr>tempCode2 := t2, generatedCode := tempCode1 s * 100 + t2 * 10 + g\<rparr>))
      else if generatedCode s \<noteq> 0 then
        (pressRelease E (generatedCode s) s)\<lparr>generatedCode := 0, tempCode1 := 0, tempCode2 := 0\<rparr>
      else s)"

section \<open>German and Turkish layout\<close>

definition germanKeys :: "(u8 \<times> u8) list" where
  "germanKeys = [(0x08, 0x09), (0x09, 0x06), (0x0a, 0x07), (0x0b, 0x0a), (0x0c, 0x08), (0x1b, 0x31),
     (0x10, 0x26), (0x56, 0x08)]"

definition MapGermanTurkishKeyboardLayout ::
  "kb_env \<Rightarrow> u8 \<Rightarrow> bool \<Rightarrow> keyboard \<Rightarrow> u8 \<times> keyboard" where
  "MapGermanTurkishKeyboardLayout E keyCode goingDown s =
     (case map_of germanKeys keyCode of
        None \<Rightarrow> (keyCode, s\<lparr>germanTurkishLayout := False\<rparr>)
      | Some k \<Rightarrow>
          (let s = s\<lparr>germanTurkishLayout := True\<rparr>;
               s = (if keyCode = 0x0c then dispatchNormal E 0x2a goingDown s else s)
           in (0, if goingDown then
                    dispatchNormal E k goingDown
                      (if held (contrlKey s) s then dispatchNormal E (contrlKey s) (\<not> goingDown) s else s)
                  else
                    (let s = dispatchNormal E k goingDown s
                     in if held (contrlKey s) s then dispatchNormal E (contrlKey s) (\<not> goingDown) s
                        else s))))"

section \<open>The Asus keyboard backlight\<close>

definition readAsusKBlight :: "kb_env \<Rightarrow> u8 \<Rightarrow> keyboard \<Rightarrow> 16 word \<times> keyboard" where
  "readAsusKBlight E reqParm s =
     (case acpi_GKBL E (kb_asked s) reqParm of
        None \<Rightarrow> (-1, asked (s\<lparr>enabledAsusKBacklight := False\<rparr>))
      | Some kblvl \<Rightarrow> (ucast (kblvl AND 0xFF), asked (s\<lparr>enabledAsusKBacklight := True\<rparr>)))"

definition getMaxKBlightLevel :: "kb_env \<Rightarrow> keyboard \<Rightarrow> 16 word \<times> keyboard" where
  "getMaxKBlightLevel E s =
     (case acpi_GKLM E (kb_asked s) of
        None \<Rightarrow> (3, asked s)
      | Some l \<Rightarrow> (let kbMlvl = l AND 0xFF in (if kbMlvl > 254 then 3 else ucast kbMlvl, asked s)))"

definition setAsusKBlight :: "kb_env \<Rightarrow> u8 \<Rightarrow> keyboard \<Rightarrow> keyboard" where
  "setAsusKBlight E lvl s =
     (case acpi_SKBL E (kb_asked s) of
        None \<Rightarrow> asked s
      | Some method \<Rightarrow> if method then happen (EvaluateSKBL lvl) (asked s)
                      else asked (s\<lparr>enabledAsusKBacklight := False\<rparr>))"

text \<open>The level is an SInt8 that is compared with the UInt8 maximum as an int.\<close>

definition processAsusKBacklight :: "kb_env \<Rightarrow> bool \<Rightarrow> keyboard \<Rightarrow> keyboard" where
  "processAsusKBacklight E LvlUp s =
     (let (m, s) = getMaxKBlightLevel E s; bMlvl = (ucast m :: u8);
          (b, s) = readAsusKBlight E 0 s; blvl = (ucast b :: 8 word);
          blvl = (if sint blvl > uint bMlvl then bMlvl else blvl)
      in if sint blvl \<ge> 0 then
           (let blvl = (if (if asusKBHas16LevelSupport s then sint blvl < 15 else sint blvl < uint bMlvl) \<and> LvlUp
                        then blvl + 1
                        else if sint blvl > 0 \<and> \<not> LvlUp then blvl - 1 else blvl)
            in setAsusKBlight E 0xEA (setAsusKBlight E blvl s))
         else s)"

section \<open>Function keys that need no other key function\<close>

definition processFnkeySleep :: "kb_env \<Rightarrow> keyboard \<Rightarrow> keyboard" where
  "processFnkeySleep E s =
     happen SleepNow (if acpi_SLPN E (kb_asked s) then happen EvaluateSLPN (asked s) else asked s)"

text \<open>
  The last part of processFnKeys: the dispatch of the key that was chosen, with finer steps while shift
  and alt are pressed.
\<close>

definition finerStep :: "kb_env \<Rightarrow> bool \<Rightarrow> u8 \<Rightarrow> keyboard \<Rightarrow> keyboard" where
  "finerStep E finer k s =
     (if finer then
        (let s = dispatchKeyboardKeyCode E 0x38 True s;
             s = dispatchNormal E (altkey s) True s;
             s = dispatchKeyboardKeyCode E k True s;
             s = dispatchKeyboardKeyCode E k False s;
             s = dispatchNormal E (altkey s) False s
         in dispatchKeyboardKeyCode E 0x38 False s)
      else pressRelease E k s)"

definition toggleDisplaySleep :: "kb_env \<Rightarrow> keyboard \<Rightarrow> keyboard" where
  "toggleDisplaySleep E s =
     (let s = dispatchNormal E (contrlKey s) True s;
          s = dispatchKeyboardKeyCode E 0x38 True s;
          s = dispatchKeyboardKeyCode E 0x70 True s;
          s = dispatchKeyboardKeyCode E 0x70 False s;
          s = dispatchKeyboardKeyCode E 0x38 False s;
          s = dispatchNormal E (contrlKey s) False s;
          s = toggleTPad s
      in s\<lparr>displaySleep := \<not> displaySleep s\<rparr>)"

definition dispatchFnKey :: "kb_env \<Rightarrow> u8 \<Rightarrow> keyboard \<Rightarrow> keyboard" where
  "dispatchFnKey E fnKeyCode s =
     (if fnKeyCode = 0x10 then finerStep E (useFinerBrightnesCtrl (prefs s)) 0x4d s
      else if fnKeyCode = 0x20 then finerStep E (useFinerBrightnesCtrl (prefs s)) 0x4f s
      else if fnKeyCode = 0x4c then finerStep E (useFinerVolumeCtrl (prefs s)) 0x48 s
      else if fnKeyCode = 0x49 then finerStep E (useFinerVolumeCtrl (prefs s)) 0x49 s
      else if fnKeyCode = 0 then s
      else if fnKeyCode = dispSleep (fnk s) then toggleDisplaySleep E s
      else pressRelease E fnKeyCode s)"

text \<open>The time since the last function key, read at the start and stored before the dispatch.\<close>

definition fnRateLimit :: "u32 \<times> u32 \<Rightarrow> keyboard \<Rightarrow> bool" where
  "fnRateLimit t s =
     (let deltaSecs = fst t - lastEventSecs s
      in deltaSecs < 2 \<and> snd t + 1000000 * deltaSecs - lastEventMicrosecs s < 2000000)"

definition stampFnKey :: "u32 \<times> u32 \<Rightarrow> keyboard \<Rightarrow> keyboard" where
  "stampFnKey t s = s\<lparr>lastEventSecs := fst t, lastEventMicrosecs := snd t\<rparr>"

text \<open>processFnKeys with keyDown false, which the touchpad notifications use.\<close>

definition processFnKeysUp :: "kb_env \<Rightarrow> u8 \<Rightarrow> keyboard \<Rightarrow> keyboard" where
  "processFnKeysUp E keyCode s =
     (let t = microtime E (kb_asked s); s = asked s;
          (fnKeyCode, s) =
            (if keyCode = mediaPrev (fnk s) then (0, dispatchKeyboardKeyCode E 0x34 False s)
             else if keyCode = mediaNext (fnk s) then (0, dispatchKeyboardKeyCode E 0x40 False s)
             else if keyCode \<in> set [0x10, 0x20, 0x49, 0x4c] then (keyCode, s) else (0, s))
      in dispatchFnKey E fnKeyCode (stampFnKey t s))"

end
