(* ===== verification/Keyboard_Gestures.thy ===== *)
theory Keyboard_Gestures
  imports Keyboard_Keys
begin

text \<open>
  Notifications of the touchpad driver, which become keyboard shortcuts, the function keys, and the
  switches of touchpad features while shift and caps lock are held.
\<close>

section \<open>Shortcuts\<close>

text \<open>Modifiers are looked up at the positions the system preferences give them.\<close>

datatype modifier = Cmd | Ctrl | Alt | Shift

definition dispatchModifier :: "kb_env \<Rightarrow> bool \<Rightarrow> modifier \<Rightarrow> keyboard \<Rightarrow> keyboard" where
  "dispatchModifier E goingDown m s =
     (case m of Cmd \<Rightarrow> dispatchExtended E (commandKey s) goingDown s
      | Ctrl \<Rightarrow> dispatchExtended E (contrlKey s) goingDown s
      | Alt \<Rightarrow> dispatchExtended E (altkey s) goingDown s
      | Shift \<Rightarrow> dispatchKeyboardKeyCode E 0x38 goingDown s)"

definition shortcut :: "kb_env \<Rightarrow> modifier list \<Rightarrow> u8 \<Rightarrow> keyboard \<Rightarrow> keyboard" where
  "shortcut E ms k s =
     fold (dispatchModifier E False) (rev ms) (pressRelease E k (fold (dispatchModifier E True) ms s))"

definition releaseModifier :: "kb_env \<Rightarrow> modifier \<Rightarrow> keyboard \<Rightarrow> keyboard" where
  "releaseModifier E m s = dispatchModifier E False m (dispatchModifier E True m s)"

section \<open>The backlight notifications\<close>

definition initKeyboardBacklight :: "kb_env \<Rightarrow> keyboard \<Rightarrow> keyboard" where
  "initKeyboardBacklight E s =
     (let nvramValue = kbrdBackLightLvl s;
          (l, s) = readAsusKBlight E 0 s; s = s\<lparr>kbrdBackLightLvl := ucast l\<rparr>;
          s = setAsusKBlight E 0xEA s;
          s = (if nvramValue \<noteq> kbrdBackLightLvl s \<and> sint (kbrdBackLightLvl s) \<ge> 0 \<and> sint nvramValue \<ge> 0 then
                 (let s = (if sint nvramValue > 16 then s\<lparr>kbrdBackLightLvl := 1\<rparr> else s)
                  in setAsusKBlight E (kbrdBackLightLvl s) s)
               else (let (l, s) = readAsusKBlight E 0 s in s\<lparr>kbrdBackLightLvl := ucast l\<rparr>))
      in if sint (kbrdBackLightLvl s) > 0 then notify kPS2C_KeybrdBackLightOff s else s)"

definition receiveInitKeyboard :: "kb_env \<Rightarrow> keyboard \<Rightarrow> keyboard" where
  "receiveInitKeyboard E s =
     (let s = (case productName E of None \<Rightarrow> s
               | Some p \<Rightarrow> if strncmp_eq p ''Keyboard'' then happen SetProduct s else s)
      in if enabledAsusKBacklight s then initKeyboardBacklight E s else s)"

definition receiveBackLightOff :: "kb_env \<Rightarrow> keyboard \<Rightarrow> keyboard" where
  "receiveBackLightOff E s =
     (if enabledAsusKBacklight s then notify kPS2C_KeybrdBackLightToggleOff (setAsusKBlight E 0xED s) else s)"

definition receiveBackLightOn :: "kb_env \<Rightarrow> keyboard \<Rightarrow> keyboard" where
  "receiveBackLightOn E s =
     (if enabledAsusKBacklight s then
        (let (c, s) = readAsusKBlight E 0xFF s; clvl = (ucast c :: u8)
         in if clvl = 0xFD \<or> clvl = 0xED then
              (let (l, s) = readAsusKBlight E 0 s; s = s\<lparr>kbrdBackLightLvl := ucast l\<rparr>
               in if clvl > 0 then notify kPS2C_KeybrdBackLightToggleOn (setAsusKBlight E 0xEA s) else s)
            else s)
      else s)"

section \<open>The notifications\<close>

text \<open>The codes for which the positions of the modifiers are checked first.\<close>

definition checksModifiers :: "u32 \<Rightarrow> bool" where
  "checksModifiers datum \<longleftrightarrow> datum \<in> set
     [1, 2, 6, 7, 8, 9, 10, 11, 12, 13, 14, 15, 16, 18, 19, 20, 21, 22, 23, 24, 25, 26, 27, 28, 29, 30, 31, 32,
      36, 37, 38, 39, 40, 41, 53, 54, 55, 70, 71]"

definition extendedFunctionGesture :: "kb_env \<Rightarrow> nat \<Rightarrow> keyboard \<Rightarrow> keyboard" where
  "extendedFunctionGesture E i s =
     (let s = ProcessKeyCombinations E (fx s ! i) True True s
      in ProcessKeyCombinations E (fx s ! i) False True s)"

text \<open>The gestures, in the order of the cases of the source.\<close>

definition receiveGesture :: "kb_env \<Rightarrow> u32 \<Rightarrow> keyboard \<Rightarrow> keyboard" where
  "receiveGesture E datum s =
     (if datum = kPS2C_ReleaseCmdKey then
        (releaseModifier E Cmd (dispatchModifier E False Cmd s))\<lparr>releaseGestureKey := False\<rparr>
      else if datum = kPS2C_ZoomPlus then releaseModifier E Cmd (shortcut E [Cmd] 0x45 s)
      else if datum = kPS2C_ZoomMinus then releaseModifier E Cmd (shortcut E [Cmd] 0x4e s)
      else if datum = kPS2C_Gesture_ZoomReset \<or> datum = kPS2C_ZoomReset then
        releaseModifier E Cmd (shortcut E [Cmd] 0x1d s)
      else if datum = kPS2C_RotateLeft then releaseModifier E Cmd (shortcut E [Cmd] 0x25 s)
      else if datum = kPS2C_RotateRight then releaseModifier E Cmd (shortcut E [Cmd] 0x0f s)
      else if datum = kPS2C_Gesture_AppSwitch then
        (pressRelease E 0x30 (dispatchModifier E True Cmd s))\<lparr>releaseGestureKey := True\<rparr>
      else if datum = kPS2C_Gesture_AppClose then
        releaseModifier E Cmd (shortcut E [Cmd] (letterQ (prefs s)) s)
      else if datum = kPS2C_Gesture_Launchpad then
        (if osxVersion s < 12 then pressRelease E 131 s else shortcut E [Cmd, Ctrl, Shift] 0x25 s)
      else if datum = kPS2C_Gesture_MissionControl then
        (if osxVersion s < 12 then pressRelease E 160 s else shortcut E [Ctrl] 0x7e s)
      else if datum = kPS2C_Gesture_Dashboard then
        (if osxVersion s < 12 then pressRelease E 130 s else pressRelease E 0x6f s)
      else if datum = kPS2C_Gesture_DesktopSwitchLeft then
        releaseModifier E Ctrl (shortcut E [Ctrl] 0x7b s)
      else if datum = kPS2C_Gesture_DesktopSwitchRight then
        releaseModifier E Ctrl (shortcut E [Ctrl] 0x7c s)
      else if datum = kPS2C_Gesture_AppWindows then
        (if osxVersion s < 12 then releaseModifier E Ctrl (shortcut E [Ctrl] 0xa0 s)
         else shortcut E [Cmd, Ctrl, Shift] 0x00 s)
      else if datum = kPS2C_Gesture_Minimize then
        releaseModifier E Cmd (shortcut E [Cmd] (letterM (prefs s)) s)
      else if datum = kPS2C_Gesture_FullScreen then
        releaseModifier E Ctrl
          (if keyboardTypeID (prefs s) = 0x30 \<or> keyboardTypeID (prefs s) = 0x31
           then shortcut E [Alt, Cmd] 0x03 s else shortcut E [Ctrl, Cmd] 0x03 s)
      else if datum = kPS2C_Gesture_Backward then
        (if keyboardTypeID (prefs s) = 0x30 \<or> keyboardTypeID (prefs s) = 0x31 \<or> keyboardTypeID (prefs s) = 0x34
         then shortcut E [Cmd, Alt] (ISOLSquareBracket (prefs s)) s
         else if keyboardTypeID (prefs s) = 0x32 then shortcut E [Ctrl] 0x7b s
         else shortcut E [Cmd] (ISOLSquareBracket (prefs s)) s)
      else if datum = kPS2C_Gesture_Forward then
        (if keyboardTypeID (prefs s) = 0x30 \<or> keyboardTypeID (prefs s) = 0x31 \<or> keyboardTypeID (prefs s) = 0x34
         then shortcut E [Cmd, Alt] (ISORSquareBracket (prefs s)) s
         else if keyboardTypeID (prefs s) = 0x32 then shortcut E [Ctrl] 0x7c s
         else shortcut E [Cmd] (ISORSquareBracket (prefs s)) s)
      else if datum = kPS2C_Gesture_Desktop then
        (if osxVersion s < 12 then releaseModifier E Cmd (shortcut E [Cmd] 0xa0 s) else pressRelease E 0x67 s)
      else if datum = kPS2C_Gesture_NC_Shortcut then
        releaseModifier E Cmd (shortcut E [Cmd, Ctrl, Shift] 0x2d s)
      else if datum = kPS2C_Gesture_GetInfo then releaseModifier E Cmd (shortcut E [Cmd] 0x22 s)
      else if datum = kPS2C_Gesture_ToggleDock then releaseModifier E Alt (shortcut E [Alt, Cmd] 0x02 s)
      else if datum = kPS2C_Gesture_Finder then releaseModifier E Alt (shortcut E [Alt, Cmd] 0x31 s)
      else if datum = kPS2C_Gesture_ForceQuit then releaseModifier E Alt (shortcut E [Alt, Cmd] 0x35 s)
      else if kPS2C_ExtFunF13 \<le> datum \<and> datum \<le> kPS2C_ExtFunF24 then
        extendedFunctionGesture E (unat (datum - kPS2C_ExtFunF13)) s
      else s)"

definition receiveTouchpadNotifications :: "kb_env \<Rightarrow> u32 \<Rightarrow> keyboard \<Rightarrow> keyboard" where
  "receiveTouchpadNotifications E datum s =
     (let s = (if osxVersion s = 0 then s\<lparr>osxVersion := ucast datum\<rparr> else s);
          s = (if checksModifiers datum then readKeyboardModifiers E s else s)
      in if datum = kPS2C_BrightnessDown then processFnKeysUp E 0x20 s
         else if datum = kPS2C_BrightnessUp then processFnKeysUp E 0x10 s
         else if datum = kPS2C_CNTRLKeyDown then
           (let s = readKeyboardModifiers E s in dispatchNormal E (contrlKey s) True s)
         else if datum = kPS2C_CNTRLKeyUp then
           (let s = readKeyboardModifiers E s
            in releaseModifier E Ctrl (dispatchNormal E (contrlKey s) False s))
         else if datum = kPS2C_EnableAsusKBacklight then s\<lparr>enabledAsusKBacklight := True\<rparr>
         else if datum = kPS2C_EnableAsusKBacklight16Levels then s\<lparr>asusKBHas16LevelSupport := True\<rparr>
         else if datum = kPS2C_InitKeyboard then receiveInitKeyboard E s
         else if datum = kPS2C_KeybrdBackLightOff then receiveBackLightOff E s
         else if datum = kPS2C_KeybrdBackLightOn then receiveBackLightOn E s
         else if datum = kPS2C_ESC then pressRelease E 0x35 s
         else if datum = kPS2C_EnableTouchpad then s\<lparr>isTPadEnabled := True\<rparr>
         else if datum = kPS2C_OSXVersionNotify then s\<lparr>osxVersion := 0\<rparr>
         else receiveGesture E datum s)"

section \<open>Function keys\<close>

text \<open>
  Brightness on a machine with the Asus panel driver. The level counts from 0, so the table of
  repetitions is only ever read at 0 and 1.
\<close>

definition asusLoopCount :: "u8 \<Rightarrow> u8 \<Rightarrow> nat" where
  "asusLoopCount levels bLevel =
     (if levels = 0x0B then
        (if bLevel = 11 \<or> bLevel = 10 then 3 else if bLevel = 9 \<or> bLevel = 8 then 2 else 1)
      else 1)"

definition brightnessKey :: "kb_env \<Rightarrow> u8 \<Rightarrow> keyboard \<Rightarrow> u8 \<times> keyboard" where
  "brightnessKey E keyCode s =
     (let up = (keyCode = brightNessUp (fnk s)); panel = asusPanelLevels E (kb_asked s); s = asked s
      in case panel of
           None \<Rightarrow> (if up then 0x10 else 0x20, s)
         | Some levels \<Rightarrow>
             (let s = s\<lparr>prefs := (prefs s)\<lparr>useFinerBrightnesCtrl := False\<rparr>\<rparr>;
                  bLevel = (if up then 1 else 0); fnKeyCode = (if up then 0x4d else 0x4f)
              in (0, (pressRelease E fnKeyCode ^^ asusLoopCount levels bLevel) s)))"

definition fnKeyDown :: "kb_env \<Rightarrow> u8 \<Rightarrow> bool \<Rightarrow> keyboard \<Rightarrow> u8 \<times> keyboard" where
  "fnKeyDown E keyCode rateLimit s =
     (let k = fnk s; backlight = (\<lambda>up. let (l, s) = readAsusKBlight E 0 (processAsusKBacklight E up s)
                                    in s\<lparr>kbrdBackLightLvl := ucast l\<rparr>)
      in if keyCode = kbrdBrightnessDown k \<and> enabledAsusKBacklight s then (0, backlight False)
         else if keyCode = kbrdBrightnessUp k \<and> enabledAsusKBacklight s then (0, backlight True)
         else if keyCode = mediaPrev k then (0, dispatchKeyboardKeyCode E 0x34 True s)
         else if keyCode = mediaNext k then (0, dispatchKeyboardKeyCode E 0x40 True s)
         else if keyCode = brightNessDown k \<or> keyCode = brightNessUp k then brightnessKey E keyCode s
         else if keyCode = sleepKey k \<and> \<not> rateLimit then (0, processFnkeySleep E s)
         else if keyCode = missonCtlFun k \<and> (\<not> enabledAsusKBacklight s \<or> keyCode \<noteq> kbrdBrightnessDown k) then
           (0, receiveTouchpadNotifications E kPS2C_Gesture_MissionControl s)
         else if keyCode = launchpadFun k \<and> (\<not> enabledAsusKBacklight s \<or> keyCode \<noteq> kbrdBrightnessUp k) then
           (0, receiveTouchpadNotifications E kPS2C_Gesture_Launchpad s)
         else if keyCode = videoMirror k then (0x50, s)
         else if keyCode = dispSleep k \<and> \<not> rateLimit then (dispSleep k, s)
         else if keyCode = touchpadKey k then (0, toggleTPad s)
         else if keyCode = volMute k then (0x4a, s)
         else if keyCode = volDown k then (0x49, s)
         else if keyCode = volUp k then (0x4c, s)
         else if keyCode = mediaPlay k then (0x42, s)
         else (0, s))"

definition processFnKeys :: "kb_env \<Rightarrow> u8 \<Rightarrow> bool \<Rightarrow> keyboard \<Rightarrow> keyboard" where
  "processFnKeys E keyCode keyDown s =
     (if keyDown then
        (let t = microtime E (kb_asked s);
             (fnKeyCode, s) = fnKeyDown E keyCode (fnRateLimit t s) (asked s)
         in dispatchFnKey E fnKeyCode (stampFnKey t s))
      else processFnKeysUp E keyCode s)"

section \<open>Touchpad features\<close>

definition featureNotification :: "u8 \<Rightarrow> u32" where
  "featureNotification keyCode =
     (if keyCode = 0x1e then kPS2C_ScrollLock_Auto else if keyCode = 0x17 then kPS2C_ScrollLock_Inertia
      else if keyCode = 0x2e then kPS2C_ScrollLock_Continuous else if keyCode = 0x1f then kPS2C_EdgeScroll
      else if keyCode = 0x12 then kPS2C_Gestures_1FSwipes else if keyCode = 0x14 then kPS2C_Gestures_DoubleTaps
      else if keyCode = 0x32 then kPS2C_Gestures_3FSwipes else if keyCode = 0x10 then kPS2C_Gestures_Rotate
      else if keyCode = 0x2c then kPS2C_Gestures_Zoom else if keyCode = 0x01 then kPS2C_RestoreTouchpad
      else 0)"

definition isFeatureKey :: "u8 \<Rightarrow> bool" where
  "isFeatureKey keyCode \<longleftrightarrow> featureNotification keyCode \<noteq> 0 \<or>
     keyCode \<in> set [0x20, 0x2d, 0x25, 0x21, 0x2f, 0x30]"

text \<open>The switches of the keyboard driver itself.\<close>

definition nextFnKeysMode :: "kb_env \<Rightarrow> keyboard \<Rightarrow> keyboard" where
  "nextFnKeysMode E s =
     (let m = fnKeysModeNum (prefs s); m = (if m < 3 then m + 1 else if m = 3 then 1 else m);
          s = s\<lparr>prefs := (prefs s)\<lparr>fnKeysModeNum := m\<rparr>\<rparr>;
          s = (if m < 2 then s\<lparr>fnk := (fnk s)\<lparr>sleepKey := 0\<rparr>\<rparr> else s);
          s = (if m \<noteq> 0 then ReadFnKeyConfig E s else s)
      in if fnKeysModeNum (prefs s) = 3 then ReadFnKeyLayout E s else s)"

definition toggleOwnFeature :: "kb_env \<Rightarrow> u8 \<Rightarrow> bool \<Rightarrow> keyboard \<Rightarrow> keyboard" where
  "toggleOwnFeature E keyCode goingDown s =
     (if keyCode = 0x20 then (if goingDown then s\<lparr>kb_debug := \<not> kb_debug s\<rparr> else s)
      else if keyCode = 0x2d then
        (let s = (if goingDown
                  then s\<lparr>prefs := (prefs s)\<lparr>hasExtendFunctions := \<not> hasExtendFunctions (prefs s)\<rparr>\<rparr> else s)
         in if hasExtendFunctions (prefs s) then ReadExtendedFunctionsConfig E s else s)
      else if keyCode = 0x25 then
        (if goingDown then s\<lparr>prefs := (prefs s)\<lparr>macintoshMode := \<not> macintoshMode (prefs s)\<rparr>\<rparr> else s)
      else if keyCode = 0x21 then
        (if fnKeysModeNum (prefs s) \<noteq> 0 \<and> goingDown then nextFnKeysMode E s else s)
      else if keyCode = 0x2f then
        (if goingDown then s\<lparr>prefs := (prefs s)\<lparr>useFinerVolumeCtrl := \<not> useFinerVolumeCtrl (prefs s)\<rparr>\<rparr> else s)
      else if keyCode = 0x30 then
        (if goingDown
         then s\<lparr>prefs := (prefs s)\<lparr>useFinerBrightnesCtrl := \<not> useFinerBrightnesCtrl (prefs s)\<rparr>\<rparr> else s)
      else s)"

definition ToggleTouchpadFeatures :: "kb_env \<Rightarrow> u8 \<Rightarrow> bool \<Rightarrow> keyboard \<Rightarrow> keyboard" where
  "ToggleTouchpadFeatures E keyCode goingDown s =
     (let s = toggleOwnFeature E keyCode goingDown s; feature = featureNotification keyCode
      in if isFeatureKey keyCode then
           (if goingDown then
              setAlphaLockFeedback True (if feature \<noteq> 0 then notify feature s else s)
            else setAlphaLockFeedback False s)
         else s)"

end
