(* ===== verification/Keyboard_Scan.thy ===== *)
theory Keyboard_Scan
  imports Keyboard_Gestures
begin

text \<open>
  The scan code parser of the keyboard driver, dispatchKeyboardEventWithScancode, in the order of its
  parts: translation of a normal or an extended code, update of the key states, special keys, function
  key combinations, the feature toggle mode, and the dispatch. A part returns the key code it leaves, 0
  to stop. The local variable goingDown is read before it is set when a part before the update stops;
  \<open>garbage\<close> is what it holds then.
\<close>

section \<open>Translation\<close>

abbreviation scanUp :: "u8 \<Rightarrow> bool" where "scanUp scanCode \<equiv> scanCode AND kSC_UpBit \<noteq> 0"

definition numpadKeys :: "u8 list" where
  "numpadKeys = [0x47, 0x48, 0x49, 0x4b, 0x4c, 0x4d, 0x4f, 0x50, 0x51, 0x52, 0x53]"

text \<open>The numpad '.' key of Italian, Spanish and French keyboards.\<close>

definition numpadDot :: "kb_env \<Rightarrow> u8 \<Rightarrow> keyboard \<Rightarrow> u8 \<times> keyboard" where
  "numpadDot E scanCode s =
     (if keyboardTypeID (prefs s) = 0x31 then (if \<not> makeKeyDotAsComma (prefs s) then 0x34 else 0x53, s)
      else if keyboardTypeID (prefs s) = 0x32 \<or> keyboardTypeID (prefs s) = 0x34 then
        (if makeKeyDotAsComma (prefs s) then (0x53, s)
         else (0x33, dispatchKeyboardKeyCode E 0x3c (\<not> scanUp scanCode) s))
      else (0x53, s))"

definition normalCode :: "kb_env \<Rightarrow> u8 \<Rightarrow> u8 \<Rightarrow> keyboard \<Rightarrow> u8 \<times> keyboard" where
  "normalCode E scanCode keyCode s =
     (let s = s\<lparr>extendedCode := False\<rparr>; goingDown = (\<not> scanUp scanCode); mac = macintoshMode (prefs s)
      in if keyCode \<in> set [0x08, 0x09, 0x0a, 0x0b, 0x0c, 0x1b, 0x10, 0x56] then
           (if held (altkey s) s \<and> keyboardTypeID (prefs s) = 0x30
            then MapGermanTurkishKeyboardLayout E keyCode goingDown s else (keyCode, s))
         else if keyCode = 0x3e then
           (if held (altkey s) s \<and> \<not> mac \<or> held (commandKey s) s \<and> mac then
              (0, if goingDown then receiveTouchpadNotifications E kPS2C_Gesture_AppClose s else s)
            else (keyCode, s))
         else if keyCode = 0x19 then
           (if held (commandKey s) s \<and> \<not> mac \<or> held (altkey s) s \<and> mac then
              (0, if goingDown then pressRelease E 0x50 s else s)
            else (keyCode, s))
         else if keyCode = 0x0f then
           (if held (commandKey s) s \<and> mac \<or> held (altkey s) s \<and> \<not> mac then
              (0, if goingDown then
                    (let s = (if held (contrlKey s) s then dispatchNormal E (contrlKey s) False s else s);
                         s = pressRelease E 0x30 s
                     in if held (contrlKey s) s then dispatchNormal E (contrlKey s) True s else s)
                  else s)
            else (keyCode, s))
         else if keyCode = 0x3a then (if capsKey (prefs s) \<noteq> 0 then capsKey (prefs s) else keyCode, s)
         else if keyCode = 0x38 then (if mac then (0x5b, s\<lparr>extendedCode := True\<rparr>) else (keyCode, s))
         else if keyCode \<in> set numpadKeys then
           (if \<not> isNumPadLocked s then (keyCode, s\<lparr>extendedCode := True\<rparr>)
            else if keyCode = 0x53 then numpadDot E scanCode s else (keyCode, s))
         else if keyCode = 0x65 then (if fnKeysVendorLayout (prefs s) = GIGABYTE then 0 else keyCode, s)
         else (keyCode, s))"

text \<open>Brightness and volume keys that have scan codes of their own.\<close>

definition hardwareFnKeys :: "u8 list" where
  "hardwareFnKeys = [0x02, 0x08, 0x09, 0x4e, 0x05, 0x06, 0x12, 0x17, 0x6f, 0x6e, 0x77, 0x78, 0x20, 0x2e, 0x30]"

definition hardwareFnKey :: "kb_env \<Rightarrow> u8 \<Rightarrow> u8 \<Rightarrow> keyboard \<Rightarrow> keyboard" where
  "hardwareFnKey E scanCode keyCode s =
     (let k = (if asusFnKeyWorkAsFunction s then
                 (if keyCode = 0x20 then 0x44 else if keyCode = 0x2e then 0x57
                  else if keyCode = 0x30 then 0x58 else keyCode)
               else extendedMap s ! unat keyCode)
      in if scanUp scanCode then s
         else if k = 0x4d \<and> useFinerBrightnesCtrl (prefs s) then processFnKeys E 0x10 False s
         else if k = 0x4f \<and> useFinerBrightnesCtrl (prefs s) then processFnKeys E 0x20 False s
         else if k = 0x48 \<and> useFinerVolumeCtrl (prefs s) then processFnKeys E 0x4c False s
         else if k = 0x49 \<and> useFinerVolumeCtrl (prefs s) then processFnKeys E 0x49 False s
         else if k \<noteq> 0 then pressRelease E k s else s)"

text \<open>Print screen is command, shift and 4.\<close>

definition printScreen :: "kb_env \<Rightarrow> keyboard \<Rightarrow> keyboard" where
  "printScreen E s =
     (let s = dispatchExtended E (commandKey s) True s;
          s = dispatchKeyboardKeyCode E 0x38 True s;
          s = dispatchKeyboardKeyCode E 0x15 True s;
          s = dispatchKeyboardKeyCode E 0x15 False s;
          s = dispatchKeyboardKeyCode E 0x38 False s
      in dispatchExtended E (commandKey s) False s)"

definition extendedCodeKey :: "kb_env \<Rightarrow> u8 \<Rightarrow> u8 \<Rightarrow> keyboard \<Rightarrow> u8 \<times> keyboard" where
  "extendedCodeKey E scanCode keyCode s =
     (let goingDown = (\<not> scanUp scanCode); p = prefs s
      in if keyCode \<in> set hardwareFnKeys then (0, hardwareFnKey E scanCode keyCode s)
         else if keyCode = 0x32 \<or> keyCode = 0x59 then (0, if goingDown then toggleTPad s else s)
         else if keyCode = 0x33 \<or> keyCode = 0x5f then (0, if goingDown then processFnkeySleep E s else s)
         else if keyCode = 0x1d then (if rightCntrlKey p \<noteq> 0 then rightCntrlKey p else keyCode, s)
         else if keyCode = 0x38 then
           (if rightALTKey p \<noteq> 0 then rightALTKey p else if macintoshMode p then 0x5c else keyCode, s)
         else if keyCode = 0x5b then
           (if macintoshMode p then (0x38, s\<lparr>extendedCode := False\<rparr>) else (keyCode, s))
         else if keyCode = 0x5c then (if macintoshMode p then 0x38 else keyCode, s)
         else if keyCode = 0x53 then
           (if makeDelIntoCmdBspace p \<and> goingDown then
              (0, dispatchExtended E (commandKey s) False
                    (pressRelease E 0x33 (dispatchExtended E (commandKey s) True s)))
            else (keyCode, s))
         else if keyCode = 0x37 then (0, if goingDown \<and> \<not> displaySleep s then printScreen E s else s)
         else if keyCode = 0x46 then
           (keyCode, if goingDown then dispatchNormal E (contrlKey s) False s else s)
         else if keyCode = 0x2a then (0, s)
         else (keyCode, s))"

section \<open>Key states\<close>

text \<open>A brightness or volume key that repeats while it is held; alt must come with shift.\<close>

definition fnModifiersOk :: "keyboard \<Rightarrow> bool" where
  "fnModifiersOk s \<longleftrightarrow> \<not> held (contrlKey s) s \<and> \<not> held (commandKey s) s \<and>
     (\<not> held (altkey s) s \<or> held (altkey s) s \<and> (held 0x2a s \<or> held 0x36 s))"

definition repeats :: "u8 \<Rightarrow> keyboard \<Rightarrow> bool" where
  "repeats keyCode s \<longleftrightarrow>
     (keyCode = brightNessDown (fnk s) \<or> keyCode = brightNessUp (fnk s) \<or> keyCode = volDown (fnk s) \<or>
      keyCode = volUp (fnk s)) \<and> \<not> isNumPadKey s \<and> \<not> displaySleep s \<and> fnModifiersOk s"

text \<open>The new key states, or None for a repetition that is discarded.\<close>

definition updateKey :: "u8 \<Rightarrow> bool \<Rightarrow> keyboard \<Rightarrow> keyboard option" where
  "updateKey keyCode goingDown s =
     (if goingDown then
        (if held keyCode s \<and> \<not> repeats keyCode s then None
         else Some (s\<lparr>keyBitVector := KBV_KEYDOWN keyCode (keyBitVector s)\<rparr>))
      else Some (s\<lparr>keyBitVector := KBV_KEYUP keyCode (keyBitVector s)\<rparr>))"

definition extendedFunctionKey :: "kb_env \<Rightarrow> u8 \<Rightarrow> bool \<Rightarrow> keyboard \<Rightarrow> bool \<times> keyboard" where
  "extendedFunctionKey E keyCode goingDown s =
     (if hasExtendFunctions (prefs s) \<and> \<not> featureToggleMode s \<and> (held 0x2a s \<or> held 0x36 s) \<and>
         keyCode \<noteq> 0x2a \<and> keyCode \<noteq> 0x36 \<and> \<not> held (altkey s) s \<and> \<not> held (contrlKey s) s \<and>
         \<not> held (commandKey s) s
      then ProcessExtendedFunctions E keyCode goingDown s else (False, s))"

section \<open>Special keys\<close>

definition enterToggleMode :: "kb_env \<Rightarrow> keyboard \<Rightarrow> keyboard" where
  "enterToggleMode E s =
     (let s = notify kPS2C_ShowTouchPressureWidth (s\<lparr>featureToggleMode := True\<rparr>);
          s = dispatchKeyboardKeyCode E 0x38 False (s\<lparr>releaseGestureKey := False\<rparr>)
      in notify kPS2C_ESC s)"

definition numLockKey :: "kb_env \<Rightarrow> bool \<Rightarrow> keyboard \<Rightarrow> u8 \<times> keyboard" where
  "numLockKey E goingDown s =
     (if \<not> extendedCode s then
        (if makeNumLockAsClear (prefs s) then (0x45, setNumLockFeedback goingDown s)
         else (0, if goingDown then
                    (let s = s\<lparr>isNumPadLocked := \<not> isNumPadLocked s\<rparr>
                     in setNumLockFeedback (isNumPadLocked s) s)
                  else s))
      else (if fnKeysModeNum (prefs s) > 1 then 0x5d else 0x45, s))"

definition escapeKey :: "kb_env \<Rightarrow> u8 \<Rightarrow> keyboard \<Rightarrow> keyboard" where
  "escapeKey E keyCode s =
     (let s = (if releaseGestureKey s \<or> keyCode = 0x01 then
                 (let s = (if held (commandKey s) s then dispatchExtended E (commandKey s) False s else s)
                  in (notify kPS2C_ESC s)\<lparr>releaseGestureKey := False\<rparr>)
               else s)
      in s\<lparr>isAccInputExceptionKey := True\<rparr>)"

definition leftShiftKey :: "kb_env \<Rightarrow> bool \<Rightarrow> keyboard \<Rightarrow> keyboard" where
  "leftShiftKey E goingDown s =
     (let s = (if goingDown then
                 (if held 0x3a s then
                    setAlphaLockFeedback False ((enterToggleMode E s)\<lparr>isCapsLocked := False\<rparr>)
                  else (notify kPS2C_ShiftKey s)\<lparr>releaseGestureKey := True\<rparr>)
               else if \<not> featureToggleMode s then notify kPS2C_ESC s else s)
      in s\<lparr>isAccInputExceptionKey := True\<rparr>)"

definition capsLockKey :: "kb_env \<Rightarrow> bool \<Rightarrow> keyboard \<Rightarrow> keyboard" where
  "capsLockKey E goingDown s =
     (let s = readKeyboardModifiers E s;
          s = (if held 0x2a s \<and> goingDown then setAlphaLockFeedback False (enterToggleMode E s)
               else if osxVersion s > 11 \<and> \<not> featureToggleMode s \<and> fixSierraCapsLockBug (prefs s) then
                 (let s = dispatchKeyboardKeyCode E 0x39 goingDown (dispatchKeyboardKeyCode E 0x39 goingDown s)
                  in if \<not> goingDown then
                       (let s = s\<lparr>isCapsLocked := \<not> isCapsLocked s\<rparr>
                        in setAlphaLockFeedback (isCapsLocked s) (happen (SetAlphaLock (isCapsLocked s)) s))
                     else s)
               else s\<lparr>isCapsLocked := \<not> isCapsLocked s\<rparr>)
      in s\<lparr>isAccInputExceptionKey := True\<rparr>)"

definition contextMenuKey :: "kb_env \<Rightarrow> bool \<Rightarrow> keyboard \<Rightarrow> u8 \<times> keyboard" where
  "contextMenuKey E goingDown s =
     (if rightCtxtMKey (prefs s) = 0x5c then (if macintoshMode (prefs s) then 0x38 else 0x5c, s)
      else if rightCtxtMKey (prefs s) = 0x54 \<and> fnKeysModeNum (prefs s) > 1 then
        (0x54, if goingDown then s\<lparr>isFnKeyPressed := True\<rparr>
               else (let s = s\<lparr>isFnKeyPressed := False\<rparr>
                     in if isNumPadLocked s \<and> \<not> displaySleep s then generateAndSeeADBCode E 0x5d goingDown s
                        else s))
      else (rightCtxtMKey (prefs s), s))"

definition numpadKey :: "kb_env \<Rightarrow> u8 \<Rightarrow> bool \<Rightarrow> keyboard \<Rightarrow> keyboard" where
  "numpadKey E keyCode goingDown s =
     (let s = (if \<not> extendedCode s then
                 (let s = s\<lparr>isNumPadKey := True\<rparr>
                  in if isFnKeyPressed s \<and> isNumPadLocked s \<and> goingDown \<and> keyCode \<noteq> 0x53 \<and> \<not> displaySleep s
                     then generateAndSeeADBCode E keyCode goingDown s else s)
               else s\<lparr>isNumPadKey := False\<rparr>)
      in s\<lparr>isAccInputExceptionKey := True\<rparr>)"

definition specialKey :: "kb_env \<Rightarrow> u8 \<Rightarrow> bool \<Rightarrow> keyboard \<Rightarrow> u8 \<times> keyboard" where
  "specialKey E keyCode goingDown s =
     (if keyCode = 0x3d then
        (if isFnKeyPressed s \<and> (held (contrlKey s) s \<or> held (commandKey s) s) then
           (0, if goingDown then receiveTouchpadNotifications E kPS2C_Gesture_MissionControl s else s)
         else (keyCode, s))
      else if keyCode = 0x45 then numLockKey E goingDown s
      else if keyCode = 0x46 then
        (keyCode, if \<not> extendedCode s \<and> goingDown then
           (if held (altkey s) s then notify kPS2C_ScrollLock_Continuous s
            else notify kPS2C_ScrollLock_Inertia s) else s)
      else if keyCode = 0x1c \<or> keyCode = 0x39 \<or> keyCode = 0x01 then (keyCode, escapeKey E keyCode s)
      else if keyCode = 0x2a then (keyCode, leftShiftKey E goingDown s)
      else if keyCode = 0x3a then (keyCode, capsLockKey E goingDown s)
      else if keyCode = 0x5d then contextMenuKey E goingDown s
      else if keyCode \<in> set [0x1d, 0x5b, 0x5c, 0x38] then
        (keyCode, (readKeyboardModifiers E s)\<lparr>isAccInputExceptionKey := True\<rparr>)
      else if keyCode \<in> set [0x36, 0x0f, 0x0e, 0x37, 0x4a, 0x4e, 0x35] then
        (keyCode, s\<lparr>isAccInputExceptionKey := True\<rparr>)
      else if keyCode \<in> set numpadKeys then (keyCode, numpadKey E keyCode goingDown s)
      else (keyCode, if held (commandKey s) s then s\<lparr>isAccInputExceptionKey := True\<rparr>
                     else s\<lparr>isNumPadKey := False, isAccInputExceptionKey := False\<rparr>))"

section \<open>Function key combinations and the feature toggle mode\<close>

definition fnKeyCodes :: "fn_keys \<Rightarrow> u8 list" where
  "fnKeyCodes k = [brightNessDown k, brightNessUp k, kbrdBrightnessDown k, kbrdBrightnessUp k, sleepKey k,
     missonCtlFun k, launchpadFun k, dispSleep k, videoMirror k, touchpadKey k, volMute k, volDown k, volUp k,
     mediaPrev k, mediaPlay k, mediaNext k]"

definition fnCombination :: "u8 \<Rightarrow> keyboard \<Rightarrow> bool" where
  "fnCombination keyCode s \<longleftrightarrow> keyCode \<in> set (fnKeyCodes (fnk s)) \<and> \<not> isNumPadKey s \<and>
     (\<not> displaySleep s \<or> keyCode = dispSleep (fnk s)) \<and> fnModifiersOk s"

definition featureToggle :: "kb_env \<Rightarrow> u8 \<Rightarrow> bool \<Rightarrow> keyboard \<Rightarrow> keyboard" where
  "featureToggle E keyCode goingDown s =
     (if held 0x2a s \<and> held 0x3a s then
        (if isFnKeyComb s \<and> makeShiftCapsAsFn (prefs s) then
           (if fnKeysModeNum (prefs s) = 1 then dispatchADB E keyCode goingDown s
            else if fnKeysModeNum (prefs s) = 2 \<or> fnKeysModeNum (prefs s) = 3
            then processFnKeys E keyCode goingDown s else s)
         else ToggleTouchpadFeatures E keyCode goingDown s)
      else if \<not> held 0x2a s \<and> \<not> held 0x3a s then
        notify kPS2C_ShowTouchPressureWidth
          ((setAlphaLockFeedback (isCapsLocked s) s)\<lparr>featureToggleMode := False\<rparr>)
      else s)"

section \<open>Dispatch\<close>

text \<open>
  The touchpad driver is told of modifier changes. Bits of _modifierKeystate: 7 controlling feature, 6
  alternate function, 1 control, 0 command.
\<close>

definition modifierNotifications :: "keyboard \<Rightarrow> keyboard" where
  "modifierNotifications s =
     (let m = modifierKeystate s; cmd = held (commandKey s) s; ctrl = held (contrlKey s) s;
          alt = held (altkey s) s
      in if m AND 0x80 = 0 \<and> cmd \<and> ctrl \<and> alt then
           (notify kPS2C_CNTRL_Feature_on s)\<lparr>controllingFeature := True, modifierKeystate := m AND 0xBF OR 0x80\<rparr>
         else if m AND 0x80 \<noteq> 0 \<and> (\<not> cmd \<or> \<not> ctrl \<or> \<not> alt) then
           (notify kPS2C_CNTRL_Feature_off s)\<lparr>controllingFeature := False, modifierKeystate := m AND 0x7F\<rparr>
         else if m AND 0x60 = 0 \<and> cmd \<and> alt then
           (notify kPS2C_ALT_Funtion_on s)\<lparr>altFunctionEnabled := True, modifierKeystate := m OR 0x60\<rparr>
         else if m AND 0x80 \<noteq> 0 \<and> \<not> cmd \<and> \<not> alt then
           (notify kPS2C_ALT_Funtion_off s)\<lparr>altFunctionEnabled := False, modifierKeystate := m AND 0xBF\<rparr>
         else if m AND 0x01 = 0 \<and> cmd then
           (notify kPS2C_CMDKeyDown s)\<lparr>modifierKeystate := m OR 0x01\<rparr>
         else if m AND 0x01 \<noteq> 0 \<and> \<not> cmd then
           (notify kPS2C_CMDKeyUp s)\<lparr>modifierKeystate := m AND 0xFE\<rparr>
         else if m AND 0x02 = 0 \<and> ctrl then
           (notify kPS2C_CNTRLKeyDown s)\<lparr>modifierKeystate := m OR 0x02\<rparr>
         else if m AND 0x02 \<noteq> 0 \<and> \<not> ctrl then
           (notify kPS2C_CNTRLKeyUp s)\<lparr>modifierKeystate := m AND 0xFD\<rparr>
         else s)"

definition isModifierKey :: "u8 \<Rightarrow> keyboard \<Rightarrow> bool" where
  "isModifierKey keyCode s \<longleftrightarrow> keyCode = commandKey s \<or> keyCode = altkey s \<or> keyCode = contrlKey s \<or>
     keyCode = 0x54 \<or> keyCode = 0x5d \<and> \<not> isFnKeyPressed s \<or> keyCode = 0x2a \<or> keyCode = 0x36"

definition modifierKey :: "kb_env \<Rightarrow> u8 \<Rightarrow> bool \<Rightarrow> keyboard \<Rightarrow> keyboard" where
  "modifierKey E keyCode goingDown s =
     (let s = modifierNotifications s
      in if keyCode = 0x5d then (if goingDown then notify kPS2C_DoContextMenu s else s)
         else dispatchADB E keyCode goingDown s)"

definition normalKey :: "kb_env \<Rightarrow> u8 \<Rightarrow> bool \<Rightarrow> keyboard \<Rightarrow> keyboard" where
  "normalKey E keyCode goingDown s =
     (let s = dispatchADB E keyCode goingDown s
      in if goingDown \<and> \<not> isAccInputExceptionKey s \<and> \<not> isNumPadKey s \<and> isTPadEnabled s
         then notify kPS2C_AccidentalInput s
         else if (isAccInputExceptionKey s \<or> isNumPadKey s) \<and> isTPadEnabled s
         then notify kPS2C_EnableTouchpad s else s)"

definition dispatchKey :: "kb_env \<Rightarrow> u8 \<Rightarrow> bool \<Rightarrow> keyboard \<Rightarrow> keyboard" where
  "dispatchKey E keyCode goingDown s =
     (if isFnKeyComb s \<and> (isFnKeyPressed s \<or> fnKeysModeNum (prefs s) = 1)
      then processFnKeys E keyCode goingDown s
      else if \<not> displaySleep s \<and> isModifierKey keyCode s then modifierKey E keyCode goingDown s
      else if \<not> displaySleep s \<and> \<not> isFnKeyPressed s then normalKey E keyCode goingDown s
      else s)"

section \<open>The parser\<close>

text \<open>A key whose code is known and whose state has been updated.\<close>

definition handleKey :: "kb_env \<Rightarrow> u8 \<Rightarrow> bool \<Rightarrow> keyboard \<Rightarrow> keyboard" where
  "handleKey E keyCode goingDown s =
     (let (stop, s) = extendedFunctionKey E keyCode goingDown s
      in if stop then dispatchKeyboardBacklightNotification goingDown s
         else
           (let (keyCode, s) = specialKey E keyCode goingDown s;
                s = s\<lparr>isFnKeyComb := fnCombination keyCode s\<rparr>;
                (keyCode, s) = (if featureToggleMode s then (0, featureToggle E keyCode goingDown s)
                                else (keyCode, s))
            in dispatchKeyboardBacklightNotification goingDown
                 (if keyCode = 0 then s else dispatchKey E keyCode goingDown s)))"

definition parseKey :: "kb_env \<Rightarrow> bool \<Rightarrow> u8 \<Rightarrow> u8 \<times> keyboard \<Rightarrow> keyboard" where
  "parseKey E garbage scanCode r =
     (let (keyCode, s) = r; goingDown = (\<not> scanUp scanCode)
      in if keyCode = 0 then dispatchKeyboardBacklightNotification garbage s
         else case updateKey keyCode goingDown s of
           None \<Rightarrow> dispatchKeyboardBacklightNotification goingDown s
         | Some s \<Rightarrow> handleKey E keyCode goingDown s)"

definition dispatchKeyboardEventWithScancode :: "kb_env \<Rightarrow> bool \<Rightarrow> u8 \<Rightarrow> keyboard \<Rightarrow> keyboard" where
  "dispatchKeyboardEventWithScancode E garbage scanCode s =
     (if scanCode = kSC_Extend then s\<lparr>extendCount := 1\<rparr>
      else if scanCode = kSC_Pause then s\<lparr>extendCount := 2\<rparr>
      else let keyCode = scanCode AND NOT kSC_UpBit
           in if extendCount s = 0 then parseKey E garbage scanCode (normalCode E scanCode keyCode s)
              else let s = s\<lparr>extendedCode := True, extendCount := extendCount s - 1\<rparr>
                   in if extendCount s \<noteq> 0 then s
                      else parseKey E garbage scanCode (extendedCodeKey E scanCode keyCode s))"

definition Keyboard_interruptOccurred :: "kb_env \<Rightarrow> bool \<Rightarrow> u8 \<Rightarrow> keyboard \<Rightarrow> keyboard" where
  "Keyboard_interruptOccurred E garbage scanCode s =
     (if \<not> isKeyboardEnabled s then s
      else if scanCode = kSC_Acknowledge \<or> scanCode = kSC_Resend then s
      else dispatchKeyboardEventWithScancode E garbage scanCode s)"

end
