(* ===== verification/Keyboard_Device.thy ===== *)
theory Keyboard_Device
  imports Keyboard_Scan PS2_Interface PS2_Clients
begin

text \<open>
  The keyboard driver on its nub (ApplePS2KeyboardDevice): probe, start, enabling, and the power control
  action. A nub is the record kbdev of the operations the driver calls; a request that is submitted
  without blocking is freed by the controller. The events of the driver that concern the nub are carried
  out by perform.
\<close>

record 's kbdev = "'s ps2dev" +
  dev_submitRequest :: "PS2Request \<Rightarrow> 's \<Rightarrow> 's"
  dev_dispatchPS2Notification :: "u32 \<Rightarrow> 's \<Rightarrow> 's"
  dev_installActions :: "'s \<Rightarrow> 's"
  dev_uninstallActions :: "'s \<Rightarrow> 's"

text \<open>
  ApplePS2KeyboardDevice.cpp hands everything to the controller. The driver object and its three methods
  are numbers.
\<close>

definition keyboardDevice :: "nat \<Rightarrow> ctl kbdev" where
  "keyboardDevice this =
     \<lparr>dev_allocateRequest = allocateRequest, dev_freeRequest = freeRequest,
      dev_submitRequestAndBlock = submitRequestAndBlock, dev_submitRequest = (\<lambda>r s. snd (submitRequest r s)),
      dev_dispatchPS2Notification = Keyboard_dispatchPS2Notification,
      dev_installActions = (\<lambda>s. Keyboard_installPS2NotificationAction this 3
        (Keyboard_installPowerControlAction this 2 (Keyboard_installInterruptAction this 1 s))),
      dev_uninstallActions = (\<lambda>s. Keyboard_unistallPS2NotificationAction
        (Keyboard_uninstallPowerControlAction (Keyboard_uninstallInterruptAction s)))\<rparr>"

section \<open>Requests\<close>

definition submitCommands :: "'s kbdev \<Rightarrow> (PS2CommandEnum \<times> u8) list \<Rightarrow> 's \<Rightarrow> 's" where
  "submitCommands D cs s =
     (let (request, s) = dev_allocateRequest D s in dev_submitRequest D (setCommands cs request) s)"

definition perform :: "'s kbdev \<Rightarrow> kb_event \<Rightarrow> 's \<Rightarrow> 's" where
  "perform D e s =
     (case e of SubmitCommands cs \<Rightarrow> submitCommands D cs s
      | Notification datum \<Rightarrow> dev_dispatchPS2Notification D datum s
      | _ \<Rightarrow> s)"

text \<open>A step of the driver and what its new events do to the nub, in their order.\<close>

definition driverStep :: "'s kbdev \<Rightarrow> (keyboard \<Rightarrow> keyboard) \<Rightarrow> keyboard \<Rightarrow> 's \<Rightarrow> keyboard \<times> 's" where
  "driverStep D f k s = (f k, fold (perform D) (drop (length (kb_events k)) (kb_events (f k))) s)"

definition setKeyboardEnable :: "'s kbdev \<Rightarrow> bool \<Rightarrow> 's \<Rightarrow> 's" where
  "setKeyboardEnable D enable s =
     submitCommands D [(kPS2C_WriteDataPort, if enable then kDP_Enable else kDP_SetDefaultsAndDisable),
       (kPS2C_ReadDataPortAndCompare, kSC_Acknowledge)] s"

definition Keyboard_setCommandByte :: "'s kbdev \<Rightarrow> u8 \<Rightarrow> u8 \<Rightarrow> 's \<Rightarrow> 's option" where
  "Keyboard_setCommandByte D setBits clearBits s = setCommandByte (ps2dev.truncate D) setBits clearBits s"

section \<open>Probe\<close>

text \<open>One echo, and up to four more; \<open>n\<close> tries are left.\<close>

definition echoCommands :: "(PS2CommandEnum \<times> u8) list" where
  "echoCommands = [(kPS2C_WriteDataPort, kDP_TestKeyboardEcho), (kPS2C_ReadDataPortAndCompare, 0xEE)]"

fun echoTries :: "'s kbdev \<Rightarrow> nat \<Rightarrow> PS2Request \<Rightarrow> 's \<Rightarrow> (PS2Request \<times> 's) option" where
  "echoTries D 0 request s = Some (request, s)"
| "echoTries D (Suc n) request s = do {
     (request, s) \<leftarrow> dev_submitRequestAndBlock D (setCommands echoCommands request) s;
     if commandsCount request = 2 then Some (request, s) else echoTries D n request s
   }"

text \<open>\<open>superProbe\<close> is the result of the superclass, asked after the request was allocated.\<close>

definition Keyboard_probe :: "'s kbdev \<Rightarrow> bool \<Rightarrow> 's \<Rightarrow> (bool \<times> 's) option" where
  "Keyboard_probe D superProbe s =
     (let (request, s) = dev_allocateRequest D s
      in if \<not> superProbe then Some (False, s)
         else do {
           (request, s) \<leftarrow> echoTries D 5 request s;
           Some (True, dev_freeRequest D request s)
         })"

section \<open>Keyboard type\<close>

definition squareBrackets :: "u32 \<Rightarrow> kb_prefs \<Rightarrow> kb_prefs" where
  "squareBrackets ident p =
     (if ident = 0x30 then p\<lparr>ISOLSquareBracket := 0x17, ISORSquareBracket := 0x16\<rparr>
      else if ident = 0x31 then p\<lparr>ISOLSquareBracket := 0x21, ISORSquareBracket := 0x1e\<rparr>
      else if ident = 0x32 then
        p\<lparr>letterM := 0x29, letterQ := 0x00, ISOLSquareBracket := 0x17, ISORSquareBracket := 0x1b\<rparr>
      else if ident = 0x34 then p\<lparr>ISOLSquareBracket := 0x17, ISORSquareBracket := 0x1b\<rparr>
      else if ident = 0x33 then p\<lparr>ISOLSquareBracket := 0x1e, ISORSquareBracket := 0x2a\<rparr>
      else p\<lparr>ISOLSquareBracket := 0x21, ISORSquareBracket := 0x1e\<rparr>)"

definition layoutMap :: "kb_env \<Rightarrow> u32 \<Rightarrow> u8 list \<Rightarrow> u8 list" where
  "layoutMap E ident m =
     (if ident \<in> set [199, 205, 32, 35, 47, 41] then
        (if useISOLayout E then
           (if osMajor E \<ge> 16 then m[0x29 := 0x32, 0x56 := 0x0a] else m[0x29 := 0x0a, 0x56 := 0x32])
         else m)
      else m[0x29 := 0x32, 0x56 := 0x0a])"

definition deviceType :: "kb_env \<Rightarrow> keyboard \<Rightarrow> u32 \<times> keyboard" where
  "deviceType E s =
     (let tid = (case keyboardType E of None \<Rightarrow> 0 | Some i \<Rightarrow> i);
          ident = (if tid > 0 then tid else if useISOLayout E then 0xC7 else 0x1B);
          p = squareBrackets ident ((prefs s)\<lparr>keyboardTypeID := tid\<rparr>);
          ident = (if ident \<in> set [0x30, 0x31, 0x32, 0x34] then 0xC7 else if ident = 0x33 then 0x1B else ident)
      in (ident, s\<lparr>prefs := p, normalMap := layoutMap E ident (normalMap s)\<rparr>))"

section \<open>Start and stop\<close>

definition configureKeyboard :: "kb_env \<Rightarrow> keyboard \<Rightarrow> keyboard" where
  "configureKeyboard E k =
     (let k = ReadKeyboardPreferences E k;
          k = (if hasExtendFunctions (prefs k) then ReadExtendedFunctionsConfig E k else k);
          k = readKeyboardModifiers E k
      in case fnKeysMode E of
           None \<Rightarrow> k\<lparr>prefs := (prefs k)\<lparr>fnKeysModeNum := 0\<rparr>\<rparr>
         | Some m \<Rightarrow>
             (let k = ReadFnKeyLayout E (k\<lparr>prefs := (prefs k)\<lparr>fnKeysModeNum := ucast m\<rparr>\<rparr>);
                  k = (if fnKeysModeNum (prefs k) < 2 then k\<lparr>fnk := (fnk k)\<lparr>sleepKey := 0\<rparr>\<rparr> else k)
              in if fnKeysModeNum (prefs k) < 3 then ReadFnKeyConfig E k else k))"

definition resetKeyboard :: "'s kbdev \<Rightarrow> 's \<Rightarrow> 's option" where
  "resetKeyboard D s =
     (let (request, s) = dev_allocateRequest D s;
          request = setCommands [(kPS2C_WriteDataPort, kDP_SetDefaults),
            (kPS2C_ReadDataPortAndCompare, kSC_Acknowledge)] request
      in do {
        (request, s) \<leftarrow> dev_submitRequestAndBlock D request s;
        Some (dev_freeRequest D request s)
      })"

definition Keyboard_start :: "'s kbdev \<Rightarrow> kb_env \<Rightarrow> keyboard \<Rightarrow> 's \<Rightarrow> (keyboard \<times> 's) option" where
  "Keyboard_start D E k s = do {
     s \<leftarrow> resetKeyboard D s;
     let (k, s) = driverStep D (\<lambda>k. setLEDs (ledState k) k) k s;
     let k = configureKeyboard E k;
     let s = dev_installActions D s;
     s \<leftarrow> Keyboard_setCommandByte D (kCB_EnableKeyboardIRQ OR kCB_TranslateMode) kCB_DisableKeyboardClock s;
     let (k, s) = driverStep D (\<lambda>k. setNumLockFeedback (isNumPadLocked k) k) k s;
     Some (k, setKeyboardEnable D True s)
   }"

definition Keyboard_stop :: "'s kbdev \<Rightarrow> 's \<Rightarrow> 's option" where
  "Keyboard_stop D s = do {
     s \<leftarrow> Keyboard_setCommandByte D kCB_DisableKeyboardClock kCB_EnableKeyboardIRQ (setKeyboardEnable D False s);
     Some (dev_uninstallActions D s)
   }"

section \<open>Power control\<close>

text \<open>The loop over all key codes that releases the keys that are down.\<close>

definition releaseHeldKeys :: "kb_env \<Rightarrow> keyboard \<Rightarrow> keyboard" where
  "releaseHeldKeys E k =
     fold (\<lambda>n k. if held (of_nat n) k then dispatchKeyboardKeyCode E (of_nat n) False k else k) [0..<256] k"

definition wakeKeyboard :: "kb_env \<Rightarrow> keyboard \<Rightarrow> keyboard" where
  "wakeKeyboard E k =
     (let k = releaseHeldKeys E (k\<lparr>keyBitVector := replicate 8 0\<rparr>) in setLEDs (ledState k) k)"

definition Keyboard_setDevicePowerState ::
  "'s kbdev \<Rightarrow> kb_env \<Rightarrow> u32 \<Rightarrow> keyboard \<Rightarrow> 's \<Rightarrow> (keyboard \<times> 's) option" where
  "Keyboard_setDevicePowerState D E whatToDo k s =
     (if whatToDo = kPS2C_DisableDevice then
        Some (k\<lparr>isKeyboardEnabled := False\<rparr>, setKeyboardEnable D False s)
      else if whatToDo = kPS2C_EnableDevice then do {
        let (k, s) = driverStep D (wakeKeyboard E) k s;
        s \<leftarrow> Keyboard_setCommandByte D (kCB_EnableKeyboardIRQ OR kCB_TranslateMode) kCB_DisableKeyboardClock s;
        Some (k\<lparr>isKeyboardEnabled := True\<rparr>, setKeyboardEnable D True s)
      }
      else Some (k, s))"

end
