(* ===== verification/Keyboard_Safety.thy ===== *)
theory Keyboard_Safety
  imports Keyboard_Device
begin

text \<open>
  An invariant of the keyboard driver that every operation keeps: no access outside a table, the key
  states or a string, and what the touchpad driver is told of the alternate function.
\<close>

section \<open>The invariant\<close>

text \<open>Key combinations whose words fit the buffer.\<close>

fun short_from :: "nat \<Rightarrow> string \<Rightarrow> bool" where
  "short_from n [] \<longleftrightarrow> n < 5"
| "short_from n (c # cs) \<longleftrightarrow> (if c = CHR '' '' then n < 5 \<and> short_from 0 cs else short_from (n + 1) cs)"

definition kb_shape :: "keyboard \<Rightarrow> bool" where
  "kb_shape s \<longleftrightarrow> length (normalMap s) = 128 \<and> length (extendedMap s) = 128 \<and> length (keyBitVector s) = 8 \<and>
     length (fx s) = 12 \<and> (\<forall>ks. Some ks \<in> set (fx s) \<longrightarrow> short_from 0 ks) \<and>
     (hasExtendFunctions (prefs s) \<longrightarrow> None \<notin> set (fx s)) \<and>
     commandKey s < 0x80 \<and> contrlKey s < 0x80 \<and> altkey s < 0x80 \<and>
     rightCtxtMKey (prefs s) < 0x80 \<and> rightCntrlKey (prefs s) < 0x80 \<and> rightALTKey (prefs s) < 0x80 \<and>
     capsKey (prefs s) < 0x80 \<and> \<not> bad s"

text \<open>
  The alternate function was never ended, and it was begun at most once, after which bit 5 of
  _modifierKeystate stays set.
\<close>

definition alt_ok :: "keyboard \<Rightarrow> bool" where
  "alt_ok s \<longleftrightarrow> Notification kPS2C_ALT_Funtion_off \<notin> set (kb_events s) \<and>
     (if bit (modifierKeystate s) 5 then count_list (kb_events s) (Notification kPS2C_ALT_Funtion_on) < 2
      else \<not> bit (modifierKeystate s) 6 \<and> Notification kPS2C_ALT_Funtion_on \<notin> set (kb_events s))"

definition kb_inv :: "keyboard \<Rightarrow> bool" where
  "kb_inv s \<longleftrightarrow> kb_shape s \<and> alt_ok s"

lemmas kb_inv_defs = kb_inv_def kb_shape_def alt_ok_def

text \<open>Fields the invariant does not mention.\<close>

lemma kb_inv_updates [simp]:
  "kb_inv (s\<lparr>extendCount := a\<rparr>) = kb_inv s" "kb_inv (s\<lparr>ledState := a\<rparr>) = kb_inv s"
  "kb_inv (s\<lparr>kb_debug := b\<rparr>) = kb_inv s" "kb_inv (s\<lparr>osxVersion := a\<rparr>) = kb_inv s"
  "kb_inv (s\<lparr>isKeyboardEnabled := b\<rparr>) = kb_inv s" "kb_inv (s\<lparr>isTPadEnabled := b\<rparr>) = kb_inv s"
  "kb_inv (s\<lparr>featureToggleMode := b\<rparr>) = kb_inv s" "kb_inv (s\<lparr>isNumPadKey := b\<rparr>) = kb_inv s"
  "kb_inv (s\<lparr>isAccInputExceptionKey := b\<rparr>) = kb_inv s" "kb_inv (s\<lparr>isNumPadLocked := b\<rparr>) = kb_inv s"
  "kb_inv (s\<lparr>isCapsLocked := b\<rparr>) = kb_inv s" "kb_inv (s\<lparr>isFnKeyPressed := b\<rparr>) = kb_inv s"
  "kb_inv (s\<lparr>isFnKeyComb := b\<rparr>) = kb_inv s" "kb_inv (s\<lparr>displaySleep := b\<rparr>) = kb_inv s"
  "kb_inv (s\<lparr>extendedCode := b\<rparr>) = kb_inv s" "kb_inv (s\<lparr>releaseGestureKey := b\<rparr>) = kb_inv s"
  "kb_inv (s\<lparr>germanTurkishLayout := b\<rparr>) = kb_inv s" "kb_inv (s\<lparr>altFunctionEnabled := b\<rparr>) = kb_inv s"
  "kb_inv (s\<lparr>controllingFeature := b\<rparr>) = kb_inv s" "kb_inv (s\<lparr>enabledAsusKBacklight := b\<rparr>) = kb_inv s"
  "kb_inv (s\<lparr>asusKBHas16LevelSupport := b\<rparr>) = kb_inv s" "kb_inv (s\<lparr>kbrdBackLightLvl := a\<rparr>) = kb_inv s"
  "kb_inv (s\<lparr>generatedCode := a\<rparr>) = kb_inv s" "kb_inv (s\<lparr>tempCode1 := a\<rparr>) = kb_inv s"
  "kb_inv (s\<lparr>tempCode2 := a\<rparr>) = kb_inv s" "kb_inv (s\<lparr>lastEventSecs := c\<rparr>) = kb_inv s"
  "kb_inv (s\<lparr>lastEventMicrosecs := c\<rparr>) = kb_inv s" "kb_inv (s\<lparr>lastModifiersReadTime := d\<rparr>) = kb_inv s"
  "kb_inv (s\<lparr>fnk := k\<rparr>) = kb_inv s" "kb_inv (s\<lparr>kb_now := d\<rparr>) = kb_inv s"
  by (simp_all add: kb_inv_defs)

lemma kb_inv_prefs [simp]:
  "kb_inv (s\<lparr>prefs := (prefs s)\<lparr>macintoshMode := b\<rparr>\<rparr>) = kb_inv s"
  "kb_inv (s\<lparr>prefs := (prefs s)\<lparr>makeShiftCapsAsFn := b\<rparr>\<rparr>) = kb_inv s"
  "kb_inv (s\<lparr>prefs := (prefs s)\<lparr>makeDelIntoCmdBspace := b\<rparr>\<rparr>) = kb_inv s"
  "kb_inv (s\<lparr>prefs := (prefs s)\<lparr>makeKeyDotAsComma := b\<rparr>\<rparr>) = kb_inv s"
  "kb_inv (s\<lparr>prefs := (prefs s)\<lparr>noNumLockLED := b\<rparr>\<rparr>) = kb_inv s"
  "kb_inv (s\<lparr>prefs := (prefs s)\<lparr>makeNumLockAsClear := b\<rparr>\<rparr>) = kb_inv s"
  "kb_inv (s\<lparr>prefs := (prefs s)\<lparr>useFinerBrightnesCtrl := b\<rparr>\<rparr>) = kb_inv s"
  "kb_inv (s\<lparr>prefs := (prefs s)\<lparr>useFinerVolumeCtrl := b\<rparr>\<rparr>) = kb_inv s"
  "kb_inv (s\<lparr>prefs := (prefs s)\<lparr>fixSierraCapsLockBug := b\<rparr>\<rparr>) = kb_inv s"
  "kb_inv (s\<lparr>prefs := (prefs s)\<lparr>fnKeysModeNum := a\<rparr>\<rparr>) = kb_inv s"
  "kb_inv (s\<lparr>prefs := (prefs s)\<lparr>fnKeysVendorLayout := a\<rparr>\<rparr>) = kb_inv s"
  "kb_inv (s\<lparr>prefs := (prefs s)\<lparr>fnKeysVendorLayout := a, fnKeysModeNum := a'\<rparr>\<rparr>) = kb_inv s"
  by (simp_all add: kb_inv_defs)

lemma kb_inv_asked [simp]: "kb_inv (asked s) = kb_inv s"
  by (simp add: kb_inv_defs asked_def)

lemma kb_inv_bits [simp]: "kb_inv (s\<lparr>keyBitVector := bs\<rparr>) \<longleftrightarrow> kb_shape (s\<lparr>keyBitVector := bs\<rparr>) \<and> alt_ok s"
  by (simp add: kb_inv_def alt_ok_def)

lemma kb_inv_keys: "kb_inv s \<Longrightarrow> commandKey s < 0x80" "kb_inv s \<Longrightarrow> contrlKey s < 0x80"
  "kb_inv s \<Longrightarrow> altkey s < 0x80" "kb_inv s \<Longrightarrow> rightCtxtMKey (prefs s) < 0x80"
  "kb_inv s \<Longrightarrow> rightCntrlKey (prefs s) < 0x80" "kb_inv s \<Longrightarrow> rightALTKey (prefs s) < 0x80"
  "kb_inv s \<Longrightarrow> capsKey (prefs s) < 0x80"
  by (simp_all add: kb_inv_defs)

named_theorems kb_safe \<open>an operation of the keyboard driver keeps the invariant\<close>

lemmas kb_update = kb_inv_updates [THEN iffD2] kb_inv_prefs [THEN iffD2] kb_inv_asked [THEN iffD2]

lemma kb_inv_if [kb_safe]: "(b \<Longrightarrow> kb_inv s) \<Longrightarrow> (\<not> b \<Longrightarrow> kb_inv t) \<Longrightarrow> kb_inv (if b then s else t)"
  by simp

lemma kb_inv_happen:
  "kb_inv s \<Longrightarrow> e \<noteq> Notification kPS2C_ALT_Funtion_on \<Longrightarrow> e \<noteq> Notification kPS2C_ALT_Funtion_off \<Longrightarrow>
     kb_inv (happen e s)"
  by (auto simp: kb_inv_defs happen_def split: if_splits)

lemma kb_inv_notify [kb_safe]:
  "kb_inv s \<Longrightarrow> datum \<noteq> kPS2C_ALT_Funtion_on \<Longrightarrow> datum \<noteq> kPS2C_ALT_Funtion_off \<Longrightarrow> kb_inv (notify datum s)"
  by (simp add: notify_def kb_inv_happen)

lemma kb_inv_dispatch [kb_safe]: "kb_inv s \<Longrightarrow> kb_inv (dispatchKeyboardKeyCode E k d s)"
  by (simp add: dispatchKeyboardKeyCode_def kb_inv_happen)

lemma kb_inv_misuse: "kb_inv s \<Longrightarrow> \<not> b \<Longrightarrow> kb_inv (misuse b s)"
  by (auto simp: kb_inv_defs misuse_def)

lemma kb_inv_tables [kb_safe]:
  "kb_inv s \<Longrightarrow> k < 0x80 \<Longrightarrow> kb_inv (dispatchNormal E k d s)"
  "kb_inv s \<Longrightarrow> k < 0x80 \<Longrightarrow> kb_inv (dispatchExtended E k d s)"
  "kb_inv s \<Longrightarrow> k < 0x80 \<Longrightarrow> kb_inv (dispatchADB E k d s)"
  by (simp_all add: dispatchNormal_def dispatchExtended_def dispatchADB_def kb_inv_dispatch kb_inv_misuse
      linorder_not_le)

lemma kb_inv_press [kb_safe]: "kb_inv s \<Longrightarrow> kb_inv (pressRelease E k s)" "kb_inv s \<Longrightarrow> kb_inv (releaseKey E k s)"
  by (simp_all add: pressRelease_def releaseKey_def kb_inv_dispatch)

lemma kb_inv_toggleTPad [kb_safe]: "kb_inv s \<Longrightarrow> kb_inv (toggleTPad s)"
  by (simp add: toggleTPad_def Let_def kb_inv_notify)

lemma kb_inv_backlight [kb_safe]: "kb_inv s \<Longrightarrow> kb_inv (dispatchKeyboardBacklightNotification d s)"
  by (simp add: dispatchKeyboardBacklightNotification_def kb_inv_notify)

lemma kb_inv_leds [kb_safe]:
  "kb_inv s \<Longrightarrow> kb_inv (setLEDs l s)" "kb_inv s \<Longrightarrow> kb_inv (setAlphaLockFeedback b s)"
  "kb_inv s \<Longrightarrow> kb_inv (setNumLockFeedback b s)"
  by (simp_all add: setLEDs_def setAlphaLockFeedback_def setNumLockFeedback_def Let_def kb_inv_happen)

section \<open>Key functions\<close>

lemma position_small: "getModifiersPosition m < 0x80"
  by (cases m) (simp_all add: getModifiersPosition_def)

lemma kb_inv_modifiers [kb_safe]:
  assumes "kb_inv s"
  shows "kb_inv (readKeyboardModifiers E s)"
proof -
  have mv: "kb_inv (moveModifier p t)" if "kb_inv t" for p t
    using that position_small [of "fst p"]
    by (simp add: moveModifier_def kb_inv_defs split: modifier_key.split)
  have fd: "kb_inv (fold moveModifier ps t)" if "kb_inv t" for ps t
    using that by (induction ps arbitrary: t) (simp_all add: mv)
  have "kb_inv (s\<lparr>commandKey := 0x5b, contrlKey := 0x1d, altkey := 0x38\<rparr>)"
    using assms by (simp add: kb_inv_defs)
  then show ?thesis
    using assms fd [OF assms] fd [OF assms, of "_ # _", simplified]
    by (simp add: readKeyboardModifiers_def Let_def split: option.split list.split)
qed

lemma kb_inv_combLoop:
  "kb_inv s \<Longrightarrow> short_from (length key) cs \<Longrightarrow> kb_inv (combLoop E d key cs l s)"
proof (induction E d key cs l s rule: combLoop.induct)
  case (1 E d key l s)
  then show ?case by (simp add: combKey_def Let_def kb_inv_dispatch kb_inv_misuse)
next
  case (2 E d key c cs l s)
  have "kb_inv (snd (combKey E d key l s))" if "length key < 5"
    using that 2(3) by (simp add: combKey_def Let_def kb_inv_dispatch kb_inv_misuse)
  then show ?case using 2 by (auto split: prod.split)
qed

lemma kb_inv_combination [kb_safe]:
  assumes "kb_inv s" "\<And>ks. keys = Some ks \<Longrightarrow> short_from 0 ks"
  shows "kb_inv (ProcessKeyCombinations E keys d g s)"
  using assms
  by (auto simp: ProcessKeyCombinations_def Let_def intro!: kb_safe kb_inv_combLoop split: option.split)

lemma kb_inv_fx_mem: "kb_inv s \<Longrightarrow> i < 12 \<Longrightarrow> fx s ! i \<in> set (fx s)"
  by (simp add: kb_inv_def kb_shape_def)

lemma kb_inv_fx: "kb_inv s \<Longrightarrow> i < 12 \<Longrightarrow> fx s ! i = Some ks \<Longrightarrow> short_from 0 ks"
  using kb_inv_fx_mem [of s i] by (metis kb_inv_def kb_shape_def)

lemma kb_inv_fx_set: "kb_inv s \<Longrightarrow> i < 12 \<Longrightarrow> hasExtendFunctions (prefs s) \<Longrightarrow> fx s ! i \<noteq> None"
  using kb_inv_fx_mem [of s i] by (metis kb_inv_def kb_shape_def)

lemma extendedKeys_small:
  "map_of extendedKeys k = Some (i, other) \<Longrightarrow> i < 12 \<and> other < 0x80"
  by (auto simp: extendedKeys_def split: if_splits)

lemma kb_inv_extended [kb_safe]:
  assumes "kb_inv s" "hasExtendFunctions (prefs s)"
  shows "kb_inv (snd (ProcessExtendedFunctions E k d s))"
proof -
  have "kb_inv (snd (extendedFunction E i other d s)) \<and> fst (extendedFunction E i other d s) < 0x80"
    if "i < 12" "other < 0x80" for i other
    using assms that kb_inv_fx_set [OF assms(1) that(1) assms(2)] kb_inv_fx [OF assms(1) that(1)]
    by (auto simp: extendedFunction_def intro!: kb_safe split: option.split)
  then show ?thesis
    using assms(1) extendedKeys_small
    by (auto simp: ProcessExtendedFunctions_def Let_def case_prod_beta intro!: kb_safe split: option.split)
qed

lemma kb_inv_generate [kb_safe]: "kb_inv s \<Longrightarrow> kb_inv (generateAndSeeADBCode E k d s)"
  by (auto simp: generateAndSeeADBCode_def Let_def intro!: kb_safe)

lemma germanKeys_small: "map_of germanKeys k = Some k' \<Longrightarrow> k' < 0x80"
  by (auto simp: germanKeys_def split: if_splits)

lemma kb_inv_german [kb_safe]:
  "kb_inv s \<Longrightarrow> kb_inv (snd (MapGermanTurkishKeyboardLayout E k d s))"
  by (auto simp: MapGermanTurkishKeyboardLayout_def Let_def intro!: kb_safe kb_inv_keys
      dest: germanKeys_small split: option.split)

lemma kb_inv_acpi [kb_safe]:
  "kb_inv s \<Longrightarrow> kb_inv (snd (readAsusKBlight E p s))" "kb_inv s \<Longrightarrow> kb_inv (snd (getMaxKBlightLevel E s))"
  "kb_inv s \<Longrightarrow> kb_inv (setAsusKBlight E l s)" "kb_inv s \<Longrightarrow> kb_inv (processFnkeySleep E s)"
  by (auto simp: readAsusKBlight_def getMaxKBlightLevel_def setAsusKBlight_def processFnkeySleep_def Let_def
      intro!: kb_inv_happen split: option.split)

lemma kb_inv_asus [kb_safe]: "kb_inv s \<Longrightarrow> kb_inv (processAsusKBacklight E up s)"
  by (auto simp: processAsusKBacklight_def Let_def case_prod_beta intro!: kb_safe)

lemma kb_inv_fnDispatch [kb_safe]:
  "kb_inv s \<Longrightarrow> kb_inv (finerStep E f k s)" "kb_inv s \<Longrightarrow> kb_inv (toggleDisplaySleep E s)"
  "kb_inv s \<Longrightarrow> kb_inv (dispatchFnKey E k s)" "kb_inv s \<Longrightarrow> kb_inv (stampFnKey t s)"
  by (auto simp: finerStep_def toggleDisplaySleep_def dispatchFnKey_def stampFnKey_def Let_def
      intro!: kb_safe kb_inv_keys)

lemma kb_inv_fnUp [kb_safe]: "kb_inv s \<Longrightarrow> kb_inv (processFnKeysUp E k s)"
  by (auto simp: processFnKeysUp_def Let_def intro!: kb_safe)


section \<open>Gestures, function keys and features\<close>

lemma kb_inv_modifier [kb_safe]: "kb_inv s \<Longrightarrow> kb_inv (dispatchModifier E d m s)"
  by (cases m) (auto simp: dispatchModifier_def intro!: kb_safe kb_inv_keys)

lemma kb_inv_shortcut [kb_safe]:
  assumes "kb_inv s"
  shows "kb_inv (shortcut E ms k s)" "kb_inv (releaseModifier E m s)"
proof -
  have fd: "kb_inv (fold (dispatchModifier E d) ns t)" if "kb_inv t" for d ns t
    using that by (induction ns arbitrary: t) (auto intro: kb_safe)
  show "kb_inv (shortcut E ms k s)" unfolding shortcut_def by (intro fd kb_safe assms)
  show "kb_inv (releaseModifier E m s)" unfolding releaseModifier_def by (intro kb_safe assms)
qed

lemma kb_inv_backlightNotes [kb_safe]:
  "kb_inv s \<Longrightarrow> kb_inv (receiveInitKeyboard E s)" "kb_inv s \<Longrightarrow> kb_inv (receiveBackLightOff E s)"
  "kb_inv s \<Longrightarrow> kb_inv (receiveBackLightOn E s)"
  by (auto simp: receiveInitKeyboard_def initKeyboardBacklight_def receiveBackLightOff_def
      receiveBackLightOn_def Let_def case_prod_beta intro!: kb_safe kb_inv_happen split: option.split)

text \<open>The state of a combination does not change while it is dispatched.\<close>

lemma fx_dispatch [simp]: "fx (dispatchKeyboardKeyCode E k d s) = fx s" "fx (misuse b s) = fx s"
  "fx (dispatchNormal E k d s) = fx s"
  by (simp_all add: dispatchKeyboardKeyCode_def happen_def asked_def misuse_def dispatchNormal_def)

lemma fx_combLoop [simp]: "fx (combLoop E d key cs l s) = fx s"
  by (induction E d key cs l s rule: combLoop.induct) (auto simp: combKey_def Let_def split: prod.split)

lemma fx_combination [simp]: "fx (ProcessKeyCombinations E ks d g s) = fx s"
  by (simp add: ProcessKeyCombinations_def Let_def split: option.split)

lemma kb_inv_extGesture [kb_safe]:
  assumes "kb_inv s" "i < 12"
  shows "kb_inv (extendedFunctionGesture E i s)"
proof -
  have 1: "kb_inv (ProcessKeyCombinations E (fx s ! i) True True s)"
    using assms kb_inv_fx [OF assms] by (auto intro!: kb_safe)
  then have "kb_inv (ProcessKeyCombinations E (fx s ! i) False True
      (ProcessKeyCombinations E (fx s ! i) True True s))"
    using kb_inv_fx [OF assms] by (auto intro!: kb_safe)
  then show ?thesis by (simp add: extendedFunctionGesture_def Let_def)
qed

lemma extFun_index: "(21 :: u32) \<le> d \<Longrightarrow> d \<le> 32 \<Longrightarrow> unat (d - 21) < 12"
  by (simp add: word_le_nat_alt unat_sub)

lemma kb_inv_gesture [kb_safe]:
  assumes "kb_inv s"
  shows "kb_inv (receiveGesture E datum s)"
  unfolding receiveGesture_def by (intro kb_safe kb_update assms extFun_index) simp_all

lemma kb_inv_receive [kb_safe]:
  assumes "kb_inv s"
  shows "kb_inv (receiveTouchpadNotifications E datum s)"
proof -
  let ?s = "if osxVersion s = 0 then s\<lparr>osxVersion := ucast datum\<rparr> else s"
  let ?t = "if checksModifiers datum then readKeyboardModifiers E ?s else ?s"
  have t: "kb_inv ?t" by (intro kb_safe kb_update assms)
  show ?thesis
    unfolding receiveTouchpadNotifications_def Let_def
    by (intro kb_safe kb_update kb_inv_keys t)
qed

lemma kb_inv_power [kb_safe]: "kb_inv s \<Longrightarrow> kb_inv ((pressRelease E k ^^ n) s)"
  by (induction n) (auto intro!: kb_safe)

lemma kb_inv_fnKeyDown [kb_safe]: "kb_inv s \<Longrightarrow> kb_inv (snd (fnKeyDown E k r s))"
proof -
  assume s: "kb_inv s"
  have "kb_inv (snd (brightnessKey E k s))"
    using s by (auto simp: brightnessKey_def Let_def intro!: kb_safe split: option.split)
  note b = this
  have sn: "kb_inv (snd (if c then x else y))" if "kb_inv (snd x)" "kb_inv (snd y)" for c and x y :: "u8 \<times> keyboard"
    using that by simp
  show "kb_inv (snd (fnKeyDown E k r s))"
    unfolding fnKeyDown_def Let_def case_prod_beta
    by (intro sn; (simp only: snd_conv)?; intro kb_safe kb_update s b)
qed

lemma kb_inv_fnKeys [kb_safe]: "kb_inv s \<Longrightarrow> kb_inv (processFnKeys E k d s)"
  by (auto simp: processFnKeys_def Let_def case_prod_beta intro!: kb_safe)

text \<open>
  A configuration that keeps the driver safe: remapped keys are scan codes, and every extended function
  has a combination with short words.
\<close>

definition extendedNames :: "string list" where
  "extendedNames = [''F13'', ''F14'', ''F15'', ''F16'', ''F17'', ''F18'', ''F19'', ''F20'', ''F21'', ''F22'',
     ''F23'', ''F24'']"

definition env_safe :: "kb_env \<Rightarrow> bool" where
  "env_safe E \<longleftrightarrow>
     (\<forall>ps. kb_preferences E = Some ps \<longrightarrow> (\<forall>key n. (key, PrefNumber n) \<in> set ps \<longrightarrow> n < 0x80)) \<and>
     (\<exists>fs. extendedFunctions E = Some fs \<and> (\<forall>key v. (key, Some v) \<in> set fs \<longrightarrow> short_from 0 v) \<and>
        (\<forall>name \<in> set extendedNames. \<exists>v. (name, Some v) \<in> set fs))"


section \<open>Configuration\<close>

text \<open>
  Between reading the preferences and the extended functions the functions may be enabled without a
  combination; the invariant holds but for that.
\<close>

definition kb_pre :: "keyboard \<Rightarrow> bool" where
  "kb_pre s \<longleftrightarrow> kb_inv (s\<lparr>prefs := (prefs s)\<lparr>hasExtendFunctions := False\<rparr>\<rparr>)"

lemma kb_pre_inv: "kb_inv s \<Longrightarrow> kb_pre s" "kb_pre s \<Longrightarrow> \<not> hasExtendFunctions (prefs s) \<Longrightarrow> kb_inv s"
  by (auto simp: kb_pre_def kb_inv_defs split: if_splits)

lemma twelve: "[0..<12] = [0 :: nat, 1, 2, 3, 4, 5, 6, 7, 8, 9, 10, 11]"
  by code_simp

lemma extended_slot:
  "setExtendedFunction (key, Some v) s =
     (case find (\<lambda>i. strncmp_eq key (extendedNames ! i)) [0..<12] of
        None \<Rightarrow> s | Some i \<Rightarrow> s\<lparr>fx := (fx s)[i := Some v]\<rparr>)"
  by (simp add: setExtendedFunction_def extendedNames_def twelve)

lemma find_slot: "find P [0..<n] = Some i \<Longrightarrow> P i \<and> i < n"
  by (auto simp: find_Some_iff)

lemma kb_pre_slot:
  assumes "kb_pre s" "\<And>w. snd p = Some w \<Longrightarrow> short_from 0 w"
  shows "kb_pre (setExtendedFunction p s)"
  using assms
  by (cases p; cases "snd p")
    (auto simp: setExtendedFunction_def [of "(_, None)"] extended_slot kb_pre_def kb_inv_defs
      dest!: subsetD [OF set_update_subset_insert] split: option.split)

lemma slot_stays:
  "length (fx s) = 12 \<Longrightarrow> fx s ! i \<noteq> None \<Longrightarrow> i < 12 \<Longrightarrow> fx (setExtendedFunction p s) ! i \<noteq> None"
  by (cases p; cases "snd p")
    (auto simp: setExtendedFunction_def [of "(_, None)"] extended_slot nth_list_update dest: find_slot split: option.split)

lemma slot_set:
  assumes "length (fx s) = 12" "i < 12"
  shows "fx (setExtendedFunction (extendedNames ! i, Some v) s) ! i \<noteq> None"
proof -
  have "\<forall>i \<in> set [0..<12]. find (\<lambda>j. strncmp_eq (extendedNames ! i) (extendedNames ! j)) [0..<12] = Some i"
    by code_simp
  then show ?thesis using assms by (simp add: extended_slot)
qed

lemma slots_stay:
  "kb_pre s \<Longrightarrow> (\<And>key v. (key, Some v) \<in> set ps \<Longrightarrow> short_from 0 v) \<Longrightarrow> fx s ! i \<noteq> None \<Longrightarrow> i < 12 \<Longrightarrow>
     fx (fold setExtendedFunction ps s) ! i \<noteq> None"
proof (induction ps arbitrary: s)
  case (Cons p ps)
  have "kb_pre (setExtendedFunction p s)"
    using Cons.prems by (intro kb_pre_slot) (auto intro!: Cons.prems(2) [of "fst p"] simp: prod_eq_iff)
  moreover have "fx (setExtendedFunction p s) ! i \<noteq> None"
    using Cons.prems by (intro slot_stays) (auto simp: kb_pre_def kb_inv_defs)
  ultimately show ?case using Cons by auto
qed simp


lemma env_safe_functions:
  assumes "env_safe E" "extendedFunctions E = Some fs"
  shows "(key, Some v) \<in> set fs \<Longrightarrow> short_from 0 v" "i < 12 \<Longrightarrow> \<exists>v. (extendedNames ! i, Some v) \<in> set fs"
proof -
  show "(key, Some v) \<in> set fs \<Longrightarrow> short_from 0 v" using assms by (auto simp: env_safe_def)
  assume "i < 12"
  then have "extendedNames ! i \<in> set extendedNames" by (simp add: extendedNames_def del: set_simps)
  then show "\<exists>v. (extendedNames ! i, Some v) \<in> set fs" using assms by (auto simp: env_safe_def)
qed

lemma kb_pre_slots:
  "kb_pre s \<Longrightarrow> (\<And>key v. (key, Some v) \<in> set ps \<Longrightarrow> short_from 0 v) \<Longrightarrow> kb_pre (fold setExtendedFunction ps s)"
proof (induction ps arbitrary: s)
  case (Cons p ps)
  have "kb_pre (setExtendedFunction p s)"
    using Cons.prems by (intro kb_pre_slot) (auto intro!: Cons.prems(2) [of "fst p"] simp: prod_eq_iff)
  then show ?case using Cons by auto
qed simp

lemma slots_set:
  assumes "kb_pre s" "\<And>key v. (key, Some v) \<in> set ps \<Longrightarrow> short_from 0 v" "(extendedNames ! i, Some v) \<in> set ps"
    "i < 12"
  shows "fx (fold setExtendedFunction ps s) ! i \<noteq> None"
proof -
  obtain us vs where ps: "ps = us @ (extendedNames ! i, Some v) # vs"
    using assms(3) by (meson split_list)
  let ?s = "fold setExtendedFunction us s"
  have s: "kb_pre ?s" using assms(1,2) by (intro kb_pre_slots) (auto simp: ps)
  then have "length (fx ?s) = 12" by (simp add: kb_pre_def kb_inv_defs)
  then have "fx (setExtendedFunction (extendedNames ! i, Some v) ?s) ! i \<noteq> None"
    using assms(4) by (rule slot_set)
  moreover have "kb_pre (setExtendedFunction (extendedNames ! i, Some v) ?s)"
    using s assms(2) by (intro kb_pre_slot) (auto simp: ps)
  ultimately show ?thesis
    using assms(2,4) by (auto simp: ps intro!: slots_stay [simplified])
qed

lemma kb_inv_readExtended [kb_safe]:
  assumes "env_safe E" "kb_pre s"
  shows "kb_inv (ReadExtendedFunctionsConfig E s)"
proof -
  obtain fs where fs: "extendedFunctions E = Some fs" using assms(1) by (auto simp: env_safe_def)
  note short = env_safe_functions(1) [OF assms(1) fs]
  let ?t = "fold setExtendedFunction fs s"
  have pre: "kb_pre ?t" using assms(2) by (intro kb_pre_slots short)
  have "fx ?t ! i \<noteq> None" if i: "i < 12" for i
  proof -
    obtain v where "(extendedNames ! i, Some v) \<in> set fs"
      using env_safe_functions(2) [OF assms(1) fs i] by blast
    from slots_set [OF assms(2) short this i] show ?thesis .
  qed
  moreover have "length (fx ?t) = 12" using pre by (simp add: kb_pre_def kb_inv_defs)
  ultimately have "None \<notin> set (fx ?t)" by (metis in_set_conv_nth)
  then have "kb_inv ?t" using pre by (auto simp: kb_pre_def kb_inv_defs split: if_splits)
  then show ?thesis by (simp add: ReadExtendedFunctionsConfig_def fs)
qed

lemma kb_inv_readFnKeys [kb_safe]:
  "kb_inv s \<Longrightarrow> kb_inv (ReadFnKeyConfig E s)" "kb_inv s \<Longrightarrow> kb_inv (setVendor v s)"
  by (auto simp: ReadFnKeyConfig_def setVendor_def intro!: kb_update split: option.split)

lemma kb_inv_map:
  "kb_inv s \<Longrightarrow> kb_inv (s\<lparr>extendedMap := (extendedMap s)[i := x]\<rparr>)"
  "kb_inv s \<Longrightarrow> kb_inv (s\<lparr>fnk := k, extendedMap := (extendedMap s)[i := x]\<rparr>)"
  "kb_inv s \<Longrightarrow> kb_inv (s\<lparr>fnk := k, extendedMap := (extendedMap s)[i := x, j := y]\<rparr>)"
  "kb_inv s \<Longrightarrow> kb_inv (s\<lparr>fnk := k, extendedMap := (extendedMap s)[i := x, j := y, l := z]\<rparr>)"
  by (simp_all add: kb_inv_defs)

lemma setVendor_map [simp]: "extendedMap (setVendor v s) = extendedMap s"
  by (simp add: setVendor_def)

lemma kb_inv_layout [kb_safe]:
  assumes "kb_inv s"
  shows "kb_inv (ReadFnKeyLayout E s)"
proof -
  have v: "kb_inv (setVendor v s)" for v using assms by (rule kb_safe)
  note m = kb_inv_map(2-4) [OF v, unfolded setVendor_map]
  show ?thesis
  proof (cases "fnKeysLayout E")
    case (Some layout)
    show ?thesis
      unfolding ReadFnKeyLayout_def Some option.case
      by (intro kb_safe kb_update m v assms)
  qed (simp add: ReadFnKeyLayout_def assms)
qed

lemma kb_inv_mode [kb_safe]: "kb_inv s \<Longrightarrow> kb_inv (nextFnKeysMode E s)"
  unfolding nextFnKeysMode_def Let_def by (intro kb_safe kb_update)

lemma kb_pre_extended [simp]: "kb_pre (s\<lparr>prefs := (prefs s)\<lparr>hasExtendFunctions := b\<rparr>\<rparr>) = kb_pre s"
  by (simp add: kb_pre_def)

lemma kb_inv_own [kb_safe]:
  assumes "kb_inv s" "env_safe E"
  shows "kb_inv (toggleOwnFeature E k d s)"
proof -
  let ?s = "if d then s\<lparr>prefs := (prefs s)\<lparr>hasExtendFunctions := \<not> hasExtendFunctions (prefs s)\<rparr>\<rparr> else s"
  have pre: "kb_pre ?s" using kb_pre_inv(1) [OF assms(1)] by simp
  have "kb_inv (let s = ?s in if hasExtendFunctions (prefs s) then ReadExtendedFunctionsConfig E s else s)"
    unfolding Let_def by (intro kb_inv_if kb_inv_readExtended kb_pre_inv(2) pre assms)
  then show ?thesis
    unfolding toggleOwnFeature_def by (intro kb_safe kb_update assms)
qed

lemma kb_inv_features [kb_safe]:
  assumes "kb_inv s" "env_safe E"
  shows "kb_inv (ToggleTouchpadFeatures E k d s)"
proof -
  have f: "featureNotification k \<noteq> kPS2C_ALT_Funtion_on" "featureNotification k \<noteq> kPS2C_ALT_Funtion_off"
    by (simp_all add: featureNotification_def)
  show ?thesis unfolding ToggleTouchpadFeatures_def Let_def by (intro kb_safe assms f)
qed

end
