(* ===== verification/Keyboard_Reach.thy ===== *)
theory Keyboard_Reach
  imports Keyboard_Safety
begin

section \<open>The scan code parser\<close>

text \<open>A part of the parser returns a scan code and a state that keeps the invariant.\<close>

definition safe_key :: "u8 \<times> keyboard \<Rightarrow> bool" where
  "safe_key r \<longleftrightarrow> fst r < 0x80 \<and> kb_inv (snd r)"

lemma safe_keyI: "k < 0x80 \<Longrightarrow> kb_inv s \<Longrightarrow> safe_key (k, s)"
  by (simp add: safe_key_def)

lemma safe_key_if: "(b \<Longrightarrow> safe_key r) \<Longrightarrow> (\<not> b \<Longrightarrow> safe_key q) \<Longrightarrow> safe_key (if b then r else q)"
  by simp

lemma less_if: "(b \<Longrightarrow> (k :: u8) < n) \<Longrightarrow> (\<not> b \<Longrightarrow> j < n) \<Longrightarrow> (if b then k else j) < n"
  by simp

lemmas safe_keys = safe_key_if safe_keyI less_if

lemma german_key: "k < 0x80 \<Longrightarrow> kb_inv s \<Longrightarrow> safe_key (MapGermanTurkishKeyboardLayout E k d s)"
  using kb_inv_german [of s E k d]
  by (auto simp: safe_key_def MapGermanTurkishKeyboardLayout_def Let_def split: option.split)

lemma numpadDot_safe: "kb_inv s \<Longrightarrow> safe_key (numpadDot E b s)"
  unfolding numpadDot_def by (intro safe_keys kb_safe) simp_all

lemma normalCode_safe:
  assumes "kb_inv s" "k < 0x80"
  shows "safe_key (normalCode E b k s)"
proof -
  let ?s = "s\<lparr>extendedCode := False\<rparr>"
  have s: "kb_inv ?s" using assms by simp
  have tab: "kb_inv (let s = (if held (contrlKey ?s) ?s then dispatchNormal E (contrlKey ?s) False ?s else ?s);
         s = pressRelease E 0x30 s
       in if held (contrlKey s) s then dispatchNormal E (contrlKey s) True s else s)"
  proof -
    let ?t = "pressRelease E 0x30 (if held (contrlKey ?s) ?s then dispatchNormal E (contrlKey ?s) False ?s else ?s)"
    have t: "kb_inv ?t" by (intro kb_safe kb_inv_keys s)
    show ?thesis unfolding Let_def by (intro kb_safe kb_inv_keys t)
  qed
  note tab = tab [unfolded Let_def]
  show ?thesis
    unfolding normalCode_def Let_def
    by (intro safe_keys german_key numpadDot_safe kb_safe kb_update kb_inv_keys tab s assms) simp_all
qed

lemma hardwareFnKey_safe [kb_safe]:
  assumes "kb_inv s"
  shows "kb_inv (hardwareFnKey E b k s)"
  unfolding hardwareFnKey_def Let_def by (intro kb_safe assms)

lemma printScreen_safe [kb_safe]: "kb_inv s \<Longrightarrow> kb_inv (printScreen E s)"
  unfolding printScreen_def Let_def by (intro kb_safe kb_inv_keys)

lemma extendedCodeKey_safe:
  assumes "kb_inv s" "k < 0x80"
  shows "safe_key (extendedCodeKey E b k s)"
  unfolding extendedCodeKey_def Let_def
  by (intro safe_keys kb_safe kb_update kb_inv_keys assms) (simp_all add: assms)

lemma kb_inv_keystates [kb_safe]:
  "kb_inv s \<Longrightarrow> kb_inv (s\<lparr>keyBitVector := KBV_KEYDOWN k (keyBitVector s)\<rparr>)"
  "kb_inv s \<Longrightarrow> kb_inv (s\<lparr>keyBitVector := KBV_KEYUP k (keyBitVector s)\<rparr>)"
  "kb_inv s \<Longrightarrow> kb_inv (s\<lparr>keyBitVector := replicate 8 0\<rparr>)"
  by (simp_all add: kb_inv_defs KBV_KEYDOWN_def KBV_KEYUP_def)

lemma updateKey_safe: "kb_inv s \<Longrightarrow> updateKey k d s = Some s' \<Longrightarrow> kb_inv s'"
  unfolding updateKey_def by (auto simp del: kb_inv_bits intro: kb_safe split: if_splits)

lemma extendedFunctionKey_safe: "kb_inv s \<Longrightarrow> kb_inv (snd (extendedFunctionKey E k d s))"
  by (auto simp: extendedFunctionKey_def intro!: kb_inv_extended)

lemma toggleMode_safe [kb_safe]: "kb_inv s \<Longrightarrow> kb_inv (enterToggleMode E s)"
  unfolding enterToggleMode_def Let_def by (intro kb_safe kb_update) simp_all

lemma numLockKey_safe: "kb_inv s \<Longrightarrow> safe_key (numLockKey E d s)"
  unfolding numLockKey_def Let_def by (intro safe_keys kb_safe kb_update) simp_all

lemma escapeKey_safe [kb_safe]: "kb_inv s \<Longrightarrow> kb_inv (escapeKey E k s)"
  unfolding escapeKey_def Let_def by (intro kb_safe kb_update kb_inv_keys) simp_all

lemma leftShiftKey_safe [kb_safe]: "kb_inv s \<Longrightarrow> kb_inv (leftShiftKey E d s)"
  unfolding leftShiftKey_def Let_def by (intro kb_safe kb_update) simp_all

lemma capsLockKey_safe [kb_safe]: "kb_inv s \<Longrightarrow> kb_inv (capsLockKey E d s)"
  unfolding capsLockKey_def Let_def
  by (intro kb_safe kb_update kb_inv_happen) simp_all

lemma contextMenuKey_safe: "kb_inv s \<Longrightarrow> safe_key (contextMenuKey E d s)"
  unfolding contextMenuKey_def Let_def by (intro safe_keys kb_safe kb_update kb_inv_keys) simp_all

lemma numpadKey_safe [kb_safe]: "kb_inv s \<Longrightarrow> kb_inv (numpadKey E k d s)"
  unfolding numpadKey_def Let_def by (intro kb_safe kb_update)

lemma specialKey_safe:
  assumes "kb_inv s" "k < 0x80"
  shows "safe_key (specialKey E k d s)"
  unfolding specialKey_def
  by (intro safe_keys numLockKey_safe contextMenuKey_safe kb_safe kb_update kb_inv_keys assms)
    (simp_all add: assms)

lemma featureToggle_safe [kb_safe]:
  assumes "kb_inv s" "k < 0x80" "env_safe E"
  shows "kb_inv (featureToggle E k d s)"
  unfolding featureToggle_def by (intro kb_safe kb_update assms) (simp_all add: assms)

section \<open>Dispatch\<close>

lemma kb_inv_keystate:
  "kb_inv s \<Longrightarrow> bit m 5 = bit (modifierKeystate s) 5 \<Longrightarrow> (bit m 6 \<Longrightarrow> bit (modifierKeystate s) 6) \<Longrightarrow>
     kb_inv (s\<lparr>modifierKeystate := m\<rparr>)"
  by (auto simp: kb_inv_defs split: if_splits)

lemma modifierKeystate_notify [simp]: "modifierKeystate (notify d s) = modifierKeystate s"
  by (simp add: notify_def happen_def)

lemma kb_inv_keystate_bits:
  assumes "kb_inv s"
  shows "kb_inv (s\<lparr>modifierKeystate := modifierKeystate s AND 0xBF OR 0x80\<rparr>)"
    "kb_inv (s\<lparr>modifierKeystate := modifierKeystate s AND 0x7F\<rparr>)"
    "kb_inv (s\<lparr>modifierKeystate := modifierKeystate s OR 0x01\<rparr>)"
    "kb_inv (s\<lparr>modifierKeystate := modifierKeystate s AND 0xFE\<rparr>)"
    "kb_inv (s\<lparr>modifierKeystate := modifierKeystate s OR 0x02\<rparr>)"
    "kb_inv (s\<lparr>modifierKeystate := modifierKeystate s AND 0xFD\<rparr>)"
  using assms by (auto intro!: kb_inv_keystate simp: bit_and_iff bit_or_iff)

text \<open>The alternate function begins only while bit 5 is clear, and bit 5 is set with it.\<close>

lemma kb_inv_alternate:
  assumes "kb_inv s" "modifierKeystate s AND 0x60 = 0"
  shows "kb_inv ((notify kPS2C_ALT_Funtion_on s)\<lparr>altFunctionEnabled := True, modifierKeystate := modifierKeystate s OR 0x60\<rparr>)"
proof -
  have "bit (modifierKeystate s AND 0x60) 5 = bit (modifierKeystate s) 5" by (simp add: bit_and_iff)
  then have "\<not> bit (modifierKeystate s) 5" using assms(2) by simp
  moreover have "bit (modifierKeystate s OR 0x60) 5" by (simp add: bit_or_iff)
  ultimately show ?thesis
    using assms(1) by (auto simp: kb_inv_defs notify_def happen_def)
qed

lemma kb_inv_controlling:
  "kb_inv (s\<lparr>controllingFeature := b, modifierKeystate := m\<rparr>) = kb_inv (s\<lparr>modifierKeystate := m\<rparr>)"
  by (simp add: kb_inv_defs)

lemma modifierNotifications_safe [kb_safe]:
  assumes "kb_inv s"
  shows "kb_inv (modifierNotifications s)"
proof -
  have n: "kb_inv (notify d s)" if "d \<noteq> kPS2C_ALT_Funtion_on" "d \<noteq> kPS2C_ALT_Funtion_off" for d
    using that assms by (intro kb_safe)
  note b = kb_inv_keystate_bits [OF n, simplified]
  show ?thesis
    unfolding modifierNotifications_def Let_def
    by (intro kb_inv_if kb_inv_controlling [THEN iffD2] b kb_inv_alternate assms) auto
qed

lemma dispatchKey_safe [kb_safe]:
  assumes "kb_inv s" "k < 0x80"
  shows "kb_inv (modifierKey E k d s)" "kb_inv (normalKey E k d s)" "kb_inv (dispatchKey E k d s)"
proof -
  show m: "kb_inv (modifierKey E k d s)"
    unfolding modifierKey_def dispatchADB_def Let_def by (intro kb_safe assms) simp_all
  show n: "kb_inv (normalKey E k d s)"
    unfolding normalKey_def dispatchADB_def Let_def by (intro kb_safe assms) simp_all
  show "kb_inv (dispatchKey E k d s)"
    unfolding dispatchKey_def by (intro kb_inv_if m n kb_inv_fnKeys assms)
qed

lemma handleKey_safe [kb_safe]:
  assumes "kb_inv s" "k < 0x80" "env_safe E"
  shows "kb_inv (handleKey E k d s)"
proof -
  let ?x = "extendedFunctionKey E k d s"
  have x: "kb_inv (snd ?x)" using assms(1) by (rule extendedFunctionKey_safe)
  let ?r = "specialKey E k d (snd ?x)"
  let ?s = "(snd ?r)\<lparr>isFnKeyComb := fnCombination (fst ?r) (snd ?r)\<rparr>"
  have r: "fst ?r < 0x80" "kb_inv ?s" using specialKey_safe [OF x assms(2)] by (simp_all add: safe_key_def)
  let ?q = "if featureToggleMode ?s then (0, featureToggle E (fst ?r) d ?s) else (fst ?r, ?s)"
  have q: "safe_key ?q" by (intro safe_keys featureToggle_safe r assms) simp
  then show ?thesis
    using x
    by (auto simp: handleKey_def Let_def case_prod_beta safe_key_def intro!: kb_inv_backlight dispatchKey_safe(3))
qed

lemma parseKey_safe [kb_safe]:
  assumes "safe_key r" "env_safe E"
  shows "kb_inv (parseKey E g b r)"
  using assms
  by (auto simp: parseKey_def Let_def safe_key_def case_prod_beta
      intro!: kb_inv_backlight handleKey_safe dest: updateKey_safe split: option.split)

lemma scanCode_key: "(b :: u8) AND NOT kSC_UpBit < 0x80"
  by (rule byte_cases [of _ b]) code_simp

lemma interrupt_safe [kb_safe]:
  assumes "kb_inv s" "env_safe E"
  shows "kb_inv (Keyboard_interruptOccurred E g b s)"
proof -
  let ?s = "s\<lparr>extendedCode := True, extendCount := extendCount s - 1\<rparr>"
  have s: "kb_inv ?s" by (intro kb_update assms)
  show ?thesis
    unfolding Keyboard_interruptOccurred_def dispatchKeyboardEventWithScancode_def Let_def
    by (intro kb_inv_if kb_update parseKey_safe normalCode_safe extendedCodeKey_safe scanCode_key s assms)
qed

section \<open>Reachable states\<close>

lemma kb_pre_preference:
  assumes "kb_pre s" "\<And>n. snd p = PrefNumber n \<Longrightarrow> n < 0x80"
  shows "kb_pre (setPreference p s)"
proof -
  have n: "(ucast n :: u8) < 0x80" if "n < 0x80" for n :: u32
    using that by (simp add: word_less_nat_alt unsigned_ucast_eq take_bit_nat_eq_self)
  have "kb_pre (setNumberPreference key n s)" if "n < 0x80" for key n
    using assms(1) n [OF that] by (auto simp: setNumberPreference_def kb_pre_def kb_inv_defs split: if_splits)
  moreover have "kb_pre (setBoolPreference key b s)" for key b
    using assms(1) by (auto simp: setBoolPreference_def kb_pre_def kb_inv_defs split: if_splits)
  ultimately show ?thesis using assms by (simp add: setPreference_def split: preference.split)
qed

lemma preferences_safe:
  assumes "kb_pre s" "env_safe E"
  shows "kb_pre (ReadKeyboardPreferences E s)"
proof -
  have "kb_pre (fold setPreference ps t)" if "\<forall>key n. (key, PrefNumber n) \<in> set ps \<longrightarrow> n < 0x80" "kb_pre t" for ps t
    using that
  proof (induction ps arbitrary: t)
    case (Cons p ps)
    have "kb_pre (setPreference p t)"
      using Cons.prems by (intro kb_pre_preference) (auto simp: prod_eq_iff)
    with Cons show ?case by auto
  qed simp
  with assms show ?thesis by (auto simp: ReadKeyboardPreferences_def env_safe_def split: option.split)
qed

lemma configure_safe:
  assumes "kb_pre s" "env_safe E"
  shows "kb_inv (configureKeyboard E s)"
proof -
  let ?s = "ReadKeyboardPreferences E s"
  let ?t = "readKeyboardModifiers E (if hasExtendFunctions (prefs ?s) then ReadExtendedFunctionsConfig E ?s else ?s)"
  have t: "kb_inv ?t"
    by (intro kb_inv_modifiers kb_inv_if kb_inv_readExtended kb_pre_inv(2) preferences_safe assms)
  show ?thesis
  proof (cases "fnKeysMode E")
    case None
    then show ?thesis using t by (simp add: configureKeyboard_def Let_def)
  next
    case (Some m)
    have u: "kb_inv (?t\<lparr>prefs := (prefs ?t)\<lparr>fnKeysModeNum := ucast m\<rparr>\<rparr>)" using t by (intro kb_update)
    show ?thesis
      unfolding configureKeyboard_def Let_def Some option.case
      by (intro kb_inv_if kb_inv_readFnKeys kb_inv_layout kb_update u)
  qed
qed

lemma deviceType_safe [kb_safe]: "kb_inv s \<Longrightarrow> kb_inv (snd (deviceType E s))"
  by (simp add: deviceType_def Let_def squareBrackets_def layoutMap_def kb_inv_defs)

lemma wake_safe [kb_safe]: "kb_inv s \<Longrightarrow> kb_inv (wakeKeyboard E s)"
proof -
  have fd: "kb_inv (fold (\<lambda>n k. if held (of_nat n) k then dispatchKeyboardKeyCode E (of_nat n) False k else k) ns t)"
    if "kb_inv t" for ns t
    using that by (induction ns arbitrary: t) (simp_all add: kb_inv_dispatch)
  assume "kb_inv s"
  then show ?thesis
    unfolding wakeKeyboard_def releaseHeldKeys_def Let_def by (intro kb_inv_leds fd kb_inv_keystates)
qed

text \<open>The object after start, and what may happen to it.\<close>

definition startedKeyboard :: "kb_env \<Rightarrow> keyboard" where
  "startedKeyboard E =
     configureKeyboard E (setLEDs (ledState keyboard_init) (snd (deviceType E keyboard_init)))"

inductive kb_step :: "kb_env \<Rightarrow> keyboard \<Rightarrow> keyboard \<Rightarrow> bool" for E where
  interrupt: "kb_step E s (Keyboard_interruptOccurred E garbage scanCode s)"
| notification: "kb_step E s (receiveTouchpadNotifications E datum s)"
| sleep: "kb_step E s (s\<lparr>isKeyboardEnabled := False\<rparr>)"
| wake: "kb_step E s ((wakeKeyboard E s)\<lparr>isKeyboardEnabled := True\<rparr>)"
| alphaLock: "kb_step E s (setAlphaLockFeedback locked s)"
| numLock: "kb_step E s (setNumLockFeedback locked s)"
| keyboardType: "kb_step E s (snd (deviceType E s))"

inductive kb_reachable :: "kb_env \<Rightarrow> keyboard \<Rightarrow> bool" for E where
  started: "kb_reachable E (startedKeyboard E)"
| step: "kb_reachable E s \<Longrightarrow> kb_step E s t \<Longrightarrow> kb_reachable E t"

lemma init_safe: "kb_inv keyboard_init"
  by (simp add: kb_inv_defs keyboard_init_def PS2ToADBMap_def ExtendedPS2ToADBMap_def)

lemma step_safe:
  assumes "kb_step E s t" "kb_inv s" "env_safe E"
  shows "kb_inv t"
  using assms by cases (auto intro!: kb_safe)

lemma reachable_safe: "kb_reachable E s \<Longrightarrow> env_safe E \<Longrightarrow> kb_inv s"
proof (induction rule: kb_reachable.induct)
  case started
  then show ?case
    unfolding startedKeyboard_def by (intro configure_safe kb_pre_inv(1) kb_safe init_safe)
qed (rule step_safe)

end
