(* ===== verification/Keyboard_Calm.thy ===== *)
theory Keyboard_Calm
  imports Keyboard_Reach
begin

text \<open>
  The keys that are down for the system, and the notifications of the touchpad driver, which press keys
  and release them again.
\<close>

section \<open>Keys that are down for the system\<close>

fun systemKey :: "kb_event \<Rightarrow> u8 set \<Rightarrow> u8 set" where
  "systemKey (KeyEvent k True) K = insert k K"
| "systemKey (KeyEvent k False) K = K - {k}"
| "systemKey _ K = K"

definition systemKeys :: "kb_event list \<Rightarrow> u8 set" where
  "systemKeys es = fold systemKey es {}"

lemma systemKeys_snoc [simp]: "systemKeys (es @ [e]) = systemKey e (systemKeys es)"
  by (simp add: systemKeys_def)

lemma systemKeys_append: "systemKeys (es @ fs) = fold systemKey fs (systemKeys es)"
  by (simp add: systemKeys_def)

lemma press_all: "fold systemKey (map (\<lambda>k. KeyEvent k True) ks) K = K \<union> set ks"
  by (induction ks arbitrary: K) auto

lemma release_all: "fold systemKey (map (\<lambda>k. KeyEvent k False) ks) K = K - set ks"
  by (induction ks arbitrary: K) auto

definition calm :: "keyboard \<Rightarrow> keyboard \<Rightarrow> bool" where
  "calm s t \<longleftrightarrow> systemKeys (kb_events t) \<subseteq> systemKeys (kb_events s)"

named_theorems calms \<open>an operation leaves no further key down\<close>

lemma calm_refl [calms]: "calm s s"
  by (simp add: calm_def)

lemma calm_trans: "calm s t \<Longrightarrow> calm t u \<Longrightarrow> calm s u"
  by (auto simp: calm_def)

lemma calm_if [calms]: "(b \<Longrightarrow> calm s t) \<Longrightarrow> (\<not> b \<Longrightarrow> calm s u) \<Longrightarrow> calm s (if b then t else u)"
  by simp

lemma calm_same: "kb_events t' = kb_events t \<Longrightarrow> calm s t \<Longrightarrow> calm s t'"
  by (simp add: calm_def)

section \<open>What is sent\<close>

lemma dispatch_fields [simp]:
  "kb_events (dispatchKeyboardKeyCode E k d s) = kb_events s @ [KeyEvent k d]"
  "extendedMap (dispatchKeyboardKeyCode E k d s) = extendedMap s" "normalMap (dispatchKeyboardKeyCode E k d s) = normalMap s"
  "commandKey (dispatchKeyboardKeyCode E k d s) = commandKey s" "contrlKey (dispatchKeyboardKeyCode E k d s) = contrlKey s"
  "altkey (dispatchKeyboardKeyCode E k d s) = altkey s" "prefs (dispatchKeyboardKeyCode E k d s) = prefs s"
  "osxVersion (dispatchKeyboardKeyCode E k d s) = osxVersion s"
  by (simp_all add: dispatchKeyboardKeyCode_def happen_def asked_def)

lemma misuse_fields [simp]:
  "kb_events (misuse b s) = kb_events s" "extendedMap (misuse b s) = extendedMap s" "normalMap (misuse b s) = normalMap s"
  "commandKey (misuse b s) = commandKey s" "contrlKey (misuse b s) = contrlKey s" "altkey (misuse b s) = altkey s"
  "prefs (misuse b s) = prefs s" "osxVersion (misuse b s) = osxVersion s"
  by (simp_all add: misuse_def)

lemma modifiers_events [simp]: "kb_events (readKeyboardModifiers E s) = kb_events s"
proof -
  have mv: "kb_events (moveModifier p t) = kb_events t" for p t
    by (simp add: moveModifier_def split: modifier_key.split)
  then have fd: "kb_events (fold moveModifier ps t) = kb_events t" for ps t
    by (induction ps arbitrary: t) (simp_all add: mv)
  show ?thesis
    by (auto simp: readKeyboardModifiers_def Let_def asked_def fd mv split: option.split list.split)
qed

lemma modifiers_fields [simp]:
  "extendedMap (readKeyboardModifiers E s) = extendedMap s" "prefs (readKeyboardModifiers E s) = prefs s"
  "osxVersion (readKeyboardModifiers E s) = osxVersion s"
proof -
  have mv: "extendedMap (moveModifier p t) = extendedMap t" "prefs (moveModifier p t) = prefs t"
      "osxVersion (moveModifier p t) = osxVersion t" for p t
    by (simp_all add: moveModifier_def split: modifier_key.split)
  have fd: "extendedMap (fold moveModifier ps t) = extendedMap t" "prefs (fold moveModifier ps t) = prefs t"
      "osxVersion (fold moveModifier ps t) = osxVersion t" for ps t
    by (induction ps arbitrary: t) (simp_all add: mv)
  show "extendedMap (readKeyboardModifiers E s) = extendedMap s" "prefs (readKeyboardModifiers E s) = prefs s"
    "osxVersion (readKeyboardModifiers E s) = osxVersion s"
    by (auto simp: readKeyboardModifiers_def Let_def asked_def fd mv split: option.split list.split)
qed

text \<open>The code of a modifier where the system preferences put it.\<close>

definition modifierCode :: "modifier \<Rightarrow> keyboard \<Rightarrow> u8" where
  "modifierCode m s =
     (case m of Cmd \<Rightarrow> extendedMap s ! unat (commandKey s) | Ctrl \<Rightarrow> extendedMap s ! unat (contrlKey s)
      | Alt \<Rightarrow> extendedMap s ! unat (altkey s) | Shift \<Rightarrow> 0x38)"

lemma modifierCode_dispatch [simp]:
  "modifierCode m (dispatchKeyboardKeyCode E k d s) = modifierCode m s" "modifierCode m (misuse b s) = modifierCode m s"
  by (simp_all add: modifierCode_def split: modifier.split)

lemma dispatchModifier_sends [simp]:
  "kb_events (dispatchModifier E d m s) = kb_events s @ [KeyEvent (modifierCode m s) d]"
  "modifierCode n (dispatchModifier E d m s) = modifierCode n s" "prefs (dispatchModifier E d m s) = prefs s"
  "osxVersion (dispatchModifier E d m s) = osxVersion s"
  by (cases m; simp add: dispatchModifier_def dispatchExtended_def modifierCode_def; simp split: modifier.split)+

lemma modifiers_send:
  "kb_events (fold (dispatchModifier E d) ms s) = kb_events s @ map (\<lambda>m. KeyEvent (modifierCode m s) d) ms"
  "modifierCode n (fold (dispatchModifier E d) ms s) = modifierCode n s"
  by (induction ms arbitrary: s) simp_all

lemma pressRelease_sends [simp]:
  "kb_events (pressRelease E k s) = kb_events s @ [KeyEvent k True, KeyEvent k False]"
  "modifierCode n (pressRelease E k s) = modifierCode n s"
  by (simp_all add: pressRelease_def)

lemma shortcut_sends:
  "kb_events (shortcut E ms k s) = kb_events s @ map (\<lambda>m. KeyEvent (modifierCode m s) True) ms @
     [KeyEvent k True, KeyEvent k False] @ map (\<lambda>m. KeyEvent (modifierCode m s) False) (rev ms)"
  by (simp add: shortcut_def modifiers_send)

section \<open>Operations that leave no key down\<close>

lemma calm_shortcut [calms]: "calm s t \<Longrightarrow> calm s (shortcut E ms k t)"
proof -
  have "fold systemKey (map (\<lambda>m. KeyEvent (modifierCode m t) True) ms @ [KeyEvent k True, KeyEvent k False] @
      map (\<lambda>m. KeyEvent (modifierCode m t) False) (rev ms)) K \<subseteq> K" for K
    using press_all [of "map (\<lambda>m. modifierCode m t) ms"] release_all [of "map (\<lambda>m. modifierCode m t) (rev ms)"]
    by (auto simp: comp_def)
  then show "calm s t \<Longrightarrow> calm s (shortcut E ms k t)"
    unfolding calm_def shortcut_sends systemKeys_append by blast
qed

lemma calm_release [calms]: "calm s t \<Longrightarrow> calm s (releaseModifier E m t)" "calm s t \<Longrightarrow> calm s (pressRelease E k t)"
  "calm s t \<Longrightarrow> calm s (dispatchKeyboardKeyCode E k False t)" "calm s t \<Longrightarrow> calm s (dispatchModifier E False m t)"
  "calm s t \<Longrightarrow> calm s (dispatchNormal E k False t)"
  by (auto simp: calm_def releaseModifier_def systemKeys_append dispatchNormal_def)

lemma calm_notify [calms]:
  "calm s t \<Longrightarrow> calm s (notify d t)" "calm s t \<Longrightarrow> calm s (happen SetProduct t)" "calm s t \<Longrightarrow> calm s (happen (EvaluateSKBL l) t)"
  by (simp_all add: calm_def notify_def happen_def)

lemma calm_update [calms]:
  "calm s t \<Longrightarrow> calm s (t\<lparr>releaseGestureKey := b\<rparr>)" "calm s t \<Longrightarrow> calm s (t\<lparr>osxVersion := v\<rparr>)"
  "calm s t \<Longrightarrow> calm s (t\<lparr>enabledAsusKBacklight := b\<rparr>)" "calm s t \<Longrightarrow> calm s (t\<lparr>asusKBHas16LevelSupport := b\<rparr>)"
  "calm s t \<Longrightarrow> calm s (t\<lparr>isTPadEnabled := b\<rparr>)" "calm s t \<Longrightarrow> calm s (t\<lparr>kbrdBackLightLvl := l\<rparr>)"
  "calm s t \<Longrightarrow> calm s (t\<lparr>displaySleep := b\<rparr>)" "calm s t \<Longrightarrow> calm s (asked t)"
  "calm s t \<Longrightarrow> calm s (stampFnKey m t)" "calm s t \<Longrightarrow> calm s (readKeyboardModifiers E t)"
  by (simp_all add: calm_def asked_def stampFnKey_def)

lemma calm_acpi [calms]:
  "calm s t \<Longrightarrow> calm s (setAsusKBlight E l t)" "calm s t \<Longrightarrow> calm s (snd (readAsusKBlight E r t))"
  unfolding setAsusKBlight_def readAsusKBlight_def
  by (auto intro!: calms split: option.split)

lemma calm_backlight [calms]:
  "calm s t \<Longrightarrow> calm s (receiveInitKeyboard E t)" "calm s t \<Longrightarrow> calm s (receiveBackLightOff E t)"
  "calm s t \<Longrightarrow> calm s (receiveBackLightOn E t)"
  by (auto simp: receiveInitKeyboard_def initKeyboardBacklight_def receiveBackLightOff_def
      receiveBackLightOn_def Let_def case_prod_beta intro!: calms split: option.split)

text \<open>The keys of a combination are the same when it is pressed and when it is released.\<close>

fun combCodes :: "string \<Rightarrow> string \<Rightarrow> nat \<Rightarrow> u8 list" where
  "combCodes key [] l = (if combKeyCode key \<noteq> DEADKEY then [combKeyCode key] else [])"
| "combCodes key (c # cs) l =
     (if c = CHR '' '' then
        (if combKeyCode key \<noteq> DEADKEY
         then combKeyCode key # (if l + 1 = 3 then [] else combCodes [] cs (l + 1))
         else if l = 3 then [] else combCodes [] cs l)
      else combCodes (key @ [c]) cs l)"

lemma combLoop_sends [simp]:
  "kb_events (combLoop E d key cs l s) = kb_events s @ map (\<lambda>k. KeyEvent k d) (combCodes key cs l)"
  by (induction E d key cs l s rule: combLoop.induct) (auto simp: combKey_def Let_def split: prod.split)

lemma calm_combination [calms]: "calm s t \<Longrightarrow> calm s (extendedFunctionGesture E i t)"
  by (auto simp: extendedFunctionGesture_def ProcessKeyCombinations_def Let_def calm_def systemKeys_append press_all
      release_all split: option.split)

text \<open>Function keys dispatched without their key.\<close>

lemma calm_finer [calms]: "calm s t \<Longrightarrow> calm s (finerStep E f k t)"
  by (auto simp: finerStep_def dispatchNormal_def Let_def calm_def systemKeys_append)

lemma calm_toggleTPad [calms]: "calm s t \<Longrightarrow> calm s (toggleTPad t)"
  unfolding toggleTPad_def Let_def by (intro calms)

lemma calm_displaySleep [calms]:
  assumes "calm s t"
  shows "calm s (toggleDisplaySleep E t)"
proof -
  have "calm s (dispatchNormal E (contrlKey t) False (dispatchKeyboardKeyCode E 0x38 False
      (dispatchKeyboardKeyCode E 0x70 False (dispatchKeyboardKeyCode E 0x70 True
        (dispatchKeyboardKeyCode E 0x38 True (dispatchNormal E (contrlKey t) True t))))))"
    using assms by (auto simp: calm_def dispatchNormal_def systemKeys_append)
  note u = calm_update(7) [OF calm_toggleTPad [OF this]]
  show ?thesis
    using u by (simp add: toggleDisplaySleep_def Let_def dispatchNormal_def)
qed

lemma calm_fnKey [calms]: "calm s t \<Longrightarrow> calm s (processFnKeysUp E k t)"
  unfolding processFnKeysUp_def dispatchFnKey_def Let_def case_prod_beta
  by (intro calms) (auto intro!: calms)

end
