(* ===== verification/Keyboard_Props.thy ===== *)
theory Keyboard_Props
  imports Keyboard_Calm
begin

text \<open>
  What the keyboard driver guarantees, over its reachable states and over runs of scan codes, and where
  it does not do what its comments say.
\<close>

section \<open>Key states are a set of keys\<close>

definition keysDown :: "u32 list \<Rightarrow> u8 set" where
  "keysDown bits = {k. KBV_IS_KEYDOWN k bits}"

lemma key_coordinates:
  "(k :: u8) = j \<longleftrightarrow> unat (drop_bit 5 k) = unat (drop_bit 5 j) \<and> unat (k AND 31) = unat (j AND 31)"
proof
  assume a: "unat (drop_bit 5 k) = unat (drop_bit 5 j) \<and> unat (k AND 31) = unat (j AND 31)"
  then have d: "drop_bit 5 k = drop_bit 5 j" and "k AND 31 = j AND 31" by (simp_all only: word_unat_eq_iff)
  then have m: "k AND mask 5 = j AND mask 5" by (simp add: mask_eq_exp_minus_1)
  show "k = j"
  proof (rule bit_word_eqI)
    fix n assume "n < LENGTH(8)"
    show "bit k n = bit j n"
      using arg_cong [OF d, of "\<lambda>w. bit w (n - 5)"] arg_cong [OF m, of "\<lambda>w. bit w n"] \<open>n < LENGTH(8)\<close>
      by (cases "n < 5") (simp_all add: bit_simps)
  qed
qed simp

lemma key_word: "unat (drop_bit 5 (k :: u8)) < 8" and key_bit: "unat ((k :: u8) AND 31) < 32"
proof -
  have "\<forall>n \<in> set [0..<256]. unat (drop_bit 5 (word_of_nat n :: u8)) < 8 \<and> unat ((word_of_nat n :: u8) AND 31) < 32"
    by code_simp
  from byte_cases [of "\<lambda>k. unat (drop_bit 5 k) < 8 \<and> unat (k AND 31) < 32", OF this]
  show "unat (drop_bit 5 (k :: u8)) < 8" "unat ((k :: u8) AND 31) < 32" by simp_all
qed

lemma is_down_bit: "KBV_IS_KEYDOWN k bits \<longleftrightarrow> bit (bits ! unat (drop_bit 5 k)) (unat (k AND 31))"
  using key_bit [of k] by (simp add: KBV_IS_KEYDOWN_def bit_iff_and_push_bit_not_eq_0)

lemma keysDown_press: "length bits = 8 \<Longrightarrow> keysDown (KBV_KEYDOWN k bits) = insert k (keysDown bits)"
  using key_word [of k] key_bit
  by (auto simp: keysDown_def is_down_bit KBV_KEYDOWN_def nth_list_update bit_simps key_coordinates [of _ k])

lemma keysDown_release: "length bits = 8 \<Longrightarrow> keysDown (KBV_KEYUP k bits) = keysDown bits - {k}"
  using key_word [of k] key_bit
  by (auto simp: keysDown_def is_down_bit KBV_KEYUP_def nth_list_update bit_simps key_coordinates [of _ k])

lemma held_iff: "held k s \<longleftrightarrow> k \<in> keysDown (keyBitVector s)"
  by (simp add: keysDown_def)


text \<open>
  C37: the macros KBV_KEYDOWN and KBV_KEYUP on the bit vector of eight words insert a key into the set of
  the keys that are down and remove it, and change no other key.
\<close>

theorem key_states_are_a_set:
  assumes "length bits = 8"
  shows "keysDown (KBV_KEYDOWN k bits) = insert k (keysDown bits) \<and> keysDown (KBV_KEYUP k bits) = keysDown bits - {k}"
  using assms by (simp add: keysDown_press keysDown_release)

lemma key_states_are_a_set_witness:
  "keysDown (KBV_KEYDOWN 0x9e [0, 1, 0, 0, 0x3, 0, 0, 0]) = insert 0x9e (keysDown [0, 1, 0, 0, 0x3, 0, 0, 0]) \<and>
   keysDown (KBV_KEYUP 0x81 [0, 1, 0, 0, 0x3, 0, 0, 0]) = keysDown [0, 1, 0, 0, 0x3, 0, 0, 0] - {0x81} \<and>
   KBV_KEYUP 0x81 [0, 1, 0, 0, 0x3, 0, 0, 0] = [0, 1, 0, 0, 0x1, 0, 0, 0]"
proof -
  have "KBV_KEYUP 0x81 [0, 1, 0, 0, 0x3, 0, 0, 0] = [0, 1, 0, 0, 0x1, 0, 0, 0]" by code_simp
  then show ?thesis
    using key_states_are_a_set [of "[0, 1, 0, 0, 0x3, 0, 0, 0]" "0x9e"]
      key_states_are_a_set [of "[0, 1, 0, 0, 0x3, 0, 0, 0]" "0x81"] by simp
qed

section \<open>Reachable states\<close>

definition keyboardRun :: "kb_env \<Rightarrow> u8 list \<Rightarrow> keyboard \<Rightarrow> keyboard" where
  "keyboardRun E = fold (Keyboard_interruptOccurred E False)"

lemma keyboardRun_simps [simp]:
  "keyboardRun E [] s = s" "keyboardRun E (b # bs) s = keyboardRun E bs (Keyboard_interruptOccurred E False b s)"
  by (simp_all add: keyboardRun_def)

lemma reachable_run: "kb_reachable E s \<Longrightarrow> kb_reachable E (keyboardRun E bs s)"
  by (induction bs arbitrary: s) (auto intro: kb_reachable.step kb_step.interrupt)

text \<open>An environment with the extended functions enabled and the panel of a plain keyboard.\<close>

definition plainEnv :: kb_env where
  "plainEnv =
     \<lparr>kb_clock = of_nat, microtime = (\<lambda>n. (of_nat n, 0)), modifierPairs = (\<lambda>n. None), acpi_GKBL = (\<lambda>n p. None),
      acpi_GKLM = (\<lambda>n. None), acpi_SKBL = (\<lambda>n. None), acpi_SLPN = (\<lambda>n. False), asusPanelLevels = (\<lambda>n. None),
      kb_preferences = Some [(''Enable Extended Functions'', PrefBool True)], fnKeysMode1 = None, fnKeysMode2 = None,
      fnKeysLayout = None,
      extendedFunctions = Some (map (\<lambda>n. (n, Some (if n = ''F13'' then ''CMD ALT F'' else []))) extendedNames),
      productName = None, fnKeysMode = None, keyboardType = None, useISOLayout = False, osMajor = 16\<rparr>"

lemma plainEnv_safe: "env_safe plainEnv"
  by (simp add: env_safe_def plainEnv_def extendedNames_def)

text \<open>
  C5: as long as remapped keys are scan codes and every extended function has a combination with words of
  at most four characters, no reachable state of the keyboard driver has accessed a table or the buffer of
  a word out of range or read through a null pointer, whatever scan codes and notifications arrive.
\<close>

theorem keyboard_memory_safe:
  assumes "env_safe E" "kb_reachable E s"
  shows "\<not> bad s"
  using reachable_safe [OF assms(2,1)] by (simp add: kb_inv_defs)

lemma keyboard_memory_safe_witness:
  "\<not> bad (keyboardRun plainEnv [0x2a, 0x3b, 0xbb, 0xe0, 0x5b, 0xe1, 0x1d, 0x45] (startedKeyboard plainEnv))"
  by (rule keyboard_memory_safe [OF plainEnv_safe reachable_run [OF kb_reachable.started]])

text \<open>
  an extended function that is enabled but has no combination is read through a null pointer when its
  key is pressed with shift.
\<close>

theorem missing_function_is_dereferenced:
  "\<not> bad (keyboardRun (plainEnv\<lparr>extendedFunctions := None\<rparr>) [0x2a] (startedKeyboard (plainEnv\<lparr>extendedFunctions := None\<rparr>))) \<and>
   bad (keyboardRun (plainEnv\<lparr>extendedFunctions := None\<rparr>) [0x2a, 0x3b] (startedKeyboard (plainEnv\<lparr>extendedFunctions := None\<rparr>)))"
  by code_simp

text \<open>
  C26: the touchpad driver is told at most once that the alternate function (command and alt) begins, and
  never that it ends: the test for its end asks for the bit of another feature.
\<close>

theorem alternate_function_never_ends:
  assumes "env_safe E" "kb_reachable E s"
  shows "Notification kPS2C_ALT_Funtion_off \<notin> set (kb_events s) \<and>
    count_list (kb_events s) (Notification kPS2C_ALT_Funtion_on) < 2"
  using reachable_safe [OF assms(2,1)] by (auto simp: kb_inv_defs count_list_0_iff [symmetric] split: if_splits)

lemma alternate_function_never_ends_witness:
  "let s = keyboardRun plainEnv [0xe0, 0x5b, 0x38, 0xb8, 0xe0, 0xdb, 0xe0, 0x5b, 0x38] (startedKeyboard plainEnv)
   in Notification kPS2C_ALT_Funtion_off \<notin> set (kb_events s) \<and>
      count_list (kb_events s) (Notification kPS2C_ALT_Funtion_on) < 2 \<and>
      count_list (kb_events s) (Notification kPS2C_ALT_Funtion_on) = 1"
proof -
  have "count_list (kb_events (keyboardRun plainEnv [0xe0, 0x5b, 0x38, 0xb8, 0xe0, 0xdb, 0xe0, 0x5b, 0x38]
      (startedKeyboard plainEnv))) (Notification kPS2C_ALT_Funtion_on) = 1"
    by code_simp
  then show ?thesis
    using alternate_function_never_ends [OF plainEnv_safe reachable_run [OF kb_reachable.started],
      of "[0xe0, 0x5b, 0x38, 0xb8, 0xe0, 0xdb, 0xe0, 0x5b, 0x38]"]
    unfolding Let_def by blast
qed


section \<open>Notifications of the touchpad driver\<close>

lemma gesture_calm [calms]: "calm s t \<Longrightarrow> d \<noteq> kPS2C_Gesture_AppSwitch \<Longrightarrow> calm s (receiveGesture E d t)"
  unfolding receiveGesture_def
  by (rule calm_if; (intro calms; simp)?)+

text \<open>
  C11: no notification leaves a key down that was not down before, for the system, but for the application
  switcher, which holds command until it is released by a further notification or by a key, and the control
  key itself.
\<close>

theorem gestures_leave_no_key_down:
  assumes "d \<noteq> kPS2C_Gesture_AppSwitch" "d \<noteq> kPS2C_CNTRLKeyDown"
  shows "systemKeys (kb_events (receiveTouchpadNotifications E d s)) \<subseteq> systemKeys (kb_events s)"
proof -
  let ?s = "if osxVersion s = 0 then s\<lparr>osxVersion := ucast d\<rparr> else s"
  let ?t = "if checksModifiers d then readKeyboardModifiers E ?s else ?s"
  have t: "calm s ?t" by (intro calms)
  have "calm s (receiveTouchpadNotifications E d s)"
    unfolding receiveTouchpadNotifications_def Let_def
    by (intro calms t gesture_calm assms) (use assms in auto)
  then show ?thesis by (simp add: calm_def)
qed

lemma gestures_leave_no_key_down_witness:
  "let s = keyboardRun plainEnv [0x1e] (startedKeyboard plainEnv);
       t = receiveTouchpadNotifications plainEnv kPS2C_ZoomPlus s
   in systemKeys (kb_events t) \<subseteq> systemKeys (kb_events s) \<and>
      drop (length (kb_events s)) (kb_events t) =
        [KeyEvent 0x37 True, KeyEvent 0x45 True, KeyEvent 0x45 False, KeyEvent 0x37 False, KeyEvent 0x37 True,
         KeyEvent 0x37 False]"
proof -
  have "drop (length (kb_events (keyboardRun plainEnv [0x1e] (startedKeyboard plainEnv))))
      (kb_events (receiveTouchpadNotifications plainEnv kPS2C_ZoomPlus
        (keyboardRun plainEnv [0x1e] (startedKeyboard plainEnv)))) =
      [KeyEvent 0x37 True, KeyEvent 0x45 True, KeyEvent 0x45 False, KeyEvent 0x37 False, KeyEvent 0x37 True,
       KeyEvent 0x37 False]"
    by code_simp
  then show ?thesis
    using gestures_leave_no_key_down [of kPS2C_ZoomPlus plainEnv "keyboardRun plainEnv [0x1e] (startedKeyboard plainEnv)"]
    unfolding Let_def by simp
qed

text \<open>
  the number of the system version that the touchpad driver announces is also carried out as a gesture:
  12 presses command and the key of the right bracket.
\<close>

theorem version_is_executed_as_gesture:
  assumes "keyboardTypeID (prefs s) \<notin> {0x30, 0x31, 0x32, 0x34}"
  shows "osxVersion (receiveTouchpadNotifications E 12 (receiveTouchpadNotifications E kPS2C_OSXVersionNotify s)) = 12 \<and>
    (\<exists>c. kb_events (receiveTouchpadNotifications E 12 (receiveTouchpadNotifications E kPS2C_OSXVersionNotify s)) =
      kb_events s @ [KeyEvent c True, KeyEvent (ISORSquareBracket (prefs s)) True,
        KeyEvent (ISORSquareBracket (prefs s)) False, KeyEvent c False])"
proof -
  obtain s' where s': "receiveTouchpadNotifications E kPS2C_OSXVersionNotify s = s'" "osxVersion s' = 0"
      "kb_events s' = kb_events s" "prefs s' = prefs s"
    by (simp add: receiveTouchpadNotifications_def checksModifiers_def)
  let ?t = "readKeyboardModifiers E (s'\<lparr>osxVersion := 12\<rparr>)"
  have r: "receiveTouchpadNotifications E 12 s' = shortcut E [Cmd] (ISORSquareBracket (prefs s)) ?t"
    using assms s' by (simp add: receiveTouchpadNotifications_def checksModifiers_def receiveGesture_def)
  show ?thesis
    unfolding s' r by (simp add: shortcut_sends s') (simp add: shortcut_def pressRelease_def)
qed

lemma version_is_executed_as_gesture_witness:
  "\<exists>c. kb_events (receiveTouchpadNotifications plainEnv 12 (receiveTouchpadNotifications plainEnv kPS2C_OSXVersionNotify
      (snd (deviceType plainEnv keyboard_init)))) =
     [KeyEvent c True, KeyEvent 0x1e True, KeyEvent 0x1e False, KeyEvent c False]"
proof -
  have "prefs (snd (deviceType plainEnv keyboard_init)) =
      (prefs keyboard_init)\<lparr>ISOLSquareBracket := 0x21, ISORSquareBracket := 0x1e\<rparr>"
    and "kb_events (snd (deviceType plainEnv keyboard_init)) = []"
    by code_simp+
  then show ?thesis
    using version_is_executed_as_gesture [of "snd (deviceType plainEnv keyboard_init)" plainEnv]
    by (simp add: keyboard_init_def)
qed

section \<open>Sleep\<close>

text \<open>
  waking up clears the key states before it looks for keys that are down, so whatever was held when the
  machine went to sleep, no key is released, and only the LEDs are set.
\<close>

theorem wake_releases_no_key:
  "kb_events (wakeKeyboard E s) = kb_events s @
     [SubmitCommands [(kPS2C_WriteDataPort, kDP_SetKeyboardLEDs), (kPS2C_ReadDataPortAndCompare, kSC_Acknowledge),
        (kPS2C_WriteDataPort, ledState s), (kPS2C_ReadDataPortAndCompare, kSC_Acknowledge)]] \<and>
   keysDown (keyBitVector (wakeKeyboard E s)) = {}"
proof -
  let ?z = "s\<lparr>keyBitVector := replicate 8 0\<rparr>"
  have none: "\<not> held k ?z" for k
    using key_word [of k] by (simp add: is_down_bit)
  have "fold (\<lambda>n k. if held (of_nat n) k then dispatchKeyboardKeyCode E (of_nat n) False k else k) ns ?z = ?z" for ns
    using none by (induction ns) simp_all
  then have "releaseHeldKeys E ?z = ?z" by (simp add: releaseHeldKeys_def)
  then show ?thesis
    using none by (simp add: wakeKeyboard_def setLEDs_def happen_def keysDown_def)
qed

section \<open>The generator of ADB codes\<close>

definition keypadKey :: "nat \<Rightarrow> u8" where
  "keypadKey d = [0x52, 0x4f, 0x50, 0x51, 0x4b, 0x4c, 0x4d, 0x47, 0x48, 0x49] ! d"

lemma keypad_digit: "d < 10 \<Longrightarrow> map_of keypadDigits (keypadKey d) = Some (of_nat d)"
proof -
  have "\<forall>d \<in> set [0..<10]. map_of keypadDigits (keypadKey d) = Some (of_nat d)" by code_simp
  then show "d < 10 \<Longrightarrow> map_of keypadDigits (keypadKey d) = Some (of_nat d)" by simp
qed

definition typeDigits :: "kb_env \<Rightarrow> nat list \<Rightarrow> keyboard \<Rightarrow> keyboard" where
  "typeDigits E = fold (\<lambda>d. generateAndSeeADBCode E (keypadKey d) True)"

fun decimal :: "nat \<Rightarrow> nat list \<Rightarrow> nat" where
  "decimal n [] = n"
| "decimal n (d # ds) = decimal (10 * n + d) ds"

lemma byte_eq: "m < 256 \<Longrightarrow> n < 256 \<Longrightarrow> (of_nat m :: u8) = of_nat n \<longleftrightarrow> m = n"
  by (metis unat_of_nat_u8)

lemma digit_facts:
  "d < 10 \<Longrightarrow> (of_nat d :: u8) = 0 \<longleftrightarrow> d = 0" "d < 10 \<Longrightarrow> (of_nat d :: u8) \<noteq> 10"
  using byte_eq [of d 0] byte_eq [of d 10] by auto

lemma typeDigits_state:
  assumes "ds \<noteq> []" "length ds < 4" "\<forall>d \<in> set ds. d < 10" "tempCode1 s = 0"
  shows "generatedCode (typeDigits E ds s) = of_nat (decimal 0 ds)"
    "kb_events (typeDigits E ds s) = kb_events s"
    "decimal 0 ds = 0 \<Longrightarrow> tempCode1 (typeDigits E ds s) = 0"
proof -
  have ten: "(10 :: u8) \<noteq> 0" by simp
  from assms(1,2) consider (1) a where "ds = [a]" | (2) a b where "ds = [a, b]" | (3) a b c where "ds = [a, b, c]"
    by (cases ds; cases "tl ds"; cases "tl (tl ds)") auto
  note shape = this
  from shape show "generatedCode (typeDigits E ds s) = of_nat (decimal 0 ds)"
    "kb_events (typeDigits E ds s) = kb_events s"
    using assms(3,4)
    by (cases; auto simp: typeDigits_def generateAndSeeADBCode_def keypad_digit digit_facts ten Let_def)+
  show "tempCode1 (typeDigits E ds s) = 0" if "decimal 0 ds = 0"
    using shape that assms(3,4)
    by cases (auto simp: typeDigits_def generateAndSeeADBCode_def keypad_digit digit_facts Let_def)
qed

text \<open>
  C38: when the generator is at rest and one to three digits that make a number below 256 are typed on the
  keypad, leading zeros included, then the release of the key sends that ADB code, pressed and released; the
  code 0 is never sent. Typing alone sends nothing, and the generator is at rest again for the next code.
\<close>

theorem adb_codes_roundtrip:
  assumes "ds \<noteq> []" "length ds < 4" "\<forall>d \<in> set ds. d < 10" "decimal 0 ds < 256" "tempCode1 s = 0"
  shows "kb_events (typeDigits E ds s) = kb_events s \<and>
    kb_events (generateAndSeeADBCode E k False (typeDigits E ds s)) =
      kb_events s @ (if decimal 0 ds = 0 then []
        else [KeyEvent (of_nat (decimal 0 ds)) True, KeyEvent (of_nat (decimal 0 ds)) False]) \<and>
    tempCode1 (generateAndSeeADBCode E k False (typeDigits E ds s)) = 0"
proof -
  note g = typeDigits_state [OF assms(1-3,5), of E]
  have "(of_nat (decimal 0 ds) :: u8) = 0 \<longleftrightarrow> decimal 0 ds = 0" using byte_eq [OF assms(4), of 0] by simp
  then show ?thesis using g by (simp add: generateAndSeeADBCode_def)
qed

lemma adb_codes_roundtrip_witness:
  "kb_events (generateAndSeeADBCode plainEnv 0x5d False (typeDigits plainEnv [0, 5, 3] keyboard_init)) =
     [KeyEvent 53 True, KeyEvent 53 False]"
  using adb_codes_roundtrip [of "[0, 5, 3]" keyboard_init plainEnv] by (simp add: keyboard_init_def)

section \<open>Vendor layouts\<close>

definition layoutKeys :: "fn_keys \<Rightarrow> u8 list" where
  "layoutKeys k = filter (\<lambda>c. c \<noteq> DEADKEY)
     [brightNessDown k, brightNessUp k, sleepKey k, missonCtlFun k, launchpadFun k, dispSleep k, videoMirror k,
      touchpadKey k, volMute k, volDown k, volUp k, mediaPrev k, mediaPlay k, mediaNext k]"

text \<open>
  every vendor layout gives each of its functions a key of its own, but for that of MSI, whose volume
  keys are the keys of the previous and the next track; these are tested first, so the volume never changes.
\<close>

theorem vendor_layouts_are_injective:
  "list_all (\<lambda>layout. distinct (layoutKeys (layout k)))
     [fnLayout_NONE, fnLayout_ASUS b, fnLayout_DELL, fnLayout_ACER, fnLayout_SAMSUNG, fnLayout_GIGABYTE,
      fnLayout_LENOVO, fnLayout_HP, fnLayout_LG] \<and>
   volDown (fnLayout_MSI k) = mediaPrev (fnLayout_MSI k) \<and> volUp (fnLayout_MSI k) = mediaNext (fnLayout_MSI k) \<and>
   snd (fnKeyDown E (volDown (fnLayout_MSI k)) r (keyboard_init\<lparr>fnk := fnLayout_MSI k\<rparr>)) =
     dispatchKeyboardKeyCode E 0x34 True (keyboard_init\<lparr>fnk := fnLayout_MSI k\<rparr>)"
  by (cases b)
    (simp_all add: layoutKeys_def fnLayout_NONE_def fnLayout_ASUS_def fnLayout_DELL_def fnLayout_ACER_def
      fnLayout_SAMSUNG_def fnLayout_MSI_def fnLayout_GIGABYTE_def fnLayout_LENOVO_def fnLayout_HP_def fnLayout_LG_def
      fnKeyDown_def keyboard_init_def Let_def)

end
