(* ===== verification/Keyboard_Typing.thy ===== *)
theory Keyboard_Typing
  imports Keyboard_Props
begin

text \<open>
  Typing of ordinary keys: the driver, byte by byte, does what a keyboard does that is a set of pressed keys.
\<close>

section \<open>The specification\<close>

definition ordinaryKeys :: "u8 list" where
  "ordinaryKeys = map of_nat ([0x02..<0x0e] @ [0x10..<0x1c] @ [0x1e..<0x2a] @ [0x2b..<0x35])"

definition scanByte :: "u8 \<times> bool \<Rightarrow> u8" where
  "scanByte x = (if snd x then fst x else fst x OR kSC_UpBit)"

text \<open>A key sends an event when it goes down or up, and none when it repeats; \<open>m\<close> translates keys.\<close>

fun typeSpec :: "u8 list \<Rightarrow> u8 set \<Rightarrow> (u8 \<times> bool) list \<Rightarrow> kb_event list" where
  "typeSpec m K [] = []"
| "typeSpec m K ((k, True) # xs) =
     (if k \<in> K then typeSpec m K xs
      else KeyEvent (m ! unat k) True # Notification kPS2C_AccidentalInput # typeSpec m (insert k K) xs)"
| "typeSpec m K ((k, False) # xs) = KeyEvent (m ! unat k) False # typeSpec m (K - {k}) xs"

text \<open>The states in which keys are typed: no other key is down and no special mode is on.\<close>

definition typing :: "keyboard \<Rightarrow> bool" where
  "typing s \<longleftrightarrow> isKeyboardEnabled s \<and> extendCount s = 0 \<and> \<not> displaySleep s \<and> \<not> featureToggleMode s \<and>
     \<not> isFnKeyPressed s \<and> isTPadEnabled s \<and> \<not> enabledAsusKBacklight s \<and> length (keyBitVector s) = 8 \<and>
     keysDown (keyBitVector s) \<subseteq> set ordinaryKeys \<and>
     commandKey s \<notin> set ordinaryKeys \<and> contrlKey s \<notin> set ordinaryKeys \<and> altkey s \<notin> set ordinaryKeys \<and>
     set (fnKeyCodes (fnk s)) \<inter> set ordinaryKeys = {}"

section \<open>One key\<close>

lemma ordinary_facts:
  assumes "k \<in> set ordinaryKeys"
  shows "k < 0x80" "k \<noteq> 0" "\<not> scanUp k" "scanUp (k OR kSC_UpBit)" "k AND NOT kSC_UpBit = k"
    "(k OR kSC_UpBit) AND NOT kSC_UpBit = k" "k \<noteq> kSC_Extend" "k \<noteq> kSC_Pause" "k \<noteq> kSC_Acknowledge"
    "k \<noteq> kSC_Resend" "k OR kSC_UpBit \<noteq> kSC_Extend" "k OR kSC_UpBit \<noteq> kSC_Pause"
    "k OR kSC_UpBit \<noteq> kSC_Acknowledge" "k OR kSC_UpBit \<noteq> kSC_Resend"
    "k \<notin> {0x3e, 0x0f, 0x3a, 0x38, 0x65, 0x3d, 0x45, 0x46, 0x1c, 0x39, 0x01, 0x2a, 0x5d, 0x1d, 0x5b, 0x5c, 0x36, 0x0e,
       0x37, 0x4a, 0x4e, 0x35, 0x54}" "k \<notin> set numpadKeys"
proof -
  have "list_all (\<lambda>k. k < 0x80 \<and> k \<noteq> 0 \<and> \<not> scanUp k \<and> scanUp (k OR kSC_UpBit) \<and> k AND NOT kSC_UpBit = k \<and>
      (k OR kSC_UpBit) AND NOT kSC_UpBit = k \<and> k \<noteq> kSC_Extend \<and> k \<noteq> kSC_Pause \<and> k \<noteq> kSC_Acknowledge \<and>
      k \<noteq> kSC_Resend \<and> k OR kSC_UpBit \<noteq> kSC_Extend \<and> k OR kSC_UpBit \<noteq> kSC_Pause \<and>
      k OR kSC_UpBit \<noteq> kSC_Acknowledge \<and> k OR kSC_UpBit \<noteq> kSC_Resend \<and>
      k \<notin> {0x3e, 0x0f, 0x3a, 0x38, 0x65, 0x3d, 0x45, 0x46, 0x1c, 0x39, 0x01, 0x2a, 0x5d, 0x1d, 0x5b, 0x5c, 0x36, 0x0e,
        0x37, 0x4a, 0x4e, 0x35, 0x54} \<and> k \<notin> set numpadKeys) ordinaryKeys"
    by code_simp
  with assms show "k < 0x80" "k \<noteq> 0" "\<not> scanUp k" "scanUp (k OR kSC_UpBit)" "k AND NOT kSC_UpBit = k"
    "(k OR kSC_UpBit) AND NOT kSC_UpBit = k" "k \<noteq> kSC_Extend" "k \<noteq> kSC_Pause" "k \<noteq> kSC_Acknowledge"
    "k \<noteq> kSC_Resend" "k OR kSC_UpBit \<noteq> kSC_Extend" "k OR kSC_UpBit \<noteq> kSC_Pause"
    "k OR kSC_UpBit \<noteq> kSC_Acknowledge" "k OR kSC_UpBit \<noteq> kSC_Resend"
    "k \<notin> {0x3e, 0x0f, 0x3a, 0x38, 0x65, 0x3d, 0x45, 0x46, 0x1c, 0x39, 0x01, 0x2a, 0x5d, 0x1d, 0x5b, 0x5c, 0x36, 0x0e,
       0x37, 0x4a, 0x4e, 0x35, 0x54}" "k \<notin> set numpadKeys"
    unfolding list_all_iff by blast+
qed

lemma not_ordinary: "0x2a \<notin> set ordinaryKeys" "0x36 \<notin> set ordinaryKeys"
  by code_simp+

lemma typing_modifiers:
  assumes "typing s"
  shows "\<not> held (altkey s) s" "\<not> held (commandKey s) s" "\<not> held (contrlKey s) s" "\<not> held 0x2a s" "\<not> held 0x36 s"
  using assms not_ordinary by (auto simp: typing_def keysDown_def)

lemma normalCode_ordinary:
  assumes "typing s" "k \<in> set ordinaryKeys"
  shows "normalCode E b k s = (k, s\<lparr>extendedCode := False\<rparr>)"
  using typing_modifiers [OF assms(1)] ordinary_facts(15,16) [OF assms(2)]
  by (simp add: normalCode_def Let_def)

lemma handle_ordinary:
  assumes "typing s" "k \<in> set ordinaryKeys" "\<not> extendedCode s"
  shows "handleKey E k d s =
    (let t = dispatchNormal E k d (s\<lparr>isNumPadKey := False, isAccInputExceptionKey := False, isFnKeyComb := False\<rparr>)
     in if d then notify kPS2C_AccidentalInput t else t)"
proof -
  have fn: "k \<notin> set (fnKeyCodes (fnk s))" using assms(1,2) by (auto simp: typing_def)
  have ne: "k \<noteq> commandKey s" "k \<noteq> contrlKey s" "k \<noteq> altkey s" using assms(1,2) by (auto simp: typing_def)
  have x: "extendedFunctionKey E k d s = (False, s)" for d
    using typing_modifiers [OF assms(1)] by (simp add: extendedFunctionKey_def)
  let ?s = "s\<lparr>isNumPadKey := False, isAccInputExceptionKey := False\<rparr>"
  have y: "specialKey E k d s = (k, ?s)" for d
    using typing_modifiers [OF assms(1)] ordinary_facts(15,16) [OF assms(2)] by (simp add: specialKey_def)
  have z: "\<not> fnCombination k ?s" using fn by (simp add: fnCombination_def)
  let ?t = "?s\<lparr>isFnKeyComb := False\<rparr>"
  have dk: "dispatchKey E k d ?t =
      (let t = dispatchNormal E k d ?t in if d then notify kPS2C_AccidentalInput t else t)" for d
    using assms ne ordinary_facts(15) [OF assms(2)]
    by (simp add: dispatchKey_def isModifierKey_def normalKey_def dispatchADB_def typing_def dispatchNormal_def
        dispatchKeyboardKeyCode_def misuse_def happen_def asked_def Let_def)
  show ?thesis
    using assms(1) z ordinary_facts(2) [OF assms(2)]
    by (cases d)
      (simp_all add: handleKey_def x y dk typing_def dispatchKeyboardBacklightNotification_def Let_def
        dispatchNormal_def dispatchKeyboardKeyCode_def misuse_def happen_def asked_def notify_def)
qed

text \<open>The state an ordinary key leaves: \<open>bits\<close> are the new key states.\<close>

definition typedKey :: "kb_env \<Rightarrow> u8 \<Rightarrow> bool \<Rightarrow> u32 list \<Rightarrow> keyboard \<Rightarrow> keyboard" where
  "typedKey E k d bits s =
     (let t = dispatchNormal E k d (s\<lparr>extendedCode := False, keyBitVector := bits, isNumPadKey := False,
        isAccInputExceptionKey := False, isFnKeyComb := False\<rparr>)
      in if d then notify kPS2C_AccidentalInput t else t)"

lemma typedKey_fields:
  "kb_events (typedKey E k d bits s) = kb_events s @
     (if d then [KeyEvent (normalMap s ! unat k) d, Notification kPS2C_AccidentalInput]
      else [KeyEvent (normalMap s ! unat k) d])"
  "normalMap (typedKey E k d bits s) = normalMap s" "keyBitVector (typedKey E k d bits s) = bits"
  by (simp_all add: typedKey_def dispatchNormal_def dispatchKeyboardKeyCode_def misuse_def happen_def asked_def
      notify_def Let_def)

lemma typing_typedKey:
  "typing s \<Longrightarrow> length bits = 8 \<Longrightarrow> keysDown bits \<subseteq> set ordinaryKeys \<Longrightarrow> typing (typedKey E k d bits s)"
  by (simp add: typing_def typedKey_def dispatchNormal_def dispatchKeyboardKeyCode_def misuse_def happen_def asked_def
      notify_def Let_def)

lemma release_typed:
  assumes "typing s" "k \<in> set ordinaryKeys"
  shows "Keyboard_interruptOccurred E g (k OR kSC_UpBit) s = typedKey E k False (KBV_KEYUP k (keyBitVector s)) s"
proof -
  let ?bits = "KBV_KEYUP k (keyBitVector s)" and ?s = "s\<lparr>extendedCode := False\<rparr>"
  have l: "length (keyBitVector s) = 8" using assms(1) by (simp add: typing_def)
  have "typing (?s\<lparr>keyBitVector := ?bits\<rparr>)"
    using assms(1) keysDown_release [OF l, of k] by (auto simp: typing_def KBV_KEYUP_def)
  from handle_ordinary [OF this assms(2)]
  have "parseKey E g (k OR kSC_UpBit) (k, ?s) = typedKey E k False ?bits s"
    using ordinary_facts [OF assms(2)] by (simp add: parseKey_def updateKey_def typedKey_def)
  then show ?thesis
    using assms(1) ordinary_facts [OF assms(2)] normalCode_ordinary [OF assms]
    by (simp add: Keyboard_interruptOccurred_def dispatchKeyboardEventWithScancode_def typing_def Let_def)
qed

lemma press_typed:
  assumes "typing s" "k \<in> set ordinaryKeys"
  shows "Keyboard_interruptOccurred E g k s =
    (if held k s then s\<lparr>extendedCode := False\<rparr> else typedKey E k True (KBV_KEYDOWN k (keyBitVector s)) s)"
proof -
  let ?bits = "KBV_KEYDOWN k (keyBitVector s)" and ?s = "s\<lparr>extendedCode := False\<rparr>"
  have l: "length (keyBitVector s) = 8" using assms(1) by (simp add: typing_def)
  have "typing (?s\<lparr>keyBitVector := ?bits\<rparr>)"
    using assms keysDown_press [OF l, of k] by (auto simp: typing_def KBV_KEYDOWN_def)
  note h = handle_ordinary [OF this assms(2), of E True]
  have "k \<notin> set (fnKeyCodes (fnk s))" using assms by (auto simp: typing_def)
  then have r: "\<not> repeats k ?s" by (auto simp: repeats_def fnKeyCodes_def)
  have "parseKey E g k (k, ?s) = (if held k s then ?s else typedKey E k True ?bits s)"
    using ordinary_facts [OF assms(2)] h r assms(1)
    by (simp add: parseKey_def updateKey_def typedKey_def dispatchKeyboardBacklightNotification_def typing_def)
  then show ?thesis
    using assms(1) ordinary_facts [OF assms(2)] normalCode_ordinary [OF assms]
    by (simp add: Keyboard_interruptOccurred_def dispatchKeyboardEventWithScancode_def typing_def Let_def)
qed

section \<open>Streams of keys\<close>

text \<open>
  C3: on any sequence of presses and releases of ordinary keys the driver sends exactly what a set of
  pressed keys sends: one key event when a key goes down, followed by the notification that the user is
  typing, none while it repeats, and one when it is released.
\<close>

theorem typing_refines_key_set:
  assumes "typing s" "fst ` set xs \<subseteq> set ordinaryKeys"
  shows "kb_events (keyboardRun E (map scanByte xs) s) =
    kb_events s @ typeSpec (normalMap s) (keysDown (keyBitVector s)) xs"
  using assms
proof (induction xs arbitrary: s)
  case (Cons x xs)
  obtain k d where x: "x = (k, d)" by (cases x)
  have k: "k \<in> set ordinaryKeys" and xs: "fst ` set xs \<subseteq> set ordinaryKeys" using Cons.prems(2) x by auto
  have l: "length (keyBitVector s) = 8" and K: "keysDown (keyBitVector s) \<subseteq> set ordinaryKeys"
    using Cons.prems(1) by (auto simp: typing_def)
  show ?case
  proof (cases "d \<and> held k s")
    case True
    have "typing (s\<lparr>extendedCode := False\<rparr>)" using Cons.prems(1) by (simp add: typing_def)
    from Cons.IH [OF this xs] True show ?thesis
      using press_typed [OF Cons.prems(1) k] by (simp add: x scanByte_def held_iff)
  next
    case False
    let ?bits = "if d then KBV_KEYDOWN k (keyBitVector s) else KBV_KEYUP k (keyBitVector s)"
    have b: "length ?bits = 8" using l by (simp add: KBV_KEYDOWN_def KBV_KEYUP_def)
    have kd: "keysDown ?bits = (if d then insert k (keysDown (keyBitVector s)) else keysDown (keyBitVector s) - {k})"
      using keysDown_press [OF l] keysDown_release [OF l] by simp
    have "typing (typedKey E k d ?bits s)"
      using Cons.prems(1) b kd K k by (intro typing_typedKey) auto
    from Cons.IH [OF this xs] False show ?thesis
      using press_typed [OF Cons.prems(1) k] release_typed [OF Cons.prems(1) k] kd
      by (cases d) (simp_all add: x scanByte_def held_iff typedKey_fields)
  qed
qed simp

lemma typing_refines_key_set_witness:
  "kb_events (keyboardRun plainEnv [0x1e, 0x1e, 0x30, 0x9e, 0xb0] (startedKeyboard plainEnv)) =
     kb_events (startedKeyboard plainEnv) @
       [KeyEvent 0x00 True, Notification kPS2C_AccidentalInput, KeyEvent 0x0b True, Notification kPS2C_AccidentalInput,
        KeyEvent 0x00 False, KeyEvent 0x0b False]"
proof -
  let ?xs = "[(0x1e, True), (0x1e, True), (0x30, True), (0x1e, False), (0x30, False)] :: (u8 \<times> bool) list"
  have b: "keyBitVector (startedKeyboard plainEnv) = replicate 8 0" by code_simp
  have none: "keysDown (keyBitVector (startedKeyboard plainEnv)) = {}"
    using key_word by (auto simp: b keysDown_def is_down_bit)
  have "let s = startedKeyboard plainEnv in isKeyboardEnabled s \<and> extendCount s = 0 \<and> \<not> displaySleep s \<and>
      \<not> featureToggleMode s \<and> \<not> isFnKeyPressed s \<and> isTPadEnabled s \<and> \<not> enabledAsusKBacklight s \<and>
      list_all (\<lambda>k. \<not> List.member ordinaryKeys k) (commandKey s # contrlKey s # altkey s # fnKeyCodes (fnk s))"
    by code_simp
  then have t: "typing (startedKeyboard plainEnv)"
    by (auto simp: typing_def none [unfolded b] b Let_def list_all_iff)
  have m: "map (\<lambda>k. normalMap (startedKeyboard plainEnv) ! unat k) [0x1e :: u8, 0x30] = [0x00, 0x0b]" by code_simp
  have "list_all (List.member ordinaryKeys) [0x1e, 0x30]" by code_simp
  then have "fst ` set ?xs \<subseteq> set ordinaryKeys" by (simp add: list_all_iff)
  from typing_refines_key_set [OF t this, of plainEnv] show ?thesis
    using m by (simp add: none scanByte_def)
qed

end
