(* ===== verification/Spec2Isabelle.thy ===== *)
theory Spec2Isabelle
  imports PS2_System PS2_Startup Touchpad_Roundtrip Touchpad_GestureProps Touchpad_ConfigProps Touchpad_DeviceProps Keyboard_Typing
begin

text \<open>
  A verification development for the PS/2 stack of ApplePS2SmartTouchPad: the controller driver
  (ApplePS2Controller/), the nubs through which the keyboard and touchpad drivers talk to it, the
  touchpad driver (ApplePS2SmartTouchPad/) and the keyboard driver (ApplePS2Keyboard/).

  The program. ApplePS2Controller owns the ports 0x60 and 0x64. Client drivers register callbacks
  (interrupt bytes, power control, notifications) through the nubs ApplePS2KeyboardDevice and
  ApplePS2MouseDevice and submit requests, lists of command primitives the controller executes one
  after the other. PS2Interface builds the requests of the touchpad protocols (plain, sliced, ELAN
  and Synaptics commands), and the touchpad driver uses them to detect, set up and reconnect a touchpad.
  Its interrupt handler collects packets, the decoder of the hardware turns each packet into fingers, and
  the gesture engine turns their motion into pointer, scroll and button events and notifications; timers
  carry on what the fingers began.
  The keyboard driver turns scan codes into key events and notifications for the touchpad driver, and the
  notifications of the touchpad driver into keyboard shortcuts.

  How it is modelled. The state of the controller is the record ctl (theory PS2_State). The hardware is
  a recorded input: the bytes the next reads of a port return, so every hardware behaviour is some input;
  a read beyond the record is None, as is a loop that never ends on it. Everything the controller does to
  the outside is appended to a list of events, oldest first. Requests live on an explicit heap of
  addresses, and the flag ub records a use after free, a double free or an index outside an array.
  Machine integers are words of their width. The spin locks guard single operations, which are atomic
  here; delays have no effect.

  The theories, in the order of their dependencies:

    PS2_Prelude         words and generic lemmas
    PS2_Protocol        constants and request structure (ApplePS2Device.h)
    PS2_State           controller object, ports, write and drain loops
    PS2_KeyQueue        interrupt handlers, keyboard queue, doEscape
    PS2_Dispatch        install, uninstall, dispatch of the three kinds of callback; message
    PS2_Read            both overloads of readDataPort
    PS2_Request         allocation, queue, processRequest, interruptOccurred
    PS2_RequestProps    what a command writes; the bytes that reach the mouse
    PS2_Processor       properties of the processor, the queue and the interrupt loop
    PS2_Clients         the nubs; client registration as a step relation
    PS2_Power           resetPS2Controller, multiplexing, start, setPowerStateGated
    PS2_System          the controller as a step relation; its invariant; the power transitions
    PS2_Interface       PS2Interface.cpp over a record of the nub operations it calls
    PS2_InterfaceProps  the contract of such a nub as a locale, and its instance for ctl
    PS2_Startup         the answers of real hardware to reset and multiplexing
    Touchpad_State      the members of ApplePS2SmartTouchpad, init
    Touchpad_Elan       Elantech_ functions of the set-up
    Touchpad_Synaptics  Synaptics_ functions of the set-up
    Touchpad_Detect     Focaltech_ functions, detection, start, reconnection, power control
    Touchpad_Packets    interruptOccurred of the touchpad driver: framing, gating, choice of the decoder
    Touchpad_PacketProps  the packet buffer, aligned streams, reconnections
    Touchpad_Mouse      processMousePacket; a mouse end to end
    Touchpad_Touch      the touch state, physical buttons, changes of the number of fingers
    Touchpad_ElanDecode decoders of ELAN (versions 1 to 4) and FocalTech packets
    Touchpad_SynDecode  Synaptics_report_absolute and what it calls
    Touchpad_Roundtrip  the fields of a Synaptics packet
    Touchpad_ScrollLoop the loops that turn a scroll value into events; when they end
    Touchpad_Features   the structures of the gesture engine (SmartTouchpadFeatures.h), init
    Touchpad_Notify     notifications of the keyboard driver; feature, drag and backlight timers
    Touchpad_Buttons    virtual buttons of click pads
    Touchpad_Scroll     Process_scroll
    Touchpad_End        Process_touch_end
    Touchpad_Single     Process_singlefinger_touch
    Touchpad_Two        Process_twofingers_touch
    Touchpad_Multi      Process_ClickPad_2F, Process_multiFingers_touch
    Touchpad_Timers     the pointer timer, the scroll timer, inertia
    Touchpad_Engine     the gesture engine as one function of the calls of the decoders
    Touchpad_Frame      what parts of the decoders leave alone
    Touchpad_Framing    what the packet framing relies on, kept by every decoder
    Touchpad_DecodeSafe the contract of the gesture engine as a locale; bounds of the decoders under it
    Touchpad_DecodeProps  buttons, and streams of Synaptics packets, under it
    Touchpad_Decoder    the decoder argument of the packet framing; typing and the gate
    Touchpad_Keeps      a locale for what the engine keeps, carried through its stages
    Touchpad_KeepsEngine  the same for the handlers, the engine and its timers
    Touchpad_Bounds     interpretations: hardware, scroll and flag; the arrays of fingers and samples
    Touchpad_Smart      the contract of the engine proved; the driver as a whole
    Touchpad_GestureProps  taps, inertia, the pass-through stick
    Touchpad_Config     property lists, adaptation to the hardware, setParamProperties
    Touchpad_ConfigProps  limits and areas of the configuration, the scroll level
    Touchpad_Device     the driver on its nub: system version, probe, start, stop, free, power control
    Touchpad_DeviceProps  stop undoes start; what goes wrong when the driver is freed
    Keyboard_State      the members of ApplePS2Keyboard, its tables, key states, LEDs, modifier positions
    Keyboard_Config     preferences, function key layouts, extended functions
    Keyboard_Keys       key combinations, code generator, German layout, Asus backlight, function keys
    Keyboard_Gestures   receiveTouchpadNotifications, processFnKeys, ToggleTouchpadFeatures
    Keyboard_Scan       interruptOccurred and dispatchKeyboardEventWithScancode
    Keyboard_Device     the driver on its nub: probe, start, stop, power control
    Keyboard_Safety     an invariant of the driver and its preservation by the key functions
    Keyboard_Reach      preservation by the parser; the driver as a step relation
    Keyboard_Calm       the keys that are down for the system; what gestures send
    Keyboard_Props      memory safety, gestures, sleep, the code generator, vendor layouts
    Keyboard_Typing     typing as a refinement of a set of pressed keys

  What is shown. The controller keeps its invariant under any interleaving of its operations
  (PS2_System), references are balanced (PS2_Clients), reads return what was asked for and lose nothing
  but in the cases shown (PS2_Read), a request puts exactly its bytes on the wire under the prefix of the
  controller, and requests run one after the other in the order of submission (PS2_Processor), the
  sliced encoding can be decoded (PS2_InterfaceProps), every set-up leaves the driver in a consistent state
  and the heap balanced (Touchpad_ theories), the packet buffer is never overrun and a stream of bytes is
  processed packet by packet (Touchpad_PacketProps), which every decoder of the driver leaves possible
  (smartTouchpad_keeps in Touchpad_Smart). The keyboard driver stays within its tables under any
  interleaving of scan codes and notifications (Keyboard_Props) and sends for ordinary keys what a set of
  pressed keys sends (Keyboard_Typing). The gesture engine keeps the contract its decoders rely on, so the
  driver stays inside its arrays during a touch, under conditions that are each necessary (Touchpad_Smart);
  inertia ends and taps are clicks (Touchpad_GestureProps); the configuration keeps its limits and the scroll
  level survives its way through the preferences of the system (Touchpad_ConfigProps); stop gives the
  controller back what start took (Touchpad_DeviceProps). Several theorems state faults of the code: double frees and a
  use after free on error paths, bytes lost by the expecting read, an undefined power state that sticks, a write before the array of fingers.

  The touchpad driver. Its members are the records touchpad (set-up and framing), input_gate, touch (what
  decoders and engine share) and its extension gesture (the structures of the engine). An access outside
  _fing or _lastSample sets the flag oob and changes nothing else; a loop that would not end and a
  division by 0 set the flag hung. Every reading of the clock takes the next value of a function. Floats
  are rationals, and each operation rounds by the function fl, of which nothing is assumed; products
  that are compared with integers and are exact are written over the integers. Sleeps between events are
  left out, and what is done to the timers is a trace.

  Bounds. The reading loops are bounded by their 32-bit countdown and by the recorded input and are total
  functions; the test-and-set loop of setCommandByte may run for ever and is a partial function, proved to
  return when the controller answers the same byte twice. The loop over a pending scroll is a partial
  function too, with the exact condition under which it returns. No fuel is used anywhere.

  Not modelled: the creation and release of IOKit objects (work loops, event sources, thread calls) but for
  the references the touchpad driver holds, the registry but for the preferences of both drivers, the search
  of the registry for vendor names, the ACPI nub, and log messages.
\<close>

end
